(* ===== verification/Prelude.thy ===== *)
theory Prelude
  imports Complex_Main "HOL-Library.AList" "HOL-Library.Sublist"
begin

text \<open>
  The prelude of the development: what the components share of the Objective-C language and of
  Foundation, with the lemmas that carry the component proofs.

  \<^item> A reference that may be nil is an \<open>option\<close>; a message to nil answers nil, NO or 0.
  \<^item> A raised exception is a value of \<open>nsexception\<close> on the left of a sum.
  \<^item> An \<open>NSDictionary\<close> with string keys is an association list with distinct keys. Foundation does
    not specify an enumeration order; the list order stands for the order of one run, and the
    results that must not depend on it are proved invariant under permutation.
  \<^item> \<open>enumerateObjectsUsingBlock:\<close> is \<open>enumerateObjects\<close>: the block returns the captured
    variables and the value of \<open>*stop\<close>.
  \<^item> An \<open>NSString\<close> is a \<open>string\<close>, a list of code units below 256.
\<close>

section \<open>Collections of lemmas\<close>

named_theorems dict_simps \<open>lookups after updates of dictionaries, and their well-formedness\<close>
named_theorems enum_simps \<open>enumeration blocks as quantifiers, folds and searches\<close>
named_theorems string_simps \<open>searching and replacing in strings\<close>

section \<open>Exceptions\<close>

datatype nsexception =
    NSInvalidArgumentException
  | NSRangeException
  | NSInternalInconsistencyException
  | NSUndefinedKeyException
  | XMLWriterException

type_synonym 'a result = "nsexception + 'a"

definition rbind :: "'a result \<Rightarrow> ('a \<Rightarrow> 'b result) \<Rightarrow> 'b result" where
  "rbind r f = (case r of Inl e \<Rightarrow> Inl e | Inr a \<Rightarrow> f a)"

lemma rbind_simps [simp]:
  "rbind (Inl e) f = Inl e"
  "rbind (Inr a) f = f a"
  by (simp_all add: rbind_def)

lemma rbind_Inr_iff: "rbind r f = Inr b \<longleftrightarrow> (\<exists>a. r = Inr a \<and> f a = Inr b)"
  by (cases r) auto

section \<open>Dictionaries\<close>

type_synonym 'v nsdict = "(string \<times> 'v) list"

definition objectForKey :: "('k \<times> 'v) list \<Rightarrow> 'k \<Rightarrow> 'v option" where
  "objectForKey d k = map_of d k"

definition setObject :: "'v \<Rightarrow> 'k \<Rightarrow> ('k \<times> 'v) list \<Rightarrow> ('k \<times> 'v) list" where
  "setObject v k d = AList.update k v d"

definition removeObjectForKey :: "'k \<Rightarrow> ('k \<times> 'v) list \<Rightarrow> ('k \<times> 'v) list" where
  "removeObjectForKey k d = AList.delete k d"

definition allKeys :: "('k \<times> 'v) list \<Rightarrow> 'k list" where
  "allKeys d = map fst d"

definition allValues :: "('k \<times> 'v) list \<Rightarrow> 'v list" where
  "allValues d = map snd d"

definition dict_wf :: "('k \<times> 'v) list \<Rightarrow> bool" where
  "dict_wf d \<longleftrightarrow> distinct (map fst d)"

text \<open>\<open>d[k] = v\<close> on a mutable dictionary: a nil value removes the key.\<close>

definition setKeyed :: "'v option \<Rightarrow> 'k \<Rightarrow> ('k \<times> 'v) list \<Rightarrow> ('k \<times> 'v) list" where
  "setKeyed v k d = (case v of None \<Rightarrow> removeObjectForKey k d | Some x \<Rightarrow> setObject x k d)"

text \<open>\<open>if (v) d[k] = v\<close>, the guarded store the JSON encoders use.\<close>

definition setIfPresent :: "'v option \<Rightarrow> 'k \<Rightarrow> ('k \<times> 'v) list \<Rightarrow> ('k \<times> 'v) list" where
  "setIfPresent v k d = (case v of None \<Rightarrow> d | Some x \<Rightarrow> setObject x k d)"

text \<open>\<open>objectForKey:\<close> with a key that may be nil answers nil.\<close>

definition objectForKeyN :: "('k \<times> 'v) list \<Rightarrow> 'k option \<Rightarrow> 'v option" where
  "objectForKeyN d k = Option.bind k (objectForKey d)"

text \<open>\<open>setObject:forKey:\<close> raises on a nil key.\<close>

definition setObjectN :: "'v \<Rightarrow> 'k option \<Rightarrow> ('k \<times> 'v) list \<Rightarrow> ('k \<times> 'v) list result" where
  "setObjectN v k d = (case k of None \<Rightarrow> Inl NSInvalidArgumentException
     | Some k' \<Rightarrow> Inr (setObject v k' d))"

text \<open>\<open>removeObjectForKey:\<close> raises on a nil key.\<close>

definition removeObjectForKeyN :: "'k option \<Rightarrow> ('k \<times> 'v) list \<Rightarrow> ('k \<times> 'v) list result" where
  "removeObjectForKeyN k d = (case k of None \<Rightarrow> Inl NSInvalidArgumentException
     | Some k' \<Rightarrow> Inr (removeObjectForKey k' d))"

locale dictionary =
  fixes lookup :: "'d \<Rightarrow> 'k \<Rightarrow> 'v option"
    and upd :: "'v \<Rightarrow> 'k \<Rightarrow> 'd \<Rightarrow> 'd"
    and del :: "'k \<Rightarrow> 'd \<Rightarrow> 'd"
    and emp :: "'d"
    and wf :: "'d \<Rightarrow> bool"
  assumes lookup_upd: "lookup (upd v k d) = (lookup d)(k \<mapsto> v)"
    and lookup_del: "lookup (del k d) = (lookup d)(k := None)"
    and lookup_emp: "lookup emp = Map.empty"
    and wf_emp: "wf emp"
    and wf_upd: "wf d \<Longrightarrow> wf (upd v k d)"
    and wf_del: "wf d \<Longrightarrow> wf (del k d)"
begin

lemma upd_upd_lookup: "lookup (upd w k (upd v k d)) = lookup (upd w k d)"
  by (simp add: lookup_upd)

lemma upd_commute: "k \<noteq> l \<Longrightarrow> lookup (upd w l (upd v k d)) = lookup (upd v k (upd w l d))"
  by (simp add: lookup_upd fun_upd_twist)

lemma del_upd_lookup: "lookup d k = None \<Longrightarrow> lookup (del k (upd v k d)) = lookup d"
  by (rule ext) (simp add: lookup_upd lookup_del)

lemma fold_upd_dom: "dom (lookup (fold (\<lambda>x. upd (f x) (g x)) xs d)) = dom (lookup d) \<union> g ` set xs"
  by (induction xs arbitrary: d) (auto simp: lookup_upd)

lemma fold_upd_wf: "wf d \<Longrightarrow> wf (fold (\<lambda>x. upd (f x) (g x)) xs d)"
  by (induction xs arbitrary: d) (auto intro: wf_upd)

lemma fold_upd_other:
  "k \<notin> g ` set xs \<Longrightarrow> lookup (fold (\<lambda>x. upd (f x) (g x)) xs d) k = lookup d k"
  by (induction xs arbitrary: d) (auto simp: lookup_upd)

lemma fold_upd_lookup:
  "distinct (map g xs) \<Longrightarrow> x \<in> set xs \<Longrightarrow>
    lookup (fold (\<lambda>x. upd (f x) (g x)) xs d) (g x) = Some (f x)"
  by (induction xs arbitrary: d) (auto simp: fold_upd_other lookup_upd)

lemma fold_del_lookup:
  "lookup (fold del ks d) k = (if k \<in> set ks then None else lookup d k)"
  by (induction ks arbitrary: d) (auto simp: lookup_del)

lemma fold_del_wf: "wf d \<Longrightarrow> wf (fold del ks d)"
  by (induction ks arbitrary: d) (auto intro: wf_del)

end

interpretation nsd: dictionary objectForKey setObject removeObjectForKey "[]" dict_wf
proof unfold_locales
  show "objectForKey (setObject v k d) = (objectForKey d)(k \<mapsto> v)" for v k and d :: "('a \<times> 'b) list"
    by (rule ext) (simp add: objectForKey_def setObject_def update_conv')
  show "objectForKey (removeObjectForKey k d) = (objectForKey d)(k := None)"
    for k and d :: "('a \<times> 'b) list"
    by (rule ext) (simp add: objectForKey_def removeObjectForKey_def delete_conv')
  show "objectForKey [] = (Map.empty :: 'a \<Rightarrow> 'b option)"
    by (rule ext) (simp add: objectForKey_def)
  show "dict_wf ([] :: ('a \<times> 'b) list)"
    by (simp add: dict_wf_def)
  show "dict_wf d \<Longrightarrow> dict_wf (setObject v k d)" for v k and d :: "('a \<times> 'b) list"
    by (simp add: dict_wf_def setObject_def distinct_update)
  show "dict_wf d \<Longrightarrow> dict_wf (removeObjectForKey k d)" for k and d :: "('a \<times> 'b) list"
    by (simp add: dict_wf_def removeObjectForKey_def distinct_delete)
qed

lemma objectForKey_setObject [simp, dict_simps]:
  "objectForKey (setObject v k d) l = (if l = k then Some v else objectForKey d l)"
  by (simp add: nsd.lookup_upd)

lemma objectForKey_removeObjectForKey [simp, dict_simps]:
  "objectForKey (removeObjectForKey k d) l = (if l = k then None else objectForKey d l)"
  by (simp add: nsd.lookup_del)

lemma objectForKey_Nil [simp, dict_simps]: "objectForKey [] k = None"
  by (simp add: objectForKey_def)

lemma objectForKey_Cons: "objectForKey ((k, v) # d) l = (if l = k then Some v else objectForKey d l)"
  by (simp add: objectForKey_def)

lemmas dict_wf_intros [simp, intro] = nsd.wf_emp nsd.wf_upd nsd.wf_del

lemma objectForKey_setKeyed [simp, dict_simps]:
  "objectForKey (setKeyed v k d) l = (if l = k then v else objectForKey d l)"
  by (cases v) (simp_all add: setKeyed_def)

lemma objectForKey_setIfPresent [simp, dict_simps]:
  "objectForKey (setIfPresent v k d) l =
    (if l = k then (if v = None then objectForKey d l else v) else objectForKey d l)"
  by (cases v) (simp_all add: setIfPresent_def)

lemma dict_wf_setKeyed [simp, intro]: "dict_wf d \<Longrightarrow> dict_wf (setKeyed v k d)"
  by (cases v) (auto simp: setKeyed_def)

lemma dict_wf_setIfPresent [simp, intro]: "dict_wf d \<Longrightarrow> dict_wf (setIfPresent v k d)"
  by (cases v) (auto simp: setIfPresent_def)

lemma objectForKey_in_set: "objectForKey d k = Some v \<Longrightarrow> (k, v) \<in> set d"
  by (simp add: objectForKey_def map_of_SomeD)

lemma objectForKey_iff: "dict_wf d \<Longrightarrow> objectForKey d k = Some v \<longleftrightarrow> (k, v) \<in> set d"
  by (auto simp: objectForKey_def dict_wf_def dest: map_of_SomeD)

lemma objectForKey_None_iff: "objectForKey d k = None \<longleftrightarrow> k \<notin> set (allKeys d)"
  by (simp add: objectForKey_def allKeys_def map_of_eq_None_iff)

lemma allValues_iff: "dict_wf d \<Longrightarrow> v \<in> set (allValues d) \<longleftrightarrow> (\<exists>k. objectForKey d k = Some v)"
  by (force simp: allValues_def objectForKey_iff)

lemma set_setObject:
  "dict_wf d \<Longrightarrow> set (setObject v k d) = {(k, v)} \<union> {p \<in> set d. fst p \<noteq> k}"
proof -
  assume wf: "dict_wf d"
  then have wf': "dict_wf (setObject v k d)" by blast
  show ?thesis
  proof (rule set_eqI)
    fix p :: "'a \<times> 'b"
    show "p \<in> set (setObject v k d) \<longleftrightarrow> p \<in> {(k, v)} \<union> {p \<in> set d. fst p \<noteq> k}"
      by (cases p) (auto simp: objectForKey_iff [OF wf', symmetric] objectForKey_iff [OF wf, symmetric])
  qed
qed

lemma set_removeObjectForKey: "set (removeObjectForKey k d) = {p \<in> set d. fst p \<noteq> k}"
  by (auto simp: removeObjectForKey_def AList.delete_eq)

lemma removeObjectForKey_absent: "objectForKey d k = None \<Longrightarrow> removeObjectForKey k d = d"
  by (auto simp: objectForKey_def removeObjectForKey_def delete_idem map_of_eq_None_iff)

lemma length_setObject_new: "objectForKey d k = None \<Longrightarrow> setObject v k d = d @ [(k, v)]"
  by (induction d) (auto simp: objectForKey_def setObject_def split: if_splits)

lemma setObject_nonempty [simp]: "setObject v k d \<noteq> []"
  by (cases d) (auto simp: setObject_def)

section \<open>Enumeration blocks\<close>

fun enumerateObjects :: "('a \<Rightarrow> 's \<Rightarrow> 's \<times> bool) \<Rightarrow> 'a list \<Rightarrow> 's \<Rightarrow> 's" where
  "enumerateObjects blk [] s = s"
| "enumerateObjects blk (x # xs) s =
    (case blk x s of (s', stop) \<Rightarrow> if stop then s' else enumerateObjects blk xs s')"

lemma enumerate_any [simp, enum_simps]:
  "enumerateObjects (\<lambda>x s. if P x then (True, True) else (s, False)) xs b \<longleftrightarrow>
    b \<or> (\<exists>x\<in>set xs. P x)"
  by (induction xs) auto

lemma enumerate_all [simp, enum_simps]:
  "enumerateObjects (\<lambda>x s. if \<not> P x then (False, True) else (s, False)) xs b \<longleftrightarrow>
    b \<and> (\<forall>x\<in>set xs. P x)"
  by (induction xs) auto

lemma enumerate_find [simp, enum_simps]:
  "enumerateObjects (\<lambda>x s. if P x then (Some x, True) else (s, False)) xs None = List.find P xs"
  by (induction xs) auto

lemma enumerate_find_map [simp, enum_simps]:
  "enumerateObjects (\<lambda>x s. if P x then (Some (f x), True) else (s, False)) xs None =
    map_option f (List.find P xs)"
  by (induction xs) auto

lemma enumerate_fold [simp, enum_simps]:
  "enumerateObjects (\<lambda>x s. (f x s, False)) xs s = fold f xs s"
  by (induction xs arbitrary: s) auto

text \<open>Keeping the elements with a property, in order: the shape \<open>if (p(x)) [out addObject:x]\<close>.\<close>

lemma fold_filter_append [simp, enum_simps]:
  "fold (\<lambda>x acc. if P x then acc @ [f x] else acc) xs acc = acc @ map f (filter P xs)"
  by (induction xs arbitrary: acc) auto

lemma fold_count [simp, enum_simps]:
  "fold (\<lambda>x n. if P x then Suc n else n) xs n = n + length (filter P xs)"
  by (induction xs arbitrary: n) auto

lemma find_Some_iff_ex: "List.find P xs = Some x \<Longrightarrow> x \<in> set xs \<and> P x"
  by (auto simp: find_Some_iff)

section \<open>Strings\<close>

text \<open>\<open>isEqualToString:\<close>: a nil receiver or a nil argument gives NO.\<close>

definition isEqualToString :: "string option \<Rightarrow> string option \<Rightarrow> bool" where
  "isEqualToString a b \<longleftrightarrow> a \<noteq> None \<and> a = b"

definition hasPrefix :: "string \<Rightarrow> string \<Rightarrow> bool" where
  "hasPrefix s t \<longleftrightarrow> take (length t) s = t"

definition hasSuffix :: "string \<Rightarrow> string \<Rightarrow> bool" where
  "hasSuffix s t \<longleftrightarrow> length t \<le> length s \<and> drop (length s - length t) s = t"

fun findFrom :: "string \<Rightarrow> string \<Rightarrow> nat option" where
  "findFrom [] t = (if t = [] then Some 0 else None)"
| "findFrom (c # s) t = (if hasPrefix (c # s) t then Some 0 else map_option Suc (findFrom s t))"

text \<open>
  \<open>rangeOfString:\<close> on a non-nil receiver: the location of the first occurrence, \<open>None\<close> for
  \<open>NSNotFound\<close>; an empty search string is not found.
\<close>

definition rangeOfString :: "string \<Rightarrow> string \<Rightarrow> nat option" where
  "rangeOfString s t = (if t = [] then None else findFrom s t)"

lemma hasPrefix_iff_prefix [string_simps]: "hasPrefix s t \<longleftrightarrow> prefix t s"
  by (metis append_take_drop_id append_eq_conv_conj hasPrefix_def prefix_def)

lemma findFrom_Some_take: "findFrom s t = Some i \<Longrightarrow> take (length t) (drop i s) = t"
  by (induction s arbitrary: i) (auto simp: hasPrefix_def split: if_splits)

lemma findFrom_Some_le: "findFrom s t = Some i \<Longrightarrow> i + length t \<le> length s"
proof (induction s arbitrary: i)
  case Nil
  then show ?case by (auto split: if_splits)
next
  case (Cons c s)
  show ?case
  proof (cases "hasPrefix (c # s) t")
    case True
    with Cons.prems show ?thesis
      by (auto simp: hasPrefix_iff_prefix dest: prefix_length_le)
  next
    case False
    with Cons show ?thesis by auto
  qed
qed

lemma findFrom_Some_least: "findFrom s t = Some i \<Longrightarrow> j < i \<Longrightarrow> \<not> hasPrefix (drop j s) t"
proof (induction s arbitrary: i j)
  case Nil
  then show ?case by (auto split: if_splits)
next
  case (Cons c s)
  then show ?case by (cases j) (auto split: if_splits)
qed

lemma findFrom_None_iff: "findFrom s t = None \<longleftrightarrow> \<not> sublist t s"
  by (induction s) (auto simp: hasPrefix_iff_prefix sublist_Cons_right)

lemma rangeOfString_found_iff [string_simps]:
  "rangeOfString s t \<noteq> None \<longleftrightarrow> t \<noteq> [] \<and> sublist t s"
  using findFrom_None_iff [of s t] by (auto simp: rangeOfString_def)

lemma rangeOfString_split:
  "rangeOfString s t = Some i \<Longrightarrow> s = take i s @ t @ drop (i + length t) s"
  by (metis append_take_drop_id drop_drop add.commute findFrom_Some_take option.distinct(1)
      rangeOfString_def)

text \<open>
  \<open>stringByReplacingOccurrencesOfString:withString:\<close>: a left-to-right scan that continues after
  each replaced occurrence.
\<close>

fun replaceOccurrences :: "string \<Rightarrow> string \<Rightarrow> string \<Rightarrow> string" where
  "replaceOccurrences t r [] = []"
| "replaceOccurrences t r (c # s) =
    (if t \<noteq> [] \<and> hasPrefix (c # s) t then r @ replaceOccurrences t r (drop (length t - 1) s)
     else c # replaceOccurrences t r s)"

lemma replaceOccurrences_char [string_simps]:
  "replaceOccurrences [a] r s = concat (map (\<lambda>c. if c = a then r else [c]) s)"
  by (induction s) (auto simp: hasPrefix_def)

definition asciiLower :: "char \<Rightarrow> char" where
  "asciiLower c = (if 65 \<le> (of_char c :: nat) \<and> of_char c \<le> (90::nat)
    then char_of (of_char c + (32::nat)) else c)"

definition asciiUpper :: "char \<Rightarrow> char" where
  "asciiUpper c = (if 97 \<le> (of_char c :: nat) \<and> of_char c \<le> (122::nat)
    then char_of (of_char c - (32::nat)) else c)"

definition lowercaseString :: "string \<Rightarrow> string" where
  "lowercaseString s = map asciiLower s"

definition uppercaseString :: "string \<Rightarrow> string" where
  "uppercaseString s = map asciiUpper s"

text \<open>
  \<open>componentsSeparatedByString:\<close> with a one-character separator: always at least one component.
\<close>

fun componentsSeparatedBy :: "char \<Rightarrow> string \<Rightarrow> string list" where
  "componentsSeparatedBy sep [] = [[]]"
| "componentsSeparatedBy sep (c # s) =
    (if c = sep then [] # componentsSeparatedBy sep s
     else (case componentsSeparatedBy sep s of [] \<Rightarrow> [[c]] | w # ws \<Rightarrow> (c # w) # ws))"

lemma componentsSeparatedBy_nonempty [simp]: "componentsSeparatedBy sep s \<noteq> []"
  by (induction s) (auto split: list.splits)

text \<open>\<open>substringFromIndex:\<close> and \<open>substringWithRange:\<close> raise outside the string.\<close>

definition substringToIndex :: "string \<Rightarrow> nat \<Rightarrow> string result" where
  "substringToIndex s i = (if i \<le> length s then Inr (take i s) else Inl NSRangeException)"

definition substringWithRange :: "string \<Rightarrow> nat \<Rightarrow> nat \<Rightarrow> string result" where
  "substringWithRange s i n =
    (if i + n \<le> length s then Inr (take n (drop i s)) else Inl NSRangeException)"

section \<open>Decimal numbers in strings\<close>

definition digit_char :: "nat \<Rightarrow> char" where
  "digit_char d = char_of (48 + d)"

fun show_nat :: "nat \<Rightarrow> string" where
  "show_nat n = (if n < 10 then [digit_char n] else show_nat (n div 10) @ [digit_char (n mod 10)])"

declare show_nat.simps [simp del]

definition show_int :: "int \<Rightarrow> string" where
  "show_int i = (if i < 0 then CHR ''-'' # show_nat (nat (- i)) else show_nat (nat i))"

definition is_digit :: "char \<Rightarrow> bool" where
  "is_digit c \<longleftrightarrow> 48 \<le> (of_char c :: nat) \<and> of_char c \<le> (57::nat)"

definition digit_val :: "char \<Rightarrow> nat" where
  "digit_val c = of_char c - 48"

fun read_nat :: "nat \<Rightarrow> string \<Rightarrow> nat" where
  "read_nat acc [] = acc"
| "read_nat acc (c # s) = (if is_digit c then read_nat (10 * acc + digit_val c) s else acc)"

lemma digit_char_props [simp]:
  "d < 10 \<Longrightarrow> is_digit (digit_char d)" "d < 10 \<Longrightarrow> digit_val (digit_char d) = d"
  by (simp_all add: is_digit_def digit_val_def digit_char_def)

lemma read_nat_append:
  "\<forall>c\<in>set s. is_digit c \<Longrightarrow> read_nat acc (s @ t) = read_nat (read_nat acc s) t"
  by (induction s arbitrary: acc) auto

lemma show_nat_digits: "\<forall>c\<in>set (show_nat n). is_digit c"
proof (induction n rule: show_nat.induct)
  case (1 n)
  then show ?case by (subst show_nat.simps) auto
qed

lemma read_show_nat: "read_nat 0 (show_nat n) = n"
proof (induction n rule: show_nat.induct)
  case (1 n)
  then show ?case
    by (subst show_nat.simps) (auto simp: read_nat_append [OF show_nat_digits])
qed

lemma show_nat_inj: "show_nat m = show_nat n \<longleftrightarrow> m = n"
  by (metis read_show_nat)

lemma show_nat_nonempty [simp]: "show_nat n \<noteq> []"
  by (subst show_nat.simps) simp

lemma show_nat_hd [simp]: "show_nat n \<noteq> CHR ''-'' # s" "CHR ''-'' # s \<noteq> show_nat n"
proof -
  have "CHR ''-'' \<notin> set (show_nat n)"
    using show_nat_digits [of n] by (auto simp: is_digit_def)
  then show "show_nat n \<noteq> CHR ''-'' # s" "CHR ''-'' # s \<noteq> show_nat n"
    by (metis list.set_intros(1))+
qed

lemma show_int_inj: "show_int i = show_int j \<longleftrightarrow> i = j"
proof
  assume eq: "show_int i = show_int j"
  show "i = j"
  proof (cases "i < 0")
    case True
    then have "j < 0"
      using eq by (auto simp: show_int_def split: if_splits)
    with True eq show ?thesis by (auto simp: show_int_def show_nat_inj)
  next
    case False
    then have "\<not> j < 0"
      using eq by (auto simp: show_int_def split: if_splits)
    with False eq show ?thesis by (auto simp: show_int_def show_nat_inj)
  qed
qed simp

end
