(* ===== verification/Json.thy ===== *)
theory Json
  imports Prelude
begin

text \<open>
  Property lists: the values \<open>NSJSONSerialization\<close> and \<open>CTXMLReader\<close> build (dictionaries, arrays,
  strings, numbers, booleans and \<open>NSNull\<close>), and the conversions \<open>doubleValue\<close>, \<open>intValue\<close> and
  \<open>boolValue\<close> the decoders send to them. A message to nil answers 0; \<open>NSNull\<close>, arrays and
  dictionaries do not understand these messages and raise \<open>NSInvalidArgumentException\<close>.
  A URL is its absolute string.
\<close>

datatype json =
    JNull
  | JBool bool
  | JNum real
  | JStr string
  | JArr "json list"
  | JObj "(string \<times> json) list"

type_synonym jdict = "(string \<times> json) list"

text \<open>\<open>isKindOfClass:\<close> tests the sources make.\<close>

definition isNull :: "json \<Rightarrow> bool" where
  "isNull j \<longleftrightarrow> j = JNull"

fun asString :: "json option \<Rightarrow> string option" where
  "asString (Some (JStr s)) = Some s"
| "asString _ = None"

fun asObject :: "json option \<Rightarrow> jdict option" where
  "asObject (Some (JObj d)) = Some d"
| "asObject _ = None"

text \<open>\<open>value && ![value isKindOfClass:[NSNull class]]\<close>\<close>

definition presentNotNull :: "json option \<Rightarrow> bool" where
  "presentNotNull j \<longleftrightarrow> j \<noteq> None \<and> j \<noteq> Some JNull"

text \<open>Subscripting a JSON value that is not a dictionary raises.\<close>

fun subscript :: "json \<Rightarrow> string option \<Rightarrow> json option result" where
  "subscript (JObj d) k = Inr (objectForKeyN d k)"
| "subscript _ k = Inl NSInvalidArgumentException"

fun dictionaryWithDictionary :: "json \<Rightarrow> jdict result" where
  "dictionaryWithDictionary (JObj d) = Inr d"
| "dictionaryWithDictionary _ = Inl NSInvalidArgumentException"

section \<open>Numbers\<close>

definition trunc :: "real \<Rightarrow> int" where
  "trunc r = (if 0 \<le> r then \<lfloor>r\<rfloor> else \<lceil>r\<rceil>)"

definition wrap32 :: "int \<Rightarrow> int" where
  "wrap32 i = (i + 2 ^ 31) mod 2 ^ 32 - 2 ^ 31"

definition is_space :: "char \<Rightarrow> bool" where
  "is_space c \<longleftrightarrow> c \<in> {CHR '' '', CHR 0x09, CHR 0x0A, CHR 0x0D}"

definition split_sign :: "string \<Rightarrow> bool \<times> string" where
  "split_sign s = (case s of
      [] \<Rightarrow> (False, [])
    | c # r \<Rightarrow> if c = CHR ''-'' then (True, r) else if c = CHR ''+'' then (False, r) else (False, s))"

definition string_int :: "string \<Rightarrow> int" where
  "string_int s = (case split_sign (dropWhile is_space s) of
     (neg, r) \<Rightarrow> (if neg then - int (read_nat 0 r) else int (read_nat 0 r)))"

definition frac_digits :: "string \<Rightarrow> string \<times> string" where
  "frac_digits s = (case s of
      [] \<Rightarrow> ([], [])
    | c # r \<Rightarrow> if c = CHR ''.'' then (takeWhile is_digit r, dropWhile is_digit r) else ([], s))"

definition exponent_of :: "string \<Rightarrow> int" where
  "exponent_of s = (case s of
      [] \<Rightarrow> 0
    | c # r \<Rightarrow> if c = CHR ''e'' \<or> c = CHR ''E''
        then (case split_sign r of (neg, d) \<Rightarrow> (if neg then - int (read_nat 0 d) else int (read_nat 0 d)))
        else 0)"

definition string_double :: "string \<Rightarrow> real" where
  "string_double s = (case split_sign (dropWhile is_space s) of (neg, r) \<Rightarrow>
     (case frac_digits (dropWhile is_digit r) of (fd, rest) \<Rightarrow>
       (let m = (real (read_nat 0 r) + real (read_nat 0 fd) / 10 ^ length fd)
                * 10 powi (exponent_of rest)
        in if neg then - m else m)))"

fun doubleValue :: "json option \<Rightarrow> real result" where
  "doubleValue None = Inr 0"
| "doubleValue (Some (JNum r)) = Inr r"
| "doubleValue (Some (JBool b)) = Inr (if b then 1 else 0)"
| "doubleValue (Some (JStr s)) = Inr (string_double s)"
| "doubleValue (Some _) = Inl NSInvalidArgumentException"

fun intValue :: "json option \<Rightarrow> int result" where
  "intValue None = Inr 0"
| "intValue (Some (JNum r)) = Inr (wrap32 (trunc r))"
| "intValue (Some (JBool b)) = Inr (if b then 1 else 0)"
| "intValue (Some (JStr s)) = Inr (max (- (2 ^ 31)) (min (2 ^ 31 - 1) (string_int s)))"
| "intValue (Some _) = Inl NSInvalidArgumentException"

definition string_bool :: "string \<Rightarrow> bool" where
  "string_bool s = (case dropWhile (\<lambda>c. c = CHR ''0'') (snd (split_sign (dropWhile is_space s))) of
      [] \<Rightarrow> False
    | c # _ \<Rightarrow> c \<in> set ''YyTt123456789'')"

fun boolValue :: "json option \<Rightarrow> bool result" where
  "boolValue None = Inr False"
| "boolValue (Some (JNum r)) = Inr (r \<noteq> 0)"
| "boolValue (Some (JBool b)) = Inr b"
| "boolValue (Some (JStr s)) = Inr (string_bool s)"
| "boolValue (Some _) = Inl NSInvalidArgumentException"

lemma trunc_of_nat [simp]: "trunc (real n) = int n"
  by (simp add: trunc_def)

lemma trunc_of_int [simp]: "trunc (real_of_int i) = i"
  by (simp add: trunc_def)

lemma wrap32_id [simp]: "- (2 ^ 31) \<le> i \<Longrightarrow> i < 2 ^ 31 \<Longrightarrow> wrap32 i = i"
  by (simp add: wrap32_def)

lemma wrap32_range: "- (2 ^ 31) \<le> wrap32 i" "wrap32 i < 2 ^ 31"
  using pos_mod_sign [of "2 ^ 32" "i + 2 ^ 31"] pos_mod_bound [of "2 ^ 32" "i + 2 ^ 31"]
  by (simp_all add: wrap32_def)

lemma intValue_range:
  "intValue j = Inr i \<Longrightarrow> - (2 ^ 31) \<le> i \<and> i < 2 ^ 31"
  using wrap32_range by (cases j rule: intValue.cases) auto

section \<open>URLs\<close>

definition url_char :: "char \<Rightarrow> bool" where
  "url_char c \<longleftrightarrow> 33 \<le> (of_char c :: nat) \<and> (of_char c :: nat) \<le> 126 \<and>
     c \<notin> {CHR 0x22, CHR ''<'', CHR ''>'', CHR 0x5C, CHR ''^'', CHR 0x60, CHR ''{'', CHR ''|'', CHR ''}''}"

text \<open>\<open>[NSURL URLWithString:]\<close> answers nil for a string with characters that no URL may hold.\<close>

definition URLWithString :: "string \<Rightarrow> string option" where
  "URLWithString s = (if list_all url_char s then Some s else None)"

lemma URLWithString_Some: "URLWithString s = Some u \<Longrightarrow> u = s"
  by (simp add: URLWithString_def split: if_splits)

end
