(* ===== verification/Config.thy ===== *)
theory Config
  imports Json "HOL-Library.Word"
begin

unbundle bit_operations_syntax

text \<open>
  \<open>Services/Config\<close>: \<open>ServiceDescription\<close> (what discovery learns about a service) with its JSON
  coding, copying, equality and hash, and \<open>ServiceConfig\<close> with its subclasses
  \<open>NetcastTVServiceConfig\<close> and \<open>WebOSTVServiceConfig\<close> (what is persisted about a service), with
  the key-value observation that reports changes to the config's delegate.
\<close>

section \<open>ServiceDescription\<close>

record ServiceDescription =
  sd_address :: "string option"
  sd_serviceId :: "string option"
  sd_port :: nat
  sd_UUID :: "string option"
  sd_type :: "string option"
  sd_version :: "string option"
  sd_friendlyName :: "string option"
  sd_manufacturer :: "string option"
  sd_modelName :: "string option"
  sd_modelDescription :: "string option"
  sd_modelNumber :: "string option"
  sd_commandURL :: "string option"
  sd_locationXML :: "string option"
  sd_serviceList :: "json list option"
  sd_locationResponseHeaders :: "string nsdict option"
  sd_lastDetection :: real
  sd_device :: "nat option"

text \<open>\<open>[ServiceDescription new]\<close>: every property nil or 0.\<close>

definition sd_new :: ServiceDescription where
  "sd_new = \<lparr>sd_address = None, sd_serviceId = None, sd_port = 0, sd_UUID = None, sd_type = None,
     sd_version = None, sd_friendlyName = None, sd_manufacturer = None, sd_modelName = None,
     sd_modelDescription = None, sd_modelNumber = None, sd_commandURL = None,
     sd_locationXML = None, sd_serviceList = None, sd_locationResponseHeaders = None,
     sd_lastDetection = 0, sd_device = None\<rparr>"

definition descriptionWithAddress :: "real \<Rightarrow> string option \<Rightarrow> string option \<Rightarrow> ServiceDescription" where
  "descriptionWithAddress now address uuid =
     sd_new\<lparr>sd_address := address, sd_UUID := uuid, sd_port := 0, sd_lastDetection := now\<rparr>"

text \<open>An \<open>int\<close> assigned to an \<open>NSUInteger\<close> property.\<close>

definition int_to_NSUInteger :: "int \<Rightarrow> nat" where
  "int_to_NSUInteger i = nat (i mod 2 ^ 64)"

definition sd_initWithJSONObject :: "jdict \<Rightarrow> ServiceDescription result" where
  "sd_initWithJSONObject d =
     rbind (intValue (objectForKey d ''port'')) (\<lambda>port.
       Inr (let str = (\<lambda>k. asString (objectForKey d k));
                s = sd_new\<lparr>sd_serviceId := str ''serviceId'', sd_address := str ''address'',
                      sd_port := int_to_NSUInteger port, sd_UUID := str ''UUID'',
                      sd_type := str ''serviceId'', sd_version := str ''version'',
                      sd_friendlyName := str ''friendlyName'', sd_manufacturer := str ''manufacturer'',
                      sd_modelName := str ''modelName'',
                      sd_modelDescription := str ''modelDescription'',
                      sd_modelNumber := str ''modelNumber''\<rparr>
            in case str ''commandURL'' of
                 None \<Rightarrow> s
               | Some commandPath \<Rightarrow> s\<lparr>sd_commandURL := URLWithString commandPath\<rparr>))"

definition sd_toJSONObject :: "ServiceDescription \<Rightarrow> jdict" where
  "sd_toJSONObject s =
     (setIfPresent (map_option JStr (sd_commandURL s)) ''commandURL'' \<circ>
      setIfPresent (map_option JStr (sd_modelNumber s)) ''modelNumber'' \<circ>
      setIfPresent (map_option JStr (sd_modelDescription s)) ''modelDescription'' \<circ>
      setIfPresent (map_option JStr (sd_modelName s)) ''modelName'' \<circ>
      setIfPresent (map_option JStr (sd_manufacturer s)) ''manufacturer'' \<circ>
      setIfPresent (map_option JStr (sd_friendlyName s)) ''friendlyName'' \<circ>
      setIfPresent (map_option JStr (sd_version s)) ''version'' \<circ>
      setIfPresent (map_option JStr (sd_type s)) ''type'' \<circ>
      setIfPresent (map_option JStr (sd_UUID s)) ''UUID'' \<circ>
      setIfPresent (if sd_port s \<noteq> 0 then Some (JNum (real (sd_port s))) else None) ''port'' \<circ>
      setIfPresent (map_option JStr (sd_address s)) ''address'' \<circ>
      setIfPresent (map_option JStr (sd_serviceId s)) ''serviceId'') []"

definition sd_copy :: "real \<Rightarrow> ServiceDescription \<Rightarrow> ServiceDescription" where
  "sd_copy now s = (descriptionWithAddress now (sd_address s) (sd_UUID s))
     \<lparr>sd_serviceId := sd_serviceId s, sd_port := sd_port s, sd_type := sd_type s,
      sd_version := sd_version s, sd_friendlyName := sd_friendlyName s,
      sd_manufacturer := sd_manufacturer s, sd_modelName := sd_modelName s,
      sd_modelDescription := sd_modelDescription s, sd_modelNumber := sd_modelNumber s,
      sd_commandURL := sd_commandURL s,
      sd_locationResponseHeaders := sd_locationResponseHeaders s,
      sd_locationXML := sd_locationXML s, sd_serviceList := sd_serviceList s\<rparr>"

text \<open>The string properties, in the order \<open>isEqualToServiceDescription:\<close> compares them.\<close>

definition sd_stringProperties :: "ServiceDescription \<Rightarrow> string option list" where
  "sd_stringProperties s = [sd_address s, sd_serviceId s, sd_UUID s, sd_type s, sd_version s,
     sd_friendlyName s, sd_manufacturer s, sd_modelName s, sd_modelDescription s,
     sd_modelNumber s, sd_locationXML s]"

fun haveSameStrings :: "string option list \<Rightarrow> string option list \<Rightarrow> bool" where
  "haveSameStrings (a # as) (b # bs) =
     (if (a = None \<and> b = None) \<or> isEqualToString a b then haveSameStrings as bs else False)"
| "haveSameStrings _ _ = True"

definition isEqualToDictionary :: "'v nsdict \<Rightarrow> 'v nsdict \<Rightarrow> bool" where
  "isEqualToDictionary a b \<longleftrightarrow>
     list_all (\<lambda>(k, v). objectForKey b k = objectForKey a k) a \<and>
     list_all (\<lambda>(k, v). objectForKey a k = objectForKey b k) b"

definition sameOpt :: "('a \<Rightarrow> 'a \<Rightarrow> bool) \<Rightarrow> 'a option \<Rightarrow> 'a option \<Rightarrow> bool" where
  "sameOpt eq a b = (case a of None \<Rightarrow> b = None
     | Some x \<Rightarrow> (case b of None \<Rightarrow> False | Some y \<Rightarrow> eq x y))"

definition isEqualToServiceDescription :: "ServiceDescription \<Rightarrow> ServiceDescription option \<Rightarrow> bool" where
  "isEqualToServiceDescription s other = (case other of None \<Rightarrow> False | Some t \<Rightarrow>
     if \<not> haveSameStrings (sd_stringProperties s) (sd_stringProperties t) then False
     else sd_port s = sd_port t
        \<and> sameOpt (=) (sd_commandURL s) (sd_commandURL t)
        \<and> sameOpt (=) (sd_serviceList s) (sd_serviceList t)
        \<and> sameOpt isEqualToDictionary (sd_locationResponseHeaders s) (sd_locationResponseHeaders t)
        \<and> sameOpt (=) (sd_device s) (sd_device t))"

text \<open>
  \<open>-hash\<close>: the exclusive or of the hashes of the properties (nil hashes to 0) and the port. The
  hash functions of the Foundation classes are parameters.
\<close>

record hashes =
  h_string :: "string \<Rightarrow> 64 word"
  h_url :: "string \<Rightarrow> 64 word"
  h_array :: "json list \<Rightarrow> 64 word"
  h_dict :: "string nsdict \<Rightarrow> 64 word"
  h_device :: "nat \<Rightarrow> 64 word"

definition optHash :: "('a \<Rightarrow> 64 word) \<Rightarrow> 'a option \<Rightarrow> 64 word" where
  "optHash h a = (case a of None \<Rightarrow> 0 | Some x \<Rightarrow> h x)"

definition sd_hash :: "hashes \<Rightarrow> ServiceDescription \<Rightarrow> 64 word" where
  "sd_hash h s =
     (let hash = fold (\<lambda>p acc. acc XOR optHash (h_string h) p) (sd_stringProperties s) 0;
          hash = hash XOR optHash (h_url h) (sd_commandURL s);
          hash = hash XOR optHash (h_array h) (sd_serviceList s);
          hash = hash XOR optHash (h_dict h) (sd_locationResponseHeaders s);
          hash = hash XOR optHash (h_device h) (sd_device s)
      in hash XOR of_nat (sd_port s))"

subsection \<open>Equality, copy and hash\<close>

lemma haveSameStrings_eq: "length as = length bs \<Longrightarrow> haveSameStrings as bs \<longleftrightarrow> as = bs"
  by (induction as bs rule: list_induct2) (auto simp: isEqualToString_def)

lemma haveSameStrings_props [simp]:
  "haveSameStrings (sd_stringProperties s) (sd_stringProperties t) \<longleftrightarrow>
     sd_stringProperties s = sd_stringProperties t"
  by (rule haveSameStrings_eq) (simp add: sd_stringProperties_def)

lemma isEqualToDictionary_agree:
  assumes "isEqualToDictionary a b"
  shows "objectForKey a k = Some v \<Longrightarrow> objectForKey b k = Some v"
    and "objectForKey b k = Some v \<Longrightarrow> objectForKey a k = Some v"
proof -
  have a_b: "(k, v) \<in> set a \<Longrightarrow> objectForKey b k = objectForKey a k"
    and b_a: "(k, v) \<in> set b \<Longrightarrow> objectForKey a k = objectForKey b k" for k v
    using assms by (auto simp: isEqualToDictionary_def list_all_iff)
  show "objectForKey a k = Some v \<Longrightarrow> objectForKey b k = Some v"
    and "objectForKey b k = Some v \<Longrightarrow> objectForKey a k = Some v"
    using a_b [OF objectForKey_in_set] b_a [OF objectForKey_in_set] by metis+
qed

lemma isEqualToDictionary_iff: "isEqualToDictionary a b \<longleftrightarrow> objectForKey a = objectForKey b"
proof
  assume "isEqualToDictionary a b"
  then show "objectForKey a = objectForKey b"
    by (metis (no_types, lifting) ext isEqualToDictionary_agree not_None_eq)
qed (simp add: isEqualToDictionary_def list_all_iff)

lemma sameOpt_eq [simp]: "sameOpt (=) a b \<longleftrightarrow> a = b"
  by (cases a; cases b) (auto simp: sameOpt_def)

lemma sameOpt_refl: "(\<And>x. eq x x) \<Longrightarrow> sameOpt eq a a"
  by (cases a) (auto simp: sameOpt_def)

lemma sameOpt_sym: "(\<And>x y. eq x y \<Longrightarrow> eq y x) \<Longrightarrow> sameOpt eq a b \<Longrightarrow> sameOpt eq b a"
  by (cases a; cases b) (auto simp: sameOpt_def)

lemma sameOpt_trans:
  "(\<And>x y z. eq x y \<Longrightarrow> eq y z \<Longrightarrow> eq x z) \<Longrightarrow> sameOpt eq a b \<Longrightarrow> sameOpt eq b c \<Longrightarrow> sameOpt eq a c"
  by (cases a; cases b; cases c) (auto simp: sameOpt_def)

text \<open>
  \<open>-isEqual:\<close> is an equivalence on descriptions: stated as a locale of the contract
  \<open>isEqual:\<close>/\<open>hash\<close> every \<open>NSObject\<close> must keep.
\<close>

locale isEqual_hash =
  fixes equal :: "'o \<Rightarrow> 'o \<Rightarrow> bool"
    and hash :: "'o \<Rightarrow> 'h"
  assumes equal_refl: "equal x x"
    and equal_sym: "equal x y \<Longrightarrow> equal y x"
    and equal_trans: "equal x y \<Longrightarrow> equal y z \<Longrightarrow> equal x z"
    and equal_hash: "equal x y \<Longrightarrow> hash x = hash y"
begin

lemma hash_separates: "hash x \<noteq> hash y \<Longrightarrow> \<not> equal x y"
  using equal_hash by blast

lemma equal_cong: "equal x x' \<Longrightarrow> equal y y' \<Longrightarrow> equal x y = equal x' y'"
  by (meson equal_sym equal_trans)

text \<open>A collection that deduplicates by \<open>isEqual:\<close> keeps a representative of every member.\<close>

lemma equal_in_list: "y \<in> set ys \<Longrightarrow> equal x y \<Longrightarrow> \<exists>z\<in>set ys. equal x z \<and> hash z = hash x"
  using equal_hash equal_sym by blast

end

definition sd_isEqual :: "ServiceDescription \<Rightarrow> ServiceDescription \<Rightarrow> bool" where
  "sd_isEqual s t = isEqualToServiceDescription s (Some t)"

lemma sd_isEqual_iff:
  "sd_isEqual s t \<longleftrightarrow> sd_stringProperties s = sd_stringProperties t \<and> sd_port s = sd_port t
     \<and> sd_commandURL s = sd_commandURL t \<and> sd_serviceList s = sd_serviceList t
     \<and> sameOpt isEqualToDictionary (sd_locationResponseHeaders s) (sd_locationResponseHeaders t)
     \<and> sd_device s = sd_device t"
  by (auto simp: sd_isEqual_def isEqualToServiceDescription_def)

text \<open>A dictionary hash that depends on the number of entries only, as Foundation's does.\<close>

definition count_hashes :: hashes where
  "count_hashes = \<lparr>h_string = (\<lambda>s. of_nat (length s)), h_url = (\<lambda>s. of_nat (length s)),
     h_array = (\<lambda>a. of_nat (length a)), h_dict = (\<lambda>d. of_nat (card (dom (objectForKey d)))),
     h_device = of_nat\<rparr>"

lemma sd_equal_hash:
  assumes "\<And>a b. isEqualToDictionary a b \<Longrightarrow> h_dict h a = h_dict h b"
    and "sd_isEqual s t"
  shows "sd_hash h s = sd_hash h t"
proof -
  have "optHash (h_dict h) (sd_locationResponseHeaders s) =
      optHash (h_dict h) (sd_locationResponseHeaders t)"
    using assms by (auto simp: sd_isEqual_iff optHash_def sameOpt_def split: option.splits)
  with assms(2) show ?thesis
    by (simp add: sd_isEqual_iff sd_hash_def)
qed

interpretation sd: isEqual_hash sd_isEqual "sd_hash count_hashes"
proof unfold_locales
  show "sd_isEqual x x" for x
    by (auto simp: sd_isEqual_iff intro: sameOpt_refl simp: isEqualToDictionary_iff)
  show "sd_isEqual x y \<Longrightarrow> sd_isEqual y x" for x y
    by (auto simp: sd_isEqual_iff isEqualToDictionary_iff intro: sameOpt_sym)
  show "sd_isEqual x y \<Longrightarrow> sd_isEqual y z \<Longrightarrow> sd_isEqual x z" for x y z
    by (auto simp: sd_isEqual_iff isEqualToDictionary_iff intro: sameOpt_trans)
  show "sd_isEqual x y \<Longrightarrow> sd_hash count_hashes x = sd_hash count_hashes y" for x y
    by (rule sd_equal_hash) (auto simp: count_hashes_def isEqualToDictionary_iff)
qed


section \<open>ServiceConfig and its subclasses\<close>

datatype cfgClass = ServiceConfigClass | NetcastTVServiceConfigClass | WebOSTVServiceConfigClass

fun cfg_className :: "cfgClass \<Rightarrow> string" where
  "cfg_className ServiceConfigClass = ''ServiceConfig''"
| "cfg_className NetcastTVServiceConfigClass = ''NetcastTVServiceConfig''"
| "cfg_className WebOSTVServiceConfigClass = ''WebOSTVServiceConfig''"

text \<open>\<open>NSClassFromString\<close> on the config classes of the SDK; any other name gives Nil.\<close>

definition cfg_classFromString :: "string option \<Rightarrow> cfgClass option" where
  "cfg_classFromString n =
     List.find (\<lambda>c. n = Some (cfg_className c))
       [ServiceConfigClass, NetcastTVServiceConfigClass, WebOSTVServiceConfigClass]"

record ServiceConfig =
  cfg_class :: cfgClass
  cfg_UUID :: "string option"
  cfg_connected :: bool
  cfg_wasConnected :: bool
  cfg_lastDetection :: real
  cfg_delegate :: "nat option"
  cfg_hasObservers :: bool
  cfg_observed :: "string list"
  cfg_pairingCode :: "string option"
  cfg_clientKey :: "string option"
  cfg_SSLCertificates :: "json option"

definition cfg_alloc :: "cfgClass \<Rightarrow> ServiceConfig" where
  "cfg_alloc c = \<lparr>cfg_class = c, cfg_UUID = None, cfg_connected = False, cfg_wasConnected = False,
     cfg_lastDetection = 0, cfg_delegate = None, cfg_hasObservers = False, cfg_observed = [],
     cfg_pairingCode = None, cfg_clientKey = None, cfg_SSLCertificates = None\<rparr>"

definition cfg_initWithServiceDescription :: "real \<Rightarrow> ServiceDescription \<Rightarrow> ServiceConfig" where
  "cfg_initWithServiceDescription now sd = (cfg_alloc ServiceConfigClass)
     \<lparr>cfg_UUID := sd_UUID sd, cfg_connected := False, cfg_wasConnected := False,
      cfg_lastDetection := now\<rparr>"

subsection \<open>Key-value observation\<close>

definition cfg_baseKeys :: "string list" where
  "cfg_baseKeys = [''UUID'', ''connected'', ''wasConnected'', ''lastDetection'']"

fun cfg_classKeys :: "cfgClass \<Rightarrow> string list" where
  "cfg_classKeys ServiceConfigClass = []"
| "cfg_classKeys NetcastTVServiceConfigClass = [''pairingCode'']"
| "cfg_classKeys WebOSTVServiceConfigClass = [''clientKey'', ''SSLCertificates'']"

text \<open>\<open>-[ServiceConfig addObservers]\<close>, and the subclass methods, which call it first and then
  register their own keys whether or not it returned early.\<close>

definition cfg_addObservers_base :: "ServiceConfig \<Rightarrow> ServiceConfig" where
  "cfg_addObservers_base c = (if cfg_hasObservers c then c
     else c\<lparr>cfg_observed := cfg_observed c @ cfg_baseKeys, cfg_hasObservers := True\<rparr>)"

definition cfg_addObservers :: "ServiceConfig \<Rightarrow> ServiceConfig" where
  "cfg_addObservers c = (let b = cfg_addObservers_base c in
     b\<lparr>cfg_observed := cfg_observed b @ cfg_classKeys (cfg_class b)\<rparr>)"

text \<open>\<open>removeObserver:forKeyPath:\<close> raises for a key path that is not observed.\<close>

definition removeObserver :: "string \<Rightarrow> string list \<Rightarrow> string list result" where
  "removeObserver k obs = (if k \<in> set obs then Inr (remove1 k obs) else Inl NSRangeException)"

fun removeCaught :: "string list \<Rightarrow> string list \<Rightarrow> string list" where
  "removeCaught [] obs = obs"
| "removeCaught (k # ks) obs =
     (case removeObserver k obs of Inl _ \<Rightarrow> obs | Inr obs' \<Rightarrow> removeCaught ks obs')"

fun removeRaising :: "string list \<Rightarrow> string list \<Rightarrow> string list result" where
  "removeRaising [] obs = Inr obs"
| "removeRaising (k # ks) obs = rbind (removeObserver k obs) (removeRaising ks)"

definition cfg_removeObservers_base :: "ServiceConfig \<Rightarrow> ServiceConfig" where
  "cfg_removeObservers_base c = (if \<not> cfg_hasObservers c then c
     else c\<lparr>cfg_observed := removeCaught cfg_baseKeys (cfg_observed c), cfg_hasObservers := False\<rparr>)"

definition cfg_removeObservers :: "ServiceConfig \<Rightarrow> ServiceConfig result" where
  "cfg_removeObservers c = (let b = cfg_removeObservers_base c in
     rbind (removeRaising (cfg_classKeys (cfg_class b)) (cfg_observed b))
       (\<lambda>obs. Inr (b\<lparr>cfg_observed := obs\<rparr>)))"

definition cfg_setDelegate :: "nat option \<Rightarrow> ServiceConfig \<Rightarrow> ServiceConfig result" where
  "cfg_setDelegate d c =
     (if d = None \<and> cfg_delegate c \<noteq> None then cfg_removeObservers c
      else if d \<noteq> None \<and> cfg_delegate c = None then Inr (cfg_addObservers (c\<lparr>cfg_delegate := d\<rparr>))
      else Inr (c\<lparr>cfg_delegate := d\<rparr>))"

text \<open>
  \<open>observeValueForKeyPath:\<close> sends \<open>serviceConfigUpdate:\<close> to the delegate, once per registration
  of the changed key: the list of delegates told.
\<close>

definition cfg_observe :: "string \<Rightarrow> ServiceConfig \<Rightarrow> nat list" where
  "cfg_observe k c = (case cfg_delegate c of None \<Rightarrow> []
     | Some d \<Rightarrow> replicate (count_list (cfg_observed c) k) d)"

definition cfg_setUUID :: "string option \<Rightarrow> ServiceConfig \<Rightarrow> ServiceConfig \<times> nat list" where
  "cfg_setUUID v c = (let c' = c\<lparr>cfg_UUID := v\<rparr> in (c', cfg_observe ''UUID'' c'))"

definition cfg_setConnected :: "bool \<Rightarrow> ServiceConfig \<Rightarrow> ServiceConfig \<times> nat list" where
  "cfg_setConnected v c = (let c' = c\<lparr>cfg_connected := v\<rparr> in (c', cfg_observe ''connected'' c'))"

definition cfg_setClientKey :: "string option \<Rightarrow> ServiceConfig \<Rightarrow> ServiceConfig \<times> nat list" where
  "cfg_setClientKey v c = (let c' = c\<lparr>cfg_clientKey := v\<rparr> in (c', cfg_observe ''clientKey'' c'))"

definition cfg_setSSLCertificates :: "json option \<Rightarrow> ServiceConfig \<Rightarrow> ServiceConfig \<times> nat list" where
  "cfg_setSSLCertificates v c =
     (let c' = c\<lparr>cfg_SSLCertificates := v\<rparr> in (c', cfg_observe ''SSLCertificates'' c'))"

definition cfg_initWithServiceConfig ::
  "cfgClass \<Rightarrow> ServiceConfig \<Rightarrow> (ServiceConfig \<times> ServiceConfig) result" where
  "cfg_initWithServiceConfig cls c =
     rbind (cfg_setDelegate (cfg_delegate c)
        ((cfg_alloc cls)\<lparr>cfg_UUID := cfg_UUID c, cfg_connected := cfg_connected c,
           cfg_wasConnected := cfg_wasConnected c, cfg_lastDetection := cfg_lastDetection c\<rparr>))
       (\<lambda>new. rbind (cfg_setDelegate None c) (\<lambda>old. Inr (new, old)))"

subsection \<open>JSON coding\<close>

definition cfg_init_base :: "jdict \<Rightarrow> ServiceConfig result" where
  "cfg_init_base d =
     rbind (boolValue (objectForKey d ''connected'')) (\<lambda>con.
     rbind (boolValue (objectForKey d ''wasConnected'')) (\<lambda>was.
     rbind (doubleValue (objectForKey d ''lastDetection'')) (\<lambda>last.
       Inr ((cfg_alloc ServiceConfigClass)
         \<lparr>cfg_UUID := asString (objectForKey d ''UUID''),
          cfg_connected := (if con then False else con),
          cfg_wasConnected := (if con then True else was),
          cfg_lastDetection := last\<rparr>))))"

text \<open>The subclasses override \<open>initWithJSONObject:\<close> and call \<open>[super init]\<close>.\<close>

definition cfg_init_netcast :: "jdict \<Rightarrow> ServiceConfig" where
  "cfg_init_netcast d = (cfg_alloc NetcastTVServiceConfigClass)
     \<lparr>cfg_pairingCode := asString (objectForKey d ''pairingCode'')\<rparr>"

definition cfg_init_webos :: "jdict \<Rightarrow> ServiceConfig" where
  "cfg_init_webos d = (cfg_alloc WebOSTVServiceConfigClass)
     \<lparr>cfg_clientKey := asString (objectForKey d ''clientKey''),
      cfg_SSLCertificates := objectForKey d ''SSLCertificates''\<rparr>"

definition cfg_serviceConfigWithJSONObject :: "jdict \<Rightarrow> ServiceConfig option result" where
  "cfg_serviceConfigWithJSONObject d =
     (case cfg_classFromString (asString (objectForKey d ''class'')) of
        None \<Rightarrow> Inr None
      | Some ServiceConfigClass \<Rightarrow> rbind (cfg_init_base d) (\<lambda>c. Inr (Some c))
      | Some NetcastTVServiceConfigClass \<Rightarrow> Inr (Some (cfg_init_netcast d))
      | Some WebOSTVServiceConfigClass \<Rightarrow> Inr (Some (cfg_init_webos d)))"

definition cfg_toJSON_base :: "ServiceConfig \<Rightarrow> jdict" where
  "cfg_toJSON_base c =
     (setIfPresent (if cfg_lastDetection c \<noteq> 0 then Some (JNum (cfg_lastDetection c)) else None) ''lastDetection'' \<circ>
      setIfPresent (if cfg_wasConnected c then Some (JBool True) else None) ''wasConnected'' \<circ>
      setIfPresent (if cfg_connected c then Some (JBool True) else None) ''connected'' \<circ>
      setIfPresent (map_option JStr (cfg_UUID c)) ''UUID'' \<circ>
      setObject (JStr (cfg_className (cfg_class c))) ''class'') []"

definition cfg_toJSON_netcast :: "ServiceConfig \<Rightarrow> jdict" where
  "cfg_toJSON_netcast c =
     (setIfPresent (map_option JStr (cfg_pairingCode c)) ''pairingCode'' \<circ>
      setObject (JStr (cfg_className (cfg_class c))) ''class'') (cfg_toJSON_base c)"

definition cfg_toJSON_webos :: "ServiceConfig \<Rightarrow> jdict" where
  "cfg_toJSON_webos c =
     (setIfPresent (cfg_SSLCertificates c) ''SSLCertificates'' \<circ>
      setIfPresent (map_option JStr (cfg_clientKey c)) ''clientKey'' \<circ>
      setObject (JStr (cfg_className (cfg_class c))) ''class'') (cfg_toJSON_base c)"

definition cfg_toJSONObject :: "ServiceConfig \<Rightarrow> jdict" where
  "cfg_toJSONObject c = (case cfg_class c of
      ServiceConfigClass \<Rightarrow> cfg_toJSON_base c
    | NetcastTVServiceConfigClass \<Rightarrow> cfg_toJSON_netcast c
    | WebOSTVServiceConfigClass \<Rightarrow> cfg_toJSON_webos c)"

lemmas cfg_json_defs = cfg_toJSONObject_def cfg_toJSON_base_def cfg_toJSON_netcast_def
  cfg_toJSON_webos_def cfg_serviceConfigWithJSONObject_def cfg_init_base_def cfg_init_netcast_def
  cfg_init_webos_def cfg_classFromString_def cfg_alloc_def

lemmas cfg_kvo_defs = cfg_setDelegate_def cfg_addObservers_def cfg_addObservers_base_def
  cfg_removeObservers_def cfg_removeObservers_base_def removeObserver_def cfg_observe_def
  cfg_baseKeys_def


section \<open>Properties\<close>

lemma asString_map [simp]: "asString (map_option JStr x) = x"
  by (cases x) auto

lemma int_to_NSUInteger_small [simp]: "n < 2 ^ 31 \<Longrightarrow> int_to_NSUInteger (int n) = n"
  by (simp add: int_to_NSUInteger_def)

lemma int_to_NSUInteger_0 [simp]: "int_to_NSUInteger 0 = 0"
  by (simp add: int_to_NSUInteger_def)

text \<open>The dictionary a description encodes to, key by key.\<close>

lemma sd_toJSON_lookup [simp]:
  "objectForKey (sd_toJSONObject s) ''serviceId'' = map_option JStr (sd_serviceId s)"
  "objectForKey (sd_toJSONObject s) ''address'' = map_option JStr (sd_address s)"
  "objectForKey (sd_toJSONObject s) ''port'' =
     (if sd_port s \<noteq> 0 then Some (JNum (real (sd_port s))) else None)"
  "objectForKey (sd_toJSONObject s) ''UUID'' = map_option JStr (sd_UUID s)"
  "objectForKey (sd_toJSONObject s) ''version'' = map_option JStr (sd_version s)"
  "objectForKey (sd_toJSONObject s) ''friendlyName'' = map_option JStr (sd_friendlyName s)"
  "objectForKey (sd_toJSONObject s) ''manufacturer'' = map_option JStr (sd_manufacturer s)"
  "objectForKey (sd_toJSONObject s) ''modelName'' = map_option JStr (sd_modelName s)"
  "objectForKey (sd_toJSONObject s) ''modelDescription'' = map_option JStr (sd_modelDescription s)"
  "objectForKey (sd_toJSONObject s) ''modelNumber'' = map_option JStr (sd_modelNumber s)"
  "objectForKey (sd_toJSONObject s) ''commandURL'' = map_option JStr (sd_commandURL s)"
  by (simp_all add: sd_toJSONObject_def)

lemma sd_port_decode:
  "sd_port s < 2 ^ 31 \<Longrightarrow> intValue (objectForKey (sd_toJSONObject s) ''port'') = Inr (int (sd_port s))"
  by simp

text \<open>
  C34: Decoding the JSON of a description gives back what the encoder wrote, except that the
  service type is restored from \<open>serviceId\<close> and not from the \<open>type\<close> key, and that what is not
  encoded (location data, device, time of detection) is reset. The port must fit the \<open>int\<close> the
  decoder reads, and the command URL must be one \<open>URLWithString:\<close> accepts.
\<close>

theorem sd_json_roundtrip:
  assumes "sd_port s < 2 ^ 31"
    and "\<forall>u. sd_commandURL s = Some u \<longrightarrow> URLWithString u = Some u"
  shows "sd_initWithJSONObject (sd_toJSONObject s) =
    Inr (s\<lparr>sd_type := sd_serviceId s, sd_locationXML := None, sd_serviceList := None,
           sd_locationResponseHeaders := None, sd_lastDetection := 0, sd_device := None\<rparr>)"
proof -
  have "sd_initWithJSONObject (sd_toJSONObject s) =
    Inr (sd_new\<lparr>sd_serviceId := sd_serviceId s, sd_address := sd_address s, sd_port := sd_port s,
      sd_UUID := sd_UUID s, sd_type := sd_serviceId s, sd_version := sd_version s,
      sd_friendlyName := sd_friendlyName s, sd_manufacturer := sd_manufacturer s,
      sd_modelName := sd_modelName s, sd_modelDescription := sd_modelDescription s,
      sd_modelNumber := sd_modelNumber s, sd_commandURL := sd_commandURL s\<rparr>)"
    using assms sd_port_decode [OF assms(1)]
    by (cases "sd_commandURL s") (simp_all add: sd_initWithJSONObject_def sd_new_def)
  then show ?thesis by (simp add: sd_new_def)
qed

definition sample_description :: ServiceDescription where
  "sample_description = sd_new\<lparr>sd_address := Some ''10.0.0.5'', sd_serviceId := Some ''DLNA'',
     sd_port := 8080, sd_UUID := Some ''u1'', sd_type := Some ''urn:MediaRenderer'',
     sd_friendlyName := Some ''TV'', sd_commandURL := Some ''http://10.0.0.5/x'',
     sd_lastDetection := 7\<rparr>"

lemma sample_url_ok: "URLWithString ''http://10.0.0.5/x'' = Some ''http://10.0.0.5/x''"
  by (simp add: URLWithString_def url_char_def)

theorem sd_json_roundtrip_witness:
  "sd_initWithJSONObject (sd_toJSONObject sample_description) =
     Inr (sample_description\<lparr>sd_type := Some ''DLNA'', sd_lastDetection := 0\<rparr>)"
  using sd_json_roundtrip [of sample_description] sample_url_ok
  by (simp add: sample_description_def sd_new_def)

text \<open>
  A copy of a description is equal to its original exactly when the original carries no
  \<open>device\<close> object: \<open>copy\<close> does not copy \<open>device\<close>, which \<open>isEqual:\<close> compares.
\<close>

theorem sd_copy_isEqual: "sd_isEqual (sd_copy now s) s \<longleftrightarrow> sd_device s = None"
  by (auto simp: sd_isEqual_iff sd_copy_def descriptionWithAddress_def sd_new_def
      sd_stringProperties_def isEqualToDictionary_iff intro: sameOpt_refl)

text \<open>
  Equal descriptions have equal hashes, for any hash functions of the property classes whose
  dictionary hash respects \<open>isEqualToDictionary:\<close>.
\<close>

theorem sd_isEqual_hash:
  assumes dict_hash: "\<And>a b. isEqualToDictionary a b \<Longrightarrow> h_dict h a = h_dict h b"
    and eq: "isEqualToServiceDescription s (Some t)"
  shows "sd_hash h s = sd_hash h t"
  using sd_equal_hash [of h s t] assms by (simp add: sd_isEqual_def)

theorem sd_isEqual_hash_witness:
  "sd_hash count_hashes sample_description =
     sd_hash count_hashes (sample_description\<lparr>sd_lastDetection := 9\<rparr>)"
proof (rule sd_isEqual_hash)
  show "isEqualToDictionary a b \<Longrightarrow> h_dict count_hashes a = h_dict count_hashes b" for a b
    by (simp add: count_hashes_def isEqualToDictionary_iff)
  show "isEqualToServiceDescription sample_description
      (Some (sample_description\<lparr>sd_lastDetection := 9\<rparr>))"
    by (simp add: isEqualToServiceDescription_def sd_stringProperties_def sample_description_def
        sd_new_def sameOpt_def isEqualToString_def)
qed

text \<open>
  C35: A persisted \<open>ServiceConfig\<close> comes back with the same UUID and time of detection, never
  connected, and marked \<open>wasConnected\<close> exactly when it was connected or had been.
\<close>

theorem cfg_json_roundtrip:
  assumes "cfg_class c = ServiceConfigClass"
  shows "cfg_serviceConfigWithJSONObject (cfg_toJSONObject c) =
    Inr (Some ((cfg_alloc ServiceConfigClass)\<lparr>cfg_UUID := cfg_UUID c, cfg_connected := False,
      cfg_wasConnected := (cfg_wasConnected c \<or> cfg_connected c),
      cfg_lastDetection := cfg_lastDetection c\<rparr>))"
  using assms by (simp add: cfg_json_defs)

definition sample_config :: ServiceConfig where
  "sample_config = (cfg_alloc ServiceConfigClass)\<lparr>cfg_UUID := Some ''u1'', cfg_connected := True,
     cfg_lastDetection := 5\<rparr>"

theorem cfg_json_roundtrip_witness:
  "cfg_serviceConfigWithJSONObject (cfg_toJSONObject sample_config) =
    Inr (Some (sample_config\<lparr>cfg_connected := False, cfg_wasConnected := True\<rparr>))"
  using cfg_json_roundtrip [of sample_config] by (simp add: sample_config_def cfg_alloc_def)

text \<open>
  A persisted webOS config keeps its client key and certificates, but comes back without its
  UUID, connection history and time of detection: the subclass initializer skips the superclass
  decoder although the encoder wrote those keys.
\<close>

theorem cfg_webos_json_loses_UUID:
  assumes "cfg_class c = WebOSTVServiceConfigClass"
  shows "cfg_serviceConfigWithJSONObject (cfg_toJSONObject c) =
      Inr (Some ((cfg_alloc WebOSTVServiceConfigClass)
        \<lparr>cfg_clientKey := cfg_clientKey c, cfg_SSLCertificates := cfg_SSLCertificates c\<rparr>))
    \<and> asString (objectForKey (cfg_toJSONObject c) ''UUID'') = cfg_UUID c"
  using assms by (simp add: cfg_json_defs)

theorem cfg_webos_json_loses_UUID_witness:
  "cfg_serviceConfigWithJSONObject (cfg_toJSONObject
      ((cfg_alloc WebOSTVServiceConfigClass)\<lparr>cfg_UUID := Some ''u1'', cfg_clientKey := Some ''k''\<rparr>)) =
    Inr (Some ((cfg_alloc WebOSTVServiceConfigClass)\<lparr>cfg_clientKey := Some ''k''\<rparr>))"
  using cfg_webos_json_loses_UUID
    [of "(cfg_alloc WebOSTVServiceConfigClass)\<lparr>cfg_UUID := Some ''u1'', cfg_clientKey := Some ''k''\<rparr>"]
  by (simp add: cfg_alloc_def)

subsection \<open>The observers of a config\<close>

text \<open>The state of the observers of a config that only \<open>setDelegate:\<close> changes.\<close>

definition cfg_kvo_inv :: "ServiceConfig \<Rightarrow> bool" where
  "cfg_kvo_inv c \<longleftrightarrow>
     (if cfg_hasObservers c then cfg_delegate c \<noteq> None \<and>
        cfg_observed c = cfg_baseKeys @ cfg_classKeys (cfg_class c)
      else cfg_observed c = [])"

lemma cfg_kvo_inv_alloc [simp]: "cfg_kvo_inv (cfg_alloc cls)"
  by (simp add: cfg_kvo_inv_def cfg_alloc_def)

lemma cfg_classKeys_raise:
  "cfg_classKeys cls \<noteq> [] \<Longrightarrow> removeRaising (cfg_classKeys cls) [] = Inl NSRangeException"
  by (cases cls) (simp_all add: removeObserver_def)

lemma removeRaising_self: "removeRaising ks (ks @ rest) = Inr rest"
  by (induction ks) (simp_all add: removeObserver_def)

lemma removeCaught_self: "removeCaught ks (ks @ rest) = rest"
  by (induction ks) (simp_all add: removeObserver_def)

lemma cfg_removeObservers_inv:
  assumes "cfg_kvo_inv c"
  shows "cfg_removeObservers c =
    (if cfg_hasObservers c then Inr (c\<lparr>cfg_observed := [], cfg_hasObservers := False\<rparr>)
     else if cfg_classKeys (cfg_class c) = [] then Inr c else Inl NSRangeException)"
  using assms removeCaught_self [of cfg_baseKeys] removeRaising_self [of "cfg_classKeys (cfg_class c)" "[]"]
  by (auto simp: cfg_removeObservers_def cfg_removeObservers_base_def cfg_kvo_inv_def
      cfg_classKeys_raise)

text \<open>
  The observer bookkeeping is an invariant of \<open>setDelegate:\<close>: while a config observes itself
  it has a delegate and observes each of its keys exactly once; otherwise it observes nothing.
\<close>

theorem cfg_setDelegate_inv:
  assumes "cfg_kvo_inv c" and "cfg_setDelegate d c = Inr c'"
  shows "cfg_kvo_inv c'"
proof (cases "d = None \<and> cfg_delegate c \<noteq> None")
  case True
  with assms show ?thesis
    by (auto simp: cfg_setDelegate_def cfg_removeObservers_inv cfg_kvo_inv_def split: if_splits)
next
  case False
  with assms show ?thesis
    by (auto simp: cfg_setDelegate_def cfg_addObservers_def cfg_addObservers_base_def Let_def
        cfg_kvo_inv_def split: if_splits)
qed

theorem cfg_setDelegate_inv_witness:
  "\<exists>c'. cfg_setDelegate (Some 1) (cfg_alloc WebOSTVServiceConfigClass) = Inr c' \<and> cfg_kvo_inv c'"
proof -
  have "cfg_setDelegate (Some 1) (cfg_alloc WebOSTVServiceConfigClass) =
      Inr (cfg_addObservers ((cfg_alloc WebOSTVServiceConfigClass)\<lparr>cfg_delegate := Some 1\<rparr>))"
    by (simp add: cfg_setDelegate_def cfg_alloc_def)
  with cfg_setDelegate_inv [OF cfg_kvo_inv_alloc this] show ?thesis by blast
qed

text \<open>
  A fresh config with a delegate reports every change of the UUID to that delegate, once.
\<close>

theorem cfg_first_delegate_notified:
  "\<exists>c. cfg_setDelegate (Some d) (cfg_alloc cls) = Inr c \<and> snd (cfg_setUUID u c) = [d]"
  by (cases cls) (simp_all add: cfg_kvo_defs cfg_alloc_def cfg_setUUID_def Let_def)

text \<open>
  Clearing the delegate of a plain config and setting a delegate again leaves the config
  silent for ever: \<open>setDelegate:nil\<close> removes the observers but keeps the old delegate, so the next
  \<open>setDelegate:\<close> takes the branch that does not observe.
\<close>

theorem cfg_cleared_delegate_silent:
  assumes "cfg_kvo_inv c" and "cfg_class c = ServiceConfigClass" and "cfg_delegate c \<noteq> None"
  shows "\<exists>c1 c2. cfg_setDelegate None c = Inr c1 \<and> cfg_delegate c1 = cfg_delegate c
    \<and> cfg_setDelegate (Some d) c1 = Inr c2 \<and> cfg_delegate c2 = Some d
    \<and> snd (cfg_setUUID u c2) = [] \<and> snd (cfg_setConnected b c2) = []"
  using assms
  by (auto simp: cfg_setDelegate_def cfg_removeObservers_inv cfg_setUUID_def cfg_setConnected_def
      cfg_observe_def cfg_kvo_inv_def Let_def)

theorem cfg_cleared_delegate_silent_witness:
  "\<exists>c1 c2. cfg_setDelegate None ((cfg_alloc ServiceConfigClass)\<lparr>cfg_delegate := Some 1,
      cfg_hasObservers := True, cfg_observed := cfg_baseKeys\<rparr>) = Inr c1
    \<and> cfg_setDelegate (Some 2) c1 = Inr c2 \<and> snd (cfg_setUUID None c2) = []"
proof -
  let ?c = "(cfg_alloc ServiceConfigClass)\<lparr>cfg_delegate := Some 1, cfg_hasObservers := True,
    cfg_observed := cfg_baseKeys\<rparr>"
  have "cfg_kvo_inv ?c" "cfg_class ?c = ServiceConfigClass" "cfg_delegate ?c \<noteq> None"
    by (simp_all add: cfg_kvo_inv_def cfg_alloc_def)
  from cfg_cleared_delegate_silent [OF this, of 2 None True] show ?thesis by blast
qed

text \<open>
  Clearing the delegate of a Netcast or webOS config a second time raises
  \<open>NSRangeException\<close>, and \<open>dealloc\<close> clears it: a subclass config that was cleared once cannot be
  deallocated while its delegate lives.
\<close>

theorem cfg_subclass_second_clear_raises:
  assumes "cfg_kvo_inv c" and "cfg_class c \<noteq> ServiceConfigClass"
    and "cfg_delegate c \<noteq> None" and "cfg_hasObservers c"
  shows "\<exists>c1. cfg_setDelegate None c = Inr c1 \<and> cfg_setDelegate None c1 = Inl NSRangeException"
proof -
  let ?c1 = "c\<lparr>cfg_observed := [], cfg_hasObservers := False\<rparr>"
  have "cfg_setDelegate None c = Inr ?c1"
    using assms by (auto simp: cfg_setDelegate_def cfg_removeObservers_inv)
  moreover have "cfg_kvo_inv ?c1" by (simp add: cfg_kvo_inv_def)
  then have "cfg_setDelegate None ?c1 = Inl NSRangeException"
    using assms by (cases "cfg_class c") (auto simp: cfg_setDelegate_def cfg_removeObservers_inv)
  ultimately show ?thesis by blast
qed

theorem cfg_subclass_second_clear_raises_witness:
  "\<exists>c c1. cfg_setDelegate (Some 1) (cfg_alloc NetcastTVServiceConfigClass) = Inr c
     \<and> cfg_setDelegate None c = Inr c1 \<and> cfg_setDelegate None c1 = Inl NSRangeException"
proof -
  let ?c = "cfg_addObservers ((cfg_alloc NetcastTVServiceConfigClass)\<lparr>cfg_delegate := Some 1\<rparr>)"
  have "cfg_setDelegate (Some 1) (cfg_alloc NetcastTVServiceConfigClass) = Inr ?c"
    by (simp add: cfg_setDelegate_def cfg_alloc_def)
  moreover have "cfg_kvo_inv ?c" "cfg_class ?c \<noteq> ServiceConfigClass" "cfg_delegate ?c \<noteq> None"
      "cfg_hasObservers ?c"
    by (simp_all add: cfg_kvo_inv_def cfg_alloc_def cfg_addObservers_def cfg_addObservers_base_def)
  ultimately show ?thesis using cfg_subclass_second_clear_raises [of ?c] by blast
qed

end
