(* ===== verification/Util.thy ===== *)
theory Util
  imports Json "HOL-Library.Word"
begin

text \<open>
  The helper classes of \<open>Helpers/\<close>: string escaping (\<open>ConnectUtil\<close>), error construction
  (\<open>ConnectError\<close>), key search (\<open>NSDictionary+KeyPredicateSearch\<close>), the subscription
  deduplicator and the reachability poller. Strings that are escaped byte by byte are lists of bytes (UTF-8).
\<close>

section \<open>ConnectUtil\<close>

definition hexU :: "nat \<Rightarrow> char" where
  "hexU n = (if n < 10 then char_of (48 + n) else char_of (55 + n))"

definition hexL :: "nat \<Rightarrow> char" where
  "hexL n = (if n < 10 then char_of (48 + n) else char_of (87 + n))"

definition is_alnum :: "char \<Rightarrow> bool" where
  "is_alnum c \<longleftrightarrow> (let n = (of_char c :: nat) in
     (97 \<le> n \<and> n \<le> 122) \<or> (65 \<le> n \<and> n \<le> 90) \<or> (48 \<le> n \<and> n \<le> 57))"

text \<open>The cases of the \<open>switch\<close> of \<open>urlEncode:\<close>, in order.\<close>

definition urlEncodeTable :: "(char \<times> string) list" where
  "urlEncodeTable =
    [(CHR '' '', ''%20''), (CHR ''!'', ''%21''), (CHR 0x22, ''%22''), (CHR ''#'', ''%23''),
     (CHR ''$'', ''%24''), (CHR ''%'', ''%25''), (CHR ''&'', ''%26''), (CHR 0x27, ''%27''),
     (CHR ''('', ''%28''), (CHR '')'', ''%29''), (CHR ''*'', ''%2A''), (CHR ''+'', ''%2B''),
     (CHR '','', ''%2C''), (CHR ''-'', ''%2D''), (CHR ''.'', ''%2E''), (CHR ''/'', ''%2F''),
     (CHR '':'', ''%3A''), (CHR '';'', ''%3B''), (CHR ''<'', ''%3C''), (CHR ''='', ''%3D''),
     (CHR ''>'', ''%3E''), (CHR ''?'', ''%3F''), (CHR ''@'', ''%40'')]"

definition urlEncodeChar :: "char \<Rightarrow> string" where
  "urlEncodeChar c = (case map_of urlEncodeTable c of
      Some s \<Rightarrow> s
    | None \<Rightarrow> if is_alnum c then [c]
        else [CHR ''%'', hexU (of_char c div 16), hexU (of_char c mod 16)])"

text \<open>The loop runs up to \<open>strlen\<close> of the UTF-8 bytes.\<close>

definition urlEncode :: "string \<Rightarrow> string" where
  "urlEncode s = concat (map urlEncodeChar (takeWhile (\<lambda>c. c \<noteq> CHR 0x00) s))"

definition hexVal :: "char \<Rightarrow> nat option" where
  "hexVal c = (let n = of_char c in
     if 48 \<le> n \<and> n \<le> 57 then Some (n - 48)
     else if 65 \<le> n \<and> n \<le> 70 then Some (n - 55)
     else if 97 \<le> n \<and> n \<le> 102 then Some (n - 87) else None)"

fun percentDecode :: "string \<Rightarrow> string option" where
  "percentDecode [] = Some []"
| "percentDecode (c # s) =
    (if c = CHR ''%'' then
       (case s of a # b # t \<Rightarrow>
          (case hexVal a of None \<Rightarrow> None | Some x \<Rightarrow>
            (case hexVal b of None \<Rightarrow> None | Some y \<Rightarrow>
              map_option (\<lambda>r. char_of (16 * x + y) # r) (percentDecode t)))
        | _ \<Rightarrow> None)
     else map_option (\<lambda>r. c # r) (percentDecode s))"

definition utf8_cont :: "char \<Rightarrow> bool" where
  "utf8_cont c \<longleftrightarrow> 128 \<le> (of_char c :: nat) \<and> (of_char c :: nat) \<le> 191"

fun utf8_valid :: "string \<Rightarrow> bool" where
  "utf8_valid [] = True"
| "utf8_valid (c # s) = (let n = (of_char c :: nat) in
     if n < 128 then utf8_valid s
     else if 194 \<le> n \<and> n \<le> 223 then
       (case s of b # t \<Rightarrow> utf8_cont b \<and> utf8_valid t | _ \<Rightarrow> False)
     else if 224 \<le> n \<and> n \<le> 239 then
       (case s of b # d # t \<Rightarrow> utf8_cont b \<and> utf8_cont d
           \<and> (n = 224 \<longrightarrow> 160 \<le> (of_char b :: nat)) \<and> (n = 237 \<longrightarrow> (of_char b :: nat) \<le> 159)
           \<and> utf8_valid t | _ \<Rightarrow> False)
     else if 240 \<le> n \<and> n \<le> 244 then
       (case s of b # d # e # t \<Rightarrow> utf8_cont b \<and> utf8_cont d \<and> utf8_cont e
           \<and> (n = 240 \<longrightarrow> 144 \<le> (of_char b :: nat)) \<and> (n = 244 \<longrightarrow> (of_char b :: nat) \<le> 143)
           \<and> utf8_valid t | _ \<Rightarrow> False)
     else False)"

text \<open>\<open>stringByReplacingPercentEscapesUsingEncoding:\<close> answers nil when the bytes are not UTF-8.\<close>

definition urlDecode :: "string \<Rightarrow> string option" where
  "urlDecode s = (case percentDecode (replaceOccurrences ''+'' '' '' s) of
      None \<Rightarrow> None
    | Some r \<Rightarrow> if utf8_valid r then Some r else None)"

text \<open>\<open>escapedUnicodeForString:\<close> on the UTF-16 units of the string.\<close>

definition escapedUnit :: "16 word \<Rightarrow> string" where
  "escapedUnit u = (let n = unat u in
     if n < 0x30 \<or> n > 0x7e
     then [CHR 0x5C, CHR ''u'', hexL (n div 4096 mod 16), hexL (n div 256 mod 16),
           hexL (n div 16 mod 16), hexL (n mod 16)]
     else [char_of n])"

definition escapedUnicodeForString :: "16 word list \<Rightarrow> string" where
  "escapedUnicodeForString input = fold (\<lambda>u uniString. uniString @ escapedUnit u) input []"

definition entityEncode :: "string \<Rightarrow> string" where
  "entityEncode input =
     replaceOccurrences ''<'' ''&lt;'' (replaceOccurrences ''>'' ''&gt;''
       (replaceOccurrences [CHR 0x22] ''&quot;'' (replaceOccurrences ''&'' ''&amp;'' input)))"

definition entityDecode :: "string \<Rightarrow> string" where
  "entityDecode input =
     replaceOccurrences ''&lt;'' ''<'' (replaceOccurrences ''&gt;'' ''>''
       (replaceOccurrences ''&quot;'' [CHR 0x22] (replaceOccurrences ''&amp;'' ''&'' input)))"

subsection \<open>URL escaping\<close>

text \<open>The switch is redundant: every byte that is not alphanumeric becomes a two-digit escape.\<close>

lemma urlEncodeChar_eq:
  "urlEncodeChar c = (if is_alnum c then [c]
     else [CHR ''%'', hexU (of_char c div 16), hexU (of_char c mod 16)])"
  by (simp add: urlEncodeChar_def urlEncodeTable_def is_alnum_def hexU_def char_of_def bit_0)

lemma hi_nibble [simp]: "(of_char c :: nat) div 16 < 16"
  by (rule less_mult_imp_div_less) simp

lemma hexVal_hexU: "n < 16 \<Longrightarrow> hexVal (hexU n) = Some n"
  by (auto simp: hexVal_def hexU_def Let_def)

lemma alnum_not_special: "is_alnum c \<Longrightarrow> c \<noteq> CHR ''%'' \<and> c \<noteq> CHR ''+''"
  by (auto simp: is_alnum_def)

lemma percentDecode_encodeChar:
  "percentDecode (urlEncodeChar c @ s) = map_option (\<lambda>r. c # r) (percentDecode s)"
proof (cases "is_alnum c")
  case True
  then show ?thesis by (auto simp: urlEncodeChar_eq dest: alnum_not_special)
next
  case False
  then show ?thesis by (simp add: urlEncodeChar_eq hexVal_hexU)
qed

lemma percentDecode_encode: "percentDecode (concat (map urlEncodeChar s)) = Some s"
  by (induction s) (simp_all add: percentDecode_encodeChar)

lemma hexU_not_plus: "n < 16 \<Longrightarrow> hexU n \<noteq> CHR ''+''"
  using hexVal_hexU [of n] by (auto simp: hexVal_def)

lemma no_plus_in_encoding: "CHR ''+'' \<notin> set (concat (map urlEncodeChar s))"
proof -
  have "CHR ''+'' \<notin> set (urlEncodeChar c)" for c
    using hexU_not_plus [of "of_char c div 16"] hexU_not_plus [of "of_char c mod 16"]
    by (auto simp: urlEncodeChar_eq dest: alnum_not_special)
  then show ?thesis by auto
qed

lemma replaceOccurrences_absent_char: "a \<notin> set s \<Longrightarrow> replaceOccurrences [a] r s = s"
  by (induction s) (auto simp: hasPrefix_def)

lemma urlDecode_encoded:
  assumes "utf8_valid s" and "CHR 0x00 \<notin> set s"
  shows "urlDecode (urlEncode s) = Some s"
proof -
  have "takeWhile (\<lambda>c. c \<noteq> CHR 0x00) s = s"
    using assms(2) by (auto intro: takeWhile_eq_all_conv [THEN iffD2])
  then have "urlEncode s = concat (map urlEncodeChar s)" by (simp only: urlEncode_def)
  moreover have "replaceOccurrences ''+'' '' '' (concat (map urlEncodeChar s)) = concat (map urlEncodeChar s)"
    by (rule replaceOccurrences_absent_char) (rule no_plus_in_encoding)
  ultimately show ?thesis
    using assms(1) by (simp add: urlDecode_def percentDecode_encode del: replaceOccurrences.simps)
qed

text \<open>
  \<open>urlDecode:\<close> inverts \<open>urlEncode:\<close> on every valid UTF-8 string without a NUL byte, at which
  the encoder stops.
\<close>

theorem urlDecode_urlEncode:
  assumes "utf8_valid s" and "CHR 0x00 \<notin> set s"
  shows "urlDecode (urlEncode s) = Some s"
  using assms by (rule urlDecode_encoded)

theorem urlDecode_urlEncode_witness: "urlDecode (urlEncode ''a b+c/d'') = Some ''a b+c/d''"
  by (rule urlDecode_urlEncode) (simp_all add: Let_def)


subsection \<open>XML entities\<close>

definition entityChar :: "char \<Rightarrow> string" where
  "entityChar c = (if c = CHR ''&'' then ''&amp;'' else if c = CHR 0x22 then ''&quot;''
     else if c = CHR ''>'' then ''&gt;'' else if c = CHR ''<'' then ''&lt;'' else [c])"

text \<open>The four passes of \<open>entityEncode:\<close> are one pass over the characters.\<close>

lemma entityEncode_eq: "entityEncode s = concat (map entityChar s)"
  unfolding entityEncode_def replaceOccurrences_char by (induction s) (simp_all add: entityChar_def)

lemma entityDecode_encode:
  assumes "CHR ''&'' \<notin> set s"
  shows "entityDecode (concat (map entityChar s)) = s"
proof -
  have amp: "replaceOccurrences ''&amp;'' ''&'' (concat (map entityChar s)) = concat (map entityChar s)"
    using assms by (induction s) (auto simp: entityChar_def hasPrefix_def)
  have quot: "replaceOccurrences ''&quot;'' [CHR 0x22] (concat (map entityChar s)) =
      concat (map (\<lambda>c. if c = CHR 0x22 then [c] else entityChar c) s)"
    using assms by (induction s) (auto simp: entityChar_def hasPrefix_def)
  have gt: "replaceOccurrences ''&gt;'' ''>'' (concat (map (\<lambda>c. if c = CHR 0x22 then [c] else entityChar c) s)) =
      concat (map (\<lambda>c. if c = CHR 0x22 \<or> c = CHR ''>'' then [c] else entityChar c) s)"
    using assms by (induction s) (auto simp: entityChar_def hasPrefix_def)
  have lt: "replaceOccurrences ''&lt;'' ''<''
      (concat (map (\<lambda>c. if c = CHR 0x22 \<or> c = CHR ''>'' then [c] else entityChar c) s)) = s"
    using assms by (induction s) (auto simp: entityChar_def hasPrefix_def)
  show ?thesis by (simp only: entityDecode_def amp quot gt lt)
qed

text \<open>
  \<open>entityDecode:\<close> inverts \<open>entityEncode:\<close> on strings without an ampersand.
\<close>

theorem entityDecode_entityEncode:
  "CHR ''&'' \<notin> set s \<Longrightarrow> entityDecode (entityEncode s) = s"
  by (simp only: entityEncode_eq entityDecode_encode not_False_eq_True)

theorem entityDecode_entityEncode_witness:
  "entityDecode (entityEncode ''a<b>c'') = ''a<b>c''"
  by (rule entityDecode_entityEncode) simp

text \<open>
  Not on all strings: \<open>entityDecode:\<close> expands \<open>&amp;\<close> first, so an encoded ampersand that is
  followed by the name of an entity is decoded twice.
\<close>

theorem entityDecode_decodes_twice: "entityDecode (entityEncode ''&lt;'') = ''<''"
  by (simp add: entityDecode_def entityEncode_def hasPrefix_def)

text \<open>
  \<open>escapedUnicodeForString:\<close> is not injective: a backslash is emitted as it is, so the escape
  of a space and the six characters of that escape give the same result.
\<close>

theorem escapedUnicode_collision:
  "escapedUnicodeForString [0x20] = escapedUnicodeForString [0x5C, 0x75, 0x30, 0x30, 0x32, 0x30]"
  by (simp add: escapedUnicodeForString_def escapedUnit_def hexL_def char_of_def bit_0)

section \<open>ConnectError\<close>

datatype ConnectStatusCode =
    ConnectStatusCodeError
  | ConnectStatusCodeTvError
  | ConnectStatusCodeCertificateError
  | ConnectStatusCodeSocketError
  | ConnectStatusCodeNotSupported
  | ConnectStatusCodeArgumentError
  | ConnectStatusCodeNotConnected

fun statusCodeValue :: "ConnectStatusCode \<Rightarrow> int" where
  "statusCodeValue ConnectStatusCodeError = 1000"
| "statusCodeValue ConnectStatusCodeTvError = 1001"
| "statusCodeValue ConnectStatusCodeCertificateError = 1002"
| "statusCodeValue ConnectStatusCodeSocketError = 1003"
| "statusCodeValue ConnectStatusCodeNotSupported = 1100"
| "statusCodeValue ConnectStatusCodeArgumentError = 1101"
| "statusCodeValue ConnectStatusCodeNotConnected = 1102"

record NSError =
  err_code :: int
  err_message :: string

text \<open>\<open>%@\<close> prints a nil object as \<open>(null)\<close>.\<close>

definition formatObject :: "string option \<Rightarrow> string" where
  "formatObject d = (case d of None \<Rightarrow> ''(null)'' | Some s \<Rightarrow> s)"

definition generateErrorWithCode :: "ConnectStatusCode \<Rightarrow> string option \<Rightarrow> NSError" where
  "generateErrorWithCode code details =
     \<lparr>err_code = statusCodeValue code,
      err_message = (case code of
          ConnectStatusCodeTvError \<Rightarrow> ''API error: '' @ formatObject details
        | ConnectStatusCodeCertificateError \<Rightarrow> ''Invalid server certificate''
        | ConnectStatusCodeSocketError \<Rightarrow> ''Web Socket Error: '' @ formatObject details
        | ConnectStatusCodeNotSupported \<Rightarrow> ''This feature is not supported.''
        | _ \<Rightarrow> (case details of
              Some d \<Rightarrow> ''A generic error occured: '' @ d
            | None \<Rightarrow> ''A generic error occured''))\<rparr>"

section \<open>Searching a dictionary by key\<close>

definition objectForKeyWithPredicate :: "'v nsdict \<Rightarrow> (string \<Rightarrow> bool) option \<Rightarrow> 'v option result" where
  "objectForKeyWithPredicate d predicate = (case predicate of
      None \<Rightarrow> Inr None
    | Some p \<Rightarrow> (let predicateKeys = filter p (allKeys d) in
        if length predicateKeys > 1 then Inl NSInternalInconsistencyException
        else Inr (case predicateKeys of [] \<Rightarrow> None | k # _ \<Rightarrow> objectForKey d k)))"

definition objectForKeyEndingWithString :: "'v nsdict \<Rightarrow> string \<Rightarrow> 'v option result" where
  "objectForKeyEndingWithString d s = objectForKeyWithPredicate d (Some (\<lambda>k. hasSuffix k s))"

text \<open>
  The key search returns the value of the only key with the suffix, nil when there is none,
  and raises when there are several.
\<close>

theorem objectForKeyEndingWithString_spec:
  assumes "dict_wf d"
  shows "objectForKeyEndingWithString d s =
    (let ks = {k \<in> set (allKeys d). hasSuffix k s} in
      if card ks > 1 then Inl NSInternalInconsistencyException
      else Inr (if ks = {} then None else objectForKey d (the_elem ks)))"
proof -
  let ?ks = "filter (\<lambda>k. hasSuffix k s) (allKeys d)"
  have set: "set ?ks = {k \<in> set (allKeys d). hasSuffix k s}" by auto
  have "distinct ?ks" using assms by (simp add: dict_wf_def allKeys_def)
  then have card: "card {k \<in> set (allKeys d). hasSuffix k s} = length ?ks"
    by (metis set distinct_card)
  consider "?ks = []" | k where "?ks = [k]" | "length ?ks > 1"
    by (metis One_nat_def length_0_conv length_Suc_conv less_one linorder_neqE_nat)
  then show ?thesis
  proof cases
    case 1
    then have "{k \<in> set (allKeys d). hasSuffix k s} = {}" using set by simp
    with 1 show ?thesis
      by (simp only: objectForKeyEndingWithString_def objectForKeyWithPredicate_def Let_def
          option.case) simp
  next
    case (2 k)
    then have "{k \<in> set (allKeys d). hasSuffix k s} = {k}" using set by simp
    with 2 card show ?thesis
      by (simp add: objectForKeyEndingWithString_def objectForKeyWithPredicate_def Let_def)
  next
    case 3
    then show ?thesis using card
      by (simp add: objectForKeyEndingWithString_def objectForKeyWithPredicate_def Let_def)
  qed
qed

theorem objectForKeyEndingWithString_spec_witness:
  "objectForKeyEndingWithString [(''u:errorDescription'', JNum 1), (''x'', JNum 2)] '':errorDescription''
    = Inr (Some (JNum 1))"
proof -
  have "dict_wf [(''u:errorDescription'', JNum 1), (''x'', JNum 2)]" by (simp add: dict_wf_def)
  moreover have "{k \<in> set (allKeys [(''u:errorDescription'', JNum 1), (''x'', JNum 2)]).
      hasSuffix k '':errorDescription''} = {''u:errorDescription''}"
    by (auto simp: allKeys_def hasSuffix_def)
  ultimately show ?thesis
    by (simp only: objectForKeyEndingWithString_spec Let_def) (simp add: objectForKey_def)
qed


section \<open>SubscriptionDeduplicator\<close>

text \<open>
  A deduplicator is its saved state; \<open>runBlock:ifStateDidChangeTo:\<close> answers the next deduplicator
  and whether the block ran.
\<close>

definition runBlockIfStateDidChangeTo :: "'s option \<Rightarrow> 's \<Rightarrow> 's option \<times> bool" where
  "runBlockIfStateDidChangeTo saved state =
     (let stateDidChange = ((saved \<noteq> None \<and> Some state \<noteq> saved) \<or> saved = None)
      in if stateDidChange then (Some state, True) else (saved, False))"

text \<open>The states the block ran for, when the deduplicator is replaced by each answer in turn.\<close>

fun deduplicate :: "'s option \<Rightarrow> 's list \<Rightarrow> 's list" where
  "deduplicate d [] = []"
| "deduplicate d (x # xs) = (case runBlockIfStateDidChangeTo d x of
     (d', didRun) \<Rightarrow> (if didRun then [x] else []) @ deduplicate d' xs)"

lemma deduplicate_eq:
  "deduplicate d xs = (case d of None \<Rightarrow> remdups_adj xs | Some a \<Rightarrow> tl (remdups_adj (a # xs)))"
  by (induction xs arbitrary: d)
    (auto simp: runBlockIfStateDidChangeTo_def remdups_adj_Cons split: option.splits list.splits if_splits)

text \<open>
  A subscription filtered through the deduplicator reports exactly the changes: the sequence
  of reported states is the sequence of received states without adjacent repetitions.
\<close>

theorem deduplicate_reports_changes: "deduplicate None states = remdups_adj states"
  by (simp add: deduplicate_eq)

section \<open>DeviceServiceReachability\<close>

record Reachability =
  rea_running :: bool
  rea_timer :: bool
  rea_delegate :: bool

definition rea_start :: "Reachability \<Rightarrow> Reachability" where
  "rea_start r = r\<lparr>rea_running := True, rea_timer := True\<rparr>"

definition rea_stop :: "Reachability \<Rightarrow> Reachability" where
  "rea_stop r = (if rea_running r then r\<lparr>rea_timer := False, rea_running := False\<rparr> else r)"

text \<open>\<open>checkReachability\<close> sends a request when running; here whether it does.\<close>

definition rea_check :: "Reachability \<Rightarrow> bool" where
  "rea_check r = rea_running r"

text \<open>
  The completion handler: response, data and error of the request; whether \<open>didLoseReachability:\<close>
  is sent.
\<close>

definition rea_completion :: "Reachability \<Rightarrow> bool \<Rightarrow> bool \<Rightarrow> bool \<Rightarrow> Reachability \<times> bool" where
  "rea_completion r response data connectionError =
     (if \<not> rea_running r then (r, False)
      else let noDataIsAvailable = (\<not> data \<and> connectionError \<and> \<not> response)
           in if noDataIsAvailable then (rea_stop r, rea_delegate r) else (r, False))"

datatype reaEvent = ReaStop | ReaCompletion bool bool bool

fun rea_run :: "Reachability \<Rightarrow> reaEvent list \<Rightarrow> Reachability \<times> nat" where
  "rea_run r [] = (r, 0)"
| "rea_run r (ReaStop # es) = rea_run (rea_stop r) es"
| "rea_run r (ReaCompletion a b c # es) =
     (case rea_completion r a b c of (r', told) \<Rightarrow>
       (case rea_run r' es of (r'', n) \<Rightarrow> (r'', (if told then 1 else 0) + n)))"

lemma rea_run_stopped: "\<not> rea_running r \<Longrightarrow> snd (rea_run r es) = 0"
  by (induction r es rule: rea_run.induct)
    (auto simp: rea_completion_def rea_stop_def split: prod.splits)

text \<open>
  Between two calls of \<open>start\<close> the delegate is told at most once that the service is lost,
  whatever the order in which outstanding requests complete, and not at all once stopped.
\<close>

theorem rea_told_at_most_once:
  "snd (rea_run r es) \<le> 1 \<and> snd (rea_run (rea_stop r) es) = 0"
proof
  show "snd (rea_run (rea_stop r) es) = 0"
    by (rule rea_run_stopped) (simp add: rea_stop_def)
  show "snd (rea_run r es) \<le> 1"
  proof (induction r es rule: rea_run.induct)
    case (3 r a b c es)
    show ?case
    proof (cases "snd (rea_completion r a b c)")
      case True
      then have "\<not> rea_running (fst (rea_completion r a b c))"
        by (auto simp: rea_completion_def rea_stop_def split: if_splits)
      then have "snd (rea_run (fst (rea_completion r a b c)) es) = 0" by (rule rea_run_stopped)
      then show ?thesis by (auto split: prod.splits)
    next
      case False
      with 3 show ?thesis by (auto split: prod.splits)
    qed
  qed simp_all
qed

end
