(* ===== verification/DeviceService.thy ===== *)
theory DeviceService
  imports Config Util
begin

text \<open>
  \<open>Services/DeviceService\<close>, \<open>Services/Capabilities\<close>, \<open>Discovery/CapabilityFilter\<close> and
  \<open>Services/Sessions/LaunchSession\<close>: the capability constants, a service with its capability list
  and the messages its delegate receives, the subclass hooks as a record of methods, and launch
  sessions with their JSON coding and closing.
\<close>

section \<open>Capability constants\<close>

definition kExternalInputControlCapabilities :: "string list" where
  "kExternalInputControlCapabilities =
    [''ExternalInputControl.Picker.Launch'',
     ''ExternalInputControl.Picker.Close'',
     ''ExternalInputControl.List'',
     ''ExternalInputControl.Set'']"

definition kKeyControlCapabilities :: "string list" where
  "kKeyControlCapabilities =
    [''KeyControl.Up'',
     ''KeyControl.Down'',
     ''KeyControl.Left'',
     ''KeyControl.Right'',
     ''KeyControl.OK'',
     ''KeyControl.Back'',
     ''KeyControl.Home'',
     ''KeyControl.Send.KeyCode'']"

definition kLauncherCapabilities :: "string list" where
  "kLauncherCapabilities =
    [''Launcher.App'',
     ''Launcher.App.Params'',
     ''Launcher.App.Close'',
     ''Launcher.App.List'',
     ''Launcher.AppStore'',
     ''Launcher.AppStore.Params'',
     ''Launcher.Browser'',
     ''Launcher.Browser.Params'',
     ''Launcher.Hulu'',
     ''Launcher.Hulu.Params'',
     ''Launcher.Netflix'',
     ''Launcher.Netflix.Params'',
     ''Launcher.YouTube'',
     ''Launcher.YouTube.Params'',
     ''Launcher.AppState'',
     ''Launcher.AppState.Subscribe'',
     ''Launcher.RunningApp'',
     ''Launcher.RunningApp.Subscribe'']"

definition kMediaControlCapabilities :: "string list" where
  "kMediaControlCapabilities =
    [''MediaControl.Play'',
     ''MediaControl.Pause'',
     ''MediaControl.Stop'',
     ''MediaControl.Duration'',
     ''MediaControl.Rewind'',
     ''MediaControl.FastForward'',
     ''MediaControl.Seek'',
     ''MediaControl.PlayState'',
     ''MediaControl.PlayState.Subscribe'',
     ''MediaControl.Position'',
     ''MediaControl.MetaData'',
     ''MediaControl.MetaData.Subscribe'']"

definition kMediaPlayerCapabilities :: "string list" where
  "kMediaPlayerCapabilities =
    [''MediaPlayer.Display.Image'',
     ''MediaPlayer.Play.Video'',
     ''MediaPlayer.Play.Audio'',
     ''MediaPlayer.Close'',
     ''MediaPlayer.MetaData.Title'',
     ''MediaPlayer.MetaData.Description'',
     ''MediaPlayer.MetaData.Thumbnail'',
     ''MediaPlayer.MetaData.MimeType'']"

definition kMouseControlCapabilities :: "string list" where
  "kMouseControlCapabilities =
    [''MouseControl.Connect'',
     ''MouseControl.Disconnect'',
     ''MouseControl.Click'',
     ''MouseControl.Move'',
     ''MouseControl.Scroll'']"

definition kPlayListControlCapabilities :: "string list" where
  "kPlayListControlCapabilities =
    [''PlayListControl.Next'',
     ''PlayListControl.Previous'',
     ''PlayListControl.JumpTrack'']"

definition kPowerControlCapabilities :: "string list" where
  "kPowerControlCapabilities =
    [''PowerControl.Off'',
     ''PowerControl.On'']"

definition kRemoteCameraControlCapabilities :: "string list" where
  "kRemoteCameraControlCapabilities =
    [''RemoteCameraControl.RemoteCamera'']"

definition kScreenMirroringControlCapabilities :: "string list" where
  "kScreenMirroringControlCapabilities =
    [''ScreenMirroringControl.ScreenMirroring'']"

definition kTVControlCapabilities :: "string list" where
  "kTVControlCapabilities =
    [''TVControl.Channel.Get'',
     ''TVControl.Channel.Set'',
     ''TVControl.Channel.Up'',
     ''TVControl.Channel.Down'',
     ''TVControl.Channel.List'',
     ''TVControl.Channel.Subscribe'',
     ''TVControl.Program.Get'',
     ''TVControl.Program.List'',
     ''TVControl.Program.Subscribe'',
     ''TVControl.Program.List.Subscribe'',
     ''TVControl.3D.Get'',
     ''TVControl.3D.Set'',
     ''TVControl.3D.Subscribe'']"

definition kTextInputControlCapabilities :: "string list" where
  "kTextInputControlCapabilities =
    [''TextInputControl.Send.Text'',
     ''TextInputControl.Send.Enter'',
     ''TextInputControl.Send.Delete'',
     ''TextInputControl.Subscribe'']"

definition kToastControlCapabilities :: "string list" where
  "kToastControlCapabilities =
    [''ToastControl.Show'',
     ''ToastControl.Show.Clickable.App'',
     ''ToastControl.Show.Clickable.App.Params'',
     ''ToastControl.Show.Clickable.URL'']"

definition kVolumeControlCapabilities :: "string list" where
  "kVolumeControlCapabilities =
    [''VolumeControl.Get'',
     ''VolumeControl.Set'',
     ''VolumeControl.UpDown'',
     ''VolumeControl.Subscribe'',
     ''VolumeControl.Mute.Get'',
     ''VolumeControl.Mute.Set'',
     ''VolumeControl.Mute.Subscribe'']"

definition kWebAppLauncherCapabilities :: "string list" where
  "kWebAppLauncherCapabilities =
    [''WebAppLauncher.Launch'',
     ''WebAppLauncher.Launch.Params'',
     ''WebAppLauncher.Message.Send'',
     ''WebAppLauncher.Message.Receive'',
     ''WebAppLauncher.Message.Send.JSON'',
     ''WebAppLauncher.Message.Receive.JSON'',
     ''WebAppLauncher.Connect'',
     ''WebAppLauncher.Disconnect'',
     ''WebAppLauncher.Join'',
     ''WebAppLauncher.Close'',
     ''WebAppLauncher.Pin'']"

datatype CapabilityPriorityLevel =
    CapabilityPriorityLevelVeryLow
  | CapabilityPriorityLevelLow
  | CapabilityPriorityLevelNormal
  | CapabilityPriorityLevelHigh
  | CapabilityPriorityLevelVeryHigh

fun priorityValue :: "CapabilityPriorityLevel \<Rightarrow> nat" where
  "priorityValue CapabilityPriorityLevelVeryLow = 1"
| "priorityValue CapabilityPriorityLevelLow = 25"
| "priorityValue CapabilityPriorityLevelNormal = 50"
| "priorityValue CapabilityPriorityLevelHigh = 75"
| "priorityValue CapabilityPriorityLevelVeryHigh = 100"

instantiation CapabilityPriorityLevel :: linorder
begin

definition less_eq_CapabilityPriorityLevel where
  "a \<le> b \<longleftrightarrow> priorityValue a \<le> priorityValue b"

definition less_CapabilityPriorityLevel where
  "a < b \<longleftrightarrow> priorityValue a < priorityValue b"

instance
proof
  fix a b :: CapabilityPriorityLevel
  show "a \<le> b \<Longrightarrow> b \<le> a \<Longrightarrow> a = b"
    by (cases a; cases b) (simp_all add: less_eq_CapabilityPriorityLevel_def)
qed (auto simp: less_eq_CapabilityPriorityLevel_def less_CapabilityPriorityLevel_def)

end

section \<open>CapabilityFilter\<close>

type_synonym CapabilityFilter = "string list"

definition filter_addCapability :: "string \<Rightarrow> CapabilityFilter \<Rightarrow> CapabilityFilter" where
  "filter_addCapability c f = f @ [c]"

definition filter_addCapabilities :: "string list \<Rightarrow> CapabilityFilter \<Rightarrow> CapabilityFilter" where
  "filter_addCapabilities cs f = f @ cs"

definition filterWithCapabilities :: "string list \<Rightarrow> CapabilityFilter" where
  "filterWithCapabilities cs = filter_addCapabilities cs []"

section \<open>DeviceService\<close>

datatype DeviceServicePairingType =
    PairingTypeNone
  | PairingTypeFirstScreen
  | PairingTypePinCode
  | PairingTypeMixed
  | PairingTypeAirPlayMirroring
  | PairingTypeUnknown

text \<open>
  The delegate of a service: the \<open>ConnectableDevice\<close> that owns it, which implements every method of
  \<open>DeviceServiceDelegate\<close>, or another object with the selectors it responds to.
\<close>

datatype svcSelector =
    SelConnectionRequired | SelConnectionSuccess | SelCapabilitiesAdded | SelDisconnected
  | SelDidFailConnect | SelPairingRequired | SelPairingSuccess | SelPairingFailed

datatype svcDelegate = OwningDevice | OtherDelegate "svcSelector list"

fun svc_responds :: "svcDelegate option \<Rightarrow> svcSelector \<Rightarrow> bool" where
  "svc_responds None s = False"
| "svc_responds (Some OwningDevice) s = True"
| "svc_responds (Some (OtherDelegate ss)) s = (s \<in> set ss)"

text \<open>The messages a service sends to its delegate.\<close>

datatype svcEvent =
    ConnectionRequired
  | ConnectionSuccess
  | DidFailConnect "NSError option"
  | DisconnectedWithError "NSError option"
  | PairingRequired DeviceServicePairingType
  | PairingSuccess
  | PairingFailed "NSError option"
  | CapabilitiesChanged "string list" "string list"

text \<open>
  A service. Its description is a reference into the heap of \<open>ServiceDescription\<close> objects, because
  a device and its services may share one.
\<close>

record DeviceService =
  svc_class :: string
  svc_description :: "nat option"
  svc_config :: "ServiceConfig option"
  svc_capabilities :: "string list"
  svc_connected :: bool
  svc_delegate :: "svcDelegate option"
  svc_pairingType :: DeviceServicePairingType

text \<open>
  The capability accessors a service class may implement, and what an accessor returns: an object with
  a priority for the capability, usually the service itself.
\<close>

datatype capAccessor =
    AccLauncher | AccExternalInputControl | AccMediaPlayer | AccMediaControl | AccVolumeControl
  | AccTVControl | AccKeyControl | AccTextInputControl | AccMouseControl | AccPowerControl
  | AccToastControl | AccWebAppLauncher | AccScreenMirroringControl | AccRemoteCameraControl

record capObject =
  co_name :: string
  co_priority :: "capAccessor \<Rightarrow> CapabilityPriorityLevel"

text \<open>
  The methods a subclass of \<open>DeviceService\<close> overrides. \<open>cls_updateCapabilities\<close> is the list its
  \<open>updateCapabilities\<close> sets; \<open>cls_accessor\<close> is \<open>None\<close> for an accessor the class does not implement;
  \<open>cls_describe\<close> is what its \<open>setServiceDescription:\<close> changes after storing the description.
  The messages that \<open>connect\<close> and \<open>disconnect\<close> send are the ones the service posts for its delegate.
\<close>

record ServiceClass =
  cls_name :: string
  cls_updateCapabilities :: "string list"
  cls_isConnectable :: "DeviceService \<Rightarrow> bool"
  cls_connect :: "DeviceService \<Rightarrow> DeviceService \<times> svcEvent list"
  cls_disconnect :: "DeviceService \<Rightarrow> DeviceService \<times> svcEvent list"
  cls_setPairingType :: "DeviceServicePairingType \<Rightarrow> DeviceService \<Rightarrow> DeviceService"
  cls_accessor :: "capAccessor \<Rightarrow> (DeviceService \<Rightarrow> capObject option) option"
  cls_describe :: "ServiceDescription \<Rightarrow> DeviceService \<Rightarrow> ServiceDescription \<times> DeviceService"

definition DeviceService_class :: ServiceClass where
  "DeviceService_class = \<lparr>cls_name = ''DeviceService'', cls_updateCapabilities = [],
     cls_isConnectable = (\<lambda>_. False), cls_connect = (\<lambda>s. (s, [])), cls_disconnect = (\<lambda>s. (s, [])),
     cls_setPairingType = (\<lambda>_ s. s), cls_accessor = (\<lambda>_. None),
     cls_describe = Pair\<rparr>"

text \<open>\<open>init\<close> runs \<open>updateCapabilities\<close> while the delegate is nil: no message is sent.\<close>

definition svc_initWithServiceConfig :: "ServiceClass \<Rightarrow> ServiceConfig option \<Rightarrow> DeviceService" where
  "svc_initWithServiceConfig cls cfg = \<lparr>svc_class = cls_name cls, svc_description = None,
     svc_config = cfg, svc_capabilities = cls_updateCapabilities cls, svc_connected = False,
     svc_delegate = None, svc_pairingType = PairingTypeNone\<rparr>"

definition deviceServiceWithClass :: "ServiceClass option \<Rightarrow> ServiceConfig option \<Rightarrow> DeviceService option" where
  "deviceServiceWithClass cls cfg = map_option (\<lambda>c. svc_initWithServiceConfig c cfg) cls"

subsection \<open>Capabilities\<close>

definition caps_hasCapability :: "string list \<Rightarrow> string \<Rightarrow> bool" where
  "caps_hasCapability caps capability =
     (case rangeOfString capability ''.Any'' of
        Some i \<Rightarrow>
          (let matchedCapability = take i capability in
           enumerateObjects (\<lambda>item hasCap.
             if rangeOfString item matchedCapability \<noteq> None then (True, True) else (hasCap, False))
             caps False)
      | None \<Rightarrow> capability \<in> set caps)"

definition svc_hasCapability :: "DeviceService \<Rightarrow> string \<Rightarrow> bool" where
  "svc_hasCapability s capability = caps_hasCapability (svc_capabilities s) capability"

definition svc_hasCapabilities :: "DeviceService \<Rightarrow> string list \<Rightarrow> bool" where
  "svc_hasCapabilities s capabilities =
     enumerateObjects (\<lambda>c hasCaps. if \<not> svc_hasCapability s c then (False, True) else (hasCaps, False))
       capabilities True"

definition svc_hasAnyCapability :: "DeviceService \<Rightarrow> string list \<Rightarrow> bool" where
  "svc_hasAnyCapability s capabilities =
     enumerateObjects (\<lambda>c hasAny. if svc_hasCapability s c then (True, True) else (hasAny, False))
       capabilities False"

definition svc_tell :: "DeviceService \<Rightarrow> svcSelector \<Rightarrow> svcEvent \<Rightarrow> svcEvent list" where
  "svc_tell s sel e = (if svc_responds (svc_delegate s) sel then [e] else [])"

definition svc_setCapabilities :: "string list \<Rightarrow> DeviceService \<Rightarrow> DeviceService \<times> svcEvent list" where
  "svc_setCapabilities newCapabilities s =
     (let oldCapabilities = svc_capabilities s;
          s' = s\<lparr>svc_capabilities := newCapabilities\<rparr>;
          lost = fold (\<lambda>c acc. if c \<notin> set newCapabilities then acc @ [c] else acc) oldCapabilities [];
          added = fold (\<lambda>c acc. if c \<notin> set oldCapabilities then acc @ [c] else acc) newCapabilities []
      in (s', svc_tell s' SelCapabilitiesAdded (CapabilitiesChanged added lost)))"

definition svc_addCapability :: "string \<Rightarrow> DeviceService \<Rightarrow> DeviceService \<times> svcEvent list" where
  "svc_addCapability capability s =
     (if capability = [] then (s, [])
      else if svc_hasCapability s capability then (s, [])
      else let s' = s\<lparr>svc_capabilities := svc_capabilities s @ [capability]\<rparr>
           in (s', svc_tell s' SelCapabilitiesAdded (CapabilitiesChanged [capability] [])))"

definition svc_addCapabilities :: "string list \<Rightarrow> DeviceService \<Rightarrow> DeviceService \<times> svcEvent list" where
  "svc_addCapabilities capabilities s =
     (let s' = fold (\<lambda>c t. if c = [] then t else if svc_hasCapability t c then t
            else t\<lparr>svc_capabilities := svc_capabilities t @ [c]\<rparr>) capabilities s
      in (s', svc_tell s' SelCapabilitiesAdded (CapabilitiesChanged capabilities [])))"

text \<open>\<open>do { removeObject } while (containsObject)\<close>: \<open>removeObject:\<close> removes every occurrence.\<close>

function removeObjectLoop :: "string \<Rightarrow> string list \<Rightarrow> string list" where
  "removeObjectLoop c xs = (let ys = removeAll c xs in
     if c \<in> set ys then removeObjectLoop c ys else ys)"
  by pat_completeness auto
termination
  by (relation "measure (\<lambda>(c, xs). length xs)") auto

definition svc_removeCapability :: "string \<Rightarrow> DeviceService \<Rightarrow> DeviceService \<times> svcEvent list" where
  "svc_removeCapability capability s =
     (if capability = [] then (s, [])
      else if \<not> svc_hasCapability s capability then (s, [])
      else let s' = s\<lparr>svc_capabilities := removeObjectLoop capability (svc_capabilities s)\<rparr>
           in (s', svc_tell s' SelCapabilitiesAdded (CapabilitiesChanged [] [capability])))"

definition svc_removeCapabilities :: "string list \<Rightarrow> DeviceService \<Rightarrow> DeviceService \<times> svcEvent list" where
  "svc_removeCapabilities capabilities s =
     (let s' = fold (\<lambda>c t. if c = [] then t else if \<not> svc_hasCapability t c then t
            else t\<lparr>svc_capabilities := removeObjectLoop c (svc_capabilities t)\<rparr>) capabilities s
      in (s', svc_tell s' SelCapabilitiesAdded (CapabilitiesChanged [] capabilities)))"

subsection \<open>JSON coding\<close>

text \<open>The heap gives the description a reference points to; an encoded service is a dictionary.\<close>

definition svc_toJSONObject :: "(nat \<Rightarrow> ServiceDescription) \<Rightarrow> DeviceService \<Rightarrow> jdict" where
  "svc_toJSONObject heap s =
     (setIfPresent (map_option (\<lambda>r. JObj (sd_toJSONObject (heap r))) (svc_description s)) ''description'' \<circ>
      setIfPresent (map_option (\<lambda>c. JObj (cfg_toJSONObject c)) (svc_config s)) ''config'' \<circ>
      setObject (JStr (svc_class s)) ''class'') []"

text \<open>
  Decoding gives the service and the description object it creates, which the caller allocates.
\<close>

definition svc_initWithJSONObject ::
  "ServiceClass \<Rightarrow> jdict \<Rightarrow> (DeviceService \<times> ServiceDescription option) result" where
  "svc_initWithJSONObject cls d =
     rbind (case asObject (objectForKey d ''config'') of
              None \<Rightarrow> Inr None | Some cd \<Rightarrow> cfg_serviceConfigWithJSONObject cd) (\<lambda>config.
     rbind (case asObject (objectForKey d ''description'') of
              None \<Rightarrow> Inr None
            | Some dd \<Rightarrow> rbind (sd_initWithJSONObject dd) (\<lambda>sd. Inr (Some sd))) (\<lambda>sd.
       Inr (svc_initWithServiceConfig cls config, sd)))"

definition deviceServiceWithJSONObject ::
  "(string \<Rightarrow> ServiceClass option) \<Rightarrow> jdict \<Rightarrow> (DeviceService \<times> ServiceDescription option) option result" where
  "deviceServiceWithJSONObject classes d =
     (case asString (objectForKey d ''class'') of
        None \<Rightarrow> Inr None
      | Some className \<Rightarrow> if className = [] then Inr None
          else (case classes className of
                  None \<Rightarrow> Inr None
                | Some cls \<Rightarrow> rbind (svc_initWithJSONObject cls d) (\<lambda>s. Inr (Some s))))"

section \<open>LaunchSession\<close>

text \<open>
  A session refers to its service weakly; what the code uses of it is its name and the capability
  protocols its class conforms to.
\<close>

datatype capProtocol = ProtoLauncher | ProtoMediaPlayer | ProtoExternalInputControl | ProtoWebAppLauncher

record sessionService =
  ss_serviceName :: "string option"
  ss_conforms :: "capProtocol list"

record LaunchSession =
  ls_appId :: "string option"
  ls_name :: "string option"
  ls_sessionId :: "string option"
  ls_rawData :: "json option"
  ls_sessionType :: int
  ls_service :: "sessionService option"

definition launchSessionForAppId :: "string option \<Rightarrow> LaunchSession" where
  "launchSessionForAppId appId = \<lparr>ls_appId = appId, ls_name = None, ls_sessionId = None,
     ls_rawData = None, ls_sessionType = 0, ls_service = None\<rparr>"

fun integerValue :: "json option \<Rightarrow> int result" where
  "integerValue None = Inr 0"
| "integerValue (Some (JNum r)) = Inr (trunc r)"
| "integerValue (Some (JBool b)) = Inr (if b then 1 else 0)"
| "integerValue (Some (JStr s)) = Inr (string_int s)"
| "integerValue (Some _) = Inl NSInvalidArgumentException"

definition ls_initWithJSONObject :: "jdict \<Rightarrow> LaunchSession result" where
  "ls_initWithJSONObject json =
     rbind (integerValue (objectForKey json ''sessionType'')) (\<lambda>t.
       Inr \<lparr>ls_appId = asString (objectForKey json ''appId''),
            ls_name = asString (objectForKey json ''name''),
            ls_sessionId = asString (objectForKey json ''sessionId''),
            ls_rawData = objectForKey json ''rawData'',
            ls_sessionType = t, ls_service = None\<rparr>)"

fun rawDataEncodable :: "json \<Rightarrow> bool" where
  "rawDataEncodable (JObj _) = True"
| "rawDataEncodable (JArr _) = True"
| "rawDataEncodable (JStr _) = True"
| "rawDataEncodable _ = False"

text \<open>\<open>setObject:forKey:\<close> with a nil service name raises.\<close>

definition ls_toJSONObject :: "LaunchSession \<Rightarrow> jdict result" where
  "ls_toJSONObject l =
     (let base = (setIfPresent (if ls_sessionType l \<noteq> 0 then Some (JNum (real_of_int (ls_sessionType l))) else None) ''sessionType'' \<circ>
            setIfPresent (map_option JStr (ls_name l)) ''name'' \<circ>
            setIfPresent (map_option JStr (ls_sessionId l)) ''sessionId'' \<circ>
            setIfPresent (map_option JStr (ls_appId l)) ''appId'') [] in
      rbind (case ls_service l of
               None \<Rightarrow> Inr base
             | Some s \<Rightarrow> (case ss_serviceName s of
                   None \<Rightarrow> Inl NSInvalidArgumentException
                 | Some n \<Rightarrow> Inr (setObject (JStr n) ''serviceName'' base))) (\<lambda>d.
        Inr (case ls_rawData l of
               None \<Rightarrow> d
             | Some r \<Rightarrow> if rawDataEncodable r then setObject r ''rawData'' d else d)))"

definition ls_isEqual :: "LaunchSession \<Rightarrow> LaunchSession \<Rightarrow> bool" where
  "ls_isEqual a b = (isEqualToString (ls_appId b) (ls_appId a)
     \<and> isEqualToString (ls_sessionId b) (ls_sessionId a))"

text \<open>What \<open>closeLaunchSession:success:failure:\<close> does: call the failure block, forward, or nothing.\<close>

datatype closeOutcome =
    CloseFailed NSError
  | CloseApp
  | CloseMedia
  | CloseInputPicker
  | CloseWebApp
  | CloseSilent

definition closeLaunchSession :: "LaunchSession option \<Rightarrow> closeOutcome" where
  "closeLaunchSession launchSession = (case launchSession of
      None \<Rightarrow> CloseFailed (generateErrorWithCode ConnectStatusCodeArgumentError
                (Some ''You must provice a valid LaunchSession object''))
    | Some l \<Rightarrow> (case ls_service l of
        None \<Rightarrow> CloseFailed (generateErrorWithCode ConnectStatusCodeArgumentError
                (Some ''This LaunchSession does not have an associated DeviceService''))
      | Some s \<Rightarrow>
          if ls_sessionType l = 1 then
            (if ProtoLauncher \<in> set (ss_conforms s) then CloseApp else CloseSilent)
          else if ls_sessionType l = 3 then
            (if ProtoMediaPlayer \<in> set (ss_conforms s) then CloseMedia else CloseSilent)
          else if ls_sessionType l = 2 then
            (if ProtoExternalInputControl \<in> set (ss_conforms s) then CloseInputPicker else CloseSilent)
          else if ls_sessionType l = 4 then
            (if ProtoWebAppLauncher \<in> set (ss_conforms s) then CloseWebApp else CloseSilent)
          else CloseFailed (generateErrorWithCode ConnectStatusCodeArgumentError
                (Some ''This DeviceService does not know how to close this LaunchSession''))))"

definition ls_closeWithSuccess :: "LaunchSession \<Rightarrow> closeOutcome" where
  "ls_closeWithSuccess l = (if ls_service l = None
     then CloseFailed (generateErrorWithCode ConnectStatusCodeArgumentError
            (Some ''This LaunchSession has no DeviceService reference''))
     else closeLaunchSession (Some l))"

section \<open>Properties of capability lists\<close>

text \<open>The well-formed capability names of an operation: non-empty, and not led by the wildcard.\<close>

definition plainCapability :: "string \<Rightarrow> bool" where
  "plainCapability c \<longleftrightarrow> c \<noteq> [] \<and> \<not> hasPrefix c ''.Any''"

definition caps_inv :: "string list \<Rightarrow> bool" where
  "caps_inv cs \<longleftrightarrow> distinct cs \<and> [] \<notin> set cs"

lemma removeObjectLoop_eq [simp]: "removeObjectLoop c xs = removeAll c xs"
  by (subst removeObjectLoop.simps) simp

declare removeObjectLoop.simps [simp del]

lemma caps_hasCapability_wildcard:
  "rangeOfString c ''.Any'' = Some i \<Longrightarrow>
    caps_hasCapability caps c \<longleftrightarrow> (\<exists>item\<in>set caps. take i c \<noteq> [] \<and> sublist (take i c) item)"
  by (simp only: caps_hasCapability_def option.case Let_def enumerate_any rangeOfString_found_iff simp_thms)

lemma caps_hasCapability_plain:
  "rangeOfString c ''.Any'' = None \<Longrightarrow> caps_hasCapability caps c \<longleftrightarrow> c \<in> set caps"
  by (simp add: caps_hasCapability_def)

lemma rangeOfString_zero: "rangeOfString s t = Some 0 \<Longrightarrow> hasPrefix s t"
  by (metis add_0 drop0 findFrom_Some_take hasPrefix_def option.distinct(1) rangeOfString_def)

lemma caps_hasCapability_member:
  assumes "c \<in> set caps" "plainCapability c"
  shows "caps_hasCapability caps c"
proof (cases "rangeOfString c ''.Any''")
  case None
  with assms show ?thesis by (simp add: caps_hasCapability_plain)
next
  case (Some i)
  then have "0 < i"
    using assms(2) rangeOfString_zero by (cases i) (auto simp: plainCapability_def)
  moreover have "sublist (take i c) c" by (simp add: sublist_take)
  ultimately show ?thesis
    using assms by (auto simp: caps_hasCapability_wildcard [OF Some] plainCapability_def)
qed

text \<open>The list after one element of \<open>addCapability:\<close> and of \<open>removeCapability:\<close>.\<close>

definition caps_add :: "string \<Rightarrow> string list \<Rightarrow> string list" where
  "caps_add c caps = (if c = [] \<or> caps_hasCapability caps c then caps else caps @ [c])"

definition caps_remove :: "string \<Rightarrow> string list \<Rightarrow> string list" where
  "caps_remove c caps = (if c = [] \<or> \<not> caps_hasCapability caps c then caps else removeAll c caps)"

lemma svc_addCapability_caps [simp]:
  "svc_capabilities (fst (svc_addCapability c s)) = caps_add c (svc_capabilities s)"
  by (simp add: svc_addCapability_def caps_add_def svc_hasCapability_def Let_def)

lemma svc_removeCapability_caps [simp]:
  "svc_capabilities (fst (svc_removeCapability c s)) = caps_remove c (svc_capabilities s)"
  by (simp add: svc_removeCapability_def caps_remove_def svc_hasCapability_def Let_def)

lemma svc_addCapabilities_caps [simp]:
  "svc_capabilities (fst (svc_addCapabilities cs s)) = fold caps_add cs (svc_capabilities s)"
proof -
  have "svc_capabilities (fold (\<lambda>c t. if c = [] then t else if svc_hasCapability t c then t
            else t\<lparr>svc_capabilities := svc_capabilities t @ [c]\<rparr>) cs s)
        = fold caps_add cs (svc_capabilities s)"
    by (induction cs arbitrary: s) (auto simp: caps_add_def svc_hasCapability_def)
  then show ?thesis by (simp add: svc_addCapabilities_def Let_def)
qed

lemma svc_removeCapabilities_caps [simp]:
  "svc_capabilities (fst (svc_removeCapabilities cs s)) = fold caps_remove cs (svc_capabilities s)"
proof -
  have "svc_capabilities (fold (\<lambda>c t. if c = [] then t else if \<not> svc_hasCapability t c then t
            else t\<lparr>svc_capabilities := removeObjectLoop c (svc_capabilities t)\<rparr>) cs s)
        = fold caps_remove cs (svc_capabilities s)"
    by (induction cs arbitrary: s) (auto simp: caps_remove_def svc_hasCapability_def)
  then show ?thesis by (simp add: svc_removeCapabilities_def Let_def)
qed

lemma caps_add_inv: "plainCapability c \<Longrightarrow> caps_inv caps \<Longrightarrow> caps_inv (caps_add c caps)"
  using caps_hasCapability_member by (auto simp: caps_add_def caps_inv_def plainCapability_def)

lemma caps_remove_inv: "caps_inv caps \<Longrightarrow> caps_inv (caps_remove c caps)"
  by (auto simp: caps_remove_def caps_inv_def distinct_removeAll)

lemma caps_remove_plain: "plainCapability c \<Longrightarrow> caps_remove c caps = removeAll c caps"
  using caps_hasCapability_member [of c caps]
  by (auto simp: caps_remove_def plainCapability_def intro: removeAll_id [symmetric])

lemma caps_add_fold_inv:
  "\<forall>c\<in>set cs. plainCapability c \<Longrightarrow> caps_inv caps \<Longrightarrow> caps_inv (fold caps_add cs caps)"
  by (induction cs arbitrary: caps) (auto intro: caps_add_inv)

lemma caps_remove_fold_inv: "caps_inv caps \<Longrightarrow> caps_inv (fold caps_remove cs caps)"
  by (induction cs arbitrary: caps) (auto intro: caps_remove_inv)

text \<open>The operations on a service's capabilities, as one sequence of steps.\<close>

datatype capOp =
    SetCaps "string list"
  | AddCap string | AddCaps "string list"
  | RemoveCap string | RemoveCaps "string list"

fun capStep :: "capOp \<Rightarrow> DeviceService \<Rightarrow> DeviceService \<times> svcEvent list" where
  "capStep (SetCaps cs) s = svc_setCapabilities cs s"
| "capStep (AddCap c) s = svc_addCapability c s"
| "capStep (AddCaps cs) s = svc_addCapabilities cs s"
| "capStep (RemoveCap c) s = svc_removeCapability c s"
| "capStep (RemoveCaps cs) s = svc_removeCapabilities cs s"

fun capOp_ok :: "capOp \<Rightarrow> bool" where
  "capOp_ok (SetCaps cs) = caps_inv cs"
| "capOp_ok (AddCap c) = (c = [] \<or> plainCapability c)"
| "capOp_ok (AddCaps cs) = (\<forall>c\<in>set cs. plainCapability c)"
| "capOp_ok _ = True"

definition capRun :: "capOp list \<Rightarrow> DeviceService \<Rightarrow> DeviceService" where
  "capRun ops s = fold (\<lambda>op t. fst (capStep op t)) ops s"

lemma capStep_inv:
  "capOp_ok op \<Longrightarrow> caps_inv (svc_capabilities s) \<Longrightarrow> caps_inv (svc_capabilities (fst (capStep op s)))"
  by (cases op)
     (auto simp: svc_setCapabilities_def Let_def caps_add_def
       intro: caps_add_inv caps_add_fold_inv caps_remove_inv caps_remove_fold_inv
       dest: caps_add_inv split: if_splits)

text \<open>
  C20: Whatever sequence of capability operations a service runs (setting the list, adding, removing,
  one or many), a capability list without duplicates and without the empty name stays so, as long as
  the lists set have this form and no added name starts with the wildcard ".Any".
\<close>
theorem capRun_caps_inv:
  assumes "\<forall>op\<in>set ops. capOp_ok op" "caps_inv (svc_capabilities s)"
  shows "caps_inv (svc_capabilities (capRun ops s))"
  using assms
proof (induction ops arbitrary: s)
  case Nil
  then show ?case by (simp add: capRun_def)
next
  case (Cons op ops)
  then have "caps_inv (svc_capabilities (fst (capStep op s)))" by (simp add: capStep_inv)
  with Cons show ?case by (simp add: capRun_def)
qed

theorem capRun_caps_inv_witness:
  "caps_inv (svc_capabilities (capRun [AddCap ''Launcher.App'', AddCap ''Launcher.App'', RemoveCap ''Launcher.Any'']
     (svc_initWithServiceConfig DeviceService_class None)))"
proof (rule capRun_caps_inv)
  show "\<forall>op\<in>set [AddCap ''Launcher.App'', AddCap ''Launcher.App'', RemoveCap ''Launcher.Any'']. capOp_ok op"
    by (simp add: plainCapability_def hasPrefix_def)
  show "caps_inv (svc_capabilities (svc_initWithServiceConfig DeviceService_class None))"
    by (simp add: svc_initWithServiceConfig_def DeviceService_class_def caps_inv_def)
qed

text \<open>
  Setting the capability list tells a responding delegate exactly once, with the names that are
  new and the names that are lost: the two lists are the set differences of the new and the old list,
  and the stored list is the new one.
\<close>
theorem svc_setCapabilities_differences:
  "svc_capabilities (fst (svc_setCapabilities new s)) = new
   \<and> (\<exists>added lost. snd (svc_setCapabilities new s)
        = (if svc_responds (svc_delegate s) SelCapabilitiesAdded then [CapabilitiesChanged added lost] else [])
      \<and> set added = set new - set (svc_capabilities s)
      \<and> set lost = set (svc_capabilities s) - set new)"
proof -
  let ?added = "filter (\<lambda>c. c \<notin> set (svc_capabilities s)) new"
  let ?lost = "filter (\<lambda>c. c \<notin> set new) (svc_capabilities s)"
  have "snd (svc_setCapabilities new s)
        = (if svc_responds (svc_delegate s) SelCapabilitiesAdded then [CapabilitiesChanged ?added ?lost] else [])"
    using fold_filter_append [of "\<lambda>c. c \<notin> set (svc_capabilities s)" "\<lambda>c. c" new "[]"]
      fold_filter_append [of "\<lambda>c. c \<notin> set new" "\<lambda>c. c" "svc_capabilities s" "[]"]
    by (simp add: svc_setCapabilities_def Let_def svc_tell_def del: fold_filter_append)
  moreover have "set ?added = set new - set (svc_capabilities s)" "set ?lost = set (svc_capabilities s) - set new"
    by auto
  moreover have "svc_capabilities (fst (svc_setCapabilities new s)) = new"
    by (simp add: svc_setCapabilities_def Let_def)
  ultimately show ?thesis by blast
qed

text \<open>
  A query "p.Any" holds exactly when some capability of the service contains p anywhere, not only
  as its leading term.
\<close>
theorem svc_hasCapability_wildcard:
  assumes "p \<noteq> []" "rangeOfString (p @ ''.Any'') ''.Any'' = Some (length p)"
  shows "svc_hasCapability s (p @ ''.Any'') \<longleftrightarrow> (\<exists>c\<in>set (svc_capabilities s). sublist p c)"
  using assms by (simp add: svc_hasCapability_def caps_hasCapability_wildcard [OF assms(2)])

theorem svc_hasCapability_wildcard_witness:
  "svc_hasCapability ((svc_initWithServiceConfig DeviceService_class None)
      \<lparr>svc_capabilities := [''VolumeControl.Get'']\<rparr>) (''Volume'' @ ''.Any'')
   \<longleftrightarrow> (\<exists>c\<in>set [''VolumeControl.Get'']. sublist ''Volume'' c)"
  using svc_hasCapability_wildcard [OF _ _ , of "''Volume''"
      "(svc_initWithServiceConfig DeviceService_class None)\<lparr>svc_capabilities := [''VolumeControl.Get'']\<rparr>"]
  by (simp add: rangeOfString_def hasPrefix_def)

text \<open>
  A service with only the web app launcher capabilities answers YES to "Launcher.Any" although
  none of its capabilities has the leading term "Launcher": the wildcard matches inside a term.
\<close>
theorem launcher_wildcard_matches_webAppLauncher:
  "caps_hasCapability kWebAppLauncherCapabilities ''Launcher.Any''
   \<and> \<not> (\<exists>c\<in>set kWebAppLauncherCapabilities. hasPrefix c ''Launcher'')"
proof
  have at: "rangeOfString ''Launcher.Any'' ''.Any'' = Some 8"
    by (simp add: rangeOfString_def hasPrefix_def)
  have "''WebAppLauncher.Pin'' = ''WebApp'' @ ''Launcher'' @ ''.Pin''" by simp
  then have "sublist ''Launcher'' ''WebAppLauncher.Pin''" unfolding sublist_def by blast
  then show "caps_hasCapability kWebAppLauncherCapabilities ''Launcher.Any''"
    by (simp add: caps_hasCapability_wildcard [OF at] kWebAppLauncherCapabilities_def)
  show "\<not> (\<exists>c\<in>set kWebAppLauncherCapabilities. hasPrefix c ''Launcher'')"
    by (simp add: kWebAppLauncherCapabilities_def hasPrefix_def)
qed

text \<open>
  Removing capabilities leaves exactly the other ones, in their order, for names that do not start
  with the wildcard; a responding delegate is told the list it was asked to remove.
\<close>
theorem svc_removeCapabilities_filter:
  assumes "\<forall>c\<in>set cs. plainCapability c"
  shows "svc_capabilities (fst (svc_removeCapabilities cs s)) = filter (\<lambda>c. c \<notin> set cs) (svc_capabilities s)"
proof -
  have "fold caps_remove cs caps = filter (\<lambda>c. c \<notin> set cs) caps" for caps
    using assms
  proof (induction cs arbitrary: caps)
    case (Cons c cs)
    then show ?case by (auto simp: caps_remove_plain removeAll_filter_not_eq intro: filter_cong)
  qed simp
  then show ?thesis by simp
qed

theorem svc_removeCapabilities_filter_witness:
  "svc_capabilities (fst (svc_removeCapabilities [''A'']
      ((svc_initWithServiceConfig DeviceService_class None)\<lparr>svc_capabilities := [''A'', ''B'', ''A'']\<rparr>))) = [''B'']"
  using svc_removeCapabilities_filter [of "[''A'']"
      "(svc_initWithServiceConfig DeviceService_class None)\<lparr>svc_capabilities := [''A'', ''B'', ''A'']\<rparr>"]
  by (simp add: plainCapability_def hasPrefix_def del: svc_removeCapabilities_caps)

section \<open>Properties of launch sessions\<close>

text \<open>The raw data a session's JSON form keeps.\<close>

definition keptRawData :: "LaunchSession \<Rightarrow> json option" where
  "keptRawData l = (case ls_rawData l of
      None \<Rightarrow> None | Some r \<Rightarrow> if rawDataEncodable r then Some r else None)"

lemma asString_JStr [simp]: "asString (map_option JStr x) = x"
  by (cases x) simp_all

text \<open>
  Decoding the JSON form of a launch session gives the session back, without the weak service
  reference and without raw data that is neither a dictionary, an array nor a string.
\<close>
theorem ls_json_roundtrip:
  assumes "ls_toJSONObject l = Inr d"
  shows "ls_initWithJSONObject d = Inr (l\<lparr>ls_service := None, ls_rawData := keptRawData l\<rparr>)"
proof -
  have keys:
    "objectForKey d ''sessionType'' =
       (if ls_sessionType l = 0 then None else Some (JNum (real_of_int (ls_sessionType l))))"
    "objectForKey d ''appId'' = map_option JStr (ls_appId l)"
    "objectForKey d ''name'' = map_option JStr (ls_name l)"
    "objectForKey d ''sessionId'' = map_option JStr (ls_sessionId l)"
    "objectForKey d ''rawData'' = keptRawData l"
    using assms
    by (auto simp: ls_toJSONObject_def Let_def rbind_Inr_iff keptRawData_def
        split: option.splits if_splits)
  have t: "integerValue (objectForKey d ''sessionType'') = Inr (ls_sessionType l)"
    by (simp add: keys)
  show ?thesis
    unfolding ls_initWithJSONObject_def t rbind_simps keys asString_JStr by simp
qed

theorem ls_json_roundtrip_witness:
  "ls_initWithJSONObject [(''appId'', JStr ''YouTube''), (''sessionType'', JNum 1)]
   = Inr ((launchSessionForAppId (Some ''YouTube''))\<lparr>ls_sessionType := 1\<rparr>)"
proof -
  let ?l = "(launchSessionForAppId (Some ''YouTube''))\<lparr>ls_sessionType := 1\<rparr>"
  have "ls_toJSONObject ?l = Inr [(''appId'', JStr ''YouTube''), (''sessionType'', JNum 1)]"
    by (simp add: ls_toJSONObject_def launchSessionForAppId_def setIfPresent_def setObject_def)
  from ls_json_roundtrip [OF this] show ?thesis
    by (simp add: launchSessionForAppId_def keptRawData_def)
qed

text \<open>
  Closing a session calls neither a capability method nor the failure block exactly when the session
  has one of the four known types and its service does not implement the matching protocol.
\<close>
theorem closeLaunchSession_silent_iff:
  "closeLaunchSession ls = CloseSilent \<longleftrightarrow>
     (\<exists>l s p. ls = Some l \<and> ls_service l = Some s \<and> p \<notin> set (ss_conforms s)
       \<and> (ls_sessionType l, p) \<in> {(1, ProtoLauncher), (2, ProtoExternalInputControl),
            (3, ProtoMediaPlayer), (4, ProtoWebAppLauncher)})"
  by (auto simp: closeLaunchSession_def split: option.splits)

end
