(* ===== verification/ConnectableDevice.thy ===== *)
theory ConnectableDevice
  imports DeviceService
begin

text \<open>
  \<open>Devices/ConnectableDevice\<close>: a device that aggregates the services found at one address, with its
  consolidated description, its delegate messages, and the choice of a capability provider.

  Descriptions are objects that a device and its services may share, so they live in a heap and the
  records hold references. What an operation posts for the delegate, for the device store and for the
  discovery manager is its list of outputs, in the order the code posts it.
\<close>

section \<open>State\<close>

type_synonym sdHeap = "nat \<Rightarrow> ServiceDescription"

datatype cdSelector =
    CdSelConnectionRequired | CdSelConnectionSuccess | CdSelConnectionFailed | CdSelServiceFailConnect
  | CdSelServiceDisconnected | CdSelPairingRequired | CdSelPairingSuccess | CdSelPairingFailed
  | CdSelCapabilities

datatype cdEvent =
    CdReady
  | CdDisconnected "NSError option"
  | CdConnectionRequired "string option"
  | CdConnectionSuccess "string option"
  | CdConnectionFailed "NSError option"
  | CdServiceFailConnect "string option" "NSError option"
  | CdServiceDisconnected "string option" "NSError option"
  | CdPairingRequired "string option" DeviceServicePairingType
  | CdPairingSuccess "string option"
  | CdPairingFailed "string option" "NSError option"
  | CdCapabilities "string list" "string list"

datatype cdOutput =
    Tell cdEvent
  | ServicePosts "string option" svcEvent
  | ManagerCapabilities "string list" "string list"
  | StoreAddDevice
  | ShowPairingAlert

record ConnectableDevice =
  cd_description :: "nat option"
  cd_services :: "DeviceService nsdict"
  cd_id :: "string option"
  cd_lastKnownIPAddress :: "string option"
  cd_lastSeenOnWifi :: "string option"
  cd_lastConnected :: real
  cd_lastDetection :: real
  cd_delegate :: "cdSelector list option"
  cd_ssidObservers :: nat

text \<open>A message the delegate must implement, and one it may implement.\<close>

definition cd_tell :: "ConnectableDevice \<Rightarrow> cdEvent \<Rightarrow> cdOutput list" where
  "cd_tell d e = (case cd_delegate d of None \<Rightarrow> [] | Some _ \<Rightarrow> [Tell e])"

definition cd_tellIf :: "ConnectableDevice \<Rightarrow> cdSelector \<Rightarrow> cdEvent \<Rightarrow> cdOutput list" where
  "cd_tellIf d sel e = (case cd_delegate d of None \<Rightarrow> []
     | Some sels \<Rightarrow> if sel \<in> set sels then [Tell e] else [])"

text \<open>The name, the time of detection and the connectability of a service.\<close>

definition serviceName :: "sdHeap \<Rightarrow> DeviceService \<Rightarrow> string option" where
  "serviceName heap s = Option.bind (svc_description s) (\<lambda>r. sd_serviceId (heap r))"

definition svc_lastDetection :: "sdHeap \<Rightarrow> DeviceService \<Rightarrow> real" where
  "svc_lastDetection heap s = (case svc_description s of None \<Rightarrow> 0 | Some r \<Rightarrow> sd_lastDetection (heap r))"

type_synonym classTable = "string \<Rightarrow> ServiceClass"

definition svc_isConnectable :: "classTable \<Rightarrow> DeviceService \<Rightarrow> bool" where
  "svc_isConnectable ct s = cls_isConnectable (ct (svc_class s)) s"

definition svc_connect :: "classTable \<Rightarrow> DeviceService \<Rightarrow> DeviceService \<times> svcEvent list" where
  "svc_connect ct s = cls_connect (ct (svc_class s)) s"

definition svc_disconnect :: "classTable \<Rightarrow> DeviceService \<Rightarrow> DeviceService \<times> svcEvent list" where
  "svc_disconnect ct s = cls_disconnect (ct (svc_class s)) s"

section \<open>Creation and JSON coding\<close>

text \<open>\<open>init\<close> allocates the consolidated description at the fresh reference \<open>r\<close>.\<close>

definition cd_init :: "nat \<Rightarrow> sdHeap \<Rightarrow> ConnectableDevice \<times> sdHeap" where
  "cd_init r heap = (\<lparr>cd_description = Some r, cd_services = [], cd_id = None,
     cd_lastKnownIPAddress = None, cd_lastSeenOnWifi = None, cd_lastConnected = 0, cd_lastDetection = 0,
     cd_delegate = None, cd_ssidObservers = 0\<rparr>, heap(r := sd_new))"

definition cd_initWithDescription :: "nat \<Rightarrow> nat option \<Rightarrow> sdHeap \<Rightarrow> ConnectableDevice \<times> sdHeap" where
  "cd_initWithDescription r description heap =
     (case cd_init r heap of (d, heap') \<Rightarrow> (d\<lparr>cd_description := description\<rparr>, heap'))"

definition cd_get :: "(ServiceDescription \<Rightarrow> string option) \<Rightarrow> sdHeap \<Rightarrow> ConnectableDevice \<Rightarrow> string option" where
  "cd_get f heap d = Option.bind (cd_description d) (\<lambda>r. f (heap r))"

definition cd_address :: "sdHeap \<Rightarrow> ConnectableDevice \<Rightarrow> string option" where
  "cd_address = cd_get sd_address"

definition cd_friendlyName :: "sdHeap \<Rightarrow> ConnectableDevice \<Rightarrow> string option" where
  "cd_friendlyName = cd_get sd_friendlyName"

definition cd_modelName :: "sdHeap \<Rightarrow> ConnectableDevice \<Rightarrow> string option" where
  "cd_modelName = cd_get sd_modelName"

definition cd_modelNumber :: "sdHeap \<Rightarrow> ConnectableDevice \<Rightarrow> string option" where
  "cd_modelNumber = cd_get sd_modelNumber"

definition doubleIfPresent :: "json option \<Rightarrow> real result" where
  "doubleIfPresent j = (if presentNotNull j then doubleValue j else Inr 0)"

definition cd_initWithJSONObject :: "nat \<Rightarrow> sdHeap \<Rightarrow> jdict \<Rightarrow> (ConnectableDevice \<times> sdHeap) result" where
  "cd_initWithJSONObject r heap dict =
     (case cd_init r heap of (d0, heap0) \<Rightarrow>
        rbind (doubleIfPresent (objectForKey dict ''lastConnected'')) (\<lambda>lc.
        rbind (doubleIfPresent (objectForKey dict ''lastDetection'')) (\<lambda>ld.
          let d = d0\<lparr>cd_id := asString (objectForKey dict ''id''),
                     cd_lastKnownIPAddress := asString (objectForKey dict ''lastKnownIPAddress''),
                     cd_lastSeenOnWifi := asString (objectForKey dict ''lastSeenOnWifi''),
                     cd_lastConnected := lc, cd_lastDetection := ld\<rparr>
          in Inr (d, if cd_address heap0 d = None
                     then heap0(r := (heap0 r)\<lparr>sd_address := cd_lastKnownIPAddress d\<rparr>) else heap0))))"

text \<open>The \<open>id\<close> property creates a random identifier on first use; \<open>guid\<close> is the one it would create.\<close>

definition cd_getId :: "string \<Rightarrow> ConnectableDevice \<Rightarrow> ConnectableDevice \<times> string" where
  "cd_getId guid d = (case cd_id d of Some i \<Rightarrow> (d, i) | None \<Rightarrow> (d\<lparr>cd_id := Some guid\<rparr>, guid))"

definition nonZero :: "real \<Rightarrow> json option" where
  "nonZero x = (if x \<noteq> 0 then Some (JNum x) else None)"

fun servicesJSON :: "sdHeap \<Rightarrow> DeviceService list \<Rightarrow> jdict \<Rightarrow> jdict result" where
  "servicesJSON heap [] acc = Inr acc"
| "servicesJSON heap (s # ss) acc =
     rbind (setObjectN (JObj (svc_toJSONObject heap s))
              (Option.bind (svc_description s) (\<lambda>r. sd_UUID (heap r))) acc) (servicesJSON heap ss)"

definition cd_toJSONObject :: "string \<Rightarrow> sdHeap \<Rightarrow> ConnectableDevice \<Rightarrow> (ConnectableDevice \<times> jdict) result" where
  "cd_toJSONObject guid heap d0 =
     (case cd_getId guid d0 of (d, i) \<Rightarrow>
        (let base = (setIfPresent (nonZero (cd_lastDetection d)) ''lastDetection'' \<circ>
                     setIfPresent (nonZero (cd_lastConnected d)) ''lastConnected'' \<circ>
                     setIfPresent (map_option JStr (cd_lastSeenOnWifi d)) ''lastSeenOnWifi'' \<circ>
                     setIfPresent (map_option JStr (cd_lastKnownIPAddress d)) ''lastKnownIPAddress'' \<circ>
                     setIfPresent (map_option JStr (cd_friendlyName heap d)) ''friendlyName'' \<circ>
                     setObject (JStr i) ''id'') [] in
         rbind (servicesJSON heap (allValues (cd_services d)) []) (\<lambda>services.
           Inr (d, if length services > 0 then setObject (JObj services) ''services'' base else base))))"

section \<open>Connection state\<close>

definition cd_setDelegate ::
  "classTable \<Rightarrow> sdHeap \<Rightarrow> cdSelector list option \<Rightarrow> ConnectableDevice \<Rightarrow> ConnectableDevice \<times> cdOutput list" where
  "cd_setDelegate ct heap delegate d0 =
     (let d = d0\<lparr>cd_delegate := delegate\<rparr> in
      (d, concat (map (\<lambda>(k, s).
            if svc_isConnectable ct s \<and> \<not> svc_connected s
            then cd_tellIf d CdSelConnectionRequired (CdConnectionRequired (serviceName heap s)) else [])
            (cd_services d))))"

definition connectedServiceNames :: "ConnectableDevice \<Rightarrow> string result" where
  "connectedServiceNames d =
     (if length (cd_services d) = 0 then Inr []
      else (let serviceNames = fold (\<lambda>(k, s) acc. acc @ k @ '', '') (cd_services d) []
            in substringToIndex serviceNames (length serviceNames - 2)))"

definition connectedServiceCount :: "classTable \<Rightarrow> ConnectableDevice \<Rightarrow> nat" where
  "connectedServiceCount ct d =
     fold (\<lambda>(k, s) n. if svc_isConnectable ct s then (if svc_connected s then Suc n else n) else Suc n)
       (cd_services d) 0"

definition connectableServiceCount :: "classTable \<Rightarrow> ConnectableDevice \<Rightarrow> nat" where
  "connectableServiceCount ct d =
     fold (\<lambda>(k, s) n. if svc_isConnectable ct s then Suc n else n) (cd_services d) 0"

definition cd_connected :: "classTable \<Rightarrow> ConnectableDevice \<Rightarrow> bool" where
  "cd_connected ct d =
     (fold (\<lambda>(k, s) n. if \<not> svc_isConnectable ct s then Suc n
                       else if svc_connected s then Suc n else n) (cd_services d) 0
      \<ge> length (cd_services d))"

definition cd_isConnectable :: "classTable \<Rightarrow> ConnectableDevice \<Rightarrow> bool" where
  "cd_isConnectable ct d =
     enumerateObjects (\<lambda>(k, s) c. if svc_isConnectable ct s then (True, True) else (c, False))
       (cd_services d) False"

text \<open>Send a message to the services that a condition selects; collect what they post.\<close>

definition eachService ::
  "sdHeap \<Rightarrow> (DeviceService \<Rightarrow> bool) \<Rightarrow> (DeviceService \<Rightarrow> DeviceService \<times> svcEvent list) \<Rightarrow>
   DeviceService nsdict \<Rightarrow> DeviceService nsdict \<times> cdOutput list" where
  "eachService heap P f d =
     (map (\<lambda>(k, s). (k, if P s then fst (f s) else s)) d,
      concat (map (\<lambda>(k, s). if P s then map (ServicePosts (serviceName heap s)) (snd (f s)) else []) d))"

definition cd_connect ::
  "classTable \<Rightarrow> sdHeap \<Rightarrow> ConnectableDevice \<Rightarrow> ConnectableDevice \<times> cdOutput list" where
  "cd_connect ct heap d =
     (let (d', out) =
        (if cd_connected ct d then (d, cd_tell d CdReady)
         else (case eachService heap (\<lambda>s. \<not> svc_connected s) (svc_connect ct) (cd_services d) of
                 (ss, ev) \<Rightarrow> (d\<lparr>cd_services := ss\<rparr>, ev)))
      in (d'\<lparr>cd_ssidObservers := Suc (cd_ssidObservers d')\<rparr>, out))"

definition cd_disconnect ::
  "classTable \<Rightarrow> sdHeap \<Rightarrow> ConnectableDevice \<Rightarrow> ConnectableDevice \<times> cdOutput list" where
  "cd_disconnect ct heap d =
     (case eachService heap svc_connected (svc_disconnect ct) (cd_services d) of (ss, ev) \<Rightarrow>
        (d\<lparr>cd_services := ss, cd_ssidObservers := 0\<rparr>, ev @ cd_tell d (CdDisconnected None)))"

definition cd_setPairingType ::
  "classTable \<Rightarrow> DeviceServicePairingType \<Rightarrow> ConnectableDevice \<Rightarrow> ConnectableDevice" where
  "cd_setPairingType ct t d =
     d\<lparr>cd_services := map (\<lambda>(k, s). (k, cls_setPairingType (ct (svc_class s)) t s)) (cd_services d)\<rparr>"

section \<open>Capabilities\<close>

definition cd_capabilities :: "ConnectableDevice \<Rightarrow> string list" where
  "cd_capabilities d =
     fold (\<lambda>s caps. fold (\<lambda>c acc. if c \<notin> set acc then acc @ [c] else acc) (svc_capabilities s) caps)
       (allValues (cd_services d)) []"

definition cd_hasCapability :: "ConnectableDevice \<Rightarrow> string \<Rightarrow> bool" where
  "cd_hasCapability d capability =
     enumerateObjects (\<lambda>s hasCap. if svc_hasCapability s capability then (True, True) else (hasCap, False))
       (allValues (cd_services d)) False"

definition cd_hasCapabilities :: "ConnectableDevice \<Rightarrow> string list \<Rightarrow> bool" where
  "cd_hasCapabilities d capabilities =
     enumerateObjects (\<lambda>c hasCaps. if \<not> cd_hasCapability d c then (False, True) else (hasCaps, False))
       capabilities True"

definition cd_hasAnyCapability :: "ConnectableDevice \<Rightarrow> string list \<Rightarrow> bool" where
  "cd_hasAnyCapability d capabilities =
     enumerateObjects (\<lambda>s hasCap. if svc_hasAnyCapability s capabilities then (True, True) else (hasCap, False))
       (allValues (cd_services d)) False"

definition updateCapabilitiesList :: "string list \<Rightarrow> ConnectableDevice \<Rightarrow> cdOutput list" where
  "updateCapabilitiesList oldCapabilities d =
     (let newCapabilities = cd_capabilities d;
          removed = fold (\<lambda>c acc. if c \<notin> set newCapabilities then acc @ [c] else acc) oldCapabilities [];
          added = fold (\<lambda>c acc. if c \<notin> set oldCapabilities then acc @ [c] else acc) newCapabilities []
      in cd_tellIf d CdSelCapabilities (CdCapabilities added removed))"

section \<open>Services\<close>

definition hasServices :: "ConnectableDevice \<Rightarrow> bool" where
  "hasServices d = (length (cd_services d) > 0)"

definition updateConsolidatedServiceDescription :: "nat option \<Rightarrow> sdHeap \<Rightarrow> ConnectableDevice \<Rightarrow> sdHeap" where
  "updateConsolidatedServiceDescription sref heap d =
     (case (sref, cd_description d) of
        (Some r, Some c) \<Rightarrow>
          (let f = (\<lambda>get set h. case get (h r) of None \<Rightarrow> h | Some v \<Rightarrow> h(c := set v (h c)));
               h1 = f sd_address (\<lambda>v x. x\<lparr>sd_address := Some v\<rparr>) heap;
               h2 = f sd_friendlyName (\<lambda>v x. x\<lparr>sd_friendlyName := Some v\<rparr>) h1;
               h3 = f sd_modelName (\<lambda>v x. x\<lparr>sd_modelName := Some v\<rparr>) h2
           in f sd_modelNumber (\<lambda>v x. x\<lparr>sd_modelNumber := Some v\<rparr>) h3)
      | _ \<Rightarrow> heap)"

definition removeServiceWithId ::
  "classTable \<Rightarrow> sdHeap \<Rightarrow> string option \<Rightarrow> ConnectableDevice \<Rightarrow> ConnectableDevice \<times> cdOutput list" where
  "removeServiceWithId ct heap serviceId d =
     (case serviceId of
        None \<Rightarrow> (d, [])
      | Some sid \<Rightarrow>
         (case objectForKey (cd_services d) sid of
            None \<Rightarrow> (d, [])
          | Some s \<Rightarrow>
              (let oldCapabilities = cd_capabilities d;
                   posts = map (ServicePosts (serviceName heap s)) (snd (svc_disconnect ct s));
                   d' = d\<lparr>cd_services := removeObjectForKey sid (cd_services d)\<rparr>
               in (d', posts @ updateCapabilitiesList oldCapabilities d'))))"

text \<open>
  \<open>addService:\<close>. The first part decides whether an existing service of the same name gives way; the
  second stores the service. Storing nil, or under a nil name, raises.
\<close>

definition replaceService ::
  "classTable \<Rightarrow> sdHeap \<Rightarrow> string \<Rightarrow> DeviceService \<Rightarrow> ConnectableDevice \<Rightarrow> ConnectableDevice \<times> cdOutput list" where
  "replaceService ct heap name existing d =
     (let (existing', posts) = (if svc_connected existing then svc_disconnect ct existing else (existing, []));
          d' = d\<lparr>cd_services := setObject existing' name (cd_services d)\<rparr>;
          (d'', out) = removeServiceWithId ct heap (serviceName heap existing') d'
      in (d'', map (ServicePosts (serviceName heap existing)) posts @ out))"

definition storeService ::
  "classTable \<Rightarrow> sdHeap \<Rightarrow> string list \<Rightarrow> DeviceService \<Rightarrow> string \<Rightarrow> ConnectableDevice \<Rightarrow>
   ConnectableDevice \<times> sdHeap \<times> cdOutput list" where
  "storeService ct heap oldCapabilities s0 name d =
     (let s = (if svc_delegate s0 = None then s0\<lparr>svc_delegate := Some OwningDevice\<rparr> else s0);
          d' = d\<lparr>cd_services := setObject s name (cd_services d)\<rparr>;
          required = (if svc_isConnectable ct s \<and> \<not> svc_connected s
            then cd_tellIf d' CdSelConnectionRequired (CdConnectionRequired (serviceName heap s)) else [])
      in (d', updateConsolidatedServiceDescription (svc_description s) heap d',
          required @ updateCapabilitiesList oldCapabilities d'))"

definition cd_addService ::
  "classTable \<Rightarrow> sdHeap \<Rightarrow> DeviceService option \<Rightarrow> ConnectableDevice \<Rightarrow>
   (ConnectableDevice \<times> sdHeap \<times> cdOutput list) result" where
  "cd_addService ct heap service d =
     (case service of
        None \<Rightarrow> Inl NSInvalidArgumentException
      | Some s \<Rightarrow>
          (case serviceName heap s of
             None \<Rightarrow> Inl NSInvalidArgumentException
           | Some name \<Rightarrow>
               (let oldCapabilities = cd_capabilities d in
                case objectForKey (cd_services d) name of
                  None \<Rightarrow> Inr (storeService ct heap oldCapabilities s name d)
                | Some existing \<Rightarrow>
                    if svc_lastDetection heap s > svc_lastDetection heap existing
                    then (case replaceService ct heap name existing d of (d', out) \<Rightarrow>
                           (case storeService ct heap oldCapabilities s name d' of (d'', heap', out') \<Rightarrow>
                             Inr (d'', heap', out @ out')))
                    else Inr (d, heap, []))))"

definition serviceWithName :: "ConnectableDevice \<Rightarrow> string option \<Rightarrow> DeviceService option" where
  "serviceWithName d serviceId =
     enumerateObjects (\<lambda>(k, s) found. if isEqualToString (Some k) serviceId then (Some s, True) else (found, False))
       (cd_services d) None"

section \<open>Messages from services\<close>

text \<open>
  The device as the delegate of its services. \<open>now\<close> is the current time; \<open>n\<close> names the sender.
\<close>

definition cd_connectionRequired :: "string option \<Rightarrow> ConnectableDevice \<Rightarrow> cdOutput list" where
  "cd_connectionRequired n d = cd_tellIf d CdSelConnectionRequired (CdConnectionRequired n)"

definition cd_connectionSuccess ::
  "classTable \<Rightarrow> real \<Rightarrow> string option \<Rightarrow> ConnectableDevice \<Rightarrow> ConnectableDevice \<times> cdOutput list" where
  "cd_connectionSuccess ct now n d =
     (let told = cd_tellIf d CdSelConnectionSuccess (CdConnectionSuccess n) in
      if cd_connected ct d
      then (d\<lparr>cd_lastConnected := now\<rparr>, told @ [StoreAddDevice] @ cd_tell d CdReady)
      else (d, told))"

definition cd_didFailConnect :: "string option \<Rightarrow> NSError option \<Rightarrow> ConnectableDevice \<Rightarrow> cdOutput list" where
  "cd_didFailConnect n err d = cd_tellIf d CdSelConnectionFailed (CdConnectionFailed err)
     @ cd_tellIf d CdSelServiceFailConnect (CdServiceFailConnect n err)"

definition cd_disconnectedWithError ::
  "classTable \<Rightarrow> string option \<Rightarrow> NSError option \<Rightarrow> ConnectableDevice \<Rightarrow> cdOutput list" where
  "cd_disconnectedWithError ct n err d =
     (if connectedServiceCount ct d = 0 \<or> length (cd_services d) = 0
      then cd_tell d (CdDisconnected err) else [])
     @ cd_tellIf d CdSelServiceDisconnected (CdServiceDisconnected n err)"

definition cd_pairingRequired ::
  "string option \<Rightarrow> DeviceServicePairingType \<Rightarrow> ConnectableDevice \<Rightarrow> cdOutput list" where
  "cd_pairingRequired n t d =
     (case cd_delegate d of
        None \<Rightarrow> []
      | Some sels \<Rightarrow> if CdSelPairingRequired \<in> set sels then [Tell (CdPairingRequired n t)]
          else if t = PairingTypeAirPlayMirroring then [ShowPairingAlert] else [])"

definition cd_pairingSuccess :: "string option \<Rightarrow> ConnectableDevice \<Rightarrow> cdOutput list" where
  "cd_pairingSuccess n d = cd_tellIf d CdSelPairingSuccess (CdPairingSuccess n)"

definition cd_pairingFailed :: "string option \<Rightarrow> NSError option \<Rightarrow> ConnectableDevice \<Rightarrow> cdOutput list" where
  "cd_pairingFailed n err d = cd_tellIf d CdSelPairingFailed (CdPairingFailed n err)"

definition cd_capabilitiesChanged :: "string list \<Rightarrow> string list \<Rightarrow> ConnectableDevice \<Rightarrow> cdOutput list" where
  "cd_capabilitiesChanged added removed d =
     ManagerCapabilities added removed # cd_tellIf d CdSelCapabilities (CdCapabilities added removed)"

fun cd_receive ::
  "classTable \<Rightarrow> real \<Rightarrow> string option \<Rightarrow> svcEvent \<Rightarrow> ConnectableDevice \<Rightarrow> ConnectableDevice \<times> cdOutput list" where
  "cd_receive ct now n ConnectionRequired d = (d, cd_connectionRequired n d)"
| "cd_receive ct now n ConnectionSuccess d = cd_connectionSuccess ct now n d"
| "cd_receive ct now n (DidFailConnect e) d = (d, cd_didFailConnect n e d)"
| "cd_receive ct now n (DisconnectedWithError e) d = (d, cd_disconnectedWithError ct n e d)"
| "cd_receive ct now n (PairingRequired t) d = (d, cd_pairingRequired n t d)"
| "cd_receive ct now n PairingSuccess d = (d, cd_pairingSuccess n d)"
| "cd_receive ct now n (PairingFailed e) d = (d, cd_pairingFailed n e d)"
| "cd_receive ct now n (CapabilitiesChanged a r) d = (d, cd_capabilitiesChanged a r d)"

section \<open>Choice of a capability provider\<close>

text \<open>
  The block of every capability accessor of a device: skip a service that does not respond or answers
  nil, keep the first object found, replace it by one of strictly higher priority.
\<close>

definition accessorBlock ::
  "classTable \<Rightarrow> capAccessor \<Rightarrow> DeviceService \<Rightarrow> capObject option \<Rightarrow> capObject option" where
  "accessorBlock ct acc s found =
     (case cls_accessor (ct (svc_class s)) acc of
        None \<Rightarrow> found
      | Some get \<Rightarrow>
          (case get s of
             None \<Rightarrow> found
           | Some obj \<Rightarrow>
               (case found of
                  None \<Rightarrow> Some obj
                | Some f \<Rightarrow> if co_priority obj acc > co_priority f acc then Some obj else found)))"

definition launcher :: "classTable \<Rightarrow> ConnectableDevice \<Rightarrow> capObject option" where
  "launcher ct d = fold (\<lambda>(k, s). accessorBlock ct AccLauncher s) (cd_services d) None"

definition externalInputControl :: "classTable \<Rightarrow> ConnectableDevice \<Rightarrow> capObject option" where
  "externalInputControl ct d = fold (\<lambda>(k, s). accessorBlock ct AccExternalInputControl s) (cd_services d) None"

definition mediaPlayer :: "classTable \<Rightarrow> ConnectableDevice \<Rightarrow> capObject option" where
  "mediaPlayer ct d = fold (\<lambda>(k, s). accessorBlock ct AccMediaPlayer s) (cd_services d) None"

definition mediaControl :: "classTable \<Rightarrow> ConnectableDevice \<Rightarrow> capObject option" where
  "mediaControl ct d = fold (\<lambda>(k, s). accessorBlock ct AccMediaControl s) (cd_services d) None"

definition volumeControl :: "classTable \<Rightarrow> ConnectableDevice \<Rightarrow> capObject option" where
  "volumeControl ct d = fold (\<lambda>(k, s). accessorBlock ct AccVolumeControl s) (cd_services d) None"

definition tvControl :: "classTable \<Rightarrow> ConnectableDevice \<Rightarrow> capObject option" where
  "tvControl ct d = fold (\<lambda>(k, s). accessorBlock ct AccTVControl s) (cd_services d) None"

definition keyControl :: "classTable \<Rightarrow> ConnectableDevice \<Rightarrow> capObject option" where
  "keyControl ct d = fold (\<lambda>(k, s). accessorBlock ct AccKeyControl s) (cd_services d) None"

definition textInputControl :: "classTable \<Rightarrow> ConnectableDevice \<Rightarrow> capObject option" where
  "textInputControl ct d = fold (\<lambda>(k, s). accessorBlock ct AccTextInputControl s) (cd_services d) None"

definition mouseControl :: "classTable \<Rightarrow> ConnectableDevice \<Rightarrow> capObject option" where
  "mouseControl ct d = fold (\<lambda>(k, s). accessorBlock ct AccMouseControl s) (cd_services d) None"

definition powerControl :: "classTable \<Rightarrow> ConnectableDevice \<Rightarrow> capObject option" where
  "powerControl ct d = fold (\<lambda>(k, s). accessorBlock ct AccPowerControl s) (cd_services d) None"

definition toastControl :: "classTable \<Rightarrow> ConnectableDevice \<Rightarrow> capObject option" where
  "toastControl ct d = fold (\<lambda>(k, s). accessorBlock ct AccToastControl s) (cd_services d) None"

definition webAppLauncher :: "classTable \<Rightarrow> ConnectableDevice \<Rightarrow> capObject option" where
  "webAppLauncher ct d = fold (\<lambda>(k, s). accessorBlock ct AccWebAppLauncher s) (cd_services d) None"

definition screenMirroringControl :: "classTable \<Rightarrow> ConnectableDevice \<Rightarrow> capObject option" where
  "screenMirroringControl ct d = fold (\<lambda>(k, s). accessorBlock ct AccScreenMirroringControl s) (cd_services d) None"

definition remoteCameraControl :: "classTable \<Rightarrow> ConnectableDevice \<Rightarrow> capObject option" where
  "remoteCameraControl ct d = fold (\<lambda>(k, s). accessorBlock ct AccRemoteCameraControl s) (cd_services d) None"

fun cd_accessor :: "capAccessor \<Rightarrow> classTable \<Rightarrow> ConnectableDevice \<Rightarrow> capObject option" where
  "cd_accessor AccLauncher = launcher"
| "cd_accessor AccExternalInputControl = externalInputControl"
| "cd_accessor AccMediaPlayer = mediaPlayer"
| "cd_accessor AccMediaControl = mediaControl"
| "cd_accessor AccVolumeControl = volumeControl"
| "cd_accessor AccTVControl = tvControl"
| "cd_accessor AccKeyControl = keyControl"
| "cd_accessor AccTextInputControl = textInputControl"
| "cd_accessor AccMouseControl = mouseControl"
| "cd_accessor AccPowerControl = powerControl"
| "cd_accessor AccToastControl = toastControl"
| "cd_accessor AccWebAppLauncher = webAppLauncher"
| "cd_accessor AccScreenMirroringControl = screenMirroringControl"
| "cd_accessor AccRemoteCameraControl = remoteCameraControl"

section \<open>Public messages\<close>

text \<open>
  The public interface of the class: one constructor per declared method and per property a client may
  set; a readable property is a message too. \<open>cd_perform\<close> sends one message; \<open>guid\<close> is the
  identifier the \<open>id\<close> property would create.
\<close>

datatype cdMessage =
    CdMsgSetServiceDescription "nat option"
  | CdMsgSetDelegate "cdSelector list option"
  | CdMsgId
  | CdMsgAddress | CdMsgFriendlyName | CdMsgModelName | CdMsgModelNumber
  | CdMsgSetLastKnownIPAddress "string option"
  | CdMsgSetLastSeenOnWifi "string option"
  | CdMsgSetLastConnected real
  | CdMsgSetLastDetection real
  | CdMsgConnectedServiceNames
  | CdMsgConnect | CdMsgDisconnect
  | CdMsgIsConnectable | CdMsgConnected
  | CdMsgServices | CdMsgHasServices
  | CdMsgAddService "DeviceService option"
  | CdMsgRemoveServiceWithId "string option"
  | CdMsgServiceWithName "string option"
  | CdMsgCapabilities
  | CdMsgHasCapability string
  | CdMsgHasCapabilities "string list"
  | CdMsgHasAnyCapability "string list"
  | CdMsgSetPairingType DeviceServicePairingType
  | CdMsgAccessor capAccessor

datatype cdReply =
    CdVoid
  | CdString "string option"
  | CdBool bool
  | CdStrings "string list"
  | CdServices "DeviceService list"
  | CdService "DeviceService option"
  | CdCapability "capObject option"

definition cd_answer :: "cdReply \<Rightarrow> 'p \<Rightarrow> ('p \<times> cdOutput list \<times> cdReply) result" where
  "cd_answer reply p = Inr (p, [], reply)"

definition cd_act ::
  "sdHeap \<Rightarrow> ConnectableDevice \<times> cdOutput list \<Rightarrow> ((ConnectableDevice \<times> sdHeap) \<times> cdOutput list \<times> cdReply) result" where
  "cd_act heap r = (case r of (d, out) \<Rightarrow> Inr ((d, heap), out, CdVoid))"

fun cd_perform ::
  "classTable \<Rightarrow> string \<Rightarrow> cdMessage \<Rightarrow> ConnectableDevice \<times> sdHeap \<Rightarrow>
   ((ConnectableDevice \<times> sdHeap) \<times> cdOutput list \<times> cdReply) result" where
  "cd_perform ct guid (CdMsgSetServiceDescription r) (d, h) = cd_answer CdVoid (d\<lparr>cd_description := r\<rparr>, h)"
| "cd_perform ct guid (CdMsgSetDelegate del) (d, h) = cd_act h (cd_setDelegate ct h del d)"
| "cd_perform ct guid CdMsgId (d, h) = (case cd_getId guid d of (d', i) \<Rightarrow> cd_answer (CdString (Some i)) (d', h))"
| "cd_perform ct guid CdMsgAddress (d, h) = cd_answer (CdString (cd_address h d)) (d, h)"
| "cd_perform ct guid CdMsgFriendlyName (d, h) = cd_answer (CdString (cd_friendlyName h d)) (d, h)"
| "cd_perform ct guid CdMsgModelName (d, h) = cd_answer (CdString (cd_modelName h d)) (d, h)"
| "cd_perform ct guid CdMsgModelNumber (d, h) = cd_answer (CdString (cd_modelNumber h d)) (d, h)"
| "cd_perform ct guid (CdMsgSetLastKnownIPAddress a) (d, h) = cd_answer CdVoid (d\<lparr>cd_lastKnownIPAddress := a\<rparr>, h)"
| "cd_perform ct guid (CdMsgSetLastSeenOnWifi w) (d, h) = cd_answer CdVoid (d\<lparr>cd_lastSeenOnWifi := w\<rparr>, h)"
| "cd_perform ct guid (CdMsgSetLastConnected t) (d, h) = cd_answer CdVoid (d\<lparr>cd_lastConnected := t\<rparr>, h)"
| "cd_perform ct guid (CdMsgSetLastDetection t) (d, h) = cd_answer CdVoid (d\<lparr>cd_lastDetection := t\<rparr>, h)"
| "cd_perform ct guid CdMsgConnectedServiceNames (d, h) =
     rbind (connectedServiceNames d) (\<lambda>s. cd_answer (CdString (Some s)) (d, h))"
| "cd_perform ct guid CdMsgConnect (d, h) = cd_act h (cd_connect ct h d)"
| "cd_perform ct guid CdMsgDisconnect (d, h) = cd_act h (cd_disconnect ct h d)"
| "cd_perform ct guid CdMsgIsConnectable (d, h) = cd_answer (CdBool (cd_isConnectable ct d)) (d, h)"
| "cd_perform ct guid CdMsgConnected (d, h) = cd_answer (CdBool (cd_connected ct d)) (d, h)"
| "cd_perform ct guid CdMsgServices (d, h) = cd_answer (CdServices (allValues (cd_services d))) (d, h)"
| "cd_perform ct guid CdMsgHasServices (d, h) = cd_answer (CdBool (hasServices d)) (d, h)"
| "cd_perform ct guid (CdMsgAddService s) (d, h) =
     rbind (cd_addService ct h s d) (\<lambda>(d', h', out). Inr ((d', h'), out, CdVoid))"
| "cd_perform ct guid (CdMsgRemoveServiceWithId sid) (d, h) = cd_act h (removeServiceWithId ct h sid d)"
| "cd_perform ct guid (CdMsgServiceWithName sid) (d, h) = cd_answer (CdService (serviceWithName d sid)) (d, h)"
| "cd_perform ct guid CdMsgCapabilities (d, h) = cd_answer (CdStrings (cd_capabilities d)) (d, h)"
| "cd_perform ct guid (CdMsgHasCapability c) (d, h) = cd_answer (CdBool (cd_hasCapability d c)) (d, h)"
| "cd_perform ct guid (CdMsgHasCapabilities cs) (d, h) = cd_answer (CdBool (cd_hasCapabilities d cs)) (d, h)"
| "cd_perform ct guid (CdMsgHasAnyCapability cs) (d, h) = cd_answer (CdBool (cd_hasAnyCapability d cs)) (d, h)"
| "cd_perform ct guid (CdMsgSetPairingType t) (d, h) = cd_answer CdVoid (cd_setPairingType ct t d, h)"
| "cd_perform ct guid (CdMsgAccessor acc) (d, h) = cd_answer (CdCapability (cd_accessor acc ct d)) (d, h)"

section \<open>Properties of the capability providers\<close>

text \<open>The objects the services of a device offer for an accessor, in enumeration order.\<close>

definition offered :: "capAccessor \<Rightarrow> classTable \<Rightarrow> ConnectableDevice \<Rightarrow> capObject list" where
  "offered acc ct d = List.map_filter
     (\<lambda>s. Option.bind (cls_accessor (ct (svc_class s)) acc) (\<lambda>get. get s)) (allValues (cd_services d))"

definition pickHigher :: "('a \<Rightarrow> 'p::linorder) \<Rightarrow> 'a \<Rightarrow> 'a option \<Rightarrow> 'a option" where
  "pickHigher p x found = (case found of None \<Rightarrow> Some x
     | Some f \<Rightarrow> if p x > p f then Some x else found)"

lemma find_append: "List.find P (xs @ ys) = (case List.find P xs of None \<Rightarrow> List.find P ys | Some x \<Rightarrow> Some x)"
  by (induction xs) auto

lemma pickHigher_fold:
  "fold (pickHigher p) xs None = List.find (\<lambda>x. p x = Max (p ` set xs)) xs"
proof (induction xs rule: rev_induct)
  case (snoc x xs)
  show ?case
  proof (cases "xs = []")
    case False
    let ?M = "Max (p ` set xs)"
    have "?M \<in> p ` set xs" using False by (intro Max_in) auto
    then have "List.find (\<lambda>y. p y = ?M) xs \<noteq> None"
      by (auto simp: find_None_iff)
    then obtain f where f: "List.find (\<lambda>y. p y = ?M) xs = Some f" by auto
    then have pf: "p f = ?M" by (auto simp: find_Some_iff)
    have M: "Max (insert (p x) (p ` set xs)) = max (p x) ?M" using False by simp
    have le: "y \<in> set xs \<Longrightarrow> p y \<le> ?M" for y by simp
    have step: "fold (pickHigher p) (xs @ [x]) None = (if p x > ?M then Some x else Some f)"
      unfolding fold_append comp_apply snoc.IH f by (simp add: pickHigher_def pf)
    show ?thesis
    proof (cases "p x > ?M")
      case True
      then have none: "List.find (\<lambda>y. p y = p x) xs = None"
        unfolding find_None_iff using le by (metis leD)
      from True have "max (p x) ?M = p x" by simp
      with True none show ?thesis unfolding step by (simp add: find_append M)
    next
      case le': False
      then have "max (p x) ?M = ?M" by (simp add: max_absorb2)
      with le' f show ?thesis unfolding step by (simp add: find_append M)
    qed
  qed (simp add: pickHigher_def)
qed simp

lemma accessorBlock_fold:
  "fold (\<lambda>(k, s). accessorBlock ct acc s) ss found =
    fold (pickHigher (\<lambda>x. co_priority x acc)) (List.map_filter
     (\<lambda>s. Option.bind (cls_accessor (ct (svc_class s)) acc) (\<lambda>get. get s)) (map snd ss)) found"
proof (induction ss arbitrary: found)
  case (Cons p ss)
  then show ?case
    by (cases p; cases "cls_accessor (ct (svc_class (snd p))) acc")
       (auto simp: map_filter_simps accessorBlock_def pickHigher_def split: option.splits)
qed (simp add: map_filter_simps)

lemma cd_accessor_fold: "cd_accessor acc ct d = fold (\<lambda>(k, s). accessorBlock ct acc s) (cd_services d) None"
  by (cases acc) (simp_all add: launcher_def externalInputControl_def mediaPlayer_def mediaControl_def
      volumeControl_def tvControl_def keyControl_def textInputControl_def mouseControl_def powerControl_def
      toastControl_def webAppLauncher_def screenMirroringControl_def remoteCameraControl_def)

text \<open>
  C19: Each of the fourteen capability accessors of a device returns, among the objects its services
  offer, the first one whose priority is the highest; it is nil exactly when none is offered.
\<close>
theorem cd_accessor_highest_priority:
  "cd_accessor acc ct d =
     List.find (\<lambda>x. co_priority x acc = Max ((\<lambda>x. co_priority x acc) ` set (offered acc ct d))) (offered acc ct d)
   \<and> (cd_accessor acc ct d = None \<longleftrightarrow> offered acc ct d = [])"
proof -
  let ?p = "\<lambda>x. co_priority x acc" and ?xs = "offered acc ct d"
  have eq: "cd_accessor acc ct d = List.find (\<lambda>x. ?p x = Max (?p ` set ?xs)) ?xs"
    by (simp only: cd_accessor_fold accessorBlock_fold pickHigher_fold offered_def allValues_def)
  have "?xs \<noteq> [] \<Longrightarrow> Max (?p ` set ?xs) \<in> ?p ` set ?xs" by (intro Max_in) auto
  then have "cd_accessor acc ct d = None \<longleftrightarrow> ?xs = []"
    unfolding eq find_None_iff by (cases ?xs) fastforce+
  with eq show ?thesis by blast
qed

section \<open>Properties of the capability list\<close>

lemma fold_add_new:
  "set (fold (\<lambda>c acc. if c \<notin> set acc then acc @ [c] else acc) xs acc) = set acc \<union> set xs"
  "distinct acc \<Longrightarrow> distinct (fold (\<lambda>c acc. if c \<notin> set acc then acc @ [c] else acc) xs acc)"
  by (induction xs arbitrary: acc) auto

lemma fold_caps:
  "set (fold (\<lambda>s caps. fold (\<lambda>c acc. if c \<notin> set acc then acc @ [c] else acc) (f s) caps) ss caps)
     = set caps \<union> (\<Union>s\<in>set ss. set (f s))"
  "distinct caps \<Longrightarrow>
     distinct (fold (\<lambda>s caps. fold (\<lambda>c acc. if c \<notin> set acc then acc @ [c] else acc) (f s) caps) ss caps)"
  by (induction ss arbitrary: caps) (auto simp: fold_add_new)

text \<open>
  The capabilities of a device are those of its services, each listed once, and a query for a
  capability holds for the device exactly when it holds for one of its services.
\<close>
theorem cd_capabilities_union:
  "set (cd_capabilities d) = (\<Union>s\<in>set (allValues (cd_services d)). set (svc_capabilities s))
   \<and> distinct (cd_capabilities d)
   \<and> (cd_hasCapability d c \<longleftrightarrow> (\<exists>s\<in>set (allValues (cd_services d)). svc_hasCapability s c))"
  by (simp add: cd_capabilities_def fold_caps cd_hasCapability_def)

section \<open>Properties of the connection state\<close>

lemma fold_count_pairs:
  "fold (\<lambda>(k, s) n. if P s then Suc n else n) ss n = n + length (filter (\<lambda>p. P (snd p)) ss)"
  by (induction ss arbitrary: n) (auto split: prod.splits)

definition idle :: "classTable \<Rightarrow> DeviceService \<Rightarrow> bool" where
  "idle ct s \<longleftrightarrow> svc_isConnectable ct s \<and> \<not> svc_connected s"

lemma connectedServiceCount_eq:
  "connectedServiceCount ct d = length (filter (\<lambda>p. \<not> idle ct (snd p)) (cd_services d))"
proof -
  have "(\<lambda>(k :: string, s) n. if svc_isConnectable ct s then (if svc_connected s then Suc n else n) else Suc n)
      = (\<lambda>(k, s) n. if \<not> idle ct s then Suc n else n)"
    by (intro ext) (auto simp: idle_def)
  then show ?thesis by (simp only: connectedServiceCount_def fold_count_pairs add_0)
qed

text \<open>
  A device counts as connected exactly when none of its services is connectable and unconnected;
  in particular a device without services is connected.
\<close>
theorem cd_connected_iff:
  "cd_connected ct d \<longleftrightarrow> filter (\<lambda>(k, s). svc_isConnectable ct s \<and> \<not> svc_connected s) (cd_services d) = []"
proof -
  have eq: "(\<lambda>(k :: string, s) n. if \<not> svc_isConnectable ct s then Suc n else if svc_connected s then Suc n else n)
      = (\<lambda>(k, s) n. if \<not> idle ct s then Suc n else n)"
    by (intro ext) (auto simp: idle_def)
  have "cd_connected ct d \<longleftrightarrow> length (filter (\<lambda>p. \<not> idle ct (snd p)) (cd_services d)) \<ge> length (cd_services d)"
    by (simp only: cd_connected_def eq fold_count_pairs add_0)
  also have "\<dots> \<longleftrightarrow> filter (\<lambda>p. idle ct (snd p)) (cd_services d) = []"
    using sum_length_filter_compl [of "\<lambda>p. idle ct (snd p)" "cd_services d"] by (auto simp del: length_0_conv simp: length_0_conv [symmetric])
  finally show ?thesis by (simp add: idle_def split_beta')
qed

text \<open>
  When a service reports that it disconnected, the delegate is told that the device disconnected
  exactly when every service of the device is connectable and unconnected: one service that needs no
  connection is enough for the device never to be reported as disconnected.
\<close>
theorem cd_disconnect_report_iff:
  assumes "cd_delegate d = Some sels"
  shows "Tell (CdDisconnected err) \<in> set (snd (cd_receive ct now n (DisconnectedWithError err) d))
    \<longleftrightarrow> filter (\<lambda>(k, s). \<not> svc_isConnectable ct s \<or> svc_connected s) (cd_services d) = []"
proof -
  have "connectedServiceCount ct d = 0
      \<longleftrightarrow> filter (\<lambda>(k, s). \<not> svc_isConnectable ct s \<or> svc_connected s) (cd_services d) = []"
    by (simp add: connectedServiceCount_eq idle_def split_beta')
  moreover have "cd_services d = [] \<Longrightarrow> connectedServiceCount ct d = 0"
    by (simp add: connectedServiceCount_def)
  ultimately show ?thesis
    using assms by (auto simp: cd_disconnectedWithError_def cd_tell_def cd_tellIf_def)
qed

theorem cd_disconnect_report_iff_witness:
  "Tell (CdDisconnected None) \<in> set (snd (cd_receive (\<lambda>_. DeviceService_class) 1 None (DisconnectedWithError None)
     ((fst (cd_init 0 (\<lambda>_. sd_new)))\<lparr>cd_delegate := Some []\<rparr>)))"
proof -
  let ?d = "(fst (cd_init 0 (\<lambda>_. sd_new)))\<lparr>cd_delegate := Some []\<rparr>"
  have "cd_delegate ?d = Some []" "cd_services ?d = []" by (simp_all add: cd_init_def)
  with cd_disconnect_report_iff [of ?d "[]" None "\<lambda>_. DeviceService_class" 1 None] show ?thesis by simp
qed

text \<open>Service names joined by a comma and a space.\<close>

fun joinNames :: "string list \<Rightarrow> string" where
  "joinNames [] = []"
| "joinNames [k] = k"
| "joinNames (k # l # ks) = k @ '', '' @ joinNames (l # ks)"

lemma fold_names: "fold (\<lambda>(k, s) acc. acc @ k @ '', '') ss acc = acc @ concat (map (\<lambda>p. fst p @ '', '') ss)"
  by (induction ss arbitrary: acc) (auto split: prod.splits)

lemma concat_joinNames: "ks \<noteq> [] \<Longrightarrow> concat (map (\<lambda>k. k @ '', '') ks) = joinNames ks @ '', ''"
  by (induction ks rule: joinNames.induct) auto

text \<open>
  The list of service names never cuts outside the string: it is the names joined by commas.
\<close>
theorem connectedServiceNames_join:
  "connectedServiceNames d = Inr (joinNames (allKeys (cd_services d)))"
proof (cases "cd_services d = []")
  case True
  then show ?thesis by (simp add: connectedServiceNames_def allKeys_def)
next
  case False
  have "concat (map (\<lambda>p. fst p @ '', '') (cd_services d)) = joinNames (allKeys (cd_services d)) @ '', ''"
    using concat_joinNames [of "allKeys (cd_services d)"] False
    by (simp add: allKeys_def map_map comp_def)
  then have names: "fold (\<lambda>(k, s) acc. acc @ k @ '', '') (cd_services d) [] = joinNames (allKeys (cd_services d)) @ '', ''"
    using fold_names [of "cd_services d" "[]"] by simp
  show ?thesis
    using False by (simp add: connectedServiceNames_def names substringToIndex_def Let_def)
qed

section \<open>Service classes\<close>

text \<open>
  What a device relies on from the service classes: connecting and disconnecting a service, and setting
  its pairing type, leave its description and its delegate alone.
\<close>

locale service_classes =
  fixes ct :: classTable
  assumes connect_keeps: "svc_description (fst (svc_connect ct s)) = svc_description s"
      "svc_delegate (fst (svc_connect ct s)) = svc_delegate s"
    and disconnect_keeps: "svc_description (fst (svc_disconnect ct s)) = svc_description s"
      "svc_delegate (fst (svc_disconnect ct s)) = svc_delegate s"
    and pairing_keeps: "svc_description (cls_setPairingType (ct (svc_class s)) t s) = svc_description s"
      "svc_delegate (cls_setPairingType (ct (svc_class s)) t s) = svc_delegate s"
begin

lemma serviceName_keeps:
  "serviceName heap (fst (svc_connect ct s)) = serviceName heap s"
  "serviceName heap (fst (svc_disconnect ct s)) = serviceName heap s"
  "serviceName heap (cls_setPairingType (ct (svc_class s)) t s) = serviceName heap s"
  by (simp_all add: serviceName_def connect_keeps disconnect_keeps pairing_keeps)

end

interpretation base_class: service_classes "\<lambda>_. DeviceService_class"
  by unfold_locales
     (simp_all add: svc_connect_def svc_disconnect_def DeviceService_class_def)

section \<open>The invariant of a device\<close>

text \<open>Every service is stored once, under its name, and has a delegate.\<close>

definition serviceEntry_ok :: "sdHeap \<Rightarrow> string \<times> DeviceService \<Rightarrow> bool" where
  "serviceEntry_ok heap p \<longleftrightarrow> serviceName heap (snd p) = Some (fst p) \<and> svc_delegate (snd p) \<noteq> None"

definition cd_inv :: "sdHeap \<Rightarrow> ConnectableDevice \<Rightarrow> bool" where
  "cd_inv heap d \<longleftrightarrow> dict_wf (cd_services d) \<and> list_all (serviceEntry_ok heap) (cd_services d)"

lemma serviceName_updateConsolidated [simp]:
  "serviceName (updateConsolidatedServiceDescription sref heap d) s = serviceName heap s"
  by (cases "svc_description s")
     (auto simp: serviceName_def updateConsolidatedServiceDescription_def Let_def split: option.splits)

lemma lastDetection_updateConsolidated [simp]:
  "svc_lastDetection (updateConsolidatedServiceDescription sref heap d) s = svc_lastDetection heap s"
  by (cases "svc_description s")
     (auto simp: svc_lastDetection_def updateConsolidatedServiceDescription_def Let_def split: option.splits)

lemma cd_inv_heap [simp]:
  "cd_inv (updateConsolidatedServiceDescription sref heap e) d = cd_inv heap d"
  by (simp add: cd_inv_def serviceEntry_ok_def list_all_iff)

lemma cd_inv_services: "cd_services d' = cd_services d \<Longrightarrow> cd_inv heap d' = cd_inv heap d"
  by (simp add: cd_inv_def)

lemma cd_inv_map:
  assumes "cd_inv heap d" "\<And>s. serviceName heap (f s) = serviceName heap s" "\<And>s. svc_delegate (f s) = svc_delegate s"
  shows "cd_inv heap (d\<lparr>cd_services := map (\<lambda>(k, s). (k, f s)) (cd_services d)\<rparr>)"
  using assms by (auto simp: cd_inv_def dict_wf_def serviceEntry_ok_def list_all_iff comp_def split_beta')

lemma cd_inv_setObject:
  assumes "cd_inv heap d" "serviceName heap s = Some n" "svc_delegate s \<noteq> None"
  shows "cd_inv heap (d\<lparr>cd_services := setObject s n (cd_services d)\<rparr>)"
  using assms by (auto simp: cd_inv_def set_setObject list_all_iff serviceEntry_ok_def)

lemma cd_inv_remove:
  "cd_inv heap d \<Longrightarrow> cd_inv heap (d\<lparr>cd_services := removeObjectForKey n (cd_services d)\<rparr>)"
  by (auto simp: cd_inv_def set_removeObjectForKey list_all_iff)

lemma cd_inv_lookup:
  "cd_inv heap d \<Longrightarrow> objectForKey (cd_services d) n = Some s \<Longrightarrow>
    serviceName heap s = Some n \<and> svc_delegate s \<noteq> None"
  by (force simp: cd_inv_def list_all_iff serviceEntry_ok_def dest: objectForKey_in_set)

lemma removeServiceWithId_services:
  "cd_services (fst (removeServiceWithId ct heap sid d)) =
    (case sid of None \<Rightarrow> cd_services d | Some k \<Rightarrow> removeObjectForKey k (cd_services d))"
  by (auto simp: removeServiceWithId_def removeObjectForKey_absent Let_def split: option.splits)

lemma removeServiceWithId_inv:
  "cd_inv heap d \<Longrightarrow> cd_inv heap (fst (removeServiceWithId ct heap sid d))"
  by (simp add: cd_inv_def removeServiceWithId_services set_removeObjectForKey list_all_iff split: option.splits)

text \<open>The service as it is stored.\<close>

definition adopted :: "DeviceService \<Rightarrow> DeviceService" where
  "adopted s = (if svc_delegate s = None then s\<lparr>svc_delegate := Some OwningDevice\<rparr> else s)"

lemma adopted_simps [simp]:
  "serviceName heap (adopted s) = serviceName heap s" "svc_delegate (adopted s) \<noteq> None"
  "svc_description (adopted s) = svc_description s" "svc_capabilities (adopted s) = svc_capabilities s"
  by (auto simp: adopted_def serviceName_def)

lemma storeService_services:
  "cd_services (fst (storeService ct heap oc s n d)) = setObject (adopted s) n (cd_services d)"
  by (simp add: storeService_def adopted_def Let_def)

lemma storeService_inv:
  assumes "cd_inv heap d" "serviceName heap s = Some n" "storeService ct heap oc s n d = (d', heap', out)"
  shows "cd_inv heap' d'"
proof -
  have d': "d' = d\<lparr>cd_services := setObject (adopted s) n (cd_services d)\<rparr>"
    and h': "\<exists>sref e. heap' = updateConsolidatedServiceDescription sref heap e"
    using assms(3) by (auto simp: storeService_def adopted_def Let_def)
  have "cd_inv heap d'"
    unfolding d' using assms by (intro cd_inv_setObject) simp_all
  with h' show ?thesis by auto
qed

context service_classes
begin

lemma replaceService_facts:
  assumes "cd_inv heap d" "objectForKey (cd_services d) n = Some e"
    "replaceService ct heap n e d = (d', out)"
  shows "cd_inv heap d'" "objectForKey (cd_services d') = (objectForKey (cd_services d))(n := None)"
proof -
  define e' where "e' = (if svc_connected e then fst (svc_disconnect ct e) else e)"
  define d1 where "d1 = d\<lparr>cd_services := setObject e' n (cd_services d)\<rparr>"
  have e': "serviceName heap e' = Some n" "svc_delegate e' \<noteq> None"
    using cd_inv_lookup [OF assms(1,2)] by (simp_all add: e'_def serviceName_keeps disconnect_keeps)
  have inv1: "cd_inv heap d1"
    unfolding d1_def using assms(1) e' by (rule cd_inv_setObject)
  have d': "d' = fst (removeServiceWithId ct heap (Some n) d1)"
    using assms(3) e'(1)
    by (auto simp: replaceService_def d1_def e'_def Let_def split: prod.splits if_splits)
  show "cd_inv heap d'" unfolding d' using inv1 by (rule removeServiceWithId_inv)
  show "objectForKey (cd_services d') = (objectForKey (cd_services d))(n := None)"
    unfolding d' removeServiceWithId_services by (rule ext) (simp add: d1_def)
qed

lemma addService_cases:
  assumes "cd_inv heap d" "cd_addService ct heap (Some s) d = Inr (d', heap', out)"
  obtains (kept) n e where "serviceName heap s = Some n" "objectForKey (cd_services d) n = Some e"
      "svc_lastDetection heap s \<le> svc_lastDetection heap e" "d' = d" "heap' = heap"
  | (stored) n d1 oc out1 where "serviceName heap s = Some n" "cd_inv heap d1"
      "storeService ct heap oc s n d1 = (d', heap', out1)"
      "\<And>k. k \<noteq> n \<Longrightarrow> objectForKey (cd_services d1) k = objectForKey (cd_services d) k"
      "\<And>e. objectForKey (cd_services d) n = Some e \<Longrightarrow> svc_lastDetection heap e < svc_lastDetection heap s"
proof -
  obtain n where n: "serviceName heap s = Some n"
    using assms(2) by (auto simp: cd_addService_def split: option.splits)
  show thesis
  proof (cases "objectForKey (cd_services d) n")
    case None
    then have "storeService ct heap (cd_capabilities d) s n d = (d', heap', out)"
      using assms(2) n by (simp add: cd_addService_def Let_def)
    then show thesis using n None assms(1) by (intro stored [of n d]) simp_all
  next
    case (Some e)
    show thesis
    proof (cases "svc_lastDetection heap s > svc_lastDetection heap e")
      case True
      obtain d1 out1 where r: "replaceService ct heap n e d = (d1, out1)" by fastforce
      then obtain out2 where st: "storeService ct heap (cd_capabilities d) s n d1 = (d', heap', out2)"
        using assms(2) n Some True by (auto simp: cd_addService_def Let_def split: prod.splits)
      from replaceService_facts [OF assms(1) Some r] show thesis
        using n st Some True by (intro stored [of n d1]) simp_all
    next
      case False
      then show thesis
        using assms(2) n Some by (intro kept [of n e]) (simp_all add: cd_addService_def Let_def)
    qed
  qed
qed

lemma addService_inv:
  assumes "cd_inv heap d" "cd_addService ct heap (Some s) d = Inr (d', heap', out)"
  shows "cd_inv heap' d'"
  using assms
proof (cases rule: addService_cases)
  case (stored n d1 oc out1)
  from storeService_inv [OF stored(2,1,3)] show ?thesis .
qed (use assms(1) in simp)

lemma connect_inv:
  assumes "cd_inv heap d" shows "cd_inv heap (fst (cd_connect ct heap d))"
proof (cases "cd_connected ct d")
  case True
  with assms show ?thesis by (simp add: cd_connect_def cd_inv_def)
next
  case False
  let ?f = "\<lambda>s. if \<not> svc_connected s then fst (svc_connect ct s) else s"
  have "cd_inv heap (d\<lparr>cd_services := map (\<lambda>(k, s). (k, ?f s)) (cd_services d)\<rparr>)"
    using assms by (rule cd_inv_map) (simp_all add: serviceName_keeps connect_keeps)
  with False show ?thesis by (simp add: cd_connect_def cd_inv_def eachService_def)
qed

lemma disconnect_inv:
  assumes "cd_inv heap d" shows "cd_inv heap (fst (cd_disconnect ct heap d))"
proof -
  let ?f = "\<lambda>s. if svc_connected s then fst (svc_disconnect ct s) else s"
  have "cd_inv heap (d\<lparr>cd_services := map (\<lambda>(k, s). (k, ?f s)) (cd_services d)\<rparr>)"
    using assms by (rule cd_inv_map) (simp_all add: serviceName_keeps disconnect_keeps)
  then show ?thesis by (simp add: cd_disconnect_def cd_inv_def eachService_def)
qed

lemma pairing_inv:
  assumes "cd_inv heap d" shows "cd_inv heap (cd_setPairingType ct t d)"
  unfolding cd_setPairingType_def using assms
  by (rule cd_inv_map) (simp_all add: serviceName_keeps pairing_keeps)

end

lemma receive_services [simp]: "cd_services (fst (cd_receive ct now n e d)) = cd_services d"
  by (cases e) (simp_all add: cd_connectionSuccess_def Let_def)

text \<open>The operations of a device as steps on the device and the heap.\<close>

inductive cd_step :: "classTable \<Rightarrow> ConnectableDevice \<times> sdHeap \<Rightarrow> ConnectableDevice \<times> sdHeap \<Rightarrow> bool"
  for ct :: classTable where
  step_message: "cd_perform ct guid msg p = Inr (q, out, reply) \<Longrightarrow> cd_step ct p q"
| step_receive: "cd_step ct (d, heap) (fst (cd_receive ct now n e d), heap)"

inductive cd_reach :: "classTable \<Rightarrow> ConnectableDevice \<times> sdHeap \<Rightarrow> bool" for ct :: classTable where
  reach_init: "cd_reach ct (cd_init r heap)"
| reach_initWithDescription: "cd_reach ct (cd_initWithDescription r description heap)"
| reach_initWithJSONObject: "cd_initWithJSONObject r heap dict = Inr p \<Longrightarrow> cd_reach ct p"
| reach_step: "cd_reach ct p \<Longrightarrow> cd_step ct p q \<Longrightarrow> cd_reach ct q"

lemma cd_initWithJSONObject_services:
  "cd_initWithJSONObject r heap dict = Inr (d, h) \<Longrightarrow> cd_services d = []"
  by (auto simp: cd_initWithJSONObject_def cd_init_def rbind_Inr_iff Let_def)

lemma cd_inv_empty: "cd_services d = [] \<Longrightarrow> cd_inv heap d"
  by (simp add: cd_inv_def)

lemma cd_inv_updates [simp]:
  "cd_inv h (d\<lparr>cd_description := r\<rparr>) = cd_inv h d" "cd_inv h (d\<lparr>cd_delegate := del\<rparr>) = cd_inv h d"
  "cd_inv h (d\<lparr>cd_id := i\<rparr>) = cd_inv h d" "cd_inv h (d\<lparr>cd_lastKnownIPAddress := a\<rparr>) = cd_inv h d"
  "cd_inv h (d\<lparr>cd_lastSeenOnWifi := w\<rparr>) = cd_inv h d" "cd_inv h (d\<lparr>cd_lastConnected := t\<rparr>) = cd_inv h d"
  "cd_inv h (d\<lparr>cd_lastDetection := t\<rparr>) = cd_inv h d"
  by (simp_all add: cd_inv_def)

lemma cd_answer_Inr [simp]: "cd_answer reply p = Inr (q, out, reply') \<longleftrightarrow> q = p \<and> out = [] \<and> reply' = reply"
  by (auto simp: cd_answer_def)

lemma cd_act_Inr [simp]:
  "cd_act heap r = Inr ((d, h), out, reply) \<longleftrightarrow> d = fst r \<and> h = heap \<and> out = snd r \<and> reply = CdVoid"
  by (auto simp: cd_act_def split: prod.splits)

context service_classes
begin

lemma setDelegate_inv: "cd_inv heap d \<Longrightarrow> cd_inv heap (fst (cd_setDelegate ct heap del d))"
  by (simp add: cd_setDelegate_def Let_def)

lemma getId_inv: "cd_inv heap d \<Longrightarrow> cd_inv heap (fst (cd_getId guid d))"
  by (simp add: cd_getId_def split: option.splits)

lemmas act_invs = removeServiceWithId_inv connect_inv disconnect_inv pairing_inv setDelegate_inv getId_inv

lemma perform_inv:
  "cd_perform ct guid msg (d, heap) = Inr ((d', heap'), out, reply) \<Longrightarrow> cd_inv heap d \<Longrightarrow> cd_inv heap' d'"
proof (cases msg)
  case (CdMsgAddService s)
  moreover assume "cd_perform ct guid msg (d, heap) = Inr ((d', heap'), out, reply)" "cd_inv heap d"
  ultimately show ?thesis
    using addService_inv by (cases s) (auto simp: rbind_Inr_iff cd_addService_def [of ct heap None])
qed (auto simp: rbind_Inr_iff case_prod_beta act_invs)

lemma step_inv: "cd_step ct p q \<Longrightarrow> cd_inv (snd p) (fst p) \<Longrightarrow> cd_inv (snd q) (fst q)"
proof (induction rule: cd_step.induct)
  case (step_message guid msg p q out reply)
  then show ?case using perform_inv [of guid msg "fst p" "snd p" "fst q" "snd q"] by simp
next
  case (step_receive d heap now n e)
  then show ?case by (simp add: cd_inv_def)
qed

lemma reach_inv: "cd_reach ct p \<Longrightarrow> cd_inv (snd p) (fst p)"
proof (induction rule: cd_reach.induct)
  case (reach_initWithJSONObject r heap dict p)
  then show ?case by (cases p) (auto intro: cd_inv_empty dest: cd_initWithJSONObject_services)
next
  case (reach_step p q)
  then show ?case using step_inv by blast
qed (simp_all add: cd_init_def cd_initWithDescription_def cd_inv_empty)

end

text \<open>
  C2: In every state a device can reach through its operations and the messages of its services, each
  service is stored exactly once, under its own name, and has a delegate, provided that the service
  classes leave the description and the delegate of a service alone when they connect and disconnect.
\<close>
theorem cd_reach_invariant:
  assumes "service_classes ct" "cd_reach ct (d, heap)"
  shows "cd_inv heap d"
  using service_classes.reach_inv [OF assms] by simp

definition sample_service :: DeviceService where
  "sample_service = (svc_initWithServiceConfig DeviceService_class None)\<lparr>svc_description := Some 1\<rparr>"

definition sample_heap :: sdHeap where
  "sample_heap = (\<lambda>_. sd_new)(1 := sd_new\<lparr>sd_serviceId := Some ''DLNA'', sd_lastDetection := 5,
      sd_modelName := Some ''M1''\<rparr>, 2 := sd_new\<lparr>sd_serviceId := Some ''DIAL'', sd_lastDetection := 6,
      sd_modelName := Some ''M2''\<rparr>)"

theorem cd_reach_invariant_witness:
  "\<exists>d heap. cd_reach (\<lambda>_. DeviceService_class) (d, heap) \<and> length (cd_services d) = 1 \<and> cd_inv heap d"
proof -
  let ?ct = "\<lambda>_. DeviceService_class"
  let ?p = "cd_initWithDescription 9 (Some 1) sample_heap"
  obtain d h out where add: "cd_addService ?ct (snd ?p) (Some sample_service) (fst ?p) = Inr (d, h, out)"
    and len: "length (cd_services d) = 1"
    by (simp add: cd_addService_def serviceName_def sample_service_def sample_heap_def cd_initWithDescription_def
        cd_init_def storeService_def Let_def setObject_def)
  have "cd_reach ?ct (fst ?p, snd ?p)" by (simp add: reach_initWithDescription)
  have "cd_perform ?ct [] (CdMsgAddService (Some sample_service)) (fst ?p, snd ?p) = Inr ((d, h), out, CdVoid)"
    by (simp only: cd_perform.simps add rbind_simps prod.case)
  from reach_step [OF \<open>cd_reach ?ct (fst ?p, snd ?p)\<close> step_message [OF this]] have r: "cd_reach ?ct (d, h)" .
  from cd_reach_invariant [OF base_class.service_classes_axioms r] r len show ?thesis by blast
qed

section \<open>Properties of adding a service\<close>

lemma cd_addService_returns:
  assumes "serviceName heap s = Some n"
  obtains d' heap' out where "cd_addService ct heap (Some s) d = Inr (d', heap', out)"
proof -
  have "\<exists>x. cd_addService ct heap (Some s) d = Inr x"
    using assms
    by (cases "objectForKey (cd_services d) n") (auto simp: cd_addService_def Let_def split: prod.splits intro: prod_cases3)
  then show thesis using that by (metis prod_cases3)
qed

lemma updateConsolidated_modelName:
  "sd_modelName (heap q) = Some m \<Longrightarrow> cd_description d = Some r \<Longrightarrow>
    sd_modelName (updateConsolidatedServiceDescription (Some q) heap d r) = Some m"
  by (auto simp: updateConsolidatedServiceDescription_def Let_def split: option.splits)

text \<open>
  C25: Adding a service to a device in a reachable state stores it under its name when no service of
  that name exists or the existing one was detected earlier; otherwise the existing one stays. All other
  services are untouched, and the invariant holds afterwards.
\<close>
theorem cd_addService_newest:
  assumes "service_classes ct" "cd_inv heap d" "serviceName heap s = Some n"
  shows "\<exists>d' heap' out. cd_addService ct heap (Some s) d = Inr (d', heap', out) \<and> cd_inv heap' d'
    \<and> objectForKey (cd_services d') = (objectForKey (cd_services d))(n \<mapsto>
        (case objectForKey (cd_services d) n of
           Some e \<Rightarrow> if svc_lastDetection heap s > svc_lastDetection heap e then adopted s else e
         | None \<Rightarrow> adopted s))"
proof -
  obtain d' heap' out where add: "cd_addService ct heap (Some s) d = Inr (d', heap', out)"
    using assms(3) by (rule cd_addService_returns)
  note inv = service_classes.addService_inv [OF assms(1,2) add]
  have "objectForKey (cd_services d') = (objectForKey (cd_services d))(n \<mapsto>
        (case objectForKey (cd_services d) n of
           Some e \<Rightarrow> if svc_lastDetection heap s > svc_lastDetection heap e then adopted s else e
         | None \<Rightarrow> adopted s))"
  proof (cases rule: service_classes.addService_cases [OF assms(1,2) add, case_names kept stored])
    case (kept m e)
    with assms(3) show ?thesis by (intro ext) auto
  next
    case (stored m d1 oc out1)
    with assms(3) have [simp]: "m = n" by simp
    have "cd_services d' = setObject (adopted s) n (cd_services d1)"
      using storeService_services [of ct heap oc s n d1] stored(3) by simp
    with stored(4,5) show ?thesis by (intro ext) (auto split: option.splits)
  qed
  with add inv show ?thesis by blast
qed

theorem cd_addService_newest_witness:
  "\<exists>d' heap' out. cd_addService (\<lambda>_. DeviceService_class) sample_heap (Some sample_service)
      (fst (cd_initWithDescription 9 (Some 1) sample_heap)) = Inr (d', heap', out)
    \<and> objectForKey (cd_services d') ''DLNA'' = Some (adopted sample_service)"
proof -
  let ?d = "fst (cd_initWithDescription 9 (Some 1) sample_heap)"
  have d: "cd_services ?d = []" by (simp add: cd_initWithDescription_def cd_init_def)
  have n: "serviceName sample_heap sample_service = Some ''DLNA''"
    by (simp add: serviceName_def sample_service_def sample_heap_def)
  from cd_addService_newest [OF base_class.service_classes_axioms cd_inv_empty [OF d] n]
  show ?thesis unfolding d objectForKey_Nil option.case by (metis fun_upd_same)
qed

text \<open>
  A device created for a description keeps that very object as its consolidated description. When
  its first service holds the same object, adding a second service with another model name
  overwrites the model name in the description of the first one.
\<close>
theorem cd_addService_overwrites_shared_description:
  assumes "svc_description s = Some q" "sd_serviceId (heap q) = Some n" "sd_modelName (heap q) = Some m"
    "objectForKey (cd_services d) n = None" "cd_description d = Some r"
    "objectForKey (cd_services d) k = Some first" "svc_description first = Some r"
  shows "\<exists>d' heap' out. cd_addService ct heap (Some s) d = Inr (d', heap', out)
    \<and> objectForKey (cd_services d') k = Some first \<and> sd_modelName (heap' r) = Some m"
proof -
  have "k \<noteq> n" using assms by auto
  moreover have "cd_addService ct heap (Some s) d = Inr (storeService ct heap (cd_capabilities d) s n d)"
    using assms by (simp add: cd_addService_def serviceName_def)
  moreover obtain d' heap' out where st: "storeService ct heap (cd_capabilities d) s n d = (d', heap', out)"
    by (metis prod_cases3)
  moreover have "heap' = updateConsolidatedServiceDescription (Some q) heap d'" "cd_description d' = Some r"
    using st assms by (auto simp: storeService_def Let_def)
  moreover have "cd_services d' = setObject (adopted s) n (cd_services d)"
    using storeService_services [of ct heap "cd_capabilities d" s n d] st by simp
  ultimately show ?thesis
    using assms by (simp add: updateConsolidated_modelName)
qed

theorem cd_addService_overwrites_shared_description_witness:
  "sd_modelName (sample_heap 1) = Some ''M1'' \<and>
   (\<exists>d' heap' out. cd_addService (\<lambda>_. DeviceService_class) sample_heap
       (Some (sample_service\<lparr>svc_description := Some 2\<rparr>))
       ((fst (cd_initWithDescription 9 (Some 1) sample_heap))\<lparr>cd_services := [(''DLNA'', sample_service)]\<rparr>)
       = Inr (d', heap', out) \<and> sd_modelName (heap' 1) = Some ''M2'')"
proof -
  let ?d = "(fst (cd_initWithDescription 9 (Some 1) sample_heap))\<lparr>cd_services := [(''DLNA'', sample_service)]\<rparr>"
  let ?s = "sample_service\<lparr>svc_description := Some 2\<rparr>"
  have 1: "svc_description ?s = Some 2" by simp
  have 2: "sd_serviceId (sample_heap 2) = Some ''DIAL''" "sd_modelName (sample_heap 2) = Some ''M2''"
    by (simp_all add: sample_heap_def)
  have 3: "objectForKey (cd_services ?d) ''DIAL'' = None" "cd_description ?d = Some 1"
    "objectForKey (cd_services ?d) ''DLNA'' = Some sample_service"
    by (simp_all add: objectForKey_Cons cd_initWithDescription_def cd_init_def)
  have 4: "svc_description sample_service = Some 1" by (simp add: sample_service_def)
  from cd_addService_overwrites_shared_description [where heap = sample_heap and s = ?s and d = ?d and q = 2
      and ct = "\<lambda>_. DeviceService_class", OF 1 2 3 4]
  show ?thesis by (auto simp: sample_heap_def)
qed

section \<open>Properties of the JSON coding\<close>

lemma doubleIfPresent_nonZero [simp]: "doubleIfPresent (nonZero x) = Inr x"
  by (simp add: doubleIfPresent_def nonZero_def presentNotNull_def isNull_def)



end
