(* ===== verification/DeviceStore.thy ===== *)
theory DeviceStore
  imports ConnectableDevice
begin

text \<open>
  \<open>Devices/DefaultConnectableDeviceStore\<close>: the devices that are active, the JSON records of the devices
  ever seen, their expiry, and the serial queue that writes the records to disk.

  Active devices are shared objects, so the store keeps references into the device heap of the world.
  Serialising to the file and parsing it back is the identity on JSON values; a file may be missing,
  empty or unreadable. The write block runs in three moments (serialise, write, finish), between which
  other calls of \<open>store\<close> may come.
\<close>

section \<open>The world of objects\<close>

text \<open>
  Descriptions, devices and services are heap objects; \<open>w_next\<close> is the next free reference and
  \<open>w_guid\<close> the supply of random identifiers.
\<close>

record world =
  w_sd :: sdHeap
  w_dev :: "nat \<Rightarrow> ConnectableDevice"
  w_next :: nat
  w_guid :: "nat \<Rightarrow> string"

definition dev_id :: "nat \<Rightarrow> world \<Rightarrow> string \<times> world" where
  "dev_id r w = (case cd_id (w_dev w r) of
      Some i \<Rightarrow> (i, w)
    | None \<Rightarrow> (let g = w_guid w (w_next w) in
        (g, w\<lparr>w_dev := (w_dev w)(r := fst (cd_getId g (w_dev w r))), w_next := Suc (w_next w)\<rparr>)))"

definition dev_services :: "world \<Rightarrow> nat \<Rightarrow> DeviceService list" where
  "dev_services w r = allValues (cd_services (w_dev w r))"

definition svc_UUID :: "sdHeap \<Rightarrow> DeviceService \<Rightarrow> string option" where
  "svc_UUID heap s = Option.bind (svc_description s) (\<lambda>r. sd_UUID (heap r))"

section \<open>State\<close>

datatype storeFile = NoFile | EmptyFile | UnreadableFile | Content jdict

datatype writePhase = Idle | Serialised real jdict | Written real

record DeviceStore =
  ds_active :: "nat nsdict"
  ds_stored :: "json nsdict"
  ds_deviceStore :: "jdict option"
  ds_version :: int
  ds_created :: real
  ds_updated :: real
  ds_maxStoreDuration :: real
  ds_waitToWrite :: bool
  ds_queue :: "real list"
  ds_phase :: writePhase
  ds_file :: storeFile

definition dictOrEmpty :: "json option \<Rightarrow> jdict result" where
  "dictOrEmpty j = (if presentNotNull j then dictionaryWithDictionary (the j) else Inr [])"

section \<open>Expiry\<close>

definition deviceExpired :: "real \<Rightarrow> real \<Rightarrow> json \<Rightarrow> bool result" where
  "deviceExpired now maxDuration deviceInfo =
     rbind (subscript deviceInfo (Some ''lastConnected'')) (\<lambda>lc.
     rbind (doubleIfPresent lc) (\<lambda>lastConnected.
     rbind (subscript deviceInfo (Some ''lastDetection'')) (\<lambda>ld.
     rbind (doubleIfPresent ld) (\<lambda>lastDetection.
       Inr (\<not> lastConnected > 0 \<and> now - lastDetection > maxDuration)))))"

fun expiredKeys :: "real \<Rightarrow> real \<Rightarrow> json nsdict \<Rightarrow> string list result" where
  "expiredKeys now m [] = Inr []"
| "expiredKeys now m ((k, v) # d) =
     rbind (deviceExpired now m v) (\<lambda>e.
     rbind (expiredKeys now m d) (\<lambda>ks. Inr (if e then k # ks else ks)))"

definition deleteOldUnusedDevices :: "real \<Rightarrow> DeviceStore \<Rightarrow> DeviceStore result" where
  "deleteOldUnusedDevices now st =
     rbind (expiredKeys now (ds_maxStoreDuration st) (ds_stored st)) (\<lambda>devicesToRemove.
       Inr (st\<lparr>ds_stored := fold removeObjectForKey devicesToRemove (ds_stored st)\<rparr>))"

definition setMaxStoreDuration :: "real \<Rightarrow> real \<Rightarrow> DeviceStore \<Rightarrow> DeviceStore result" where
  "setMaxStoreDuration now m st = deleteOldUnusedDevices now (st\<lparr>ds_maxStoreDuration := m\<rparr>)"

section \<open>Loading, storing and writing\<close>

definition ds_load :: "real \<Rightarrow> DeviceStore \<Rightarrow> DeviceStore result" where
  "ds_load now st = (case ds_file st of
      NoFile \<Rightarrow> Inr (st\<lparr>ds_version := 1, ds_created := now, ds_updated := now, ds_file := EmptyFile\<rparr>)
    | UnreadableFile \<Rightarrow> Inr st
    | EmptyFile \<Rightarrow> Inr (st\<lparr>ds_deviceStore := None\<rparr>)
    | Content j \<Rightarrow>
        rbind (dictOrEmpty (objectForKey j ''devices'')) (\<lambda>devices.
        rbind (if presentNotNull (objectForKey j ''version'') then intValue (objectForKey j ''version'')
               else Inr (ds_version st)) (\<lambda>v.
        rbind (if presentNotNull (objectForKey j ''created'')
               then rbind (intValue (objectForKey j ''created'')) (\<lambda>i. Inr (real_of_int i))
               else Inr (ds_created st)) (\<lambda>c.
        rbind (if presentNotNull (objectForKey j ''updated'')
               then rbind (intValue (objectForKey j ''updated'')) (\<lambda>i. Inr (real_of_int i))
               else Inr (ds_updated st)) (\<lambda>u.
          Inr (st\<lparr>ds_deviceStore := Some j, ds_stored := devices, ds_version := v, ds_created := c,
                  ds_updated := u\<rparr>))))))"

definition ds_init :: "real \<Rightarrow> storeFile \<Rightarrow> DeviceStore result" where
  "ds_init now file = ds_load now \<lparr>ds_active = [], ds_stored = [], ds_deviceStore = None, ds_version = 0,
     ds_created = 0, ds_updated = 0, ds_maxStoreDuration = 3 * 24 * 60 * 60, ds_waitToWrite = False,
     ds_queue = [], ds_phase = Idle, ds_file = file\<rparr>"

definition writeStoreToDisk :: "DeviceStore \<Rightarrow> DeviceStore" where
  "writeStoreToDisk st = st\<lparr>ds_waitToWrite := True, ds_queue := ds_queue st @ [ds_updated st]\<rparr>"

text \<open>\<open>store\<close> reads the clock at \<open>t1\<close> and again at \<open>t2\<close>.\<close>

definition ds_store :: "real \<Rightarrow> real \<Rightarrow> DeviceStore \<Rightarrow> DeviceStore result" where
  "ds_store t1 t2 st0 =
     rbind (setMaxStoreDuration t1 (ds_maxStoreDuration st0) st0) (\<lambda>st.
       let newDeviceStore = [(''version'', JNum (real_of_int (ds_version st))),
             (''created'', JNum (ds_created st)), (''updated'', JNum t1),
             (''devices'', JObj (ds_stored st))];
           st' = st\<lparr>ds_updated := t2, ds_deviceStore := Some newDeviceStore\<rparr>
       in Inr (if \<not> ds_waitToWrite st' then writeStoreToDisk st' else st'))"

text \<open>
  The block on the serial queue: its head starts by serialising the current store, writes the file,
  and finishes; \<open>Inl\<close> is \<open>dataWithJSONObject:\<close> on nil.
\<close>

definition wr_serialise :: "DeviceStore \<Rightarrow> DeviceStore result" where
  "wr_serialise st = (case (ds_phase st, ds_queue st) of
      (Idle, lastUpdated # q) \<Rightarrow>
        (case ds_deviceStore st of
           None \<Rightarrow> Inl NSInvalidArgumentException
         | Some j \<Rightarrow> Inr (st\<lparr>ds_queue := q, ds_phase := Serialised lastUpdated j\<rparr>))
    | _ \<Rightarrow> Inr st)"

definition wr_write :: "DeviceStore \<Rightarrow> DeviceStore" where
  "wr_write st = (case ds_phase st of
      Serialised lastUpdated j \<Rightarrow> st\<lparr>ds_file := Content j, ds_phase := Written lastUpdated\<rparr>
    | _ \<Rightarrow> st)"

definition wr_error :: "DeviceStore \<Rightarrow> DeviceStore" where
  "wr_error st = (case ds_phase st of
      Serialised lastUpdated j \<Rightarrow> st\<lparr>ds_waitToWrite := False, ds_phase := Idle\<rparr>
    | _ \<Rightarrow> st)"

definition wr_finish :: "DeviceStore \<Rightarrow> DeviceStore" where
  "wr_finish st = (case ds_phase st of
      Written lastUpdated \<Rightarrow>
        (let st' = st\<lparr>ds_waitToWrite := False, ds_phase := Idle\<rparr>
         in if lastUpdated \<noteq> ds_updated st' then writeStoreToDisk st' else st')
    | _ \<Rightarrow> st)"

section \<open>Lookups\<close>

definition activeDeviceForUUID :: "world \<Rightarrow> string \<Rightarrow> DeviceStore \<Rightarrow> nat option" where
  "activeDeviceForUUID w UUID st =
     (case objectForKey (ds_active st) UUID of
        Some r \<Rightarrow> Some r
      | None \<Rightarrow>
          enumerateObjects (\<lambda>(k, r) found.
            enumerateObjects (\<lambda>s (f, stop).
              if isEqualToString (Some UUID) (svc_UUID (w_sd w) s) then ((Some r, True), True) else ((f, stop), False))
              (dev_services w r) (found, False))
            (ds_active st) None)"

fun findStored :: "string option \<Rightarrow> json nsdict \<Rightarrow> json option result" where
  "findStored UUID [] = Inr None"
| "findStored UUID ((k, device) # d) =
     rbind (subscript device (Some ''services'')) (\<lambda>services.
     rbind (case services of None \<Rightarrow> Inr None | Some s \<Rightarrow> subscript s UUID) (\<lambda>hit.
       if hit \<noteq> None then Inr (Some device) else findStored UUID d))"

definition storedDeviceForUUID :: "string option \<Rightarrow> DeviceStore \<Rightarrow> json option result" where
  "storedDeviceForUUID UUID st =
     (case objectForKeyN (ds_stored st) UUID of
        Some j \<Rightarrow> Inr (Some j)
      | None \<Rightarrow> findStored UUID (ds_stored st))"

definition deviceForId :: "string option \<Rightarrow> world \<Rightarrow> DeviceStore \<Rightarrow> (nat option \<times> world \<times> DeviceStore) result" where
  "deviceForId i w st =
     (case i of
        None \<Rightarrow> Inr (None, w, st)
      | Some UUID \<Rightarrow> if UUID = [] then Inr (None, w, st)
          else rbind
            (case activeDeviceForUUID w UUID st of
               Some r \<Rightarrow> Inr (Some r, w)
             | None \<Rightarrow>
                 rbind (storedDeviceForUUID i st) (\<lambda>info.
                   (case info of
                      None \<Rightarrow> Inr (None, w)
                    | Some j \<Rightarrow>
                        rbind (dictionaryWithDictionary j) (\<lambda>dict.
                        rbind (cd_initWithJSONObject (w_next w) (w_sd w) dict) (\<lambda>(d, heap).
                          Inr (Some (Suc (w_next w)),
                               w\<lparr>w_sd := heap, w_dev := (w_dev w)(Suc (w_next w) := d),
                                 w_next := Suc (Suc (w_next w))\<rparr>))))))
            (\<lambda>(found, w').
               (case found of
                  None \<Rightarrow> Inr (None, w', st)
                | Some r \<Rightarrow> (case dev_id r w' of (k, w'') \<Rightarrow>
                    Inr (Some r, w'', if objectForKey (ds_active st) k = None
                                      then st\<lparr>ds_active := setObject r k (ds_active st)\<rparr> else st)))))"

definition ds_serviceConfigForUUID :: "string option \<Rightarrow> DeviceStore \<Rightarrow> ServiceConfig option result" where
  "ds_serviceConfigForUUID i st =
     (case i of
        None \<Rightarrow> Inr None
      | Some UUID \<Rightarrow> if UUID = [] then Inr None
          else rbind (storedDeviceForUUID i st) (\<lambda>device.
            if \<not> presentNotNull device then Inr None
            else rbind (subscript (the device) (Some ''services'')) (\<lambda>services.
              if \<not> presentNotNull services then Inr None
              else rbind (subscript (the services) i) (\<lambda>service.
                if \<not> presentNotNull service then Inr None
                else rbind (subscript (the service) (Some ''config'')) (\<lambda>config.
                  if \<not> presentNotNull config then Inr None
                  else rbind (dictionaryWithDictionary (the config)) cfg_serviceConfigWithJSONObject)))))"

section \<open>Adding, updating and removing devices\<close>

text \<open>A service always has a JSON form; storing it under a nil UUID raises.\<close>

definition jsonRepresentationForDevice :: "world \<Rightarrow> nat \<Rightarrow> (json option \<times> world) result" where
  "jsonRepresentationForDevice w0 r =
     (if dev_services w0 r = [] then Inr (None, w0)
      else (case dev_id r w0 of (i, w) \<Rightarrow>
        (let d = w_dev w r;
             dict = (setObject (JNum (cd_lastDetection d)) ''lastDetection'' \<circ>
                     setObject (JNum (cd_lastConnected d)) ''lastConnected'' \<circ>
                     setKeyed (map_option JStr (cd_lastSeenOnWifi d)) ''lastSeenOnWifi'' \<circ>
                     setKeyed (map_option JStr (cd_lastKnownIPAddress d)) ''lastKnownIPAddress'' \<circ>
                     setKeyed (map_option JStr (cd_friendlyName (w_sd w) d)) ''friendlyName'' \<circ>
                     setObject (JStr i) ''id'') []
         in rbind (servicesJSON (w_sd w) (dev_services w r) []) (\<lambda>services.
              Inr (Some (JObj (setObject (JObj services) ''services'' dict)), w)))))"

definition updateDevice ::
  "nat option \<Rightarrow> real \<Rightarrow> real \<Rightarrow> world \<Rightarrow> DeviceStore \<Rightarrow> (world \<times> DeviceStore) result" where
  "updateDevice device t1 t2 w0 st =
     (case device of
        None \<Rightarrow> Inr (w0, st)
      | Some r \<Rightarrow> if dev_services w0 r = [] then Inr (w0, st)
          else (case dev_id r w0 of (i, w) \<Rightarrow>
            rbind (storedDeviceForUUID (Some i) st) (\<lambda>info.
              if \<not> presentNotNull info then Inr (w, st)
              else rbind (dictionaryWithDictionary (the info)) (\<lambda>stored.
                let d = w_dev w r;
                    dict = (setObject (JNum (cd_lastDetection d)) ''lastDetection'' \<circ>
                            setObject (JNum (cd_lastConnected d)) ''lastConnected'' \<circ>
                            setKeyed (map_option JStr (cd_lastSeenOnWifi d)) ''lastSeenOnWifi'' \<circ>
                            setKeyed (map_option JStr (cd_lastKnownIPAddress d)) ''lastKnownIPAddress'') stored
                in rbind (dictOrEmpty (objectForKey dict ''services'')) (\<lambda>servicesInfo.
                   rbind (servicesJSON (w_sd w) (dev_services w r) servicesInfo) (\<lambda>services.
                   rbind (ds_store t1 t2
                      (st\<lparr>ds_stored := setObject (JObj (setObject (JObj services) ''services'' dict)) i (ds_stored st),
                          ds_active := setObject r i (ds_active st)\<rparr>)) (\<lambda>st'. Inr (w, st'))))))))"

definition ds_addDevice ::
  "nat option \<Rightarrow> real \<Rightarrow> real \<Rightarrow> world \<Rightarrow> DeviceStore \<Rightarrow> (world \<times> DeviceStore) result" where
  "ds_addDevice device t1 t2 w0 st0 =
     (case device of
        None \<Rightarrow> Inr (w0, st0)
      | Some r \<Rightarrow> if dev_services w0 r = [] then Inr (w0, st0)
          else (case dev_id r w0 of (i, w) \<Rightarrow>
            (let st = (if objectForKey (ds_active st0) i = None
                       then st0\<lparr>ds_active := setObject r i (ds_active st0)\<rparr> else st0)
             in if objectForKey (ds_stored st) i \<noteq> None then updateDevice device t1 t2 w st
                else rbind (jsonRepresentationForDevice w r) (\<lambda>(storedDevice, w').
                  (case storedDevice of
                     None \<Rightarrow> Inr (w', st)
                   | Some j \<Rightarrow> rbind (ds_store t1 t2 (st\<lparr>ds_stored := setObject j i (ds_stored st)\<rparr>))
                       (\<lambda>st'. Inr (w', st')))))))"

definition ds_removeDevice ::
  "nat option \<Rightarrow> real \<Rightarrow> real \<Rightarrow> world \<Rightarrow> DeviceStore \<Rightarrow> (world \<times> DeviceStore) result" where
  "ds_removeDevice device t1 t2 w0 st =
     (case device of
        None \<Rightarrow> Inr (w0, st)
      | Some r \<Rightarrow> if dev_services w0 r = [] then Inr (w0, st)
          else (case dev_id r w0 of (i, w) \<Rightarrow>
            rbind (ds_store t1 t2 (st\<lparr>ds_stored := removeObjectForKey i (ds_stored st)\<rparr>)) (\<lambda>st'. Inr (w, st'))))"

definition ds_removeAll :: "real \<Rightarrow> real \<Rightarrow> DeviceStore \<Rightarrow> DeviceStore result" where
  "ds_removeAll t1 t2 st = ds_store t1 t2 (st\<lparr>ds_stored := []\<rparr>)"

section \<open>The store protocol\<close>

text \<open>
  The messages of the \<open>ConnectableDeviceStore\<close> protocol, as the default store answers them. \<open>t1\<close> and
  \<open>t2\<close> are the two readings of the clock.
\<close>

datatype storeMessage =
    StAddDevice "nat option"
  | StUpdateDevice "nat option"
  | StRemoveDevice "nat option"
  | StDeviceForId "string option"
  | StServiceConfigForUUID "string option"
  | StRemoveAll
  | StStoredDevices

datatype storeReply =
    StVoid
  | StDevice "nat option"
  | StConfig "ServiceConfig option"
  | StRecords "json nsdict"

fun ds_perform ::
  "real \<Rightarrow> real \<Rightarrow> storeMessage \<Rightarrow> world \<times> DeviceStore \<Rightarrow> ((world \<times> DeviceStore) \<times> storeReply) result" where
  "ds_perform t1 t2 (StAddDevice d) (w, st) = rbind (ds_addDevice d t1 t2 w st) (\<lambda>p. Inr (p, StVoid))"
| "ds_perform t1 t2 (StUpdateDevice d) (w, st) = rbind (updateDevice d t1 t2 w st) (\<lambda>p. Inr (p, StVoid))"
| "ds_perform t1 t2 (StRemoveDevice d) (w, st) = rbind (ds_removeDevice d t1 t2 w st) (\<lambda>p. Inr (p, StVoid))"
| "ds_perform t1 t2 (StDeviceForId i) (w, st) =
     rbind (deviceForId i w st) (\<lambda>(r, w', st'). Inr ((w', st'), StDevice r))"
| "ds_perform t1 t2 (StServiceConfigForUUID i) (w, st) =
     rbind (ds_serviceConfigForUUID i st) (\<lambda>c. Inr ((w, st), StConfig c))"
| "ds_perform t1 t2 StRemoveAll (w, st) = rbind (ds_removeAll t1 t2 st) (\<lambda>st'. Inr ((w, st'), StVoid))"
| "ds_perform t1 t2 StStoredDevices (w, st) = Inr ((w, st), StRecords (ds_stored st))"

section \<open>Properties of expiry\<close>

lemma expiredKeys_mem:
  "expiredKeys now m d = Inr ks \<Longrightarrow> dict_wf d \<Longrightarrow>
    k \<in> set ks \<longleftrightarrow> (\<exists>v. objectForKey d k = Some v \<and> deviceExpired now m v = Inr True)"
proof (induction now m d arbitrary: ks rule: expiredKeys.induct)
  case (2 now m l v d)
  from 2(2) obtain e ls where e: "deviceExpired now m v = Inr e" and ls: "expiredKeys now m d = Inr ls"
    and ks: "ks = (if e then l # ls else ls)"
    by (auto simp: rbind_Inr_iff)
  have wf: "dict_wf d" and fresh: "objectForKey d l = None"
    using 2(3) by (auto simp: dict_wf_def objectForKey_None_iff allKeys_def)
  note IH = 2(1) [OF ls wf]
  show ?case
  proof (cases "k = l")
    case True
    then have "k \<notin> set ls" using IH fresh by simp
    with True show ?thesis by (auto simp: ks e objectForKey_Cons)
  next
    case False
    then show ?thesis by (auto simp: ks IH objectForKey_Cons)
  qed
qed simp

lemma deleteOldUnusedDevices_lookup:
  assumes "deleteOldUnusedDevices now st = Inr st'" "dict_wf (ds_stored st)"
  shows "objectForKey (ds_stored st') k =
    (if \<exists>v. objectForKey (ds_stored st) k = Some v \<and> deviceExpired now (ds_maxStoreDuration st) v = Inr True
     then None else objectForKey (ds_stored st) k)"
  using assms
  by (auto simp: deleteOldUnusedDevices_def rbind_Inr_iff nsd.fold_del_lookup expiredKeys_mem)

lemma deviceExpired_record:
  assumes "objectForKey rec ''lastConnected'' = Some (JNum c)" "objectForKey rec ''lastDetection'' = Some (JNum t)"
  shows "deviceExpired now m (JObj rec) = Inr (\<not> c > 0 \<and> now - t > m)"
  using assms by (simp add: deviceExpired_def objectForKeyN_def doubleIfPresent_def presentNotNull_def isNull_def)

text \<open>
  C28: Cleaning the store keeps the record of a device exactly when the device was connected at some
  time or was detected within the storage period; a device that was ever connected is never deleted.
\<close>
theorem ds_expiry_spec:
  assumes "deleteOldUnusedDevices now st = Inr st'" "dict_wf (ds_stored st)"
    "objectForKey (ds_stored st) k = Some (JObj rec)"
    "objectForKey rec ''lastConnected'' = Some (JNum c)" "objectForKey rec ''lastDetection'' = Some (JNum t)"
  shows "objectForKey (ds_stored st') k =
    (if c > 0 \<or> now - t \<le> ds_maxStoreDuration st then Some (JObj rec) else None)"
  using assms by (auto simp: deleteOldUnusedDevices_lookup [OF assms(1,2)] deviceExpired_record [OF assms(4,5)])

definition empty_store :: DeviceStore where
  "empty_store = \<lparr>ds_active = [], ds_stored = [], ds_deviceStore = None, ds_version = 1, ds_created = 0,
     ds_updated = 0, ds_maxStoreDuration = 3 * 24 * 60 * 60, ds_waitToWrite = False, ds_queue = [],
     ds_phase = Idle, ds_file = EmptyFile\<rparr>"

definition sample_record :: jdict where
  "sample_record = [(''id'', JStr ''i''), (''lastConnected'', JNum 0), (''lastDetection'', JNum 100)]"

theorem ds_expiry_spec_witness:
  "\<exists>st'. deleteOldUnusedDevices 300000 (empty_store\<lparr>ds_stored := [(''i'', JObj sample_record)]\<rparr>) = Inr st'
     \<and> objectForKey (ds_stored st') ''i'' = None"
proof -
  let ?st = "empty_store\<lparr>ds_stored := [(''i'', JObj sample_record)]\<rparr>"
  have r: "objectForKey sample_record ''lastConnected'' = Some (JNum 0)"
    "objectForKey sample_record ''lastDetection'' = Some (JNum 100)"
    by (simp_all add: sample_record_def objectForKey_Cons)
  obtain st' where del: "deleteOldUnusedDevices 300000 ?st = Inr st'"
    by (simp add: deleteOldUnusedDevices_def deviceExpired_record [OF r])
  have wf: "dict_wf (ds_stored ?st)" by (simp add: dict_wf_def)
  have k: "objectForKey (ds_stored ?st) ''i'' = Some (JObj sample_record)" by (simp add: objectForKey_Cons)
  from ds_expiry_spec [OF del wf k r] del show ?thesis by (auto simp: empty_store_def)
qed

section \<open>Properties of the write queue\<close>

fun wr_step :: "DeviceStore \<Rightarrow> DeviceStore result" where
  "wr_step st = (case ds_phase st of
      Idle \<Rightarrow> wr_serialise st
    | Serialised lastUpdated j \<Rightarrow> Inr (wr_write st)
    | Written lastUpdated \<Rightarrow> Inr (wr_finish st))"

fun wr_steps :: "nat \<Rightarrow> DeviceStore \<Rightarrow> DeviceStore result" where
  "wr_steps 0 st = Inr st"
| "wr_steps (Suc n) st = rbind (wr_step st) (wr_steps n)"

text \<open>
  Runs of the store: clients change the records and call \<open>store\<close> at any moment, between the moments of
  the write block too, with a clock that advances; writing does not fail.
\<close>

inductive wr_reach :: "DeviceStore \<Rightarrow> bool" where
  wr_init: "ds_init now file = Inr st \<Longrightarrow> wr_reach st"
| wr_store: "wr_reach st \<Longrightarrow> ds_updated st < t2 \<Longrightarrow>
    ds_store t1 t2 (st\<lparr>ds_stored := records, ds_active := active\<rparr>) = Inr st' \<Longrightarrow> wr_reach st'"
| wr_queue: "wr_reach st \<Longrightarrow> wr_step st = Inr st' \<Longrightarrow> wr_reach st'"

definition quiescent :: "DeviceStore \<Rightarrow> bool" where
  "quiescent st \<longleftrightarrow> ds_phase st = Idle \<and> ds_queue st = []"

definition upToDate :: "DeviceStore \<Rightarrow> bool" where
  "upToDate st \<longleftrightarrow> (\<forall>j. ds_deviceStore st = Some j \<longrightarrow> ds_file st = Content j)"

fun wr_phase_inv :: "writePhase \<Rightarrow> DeviceStore \<Rightarrow> bool" where
  "wr_phase_inv Idle st = (if ds_waitToWrite st
     then (\<exists>u. ds_queue st = [u] \<and> u \<le> ds_updated st) \<and> ds_deviceStore st \<noteq> None
     else ds_queue st = [] \<and> upToDate st)"
| "wr_phase_inv (Serialised u j) st = (ds_waitToWrite st \<and> ds_queue st = [] \<and> u \<le> ds_updated st
     \<and> ds_deviceStore st \<noteq> None \<and> (u = ds_updated st \<longrightarrow> ds_deviceStore st = Some j))"
| "wr_phase_inv (Written u) st = (ds_waitToWrite st \<and> ds_queue st = [] \<and> u \<le> ds_updated st
     \<and> ds_deviceStore st \<noteq> None \<and> (u = ds_updated st \<longrightarrow> upToDate st))"

abbreviation wr_inv :: "DeviceStore \<Rightarrow> bool" where
  "wr_inv st \<equiv> wr_phase_inv (ds_phase st) st"

lemma ds_load_inv:
  "ds_load now st = Inr st' \<Longrightarrow> ds_phase st = Idle \<Longrightarrow> \<not> ds_waitToWrite st \<Longrightarrow> ds_queue st = [] \<Longrightarrow>
    ds_deviceStore st = None \<Longrightarrow> wr_inv st'"
  by (auto simp: ds_load_def rbind_Inr_iff upToDate_def split: storeFile.splits)

lemma ds_store_shape:
  assumes "ds_store t1 t2 st = Inr st'"
  shows "\<exists>ks j. st' = (let s = st\<lparr>ds_stored := fold removeObjectForKey ks (ds_stored st), ds_updated := t2,
              ds_deviceStore := Some j\<rparr>
            in if ds_waitToWrite st then s else writeStoreToDisk s)"
proof -
  obtain ks where "st' = (let s = st\<lparr>ds_stored := fold removeObjectForKey ks (ds_stored st), ds_updated := t2,
      ds_deviceStore := Some [(''version'', JNum (real_of_int (ds_version st))),
        (''created'', JNum (ds_created st)), (''updated'', JNum t1),
        (''devices'', JObj (fold removeObjectForKey ks (ds_stored st)))]\<rparr>
      in if ds_waitToWrite st then s else writeStoreToDisk s)"
    using assms
    by (cases "ds_waitToWrite st")
       (auto simp: ds_store_def setMaxStoreDuration_def deleteOldUnusedDevices_def rbind_Inr_iff Let_def)
  then show ?thesis by blast
qed

lemma ds_store_stored:
  "ds_store t1 t2 st = Inr st' \<Longrightarrow> \<exists>ks. ds_stored st' = fold removeObjectForKey ks (ds_stored st)"
  using ds_store_shape [of t1 t2 st st'] by (auto simp: writeStoreToDisk_def Let_def)

lemma expiredKeys_returns:
  "(\<And>k v. (k, v) \<in> set d \<Longrightarrow> \<exists>b. deviceExpired now m v = Inr b) \<Longrightarrow> \<exists>ks. expiredKeys now m d = Inr ks"
proof (induction d)
  case (Cons p d)
  obtain k v where p: "p = (k, v)" by fastforce
  obtain b ks where "deviceExpired now m v = Inr b" "expiredKeys now m d = Inr ks"
    using Cons p by (meson list.set_intros)
  then show ?case by (simp add: p)
qed simp

lemma ds_store_returns:
  assumes "\<And>k v. (k, v) \<in> set (ds_stored st) \<Longrightarrow> \<exists>b. deviceExpired t1 (ds_maxStoreDuration st) v = Inr b"
  shows "\<exists>st'. ds_store t1 t2 st = Inr st'"
proof -
  obtain ks where "expiredKeys t1 (ds_maxStoreDuration st) (ds_stored st) = Inr ks"
    using expiredKeys_returns [of "ds_stored st" t1 "ds_maxStoreDuration st"] assms by blast
  then show ?thesis
    by (simp add: ds_store_def setMaxStoreDuration_def deleteOldUnusedDevices_def Let_def)
qed

lemma ds_store_single_returns:
  assumes "ds_stored st = [(k, JObj rec)]" "objectForKey rec ''lastConnected'' = Some (JNum c)"
    "objectForKey rec ''lastDetection'' = Some (JNum t)"
  shows "\<exists>st'. ds_store t1 t2 st = Inr st'"
  using assms by (intro ds_store_returns) (auto simp: deviceExpired_record)

lemma store_then_returns:
  assumes "f = rbind (ds_store t1 t2 st) (\<lambda>st'. Inr (w, st'))" "ds_stored st = [(k, JObj rec)]"
    "objectForKey rec ''lastConnected'' = Some (JNum c)" "objectForKey rec ''lastDetection'' = Some (JNum t)"
  shows "\<exists>x. f = Inr x"
  using ds_store_single_returns [OF assms(2-4), of t1 t2] assms(1) by auto

lemma ds_store_inv:
  assumes "ds_store t1 t2 st = Inr st'" "wr_inv st" "ds_updated st < t2"
  shows "wr_inv st'"
proof -
  obtain ks j where st':
    "st' = (let s = st\<lparr>ds_stored := fold removeObjectForKey ks (ds_stored st), ds_updated := t2, ds_deviceStore := Some j\<rparr>
            in if ds_waitToWrite st then s else writeStoreToDisk s)"
    using ds_store_shape [OF assms(1)] by blast
  show ?thesis
    using assms(2,3) unfolding st'
    by (cases "ds_phase st"; cases "ds_waitToWrite st")
       (auto simp: writeStoreToDisk_def Let_def)
qed

lemma wr_step_inv: "wr_step st = Inr st' \<Longrightarrow> wr_inv st \<Longrightarrow> wr_inv st'"
proof (cases "ds_phase st")
  case Idle
  assume "wr_step st = Inr st'" "wr_inv st"
  with Idle show ?thesis
    by (auto simp: wr_serialise_def split: if_splits list.splits)
next
  case (Serialised u j)
  assume "wr_step st = Inr st'" "wr_inv st"
  with Serialised show ?thesis by (auto simp: wr_write_def upToDate_def)
next
  case (Written u)
  assume "wr_step st = Inr st'" "wr_inv st"
  with Written show ?thesis by (auto simp: wr_finish_def writeStoreToDisk_def upToDate_def Let_def)
qed

lemma wr_reach_inv: "wr_reach st \<Longrightarrow> wr_inv st"
proof (induction rule: wr_reach.induct)
  case (wr_init now f st)
  then show ?case using ds_load_inv unfolding ds_init_def by fastforce
next
  case (wr_store st t2 t1 active records st')
  have inv: "wr_inv (st\<lparr>ds_stored := records, ds_active := active\<rparr>)"
    using wr_store.IH by (cases "ds_phase st") (auto simp: upToDate_def split: if_splits)
  show ?case
    using ds_store_inv [OF wr_store.hyps(3) inv] wr_store.hyps(2) by simp
next
  case (wr_queue st st')
  then show ?case using wr_step_inv by blast
qed

lemma wr_steps_fun:
  "wr_steps 0 = Inr" "wr_steps (Suc n) = (\<lambda>st. rbind (wr_step st) (wr_steps n))"
  by (rule ext, simp)+

lemma rbind_Inr [simp]: "rbind x Inr = x"
  by (cases x) simp_all

lemma wr_steps_six: "wr_steps 6 st = rbind (wr_step st) (\<lambda>a. rbind (wr_step a) (\<lambda>b. rbind (wr_step b) (\<lambda>c.
      rbind (wr_step c) (\<lambda>d. rbind (wr_step d) wr_step))))"
proof -
  have "(6 :: nat) = Suc (Suc (Suc (Suc (Suc (Suc 0)))))" by simp
  then show ?thesis by (simp only: wr_steps_fun rbind_Inr)
qed



section \<open>Properties of the records\<close>

lemma servicesJSON_other:
  "servicesJSON heap ss acc = Inr d \<Longrightarrow> Some u \<notin> svc_UUID heap ` set ss \<Longrightarrow>
    objectForKey d u = objectForKey acc u"
proof (induction heap ss acc rule: servicesJSON.induct)
  case (2 heap s ss acc)
  then obtain v where v: "svc_UUID heap s = Some v"
    by (auto simp: rbind_Inr_iff setObjectN_def svc_UUID_def split: option.splits)
  then have "servicesJSON heap ss (setObject (JObj (svc_toJSONObject heap s)) v acc) = Inr d"
    using 2(2) by (simp add: setObjectN_def svc_UUID_def)
  moreover have "v \<noteq> u" using 2(3) v by auto
  ultimately show ?case
    using 2(1) [of "setObject (JObj (svc_toJSONObject heap s)) v acc"] 2(3) v
    by (simp add: setObjectN_def svc_UUID_def)
qed simp

lemma servicesJSON_member:
  "servicesJSON heap ss acc = Inr d \<Longrightarrow> distinct (map (svc_UUID heap) ss) \<Longrightarrow> s \<in> set ss \<Longrightarrow>
    svc_UUID heap s = Some u \<Longrightarrow> objectForKey d u = Some (JObj (svc_toJSONObject heap s))"
proof (induction heap ss acc rule: servicesJSON.induct)
  case (2 heap t ss acc)
  then obtain v where v: "svc_UUID heap t = Some v"
    by (auto simp: rbind_Inr_iff setObjectN_def svc_UUID_def split: option.splits)
  then have rest: "servicesJSON heap ss (setObject (JObj (svc_toJSONObject heap t)) v acc) = Inr d"
    using 2(2) by (simp add: setObjectN_def svc_UUID_def)
  show ?case
  proof (cases "s = t")
    case True
    with 2(3,5) v have "Some u \<notin> svc_UUID heap ` set ss" by auto
    from servicesJSON_other [OF rest this] True v 2(5) show ?thesis by simp
  next
    case False
    with 2(1) [of "setObject (JObj (svc_toJSONObject heap t)) v acc"] 2(3,4,5) rest v
    show ?thesis by (simp add: setObjectN_def svc_UUID_def)
  qed
qed simp

text \<open>The record of a device that was ever connected, or detected recently, survives \<open>store\<close>.\<close>

lemma ds_store_keeps:
  assumes "ds_store t1 t2 st = Inr st'" "dict_wf (ds_stored st)"
    "objectForKey (ds_stored st) k = Some (JObj rec)"
    "objectForKey rec ''lastConnected'' = Some (JNum c)" "objectForKey rec ''lastDetection'' = Some (JNum t)"
    "c > 0 \<or> t1 - t \<le> ds_maxStoreDuration st"
  shows "objectForKey (ds_stored st') k = Some (JObj rec)"
proof -
  obtain st1 where del: "deleteOldUnusedDevices t1 (st\<lparr>ds_maxStoreDuration := ds_maxStoreDuration st\<rparr>) = Inr st1"
    and st': "ds_stored st' = ds_stored st1"
    using assms(1) by (auto simp: ds_store_def setMaxStoreDuration_def rbind_Inr_iff Let_def writeStoreToDisk_def)
  show ?thesis
    unfolding st' using assms(2-6)
    by (subst deleteOldUnusedDevices_lookup [OF del]) (auto simp: deviceExpired_record [OF assms(4,5)])
qed


definition sample_world :: world where
  "sample_world = \<lparr>w_sd = (\<lambda>_. sd_new)(1 := sd_new\<lparr>sd_serviceId := Some ''DLNA'', sd_UUID := Some ''u1''\<rparr>),
     w_dev = (\<lambda>_. (fst (cd_init 0 (\<lambda>_. sd_new)))\<lparr>cd_id := Some ''i'', cd_lastConnected := 5,
        cd_services := [(''DLNA'', sample_service\<lparr>svc_config := Some (cfg_alloc ServiceConfigClass)\<rparr>)]\<rparr>),
     w_next = 10, w_guid = show_nat\<rparr>"

lemma sample_world_facts:
  "dev_services sample_world r = [sample_service\<lparr>svc_config := Some (cfg_alloc ServiceConfigClass)\<rparr>]"
  "cd_id (w_dev sample_world r) = Some ''i''" "cd_lastConnected (w_dev sample_world r) = 5"
  "svc_UUID (w_sd sample_world) (sample_service\<lparr>svc_config := c\<rparr>) = Some ''u1''"
  by (simp_all add: sample_world_def dev_services_def allValues_def svc_UUID_def sample_service_def cd_init_def)

definition sample_store :: DeviceStore where
  "sample_store = empty_store\<lparr>ds_stored := [(''i'', JObj [(''services'', JObj [(''u2'', JNull)])])]\<rparr>"


text \<open>
  Purging the store deletes every record, but a device that is active is still returned for its
  identifier.
\<close>
theorem ds_removeAll_keeps_active:
  assumes "ds_removeAll t1 t2 st = Inr st'" "objectForKey (ds_active st) i = Some r" "i \<noteq> []"
  shows "ds_stored st' = [] \<and> (\<exists>w' st''. deviceForId (Some i) w st' = Inr (Some r, w', st''))"
proof -
  have st': "ds_stored st' = []" "ds_active st' = ds_active st"
    using assms(1)
    by (auto simp: ds_removeAll_def ds_store_def setMaxStoreDuration_def deleteOldUnusedDevices_def
        writeStoreToDisk_def Let_def)
  have "activeDeviceForUUID w i st' = Some r"
    using assms(2) st' by (simp add: activeDeviceForUUID_def)
  then have "\<exists>w' st''. deviceForId (Some i) w st' = Inr (Some r, w', st'')"
    using assms(3) by (simp add: deviceForId_def split: prod.splits)
  with st' show ?thesis by simp
qed

theorem ds_removeAll_keeps_active_witness:
  "\<exists>st'. ds_removeAll 1 2 (empty_store\<lparr>ds_active := [(''i'', 4)]\<rparr>) = Inr st' \<and> ds_stored st' = []"
proof -
  let ?st = "empty_store\<lparr>ds_active := [(''i'', 4)]\<rparr>"
  obtain st' where r: "ds_removeAll 1 2 ?st = Inr st'"
    by (simp add: ds_removeAll_def ds_store_def setMaxStoreDuration_def deleteOldUnusedDevices_def Let_def)
  have a: "objectForKey (ds_active ?st) ''i'' = Some 4" by (simp add: objectForKey_Cons)
  from ds_removeAll_keeps_active [OF r a] r show ?thesis by auto
qed

lemma fold_remove_single: "fold removeObjectForKey ks [(k, v)] = (if k \<in> set ks then [] else [(k, v)])"
proof -
  have one: "removeObjectForKey l [(k, v)] = (if k = l then [] else [(k, v)])" "removeObjectForKey l [] = ([] :: ('a \<times> 'b) list)" for l
    by (simp_all add: removeObjectForKey_def)
  have "fold removeObjectForKey ks [] = ([] :: ('a \<times> 'b) list)" for ks
    by (induction ks) (simp_all add: one)
  then show ?thesis by (induction ks) (simp_all add: one)
qed

lemma svc_toJSONObject_config:
  "objectForKey (svc_toJSONObject heap s) ''config'' = map_option (\<lambda>c. JObj (cfg_toJSONObject c)) (svc_config s)"
  by (cases "svc_config s") (simp_all add: svc_toJSONObject_def)



section \<open>The invariant of the store\<close>

text \<open>
  The records and the active devices are dictionaries, and the write block, its queue and the waiting flag
  are in step.
\<close>

definition ds_inv :: "DeviceStore \<Rightarrow> bool" where
  "ds_inv st \<longleftrightarrow> dict_wf (ds_stored st) \<and> dict_wf (ds_active st) \<and> wr_inv st"

lemma wr_inv_records [simp]:
  "wr_phase_inv ph (st\<lparr>ds_stored := r\<rparr>) = wr_phase_inv ph st"
  "wr_phase_inv ph (st\<lparr>ds_active := a\<rparr>) = wr_phase_inv ph st"
  by (cases ph; auto simp: upToDate_def)+

lemma ds_inv_records [simp, intro]:
  "ds_inv st \<Longrightarrow> dict_wf r \<Longrightarrow> ds_inv (st\<lparr>ds_stored := r\<rparr>)"
  "ds_inv st \<Longrightarrow> dict_wf a \<Longrightarrow> ds_inv (st\<lparr>ds_active := a\<rparr>)"
  by (simp_all add: ds_inv_def)

lemma ds_inv_dicts: "ds_inv st \<Longrightarrow> dict_wf (ds_stored st)" "ds_inv st \<Longrightarrow> dict_wf (ds_active st)"
  by (simp_all add: ds_inv_def)

lemma ds_store_ds_inv:
  assumes "ds_store t1 t2 st = Inr st'" "ds_inv st" "ds_updated st < t2"
  shows "ds_inv st'"
proof -
  have "wr_inv st'" using ds_store_inv [OF assms(1)] assms(2,3) by (simp add: ds_inv_def)
  moreover have "ds_active st' = ds_active st"
    using ds_store_shape [OF assms(1)] by (auto simp: Let_def writeStoreToDisk_def)
  moreover obtain ks where "ds_stored st' = fold removeObjectForKey ks (ds_stored st)"
    using ds_store_stored [OF assms(1)] by blast
  ultimately show ?thesis using assms(2) by (simp add: ds_inv_def nsd.fold_del_wf)
qed

lemma updateDevice_ds_inv:
  assumes "updateDevice d t1 t2 w st = Inr (w', st')" "ds_inv st" "ds_updated st < t2"
  shows "ds_inv st'"
  using assms
  by (cases d) (auto simp: ds_inv_dicts updateDevice_def Let_def case_prod_beta split: if_split_asm
      dest!: rbind_Inr_iff [THEN iffD1] elim!: ds_store_ds_inv)

lemma addDevice_ds_inv:
  assumes "ds_addDevice d t1 t2 w st = Inr (w', st')" "ds_inv st" "ds_updated st < t2"
  shows "ds_inv st'"
  using assms
  by (cases d) (auto simp: ds_inv_dicts ds_addDevice_def Let_def case_prod_beta split: option.splits if_split_asm
      dest!: rbind_Inr_iff [THEN iffD1] elim!: ds_store_ds_inv updateDevice_ds_inv)

lemma deviceForId_ds_inv:
  assumes "deviceForId i w st = Inr (r, w', st')" "ds_inv st"
  shows "ds_inv st'"
  using assms
  by (cases i) (auto simp: ds_inv_dicts deviceForId_def case_prod_beta split: option.splits if_split_asm
      dest!: rbind_Inr_iff [THEN iffD1])

lemma removeDevice_ds_inv:
  assumes "ds_removeDevice d t1 t2 w st = Inr (w', st')" "ds_inv st" "ds_updated st < t2"
  shows "ds_inv st'"
  using assms
  by (cases d) (auto simp: ds_inv_dicts ds_removeDevice_def case_prod_beta split: if_split_asm
      dest!: rbind_Inr_iff [THEN iffD1] elim!: ds_store_ds_inv)

text \<open>
  C26: Every message of the store protocol that returns keeps the invariant of the store: the stored records
  and the active devices stay dictionaries and at most one write is waiting, provided that the clock has
  advanced since the last change.
\<close>
theorem ds_perform_keeps_inv:
  assumes "ds_perform t1 t2 msg (w, st) = Inr ((w', st'), reply)" "ds_inv st" "ds_updated st < t2"
  shows "ds_inv st'"
  using assms
  by (cases msg)
     (auto simp: ds_removeAll_def dest!: rbind_Inr_iff [THEN iffD1]
        elim!: addDevice_ds_inv updateDevice_ds_inv removeDevice_ds_inv deviceForId_ds_inv ds_store_ds_inv)

theorem ds_perform_keeps_inv_witness:
  "\<exists>w' st'. ds_perform 1 2 StRemoveAll (sample_world, empty_store) = Inr ((w', st'), StVoid) \<and> ds_inv st'"
proof -
  obtain st' where st: "ds_removeAll 1 2 empty_store = Inr st'"
    using ds_store_returns [of "empty_store\<lparr>ds_stored := []\<rparr>" 1 2] by (auto simp: ds_removeAll_def)
  then have "ds_perform 1 2 StRemoveAll (sample_world, empty_store) = Inr ((sample_world, st'), StVoid)" by simp
  moreover have "ds_inv empty_store"
    by (simp add: ds_inv_def empty_store_def dict_wf_def upToDate_def)
  moreover have "ds_updated empty_store < 2" by (simp add: empty_store_def)
  ultimately show ?thesis using ds_perform_keeps_inv by blast
qed

end
