(* ===== verification/SSDP.thy ===== *)
theory SSDP
  imports Config
begin

text \<open>
  \<open>Discovery/Providers/SSDPDiscoveryProvider\<close>: the registered filters, the answers to a search, the
  device descriptions loaded from their location, and the services found and lost.

  A datagram is the parsed HTTP message (\<open>CFHTTPMessage\<close>), and a loaded device description is the parsed
  XML document (\<open>CTXMLReader\<close>) or an error; both are inputs of the handlers. What the provider sends and
  tells its delegate is the list of outputs. Sockets are the two flags that say whether they are open.
\<close>

section \<open>Key-value coding on property lists\<close>

fun mapR :: "('a \<Rightarrow> 'b result) \<Rightarrow> 'a list \<Rightarrow> 'b list result" where
  "mapR f [] = Inr []"
| "mapR f (x # xs) = rbind (f x) (\<lambda>y. rbind (mapR f xs) (\<lambda>ys. Inr (y # ys)))"

lemma mapR_cong [fundef_cong]:
  "xs = ys \<Longrightarrow> (\<And>x. x \<in> set ys \<Longrightarrow> f x = g x) \<Longrightarrow> mapR f xs = mapR g ys"
proof -
  assume "xs = ys" "\<And>x. x \<in> set ys \<Longrightarrow> f x = g x"
  moreover from this(2) have "mapR f ys = mapR g ys" by (induction ys) auto
  ultimately show ?thesis by simp
qed

lemma mapR_Inr_iff: "mapR f xs = Inr ys \<longleftrightarrow> list_all2 (\<lambda>x y. f x = Inr y) xs ys"
  by (induction xs arbitrary: ys) (auto simp: rbind_Inr_iff list_all2_Cons1)

text \<open>
  \<open>valueForKey:\<close>: a dictionary answers its value or nil, an array the array of the answers of its
  elements, with \<open>NSNull\<close> for nil; anything else raises. A nil receiver answers nil.
\<close>

fun valueForKey :: "string \<Rightarrow> json \<Rightarrow> json option result" where
  "valueForKey k (JObj d) = Inr (objectForKey d k)"
| "valueForKey k (JArr xs) =
     rbind (mapR (\<lambda>x. rbind (valueForKey k x) (\<lambda>v. Inr (case v of None \<Rightarrow> JNull | Some y \<Rightarrow> y))) xs)
       (\<lambda>ys. Inr (Some (JArr ys)))"
| "valueForKey k _ = Inl NSUndefinedKeyException"

fun valueForKeyPath :: "string list \<Rightarrow> json option \<Rightarrow> json option result" where
  "valueForKeyPath ks None = Inr None"
| "valueForKeyPath [] (Some j) = Inr (Some j)"
| "valueForKeyPath (k # ks) (Some j) = rbind (valueForKey k j) (valueForKeyPath ks)"

definition subscriptN :: "json option \<Rightarrow> string \<Rightarrow> json option result" where
  "subscriptN j k = (case j of None \<Rightarrow> Inr None | Some x \<Rightarrow> subscript x (Some k))"

section \<open>State\<close>

type_synonym ssdpFilter = jdict

record SSDPDiscoveryProvider =
  ssdp_running :: bool
  ssdp_timer :: bool
  ssdp_filters :: "ssdpFilter list"
  ssdp_found :: "ServiceDescription nsdict"
  ssdp_hello :: "ServiceDescription nsdict option"
  ssdp_searchSocket :: bool
  ssdp_multicastSocket :: bool

datatype ssdpOutput =
    SsdpDidFind ServiceDescription
  | SsdpDidLose ServiceDescription
  | SsdpSearch "string option" string
  | SsdpLoad string string "string option"

definition ssdp_init :: SSDPDiscoveryProvider where
  "ssdp_init = \<lparr>ssdp_running = False, ssdp_timer = False, ssdp_filters = [], ssdp_found = [],
     ssdp_hello = None, ssdp_searchSocket = False, ssdp_multicastSocket = False\<rparr>"

text \<open>The platform values of the user agent string, and the time of day.\<close>

record platform =
  pf_systemName :: string
  pf_systemVersion :: string
  pf_sdkVersion :: string

section \<open>Filters\<close>

definition ssdpInfo :: "ssdpFilter \<Rightarrow> string \<Rightarrow> json option" where
  "ssdpInfo f k = Option.bind (asObject (objectForKey f ''ssdp'')) (\<lambda>i. objectForKey i k)"

definition ssdpFilterOf :: "ssdpFilter \<Rightarrow> string option" where
  "ssdpFilterOf f = asString (ssdpInfo f ''filter'')"

definition filterServiceId :: "ssdpFilter \<Rightarrow> string option" where
  "filterServiceId f = asString (objectForKey f ''serviceId'')"

definition ssdp_addDeviceFilter :: "ssdpFilter \<Rightarrow> SSDPDiscoveryProvider \<Rightarrow> SSDPDiscoveryProvider result" where
  "ssdp_addDeviceFilter parameters p =
     (if objectForKey parameters ''ssdp'' = None then Inl NSInternalInconsistencyException
      else if ssdpFilterOf parameters = None then Inl NSInternalInconsistencyException
      else Inr (p\<lparr>ssdp_filters := ssdp_filters p @ [parameters]\<rparr>))"

fun findIndex :: "('a \<Rightarrow> bool) \<Rightarrow> nat \<Rightarrow> 'a list \<Rightarrow> nat option" where
  "findIndex P i [] = None"
| "findIndex P i (x # xs) = (if P x then Some i else findIndex P (Suc i) xs)"

definition removeObjectAtIndex :: "nat \<Rightarrow> 'a list \<Rightarrow> 'a list" where
  "removeObjectAtIndex i xs = take i xs @ drop (Suc i) xs"

definition ssdp_removeDeviceFilter :: "ssdpFilter \<Rightarrow> SSDPDiscoveryProvider \<Rightarrow> SSDPDiscoveryProvider" where
  "ssdp_removeDeviceFilter parameters p =
     (case findIndex (\<lambda>f. isEqualToString (filterServiceId f) (filterServiceId parameters)) 0 (ssdp_filters p) of
        None \<Rightarrow> p
      | Some i \<Rightarrow> p\<lparr>ssdp_filters := removeObjectAtIndex i (ssdp_filters p)\<rparr>)"

definition isSearchingForFilter :: "string option \<Rightarrow> SSDPDiscoveryProvider \<Rightarrow> bool" where
  "isSearchingForFilter flt p =
     enumerateObjects (\<lambda>f c. if isEqualToString (ssdpFilterOf f) flt then (True, True) else (c, False))
       (ssdp_filters p) False"

definition serviceIdsForFilter :: "string option \<Rightarrow> SSDPDiscoveryProvider \<Rightarrow> string list result" where
  "serviceIdsForFilter flt p =
     mapR (\<lambda>f. case filterServiceId f of None \<Rightarrow> Inl NSInvalidArgumentException | Some i \<Rightarrow> Inr i)
       (filter (\<lambda>f. isEqualToString (ssdpFilterOf f) flt) (ssdp_filters p))"

section \<open>Notifications\<close>

definition notifyDelegateOfNewService ::
  "real \<Rightarrow> ServiceDescription \<Rightarrow> SSDPDiscoveryProvider \<Rightarrow> ssdpOutput list result" where
  "notifyDelegateOfNewService now service p =
     rbind (serviceIdsForFilter (sd_type service) p) (\<lambda>serviceIds.
       Inr (map (\<lambda>i. SsdpDidFind ((sd_copy now service)\<lparr>sd_serviceId := Some i\<rparr>)) serviceIds))"

definition notifyDelegateOfLostService ::
  "real \<Rightarrow> ServiceDescription \<Rightarrow> SSDPDiscoveryProvider \<Rightarrow> ssdpOutput list result" where
  "notifyDelegateOfLostService now service p =
     rbind (serviceIdsForFilter (sd_type service) p) (\<lambda>serviceIds.
       Inr (map (\<lambda>i. SsdpDidLose ((sd_copy now service)\<lparr>sd_serviceId := Some i\<rparr>)) serviceIds))"

section \<open>Search requests\<close>

text \<open>A request is sent at once and again after one and after two seconds.\<close>

definition refreshTime :: real where "refreshTime = 10"

definition searchAttemptsBeforeKill :: real where "searchAttemptsBeforeKill = 6"

definition userAgentForToken :: "platform \<Rightarrow> string option \<Rightarrow> string" where
  "userAgentForToken pf token = pf_systemName pf @ ''/'' @ pf_systemVersion pf @ '' '' @
     (case token of None \<Rightarrow> ''UPnP/1.1'' | Some t \<Rightarrow> t) @ '' ConnectSDK/'' @ pf_sdkVersion pf"

fun killServices ::
  "real \<Rightarrow> string list \<Rightarrow> SSDPDiscoveryProvider \<Rightarrow> (SSDPDiscoveryProvider \<times> ssdpOutput list) result" where
  "killServices now [] p = Inr (p, [])"
| "killServices now (k # ks) p =
     rbind (case objectForKey (ssdp_found p) k of
              None \<Rightarrow> Inr [] | Some service \<Rightarrow> notifyDelegateOfLostService now service p) (\<lambda>out.
     rbind (killServices now ks (p\<lparr>ssdp_found := removeObjectForKey k (ssdp_found p)\<rparr>)) (\<lambda>(p', out').
       Inr (p', out @ out')))"

definition sendRequestForFilter ::
  "platform \<Rightarrow> real \<Rightarrow> string option \<Rightarrow> string option \<Rightarrow> bool \<Rightarrow> SSDPDiscoveryProvider \<Rightarrow>
   (SSDPDiscoveryProvider \<times> ssdpOutput list) result" where
  "sendRequestForFilter pf now flt userAgentToken shouldKillInactiveDevices p =
     rbind (if shouldKillInactiveDevices
            then (let killPoint = now - refreshTime * searchAttemptsBeforeKill;
                      killKeys = map fst (filter (\<lambda>(k, s). sd_lastDetection s < killPoint) (ssdp_found p))
                  in killServices now killKeys p)
            else Inr (p, [])) (\<lambda>(p', out).
       Inr (p'\<lparr>ssdp_searchSocket := True, ssdp_multicastSocket := True\<rparr>,
            out @ replicate 3 (SsdpSearch flt (userAgentForToken pf userAgentToken))))"

fun sendRequests ::
  "platform \<Rightarrow> real \<Rightarrow> bool \<Rightarrow> ssdpFilter list \<Rightarrow> SSDPDiscoveryProvider \<Rightarrow>
   (SSDPDiscoveryProvider \<times> ssdpOutput list) result" where
  "sendRequests pf now kill [] p = Inr (p, [])"
| "sendRequests pf now kill (f # fs) p =
     rbind (sendRequestForFilter pf now (ssdpFilterOf f) (asString (ssdpInfo f ''userAgentToken'')) kill p)
       (\<lambda>(p', out). rbind (sendRequests pf now kill fs p') (\<lambda>(p'', out'). Inr (p'', out @ out')))"

definition sendSearchRequests ::
  "platform \<Rightarrow> real \<Rightarrow> bool \<Rightarrow> SSDPDiscoveryProvider \<Rightarrow> (SSDPDiscoveryProvider \<times> ssdpOutput list) result" where
  "sendSearchRequests pf now kill p = sendRequests pf now kill (ssdp_filters p) p"

section \<open>Starting and stopping\<close>

definition ssdp_start ::
  "platform \<Rightarrow> real \<Rightarrow> SSDPDiscoveryProvider \<Rightarrow> (SSDPDiscoveryProvider \<times> ssdpOutput list) result" where
  "ssdp_start pf now p =
     (if \<not> ssdp_timer p
      then rbind (sendSearchRequests pf now False p) (\<lambda>(p', out). Inr (p'\<lparr>ssdp_timer := True\<rparr>, out))
      else Inr (p, []))"

text \<open>The event handler of the refresh timer.\<close>

definition ssdp_timerFired ::
  "platform \<Rightarrow> real \<Rightarrow> SSDPDiscoveryProvider \<Rightarrow> (SSDPDiscoveryProvider \<times> ssdpOutput list) result" where
  "ssdp_timerFired pf now p = (if ssdp_timer p then sendSearchRequests pf now False p else Inr (p, []))"

definition ssdp_startDiscovery ::
  "platform \<Rightarrow> real \<Rightarrow> SSDPDiscoveryProvider \<Rightarrow> (SSDPDiscoveryProvider \<times> ssdpOutput list) result" where
  "ssdp_startDiscovery pf now p =
     (if \<not> ssdp_running p then ssdp_start pf now (p\<lparr>ssdp_running := True\<rparr>) else Inr (p, []))"

definition ssdp_stopDiscovery :: "SSDPDiscoveryProvider \<Rightarrow> SSDPDiscoveryProvider" where
  "ssdp_stopDiscovery p = p\<lparr>ssdp_searchSocket := False, ssdp_multicastSocket := False, ssdp_found := [],
     ssdp_hello := Some [], ssdp_running := False, ssdp_timer := False\<rparr>"

section \<open>Messages from devices\<close>

record httpMessage =
  msg_headerComplete :: bool
  msg_method :: "string option"
  msg_code :: int
  msg_headers :: "string nsdict"

text \<open>
  The first match of the pattern \<open>(?:uuid:).*(?:::)\<close>, as a location and a length: the first \<open>uuid:\<close>
  with a later \<open>::\<close> on the same line, up to the last such \<open>::\<close>.
\<close>

fun lastOccurrence :: "string \<Rightarrow> string \<Rightarrow> nat option" where
  "lastOccurrence t [] = None"
| "lastOccurrence t (c # s) = (case lastOccurrence t s of
      Some i \<Rightarrow> Some (Suc i)
    | None \<Rightarrow> if hasPrefix (c # s) t then Some 0 else None)"

fun uuidMatch :: "string \<Rightarrow> (nat \<times> nat) option" where
  "uuidMatch [] = None"
| "uuidMatch (c # s) =
     (case (if hasPrefix (c # s) ''uuid:''
            then lastOccurrence ''::'' (takeWhile (\<lambda>d. d \<noteq> CHR 0x0A) (drop 5 (c # s))) else None) of
        Some j \<Rightarrow> Some (0, j + 7)
      | None \<Rightarrow> map_option (\<lambda>(l, n). (Suc l, n)) (uuidMatch s))"

text \<open>The range arithmetic is on 64-bit unsigned words; a nil match answers the empty range at 0.\<close>

definition extractUUID :: "string \<Rightarrow> string result" where
  "extractUUID usn =
     (let (loc0, len0) = (case uuidMatch usn of None \<Rightarrow> (0, 0) | Some (l, n) \<Rightarrow> (of_nat l, of_nat n));
          location = loc0 + 5 :: 64 word;
          len = min (len0 - 7) (of_nat (length usn) - location)
      in substringWithRange usn (unat location) (unat len))"

text \<open>\<open>url.scheme\<close> and \<open>url.host\<close> of a location, from a parser that is a parameter.\<close>

definition ssdp_newService ::
  "(string \<Rightarrow> string option) \<Rightarrow> real \<Rightarrow> string \<Rightarrow> string option \<Rightarrow> string \<Rightarrow> string option \<Rightarrow> ServiceDescription" where
  "ssdp_newService hostOf now uuid theType location anAddress =
     sd_new\<lparr>sd_UUID := Some uuid, sd_type := theType,
       sd_address := (case hostOf location of Some h \<Rightarrow> Some h | None \<Rightarrow> anAddress),
       sd_port := 3001, sd_lastDetection := now\<rparr>"

definition ssdp_hellos :: "SSDPDiscoveryProvider \<Rightarrow> ServiceDescription nsdict" where
  "ssdp_hellos p = (case ssdp_hello p of None \<Rightarrow> [] | Some d \<Rightarrow> d)"

definition ssdp_announced ::
  "(string \<Rightarrow> string option) \<Rightarrow> real \<Rightarrow> string \<Rightarrow> string option \<Rightarrow> string option \<Rightarrow> string option \<Rightarrow>
   SSDPDiscoveryProvider \<Rightarrow> SSDPDiscoveryProvider \<times> ssdpOutput list" where
  "ssdp_announced hostOf now uuid theType location anAddress p =
     (case location of
        None \<Rightarrow> (p, [])
      | Some loc \<Rightarrow> if loc = [] then (p, [])
          else (case (objectForKey (ssdp_found p) uuid, objectForKey (ssdp_hellos p) uuid) of
            (None, None) \<Rightarrow>
              (p\<lparr>ssdp_hello := Some (setObject (ssdp_newService hostOf now uuid theType loc anAddress) uuid (ssdp_hellos p))\<rparr>,
               [SsdpLoad loc uuid theType])
          | (Some s, _) \<Rightarrow>
              (p\<lparr>ssdp_found := setObject (s\<lparr>sd_lastDetection := now\<rparr>) uuid (ssdp_found p)\<rparr>, [])
          | (None, Some h) \<Rightarrow> (p, [])))"

definition ssdp_byebye ::
  "real \<Rightarrow> string \<Rightarrow> SSDPDiscoveryProvider \<Rightarrow> (SSDPDiscoveryProvider \<times> ssdpOutput list) result" where
  "ssdp_byebye now uuid p =
     (case objectForKey (ssdp_found p) uuid of
        None \<Rightarrow> Inr (p, [])
      | Some s \<Rightarrow> rbind (notifyDelegateOfLostService now s p) (\<lambda>out.
          Inr (p\<lparr>ssdp_found := removeObjectForKey uuid (ssdp_found p)\<rparr>, out)))"

definition ssdp_didReceiveData ::
  "(string \<Rightarrow> string option) \<Rightarrow> real \<Rightarrow> httpMessage \<Rightarrow> string option \<Rightarrow> SSDPDiscoveryProvider \<Rightarrow>
   (SSDPDiscoveryProvider \<times> ssdpOutput list) result" where
  "ssdp_didReceiveData hostOf now msg anAddress p =
     (if \<not> msg_headerComplete msg then Inr (p, [])
      else (let isNotify = (msg_method msg = Some ''NOTIFY'');
                theType = objectForKey (msg_headers msg) (if isNotify then ''NT'' else ''ST'');
                usn = (case objectForKey (msg_headers msg) ''USN'' of None \<Rightarrow> [] | Some u \<Rightarrow> u)
            in if msg_code msg = 200 \<and> msg_method msg \<noteq> Some ''M-SEARCH'' \<and> isSearchingForFilter theType p
                  \<and> length usn > 0
               then rbind (extractUUID usn) (\<lambda>uuid.
                 if length uuid > 0
                 then if isEqualToString (objectForKey (msg_headers msg) ''NTS'') (Some ''ssdp:byebye'')
                      then ssdp_byebye now uuid p
                      else Inr (ssdp_announced hostOf now uuid theType
                             (objectForKey (msg_headers msg) ''Location'') anAddress p)
                 else Inr (p, []))
               else Inr (p, [])))"

section \<open>Device descriptions\<close>

text \<open>\<open>LIKE\<close> of a predicate: a star matches any characters, a question mark one.\<close>

fun like :: "string \<Rightarrow> string \<Rightarrow> bool" where
  "like [] s = (s = [])"
| "like (c # p) [] = (c = CHR ''*'' \<and> like p [])"
| "like (c # p) (d # s) =
     (if c = CHR ''*'' then like p (d # s) \<or> like (c # p) s
      else (c = CHR ''?'' \<or> c = d) \<and> like p s)"

definition stringArray :: "json option \<Rightarrow> json list" where
  "stringArray j = (case j of Some (JArr xs) \<Rightarrow> xs | _ \<Rightarrow> [])"

definition requiredServicesForFilter :: "string \<Rightarrow> SSDPDiscoveryProvider \<Rightarrow> json list" where
  "requiredServicesForFilter flt p =
     (case filter (\<lambda>f. case ssdpFilterOf f of None \<Rightarrow> False | Some s \<Rightarrow> like flt s) (ssdp_filters p) of
        [] \<Rightarrow> []
      | f # _ \<Rightarrow> stringArray (ssdpInfo f ''requiredServices''))"

definition discoveredServicesInDevice :: "json option \<Rightarrow> json list result" where
  "discoveredServicesInDevice device =
     rbind (valueForKeyPath [''serviceList'', ''service''] device) (\<lambda>serviceList.
       (case serviceList of
          Some (JObj d) \<Rightarrow> rbind (valueForKeyPath [''serviceType'', ''text''] serviceList) (\<lambda>t.
             (case t of None \<Rightarrow> Inl NSInvalidArgumentException | Some x \<Rightarrow> Inr [x]))
        | Some (JArr xs) \<Rightarrow> rbind (valueForKeyPath [''serviceType'', ''text''] serviceList) (\<lambda>ts. Inr (stringArray ts))
        | _ \<Rightarrow> Inr []))"

definition allRequiredServices :: "json list \<Rightarrow> json list \<Rightarrow> bool" where
  "allRequiredServices required discovered \<longleftrightarrow> set required \<subseteq> set discovered"

definition asDevices :: "json option \<Rightarrow> json list" where
  "asDevices sub = (case sub of None \<Rightarrow> [] | Some (JArr xs) \<Rightarrow> xs | Some x \<Rightarrow> [x])"

definition subDevices :: "json \<Rightarrow> json list result" where
  "subDevices device =
     rbind (valueForKeyPath [''deviceList'', ''device''] (Some device)) (\<lambda>sub.
       Inr (asDevices sub))"

text \<open>Termination of the search through the sub devices: values found by a key are smaller.\<close>

lemma size_lookup: "objectForKey d k = Some v \<Longrightarrow> size v < size (JObj d)"
proof -
  assume "objectForKey d k = Some v"
  then have "(k, v) \<in> set d" by (rule objectForKey_in_set)
  then show ?thesis by (induction d) auto
qed

lemma size_list_mono2: "list_all2 (\<lambda>x y. size y \<le> size x) xs ys \<Longrightarrow> size_list size ys \<le> size_list size xs"
  by (induction rule: list_all2_induct) auto

lemma size_valueForKey: "valueForKey k j = Inr (Some v) \<Longrightarrow> size v \<le> size j"
proof (induction k j arbitrary: v rule: valueForKey.induct)
  case (1 k d)
  then show ?case using size_lookup [of d k v] by simp
next
  case (2 k xs)
  then obtain ys where v: "v = JArr ys"
    and ys: "list_all2 (\<lambda>x y. rbind (valueForKey k x) (\<lambda>v. Inr (case v of None \<Rightarrow> JNull | Some y \<Rightarrow> y)) = Inr y) xs ys"
    by (auto simp: rbind_Inr_iff mapR_Inr_iff)
  have "list_all2 (\<lambda>x y. size y \<le> size x) xs ys"
    using ys 2(1) by (fastforce simp: list_all2_conv_all_nth rbind_Inr_iff split: option.splits)
  then show ?case using size_list_mono2 by (simp add: v)
qed simp_all

lemma valueForKeyPath_two:
  assumes "valueForKeyPath [k, l] (Some j) = Inr (Some v)"
  obtains u where "valueForKey k j = Inr (Some u)" "valueForKey l u = Inr (Some v)"
proof -
  obtain a where a: "valueForKey k j = Inr a" and r: "valueForKeyPath [l] a = Inr (Some v)"
    using assms by (auto simp: rbind_Inr_iff)
  obtain u where u: "a = Some u" using r by (cases a) auto
  obtain b where b: "valueForKey l u = Inr b" and "valueForKeyPath [] b = Inr (Some v)"
    using r u by (auto simp: rbind_Inr_iff)
  then have "b = Some v" by (cases b) auto
  with a u b show thesis using that by simp
qed

lemma size_subDevices:
  assumes "subDevices device = Inr subs" "s \<in> set subs"
  shows "size s < size device"
proof -
  obtain sub where sub: "valueForKeyPath [''deviceList'', ''device''] (Some device) = Inr sub"
    and subs: "subs = asDevices sub"
    using assms(1) by (auto simp: subDevices_def rbind_Inr_iff)
  obtain v2 where v2': "sub = Some v2" using subs assms(2) by (cases sub) (auto simp: asDevices_def)
  obtain v1 where v1: "valueForKey ''deviceList'' device = Inr (Some v1)"
    and v2: "valueForKey ''device'' v1 = Inr (Some v2)"
    using sub unfolding v2' by (rule valueForKeyPath_two)
  have le: "size v2 \<le> size v1" "size v1 \<le> size device"
    using v1 v2 size_valueForKey by blast+
  show ?thesis
  proof (cases "\<exists>xs. v2 = JArr xs")
    case True
    then obtain xs where "v2 = JArr xs" by blast
    then have "size s < size v2"
      using assms(2) subs v2' by (auto simp: asDevices_def less_Suc_eq_le intro: size_list_estimation')
    with le show ?thesis by simp
  next
    case False
    then have s: "s = v2" using assms(2) subs v2' by (auto simp: asDevices_def split: json.splits)
    have "\<nexists>xs. v1 = JArr xs" using v2 False by (auto simp: rbind_Inr_iff)
    then have "\<nexists>xs. device = JArr xs" using v1 by (auto simp: rbind_Inr_iff)
    then obtain d where "device = JObj d" using v1 by (cases device) auto
    then have "size v1 < size device" using v1 size_lookup by simp
    with le s show ?thesis by simp
  qed
qed

fun firstR :: "('a \<Rightarrow> 'b option result) \<Rightarrow> 'a list \<Rightarrow> 'b option result" where
  "firstR f [] = Inr None"
| "firstR f (x # xs) = rbind (f x) (\<lambda>r. case r of None \<Rightarrow> firstR f xs | Some d \<Rightarrow> Inr (Some d))"

lemma firstR_cong [fundef_cong]:
  "xs = ys \<Longrightarrow> (\<And>x. x \<in> set ys \<Longrightarrow> f x = g x) \<Longrightarrow> firstR f xs = firstR g ys"
proof -
  assume "xs = ys" "\<And>x. x \<in> set ys \<Longrightarrow> f x = g x"
  moreover from this(2) have "firstR f ys = firstR g ys" by (induction ys) (auto intro: arg_cong)
  ultimately show ?thesis by simp
qed

lemma rbind_cong [fundef_cong]:
  "x = y \<Longrightarrow> (\<And>a. y = Inr a \<Longrightarrow> f a = g a) \<Longrightarrow> rbind x f = rbind y g"
  by (cases y) simp_all

function deviceContainingRequiredServices :: "json list \<Rightarrow> json \<Rightarrow> json option result" where
  "deviceContainingRequiredServices required device =
     rbind (discoveredServicesInDevice (Some device)) (\<lambda>discovered.
       if allRequiredServices required discovered then Inr (Some device)
       else rbind (subDevices device) (\<lambda>subs.
              firstR (deviceContainingRequiredServices required) subs))"
  by pat_completeness auto
termination
  by (relation "measure (\<lambda>(required, device). size device)") (auto dest: size_subDevices)

declare deviceContainingRequiredServices.simps [simp del]

definition deviceContainingServicesWithFilter ::
  "string \<Rightarrow> SSDPDiscoveryProvider \<Rightarrow> json option \<Rightarrow> json option result" where
  "deviceContainingServicesWithFilter flt p device = (case device of
      None \<Rightarrow> Inr None
    | Some d \<Rightarrow> deviceContainingRequiredServices (requiredServicesForFilter flt p) d)"

text \<open>The services of a device and of its direct sub devices.\<close>

definition arrayOrObject :: "json option \<Rightarrow> json list" where
  "arrayOrObject j = (case j of Some (JArr xs) \<Rightarrow> xs | Some (JObj d) \<Rightarrow> [JObj d] | _ \<Rightarrow> [])"

definition subscript2 :: "json \<Rightarrow> string \<Rightarrow> string \<Rightarrow> json option result" where
  "subscript2 j k l = rbind (subscript j (Some k)) (\<lambda>v. subscriptN v l)"

definition serviceListForDevice :: "json \<Rightarrow> json list result" where
  "serviceListForDevice device =
     rbind (subscript2 device ''serviceList'' ''service'') (\<lambda>serviceList.
     rbind (subscript2 device ''deviceList'' ''device'') (\<lambda>devices.
     rbind (mapR (\<lambda>d. subscript2 d ''serviceList'' ''service'') (arrayOrObject devices)) (\<lambda>lists.
       Inr (arrayOrObject serviceList @ concat (map arrayOrObject lists)))))"

text \<open>The completion block of \<open>getLocationData:forKey:andType:\<close>.\<close>

record locationResponse =
  lr_URL :: "string option"
  lr_headers :: "string nsdict option"
  lr_data :: string
  lr_xml :: "json option"

definition describeService ::
  "string \<Rightarrow> locationResponse \<Rightarrow> json \<Rightarrow> ServiceDescription \<Rightarrow> ServiceDescription result" where
  "describeService theType lr device service =
     rbind (valueForKeyPath [''friendlyName'', ''text''] (Some device)) (\<lambda>friendlyName.
     rbind (subscript2 device ''modelName'' ''text'') (\<lambda>modelName.
     rbind (subscript2 device ''modelNumber'' ''text'') (\<lambda>modelNumber.
     rbind (subscript2 device ''modelDescription'' ''text'') (\<lambda>modelDescription.
     rbind (subscript2 device ''manufacturer'' ''text'') (\<lambda>manufacturer.
     rbind (serviceListForDevice device) (\<lambda>serviceList.
       Inr (service\<lparr>sd_type := Some theType, sd_friendlyName := asString friendlyName,
              sd_modelName := asString modelName, sd_modelNumber := asString modelNumber,
              sd_modelDescription := asString modelDescription, sd_manufacturer := asString manufacturer,
              sd_locationXML := Some (lr_data lr), sd_serviceList := Some serviceList,
              sd_commandURL := lr_URL lr, sd_locationResponseHeaders := lr_headers lr\<rparr>)))))))"

definition ssdp_locationLoaded ::
  "real \<Rightarrow> string \<Rightarrow> string \<Rightarrow> locationResponse \<Rightarrow> SSDPDiscoveryProvider \<Rightarrow>
   (SSDPDiscoveryProvider \<times> ssdpOutput list) result" where
  "ssdp_locationLoaded now uuid theType lr p =
     rbind
       (case lr_xml lr of
          None \<Rightarrow> Inr (p, [])
        | Some xml \<Rightarrow>
            rbind (valueForKeyPath [''root'', ''device''] (Some xml)) (\<lambda>root.
            rbind (deviceContainingServicesWithFilter theType p root) (\<lambda>device.
              (case (device, objectForKey (ssdp_hellos p) uuid) of
                 (Some dev, Some service) \<Rightarrow>
                   rbind (describeService theType lr dev service) (\<lambda>service'.
                     let p' = p\<lparr>ssdp_found := setObject service' uuid (ssdp_found p)\<rparr>
                     in rbind (notifyDelegateOfNewService now service' p') (\<lambda>out. Inr (p', out)))
               | _ \<Rightarrow> Inr (p, [])))))
       (\<lambda>(p', out). Inr (p'\<lparr>ssdp_hello := map_option (removeObjectForKey uuid) (ssdp_hello p')\<rparr>, out))"

section \<open>Properties of the device search\<close>

inductive subDeviceOf :: "json \<Rightarrow> json \<Rightarrow> bool" where
  self: "subDeviceOf d d"
| child: "subDevices d = Inr subs \<Longrightarrow> e \<in> set subs \<Longrightarrow> subDeviceOf s e \<Longrightarrow> subDeviceOf s d"

inductive_cases subDeviceOfE: "subDeviceOf s d"

definition hasRequired :: "json list \<Rightarrow> json \<Rightarrow> bool" where
  "hasRequired required s \<longleftrightarrow>
     (\<exists>discovered. discoveredServicesInDevice (Some s) = Inr discovered \<and> allRequiredServices required discovered)"

lemma firstR_Some: "firstR f xs = Inr (Some y) \<Longrightarrow> \<exists>x\<in>set xs. f x = Inr (Some y)"
  by (induction xs) (auto simp: rbind_Inr_iff split: option.splits)

lemma firstR_None: "firstR f xs = Inr None \<Longrightarrow> x \<in> set xs \<Longrightarrow> f x = Inr None"
  by (induction xs) (auto simp: rbind_Inr_iff split: option.splits)

text \<open>
  C14: The search through a device description ends, and when it raises nothing it finds a device exactly
  when the root or one of its nested devices offers all the required services; the device found is such
  a one.
\<close>
theorem device_search_correct:
  assumes "deviceContainingRequiredServices required device = Inr r"
  shows "case r of None \<Rightarrow> \<not> (\<exists>s. subDeviceOf s device \<and> hasRequired required s)
    | Some s \<Rightarrow> subDeviceOf s device \<and> hasRequired required s"
  using assms
proof (induction required device arbitrary: r rule: deviceContainingRequiredServices.induct)
  case (1 required device)
  obtain disc where disc: "discoveredServicesInDevice (Some device) = Inr disc"
    using 1(2) by (subst (asm) deviceContainingRequiredServices.simps) (auto simp: rbind_Inr_iff)
  show ?case
  proof (cases "allRequiredServices required disc")
    case True
    then have "r = Some device"
      using 1(2) disc by (subst (asm) deviceContainingRequiredServices.simps) simp
    then show ?thesis using True disc by (auto simp: hasRequired_def intro: self)
  next
    case False
    obtain subs where subs: "subDevices device = Inr subs"
      and first: "firstR (deviceContainingRequiredServices required) subs = Inr r"
      using 1(2) disc False
      by (subst (asm) deviceContainingRequiredServices.simps) (auto simp: rbind_Inr_iff)
    note IH = 1(1) [OF disc False subs]
    show ?thesis
    proof (cases r)
      case None
      have "\<not> hasRequired required s" if "subDeviceOf s device" for s
        using that
      proof (cases rule: subDeviceOf.cases)
        case self
        then show ?thesis using False disc by (auto simp: hasRequired_def)
      next
        case (child subs' e)
        then have e: "e \<in> set subs" using subs by simp
        have "deviceContainingRequiredServices required e = Inr None"
          using first e unfolding None by (rule firstR_None)
        from IH [OF e this] child(3) show ?thesis by auto
      qed
      then show ?thesis unfolding None by auto
    next
      case (Some s)
      from firstR_Some [OF first [unfolded Some]] obtain e where e: "e \<in> set subs"
        and f: "deviceContainingRequiredServices required e = Inr (Some s)" by blast
      from IH [OF e f] have "subDeviceOf s e" "hasRequired required s" by auto
      then show ?thesis unfolding Some using child [OF subs e] by simp
    qed
  qed
qed

definition sample_device :: json where
  "sample_device = JObj [(''deviceList'', JObj [(''device'', JObj [(''serviceList'',
     JObj [(''service'', JObj [(''serviceType'', JObj [(''text'', JStr ''urn:dial'')])])])])])]"

theorem device_search_correct_witness:
  "\<exists>s. deviceContainingRequiredServices [JStr ''urn:dial''] sample_device = Inr (Some s)
    \<and> s \<noteq> sample_device \<and> subDeviceOf s sample_device \<and> hasRequired [JStr ''urn:dial''] s"
proof -
  let ?s = "JObj [(''serviceList'', JObj [(''service'', JObj [(''serviceType'', JObj [(''text'', JStr ''urn:dial'')])])])]"
  have f: "deviceContainingRequiredServices [JStr ''urn:dial''] sample_device = Inr (Some ?s)"
    by (simp add: deviceContainingRequiredServices.simps sample_device_def discoveredServicesInDevice_def
        subDevices_def asDevices_def allRequiredServices_def objectForKey_Cons)
  from device_search_correct [OF f] f show ?thesis by (auto simp: sample_device_def)
qed

section \<open>Properties of the identifier in a USN\<close>

lemma lastOccurrence_None: "\<not> sublist t s \<Longrightarrow> t \<noteq> [] \<Longrightarrow> lastOccurrence t s = None"
  by (induction s) (auto simp: sublist_Cons_right hasPrefix_iff_prefix split: option.splits)

lemma lastOccurrence_append:
  "lastOccurrence t s = Some i \<Longrightarrow> lastOccurrence t (u @ s) = Some (length u + i)"
  by (induction u) auto

lemma lastOccurrence_le: "lastOccurrence t s = Some i \<Longrightarrow> t \<noteq> [] \<Longrightarrow> i + length t \<le> length s"
proof (induction s arbitrary: i)
  case (Cons c s)
  show ?case
  proof (cases "lastOccurrence t s")
    case None
    then show ?thesis using Cons.prems
      by (auto simp: hasPrefix_iff_prefix dest: prefix_length_le split: if_splits)
  next
    case (Some j)
    then show ?thesis using Cons by auto
  qed
qed simp

lemma uuidMatch_none: "\<not> sublist ''uuid:'' s \<Longrightarrow> uuidMatch s = None"
  by (induction s) (auto simp: sublist_Cons_right hasPrefix_iff_prefix)

text \<open>
  The identifier of a service name "uuid:U::T" is U, when U holds no line break and "::" does not
  occur in ":T", so that the last "::" is the one after U.
\<close>
theorem extractUUID_usn:
  assumes "CHR 0x0A \<notin> set (u @ t)" "\<not> sublist ''::'' (CHR '':'' # t)" "length u + length t < 2 ^ 32"
  shows "extractUUID (''uuid:'' @ u @ ''::'' @ t) = Inr u"
proof -
  let ?usn = "''uuid:'' @ u @ ''::'' @ t"
  have "lastOccurrence ''::'' (''::'' @ t) = Some 0"
    using lastOccurrence_None [OF assms(2)] by (simp add: hasPrefix_def)
  then have last: "lastOccurrence ''::'' (u @ ''::'' @ t) = Some (length u)"
    using lastOccurrence_append [of "''::''" "''::'' @ t" 0 u] by simp
  have line: "takeWhile (\<lambda>d. d \<noteq> CHR 0x0A) t = t" "x \<in> set u \<Longrightarrow> x \<noteq> CHR 0x0A" for x
    using assms(1) by (auto simp: takeWhile_eq_all_conv)
  have m: "uuidMatch ?usn = Some (0, length u + 7)"
    using last line(2) by (simp add: hasPrefix_def line(1))
  have len: "unat (of_nat (length u) :: 64 word) = length u"
    using assms(3) by (simp add: unat_of_nat take_bit_nat_eq_self)
  have le: "(of_nat (length u) :: 64 word) \<le> 2 + (of_nat (length u) + of_nat (length t))"
  proof -
    have "unat (2 + (of_nat (length u) + of_nat (length t)) :: 64 word) = 2 + (length u + length t)"
    proof -
      have "2 + (of_nat (length u) + of_nat (length t)) = (of_nat (2 + (length u + length t)) :: 64 word)" by simp
      then show ?thesis using assms(3) by (simp only: unat_of_nat) (simp add: take_bit_nat_eq_self)
    qed
    then show ?thesis by (simp add: word_le_nat_alt len)
  qed
  have mn: "min (of_nat (length u + 7) - 7) (of_nat (length ?usn) - (0 + 5 :: 64 word)) = of_nat (length u)"
    using le by (simp add: min_def algebra_simps)
  have "extractUUID ?usn = substringWithRange ?usn (unat (0 + 5 :: 64 word))
      (unat (min (of_nat (length u + 7) - 7) (of_nat (length ?usn) - (0 + 5 :: 64 word))))"
    unfolding extractUUID_def m by (simp only: option.case prod.case Let_def semiring_1_class.of_nat_0)
  also have "\<dots> = substringWithRange ?usn 5 (length u)"
    unfolding mn len by simp
  also have "\<dots> = Inr u" by (simp add: substringWithRange_def)
  finally show ?thesis .
qed

theorem extractUUID_usn_witness:
  "extractUUID ''uuid:b-12::urn:dial:1'' = Inr ''b-12''"
proof -
  have "CHR 0x0A \<notin> set (''b-12'' @ ''urn:dial:1'')" "length ''b-12'' + length ''urn:dial:1'' < 2 ^ 32" by simp_all
  moreover have "\<not> sublist ''::'' (CHR '':'' # ''urn:dial:1'')"
    by (simp add: sublist_Cons_right)
  ultimately show ?thesis using extractUUID_usn [of "''b-12''" "''urn:dial:1''"] by simp
qed

text \<open>
  A service name without an "uuid:" is cut after its fifth character, and one with fewer than five
  characters makes the range arithmetic wrap around, so that taking the substring raises.
\<close>
theorem extractUUID_unmatched:
  assumes "\<not> sublist ''uuid:'' usn" "length usn < 2 ^ 32"
  shows "extractUUID usn = (if length usn < 5 then Inl NSRangeException else Inr (drop 5 usn))"
proof (cases "length usn < 5")
  case True
  have n: "length usn = 0 \<or> length usn = 1 \<or> length usn = 2 \<or> length usn = 3 \<or> length usn = 4"
    using True by arith
  have m: "uuidMatch usn = None" using assms(1) by (rule uuidMatch_none)
  from n show ?thesis
    by (auto simp: extractUUID_def m substringWithRange_def min_def)
next
  case False
  have m: "uuidMatch usn = None" using assms(1) by (rule uuidMatch_none)
  define n where "n = length usn - 5"
  have n: "length usn = n + 5" "n < 2 ^ 32" using False assms(2) by (auto simp: n_def)
  have un: "unat (of_nat n :: 64 word) = n" using n(2) by (simp add: unat_of_nat take_bit_nat_eq_self)
  have "(of_nat n :: 64 word) \<le> - 7"
  proof -
    have "unat (- 7 :: 64 word) = 2 ^ 64 - 7" by simp
    then show ?thesis using n(2) by (simp add: word_le_nat_alt un)
  qed
  then have "min (0 - 7) (of_nat (length usn) - (0 + 5 :: 64 word)) = of_nat n"
    by (simp add: n min_def)
  then show ?thesis
    using False by (simp add: extractUUID_def m substringWithRange_def un n)
qed

theorem extractUUID_unmatched_witness: "extractUUID ''id'' = Inl NSRangeException"
proof -
  have "\<not> sublist ''uuid:'' ''id''" "length ''id'' < 2 ^ 32" by (simp_all add: sublist_Cons_right)
  from extractUUID_unmatched [OF this] show ?thesis by simp
qed

section \<open>The invariant of the provider\<close>

text \<open>
  No identifier is both announced and found, every entry carries its key as UUID, and every registered
  filter has a search string.
\<close>

definition entry_ok :: "string \<times> ServiceDescription \<Rightarrow> bool" where
  "entry_ok e \<longleftrightarrow> sd_UUID (snd e) = Some (fst e)"

definition ssdp_inv :: "SSDPDiscoveryProvider \<Rightarrow> bool" where
  "ssdp_inv p \<longleftrightarrow> dict_wf (ssdp_found p) \<and> dict_wf (ssdp_hellos p)
     \<and> list_all entry_ok (ssdp_found p) \<and> list_all entry_ok (ssdp_hellos p)
     \<and> (\<forall>k. objectForKey (ssdp_found p) k = None \<or> objectForKey (ssdp_hellos p) k = None)
     \<and> list_all (\<lambda>f. ssdpFilterOf f \<noteq> None) (ssdp_filters p)"

text \<open>The events of the provider: client calls, the timer, datagrams and loaded descriptions.\<close>

datatype ssdpEvent =
    EvAddFilter ssdpFilter | EvRemoveFilter ssdpFilter | EvStart real | EvStop | EvTimer real
  | EvData real httpMessage "string option" | EvLoaded real string string locationResponse

fun ssdp_handle :: "platform \<Rightarrow> (string \<Rightarrow> string option) \<Rightarrow> ssdpEvent \<Rightarrow> SSDPDiscoveryProvider \<Rightarrow>
    (SSDPDiscoveryProvider \<times> ssdpOutput list) result" where
  "ssdp_handle pf hostOf (EvAddFilter f) p = rbind (ssdp_addDeviceFilter f p) (\<lambda>p'. Inr (p', []))"
| "ssdp_handle pf hostOf (EvRemoveFilter f) p = Inr (ssdp_removeDeviceFilter f p, [])"
| "ssdp_handle pf hostOf (EvStart now) p = ssdp_startDiscovery pf now p"
| "ssdp_handle pf hostOf EvStop p = Inr (ssdp_stopDiscovery p, [])"
| "ssdp_handle pf hostOf (EvTimer now) p = ssdp_timerFired pf now p"
| "ssdp_handle pf hostOf (EvData now m a) p = ssdp_didReceiveData hostOf now m a p"
| "ssdp_handle pf hostOf (EvLoaded now u t lr) p = ssdp_locationLoaded now u t lr p"

lemma sendRequests_quiet:
  "\<exists>out. sendRequests pf now False fs p =
      Inr (if fs = [] then p else p\<lparr>ssdp_searchSocket := True, ssdp_multicastSocket := True\<rparr>, out)
    \<and> (\<forall>o'\<in>set out. \<exists>f a. o' = SsdpSearch f a)"
proof (induction fs arbitrary: p)
  case (Cons f fs)
  have req: "sendRequestForFilter pf now (ssdpFilterOf f) (asString (ssdpInfo f ''userAgentToken'')) False p =
      Inr (p\<lparr>ssdp_searchSocket := True, ssdp_multicastSocket := True\<rparr>,
        replicate 3 (SsdpSearch (ssdpFilterOf f) (userAgentForToken pf (asString (ssdpInfo f ''userAgentToken'')))))"
    by (simp add: sendRequestForFilter_def)
  from Cons [of "p\<lparr>ssdp_searchSocket := True, ssdp_multicastSocket := True\<rparr>"] show ?case
    by (auto simp: req)
qed simp

lemma ssdp_inv_sockets [simp]:
  "ssdp_inv (p\<lparr>ssdp_searchSocket := a\<rparr>) = ssdp_inv p" "ssdp_inv (p\<lparr>ssdp_multicastSocket := a\<rparr>) = ssdp_inv p"
  "ssdp_inv (p\<lparr>ssdp_timer := a\<rparr>) = ssdp_inv p" "ssdp_inv (p\<lparr>ssdp_running := a\<rparr>) = ssdp_inv p"
  by (simp_all add: ssdp_inv_def ssdp_hellos_def)

text \<open>
  The refresh timer only searches: whatever the time, it leaves the found services as they are and
  never reports one as lost, although the request routine can kill services that were silent for a minute.
\<close>
theorem ssdp_timer_never_kills:
  "\<exists>p' out. ssdp_timerFired pf now p = Inr (p', out) \<and> ssdp_found p' = ssdp_found p
     \<and> filter (\<lambda>x. case x of SsdpSearch f a \<Rightarrow> False | _ \<Rightarrow> True) out = []"
proof (cases "ssdp_timer p")
  case True
  obtain p' out where "sendRequests pf now False (ssdp_filters p) p = Inr (p', out)"
    and "ssdp_found p' = ssdp_found p" "\<forall>o'\<in>set out. \<exists>f a. o' = SsdpSearch f a"
    using sendRequests_quiet [of pf now "ssdp_filters p" p] by (auto split: if_splits)
  with True show ?thesis
    by (fastforce simp: ssdp_timerFired_def sendSearchRequests_def filter_empty_conv split: ssdpOutput.splits)
qed (simp add: ssdp_timerFired_def)

lemma ssdp_inv_found:
  assumes "ssdp_inv p" "objectForKey (ssdp_hellos p) k = None" "sd_UUID s = Some k"
  shows "ssdp_inv (p\<lparr>ssdp_found := setObject s k (ssdp_found p)\<rparr>)"
proof -
  have h: "ssdp_hellos (p\<lparr>ssdp_found := setObject s k (ssdp_found p)\<rparr>) = ssdp_hellos p"
    by (simp add: ssdp_hellos_def)
  show ?thesis using assms unfolding ssdp_inv_def h
    by (auto simp: set_setObject list_all_iff entry_ok_def)
qed

lemma ssdp_inv_hello:
  assumes "ssdp_inv p" "objectForKey (ssdp_found p) k = None" "sd_UUID s = Some k"
  shows "ssdp_inv (p\<lparr>ssdp_hello := Some (setObject s k (ssdp_hellos p))\<rparr>)"
proof -
  have h: "ssdp_hellos (p\<lparr>ssdp_hello := Some (setObject s k (ssdp_hellos p))\<rparr>) = setObject s k (ssdp_hellos p)"
    by (simp add: ssdp_hellos_def)
  show ?thesis using assms unfolding ssdp_inv_def h
    by (auto simp: set_setObject list_all_iff entry_ok_def)
qed

lemma ssdp_inv_UUID:
  assumes "ssdp_inv p" "objectForKey (ssdp_found p) k = Some s"
  shows "sd_UUID s = Some k" "objectForKey (ssdp_hellos p) k = None"
proof -
  have "\<forall>x\<in>set (ssdp_found p). entry_ok x" using assms(1) by (simp add: ssdp_inv_def list_all_iff)
  from bspec [OF this objectForKey_in_set [OF assms(2)]] have "entry_ok (k, s)" .
  then show "sd_UUID s = Some k" by (simp add: entry_ok_def)
  have "objectForKey (ssdp_found p) k = None \<or> objectForKey (ssdp_hellos p) k = None"
    using assms(1) by (simp add: ssdp_inv_def)
  with assms(2) show "objectForKey (ssdp_hellos p) k = None" by simp
qed

lemma ssdp_inv_announced:
  assumes "ssdp_inv p"
  shows "ssdp_inv (fst (ssdp_announced hostOf now uuid t loc a p))"
proof (cases "loc = None \<or> loc = Some []")
  case True
  then show ?thesis using assms by (auto simp: ssdp_announced_def)
next
  case False
  then obtain l where l: "loc = Some l" "l \<noteq> []" by auto
  show ?thesis
  proof (cases "objectForKey (ssdp_found p) uuid")
    case None
    then show ?thesis
      using assms l ssdp_inv_hello [OF assms None, of "ssdp_newService hostOf now uuid t l a"]
      by (cases "objectForKey (ssdp_hellos p) uuid") (simp_all add: ssdp_announced_def ssdp_newService_def)
  next
    case (Some s)
    from ssdp_inv_UUID [OF assms Some] have "sd_UUID (s\<lparr>sd_lastDetection := now\<rparr>) = Some uuid"
      and h: "objectForKey (ssdp_hellos p) uuid = None" by simp_all
    from ssdp_inv_found [OF assms h this(1)] show ?thesis
      using l Some by (simp add: ssdp_announced_def)
  qed
qed

lemma ssdp_inv_byebye:
  "ssdp_byebye now uuid p = Inr (p', out) \<Longrightarrow> ssdp_inv p \<Longrightarrow> ssdp_inv p'"
  by (auto simp: ssdp_byebye_def ssdp_inv_def ssdp_hellos_def rbind_Inr_iff set_removeObjectForKey list_all_iff
      split: option.splits)

lemma ssdp_inv_data:
  assumes "ssdp_didReceiveData hostOf now m a p = Inr (p', out)" "ssdp_inv p"
  shows "ssdp_inv p'"
proof -
  consider "p' = p" | uuid where "ssdp_byebye now uuid p = Inr (p', out)"
    | uuid t loc where "ssdp_announced hostOf now uuid t loc a p = (p', out)"
    using assms(1)
    by (auto simp: ssdp_didReceiveData_def Let_def rbind_Inr_iff split: if_splits)
  then show ?thesis
  proof cases
    case 1
    then show ?thesis using assms(2) by simp
  next
    case (2 uuid)
    then show ?thesis using ssdp_inv_byebye assms(2) by blast
  next
    case (3 uuid t loc)
    then have "p' = fst (ssdp_announced hostOf now uuid t loc a p)" by (metis fst_conv)
    then show ?thesis using ssdp_inv_announced assms(2) by blast
  qed
qed

lemma describeService_UUID: "describeService t lr d s = Inr s' \<Longrightarrow> sd_UUID s' = sd_UUID s"
  by (auto simp: describeService_def rbind_Inr_iff)

lemma ssdp_loaded_cases:
  assumes "ssdp_locationLoaded now uuid t lr p = Inr (p', out)"
  obtains "p' = p\<lparr>ssdp_hello := map_option (removeObjectForKey uuid) (ssdp_hello p)\<rparr>" "out = []"
  | s s' where "objectForKey (ssdp_hellos p) uuid = Some s" "sd_UUID s' = sd_UUID s"
      "p' = p\<lparr>ssdp_found := setObject s' uuid (ssdp_found p),
              ssdp_hello := map_option (removeObjectForKey uuid) (ssdp_hello p)\<rparr>"
      "notifyDelegateOfNewService now s' (p\<lparr>ssdp_found := setObject s' uuid (ssdp_found p)\<rparr>) = Inr out"
proof -
  let ?R = "\<lambda>q. q\<lparr>ssdp_hello := map_option (removeObjectForKey uuid) (ssdp_hello q)\<rparr>"
  show thesis
  proof (cases "lr_xml lr")
    case None
    with assms that(1) show thesis by (simp add: ssdp_locationLoaded_def)
  next
    case (Some xml)
    obtain root device where root: "valueForKeyPath [''root'', ''device''] (Some xml) = Inr root"
      and dev: "deviceContainingServicesWithFilter t p root = Inr device"
      using assms Some by (auto simp: ssdp_locationLoaded_def rbind_Inr_iff simp del: valueForKeyPath.simps)
    note [simp del] = valueForKeyPath.simps
    show thesis
    proof (cases "device = None \<or> objectForKey (ssdp_hellos p) uuid = None")
      case True
      with assms Some root dev have "p' = ?R p \<and> out = []"
        by (cases device; cases "objectForKey (ssdp_hellos p) uuid") (simp_all add: ssdp_locationLoaded_def)
      with that(1) show thesis by blast
    next
      case False
      then obtain d s where d: "device = Some d" and h: "objectForKey (ssdp_hellos p) uuid = Some s" by auto
      with assms Some root dev obtain s' where s': "describeService t lr d s = Inr s'"
        and n: "notifyDelegateOfNewService now s' (p\<lparr>ssdp_found := setObject s' uuid (ssdp_found p)\<rparr>) = Inr out"
        and p': "p' = p\<lparr>ssdp_found := setObject s' uuid (ssdp_found p),
              ssdp_hello := map_option (removeObjectForKey uuid) (ssdp_hello p)\<rparr>"
        by (auto simp: ssdp_locationLoaded_def rbind_Inr_iff Let_def)
      show thesis using that(2) [OF h describeService_UUID [OF s'] p' n] .
    qed
  qed
qed

lemma hellos_remove:
  "ssdp_hellos (p\<lparr>ssdp_hello := map_option (removeObjectForKey uuid) (ssdp_hello p)\<rparr>)
    = removeObjectForKey uuid (ssdp_hellos p)"
  by (cases "ssdp_hello p") (simp_all add: ssdp_hellos_def removeObjectForKey_def)

abbreviation dropHello :: "string \<Rightarrow> SSDPDiscoveryProvider \<Rightarrow> SSDPDiscoveryProvider" where
  "dropHello uuid p \<equiv> p\<lparr>ssdp_hello := map_option (removeObjectForKey uuid) (ssdp_hello p)\<rparr>"

lemma ssdp_inv_dropHello: "ssdp_inv p \<Longrightarrow> ssdp_inv (dropHello uuid p)"
  unfolding ssdp_inv_def hellos_remove
  by (auto simp: set_removeObjectForKey list_all_iff)

lemma ssdp_inv_loaded:
  assumes "ssdp_locationLoaded now uuid t lr p = Inr (p', out)" "ssdp_inv p"
  shows "ssdp_inv p'"
  using assms(1)
proof (cases rule: ssdp_loaded_cases)
  case 1
  then show ?thesis using ssdp_inv_dropHello [OF assms(2)] by simp
next
  case (2 s s')
  have "\<forall>x\<in>set (ssdp_hellos p). entry_ok x" using assms(2) by (simp add: ssdp_inv_def list_all_iff)
  from bspec [OF this objectForKey_in_set [OF 2(1)]] have "sd_UUID s' = Some uuid"
    using 2(2) by (simp add: entry_ok_def)
  then have "ssdp_inv ((dropHello uuid p)\<lparr>ssdp_found := setObject s' uuid (ssdp_found (dropHello uuid p))\<rparr>)"
    using ssdp_inv_dropHello [OF assms(2)] by (intro ssdp_inv_found) (simp_all only: hellos_remove objectForKey_removeObjectForKey simp_thms if_True)
  moreover have "p' = (dropHello uuid p)\<lparr>ssdp_found := setObject s' uuid (ssdp_found (dropHello uuid p))\<rparr>"
    unfolding 2(3) by (cases p) simp
  ultimately show ?thesis by (simp only:)
qed

lemma set_removeObjectAtIndex: "set (removeObjectAtIndex i xs) \<subseteq> set xs"
  by (auto simp: removeObjectAtIndex_def dest: in_set_takeD in_set_dropD)

lemma ssdp_handle_inv:
  assumes "ssdp_handle pf hostOf e p = Inr (p', out)" "ssdp_inv p"
  shows "ssdp_inv p'"
proof (cases e)
  case (EvAddFilter f)
  with assms show ?thesis
    by (auto simp: ssdp_addDeviceFilter_def ssdp_inv_def ssdp_hellos_def rbind_Inr_iff split: if_splits)
next
  case (EvRemoveFilter f)
  with assms show ?thesis
    using set_removeObjectAtIndex [of _ "ssdp_filters p"]
    by (fastforce simp: ssdp_removeDeviceFilter_def ssdp_inv_def ssdp_hellos_def list_all_iff split: option.splits)
next
  case (EvStart now)
  with assms show ?thesis
    using sendRequests_quiet [of pf now "ssdp_filters p" "p\<lparr>ssdp_running := True\<rparr>"]
    by (auto simp: ssdp_startDiscovery_def ssdp_start_def sendSearchRequests_def rbind_Inr_iff split: if_splits)
next
  case EvStop
  with assms show ?thesis by (auto simp: ssdp_stopDiscovery_def ssdp_inv_def ssdp_hellos_def)
next
  case (EvTimer now)
  with assms show ?thesis
    using sendRequests_quiet [of pf now "ssdp_filters p" p]
    by (auto simp: ssdp_timerFired_def sendSearchRequests_def split: if_splits)
next
  case (EvData now m a)
  with assms show ?thesis using ssdp_inv_data by simp
next
  case (EvLoaded now u t lr)
  with assms show ?thesis using ssdp_inv_loaded by simp
qed

fun ssdp_run :: "platform \<Rightarrow> (string \<Rightarrow> string option) \<Rightarrow> ssdpEvent list \<Rightarrow> SSDPDiscoveryProvider \<Rightarrow>
    (SSDPDiscoveryProvider \<times> ssdpOutput list) result" where
  "ssdp_run pf hostOf [] p = Inr (p, [])"
| "ssdp_run pf hostOf (e # es) p = rbind (ssdp_handle pf hostOf e p) (\<lambda>(p', out).
     rbind (ssdp_run pf hostOf es p') (\<lambda>(p'', out'). Inr (p'', out @ out')))"

lemma ssdp_run_inv:
  "ssdp_run pf hostOf es p = Inr (p', out) \<Longrightarrow> ssdp_inv p \<Longrightarrow> ssdp_inv p'"
proof (induction es arbitrary: p out)
  case (Cons e es)
  then obtain p1 out1 out2 where h: "ssdp_handle pf hostOf e p = Inr (p1, out1)"
    and r: "ssdp_run pf hostOf es p1 = Inr (p', out2)"
    by (auto simp: rbind_Inr_iff simp del: ssdp_handle.simps)
  from ssdp_handle_inv [OF h Cons.prems(2)] Cons.IH [OF r] show ?case by blast
qed simp

definition findsOf :: "string \<Rightarrow> ssdpOutput list \<Rightarrow> ServiceDescription list" where
  "findsOf u out = List.map_filter (\<lambda>x. case x of
     SsdpDidFind s \<Rightarrow> if sd_UUID s = Some u then Some s else None | _ \<Rightarrow> None) out"

lemma findsOf_empty: "findsOf u out = [] \<longleftrightarrow> (\<forall>s. SsdpDidFind s \<in> set out \<longrightarrow> sd_UUID s \<noteq> Some u)"
  by (induction out) (auto simp: findsOf_def map_filter_simps split: ssdpOutput.splits)

lemma notifyLost_outputs:
  "notifyDelegateOfLostService now s p = Inr out \<Longrightarrow> SsdpDidFind t \<notin> set out"
  by (auto simp: notifyDelegateOfLostService_def rbind_Inr_iff)

lemma notifyNew_outputs:
  "notifyDelegateOfNewService now s p = Inr out \<Longrightarrow> SsdpDidFind t \<in> set out \<Longrightarrow> sd_UUID t = sd_UUID s"
  by (auto simp: notifyDelegateOfNewService_def rbind_Inr_iff sd_copy_def descriptionWithAddress_def)

lemma data_outputs:
  assumes "ssdp_didReceiveData hostOf now m a p = Inr (p', out)"
  shows "SsdpDidFind t \<notin> set out"
proof -
  have "SsdpDidFind t \<notin> set (snd (ssdp_announced hostOf now uuid ty loc a p))" for uuid ty loc
    by (simp add: ssdp_announced_def split: option.splits)
  moreover have "SsdpDidFind t \<notin> set o'" if "ssdp_byebye now uuid p = Inr (q, o')" for uuid q o'
    using that notifyLost_outputs by (auto simp: ssdp_byebye_def rbind_Inr_iff split: option.splits)
  ultimately show ?thesis
    using assms by (auto simp: ssdp_didReceiveData_def Let_def rbind_Inr_iff split: if_splits) (metis snd_conv)+
qed

lemma requests_outputs:
  "sendRequests pf now False fs p = Inr (p', out) \<Longrightarrow> SsdpDidFind t \<notin> set out"
  using sendRequests_quiet [of pf now fs p] by auto

lemma hello_entry:
  assumes "ssdp_inv p" "objectForKey (ssdp_hellos p) k = Some s"
  shows "sd_UUID s = Some k" "objectForKey (ssdp_found p) k = None"
proof -
  have "\<forall>x\<in>set (ssdp_hellos p). entry_ok x" using assms(1) by (simp add: ssdp_inv_def list_all_iff)
  from bspec [OF this objectForKey_in_set [OF assms(2)]] show "sd_UUID s = Some k" by (simp add: entry_ok_def)
  have "objectForKey (ssdp_found p) k = None \<or> objectForKey (ssdp_hellos p) k = None"
    using assms(1) by (simp add: ssdp_inv_def)
  with assms(2) show "objectForKey (ssdp_found p) k = None" by simp
qed

text \<open>
  C17: In every run of the provider, with datagrams and loaded descriptions arriving in any order, an
  identifier is never both pending and found, entries carry their own identifier, and the next event
  reports no service as found whose identifier is among the found ones.
\<close>
theorem ssdp_no_duplicate_find:
  assumes "ssdp_run pf hostOf es ssdp_init = Inr (p, out)" "ssdp_handle pf hostOf e p = Inr (p', out')"
    "objectForKey (ssdp_found p) u \<noteq> None"
  shows "ssdp_inv p \<and> findsOf u out' = []"
proof -
  have inv: "ssdp_inv p"
    using assms(1) by (rule ssdp_run_inv) (simp add: ssdp_inv_def ssdp_init_def ssdp_hellos_def)
  have "sd_UUID t \<noteq> Some u" if t: "SsdpDidFind t \<in> set out'" for t
  proof (cases e)
    case (EvLoaded now uuid ty lr)
    with assms(2) have "ssdp_locationLoaded now uuid ty lr p = Inr (p', out')" by simp
    then show ?thesis
    proof (cases rule: ssdp_loaded_cases)
      case (2 s s')
      have "sd_UUID t = Some uuid" using notifyNew_outputs [OF 2(4) t] 2(2) hello_entry(1) [OF inv 2(1)] by simp
      moreover have "uuid \<noteq> u" using hello_entry(2) [OF inv 2(1)] assms(3) by auto
      ultimately show ?thesis by simp
    qed (use t in simp)
  next
    case (EvData now m a)
    then show ?thesis using assms(2) t data_outputs by fastforce
  next
    case (EvStart now)
    then show ?thesis using assms(2) t requests_outputs
      by (fastforce simp: ssdp_startDiscovery_def ssdp_start_def sendSearchRequests_def rbind_Inr_iff split: if_splits)
  next
    case (EvTimer now)
    then show ?thesis using assms(2) t requests_outputs
      by (fastforce simp: ssdp_timerFired_def sendSearchRequests_def split: if_splits)
  qed (use assms(2) t in \<open>auto simp: rbind_Inr_iff\<close>)
  then show ?thesis using inv by (auto simp: findsOf_empty)
qed

definition sample_platform :: platform where
  "sample_platform = \<lparr>pf_systemName = ''iOS'', pf_systemVersion = ''9'', pf_sdkVersion = ''1.6''\<rparr>"

definition sample_ssdpFilter :: ssdpFilter where
  "sample_ssdpFilter = [(''serviceId'', JStr ''DIAL''), (''ssdp'', JObj [(''filter'', JStr ''urn:dial'')])]"

definition sample_message :: httpMessage where
  "sample_message = \<lparr>msg_headerComplete = True, msg_method = None, msg_code = 200,
     msg_headers = [(''ST'', ''urn:dial''), (''USN'', ''uuid:b::x''), (''Location'', ''http://10.0.0.5/'')]\<rparr>"

definition sample_response :: locationResponse where
  "sample_response = \<lparr>lr_URL = None, lr_headers = None, lr_data = [],
     lr_xml = Some (JObj [(''root'', JObj [(''device'', JObj [])])])\<rparr>"

lemma sample_filter_facts:
  "ssdpFilterOf sample_ssdpFilter = Some ''urn:dial''" "filterServiceId sample_ssdpFilter = Some ''DIAL''"
  "ssdpInfo sample_ssdpFilter ''requiredServices'' = None" "objectForKey sample_ssdpFilter ''ssdp'' \<noteq> None"
  by (simp_all add: sample_ssdpFilter_def ssdpFilterOf_def ssdpInfo_def filterServiceId_def objectForKey_Cons)

lemma sample_extract: "extractUUID ''uuid:b::x'' = Inr ''b''"
  using extractUUID_usn [of "''b''" "''x''"] by (simp add: sublist_Cons_right)

lemma sample_search: "deviceContainingRequiredServices [] (JObj []) = Inr (Some (JObj []))"
  by (simp add: deviceContainingRequiredServices.simps discoveredServicesInDevice_def allRequiredServices_def)

theorem ssdp_no_duplicate_find_witness:
  "\<exists>p out. ssdp_run sample_platform (\<lambda>_. None) [EvAddFilter sample_ssdpFilter, EvData 1 sample_message None,
       EvLoaded 2 ''b'' ''urn:dial'' sample_response] ssdp_init = Inr (p, out)
     \<and> findsOf ''b'' out \<noteq> [] \<and> ssdp_inv p"
proof -
  let ?p1 = "ssdp_init\<lparr>ssdp_filters := [sample_ssdpFilter]\<rparr>"
  let ?s = "ssdp_newService (\<lambda>_. None) 1 ''b'' (Some ''urn:dial'') ''http://10.0.0.5/'' None"
  let ?p2 = "?p1\<lparr>ssdp_hello := Some [(''b'', ?s)]\<rparr>"
  have e1: "ssdp_handle sample_platform (\<lambda>_. None) (EvAddFilter sample_ssdpFilter) ssdp_init = Inr (?p1, [])"
    by (simp add: ssdp_addDeviceFilter_def sample_filter_facts ssdp_init_def)
  have e2: "ssdp_handle sample_platform (\<lambda>_. None) (EvData 1 sample_message None) ?p1
      = Inr (?p2, [SsdpLoad ''http://10.0.0.5/'' ''b'' (Some ''urn:dial'')])"
    by (simp add: ssdp_didReceiveData_def sample_message_def isSearchingForFilter_def sample_filter_facts
        isEqualToString_def sample_extract ssdp_announced_def ssdp_hellos_def ssdp_init_def objectForKey_Cons
        setObject_def Let_def)
  have "\<exists>p t. ssdp_handle sample_platform (\<lambda>_. None) (EvLoaded 2 ''b'' ''urn:dial'' sample_response) ?p2 = Inr (p, [SsdpDidFind t])
      \<and> sd_UUID t = Some ''b'' \<and> objectForKey (ssdp_found p) ''b'' \<noteq> None"
    by (simp add: ssdp_locationLoaded_def sample_response_def deviceContainingServicesWithFilter_def
        requiredServicesForFilter_def sample_filter_facts stringArray_def sample_search ssdp_hellos_def
        describeService_def subscript2_def subscriptN_def serviceListForDevice_def arrayOrObject_def
        objectForKeyN_def objectForKey_Cons ssdp_init_def notifyDelegateOfNewService_def serviceIdsForFilter_def
        isEqualToString_def ssdp_newService_def sd_copy_def descriptionWithAddress_def Let_def)
  then obtain p t where e3: "ssdp_handle sample_platform (\<lambda>_. None) (EvLoaded 2 ''b'' ''urn:dial'' sample_response) ?p2
      = Inr (p, [SsdpDidFind t])" and t: "sd_UUID t = Some ''b''" "objectForKey (ssdp_found p) ''b'' \<noteq> None" by blast
  have run: "ssdp_run sample_platform (\<lambda>_. None) [EvAddFilter sample_ssdpFilter, EvData 1 sample_message None,
       EvLoaded 2 ''b'' ''urn:dial'' sample_response] ssdp_init
     = Inr (p, [SsdpLoad ''http://10.0.0.5/'' ''b'' (Some ''urn:dial''), SsdpDidFind t])"
    by (simp add: e1 e2 e3 del: ssdp_handle.simps)
  have stop: "ssdp_handle sample_platform (\<lambda>_. None) EvStop p = Inr (ssdp_stopDiscovery p, [])" by simp
  have "findsOf ''b'' [SsdpLoad ''http://10.0.0.5/'' ''b'' (Some ''urn:dial''), SsdpDidFind t] \<noteq> []"
    using t by (simp add: findsOf_def map_filter_simps)
  with ssdp_no_duplicate_find [OF run stop t(2)] run show ?thesis by blast
qed

end
