(* ===== verification/ZeroConf.thy ===== *)
theory ZeroConf
  imports SSDP
begin

text \<open>
  \<open>Discovery/Providers/ZeroConfDiscoveryProvider\<close>: browsing for Bonjour services, resolving them to an
  IPv4 address and reporting them. The events of \<open>NSNetServiceBrowser\<close> and \<open>NSNetService\<close> are the inputs
  of the handlers; a network service is a record of what the provider reads from it.
\<close>

section \<open>State\<close>

record NetService =
  ns_name :: string
  ns_type :: "string option"
  ns_addresses :: "8 word list list"
  ns_TXTRecord :: "string option"

record ZeroConfDiscoveryProvider =
  zc_running :: bool
  zc_timer :: bool
  zc_filters :: "jdict list"
  zc_resolving :: "NetService nsdict option"
  zc_discovered :: "ServiceDescription nsdict option"
  zc_delegateFind :: bool
  zc_delegateLose :: bool

datatype zcOutput =
    ZcSearch string
  | ZcResolve string
  | ZcStopBrowser
  | ZcDidFind ServiceDescription
  | ZcDidLose ServiceDescription

definition zc_new :: ZeroConfDiscoveryProvider where
  "zc_new = \<lparr>zc_running = False, zc_timer = False, zc_filters = [], zc_resolving = None, zc_discovered = None,
     zc_delegateFind = False, zc_delegateLose = False\<rparr>"

definition zc_lookup :: "'v nsdict option \<Rightarrow> string \<Rightarrow> 'v option" where
  "zc_lookup d k = Option.bind d (\<lambda>d'. objectForKey d' k)"

section \<open>Filters\<close>

definition zcInfo :: "jdict \<Rightarrow> string \<Rightarrow> json option" where
  "zcInfo f k = Option.bind (asObject (objectForKey f ''zeroconf'')) (\<lambda>i. objectForKey i k)"

definition zcFilterOf :: "jdict \<Rightarrow> string option" where
  "zcFilterOf f = asString (zcInfo f ''filter'')"

definition zc_addDeviceFilter :: "jdict \<Rightarrow> ZeroConfDiscoveryProvider \<Rightarrow> ZeroConfDiscoveryProvider result" where
  "zc_addDeviceFilter parameters p =
     (if objectForKey parameters ''zeroconf'' = None then Inl NSInternalInconsistencyException
      else if zcFilterOf parameters = None then Inl NSInternalInconsistencyException
      else Inr (p\<lparr>zc_filters := zc_filters p @ [parameters]\<rparr>))"

definition zc_removeDeviceFilter :: "jdict \<Rightarrow> ZeroConfDiscoveryProvider \<Rightarrow> ZeroConfDiscoveryProvider" where
  "zc_removeDeviceFilter parameters p =
     (case findIndex (\<lambda>f. isEqualToString (filterServiceId f) (filterServiceId parameters)) 0 (zc_filters p) of
        None \<Rightarrow> p
      | Some i \<Rightarrow> p\<lparr>zc_filters := removeObjectAtIndex i (zc_filters p)\<rparr>)"

definition serviceIdFromFilter :: "string option \<Rightarrow> ZeroConfDiscoveryProvider \<Rightarrow> string option" where
  "serviceIdFromFilter flt p =
     (case flt of
        None \<Rightarrow> None
      | Some f \<Rightarrow> if f = [] then None
          else enumerateObjects (\<lambda>sf found.
                 (case zcFilterOf sf of
                    None \<Rightarrow> (found, False)
                  | Some t \<Rightarrow> if rangeOfString f t \<noteq> None then (filterServiceId sf, True) else (found, False)))
                 (zc_filters p) None)"

section \<open>Starting and stopping\<close>

definition searchForServices :: "ZeroConfDiscoveryProvider \<Rightarrow> zcOutput list" where
  "searchForServices p = concat (map (\<lambda>f. case zcFilterOf f of None \<Rightarrow> [] | Some t \<Rightarrow> [ZcSearch t]) (zc_filters p))"

definition zc_startDiscovery :: "ZeroConfDiscoveryProvider \<Rightarrow> ZeroConfDiscoveryProvider \<times> zcOutput list" where
  "zc_startDiscovery p =
     (if zc_running p then (p, [])
      else (let p' = p\<lparr>zc_resolving := Some [], zc_discovered := Some [], zc_running := True, zc_timer := True\<rparr>
            in (p', searchForServices p')))"

definition zc_stopDiscovery :: "ZeroConfDiscoveryProvider \<Rightarrow> ZeroConfDiscoveryProvider \<times> zcOutput list" where
  "zc_stopDiscovery p =
     (if \<not> zc_running p then (p, [])
      else (p\<lparr>zc_timer := False, zc_running := False, zc_resolving := Some [], zc_discovered := Some []\<rparr>,
            [ZcStopBrowser]))"

section \<open>Browser events\<close>

definition zc_didFindService ::
  "NetService \<Rightarrow> bool \<Rightarrow> ZeroConfDiscoveryProvider \<Rightarrow> ZeroConfDiscoveryProvider \<times> zcOutput list" where
  "zc_didFindService s moreComing p =
     (if zc_lookup (zc_resolving p) (ns_name s) \<noteq> None \<or> zc_lookup (zc_discovered p) (ns_name s) \<noteq> None
      then (p, [])
      else (p\<lparr>zc_resolving := map_option (setObject s (ns_name s)) (zc_resolving p)\<rparr>,
            ZcResolve (ns_name s) # (if moreComing then [] else [ZcStopBrowser])))"

definition zc_didRemoveService ::
  "NetService \<Rightarrow> bool \<Rightarrow> ZeroConfDiscoveryProvider \<Rightarrow> ZeroConfDiscoveryProvider \<times> zcOutput list" where
  "zc_didRemoveService s moreComing p =
     (case zc_lookup (zc_discovered p) (ns_name s) of
        None \<Rightarrow> (p, [])
      | Some sd \<Rightarrow>
          (p\<lparr>zc_discovered := map_option (removeObjectForKey (ns_name s)) (zc_discovered p)\<rparr>,
           (if zc_delegateLose p then [ZcDidLose sd] else []) @ (if moreComing then [] else [ZcStopBrowser])))"

section \<open>Resolving\<close>

text \<open>
  A \<open>sockaddr\<close> starts with its length and its family; that of \<open>AF_INET\<close> (2) goes on with the port and
  the four bytes of the address, both in network order.
\<close>

definition dotted :: "8 word list \<Rightarrow> string" where
  "dotted bs = concat (map (\<lambda>b. show_nat (unat b) @ ''.'') (butlast bs)) @ show_nat (unat (last bs))"

definition parseAddressData :: "8 word list \<Rightarrow> (string \<times> 16 word) option" where
  "parseAddressData data =
     (case data of
        len # family # p1 # p2 # a # b # c # d # rest \<Rightarrow>
          (if family = 2 then Some (dotted [a, b, c, d], push_bit 8 (ucast p1) + ucast p2) else None)
      | _ \<Rightarrow> None)"

definition firstIPv4 :: "8 word list list \<Rightarrow> (string \<times> 16 word) option" where
  "firstIPv4 addresses =
     enumerateObjects (\<lambda>a found. case parseAddressData a of Some r \<Rightarrow> (Some r, True) | None \<Rightarrow> (None, False))
       addresses None"

text \<open>
  The UUID of a resolved service. A nil TXT record answers the location 0, which is not \<open>NSNotFound\<close>, and
  a nil substring.
\<close>

definition zc_UUID :: "NetService \<Rightarrow> string option result" where
  "zc_UUID s =
     (case ns_TXTRecord s of
        None \<Rightarrow> Inr None
      | Some txt \<Rightarrow>
          (case rangeOfString txt ''deviceid='' of
             None \<Rightarrow> Inr (Some (ns_name s))
           | Some i \<Rightarrow>
               (let uuidStartLocation = i + length ''deviceid=''; macAddressLength = 14
                in rbind (substringWithRange txt uuidStartLocation macAddressLength) (\<lambda>u. Inr (Some u)))))"

definition zc_didResolve ::
  "real \<Rightarrow> NetService \<Rightarrow> ZeroConfDiscoveryProvider \<Rightarrow> (ZeroConfDiscoveryProvider \<times> zcOutput list) result" where
  "zc_didResolve now s p0 =
     (let p = p0\<lparr>zc_resolving := map_option (removeObjectForKey (ns_name s)) (zc_resolving p0)\<rparr> in
      if ns_addresses s = [] then Inr (p, [])
      else (case firstIPv4 (ns_addresses s) of
         None \<Rightarrow> Inr (p, [])
       | Some (address, port) \<Rightarrow>
           rbind (zc_UUID s) (\<lambda>uuid.
             let sd = (descriptionWithAddress now (Some address) (Some (ns_name s)))
                   \<lparr>sd_friendlyName := Some (ns_name s), sd_serviceId := serviceIdFromFilter (ns_type s) p,
                    sd_port := unat port, sd_UUID := uuid,
                    sd_commandURL := URLWithString (''http://'' @ address @ '':'' @ show_nat (unat port) @ ''/'')\<rparr>
             in Inr (p\<lparr>zc_discovered := map_option (setObject sd (ns_name s)) (zc_discovered p)\<rparr>,
                     if zc_delegateFind p then [ZcDidFind sd] else []))))"

definition zc_didNotResolve :: "NetService \<Rightarrow> ZeroConfDiscoveryProvider \<Rightarrow> ZeroConfDiscoveryProvider" where
  "zc_didNotResolve s p = p\<lparr>zc_resolving := map_option (removeObjectForKey (ns_name s)) (zc_resolving p)\<rparr>"

section \<open>Properties of addresses\<close>

lemma show_nat_no_dot: "CHR ''.'' \<notin> set (show_nat n)"
  using show_nat_digits [of n] by (auto simp: is_digit_def)

lemma componentsSeparatedBy_append:
  "sep \<notin> set w \<Longrightarrow> componentsSeparatedBy sep (w @ sep # s) = w # componentsSeparatedBy sep s"
  by (induction w) auto

lemma componentsSeparatedBy_single: "sep \<notin> set w \<Longrightarrow> componentsSeparatedBy sep w = [w]"
  by (induction w) auto

text \<open>
  The address and the port read from an IPv4 socket address are those of its bytes: the address
  splits at its dots into the decimal values of the four bytes, and the port is the big-endian pair.
\<close>
theorem parseAddressData_roundtrip:
  "\<exists>address port. parseAddressData (len # 2 # p1 # p2 # a # b # c # d # rest) = Some (address, port)
    \<and> map (read_nat 0) (componentsSeparatedBy (CHR ''.'') address) = map unat [a, b, c, d]
    \<and> unat port = 256 * unat p1 + unat p2"
proof -
  let ?address = "dotted [a, b, c, d]" and ?port = "push_bit 8 (ucast p1) + ucast p2 :: 16 word"
  have split: "componentsSeparatedBy (CHR ''.'') ?address
      = [show_nat (unat a), show_nat (unat b), show_nat (unat c), show_nat (unat d)]"
    by (simp add: dotted_def componentsSeparatedBy_append componentsSeparatedBy_single show_nat_no_dot)
  have "unat p1 < 2 ^ LENGTH(8)" "unat p2 < 2 ^ LENGTH(8)" by (rule unsigned_less)+
  then have lt: "unat p1 < 256" "unat p2 < 256" by simp_all
  have "?port = of_nat (256 * unat p1 + unat p2)"
    by (simp add: push_bit_eq_mult mult.commute)
  moreover have "256 * unat p1 + unat p2 < 2 ^ 16" using lt by simp
  ultimately have "unat ?port = 256 * unat p1 + unat p2"
    by (simp only: unat_of_nat) (simp add: take_bit_nat_eq_self)
  with split show ?thesis by (simp add: parseAddressData_def read_show_nat)
qed

text \<open>
  When the TXT record of a service holds a seventeen-character hardware address after its first
  "deviceid=", the UUID is the first fourteen characters of it: the last byte is cut off.
\<close>
theorem zc_UUID_truncates_hardware_address:
  assumes "ns_TXTRecord s = Some (pre @ ''deviceid='' @ mac @ post)"
    "rangeOfString (pre @ ''deviceid='' @ mac @ post) ''deviceid='' = Some (length pre)" "length mac = 17"
  shows "zc_UUID s = Inr (Some (take 14 mac))"
  using assms by (simp add: zc_UUID_def substringWithRange_def)

theorem zc_UUID_truncates_hardware_address_witness:
  "zc_UUID \<lparr>ns_name = ''tv'', ns_type = None, ns_addresses = [],
      ns_TXTRecord = Some ''deviceid=00:11:22:33:44:55''\<rparr> = Inr (Some ''00:11:22:33:44'')"
proof -
  let ?s = "\<lparr>ns_name = ''tv'', ns_type = None, ns_addresses = [],
      ns_TXTRecord = Some ''deviceid=00:11:22:33:44:55''\<rparr> :: NetService"
  have 1: "ns_TXTRecord ?s = Some ([] @ ''deviceid='' @ ''00:11:22:33:44:55'' @ [])" by simp
  have 2: "rangeOfString ([] @ ''deviceid='' @ ''00:11:22:33:44:55'' @ []) ''deviceid='' = Some (length ([] :: string))"
    by (simp add: rangeOfString_def hasPrefix_def)
  from zc_UUID_truncates_hardware_address [OF 1 2] show ?thesis by simp
qed

section \<open>The invariant of the provider\<close>

definition zc_inv :: "ZeroConfDiscoveryProvider \<Rightarrow> bool" where
  "zc_inv p \<longleftrightarrow> (\<forall>k. zc_lookup (zc_discovered p) k \<noteq> None \<longrightarrow> zc_lookup (zc_resolving p) k = None)"

datatype zcEvent =
    ZcStart | ZcStop | ZcFound NetService bool | ZcRemoved NetService bool
  | ZcResolved real NetService | ZcNotResolved NetService

fun zc_handle :: "zcEvent \<Rightarrow> ZeroConfDiscoveryProvider \<Rightarrow> (ZeroConfDiscoveryProvider \<times> zcOutput list) result" where
  "zc_handle ZcStart p = Inr (zc_startDiscovery p)"
| "zc_handle ZcStop p = Inr (zc_stopDiscovery p)"
| "zc_handle (ZcFound s m) p = Inr (zc_didFindService s m p)"
| "zc_handle (ZcRemoved s m) p = Inr (zc_didRemoveService s m p)"
| "zc_handle (ZcResolved now s) p = zc_didResolve now s p"
| "zc_handle (ZcNotResolved s) p = Inr (zc_didNotResolve s p, [])"

lemma zc_lookup_map [simp]:
  "zc_lookup (map_option (removeObjectForKey k) d) l = (if l = k then None else zc_lookup d l)"
  "zc_lookup (map_option (setObject v k) d) l = (if d \<noteq> None \<and> l = k then Some v else zc_lookup d l)"
  "zc_lookup None l = None" "zc_lookup (Some []) l = None"
  by (cases d; simp add: zc_lookup_def)+

lemma zc_didResolve_cases:
  assumes "zc_didResolve now s p = Inr (p', out)"
  shows "(p' = zc_didNotResolve s p \<and> out = []) \<or> (\<exists>sd. p' = (zc_didNotResolve s p)
      \<lparr>zc_discovered := map_option (setObject sd (ns_name s)) (zc_discovered p)\<rparr>)"
  using assms
  by (auto simp: zc_didResolve_def zc_didNotResolve_def Let_def rbind_Inr_iff split: if_splits option.splits)

lemma zc_handle_inv: "zc_handle e p = Inr (p', out) \<Longrightarrow> zc_inv p \<Longrightarrow> zc_inv p'"
proof (cases e)
  case (ZcResolved now s)
  assume "zc_handle e p = Inr (p', out)" "zc_inv p"
  with ZcResolved zc_didResolve_cases [of now s p p' out] show ?thesis
    by (auto simp: zc_inv_def zc_didNotResolve_def)
qed (auto simp: zc_inv_def zc_startDiscovery_def zc_stopDiscovery_def zc_didFindService_def
      zc_didRemoveService_def zc_didNotResolve_def Let_def split: if_splits option.splits)

text \<open>
  No service is both being resolved and reported: this holds of a new provider and every event of the
  browser, of the services and of the client keeps it.
\<close>
theorem zc_handle_keeps_inv:
  assumes "zc_inv p" "zc_handle e p = Inr (p', out)"
  shows "zc_inv zc_new \<and> zc_inv p'"
  using zc_handle_inv [OF assms(2,1)] by (simp add: zc_inv_def zc_new_def)

definition sample_netService :: NetService where
  "sample_netService = \<lparr>ns_name = ''tv'', ns_type = Some ''_airplay._tcp.'',
     ns_addresses = [[16, 2, 27, 88, 10, 0, 0, 5]], ns_TXTRecord = Some ''''\<rparr>"

theorem zc_handle_keeps_inv_witness:
  "\<exists>p'. zc_handle (ZcFound sample_netService False) (fst (zc_startDiscovery zc_new)) = Inr (p', [ZcResolve ''tv'', ZcStopBrowser])
    \<and> zc_inv p'"
proof -
  let ?p = "fst (zc_startDiscovery zc_new)"
  obtain p' where h: "zc_handle (ZcFound sample_netService False) ?p = Inr (p', [ZcResolve ''tv'', ZcStopBrowser])"
    by (simp add: zc_startDiscovery_def zc_new_def zc_didFindService_def sample_netService_def Let_def)
  have "zc_inv ?p" by (simp add: zc_startDiscovery_def zc_new_def zc_inv_def Let_def)
  from zc_handle_keeps_inv [OF this h] h show ?thesis by blast
qed

text \<open>
  Stopping the provider does not stop the resolutions that are under way: a service that resolves to
  an IPv4 address after the stop is still reported to the delegate as found, and recorded as discovered.
\<close>
theorem zc_resolve_after_stop_reports:
  assumes "zc_running p" "zc_delegateFind p" "firstIPv4 (ns_addresses s) = Some (address, port)"
    "zc_UUID s = Inr uuid"
  shows "\<exists>p' sd. zc_handle (ZcResolved now s) (fst (zc_stopDiscovery p)) = Inr (p', [ZcDidFind sd])
    \<and> \<not> zc_running p' \<and> sd_address sd = Some address \<and> zc_lookup (zc_discovered p') (ns_name s) = Some sd"
proof -
  have "ns_addresses s \<noteq> []" using assms(3) by (auto simp: firstIPv4_def)
  then show ?thesis
    using assms
    by (simp add: zc_didResolve_def zc_stopDiscovery_def Let_def descriptionWithAddress_def zc_lookup_def)
qed

theorem zc_resolve_after_stop_reports_witness:
  "\<exists>p' sd. zc_handle (ZcResolved 3 sample_netService)
      (fst (zc_stopDiscovery (fst (zc_startDiscovery (zc_new\<lparr>zc_delegateFind := True\<rparr>))))) = Inr (p', [ZcDidFind sd])
    \<and> sd_address sd = Some (dotted [10, 0, 0, 5])"
proof -
  let ?p = "fst (zc_startDiscovery (zc_new\<lparr>zc_delegateFind := True\<rparr>))"
  have p: "zc_running ?p" "zc_delegateFind ?p" by (simp_all add: zc_startDiscovery_def zc_new_def Let_def)
  have f: "firstIPv4 (ns_addresses sample_netService) = Some (dotted [10, 0, 0, 5], push_bit 8 (ucast (27 :: 8 word)) + ucast (88 :: 8 word))"
    by (simp add: firstIPv4_def sample_netService_def parseAddressData_def)
  have u: "zc_UUID sample_netService = Inr (Some ''tv'')"
    by (simp add: zc_UUID_def sample_netService_def rangeOfString_def)
  from zc_resolve_after_stop_reports [OF p f u, of 3] show ?thesis by blast
qed

end
