(* ===== verification/Dispatch.thy ===== *)
theory Dispatch
  imports Prelude
begin

text \<open>
  \<open>src/Helpers/BlockRunner\<close>, \<open>src/Helpers/AppStateChangeNotifier\<close> and the assertion of
  \<open>src/Helpers/CommonMacros.h\<close>.

  A block runner decides where a block runs: at once on the calling thread, or later on a dispatch
  queue. The dispatch system is a state: the blocks that wait, in the order of their submission, and the
  blocks that have run, each with the runner it was given to. A queue is serial, as the main queue is.
\<close>

section \<open>Assertions\<close>

definition assert_state :: "bool \<Rightarrow> unit result" where
  "assert_state condition = (if \<not> condition then Inl NSInternalInconsistencyException else Inr ())"

section \<open>Block runners\<close>

type_synonym dispatch_queue = nat

definition main_queue :: dispatch_queue where
  "main_queue = 0"

datatype BlockRunner =
    SynchronousBlockRunner
  | DispatchQueueBlockRunner dispatch_queue

definition initWithDispatchQueue :: "dispatch_queue option \<Rightarrow> BlockRunner result" where
  "initWithDispatchQueue queue =
     rbind (assert_state (queue \<noteq> None)) (\<lambda>_. Inr (DispatchQueueBlockRunner (the queue)))"

definition runner_init :: "BlockRunner option result" where
  "runner_init = rbind (assert_state False) (\<lambda>_. Inr None)"

definition mainQueueRunner :: "BlockRunner result" where
  "mainQueueRunner = initWithDispatchQueue (Some main_queue)"

record 'b dispatch =
  d_ran :: "(BlockRunner \<times> 'b) list"
  d_waiting :: "(dispatch_queue \<times> 'b) list"

definition dispatch_async :: "dispatch_queue \<Rightarrow> 'b \<Rightarrow> 'b dispatch \<Rightarrow> 'b dispatch" where
  "dispatch_async q b s = s\<lparr>d_waiting := d_waiting s @ [(q, b)]\<rparr>"

fun runBlock :: "BlockRunner \<Rightarrow> 'b option \<Rightarrow> 'b dispatch \<Rightarrow> 'b dispatch result" where
  "runBlock SynchronousBlockRunner block s =
     rbind (assert_state (block \<noteq> None)) (\<lambda>_.
       Inr (s\<lparr>d_ran := d_ran s @ [(SynchronousBlockRunner, the block)]\<rparr>))"
| "runBlock (DispatchQueueBlockRunner q) block s =
     rbind (assert_state (block \<noteq> None)) (\<lambda>_. Inr (dispatch_async q (the block) s))"

text \<open>
  \<open>isEqual:\<close> of a queue runner: the argument is read as a queue runner without a check of its class,
  so that a synchronous runner does not know the selector \<open>queue\<close>.
\<close>

fun runner_isEqual :: "BlockRunner \<Rightarrow> BlockRunner option \<Rightarrow> bool result" where
  "runner_isEqual SynchronousBlockRunner other = Inr (other = Some SynchronousBlockRunner)"
| "runner_isEqual (DispatchQueueBlockRunner q) None = Inr False"
| "runner_isEqual (DispatchQueueBlockRunner q) (Some (DispatchQueueBlockRunner r)) = Inr (q = r)"
| "runner_isEqual (DispatchQueueBlockRunner q) (Some SynchronousBlockRunner) = Inl NSInvalidArgumentException"

text \<open>The queue \<open>q\<close> runs the first block that waits on it.\<close>

fun takeFirst :: "dispatch_queue \<Rightarrow> (dispatch_queue \<times> 'b) list \<Rightarrow> ('b \<times> (dispatch_queue \<times> 'b) list) option" where
  "takeFirst q [] = None"
| "takeFirst q ((r, b) # ps) =
     (if r = q then Some (b, ps) else map_option (\<lambda>(c, ps'). (c, (r, b) # ps')) (takeFirst q ps))"

definition queueStep :: "dispatch_queue \<Rightarrow> 'b dispatch \<Rightarrow> 'b dispatch" where
  "queueStep q s = (case takeFirst q (d_waiting s) of
      None \<Rightarrow> s
    | Some (b, ps) \<Rightarrow> s\<lparr>d_ran := d_ran s @ [(DispatchQueueBlockRunner q, b)], d_waiting := ps\<rparr>)"

section \<open>The contract of a block runner\<close>

text \<open>
  What a client relies on: a block that is not nil is accepted; the blocks that ran, followed by those
  that wait, are the accepted blocks in the order of the calls; running a queue does not change this.
\<close>

locale block_runner =
  fixes run :: "'b option \<Rightarrow> 's \<Rightarrow> 's result"
    and other :: "'o \<Rightarrow> 's \<Rightarrow> 's"
    and ran :: "'s \<Rightarrow> 'b list"
    and waits :: "'s \<Rightarrow> 'b list"
  assumes accepts: "\<exists>s'. run (Some b) s = Inr s' \<and> ran s' @ waits s' = (ran s @ waits s) @ [b]"
    and rejects: "run None s = Inl NSInternalInconsistencyException"
    and other_keeps: "ran (other a s) @ waits (other a s) = ran s @ waits s"
begin

fun calls :: "('b + 'o) list \<Rightarrow> 's \<Rightarrow> 's result" where
  "calls [] s = Inr s"
| "calls (Inl b # xs) s = rbind (run (Some b) s) (calls xs)"
| "calls (Inr a # xs) s = calls xs (other a s)"

lemma calls_in_order:
  "\<exists>s'. calls xs s = Inr s' \<and>
     ran s' @ waits s' = (ran s @ waits s) @ List.map_filter (\<lambda>x. case x of Inl b \<Rightarrow> Some b | Inr _ \<Rightarrow> None) xs"
proof (induction xs s rule: calls.induct)
  case (2 b xs s)
  obtain s1 where "run (Some b) s = Inr s1" "ran s1 @ waits s1 = (ran s @ waits s) @ [b]"
    using accepts by blast
  with 2 [of s1] show ?case by (auto simp: List.map_filter_simps)
qed (simp_all add: List.map_filter_simps other_keeps)

end

definition ranOn :: "BlockRunner \<Rightarrow> 'b dispatch \<Rightarrow> 'b list" where
  "ranOn r s = map snd (filter (\<lambda>p. fst p = r) (d_ran s))"

fun waitingOn :: "BlockRunner \<Rightarrow> 'b dispatch \<Rightarrow> 'b list" where
  "waitingOn SynchronousBlockRunner s = []"
| "waitingOn (DispatchQueueBlockRunner q) s = map snd (filter (\<lambda>p. fst p = q) (d_waiting s))"

text \<open>What happens beside the calls on one runner: a queue runs a block, or a block is given to another runner.\<close>

datatype 'b dispatchEvent = RunsQueue dispatch_queue | GivenTo BlockRunner 'b

fun dispatchOther :: "BlockRunner \<Rightarrow> 'b dispatchEvent \<Rightarrow> 'b dispatch \<Rightarrow> 'b dispatch" where
  "dispatchOther r (RunsQueue q) s = queueStep q s"
| "dispatchOther r (GivenTo r' b) s =
     (if r' = r then s else (case runBlock r' (Some b) s of Inl e \<Rightarrow> s | Inr s' \<Rightarrow> s'))"

lemma takeFirst_Some:
  "takeFirst q ps = Some (b, ps') \<Longrightarrow>
     map snd (filter (\<lambda>p. fst p = q) ps) = b # map snd (filter (\<lambda>p. fst p = q) ps')
     \<and> (\<forall>r. r \<noteq> q \<longrightarrow> filter (\<lambda>p. fst p = r) ps' = filter (\<lambda>p. fst p = r) ps)"
  by (induction q ps arbitrary: ps' rule: takeFirst.induct) (auto split: if_splits)

lemma takeFirst_None: "takeFirst q ps = None \<longleftrightarrow> filter (\<lambda>p. fst p = q) ps = []"
  by (induction q ps rule: takeFirst.induct) auto

lemma queueStep_keeps: "ranOn r (queueStep q s) @ waitingOn r (queueStep q s) = ranOn r s @ waitingOn r s"
proof (cases "takeFirst q (d_waiting s)")
  case None
  then show ?thesis by (simp add: queueStep_def)
next
  case (Some p)
  obtain b ps where p: "p = (b, ps)" by fastforce
  from takeFirst_Some [OF Some [unfolded p]] Some p show ?thesis
    by (cases r) (auto simp: queueStep_def ranOn_def)
qed

lemma runBlock_frame:
  "r' \<noteq> r \<Longrightarrow> runBlock r' b s = Inr s' \<Longrightarrow> ranOn r s' = ranOn r s \<and> waitingOn r s' = waitingOn r s"
  by (cases r'; cases r)
     (auto simp: ranOn_def dispatch_async_def assert_state_def split: if_splits)

interpretation runner: block_runner "runBlock r" "dispatchOther r" "ranOn r" "waitingOn r" for r
proof unfold_locales
  show "\<exists>s'. runBlock r (Some b) s = Inr s' \<and> ranOn r s' @ waitingOn r s' = (ranOn r s @ waitingOn r s) @ [b]"
    for b and s :: "'a dispatch"
    by (cases r) (auto simp: assert_state_def ranOn_def dispatch_async_def)
  show "runBlock r None s = Inl NSInternalInconsistencyException" for s :: "'a dispatch"
    by (cases r) (simp_all add: assert_state_def)
  show "ranOn r (dispatchOther r a s) @ waitingOn r (dispatchOther r a s) = ranOn r s @ waitingOn r s"
    for a and s :: "'a dispatch"
    by (cases a) (auto simp: queueStep_keeps runBlock_frame split: sum.splits)
qed

section \<open>Runs of the dispatch system\<close>

datatype 'b runnerAction = Submit BlockRunner "'b option" | RunQueue dispatch_queue

fun performAction :: "'b runnerAction \<Rightarrow> 'b dispatch \<Rightarrow> 'b dispatch result" where
  "performAction (Submit r b) s = runBlock r b s"
| "performAction (RunQueue q) s = Inr (queueStep q s)"

fun runnerActions :: "'b runnerAction list \<Rightarrow> 'b dispatch \<Rightarrow> 'b dispatch result" where
  "runnerActions [] s = Inr s"
| "runnerActions (a # as) s = rbind (performAction a s) (runnerActions as)"

definition submittedTo :: "BlockRunner \<Rightarrow> 'b runnerAction list \<Rightarrow> 'b list" where
  "submittedTo r as = List.map_filter (\<lambda>a. case a of Submit r' b \<Rightarrow> if r' = r then b else None | RunQueue q \<Rightarrow> None) as"

text \<open>The actions as one runner sees them.\<close>

fun seenBy :: "BlockRunner \<Rightarrow> 'b runnerAction \<Rightarrow> 'b + 'b dispatchEvent" where
  "seenBy r (Submit r' b) = (if r' = r then Inl (the b) else Inr (GivenTo r' (the b)))"
| "seenBy r (RunQueue q) = Inr (RunsQueue q)"

lemma runBlock_Inr: "runBlock r b s = Inr s' \<Longrightarrow> b \<noteq> None"
  by (cases b) (auto simp: runner.rejects)

lemma runnerActions_Cons:
  assumes "runnerActions (a # as) s = Inr s'"
  obtains (submit) r' c s1 where "a = Submit r' (Some c)" "runBlock r' (Some c) s = Inr s1" "runnerActions as s1 = Inr s'"
  | (queue) q where "a = RunQueue q" "runnerActions as (queueStep q s) = Inr s'"
proof (cases a)
  case (Submit r' ob)
  with assms obtain s1 where s1: "runBlock r' ob s = Inr s1" "runnerActions as s1 = Inr s'"
    by (auto simp: rbind_Inr_iff)
  moreover obtain c where "ob = Some c" using runBlock_Inr [OF s1(1)] by blast
  ultimately show ?thesis using that(1) Submit by blast
qed (use assms that(2) in \<open>simp\<close>)

lemma runnerActions_seen: "runnerActions as s = Inr s' \<Longrightarrow> runner.calls r (map (seenBy r) as) s = Inr s'"
proof (induction as arbitrary: s)
  case (Cons a as)
  from Cons.prems show ?case
    by (cases rule: runnerActions_Cons) (use Cons.IH in \<open>auto\<close>)
qed simp

lemma submittedTo_seen:
  "runnerActions as s = Inr s' \<Longrightarrow>
    submittedTo r as = List.map_filter (\<lambda>x. case x of Inl b \<Rightarrow> Some b | Inr _ \<Rightarrow> None) (map (seenBy r) as)"
proof (induction as arbitrary: s)
  case (Cons a as)
  from Cons.prems show ?case
    by (cases rule: runnerActions_Cons)
       (use Cons.IH in \<open>simp_all add: submittedTo_def List.map_filter_simps\<close>)
qed (simp add: submittedTo_def List.map_filter_simps)

lemma runnerActions_in_order:
  assumes "runnerActions as s = Inr s'"
  shows "ranOn r s' @ waitingOn r s' = (ranOn r s @ waitingOn r s) @ submittedTo r as"
  using runner.calls_in_order [of r "map (seenBy r) as" s] runnerActions_seen [OF assms, of r]
    submittedTo_seen [OF assms, of r] by auto



text \<open>As many turns of a queue as blocks wait on it leave none waiting: every block runs.\<close>

lemma queueStep_waiting: "waitingOn (DispatchQueueBlockRunner q) (queueStep q s) = tl (waitingOn (DispatchQueueBlockRunner q) s)"
proof (cases "takeFirst q (d_waiting s)")
  case None
  then have "filter (\<lambda>p. fst p = q) (d_waiting s) = []" by (simp add: takeFirst_None)
  with None show ?thesis by (simp add: queueStep_def)
next
  case (Some p)
  obtain b ps where p: "p = (b, ps)" by fastforce
  from takeFirst_Some [OF Some [unfolded p]] Some p show ?thesis by (simp add: queueStep_def)
qed

lemma queue_drains:
  "waitingOn (DispatchQueueBlockRunner q)
     ((queueStep q ^^ length (waitingOn (DispatchQueueBlockRunner q) s)) s) = []"
proof -
  have "waitingOn (DispatchQueueBlockRunner q) ((queueStep q ^^ n) s) = drop n (waitingOn (DispatchQueueBlockRunner q) s)" for n
    by (induction n) (simp_all add: queueStep_waiting drop_Suc tl_drop del: waitingOn.simps)
  then show ?thesis by simp
qed

section \<open>AppStateChangeNotifier\<close>

datatype appEvent = DidEnterBackground | DidBecomeActive

text \<open>The blocks are named by what they run; a nil block is \<open>None\<close>.\<close>

record AppStateChangeNotifier =
  backgroundObserverHandle :: bool
  foregroundObserverHandle :: bool
  didBackgroundBlock :: "string option"
  didForegroundBlock :: "string option"
  blockRunner :: "BlockRunner option"

definition notifier_new :: AppStateChangeNotifier where
  "notifier_new = \<lparr>backgroundObserverHandle = False, foregroundObserverHandle = False,
     didBackgroundBlock = None, didForegroundBlock = None, blockRunner = None\<rparr>"

definition startListening :: "AppStateChangeNotifier \<Rightarrow> AppStateChangeNotifier" where
  "startListening n =
     (let alreadySubscribed = (backgroundObserverHandle n \<or> foregroundObserverHandle n)
      in if \<not> alreadySubscribed
         then n\<lparr>backgroundObserverHandle := True, foregroundObserverHandle := True\<rparr> else n)"

definition stopListening :: "AppStateChangeNotifier \<Rightarrow> AppStateChangeNotifier" where
  "stopListening n = n\<lparr>backgroundObserverHandle := False, foregroundObserverHandle := False\<rparr>"

text \<open>The getter of the \<open>blockRunner\<close> property installs the main queue runner when there is none.\<close>

definition getBlockRunner :: "AppStateChangeNotifier \<Rightarrow> (AppStateChangeNotifier \<times> BlockRunner) result" where
  "getBlockRunner n = (case blockRunner n of
      Some r \<Rightarrow> Inr (n, r)
    | None \<Rightarrow> rbind mainQueueRunner (\<lambda>r. Inr (n\<lparr>blockRunner := Some r\<rparr>, r)))"

definition runStateChangeBlock ::
  "string option \<Rightarrow> AppStateChangeNotifier \<times> string dispatch \<Rightarrow> (AppStateChangeNotifier \<times> string dispatch) result" where
  "runStateChangeBlock block p = (case p of (n, s) \<Rightarrow>
     if block \<noteq> None
     then rbind (getBlockRunner n) (\<lambda>(n', r). rbind (runBlock r block s) (\<lambda>s'. Inr (n', s')))
     else Inr (n, s))"

text \<open>A system notification reaches the observer block that is registered for it.\<close>

fun postNotification ::
  "appEvent \<Rightarrow> AppStateChangeNotifier \<times> string dispatch \<Rightarrow> (AppStateChangeNotifier \<times> string dispatch) result" where
  "postNotification DidEnterBackground (n, s) =
     (if backgroundObserverHandle n then runStateChangeBlock (didBackgroundBlock n) (n, s) else Inr (n, s))"
| "postNotification DidBecomeActive (n, s) =
     (if foregroundObserverHandle n then runStateChangeBlock (didForegroundBlock n) (n, s) else Inr (n, s))"

definition isListening :: "AppStateChangeNotifier \<Rightarrow> bool" where
  "isListening n \<longleftrightarrow> backgroundObserverHandle n \<and> foregroundObserverHandle n"

definition notifier_inv :: "AppStateChangeNotifier \<Rightarrow> bool" where
  "notifier_inv n \<longleftrightarrow> backgroundObserverHandle n = foregroundObserverHandle n"

definition effectiveRunner :: "AppStateChangeNotifier \<Rightarrow> BlockRunner" where
  "effectiveRunner n = (case blockRunner n of Some r \<Rightarrow> r | None \<Rightarrow> DispatchQueueBlockRunner main_queue)"

fun blockFor :: "appEvent \<Rightarrow> AppStateChangeNotifier \<Rightarrow> string option" where
  "blockFor DidEnterBackground n = didBackgroundBlock n"
| "blockFor DidBecomeActive n = didForegroundBlock n"

lemma notifier_inv_start [simp]: "notifier_inv n \<Longrightarrow> notifier_inv (startListening n) \<and> isListening (startListening n)"
  by (simp add: notifier_inv_def startListening_def isListening_def)

lemma notifier_inv_stop [simp]: "notifier_inv (stopListening n) \<and> \<not> isListening (stopListening n)"
  by (simp add: notifier_inv_def stopListening_def isListening_def)

lemma startListening_idem: "startListening (startListening n) = startListening n"
  by (simp add: startListening_def)

lemma getBlockRunner_Inr: "\<exists>n'. getBlockRunner n = Inr (n', effectiveRunner n) \<and> isListening n' = isListening n
    \<and> notifier_inv n' = notifier_inv n \<and> effectiveRunner n' = effectiveRunner n"
  by (auto simp: getBlockRunner_def effectiveRunner_def mainQueueRunner_def initWithDispatchQueue_def
      assert_state_def isListening_def notifier_inv_def split: option.splits)

text \<open>
  A system notification never raises: a listening notifier gives its block for the event, when it has one,
  exactly once to its runner, the main queue unless another was set, and one that is not listening gives
  nothing.
\<close>
theorem notification_reaches_block:
  assumes "notifier_inv n"
  shows "\<exists>n' s'. postNotification e (n, s) = Inr (n', s') \<and> notifier_inv n' \<and> isListening n' = isListening n
    \<and> ranOn (effectiveRunner n) s' @ waitingOn (effectiveRunner n) s'
      = ranOn (effectiveRunner n) s @ waitingOn (effectiveRunner n) s
        @ (if isListening n then (case blockFor e n of None \<Rightarrow> [] | Some b \<Rightarrow> [b]) else [])"
proof (cases "isListening n \<and> blockFor e n \<noteq> None")
  case True
  then obtain b where b: "blockFor e n = Some b" by blast
  obtain n' where n': "getBlockRunner n = Inr (n', effectiveRunner n)" "isListening n' = isListening n"
    "notifier_inv n' = notifier_inv n" using getBlockRunner_Inr by blast
  obtain s' where s': "runBlock (effectiveRunner n) (Some b) s = Inr s'"
    "ranOn (effectiveRunner n) s' @ waitingOn (effectiveRunner n) s'
      = (ranOn (effectiveRunner n) s @ waitingOn (effectiveRunner n) s) @ [b]"
    using runner.accepts [of "effectiveRunner n" b s] by blast
  have "postNotification e (n, s) = runStateChangeBlock (Some b) (n, s)"
    using True b by (cases e) (auto simp: isListening_def)
  then have "postNotification e (n, s) = Inr (n', s')"
    using n'(1) s'(1) by (simp add: runStateChangeBlock_def)
  with n' s' True b assms show ?thesis by simp
next
  case False
  then have "postNotification e (n, s) = Inr (n, s)"
    using assms by (cases e) (auto simp: isListening_def notifier_inv_def runStateChangeBlock_def)
  with False assms show ?thesis by auto
qed

theorem notification_reaches_block_witness:
  "\<exists>n' s'. postNotification DidEnterBackground
       (startListening (notifier_new\<lparr>didBackgroundBlock := Some ''pauseDiscovery''\<rparr>), \<lparr>d_ran = [], d_waiting = []\<rparr>)
       = Inr (n', s') \<and> waitingOn (DispatchQueueBlockRunner main_queue) s' = [''pauseDiscovery'']"
proof -
  let ?n = "startListening (notifier_new\<lparr>didBackgroundBlock := Some ''pauseDiscovery''\<rparr>)"
  let ?s = "\<lparr>d_ran = [], d_waiting = []\<rparr> :: string dispatch"
  have inv: "notifier_inv ?n" and l: "isListening ?n" and r: "effectiveRunner ?n = DispatchQueueBlockRunner main_queue"
    and b: "blockFor DidEnterBackground ?n = Some ''pauseDiscovery''"
    by (simp_all add: notifier_new_def notifier_inv_def isListening_def startListening_def effectiveRunner_def)
  obtain n' s' where p: "postNotification DidEnterBackground (?n, ?s) = Inr (n', s')"
    and w: "ranOn (DispatchQueueBlockRunner main_queue) s' @ waitingOn (DispatchQueueBlockRunner main_queue) s'
      = [''pauseDiscovery'']"
    using notification_reaches_block [OF inv, of DidEnterBackground ?s] l r b by (auto simp: ranOn_def)
  from p have "d_ran s' = []"
    by (auto simp: notifier_new_def startListening_def runStateChangeBlock_def getBlockRunner_def
        mainQueueRunner_def initWithDispatchQueue_def assert_state_def dispatch_async_def)
  with p w show ?thesis by (simp add: ranOn_def)
qed

end
