(* ===== verification/Info.thy ===== *)
theory Info
  imports DeviceService Dispatch
begin

text \<open>
  The value objects of \<open>src/Helpers\<close>: apps, channels, programs, external inputs, text input status,
  images, media, subtitles and the result of a media launch, with the small categories
  \<open>NSString+Common\<close> and \<open>NSMutableDictionary+NilSafe\<close>. Raw data is the JSON the device sent; a URL is
  its string.
\<close>

section \<open>Categories\<close>

definition orEmpty :: "string option \<Rightarrow> string option" where
  "orEmpty self = (case self of None \<Rightarrow> None | Some s \<Rightarrow> Some s)"

definition setNullableObject :: "'v option \<Rightarrow> 'k \<Rightarrow> ('k \<times> 'v) list \<Rightarrow> ('k \<times> 'v) list" where
  "setNullableObject object key self = (case object of None \<Rightarrow> self | Some x \<Rightarrow> setObject x key self)"

lemma setNullableObject_setIfPresent [simp]: "setNullableObject = setIfPresent"
  by (intro ext) (simp add: setNullableObject_def setIfPresent_def)

section \<open>Apps, channels, programs and inputs\<close>

record AppInfo =
  app_id :: "string option"
  app_name :: "string option"
  app_rawData :: "json option"

definition appInfoForId :: "string option \<Rightarrow> AppInfo" where
  "appInfoForId appId = \<lparr>app_id = appId, app_name = None, app_rawData = None\<rparr>"

definition app_isEqual :: "AppInfo \<Rightarrow> AppInfo option \<Rightarrow> bool" where
  "app_isEqual self appInfo = isEqualToString (app_id self) (Option.bind appInfo app_id)"

record ChannelInfo =
  chan_id :: "string option"
  chan_name :: "string option"
  chan_number :: "string option"
  chan_majorNumber :: int
  chan_minorNumber :: int
  chan_rawData :: "json option"

definition chan_new :: ChannelInfo where
  "chan_new = \<lparr>chan_id = None, chan_name = None, chan_number = None, chan_majorNumber = 0,
     chan_minorNumber = 0, chan_rawData = None\<rparr>"

definition chan_isEqual :: "ChannelInfo \<Rightarrow> ChannelInfo option \<Rightarrow> bool" where
  "chan_isEqual self channelInfo =
     (isEqualToString (chan_number self) (Option.bind channelInfo chan_number)
      \<and> isEqualToString (chan_name self) (Option.bind channelInfo chan_name))"

record ProgramInfo =
  prog_id :: "string option"
  prog_name :: "string option"
  prog_channelInfo :: "ChannelInfo option"
  prog_rawData :: "json option"

definition prog_isEqual :: "ProgramInfo \<Rightarrow> ProgramInfo option \<Rightarrow> bool" where
  "prog_isEqual self programInfo =
     (isEqualToString (prog_id self) (Option.bind programInfo prog_id)
      \<and> isEqualToString (prog_name self) (Option.bind programInfo prog_name))"

record ExternalInputInfo =
  inp_id :: "string option"
  inp_name :: "string option"
  inp_connected :: bool
  inp_iconURL :: "string option"
  inp_rawData :: "json option"

definition inp_isEqual :: "ExternalInputInfo \<Rightarrow> ExternalInputInfo option \<Rightarrow> bool" where
  "inp_isEqual self externalInputInfo =
     (isEqualToString (inp_id self) (Option.bind externalInputInfo inp_id)
      \<and> isEqualToString (inp_name self) (Option.bind externalInputInfo inp_name))"

text \<open>The keyboards of UIKit that the sources name.\<close>

datatype UIKeyboardType =
    UIKeyboardTypeDefault | UIKeyboardTypeNumberPad | UIKeyboardTypeNamePhonePad | UIKeyboardTypeURL
  | UIKeyboardTypeEmailAddress

record TextInputStatusInfo =
  ti_keyboardType :: UIKeyboardType
  ti_isVisible :: bool
  ti_rawData :: "json option"

section \<open>Images, media and subtitles\<close>

datatype ImageType = ImageTypeUnknown | ImageTypeThumb | ImageTypeVideoPoster | ImageTypeAlbumArt

record ImageInfo =
  img_url :: "string option"
  img_type :: ImageType
  img_width :: int
  img_height :: int

definition img_init :: "ImageInfo option" where
  "img_init = None"

definition img_initWithURL :: "string option \<Rightarrow> ImageType \<Rightarrow> ImageInfo option" where
  "img_initWithURL url type = Some \<lparr>img_url = url, img_type = type, img_width = 0, img_height = 0\<rparr>"

record SubtitleInfoBuilder =
  sb_mimeType :: "string option"
  sb_language :: "string option"
  sb_label :: "string option"

record SubtitleInfo =
  sub_url :: string
  sub_mimeType :: "string option"
  sub_language :: "string option"
  sub_label :: "string option"

definition sub_new :: "SubtitleInfo result" where
  "sub_new = Inl NSInternalInconsistencyException"

text \<open>A message to a nil builder answers nil.\<close>

definition sub_initWithURL :: "string option \<Rightarrow> SubtitleInfoBuilder option \<Rightarrow> SubtitleInfo result" where
  "sub_initWithURL url builder =
     rbind (assert_state (url \<noteq> None)) (\<lambda>_.
       Inr \<lparr>sub_url = the url, sub_mimeType = Option.bind builder sb_mimeType,
            sub_language = Option.bind builder sb_language, sub_label = Option.bind builder sb_label\<rparr>)"

definition infoWithURL :: "string option \<Rightarrow> SubtitleInfo result" where
  "infoWithURL url = sub_initWithURL url None"

definition infoWithURLandBlock ::
  "string option \<Rightarrow> (SubtitleInfoBuilder \<Rightarrow> SubtitleInfoBuilder) \<Rightarrow> SubtitleInfo result" where
  "infoWithURLandBlock url block =
     (let builder = block \<lparr>sb_mimeType = None, sb_language = None, sb_label = None\<rparr>
      in sub_initWithURL url (Some builder))"

record MediaInfo =
  mi_url :: "string option"
  mi_mimeType :: "string option"
  mi_title :: "string option"
  mi_description :: "string option"
  mi_duration :: real
  mi_images :: "ImageInfo list option"
  mi_subtitleInfo :: "SubtitleInfo option"

definition mi_init :: "MediaInfo option" where
  "mi_init = None"

definition mi_initWithURL :: "string option \<Rightarrow> string option \<Rightarrow> MediaInfo" where
  "mi_initWithURL url mimeType = \<lparr>mi_url = url, mi_mimeType = mimeType, mi_title = None, mi_description = None,
     mi_duration = 0, mi_images = Some [], mi_subtitleInfo = None\<rparr>"

text \<open>Adding nil to an array raises; adding to nil does nothing.\<close>

definition addImage :: "ImageInfo option \<Rightarrow> MediaInfo \<Rightarrow> MediaInfo result" where
  "addImage newImage self = (case mi_images self of
      None \<Rightarrow> Inr self
    | Some xs \<Rightarrow> (case newImage of
          None \<Rightarrow> Inl NSInvalidArgumentException
        | Some i \<Rightarrow> Inr (self\<lparr>mi_images := Some (xs @ [i])\<rparr>)))"

definition addImages :: "ImageInfo list \<Rightarrow> MediaInfo \<Rightarrow> MediaInfo" where
  "addImages images self = self\<lparr>mi_images := map_option (\<lambda>xs. xs @ images) (mi_images self)\<rparr>"

record MediaLaunchObject =
  mlo_mediaControl :: "capObject option"
  mlo_playListControl :: "capObject option"
  mlo_session :: "LaunchSession option"

definition mlo_initWithPlayList ::
  "LaunchSession option \<Rightarrow> capObject option \<Rightarrow> capObject option \<Rightarrow> MediaLaunchObject" where
  "mlo_initWithPlayList session mediaControl playListControl =
     \<lparr>mlo_mediaControl = mediaControl, mlo_playListControl = playListControl, mlo_session = session\<rparr>"

definition mlo_initWithLaunchSession :: "LaunchSession option \<Rightarrow> capObject option \<Rightarrow> MediaLaunchObject" where
  "mlo_initWithLaunchSession session mediaControl = mlo_initWithPlayList session mediaControl None"

section \<open>Equality of info objects\<close>

text \<open>
  The four equality tests compare strings that may be nil, so that they are partial equivalences: an
  object is equal to itself exactly when the compared fields are set. What a client of such a test may
  rely on is stated once.
\<close>

locale info_equality =
  fixes isEqual :: "'a \<Rightarrow> 'a option \<Rightarrow> bool"
    and complete :: "'a \<Rightarrow> bool"
    and key :: "'a \<Rightarrow> 'k"
  assumes isEqual_iff: "isEqual a b \<longleftrightarrow> (\<exists>c. b = Some c \<and> complete a \<and> complete c \<and> key a = key c)"
begin

lemma not_equal_nil: "\<not> isEqual a None"
  by (simp add: isEqual_iff)

lemma equal_self_iff: "isEqual a (Some a) \<longleftrightarrow> complete a"
  by (auto simp: isEqual_iff)

lemma symmetric: "isEqual a (Some b) \<Longrightarrow> isEqual b (Some a)"
  by (auto simp: isEqual_iff)

lemma transitive: "isEqual a (Some b) \<Longrightarrow> isEqual b (Some c) \<Longrightarrow> isEqual a (Some c)"
  by (auto simp: isEqual_iff)

text \<open>\<open>indexOfObject:\<close> in an array of distinct keys finds the object with the key.\<close>

lemma find_equal:
  assumes "distinct (map key xs)" "\<forall>x\<in>set xs. complete x" "x \<in> set xs"
  shows "List.find (\<lambda>y. isEqual x (Some y)) xs = Some x"
  using assms
proof (induction xs)
  case (Cons y ys)
  show ?case
  proof (cases "x = y")
    case True
    with Cons show ?thesis by (simp add: equal_self_iff)
  next
    case False
    with Cons.prems have "x \<in> set ys" "key y \<notin> key ` set ys" by auto
    then have "key x \<noteq> key y" by (metis image_eqI)
    with Cons False show ?thesis by (auto simp: isEqual_iff)
  qed
qed simp

end

lemma isEqualToString_bind:
  "isEqualToString (f a) (Option.bind b f) \<longleftrightarrow> (\<exists>c. b = Some c \<and> f a \<noteq> None \<and> f c = f a)"
proof (cases b)
  case (Some c)
  then have "isEqualToString (f a) (Option.bind b f) \<longleftrightarrow> f a \<noteq> None \<and> f a = f c"
    by (simp only: isEqualToString_def bind.bind_lunit)
  with Some show ?thesis by (metis option.inject)
qed (auto simp: isEqualToString_def)

lemma two_fields_equal:
  "isEqualToString (f a) (Option.bind b f) \<and> isEqualToString (g a) (Option.bind b g) \<longleftrightarrow>
    (\<exists>c. b = Some c \<and> (f a \<noteq> None \<and> g a \<noteq> None) \<and> (f c \<noteq> None \<and> g c \<noteq> None) \<and> (f a, g a) = (f c, g c))"
  unfolding isEqualToString_bind prod.inject by (metis option.inject)

interpretation app: info_equality app_isEqual "\<lambda>a. app_id a \<noteq> None" app_id
  by unfold_locales (unfold app_isEqual_def isEqualToString_bind, metis)

interpretation chan: info_equality chan_isEqual "\<lambda>c. chan_number c \<noteq> None \<and> chan_name c \<noteq> None"
  "\<lambda>c. (chan_number c, chan_name c)"
  by unfold_locales (simp only: chan_isEqual_def two_fields_equal)

interpretation prog: info_equality prog_isEqual "\<lambda>p. prog_id p \<noteq> None \<and> prog_name p \<noteq> None"
  "\<lambda>p. (prog_id p, prog_name p)"
  by unfold_locales (simp only: prog_isEqual_def two_fields_equal)

interpretation inp: info_equality inp_isEqual "\<lambda>i. inp_id i \<noteq> None \<and> inp_name i \<noteq> None"
  "\<lambda>i. (inp_id i, inp_name i)"
  by unfold_locales (simp only: inp_isEqual_def two_fields_equal)

text \<open>
  In a channel list whose channels all have a number and a name and differ in one of them, looking for an
  equal channel finds exactly the channel itself; a channel without a number or a name is not even equal to
  itself.
\<close>
theorem chan_isEqual_identifies:
  assumes "distinct (map (\<lambda>c. (chan_number c, chan_name c)) channels)"
    "\<forall>c\<in>set channels. chan_number c \<noteq> None \<and> chan_name c \<noteq> None" "c \<in> set channels"
  shows "List.find (\<lambda>d. chan_isEqual c (Some d)) channels = Some c
    \<and> \<not> chan_isEqual (c\<lparr>chan_number := None\<rparr>) (Some (c\<lparr>chan_number := None\<rparr>))"
  using chan.find_equal [OF assms] by (simp add: chan.equal_self_iff)

theorem chan_isEqual_identifies_witness:
  "List.find (\<lambda>d. chan_isEqual (chan_new\<lparr>chan_number := Some ''7-1'', chan_name := Some ''B''\<rparr>) (Some d))
     [chan_new\<lparr>chan_number := Some ''7-1'', chan_name := Some ''A''\<rparr>,
      chan_new\<lparr>chan_number := Some ''7-1'', chan_name := Some ''B''\<rparr>]
   = Some (chan_new\<lparr>chan_number := Some ''7-1'', chan_name := Some ''B''\<rparr>)"
  using chan_isEqual_identifies
    [of "[chan_new\<lparr>chan_number := Some ''7-1'', chan_name := Some ''A''\<rparr>,
      chan_new\<lparr>chan_number := Some ''7-1'', chan_name := Some ''B''\<rparr>]"
      "chan_new\<lparr>chan_number := Some ''7-1'', chan_name := Some ''B''\<rparr>"]
  by simp

section \<open>Properties of the media objects\<close>

lemma addImages_append: "addImages ys (addImages xs m) = addImages (xs @ ys) m"
  by (cases "mi_images m") (simp_all add: addImages_def)

lemma addImage_addImages: "mi_images m \<noteq> None \<Longrightarrow> addImage (Some i) m = Inr (addImages [i] m)"
  by (auto simp: addImage_def addImages_def)

lemma sub_url_required: "infoWithURLandBlock None block = Inl NSInternalInconsistencyException"
  by (simp add: infoWithURLandBlock_def sub_initWithURL_def assert_state_def)

lemma sub_builder_fields:
  "infoWithURLandBlock (Some u) (\<lambda>b. b\<lparr>sb_mimeType := m, sb_language := l, sb_label := t\<rparr>)
    = Inr \<lparr>sub_url = u, sub_mimeType = m, sub_language = l, sub_label = t\<rparr>"
  by (simp add: infoWithURLandBlock_def sub_initWithURL_def assert_state_def)

lemma orEmpty_nil: "orEmpty None = None"
  by (simp add: orEmpty_def)

end
