(* ===== verification/DiscoveryManager.thy ===== *)
theory DiscoveryManager
  imports DeviceStore ZeroConf Info
begin

text \<open>
  \<open>Discovery/DiscoveryManager\<close>: registration of services and providers, the control of discovery with
  the application state, and the devices that are known and compatible with the capability filters.

  The manager's state holds the world of objects and the device store. Its operations answer the new
  state and the outputs in order, or an exception. What is not part of the sources is a field of the
  environment: the class objects, the table of default platforms and the platform strings.
\<close>

section \<open>Providers\<close>

datatype DiscoveryProvider =
    BaseProvider
  | Ssdp SSDPDiscoveryProvider
  | ZeroConf ZeroConfDiscoveryProvider

datatype provOutput = FromSsdp ssdpOutput | FromZeroConf zcOutput

fun prov_class :: "DiscoveryProvider \<Rightarrow> string" where
  "prov_class BaseProvider = ''DiscoveryProvider''"
| "prov_class (Ssdp p) = ''SSDPDiscoveryProvider''"
| "prov_class (ZeroConf p) = ''ZeroConfDiscoveryProvider''"

definition prov_isSubclass :: "string \<Rightarrow> string \<Rightarrow> bool" where
  "prov_isSubclass c d \<longleftrightarrow> c = d \<or> (d = ''DiscoveryProvider'' \<and>
     c \<in> {''SSDPDiscoveryProvider'', ''ZeroConfDiscoveryProvider''})"

definition prov_new :: "string \<Rightarrow> DiscoveryProvider" where
  "prov_new c = (if c = ''SSDPDiscoveryProvider'' then Ssdp ssdp_init
     else if c = ''ZeroConfDiscoveryProvider'' then ZeroConf zc_new else BaseProvider)"

text \<open>Setting the delegate of a provider to the manager, which implements its delegate protocol.\<close>

fun prov_setDelegate :: "DiscoveryProvider \<Rightarrow> DiscoveryProvider" where
  "prov_setDelegate (ZeroConf p) = ZeroConf (p\<lparr>zc_delegateFind := True, zc_delegateLose := True\<rparr>)"
| "prov_setDelegate p = p"

fun prov_addDeviceFilter :: "jdict \<Rightarrow> DiscoveryProvider \<Rightarrow> DiscoveryProvider result" where
  "prov_addDeviceFilter d BaseProvider = Inr BaseProvider"
| "prov_addDeviceFilter d (Ssdp p) = rbind (ssdp_addDeviceFilter d p) (\<lambda>p'. Inr (Ssdp p'))"
| "prov_addDeviceFilter d (ZeroConf p) = rbind (zc_addDeviceFilter d p) (\<lambda>p'. Inr (ZeroConf p'))"

fun prov_startDiscovery ::
  "platform \<Rightarrow> real \<Rightarrow> DiscoveryProvider \<Rightarrow> (DiscoveryProvider \<times> provOutput list) result" where
  "prov_startDiscovery pf now BaseProvider = Inr (BaseProvider, [])"
| "prov_startDiscovery pf now (Ssdp p) =
     rbind (ssdp_startDiscovery pf now p) (\<lambda>(p', out). Inr (Ssdp p', map FromSsdp out))"
| "prov_startDiscovery pf now (ZeroConf p) =
     (case zc_startDiscovery p of (p', out) \<Rightarrow> Inr (ZeroConf p', map FromZeroConf out))"

fun prov_stopDiscovery :: "DiscoveryProvider \<Rightarrow> DiscoveryProvider \<times> provOutput list" where
  "prov_stopDiscovery BaseProvider = (BaseProvider, [])"
| "prov_stopDiscovery (Ssdp p) = (Ssdp (ssdp_stopDiscovery p), [])"
| "prov_stopDiscovery (ZeroConf p) =
     (case zc_stopDiscovery p of (p', out) \<Rightarrow> (ZeroConf p', map FromZeroConf out))"

text \<open>\<open>pauseDiscovery\<close> and \<open>resumeDiscovery\<close> of the base class.\<close>

definition prov_pauseDiscovery :: "DiscoveryProvider \<Rightarrow> DiscoveryProvider \<times> provOutput list" where
  "prov_pauseDiscovery p = prov_stopDiscovery p"

definition prov_resumeDiscovery ::
  "platform \<Rightarrow> real \<Rightarrow> DiscoveryProvider \<Rightarrow> (DiscoveryProvider \<times> provOutput list) result" where
  "prov_resumeDiscovery pf now p = prov_startDiscovery pf now p"

definition prov_isEmpty :: "DiscoveryProvider \<Rightarrow> bool" where
  "prov_isEmpty p = True"

fun prov_running :: "DiscoveryProvider \<Rightarrow> bool" where
  "prov_running BaseProvider = False"
| "prov_running (Ssdp p) = ssdp_running p"
| "prov_running (ZeroConf p) = zc_running p"

section \<open>State\<close>

datatype dmSelector = DmSelFind | DmSelLose | DmSelUpdate | DmSelFail

datatype dmOutput =
    DmFound nat | DmLost nat | DmUpdated nat
  | PickerCreated | PickerFound nat | PickerLost nat | PickerUpdated nat
  | DeviceOutput nat cdOutput
  | ProviderOutput provOutput
  | PostSSIDChanged

datatype DeviceServicePairingLevel = PairingLevelOff | PairingLevelOn

record DiscoveryManager =
  dm_world :: world
  dm_all :: "nat nsdict"
  dm_compatible :: "nat nsdict"
  dm_capabilityFilters :: "CapabilityFilter list"
  dm_shouldResumeSearch :: bool
  dm_searching :: bool
  dm_useDeviceStore :: bool
  dm_store :: "DeviceStore option"
  dm_providers :: "DiscoveryProvider list"
  dm_deviceClasses :: "string nsdict"
  dm_delegate :: "dmSelector list option"
  dm_picker :: bool
  dm_ssidTimer :: bool
  dm_currentSSID :: "string option"
  dm_notifier :: AppStateChangeNotifier
  dm_pairingLevel :: DeviceServicePairingLevel

record dmEnv =
  env_classes :: classTable
  env_isService :: "string \<Rightarrow> bool"
  env_discoveryParameters :: "string \<Rightarrow> jdict option"
  env_defaultPlatforms :: "(string \<times> string) list"
  env_platform :: platform
  env_self :: nat

type_synonym dmOp = "DiscoveryManager \<Rightarrow> (DiscoveryManager \<times> dmOutput list) result"

definition andThen :: "dmOp \<Rightarrow> dmOp \<Rightarrow> dmOp" where
  "andThen f g m = rbind (f m) (\<lambda>(m', out). rbind (g m') (\<lambda>(m'', out'). Inr (m'', out @ out')))"

definition noOp :: dmOp where "noOp m = Inr (m, [])"

fun forEach :: "('a \<Rightarrow> dmOp) \<Rightarrow> 'a list \<Rightarrow> dmOp" where
  "forEach f [] = noOp"
| "forEach f (x # xs) = andThen (f x) (forEach f xs)"

text \<open>
  A message to the delegate: nothing when it is nil; the code does not ask whether it implements the
  optional method, and an unimplemented one raises.
\<close>

definition dm_tell :: "dmSelector \<Rightarrow> dmOutput \<Rightarrow> dmOp" where
  "dm_tell sel e m = (case dm_delegate m of
      None \<Rightarrow> Inr (m, [])
    | Some sels \<Rightarrow> if sel \<in> set sels then Inr (m, [e]) else Inl NSInvalidArgumentException)"

definition dm_tellPicker :: "dmOutput \<Rightarrow> dmOp" where
  "dm_tellPicker e m = Inr (m, if dm_picker m then [e] else [])"

text \<open>The device at a reference, and an update of it with what it posts.\<close>

definition dm_device :: "DiscoveryManager \<Rightarrow> nat \<Rightarrow> ConnectableDevice" where
  "dm_device m r = w_dev (dm_world m) r"

definition dm_heap :: "DiscoveryManager \<Rightarrow> sdHeap" where
  "dm_heap m = w_sd (dm_world m)"

definition dm_setDevice :: "nat \<Rightarrow> ConnectableDevice \<Rightarrow> sdHeap \<Rightarrow> DiscoveryManager \<Rightarrow> DiscoveryManager" where
  "dm_setDevice r d heap m = m\<lparr>dm_world := (dm_world m)\<lparr>w_dev := (w_dev (dm_world m))(r := d), w_sd := heap\<rparr>\<rparr>"

definition dm_addressOf :: "DiscoveryManager \<Rightarrow> nat \<Rightarrow> string option" where
  "dm_addressOf m r = cd_address (dm_heap m) (dm_device m r)"

section \<open>Creation and the device store\<close>

definition dm_setDeviceStore :: "DeviceStore option \<Rightarrow> DiscoveryManager \<Rightarrow> DiscoveryManager" where
  "dm_setDeviceStore st m = m\<lparr>dm_store := st, dm_useDeviceStore := (st \<noteq> None)\<rparr>"

definition startSSIDTimer :: "DiscoveryManager \<Rightarrow> DiscoveryManager" where
  "startSSIDTimer m = m\<lparr>dm_ssidTimer := True\<rparr>"

definition stopSSIDTimer :: "DiscoveryManager \<Rightarrow> DiscoveryManager" where
  "stopSSIDTimer m = m\<lparr>dm_ssidTimer := False\<rparr>"

definition dm_init :: "world \<Rightarrow> DiscoveryManager" where
  "dm_init w = startSSIDTimer \<lparr>dm_world = w, dm_all = [], dm_compatible = [], dm_capabilityFilters = [],
     dm_shouldResumeSearch = False, dm_searching = False, dm_useDeviceStore = True, dm_store = None,
     dm_providers = [], dm_deviceClasses = [], dm_delegate = None, dm_picker = False, dm_ssidTimer = False,
     dm_currentSSID = None,
     dm_notifier = notifier_new\<lparr>didBackgroundBlock := Some ''pauseDiscovery'',
        didForegroundBlock := Some ''resumeDiscovery''\<rparr>,
     dm_pairingLevel = PairingLevelOff\<rparr>"

text \<open>\<open>sharedManager\<close> installs the default store, loaded from the file at time \<open>now\<close>.\<close>

definition dm_sharedManager :: "real \<Rightarrow> storeFile \<Rightarrow> DiscoveryManager \<Rightarrow> DiscoveryManager result" where
  "dm_sharedManager now file m =
     (if dm_store m = None \<and> dm_useDeviceStore m
      then rbind (ds_init now file) (\<lambda>st. Inr (dm_setDeviceStore (Some st) m)) else Inr m)"

section \<open>Registration\<close>

definition registerWithFactory :: "dmEnv \<Rightarrow> string \<Rightarrow> DiscoveryProvider \<Rightarrow> dmOp" where
  "registerWithFactory env deviceClass newProvider m =
     (if \<not> env_isService env deviceClass then Inr (m, [])
      else
        (let existing = findIndex (\<lambda>p. prov_isSubclass (prov_class p) (prov_class newProvider)) 0 (dm_providers m);
             providers = (case existing of Some i \<Rightarrow> dm_providers m
                          | None \<Rightarrow> dm_providers m @ [prov_setDelegate newProvider]);
             i = (case existing of Some i \<Rightarrow> i | None \<Rightarrow> length (dm_providers m));
             parameters = env_discoveryParameters env deviceClass;
             serviceId = Option.bind parameters filterServiceId
         in rbind (setObjectN deviceClass serviceId (dm_deviceClasses m)) (\<lambda>classes.
            rbind (prov_addDeviceFilter (case parameters of None \<Rightarrow> [] | Some d \<Rightarrow> d) (providers ! i)) (\<lambda>p.
              Inr (m\<lparr>dm_providers := providers[i := p], dm_deviceClasses := classes\<rparr>, [])))))"

definition registerDeviceService :: "dmEnv \<Rightarrow> string \<Rightarrow> string \<Rightarrow> dmOp" where
  "registerDeviceService env deviceClass discoveryClass m =
     (if \<not> prov_isSubclass discoveryClass ''DiscoveryProvider'' then Inr (m, [])
      else registerWithFactory env deviceClass (prov_new discoveryClass) m)"

definition registerDefaultServices :: "dmEnv \<Rightarrow> dmOp" where
  "registerDefaultServices env = forEach (\<lambda>(c, d). registerDeviceService env c d) (env_defaultPlatforms env)"

text \<open>
  \<open>unregisterDeviceService:withDiscovery:\<close> asks the provider class, not the service class, for its
  discovery parameters; no provider class implements that method, so the message raises and what
  follows it never runs.
\<close>

definition unregisterDeviceService :: "dmEnv \<Rightarrow> string \<Rightarrow> string \<Rightarrow> dmOp" where
  "unregisterDeviceService env deviceClass discoveryClass m =
     (if \<not> prov_isSubclass discoveryClass ''DiscoveryProvider'' then Inr (m, [])
      else if \<not> env_isService env deviceClass then Inr (m, [])
      else (case findIndex (\<lambda>p. prov_isSubclass (prov_class p) discoveryClass) 0 (dm_providers m) of
              None \<Rightarrow> Inr (m, [])
            | Some i \<Rightarrow> Inl NSInvalidArgumentException))"

section \<open>Compatible devices\<close>

definition deviceIsCompatible :: "nat \<Rightarrow> DiscoveryManager \<Rightarrow> bool" where
  "deviceIsCompatible r m =
     (if dm_capabilityFilters m = [] then True
      else enumerateObjects (\<lambda>f c. if cd_hasCapabilities (dm_device m r) f then (True, True) else (c, False))
             (dm_capabilityFilters m) False)"

definition dm_setCompatible :: "nat \<Rightarrow> dmOp" where
  "dm_setCompatible r m = rbind (setObjectN r (dm_addressOf m r) (dm_compatible m)) (\<lambda>c.
     Inr (m\<lparr>dm_compatible := c\<rparr>, []))"

definition dm_removeCompatible :: "string option \<Rightarrow> dmOp" where
  "dm_removeCompatible k m = rbind (removeObjectForKeyN k (dm_compatible m)) (\<lambda>c.
     Inr (m\<lparr>dm_compatible := c\<rparr>, []))"

definition handleDeviceAdd :: "nat \<Rightarrow> dmOp" where
  "handleDeviceAdd r m =
     (if \<not> deviceIsCompatible r m then Inr (m, [])
      else andThen (dm_setCompatible r)
             (andThen (dm_tell DmSelFind (DmFound r)) (dm_tellPicker (PickerFound r))) m)"

definition handleDeviceLoss :: "nat \<Rightarrow> dmOp" where
  "handleDeviceLoss r = andThen (dm_tell DmSelLose (DmLost r)) (dm_tellPicker (PickerLost r))"

text \<open>\<open>[self.deviceStore updateDevice:device]\<close>; the clock is read at \<open>t1\<close> and \<open>t2\<close>.\<close>

definition dm_storeUpdate :: "real \<Rightarrow> real \<Rightarrow> nat \<Rightarrow> dmOp" where
  "dm_storeUpdate t1 t2 r m = (case dm_store m of
      None \<Rightarrow> Inr (m, [])
    | Some st \<Rightarrow> rbind (updateDevice (Some r) t1 t2 (dm_world m) st) (\<lambda>(w, st').
        Inr (m\<lparr>dm_world := w, dm_store := Some st'\<rparr>, [])))"

definition handleDeviceUpdate :: "real \<Rightarrow> real \<Rightarrow> nat \<Rightarrow> dmOp" where
  "handleDeviceUpdate t1 t2 r =
     andThen (dm_storeUpdate t1 t2 r) (\<lambda>m.
       if deviceIsCompatible r m
       then (if objectForKeyN (dm_compatible m) (dm_addressOf m r) \<noteq> None
             then andThen (dm_tell DmSelUpdate (DmUpdated r)) (dm_tellPicker (PickerUpdated r)) m
             else handleDeviceAdd r m)
       else andThen (dm_removeCompatible (dm_addressOf m r)) (handleDeviceLoss r) m)"

definition setCapabilityFilters :: "CapabilityFilter list \<Rightarrow> dmOp" where
  "setCapabilityFilters filters m0 =
     andThen (forEach (\<lambda>r. dm_tell DmSelLose (DmLost r)) (allValues (dm_compatible m0)))
       (\<lambda>m. forEach (\<lambda>r m. if deviceIsCompatible r m
               then andThen (dm_setCompatible r) (dm_tell DmSelFind (DmFound r)) m else Inr (m, []))
              (allValues (dm_all m)) (m\<lparr>dm_compatible := []\<rparr>))
       (m0\<lparr>dm_capabilityFilters := filters\<rparr>)"

text \<open>The picker is created on first use and told the compatible devices.\<close>

definition devicePicker :: dmOp where
  "devicePicker m = (if dm_picker m then Inr (m, [])
     else Inr (m\<lparr>dm_picker := True\<rparr>, PickerCreated # map PickerFound (allValues (dm_compatible m))))"

section \<open>Control\<close>

fun startProviders :: "dmEnv \<Rightarrow> real \<Rightarrow> DiscoveryProvider list \<Rightarrow> (DiscoveryProvider list \<times> dmOutput list) result" where
  "startProviders env now [] = Inr ([], [])"
| "startProviders env now (p # ps) =
     rbind (prov_startDiscovery (env_platform env) now p) (\<lambda>(p', out).
     rbind (startProviders env now ps) (\<lambda>(ps', out'). Inr (p' # ps', map ProviderOutput out @ out')))"

definition stopProviders :: "DiscoveryProvider list \<Rightarrow> DiscoveryProvider list \<times> dmOutput list" where
  "stopProviders ps = (map (fst \<circ> prov_stopDiscovery) ps,
     concat (map (map ProviderOutput \<circ> snd \<circ> prov_stopDiscovery) ps))"

definition dm_startProviders :: "dmEnv \<Rightarrow> real \<Rightarrow> dmOp" where
  "dm_startProviders env now m = rbind (startProviders env now (dm_providers m)) (\<lambda>(ps, out).
     Inr (m\<lparr>dm_providers := ps\<rparr>, out))"

definition dm_stopProviders :: dmOp where
  "dm_stopProviders m = (case stopProviders (dm_providers m) of (ps, out) \<Rightarrow> Inr (m\<lparr>dm_providers := ps\<rparr>, out))"

definition dm_startDiscovery :: "dmEnv \<Rightarrow> real \<Rightarrow> dmOp" where
  "dm_startDiscovery env now m =
     (if dm_searching m then Inr (m, [])
      else andThen (if dm_deviceClasses m = [] then registerDefaultServices env else noOp)
             (\<lambda>m1. andThen (dm_startProviders env now)
                (\<lambda>m2. Inr (m2\<lparr>dm_notifier := startListening (dm_notifier m2)\<rparr>, [])) (m1\<lparr>dm_searching := True\<rparr>)) m)"

definition dm_stopDiscovery :: dmOp where
  "dm_stopDiscovery m =
     (if \<not> dm_searching m then Inr (m, [])
      else andThen dm_stopProviders
             (\<lambda>m1. Inr (if \<not> dm_shouldResumeSearch m1 then m1\<lparr>dm_notifier := stopListening (dm_notifier m1)\<rparr> else m1, []))
             (m\<lparr>dm_searching := False\<rparr>))"

definition dm_pauseDiscovery :: dmOp where
  "dm_pauseDiscovery m0 = (let m = stopSSIDTimer m0 in
     if dm_searching m
     then dm_stopProviders (m\<lparr>dm_searching := False, dm_shouldResumeSearch := True\<rparr>)
     else Inr (m, []))"

definition dm_resumeDiscovery :: "dmEnv \<Rightarrow> real \<Rightarrow> dmOp" where
  "dm_resumeDiscovery env now m0 = (let m = startSSIDTimer m0 in
     if dm_shouldResumeSearch m
     then dm_startProviders env now (m\<lparr>dm_searching := True, dm_shouldResumeSearch := False\<rparr>)
     else Inr (m, []))"

definition setPairingLevel :: "DeviceServicePairingLevel \<Rightarrow> DiscoveryManager \<Rightarrow> DiscoveryManager result" where
  "setPairingLevel l m = (if dm_searching m then Inl NSInternalInconsistencyException
     else Inr (m\<lparr>dm_pairingLevel := l\<rparr>))"

section \<open>Wireless network changes\<close>

definition dm_disconnectDevice :: "dmEnv \<Rightarrow> nat \<Rightarrow> dmOp" where
  "dm_disconnectDevice env r m =
     (case cd_disconnect (env_classes env) (dm_heap m) (dm_device m r) of
        (d, out) \<Rightarrow> Inr (dm_setDevice r d (dm_heap m) m, map (DeviceOutput r) out))"

definition purgeDeviceList :: "dmEnv \<Rightarrow> real \<Rightarrow> dmOp" where
  "purgeDeviceList env now m0 =
     andThen (forEach (\<lambda>r. andThen (dm_disconnectDevice env r)
                (andThen (dm_tell DmSelLose (DmLost r))
                (andThen devicePicker (dm_tellPicker (PickerLost r))))) (allValues (dm_compatible m0)))
     (andThen dm_stopProviders
     (andThen (dm_startProviders env now)
       (\<lambda>m. Inr (m\<lparr>dm_all := [], dm_compatible := []\<rparr>, [])))) m0"

text \<open>
  \<open>detectSSIDChange\<close> for the network name that was read, nil when there is none. Comparing a string with
  nil is undefined in Foundation; \<open>nilDiffers\<close> is its result.
\<close>

definition detectSSIDChange :: "dmEnv \<Rightarrow> (string \<Rightarrow> bool) \<Rightarrow> real \<Rightarrow> string option \<Rightarrow> dmOp" where
  "detectSSIDChange env nilDiffers now read m =
     (let ssidName = (case read of None \<Rightarrow> [] | Some s \<Rightarrow> s) in
      case dm_currentSSID m of
        None \<Rightarrow> Inr (if nilDiffers ssidName then m\<lparr>dm_currentSSID := Some ssidName\<rparr> else m, [])
      | Some current \<Rightarrow>
          if lowercaseString ssidName \<noteq> lowercaseString current
          then andThen (purgeDeviceList env now)
                 (\<lambda>m'. Inr (m'\<lparr>dm_currentSSID := Some ssidName\<rparr>, [PostSSIDChanged])) m
          else Inr (m, []))"

section \<open>Services found and lost\<close>

definition descriptionIsNetcastTV :: "ServiceDescription \<Rightarrow> bool" where
  "descriptionIsNetcastTV sd =
     (if isEqualToString (map_option uppercaseString (sd_modelName sd)) (Some ''LG TV'')
      then (case sd_modelDescription sd of
              None \<Rightarrow> False
            | Some md \<Rightarrow> if rangeOfString (uppercaseString md) ''WEBOS'' = None
                then isEqualToString (sd_serviceId sd) (Some ''Netcast TV'') else False)
      else False)"

text \<open>Storing a description in a service, with what its class changes then.\<close>

definition svc_setServiceDescription ::
  "classTable \<Rightarrow> nat \<Rightarrow> sdHeap \<Rightarrow> DeviceService \<Rightarrow> DeviceService \<times> sdHeap" where
  "svc_setServiceDescription ct q heap s =
     (case cls_describe (ct (svc_class s)) (heap q) (s\<lparr>svc_description := Some q\<rparr>) of
        (sd, s') \<Rightarrow> (s', heap(q := sd)))"

definition dm_serviceConfig :: "dmEnv \<Rightarrow> real \<Rightarrow> nat \<Rightarrow> DiscoveryManager \<Rightarrow> ServiceConfig result" where
  "dm_serviceConfig env now q m =
     (let sd = dm_heap m q in
      rbind (if dm_useDeviceStore m
             then (case dm_store m of None \<Rightarrow> Inr None | Some st \<Rightarrow> ds_serviceConfigForUUID (sd_UUID sd) st)
             else Inr None) (\<lambda>found.
        cfg_setDelegate (Some (env_self env))
          (case found of Some c \<Rightarrow> c | None \<Rightarrow> cfg_initWithServiceDescription now sd)))"

text \<open>Whether the device has a service of the type, and then whether it is the very service.\<close>

definition alreadyHasService :: "nat \<Rightarrow> nat \<Rightarrow> DiscoveryManager \<Rightarrow> bool \<times> bool" where
  "alreadyHasService q r m =
     enumerateObjects (\<lambda>s (hasType, hasService).
       if isEqualToString (serviceName (dm_heap m) s) (sd_serviceId (dm_heap m q))
       then ((True, isEqualToString (svc_UUID (dm_heap m) s) (sd_UUID (dm_heap m q)) \<or> hasService), True)
       else ((hasType, hasService), False))
       (dev_services (dm_world m) r) (False, False)"

definition dm_refreshService :: "dmEnv \<Rightarrow> nat \<Rightarrow> nat \<Rightarrow> dmOp" where
  "dm_refreshService env q r m =
     (let d = (dm_device m r)\<lparr>cd_description := Some q\<rparr>;
          sid = sd_serviceId (dm_heap m q)
      in case serviceWithName d sid of
           None \<Rightarrow> Inr (dm_setDevice r d (dm_heap m) m, [])
         | Some s \<Rightarrow> (case svc_setServiceDescription (env_classes env) q (dm_heap m) s of (s', heap) \<Rightarrow>
             Inr (dm_setDevice r (d\<lparr>cd_services := setObject s' (the sid) (cd_services d)\<rparr>) heap m, [])))"

definition dm_removeService :: "dmEnv \<Rightarrow> string option \<Rightarrow> nat \<Rightarrow> dmOp" where
  "dm_removeService env sid r m =
     (case removeServiceWithId (env_classes env) (dm_heap m) sid (dm_device m r) of
        (d, out) \<Rightarrow> Inr (dm_setDevice r d (dm_heap m) m, map (DeviceOutput r) out))"

definition dm_addNewService :: "dmEnv \<Rightarrow> string option \<Rightarrow> ServiceConfig \<Rightarrow> nat \<Rightarrow> nat \<Rightarrow> dmOp" where
  "dm_addNewService env cls config q r m =
     (let (service, heap) =
        (case deviceServiceWithClass (map_option (env_classes env) cls) (Some config) of
           None \<Rightarrow> (None, dm_heap m)
         | Some s \<Rightarrow> (case svc_setServiceDescription (env_classes env) q (dm_heap m) s of (s', h) \<Rightarrow> (Some s', h)))
      in rbind (cd_addService (env_classes env) heap service (dm_device m r)) (\<lambda>(d, heap', out).
           Inr (dm_setDevice r d heap' m, map (DeviceOutput r) out)))"

definition addServiceDescription :: "dmEnv \<Rightarrow> real \<Rightarrow> nat \<Rightarrow> nat \<Rightarrow> dmOp" where
  "addServiceDescription env now q r m =
     (let sd = dm_heap m q; cls = objectForKeyN (dm_deviceClasses m) (sd_serviceId sd) in
      if cls = Some ''DLNAService'' \<and> sd_locationXML sd = None then Inr (m, [])
      else if cls = Some ''NetcastTVService'' \<and> \<not> descriptionIsNetcastTV sd then Inr (m, [])
      else rbind (dm_serviceConfig env now q m) (\<lambda>config.
        (case alreadyHasService q r m of
           (True, True) \<Rightarrow> dm_refreshService env q r m
         | (True, False) \<Rightarrow> andThen (dm_removeService env (sd_serviceId sd) r)
             (dm_addNewService env cls config q r) m
         | _ \<Rightarrow> dm_addNewService env cls config q r m)))"

text \<open>The device that a found service belongs to: known, restored from the store, or new.\<close>

definition dm_deviceForDescription :: "nat \<Rightarrow> DiscoveryManager \<Rightarrow> (DiscoveryManager \<times> nat \<times> bool) result" where
  "dm_deviceForDescription q m0 =
     (let sd = dm_heap m0 q in
      case objectForKeyN (dm_all m0) (sd_address sd) of
        Some r \<Rightarrow> Inr (m0, r, False)
      | None \<Rightarrow>
          rbind (case (dm_useDeviceStore m0, dm_store m0) of
                   (True, Some st) \<Rightarrow> rbind (deviceForId (sd_UUID sd) (dm_world m0) st) (\<lambda>(found, w, st').
                      Inr (m0\<lparr>dm_world := w, dm_store := Some st'\<rparr>, found))
                 | _ \<Rightarrow> Inr (m0, None)) (\<lambda>(m, found).
          (case found of
             Some r \<Rightarrow> rbind (setObjectN r (sd_address sd) (dm_all m)) (\<lambda>a.
               Inr (m\<lparr>dm_all := a\<rparr>, r, True))
           | None \<Rightarrow>
               (let w = dm_world m; r = Suc (w_next w) in
                case cd_initWithDescription (w_next w) (Some q) (w_sd w) of (d, heap) \<Rightarrow>
                rbind (setObjectN r (sd_address sd) (dm_all m)) (\<lambda>a.
                  Inr (m\<lparr>dm_world := w\<lparr>w_sd := heap, w_dev := (w_dev w)(r := d), w_next := Suc r\<rparr>,
                         dm_all := a\<rparr>, r, True))))))"

definition dm_didFindService :: "dmEnv \<Rightarrow> real \<Rightarrow> real \<Rightarrow> nat \<Rightarrow> dmOp" where
  "dm_didFindService env now t2 q m0 =
     rbind (dm_deviceForDescription q m0) (\<lambda>(m1, r, deviceIsNew).
       let sd = dm_heap m0 q;
           d = (dm_device m1 r)\<lparr>cd_lastDetection := now, cd_lastKnownIPAddress := sd_address sd,
                 cd_lastSeenOnWifi := dm_currentSSID m1\<rparr>
       in andThen (addServiceDescription env now q r)
            (\<lambda>m. if dev_services (dm_world m) r = []
                 then rbind (removeObjectForKeyN (sd_address sd) (dm_all m)) (\<lambda>a. Inr (m\<lparr>dm_all := a\<rparr>, []))
                 else if deviceIsNew then handleDeviceAdd r m else handleDeviceUpdate now t2 r m)
            (dm_setDevice r d (dm_heap m1) m1))"

definition dm_didLoseService :: "dmEnv \<Rightarrow> real \<Rightarrow> real \<Rightarrow> nat \<Rightarrow> dmOp" where
  "dm_didLoseService env now t2 q m0 =
     (let sd = dm_heap m0 q in
      case objectForKeyN (dm_all m0) (sd_address sd) of
        None \<Rightarrow> Inr (m0, [])
      | Some r \<Rightarrow>
          andThen (dm_removeService env (sd_serviceId sd) r)
            (\<lambda>m. if \<not> hasServices (dm_device m r)
                 then rbind (removeObjectForKeyN (sd_address sd) (dm_all m)) (\<lambda>a.
                        andThen (dm_removeCompatible (sd_address sd)) (handleDeviceLoss r) (m\<lparr>dm_all := a\<rparr>))
                 else handleDeviceUpdate now t2 r m) m0)"

text \<open>\<open>connectableDevice:capabilitiesAdded:removed:\<close>, which a device calls when a service changes.\<close>

definition dm_capabilitiesChanged :: "real \<Rightarrow> real \<Rightarrow> nat \<Rightarrow> dmOp" where
  "dm_capabilitiesChanged t1 t2 r = handleDeviceUpdate t1 t2 r"

section \<open>Configuration changes\<close>

definition lookupMatchingDeviceForDeviceStore :: "string option \<Rightarrow> DiscoveryManager \<Rightarrow> nat option" where
  "lookupMatchingDeviceForDeviceStore uuid m =
     enumerateObjects (\<lambda>(k, r) found.
       enumerateObjects (\<lambda>s (f, stop).
         if isEqualToString (Option.bind (svc_config s) cfg_UUID) uuid then ((Some r, True), True) else ((f, stop), False))
         (dev_services (dm_world m) r) (found, False))
       (dm_all m) None"

definition serviceConfigUpdate :: "real \<Rightarrow> real \<Rightarrow> string option \<Rightarrow> dmOp" where
  "serviceConfigUpdate t1 t2 uuid m =
     (if dm_useDeviceStore m \<and> dm_store m \<noteq> None
      then (case lookupMatchingDeviceForDeviceStore uuid m of
              None \<Rightarrow> Inr (m, []) | Some r \<Rightarrow> dm_storeUpdate t1 t2 r m)
      else Inr (m, []))"

section \<open>Public messages\<close>

text \<open>The public interface of the class; \<open>allDevices\<close> and \<open>compatibleDevices\<close> are the fields themselves.\<close>

datatype dmMessage =
    MsgSetDelegate "dmSelector list option"
  | MsgRegisterDefaultServices
  | MsgRegisterDeviceService string string
  | MsgUnregisterDeviceService string string
  | MsgSetCapabilityFilters "CapabilityFilter list"
  | MsgSetPairingLevel DeviceServicePairingLevel
  | MsgStartDiscovery real
  | MsgStopDiscovery
  | MsgDevicePicker
  | MsgSetDeviceStore "DeviceStore option"

fun dm_perform :: "dmEnv \<Rightarrow> dmMessage \<Rightarrow> dmOp" where
  "dm_perform env (MsgSetDelegate d) m = Inr (m\<lparr>dm_delegate := d\<rparr>, [])"
| "dm_perform env MsgRegisterDefaultServices m = registerDefaultServices env m"
| "dm_perform env (MsgRegisterDeviceService c d) m = registerDeviceService env c d m"
| "dm_perform env (MsgUnregisterDeviceService c d) m = unregisterDeviceService env c d m"
| "dm_perform env (MsgSetCapabilityFilters fs) m = setCapabilityFilters fs m"
| "dm_perform env (MsgSetPairingLevel l) m = rbind (setPairingLevel l m) (\<lambda>m'. Inr (m', []))"
| "dm_perform env (MsgStartDiscovery now) m = dm_startDiscovery env now m"
| "dm_perform env MsgStopDiscovery m = dm_stopDiscovery m"
| "dm_perform env MsgDevicePicker m = devicePicker m"
| "dm_perform env (MsgSetDeviceStore st) m = Inr (dm_setDeviceStore st m, [])"

section \<open>The contract of providers\<close>

text \<open>
  What the manager relies on from a provider class: starting makes it run, stopping ends that, and
  starting a running provider does nothing.
\<close>

locale discovery_provider =
  fixes isRunning :: "'p \<Rightarrow> bool"
    and start :: "'p \<Rightarrow> 'p"
    and stop :: "'p \<Rightarrow> 'p"
  assumes start_runs: "isRunning (start p)"
    and stop_stops: "\<not> isRunning (stop p)"
    and start_running: "isRunning p \<Longrightarrow> start p = p"
begin

lemma start_start: "start (start p) = start p"
  by (simp add: start_running start_runs)

lemma restart_runs: "isRunning (start (stop p))"
  by (rule start_runs)

end

definition ssdp_started :: "platform \<Rightarrow> real \<Rightarrow> SSDPDiscoveryProvider \<Rightarrow> SSDPDiscoveryProvider" where
  "ssdp_started pf now p = (case ssdp_startDiscovery pf now p of Inl e \<Rightarrow> p | Inr (p', out) \<Rightarrow> p')"

lemma ssdp_start_returns:
  "\<exists>out. ssdp_startDiscovery pf now p = Inr (ssdp_started pf now p, out) \<and> ssdp_running (ssdp_started pf now p)"
proof (cases "ssdp_running p")
  case True
  then show ?thesis by (simp add: ssdp_startDiscovery_def ssdp_started_def)
next
  case False
  obtain q out where "sendRequests pf now False (ssdp_filters p) (p\<lparr>ssdp_running := True\<rparr>) = Inr (q, out)"
    "ssdp_running q"
    using sendRequests_quiet [of pf now "ssdp_filters p" "p\<lparr>ssdp_running := True\<rparr>"] by (auto split: if_splits)
  with False show ?thesis
    by (simp add: ssdp_startDiscovery_def ssdp_started_def ssdp_start_def sendSearchRequests_def)
qed

interpretation ssdp_provider: discovery_provider ssdp_running "ssdp_started pf now" ssdp_stopDiscovery
proof
  show "ssdp_running (ssdp_started pf now p)" for p using ssdp_start_returns by blast
  show "\<not> ssdp_running (ssdp_stopDiscovery p)" for p by (simp add: ssdp_stopDiscovery_def)
  show "ssdp_running p \<Longrightarrow> ssdp_started pf now p = p" for p
    by (simp add: ssdp_started_def ssdp_startDiscovery_def)
qed

interpretation zeroconf_provider: discovery_provider zc_running "fst \<circ> zc_startDiscovery" "fst \<circ> zc_stopDiscovery"
  by unfold_locales (auto simp: zc_startDiscovery_def zc_stopDiscovery_def Let_def)

text \<open>Providers of the two concrete classes run exactly when they should.\<close>

definition providersRun :: "bool \<Rightarrow> DiscoveryProvider list \<Rightarrow> bool" where
  "providersRun b ps \<longleftrightarrow> list_all (\<lambda>p. p = BaseProvider \<or> prov_running p = b) ps"

lemma startProviders_run:
  "\<exists>ps' out. startProviders env now ps = Inr (ps', out) \<and> providersRun True ps' \<and> length ps' = length ps"
proof (induction ps)
  case (Cons p ps)
  then obtain ps' out where IH: "startProviders env now ps = Inr (ps', out)" "providersRun True ps'"
    "length ps' = length ps" by blast
  have "\<exists>p' o'. prov_startDiscovery (env_platform env) now p = Inr (p', o') \<and> (p' = BaseProvider \<or> prov_running p')"
  proof (cases p)
    case (Ssdp q)
    obtain o1 where "ssdp_startDiscovery (env_platform env) now q = Inr (ssdp_started (env_platform env) now q, o1)"
      "ssdp_running (ssdp_started (env_platform env) now q)" using ssdp_start_returns by blast
    then show ?thesis using Ssdp by simp
  next
    case (ZeroConf q)
    then show ?thesis using zeroconf_provider.start_runs [of q] by (simp add: case_prod_beta)
  qed simp
  with IH show ?case by (auto simp: providersRun_def)
qed (simp add: providersRun_def)

lemma stopProviders_run: "providersRun False (fst (stopProviders ps))"
proof -
  have "fst (prov_stopDiscovery p) = BaseProvider \<or> \<not> prov_running (fst (prov_stopDiscovery p))" for p
    using ssdp_provider.stop_stops zeroconf_provider.stop_stops
    by (cases p) (simp_all add: comp_def case_prod_beta)
  then show ?thesis by (simp add: providersRun_def stopProviders_def list_all_iff)
qed

lemma providersRun_Nil [simp]: "providersRun b []"
  by (simp add: providersRun_def)

section \<open>Properties of the control\<close>

datatype dmControl = CtlStart real | CtlStop | CtlPause | CtlResume real

fun dm_control :: "dmEnv \<Rightarrow> dmControl \<Rightarrow> dmOp" where
  "dm_control env (CtlStart now) = dm_startDiscovery env now"
| "dm_control env CtlStop = dm_stopDiscovery"
| "dm_control env CtlPause = dm_pauseDiscovery"
| "dm_control env (CtlResume now) = dm_resumeDiscovery env now"

definition dm_runsIffSearching :: "DiscoveryManager \<Rightarrow> bool" where
  "dm_runsIffSearching m \<longleftrightarrow> providersRun (dm_searching m) (dm_providers m)"

lemma andThen_Inr_iff:
  "andThen f g m = Inr (m', out) \<longleftrightarrow>
    (\<exists>m1 o1 o2. f m = Inr (m1, o1) \<and> g m1 = Inr (m', o2) \<and> out = o1 @ o2)"
  by (auto simp: andThen_def rbind_Inr_iff split: prod.splits)

lemma dm_startProviders_runs:
  "dm_startProviders env now m = Inr (m', out) \<Longrightarrow>
    providersRun True (dm_providers m') \<and> dm_searching m' = dm_searching m"
  using startProviders_run [of env now "dm_providers m"]
  by (auto simp: dm_startProviders_def rbind_Inr_iff)

lemma dm_stopProviders_runs:
  "dm_stopProviders m = Inr (m', out) \<Longrightarrow>
    providersRun False (dm_providers m') \<and> dm_searching m' = dm_searching m
    \<and> dm_shouldResumeSearch m' = dm_shouldResumeSearch m"
  using stopProviders_run [of "dm_providers m"] by (auto simp: dm_stopProviders_def split: prod.splits)

text \<open>
  C21: Starting, stopping, pausing and resuming keep the providers in step with the manager: the SSDP and
  zeroconf providers run exactly while the manager is searching.
\<close>
theorem dm_control_keeps_providers_in_step:
  assumes "dm_runsIffSearching m" "dm_control env c m = Inr (m', out)"
  shows "dm_runsIffSearching m'"
proof (cases c)
  case (CtlStart now)
  show ?thesis
  proof (cases "dm_searching m")
    case True
    with CtlStart assms show ?thesis by (simp add: dm_startDiscovery_def)
  next
    case False
    with CtlStart assms(2) obtain m1 m2 o2 where "dm_startProviders env now (m1\<lparr>dm_searching := True\<rparr>) = Inr (m2, o2)"
      and m': "m' = m2\<lparr>dm_notifier := startListening (dm_notifier m2)\<rparr>"
      by (auto simp: dm_startDiscovery_def andThen_Inr_iff)
    from dm_startProviders_runs [OF this(1)] show ?thesis by (simp add: dm_runsIffSearching_def m')
  qed
next
  case CtlStop
  with assms show ?thesis
    by (cases "dm_searching m")
       (auto simp: dm_stopDiscovery_def andThen_Inr_iff dm_runsIffSearching_def dest: dm_stopProviders_runs)
next
  case CtlPause
  with assms show ?thesis
    by (auto simp: dm_pauseDiscovery_def dm_runsIffSearching_def stopSSIDTimer_def Let_def
        dest: dm_stopProviders_runs split: if_splits)
next
  case (CtlResume now)
  with assms show ?thesis
    by (auto simp: dm_resumeDiscovery_def dm_runsIffSearching_def startSSIDTimer_def Let_def
        dest: dm_startProviders_runs split: if_splits)
qed

definition sample_env :: dmEnv where
  "sample_env = \<lparr>env_classes = (\<lambda>_. DeviceService_class), env_isService = (\<lambda>_. True),
     env_discoveryParameters = (\<lambda>_. Some sample_ssdpFilter),
     env_defaultPlatforms = [(''DIALService'', ''SSDPDiscoveryProvider'')], env_platform = sample_platform,
     env_self = 0\<rparr>"

theorem dm_control_keeps_providers_in_step_witness:
  "\<exists>m' out. dm_control sample_env CtlPause ((dm_init sample_world)\<lparr>dm_searching := True,
      dm_providers := [ZeroConf (fst (zc_startDiscovery zc_new))]\<rparr>) = Inr (m', out)
    \<and> dm_runsIffSearching m' \<and> \<not> dm_searching m'"
proof -
  let ?m = "(dm_init sample_world)\<lparr>dm_searching := True, dm_providers := [ZeroConf (fst (zc_startDiscovery zc_new))]\<rparr>"
  have i: "dm_runsIffSearching ?m"
    using zeroconf_provider.start_runs [of zc_new] by (simp add: dm_runsIffSearching_def providersRun_def)
  obtain m' out where c: "dm_control sample_env CtlPause ?m = Inr (m', out)" and s: "\<not> dm_searching m'"
    by (simp add: dm_pauseDiscovery_def stopSSIDTimer_def dm_stopProviders_def case_prod_beta)
  from dm_control_keeps_providers_in_step [OF i c] c s show ?thesis by blast
qed

text \<open>
  A stop that comes while discovery is paused is ignored: when the application was searching, went to
  the background, was told to stop there and comes back, it is searching again and its providers run.
\<close>
theorem dm_stop_while_paused_is_ignored:
  assumes "dm_searching m"
  shows "\<exists>m' out. andThen dm_pauseDiscovery (andThen dm_stopDiscovery (dm_resumeDiscovery env now)) m = Inr (m', out)
    \<and> dm_searching m' \<and> dm_runsIffSearching m'"
proof -
  obtain m1 o1 where p: "dm_pauseDiscovery m = Inr (m1, o1)" "\<not> dm_searching m1" "dm_shouldResumeSearch m1"
    using assms by (simp add: dm_pauseDiscovery_def stopSSIDTimer_def dm_stopProviders_def case_prod_beta)
  have st: "dm_stopDiscovery m1 = Inr (m1, [])" using p(2) by (simp add: dm_stopDiscovery_def)
  obtain ps out where ps: "startProviders env now (dm_providers m1) = Inr (ps, out)" "providersRun True ps"
    using startProviders_run by blast
  then have "\<exists>m' out. dm_resumeDiscovery env now m1 = Inr (m', out) \<and> dm_searching m' \<and> dm_runsIffSearching m'"
    using p(3) by (simp add: dm_resumeDiscovery_def startSSIDTimer_def dm_startProviders_def dm_runsIffSearching_def)
  with p(1) st show ?thesis by (auto simp: andThen_Inr_iff)
qed

theorem dm_stop_while_paused_is_ignored_witness:
  "\<exists>m' out. andThen dm_pauseDiscovery (andThen dm_stopDiscovery (dm_resumeDiscovery sample_env 5))
      ((dm_init sample_world)\<lparr>dm_searching := True\<rparr>) = Inr (m', out) \<and> dm_searching m'"
  using dm_stop_while_paused_is_ignored [of "(dm_init sample_world)\<lparr>dm_searching := True\<rparr>" sample_env 5]
  by auto

section \<open>Properties of registration\<close>

lemma findIndex_None_iff: "findIndex P i xs = None \<longleftrightarrow> \<not> (\<exists>x\<in>set xs. P x)"
  by (induction xs arbitrary: i) auto

lemma findIndex_Some: "findIndex P i xs = Some j \<Longrightarrow> i \<le> j \<and> j < i + length xs \<and> P (xs ! (j - i))"
proof (induction xs arbitrary: i)
  case (Cons x xs)
  show ?case
  proof (cases "P x")
    case True
    with Cons.prems show ?thesis by simp
  next
    case False
    then have "findIndex P (Suc i) xs = Some j" using Cons.prems by simp
    from Cons.IH [OF this] have "Suc i \<le> j \<and> j < Suc i + length xs \<and> P (xs ! (j - Suc i))" .
    moreover from this have "j - i = Suc (j - Suc i)" by arith
    ultimately show ?thesis by simp
  qed
qed simp

lemma prov_new_class:
  "prov_isSubclass d ''DiscoveryProvider'' \<Longrightarrow> prov_class (prov_new d) = d"
  by (auto simp: prov_isSubclass_def prov_new_def)

lemma prov_class_keeps:
  "prov_addDeviceFilter f p = Inr p' \<Longrightarrow> prov_class p' = prov_class p"
  "prov_class (prov_setDelegate p) = prov_class p"
  by (cases p; auto simp: rbind_Inr_iff)+

text \<open>
  Once a service is registered with a provider class, unregistering it with the same classes raises:
  a registration cannot be undone.
\<close>
theorem dm_unregister_raises:
  assumes "registerDeviceService env c d m = Inr (m', out)" "prov_isSubclass d ''DiscoveryProvider''"
    "env_isService env c"
  shows "unregisterDeviceService env c d m' = Inl NSInvalidArgumentException"
proof -
  let ?P = "\<lambda>p. prov_isSubclass (prov_class p) d"
  define existing where "existing = findIndex ?P 0 (dm_providers m)"
  define ps where "ps = (case existing of Some i \<Rightarrow> dm_providers m | None \<Rightarrow> dm_providers m @ [prov_setDelegate (prov_new d)])"
  define i where "i = (case existing of Some i \<Rightarrow> i | None \<Rightarrow> length (dm_providers m))"
  have i: "i < length ps \<and> ?P (ps ! i)"
  proof (cases existing)
    case None
    then show ?thesis by (simp add: i_def ps_def prov_class_keeps prov_new_class [OF assms(2)] prov_isSubclass_def)
  next
    case (Some j)
    then show ?thesis using findIndex_Some [of ?P 0 "dm_providers m" j] by (simp add: i_def ps_def existing_def)
  qed
  obtain f p where p: "prov_addDeviceFilter f (ps ! i) = Inr p" and m': "dm_providers m' = ps[i := p]"
    using assms
    by (auto simp: registerDeviceService_def registerWithFactory_def prov_new_class [OF assms(2)] Let_def
        rbind_Inr_iff existing_def [symmetric] ps_def [symmetric] i_def [symmetric])
  have "?P p" using i prov_class_keeps(1) [OF p] by simp
  moreover have "p \<in> set (dm_providers m')" using i m' by (simp add: set_update_memI)
  ultimately have "findIndex ?P 0 (dm_providers m') \<noteq> None" by (auto simp: findIndex_None_iff)
  with assms(2,3) show ?thesis by (auto simp: unregisterDeviceService_def)
qed

theorem dm_unregister_raises_witness:
  "\<exists>m' out. registerDeviceService sample_env ''DIALService'' ''SSDPDiscoveryProvider'' (dm_init sample_world) = Inr (m', out)
    \<and> unregisterDeviceService sample_env ''DIALService'' ''SSDPDiscoveryProvider'' m' = Inl NSInvalidArgumentException"
proof -
  have c: "prov_isSubclass ''SSDPDiscoveryProvider'' ''DiscoveryProvider''" "env_isService sample_env ''DIALService''"
    by (simp_all add: prov_isSubclass_def sample_env_def)
  obtain m' out where r: "registerDeviceService sample_env ''DIALService'' ''SSDPDiscoveryProvider'' (dm_init sample_world)
      = Inr (m', out)"
    using c by (simp add: registerDeviceService_def registerWithFactory_def sample_env_def dm_init_def startSSIDTimer_def
        Let_def prov_new_def sample_filter_facts setObjectN_def ssdp_addDeviceFilter_def)
  from dm_unregister_raises [OF r c] r show ?thesis by blast
qed

section \<open>Properties of network changes\<close>

text \<open>
  When the wireless network changes to one with another name, ignoring case, the manager forgets all
  devices and posts the change; a name that differs only in case changes nothing.
\<close>
theorem dm_ssid_change_purges:
  assumes "dm_currentSSID m = Some old" "detectSSIDChange env nilDiffers now (Some new) m = Inr (m', out)"
  shows "if lowercaseString new = lowercaseString old then m' = m \<and> out = []
    else dm_all m' = [] \<and> dm_compatible m' = [] \<and> dm_currentSSID m' = Some new \<and> PostSSIDChanged \<in> set out"
  using assms
  by (auto simp: detectSSIDChange_def purgeDeviceList_def andThen_Inr_iff)

theorem dm_ssid_change_purges_witness:
  "\<exists>m' out. detectSSIDChange sample_env (\<lambda>_. True) 3 (Some ''Office'')
      ((dm_init sample_world)\<lparr>dm_currentSSID := Some ''Home'', dm_all := [(''10.0.0.5'', 0)]\<rparr>) = Inr (m', out)
    \<and> dm_all m' = []"
proof -
  let ?m = "(dm_init sample_world)\<lparr>dm_currentSSID := Some ''Home'', dm_all := [(''10.0.0.5'', 0)]\<rparr>"
  have ne: "lowercaseString ''Office'' \<noteq> lowercaseString ''Home''" by (simp add: lowercaseString_def)
  have s: "dm_currentSSID ?m = Some ''Home''" by simp
  obtain m' out where d: "detectSSIDChange sample_env (\<lambda>_. True) 3 (Some ''Office'') ?m = Inr (m', out)"
    using ne by (simp add: detectSSIDChange_def purgeDeviceList_def andThen_def dm_init_def startSSIDTimer_def
        allValues_def noOp_def dm_stopProviders_def stopProviders_def dm_startProviders_def)
  from dm_ssid_change_purges [OF s d] ne d show ?thesis by auto
qed

section \<open>The invariant of the device lists\<close>

text \<open>
  Compatible devices are known devices; a device is known under its own address, has services, and
  shares its consolidated description with no other known device.
\<close>

definition dm_inv :: "DiscoveryManager \<Rightarrow> bool" where
  "dm_inv m \<longleftrightarrow> dict_wf (dm_all m) \<and> dict_wf (dm_compatible m)
     \<and> (\<forall>k r. objectForKey (dm_compatible m) k = Some r \<longrightarrow> objectForKey (dm_all m) k = Some r)
     \<and> (\<forall>k r. objectForKey (dm_all m) k = Some r \<longrightarrow> dm_addressOf m r = Some k
           \<and> cd_services (dm_device m r) \<noteq> [] \<and> r < w_next (dm_world m))
     \<and> (\<forall>k l r s. objectForKey (dm_all m) k = Some r \<longrightarrow> objectForKey (dm_all m) l = Some s \<longrightarrow> r \<noteq> s \<longrightarrow>
           cd_description (dm_device m r) \<noteq> cd_description (dm_device m s))"

text \<open>A tell leaves the state as it is.\<close>

lemma tell_state:
  "dm_tell sel e m = Inr (m', out) \<Longrightarrow> m' = m" "dm_tellPicker e m = Inr (m', out) \<Longrightarrow> m' = m"
  by (auto simp: dm_tell_def dm_tellPicker_def split: option.splits if_splits)

lemma forEach_tell_state: "forEach (\<lambda>r. dm_tell sel (f r)) rs m = Inr (m', out) \<Longrightarrow> m' = m"
  by (induction rs arbitrary: m out) (auto simp: noOp_def andThen_Inr_iff dest: tell_state)

lemma compat_irrelevant [simp]:
  "deviceIsCompatible r (m\<lparr>dm_compatible := c\<rparr>) = deviceIsCompatible r m"
  "dm_addressOf (m\<lparr>dm_compatible := c\<rparr>) r = dm_addressOf m r"
  "dm_device (m\<lparr>dm_compatible := c\<rparr>) r = dm_device m r"
  by (simp_all add: deviceIsCompatible_def dm_addressOf_def dm_device_def dm_heap_def)

definition rebuildStep :: "nat \<Rightarrow> dmOp" where
  "rebuildStep r m = (if deviceIsCompatible r m
     then andThen (dm_setCompatible r) (dm_tell DmSelFind (DmFound r)) m else Inr (m, []))"

lemma rebuildStep_state:
  assumes "rebuildStep r m = Inr (m', out)"
  shows "if deviceIsCompatible r m
    then \<exists>k. dm_addressOf m r = Some k \<and> m' = m\<lparr>dm_compatible := setObject r k (dm_compatible m)\<rparr> else m' = m"
  using assms
  by (auto simp: rebuildStep_def andThen_Inr_iff dm_setCompatible_def setObjectN_def rbind_Inr_iff
      dest!: tell_state split: option.splits if_splits)

definition hits :: "DiscoveryManager \<Rightarrow> string \<Rightarrow> nat \<Rightarrow> bool" where
  "hits m k r \<longleftrightarrow> deviceIsCompatible r m \<and> dm_addressOf m r = Some k"

lemma hits_compat [simp]: "hits (m\<lparr>dm_compatible := c\<rparr>) k r = hits m k r"
  by (simp add: hits_def)

lemma rebuild_state:
  assumes "forEach rebuildStep rs m = Inr (m', out)"
  shows "\<exists>c. m' = m\<lparr>dm_compatible := c\<rparr> \<and> (dict_wf (dm_compatible m) \<longrightarrow> dict_wf c)
    \<and> (\<forall>k. (\<exists>x\<in>set rs. hits m k x) \<longrightarrow> (\<exists>x\<in>set rs. hits m k x \<and> objectForKey c k = Some x))
    \<and> (\<forall>k. \<not> (\<exists>x\<in>set rs. hits m k x) \<longrightarrow> objectForKey c k = objectForKey (dm_compatible m) k)"
  using assms
proof (induction rs arbitrary: m out)
  case Nil
  then show ?case by (intro exI [of _ "dm_compatible m"]) (simp add: noOp_def)
next
  case (Cons r rs)
  obtain m1 o1 o2 where s: "rebuildStep r m = Inr (m1, o1)" and f: "forEach rebuildStep rs m1 = Inr (m', o2)"
    using Cons.prems by (auto simp: andThen_Inr_iff)
  obtain c where c: "m' = m1\<lparr>dm_compatible := c\<rparr>" "dict_wf (dm_compatible m1) \<longrightarrow> dict_wf c"
    "\<And>k. (\<exists>x\<in>set rs. hits m1 k x) \<Longrightarrow> \<exists>x\<in>set rs. hits m1 k x \<and> objectForKey c k = Some x"
    "\<And>k. \<not> (\<exists>x\<in>set rs. hits m1 k x) \<Longrightarrow> objectForKey c k = objectForKey (dm_compatible m1) k"
    using Cons.IH [OF f] by blast
  show ?case
  proof (cases "deviceIsCompatible r m")
    case False
    with rebuildStep_state [OF s] have [simp]: "m1 = m" by simp
    have "\<not> hits m k r" for k using False by (simp add: hits_def)
    then show ?thesis using c by (intro exI [of _ c]) auto
  next
    case True
    with rebuildStep_state [OF s] obtain l where l: "dm_addressOf m r = Some l"
      and m1: "m1 = m\<lparr>dm_compatible := setObject r l (dm_compatible m)\<rparr>" by auto
    have hit: "hits m k r \<longleftrightarrow> k = l" for k using True l by (auto simp: hits_def)
    show ?thesis
    proof (intro exI [of _ c] conjI allI)
      show "m' = m\<lparr>dm_compatible := c\<rparr>" by (simp add: c(1) m1)
      show "dict_wf (dm_compatible m) \<longrightarrow> dict_wf c" using c(2) by (auto simp: m1)
      fix k
      note c' = c(3,4) [of k, unfolded m1 hits_compat]
      show "(\<exists>x\<in>set (r # rs). hits m k x) \<longrightarrow> (\<exists>x\<in>set (r # rs). hits m k x \<and> objectForKey c k = Some x)"
        using c' hit [of k] by (cases "\<exists>x\<in>set rs. hits m k x") auto
      show "\<not> (\<exists>x\<in>set (r # rs). hits m k x) \<longrightarrow> objectForKey c k = objectForKey (dm_compatible m) k"
        using c' hit [of k] by auto
    qed
  qed
qed

lemma filters_exact:
  assumes "dm_inv m" "setCapabilityFilters filters m = Inr (m', out)"
  shows "objectForKey (dm_compatible m') k =
      (case objectForKey (dm_all m) k of
         None \<Rightarrow> None | Some r \<Rightarrow> if deviceIsCompatible r m' then Some r else None)
    \<and> dm_all m' = dm_all m \<and> dm_capabilityFilters m' = filters"
proof -
  let ?m0 = "m\<lparr>dm_capabilityFilters := filters\<rparr>"
  have step: "(\<lambda>r m. if deviceIsCompatible r m
      then andThen (dm_setCompatible r) (dm_tell DmSelFind (DmFound r)) m else Inr (m, [])) = rebuildStep"
    by (intro ext) (simp add: rebuildStep_def)
  obtain m1 o1 o2 where t: "forEach (\<lambda>r. dm_tell DmSelLose (DmLost r)) (allValues (dm_compatible m)) ?m0 = Inr (m1, o1)"
    and r: "forEach rebuildStep (allValues (dm_all m1)) (m1\<lparr>dm_compatible := []\<rparr>) = Inr (m', o2)"
    using assms(2) unfolding setCapabilityFilters_def andThen_Inr_iff step by blast
  have m1: "m1 = ?m0" using t by (rule forEach_tell_state)
  obtain c where m': "m' = ?m0\<lparr>dm_compatible := c\<rparr>"
    and c: "\<And>k. (\<exists>x\<in>set (allValues (dm_all m)). hits ?m0 k x) \<Longrightarrow>
          \<exists>x\<in>set (allValues (dm_all m)). hits ?m0 k x \<and> objectForKey c k = Some x"
      "\<And>k. \<not> (\<exists>x\<in>set (allValues (dm_all m)). hits ?m0 k x) \<Longrightarrow> objectForKey c k = None"
    using rebuild_state [OF r] unfolding m1 hits_compat by auto
  have comp: "deviceIsCompatible r m' = deviceIsCompatible r ?m0" for r by (simp add: m')
  have addr: "dm_addressOf ?m0 r = dm_addressOf m r" for r by (simp add: dm_addressOf_def dm_heap_def dm_device_def)
  have wf: "dict_wf (dm_all m)" using assms(1) by (simp add: dm_inv_def)
  have known: "objectForKey (dm_all m) j = Some r \<Longrightarrow> dm_addressOf m r = Some j" for j r
    using assms(1) by (simp add: dm_inv_def)
  have hit: "hits ?m0 k x \<and> x \<in> set (allValues (dm_all m)) \<longleftrightarrow> objectForKey (dm_all m) k = Some x \<and> deviceIsCompatible x ?m0" for x
    using known by (auto simp: hits_def addr allValues_iff [OF wf])
  have "objectForKey c k = (case objectForKey (dm_all m) k of
         None \<Rightarrow> None | Some r \<Rightarrow> if deviceIsCompatible r ?m0 then Some r else None)"
  proof (cases "\<exists>x. objectForKey (dm_all m) k = Some x \<and> deviceIsCompatible x ?m0")
    case True
    then obtain x where x: "objectForKey (dm_all m) k = Some x" "deviceIsCompatible x ?m0" by blast
    then have "\<exists>y\<in>set (allValues (dm_all m)). hits ?m0 k y" using hit [of x] by blast
    then obtain y where "y \<in> set (allValues (dm_all m))" "hits ?m0 k y" "objectForKey c k = Some y"
      using c(1) [of k] by blast
    then show ?thesis using hit [of y] x by simp
  next
    case False
    then show ?thesis using c(2) [of k] hit by (auto split: option.splits)
  qed
  then show ?thesis unfolding comp by (simp add: m')
qed


text \<open>A manager that knows one device, at 10.0.0.5, with the web app launcher capabilities.\<close>

definition sample_manager :: DiscoveryManager where
  "sample_manager = (dm_init (sample_world\<lparr>w_sd := (\<lambda>_. sd_new)(0 := sd_new\<lparr>sd_address := Some ''10.0.0.5''\<rparr>)\<rparr>))
     \<lparr>dm_all := [(''10.0.0.5'', 7)], dm_delegate := Some [DmSelFind, DmSelLose, DmSelUpdate]\<rparr>"

lemma sample_manager_device:
  "dm_device sample_manager r = (fst (cd_init 0 (\<lambda>_. sd_new)))\<lparr>cd_id := Some ''i'', cd_lastConnected := 5,
        cd_services := [(''DLNA'', sample_service\<lparr>svc_config := Some (cfg_alloc ServiceConfigClass)\<rparr>)]\<rparr>"
  by (simp add: sample_manager_def dm_init_def startSSIDTimer_def dm_device_def sample_world_def)

lemma sample_manager_address: "dm_addressOf sample_manager r = Some ''10.0.0.5''"
  by (simp add: dm_addressOf_def sample_manager_device cd_address_def cd_get_def cd_init_def dm_heap_def)
     (simp add: sample_manager_def dm_init_def startSSIDTimer_def)

lemma sample_manager_inv: "dm_inv sample_manager"
proof -
  have all: "objectForKey (dm_all sample_manager) k = Some r \<longleftrightarrow> k = ''10.0.0.5'' \<and> r = 7" for k r
    by (auto simp: sample_manager_def objectForKey_Cons)
  have "w_next (dm_world sample_manager) = 10"
    by (simp add: sample_manager_def dm_init_def startSSIDTimer_def sample_world_def)
  moreover have "dict_wf (dm_all sample_manager)" "dm_compatible sample_manager = []"
    by (simp_all add: sample_manager_def dm_init_def startSSIDTimer_def dict_wf_def)
  ultimately show ?thesis
    by (simp add: dm_inv_def all sample_manager_address sample_manager_device)
qed


section \<open>Properties of device updates\<close>

text \<open>
  An update of a device that does not meet the filters tells the delegate that the device is lost
  even when it never was in the list of compatible devices, so losses are reported for devices that
  were never found.
\<close>
theorem dm_update_reports_loss_of_unannounced:
  assumes "dm_store m = None" "dm_delegate m = Some sels" "DmSelLose \<in> set sels"
    "\<not> deviceIsCompatible r m" "dm_addressOf m r = Some a" "objectForKey (dm_compatible m) a = None"
  shows "\<exists>out. handleDeviceUpdate t1 t2 r m = Inr (m, DmLost r # out)"
proof -
  have "removeObjectForKey a (dm_compatible m) = dm_compatible m"
    using assms(6) by (rule removeObjectForKey_absent)
  then show ?thesis
    using assms
    by (simp add: handleDeviceUpdate_def andThen_def dm_storeUpdate_def dm_removeCompatible_def
        removeObjectForKeyN_def handleDeviceLoss_def dm_tell_def dm_tellPicker_def)
qed

theorem dm_update_reports_loss_of_unannounced_witness:
  "\<exists>m out. dm_compatible m = [] \<and> handleDeviceUpdate 1 2 7 m = Inr (m, DmLost 7 # out)"
proof -
  let ?m = "sample_manager\<lparr>dm_capabilityFilters := [[''Launcher.App'']]\<rparr>"
  have dev: "dm_device ?m 7 = dm_device sample_manager 7" by (simp add: dm_device_def)
  have 1: "dm_store ?m = None" "dm_delegate ?m = Some [DmSelFind, DmSelLose, DmSelUpdate]"
    "DmSelLose \<in> set [DmSelFind, DmSelLose, DmSelUpdate]" "dm_compatible ?m = []"
    by (simp_all add: sample_manager_def dm_init_def startSSIDTimer_def)
  have 2: "\<not> deviceIsCompatible 7 ?m"
    by (simp add: deviceIsCompatible_def dev sample_manager_device cd_hasCapabilities_def cd_hasCapability_def
        allValues_def svc_hasCapability_def sample_service_def svc_initWithServiceConfig_def DeviceService_class_def
        caps_hasCapability_def split: option.splits)
  have 3: "dm_addressOf ?m 7 = Some ''10.0.0.5''"
    using sample_manager_address [of 7] by (simp add: dm_addressOf_def dm_heap_def dm_device_def)
  have 4: "objectForKey (dm_compatible ?m) ''10.0.0.5'' = None" using 1(4) by simp
  from dm_update_reports_loss_of_unannounced [OF 1(1-3) 2 3 4, of 1 2] 1(4) show ?thesis by blast
qed

end
