(* ===== verification/DeviceLists.thy ===== *)
theory DeviceLists
  imports DiscoveryManager
begin

text \<open>
  The device lists of the discovery manager over whole runs: what every report of a provider, change
  of the filters, capability change, network change and control operation keeps of the lists of known
  and of compatible devices. The manager runs without a device store here.
\<close>

section \<open>The contract of service classes\<close>

text \<open>
  A service class may complete a description when it is stored in a service (the port, the command
  URL), but keeps its address, and keeps the description it was given.
\<close>

locale described_classes =
  fixes ct :: classTable
  assumes describe_address: "sd_address (fst (cls_describe (ct c) sd s)) = sd_address sd"
    and describe_description: "svc_description (snd (cls_describe (ct c) sd s)) = svc_description s"
begin

lemma setServiceDescription_keeps:
  assumes "svc_setServiceDescription ct q heap s = (s', heap')"
  shows "sd_address (heap' x) = sd_address (heap x)" "svc_description s' = Some q"
    "x \<noteq> q \<Longrightarrow> heap' x = heap x"
  using assms describe_address [of "svc_class s" "heap q" "s\<lparr>svc_description := Some q\<rparr>"]
    describe_description [of "svc_class s" "heap q" "s\<lparr>svc_description := Some q\<rparr>"]
  by (auto simp: svc_setServiceDescription_def split: prod.splits)

end

interpretation base_described: described_classes "\<lambda>_. DeviceService_class"
  by unfold_locales (simp_all add: DeviceService_class_def)

section \<open>Frames\<close>

text \<open>What an operation on the device \<open>r\<close> with the description \<open>q\<close> may change.\<close>

definition touches :: "nat \<Rightarrow> nat \<Rightarrow> DiscoveryManager \<Rightarrow> DiscoveryManager \<Rightarrow> bool" where
  "touches r q m m' \<longleftrightarrow>
     dm_all m' = dm_all m \<and> dm_compatible m' = dm_compatible m \<and> dm_store m' = dm_store m
     \<and> w_next (dm_world m') = w_next (dm_world m)
     \<and> (\<forall>s. s \<noteq> r \<longrightarrow> dm_device m' s = dm_device m s)
     \<and> (\<forall>x. x \<noteq> q \<longrightarrow> cd_description (dm_device m r) \<noteq> Some x \<longrightarrow> dm_heap m' x = dm_heap m x)
     \<and> (cd_description (dm_device m' r) = cd_description (dm_device m r) \<or> cd_description (dm_device m' r) = Some q)
     \<and> dm_addressOf m' r = dm_addressOf m r"

definition dm_lists :: "DiscoveryManager \<Rightarrow> bool" where
  "dm_lists m \<longleftrightarrow> dict_wf (dm_all m) \<and> dict_wf (dm_compatible m)
     \<and> (\<forall>k r. objectForKey (dm_compatible m) k = Some r \<longrightarrow> objectForKey (dm_all m) k = Some r)
     \<and> (\<forall>k r. objectForKey (dm_all m) k = Some r \<longrightarrow> dm_addressOf m r = Some k \<and> r < w_next (dm_world m)
          \<and> (\<forall>x. cd_description (dm_device m r) = Some x \<longrightarrow> x < w_next (dm_world m)))
     \<and> (\<forall>k l r s. objectForKey (dm_all m) k = Some r \<longrightarrow> objectForKey (dm_all m) l = Some s \<longrightarrow> r \<noteq> s \<longrightarrow>
           cd_description (dm_device m r) \<noteq> cd_description (dm_device m s))"

definition dm_served :: "DiscoveryManager \<Rightarrow> bool" where
  "dm_served m \<longleftrightarrow> (\<forall>k r. objectForKey (dm_all m) k = Some r \<longrightarrow> cd_services (dm_device m r) \<noteq> [])"

lemma dm_inv_lists: "dm_lists m \<Longrightarrow> dm_served m \<Longrightarrow> dm_inv m"
  by (auto simp: dm_inv_def dm_lists_def dm_served_def)

text \<open>No known device but \<open>r\<close> has \<open>q\<close> for its consolidated description.\<close>

definition unshared :: "nat \<Rightarrow> nat \<Rightarrow> DiscoveryManager \<Rightarrow> bool" where
  "unshared q r m \<longleftrightarrow> q < w_next (dm_world m) \<and>
     (\<forall>k s. objectForKey (dm_all m) k = Some s \<longrightarrow> s \<noteq> r \<longrightarrow> cd_description (dm_device m s) \<noteq> Some q)"

lemma touches_lists:
  assumes lists: "dm_lists m" and known: "objectForKey (dm_all m) k = Some r" and "unshared q r m" and t: "touches r q m m'"
  shows "dm_lists m'"
proof -
  have addr: "dm_addressOf m' s = dm_addressOf m s" if "objectForKey (dm_all m) l = Some s" for l s
  proof (cases "s = r")
    case True
    with t show ?thesis by (simp add: touches_def)
  next
    case False
    then have d: "dm_device m' s = dm_device m s" using t by (simp add: touches_def)
    have "cd_description (dm_device m s) \<noteq> Some q" "cd_description (dm_device m s) \<noteq> cd_description (dm_device m r)"
      using that False assms by (auto simp: dm_lists_def unshared_def)
    then have "cd_description (dm_device m s) = Some x \<Longrightarrow> dm_heap m' x = dm_heap m x" for x
      using t by (auto simp: touches_def)
    then show ?thesis by (cases "cd_description (dm_device m s)") (simp_all add: dm_addressOf_def cd_address_def cd_get_def d)
  qed
  have desc: "cd_description (dm_device m' s) \<noteq> cd_description (dm_device m' s')"
    if "objectForKey (dm_all m) l = Some s" "objectForKey (dm_all m) l' = Some s'" "s \<noteq> s'" for l l' s s'
  proof -
    have dist: "cd_description (dm_device m s) \<noteq> cd_description (dm_device m s')"
      using that lists unfolding dm_lists_def by blast
    have "cd_description (dm_device m s) \<noteq> Some q" if "s \<noteq> r"
      using \<open>objectForKey (dm_all m) l = Some s\<close> that assms(3) by (auto simp: unshared_def)
    moreover have "cd_description (dm_device m s') \<noteq> Some q" if "s' \<noteq> r"
      using \<open>objectForKey (dm_all m) l' = Some s'\<close> that assms(3) by (auto simp: unshared_def)
    moreover have "\<And>u. u \<noteq> r \<Longrightarrow> dm_device m' u = dm_device m u"
      "cd_description (dm_device m' r) = cd_description (dm_device m r) \<or> cd_description (dm_device m' r) = Some q"
      using t by (simp_all add: touches_def)
    ultimately show ?thesis using dist that(3) by (cases "s = r"; cases "s' = r") fastforce+
  qed
  have bound: "x < w_next (dm_world m)" if "objectForKey (dm_all m) l = Some s" "cd_description (dm_device m' s) = Some x" for l s x
  proof (cases "s = r")
    case False
    then have "dm_device m' s = dm_device m s" using t by (simp add: touches_def)
    then show ?thesis using that lists by (auto simp: dm_lists_def)
  next
    case True
    have "q < w_next (dm_world m)" using assms(3) by (simp add: unshared_def)
    moreover have "cd_description (dm_device m r) = Some x \<Longrightarrow> x < w_next (dm_world m)"
      using lists known by (auto simp: dm_lists_def)
    ultimately show ?thesis using that(2) t True by (auto simp: touches_def)
  qed
  have same: "dm_all m' = dm_all m" "dm_compatible m' = dm_compatible m" "w_next (dm_world m') = w_next (dm_world m)"
    using t by (simp_all add: touches_def)
  have "dict_wf (dm_all m)" "dict_wf (dm_compatible m)"
    "\<And>l s. objectForKey (dm_compatible m) l = Some s \<Longrightarrow> objectForKey (dm_all m) l = Some s"
    "\<And>l s. objectForKey (dm_all m) l = Some s \<Longrightarrow> dm_addressOf m s = Some l \<and> s < w_next (dm_world m)"
    using lists by (simp_all add: dm_lists_def)
  with addr desc bound show ?thesis unfolding dm_lists_def same by (auto simp: addr)
qed

section \<open>Operations on one device\<close>

lemma setDevice_simps [simp]:
  "dm_device (dm_setDevice r d heap m) s = (if s = r then d else dm_device m s)"
  "dm_heap (dm_setDevice r d heap m) = heap" "dm_all (dm_setDevice r d heap m) = dm_all m"
  "dm_compatible (dm_setDevice r d heap m) = dm_compatible m" "dm_store (dm_setDevice r d heap m) = dm_store m"
  "w_next (dm_world (dm_setDevice r d heap m)) = w_next (dm_world m)"
  "dm_addressOf (dm_setDevice r d heap m) s = cd_address heap (if s = r then d else dm_device m s)"
  by (auto simp: dm_setDevice_def dm_device_def dm_heap_def dm_addressOf_def)

lemma touches_refl: "touches r q m m"
  by (simp add: touches_def)

lemma touches_trans: "touches r q m m1 \<Longrightarrow> touches r q m1 m2 \<Longrightarrow> touches r q m m2"
  by (auto simp: touches_def)

lemma removeServiceWithId_description [simp]:
  "cd_description (fst (removeServiceWithId ct heap sid d)) = cd_description d"
  by (simp add: removeServiceWithId_def Let_def split: option.splits)

lemma remove_touches:
  "dm_removeService env sid r m = Inr (m', out) \<Longrightarrow> touches r q m m'"
  by (auto simp: dm_removeService_def touches_def dm_addressOf_def cd_address_def cd_get_def case_prod_beta)

lemma setObject_not_Nil [simp]: "setObject v k d \<noteq> []"
  by (cases d) (auto simp: setObject_def)

lemma addService_effect:
  assumes "cd_addService ct heap (Some s) d = Inr (d', heap', out)"
  shows "cd_description d' = cd_description d \<and> cd_services d' \<noteq> []
    \<and> (heap' = heap \<or> heap' = updateConsolidatedServiceDescription (svc_description s) heap d')"
proof -
  have st: "cd_description d' = cd_description d1 \<and> cd_services d' \<noteq> []
      \<and> heap' = updateConsolidatedServiceDescription (svc_description s) heap d'"
    if "storeService ct heap oc s n d1 = (d', heap', out1)" for oc n d1 out1
    using that by (auto simp: storeService_def Let_def split: if_splits)
  have rp: "cd_description (fst (replaceService ct heap n e d)) = cd_description d" for n e
    by (simp add: replaceService_def Let_def split_beta)
  obtain n where n: "serviceName heap s = Some n"
    using assms by (auto simp: cd_addService_def split: option.splits)
  show ?thesis
  proof (cases "objectForKey (cd_services d) n")
    case None
    with assms n st show ?thesis by (auto simp: cd_addService_def Let_def)
  next
    case (Some e)
    then have "cd_services d \<noteq> []" by auto
    with assms n Some st rp [of n e] show ?thesis
      by (auto simp: cd_addService_def Let_def split: if_splits prod.splits)
  qed
qed

lemma updateConsolidated_effect:
  assumes "heap' = updateConsolidatedServiceDescription (Some q) heap d" "sd_address (heap q) = Some k"
    "cd_description d = Some c"
  shows "sd_address (heap' c) = Some k" "x \<noteq> c \<Longrightarrow> heap' x = heap x"
  using assms by (auto simp: updateConsolidatedServiceDescription_def Let_def split: option.splits)

context described_classes
begin

lemma refresh_touches:
  assumes "env_classes env = ct" "dm_refreshService env q r m = Inr (m', out)"
    "dm_addressOf m r = Some k" "sd_address (dm_heap m q) = Some k"
  shows "touches r q m m' \<and> (cd_services (dm_device m r) \<noteq> [] \<longrightarrow> cd_services (dm_device m' r) \<noteq> [])"
proof (cases "serviceWithName ((dm_device m r)\<lparr>cd_description := Some q\<rparr>) (sd_serviceId (dm_heap m q))")
  case None
  with assms show ?thesis
    by (auto simp: dm_refreshService_def Let_def touches_def cd_address_def cd_get_def)
next
  case (Some s)
  obtain s' heap where sd: "svc_setServiceDescription ct q (dm_heap m) s = (s', heap)" by fastforce
  from setServiceDescription_keeps [OF sd] have h: "\<And>x. sd_address (heap x) = sd_address (dm_heap m x)"
    "\<And>x. x \<noteq> q \<Longrightarrow> heap x = dm_heap m x" by blast+
  with assms Some sd show ?thesis
    by (auto simp: dm_refreshService_def Let_def touches_def cd_address_def cd_get_def)
qed

lemma add_touches:
  assumes "env_classes env = ct" "dm_addNewService env cls config q r m = Inr (m', out)"
    "dm_addressOf m r = Some k" "sd_address (dm_heap m q) = Some k"
  shows "touches r q m m' \<and> cd_services (dm_device m' r) \<noteq> []"
proof -
  obtain s0 where s0: "deviceServiceWithClass (map_option ct cls) (Some config) = Some s0"
    using assms(1,2) by (auto simp: dm_addNewService_def cd_addService_def split: option.splits prod.splits)
  obtain s heap where sd: "svc_setServiceDescription ct q (dm_heap m) s0 = (s, heap)" by fastforce
  obtain d heap' o' where add: "cd_addService ct heap (Some s) (dm_device m r) = Inr (d, heap', o')"
    and m': "m' = dm_setDevice r d heap' m"
    using assms(1,2) s0 sd by (auto simp: dm_addNewService_def rbind_Inr_iff)
  note h = setServiceDescription_keeps [OF sd]
  note e = addService_effect [OF add]
  obtain c where c: "cd_description (dm_device m r) = Some c" "sd_address (dm_heap m c) = Some k"
    using assms(3) by (auto simp: dm_addressOf_def cd_address_def cd_get_def bind_eq_Some_conv)
  have "sd_address (heap' c) = Some k \<and> (\<forall>x. x \<noteq> q \<longrightarrow> x \<noteq> c \<longrightarrow> heap' x = dm_heap m x)"
    using e updateConsolidated_effect [of heap' q heap d k c] h c assms(4) by auto
  with e c m' assms(3) show ?thesis
    by (auto simp: touches_def cd_address_def cd_get_def)
qed

lemma addServiceDescription_touches:
  assumes env: "env_classes env = ct" and add: "addServiceDescription env now q r m = Inr (m', out)"
    and a: "dm_addressOf m r = Some k" "sd_address (dm_heap m q) = Some k"
  shows "touches r q m m' \<and> (cd_services (dm_device m r) \<noteq> [] \<longrightarrow> cd_services (dm_device m' r) \<noteq> [])"
proof -
  let ?cls = "objectForKeyN (dm_deviceClasses m) (sd_serviceId (dm_heap m q))"
  have ret: "m' = m \<or> (\<exists>config. (case alreadyHasService q r m of
           (True, True) \<Rightarrow> dm_refreshService env q r m
         | (True, False) \<Rightarrow> andThen (dm_removeService env (sd_serviceId (dm_heap m q)) r)
             (dm_addNewService env ?cls config q r) m
         | _ \<Rightarrow> dm_addNewService env ?cls config q r m) = Inr (m', out))"
    using add unfolding addServiceDescription_def Let_def by (auto split: if_split_asm dest!: rbind_Inr_iff [THEN iffD1])
  obtain t f where tf: "alreadyHasService q r m = (t, f)" by fastforce
  from ret consider "m' = m"
    | "dm_refreshService env q r m = Inr (m', out)"
    | config m1 o1 o2 where "dm_removeService env (sd_serviceId (dm_heap m q)) r m = Inr (m1, o1)"
        "dm_addNewService env ?cls config q r m1 = Inr (m', o2)"
    | config where "dm_addNewService env ?cls config q r m = Inr (m', out)"
    unfolding tf by (cases t; cases f) (auto simp: andThen_Inr_iff)
  then show ?thesis
  proof cases
    case 1
    then show ?thesis by (simp add: touches_refl)
  next
    case 2
    then show ?thesis using refresh_touches [OF env _ a] by blast
  next
    case 3
    have t: "touches r q m m1" using 3(1) by (rule remove_touches)
    have "dm_heap m1 = dm_heap m" using 3(1) by (auto simp: dm_removeService_def split: prod.splits)
    then have "sd_address (dm_heap m1 q) = Some k" "dm_addressOf m1 r = Some k"
      using t a by (simp_all add: touches_def)
    from add_touches [OF env 3(2) this(2,1)] show ?thesis using touches_trans [OF t] by blast
  next
    case 4
    then show ?thesis using add_touches [OF env _ a] by blast
  qed
qed

end

section \<open>Changes of the lists\<close>

lemma list_fields [simp]:
  "dm_device (m\<lparr>dm_all := a\<rparr>) r = dm_device m r" "dm_heap (m\<lparr>dm_all := a\<rparr>) = dm_heap m"
  "dm_addressOf (m\<lparr>dm_all := a\<rparr>) r = dm_addressOf m r" "dm_heap (m\<lparr>dm_compatible := c\<rparr>) = dm_heap m"
  by (simp_all add: dm_device_def dm_heap_def dm_addressOf_def)

lemma lists_setCompatible:
  "dm_lists m \<Longrightarrow> objectForKey (dm_all m) k = Some r \<Longrightarrow> dm_lists (m\<lparr>dm_compatible := setObject r k (dm_compatible m)\<rparr>)"
  by (auto simp: dm_lists_def split: if_split_asm)

lemma lists_removeCompatible:
  "dm_lists m \<Longrightarrow> dm_lists (m\<lparr>dm_compatible := removeObjectForKey k (dm_compatible m)\<rparr>)"
  by (auto simp: dm_lists_def split: if_split_asm)

lemma lists_removeKnown:
  "dm_lists m \<Longrightarrow> objectForKey (dm_compatible m) k = None \<Longrightarrow> dm_lists (m\<lparr>dm_all := removeObjectForKey k (dm_all m)\<rparr>)"
  by (auto simp: dm_lists_def split: if_split_asm)

lemma served_fields [simp]: "dm_served (m\<lparr>dm_compatible := c\<rparr>) = dm_served m"
  by (simp add: dm_served_def)

lemma served_removeKnown: "dm_served m \<Longrightarrow> dm_served (m\<lparr>dm_all := removeObjectForKey k (dm_all m)\<rparr>)"
  by (auto simp: dm_served_def split: if_split_asm)

lemma served_touches:
  assumes "dm_served m" "touches r q m m'" "cd_services (dm_device m' r) \<noteq> []"
  shows "dm_served m'"
proof -
  have "cd_services (dm_device m' s) \<noteq> []" if "objectForKey (dm_all m) k = Some s" for k s
    using assms that by (cases "s = r") (auto simp: dm_served_def touches_def)
  then show ?thesis using assms(2) by (simp add: dm_served_def touches_def)
qed

lemma handleDeviceLoss_state: "handleDeviceLoss r m = Inr (m', out) \<Longrightarrow> m' = m"
  by (auto simp: handleDeviceLoss_def andThen_Inr_iff dest!: tell_state)

text \<open>The handlers of the manager change the list of compatible devices only.\<close>

definition compatStep :: "DiscoveryManager \<Rightarrow> DiscoveryManager \<Rightarrow> bool" where
  "compatStep m m' \<longleftrightarrow> dm_lists m' \<and> (\<exists>c. m' = m\<lparr>dm_compatible := c\<rparr>)"

lemma compatStep_refl: "dm_lists m \<Longrightarrow> compatStep m m"
  by (auto simp: compatStep_def intro: exI [of _ "dm_compatible m"])

lemma handleDeviceAdd_lists:
  assumes "dm_lists m" "objectForKey (dm_all m) k = Some r" "handleDeviceAdd r m = Inr (m', out)"
  shows "compatStep m m'"
proof (cases "deviceIsCompatible r m")
  case False
  with assms show ?thesis by (simp add: handleDeviceAdd_def compatStep_refl)
next
  case True
  have "dm_addressOf m r = Some k" using assms(1,2) by (simp add: dm_lists_def)
  then have "m' = m\<lparr>dm_compatible := setObject r k (dm_compatible m)\<rparr>"
    using assms(3) True
    by (auto simp: handleDeviceAdd_def andThen_Inr_iff dm_setCompatible_def setObjectN_def dest!: tell_state)
  then show ?thesis using lists_setCompatible [OF assms(1,2)] by (auto simp: compatStep_def)
qed

lemma handleDeviceUpdate_lists:
  assumes "dm_lists m" "dm_store m = None" "objectForKey (dm_all m) k = Some r"
    "handleDeviceUpdate t1 t2 r m = Inr (m', out)"
  shows "compatStep m m'"
proof -
  have k: "dm_addressOf m r = Some k" using assms(1,3) by (simp add: dm_lists_def)
  have body: "(if deviceIsCompatible r m
       then (if objectForKeyN (dm_compatible m) (dm_addressOf m r) \<noteq> None
             then andThen (dm_tell DmSelUpdate (DmUpdated r)) (dm_tellPicker (PickerUpdated r)) m
             else handleDeviceAdd r m)
       else andThen (dm_removeCompatible (dm_addressOf m r)) (handleDeviceLoss r) m) = Inr (m', out)"
    using andThen_Inr_iff [THEN iffD1, OF assms(4) [unfolded handleDeviceUpdate_def]] assms(2)
    unfolding dm_storeUpdate_def by auto
  consider "m' = m" | "handleDeviceAdd r m = Inr (m', out)"
    | "m' = m\<lparr>dm_compatible := removeObjectForKey k (dm_compatible m)\<rparr>"
    using body k
    by (auto simp: andThen_Inr_iff dm_removeCompatible_def removeObjectForKeyN_def
        dest!: tell_state handleDeviceLoss_state split: if_split_asm)
  then show ?thesis
    using assms(1) handleDeviceAdd_lists [OF assms(1,3)] lists_removeCompatible [OF assms(1)]
    by cases (auto simp: compatStep_refl, auto simp: compatStep_def)
qed

section \<open>Services found and lost\<close>

lemma compatStep_served: "compatStep m m' \<Longrightarrow> dm_served m \<Longrightarrow> dm_lists m' \<and> dm_served m' \<and> dm_store m' = dm_store m"
  by (auto simp: compatStep_def)

lemma dates_touch:
  assumes "cd_description d = cd_description (dm_device m r)"
  shows "touches r q m (dm_setDevice r d (dm_heap m) m)"
  using assms by (simp add: touches_def dm_addressOf_def cd_address_def cd_get_def)

text \<open>A description that a provider has just created.\<close>

definition dm_newDescription :: "ServiceDescription \<Rightarrow> DiscoveryManager \<Rightarrow> DiscoveryManager" where
  "dm_newDescription sd m = m\<lparr>dm_world := (dm_world m)\<lparr>w_sd := (dm_heap m)(w_next (dm_world m) := sd),
     w_next := Suc (w_next (dm_world m))\<rparr>\<rparr>"

lemma newDescription_simps [simp]:
  "dm_device (dm_newDescription sd m) r = dm_device m r" "dm_all (dm_newDescription sd m) = dm_all m"
  "dm_compatible (dm_newDescription sd m) = dm_compatible m" "dm_store (dm_newDescription sd m) = dm_store m"
  "w_next (dm_world (dm_newDescription sd m)) = Suc (w_next (dm_world m))"
  "dm_heap (dm_newDescription sd m) = (dm_heap m)(w_next (dm_world m) := sd)"
  by (simp_all add: dm_newDescription_def dm_device_def dm_heap_def)

lemma newDescription_lists:
  assumes "dm_lists m" "dm_served m"
  shows "dm_lists (dm_newDescription sd m)" "dm_served (dm_newDescription sd m)"
    "unshared (w_next (dm_world m)) r (dm_newDescription sd m)"
proof -
  have b: "x < w_next (dm_world m)" if "objectForKey (dm_all m) k = Some s" "cd_description (dm_device m s) = Some x" for k s x
    using assms(1) that by (auto simp: dm_lists_def)
  have addr: "dm_addressOf (dm_newDescription sd m) s = dm_addressOf m s" if "objectForKey (dm_all m) k = Some s" for k s
    using b [OF that]
    by (cases "cd_description (dm_device m s)") (auto simp: dm_addressOf_def cd_address_def cd_get_def)
  have old: "dict_wf (dm_all m)" "dict_wf (dm_compatible m)"
    "\<And>l s. objectForKey (dm_compatible m) l = Some s \<Longrightarrow> objectForKey (dm_all m) l = Some s"
    "\<And>l s. objectForKey (dm_all m) l = Some s \<Longrightarrow> dm_addressOf m s = Some l \<and> s < w_next (dm_world m)"
    "\<And>k l r s. objectForKey (dm_all m) k = Some r \<Longrightarrow> objectForKey (dm_all m) l = Some s \<Longrightarrow> r \<noteq> s \<Longrightarrow>
           cd_description (dm_device m r) \<noteq> cd_description (dm_device m s)"
    using assms(1) unfolding dm_lists_def by blast+
  show "dm_lists (dm_newDescription sd m)"
    unfolding dm_lists_def newDescription_simps using old b by (auto simp: addr less_SucI)
  show "dm_served (dm_newDescription sd m)" using assms(2) by (simp add: dm_served_def)
  show "unshared (w_next (dm_world m)) r (dm_newDescription sd m)"
    unfolding unshared_def newDescription_simps using b by blast
qed

text \<open>Adding the first service of a new device.\<close>

definition dm_newDevice :: "nat \<Rightarrow> string \<Rightarrow> DiscoveryManager \<Rightarrow> DiscoveryManager" where
  "dm_newDevice q k m =
     (let w = dm_world m; r = Suc (w_next w) in
      m\<lparr>dm_world := w\<lparr>w_sd := (w_sd w)(w_next w := sd_new),
          w_dev := (w_dev w)(r := (fst (cd_init (w_next w) (w_sd w)))\<lparr>cd_description := Some q\<rparr>), w_next := Suc r\<rparr>,
        dm_all := setObject r k (dm_all m)\<rparr>)"

lemma newDevice_simps [simp]:
  "dm_device (dm_newDevice q k m) s = (if s = Suc (w_next (dm_world m))
     then (fst (cd_init (w_next (dm_world m)) (dm_heap m)))\<lparr>cd_description := Some q\<rparr> else dm_device m s)"
  "dm_all (dm_newDevice q k m) = setObject (Suc (w_next (dm_world m))) k (dm_all m)"
  "dm_compatible (dm_newDevice q k m) = dm_compatible m" "dm_store (dm_newDevice q k m) = dm_store m"
  "w_next (dm_world (dm_newDevice q k m)) = Suc (Suc (w_next (dm_world m)))"
  "dm_heap (dm_newDevice q k m) = (dm_heap m)(w_next (dm_world m) := sd_new)"
  by (simp_all add: dm_newDevice_def dm_device_def dm_heap_def Let_def)

lemma deviceForDescription_cases:
  assumes "dm_store m = None" "dm_deviceForDescription q m = Inr (m1, r, new)"
  obtains (known) k where "sd_address (dm_heap m q) = Some k" "objectForKey (dm_all m) k = Some r" "m1 = m" "\<not> new"
  | (created) k where "sd_address (dm_heap m q) = Some k" "objectForKey (dm_all m) k = None"
      "m1 = dm_newDevice q k m" "r = Suc (w_next (dm_world m))" new
proof (cases "sd_address (dm_heap m q)")
  case None
  with assms show thesis
    by (auto simp: dm_deviceForDescription_def setObjectN_def cd_initWithDescription_def Let_def objectForKeyN_def
        split: prod.splits bool.splits)
next
  case (Some k)
  have r: "(case (dm_useDeviceStore m, dm_store m) of
       (True, Some st) \<Rightarrow> rbind (deviceForId (sd_UUID (dm_heap m q)) (dm_world m) st) (\<lambda>(found, w, st').
           Inr (m\<lparr>dm_world := w, dm_store := Some st'\<rparr>, found))
     | _ \<Rightarrow> Inr (m, None)) = Inr (m, None)"
    using assms(1) by (simp split: bool.split)
  show thesis
  proof (cases "objectForKey (dm_all m) k")
    case None
    with Some assms(2) r have "m1 = dm_newDevice q k m \<and> r = Suc (w_next (dm_world m)) \<and> new"
      by (auto simp: dm_deviceForDescription_def objectForKeyN_def cd_initWithDescription_def setObjectN_def
          dm_newDevice_def Let_def cd_init_def)
    with created Some None show thesis by blast
  next
    case (Some s)
    with \<open>sd_address (dm_heap m q) = Some k\<close> assms(2) have "r = s" "m1 = m" "\<not> new"
      by (simp_all add: dm_deviceForDescription_def objectForKeyN_def)
    with known [OF \<open>sd_address (dm_heap m q) = Some k\<close>] Some show thesis by simp
  qed
qed

text \<open>The state between two events.\<close>

definition dm_ok :: "DiscoveryManager \<Rightarrow> bool" where
  "dm_ok m \<longleftrightarrow> dm_lists m \<and> dm_served m \<and> dm_store m = None"

lemma newDevice_lists:
  assumes "dm_lists m" "unshared q (Suc (w_next (dm_world m))) m" "objectForKey (dm_all m) k = None"
    "sd_address (dm_heap m q) = Some k"
  shows "dm_lists (dm_newDevice q k m)"
proof -
  let ?n = "w_next (dm_world m)"
  have q: "q < ?n" using assms(2) by (simp add: unshared_def)
  have old: "dm_addressOf m s = Some l \<and> s < ?n \<and> (\<forall>x. cd_description (dm_device m s) = Some x \<longrightarrow> x < ?n)
      \<and> cd_description (dm_device m s) \<noteq> Some q"
    if "objectForKey (dm_all m) l = Some s" for l s
    using assms(1,2) that unfolding dm_lists_def unshared_def by fastforce
  have addr: "dm_addressOf (dm_newDevice q k m) s = Some l" if "objectForKey (dm_all m) l = Some s" for l s
    using old [OF that] by (cases "cd_description (dm_device m s)") (auto simp: dm_addressOf_def cd_address_def cd_get_def)
  have new: "dm_addressOf (dm_newDevice q k m) (Suc ?n) = Some k"
    using assms(4) q by (simp add: dm_addressOf_def cd_address_def cd_get_def)
  have wf: "dict_wf (dm_all m)" "dict_wf (dm_compatible m)"
    and sub: "\<And>l s. objectForKey (dm_compatible m) l = Some s \<Longrightarrow> objectForKey (dm_all m) l = Some s"
    and dist: "\<And>k l r s. objectForKey (dm_all m) k = Some r \<Longrightarrow> objectForKey (dm_all m) l = Some s \<Longrightarrow> r \<noteq> s \<Longrightarrow>
           cd_description (dm_device m r) \<noteq> cd_description (dm_device m s)"
    using assms(1) unfolding dm_lists_def by blast+
  have "objectForKey (dm_all (dm_newDevice q k m)) l = Some s \<Longrightarrow>
      dm_addressOf (dm_newDevice q k m) s = Some l \<and> s < Suc (Suc ?n)
      \<and> (\<forall>x. cd_description (dm_device (dm_newDevice q k m) s) = Some x \<longrightarrow> x < Suc (Suc ?n))" for l s
    using new q addr [of l s] old [of l s] by (fastforce split: if_split_asm)
  moreover have "cd_description (dm_device (dm_newDevice q k m) s) \<noteq> cd_description (dm_device (dm_newDevice q k m) s')"
    if "objectForKey (dm_all (dm_newDevice q k m)) l = Some s" "objectForKey (dm_all (dm_newDevice q k m)) l' = Some s'" "s \<noteq> s'"
    for l l' s s'
    using that old [of l s] old [of l' s'] dist [of l s l' s'] by (fastforce split: if_split_asm)
  moreover have "objectForKey (dm_compatible m) l = Some s \<Longrightarrow> objectForKey (dm_all (dm_newDevice q k m)) l = Some s" for l s
    using sub [of l s] assms(3) by auto
  ultimately show ?thesis unfolding dm_lists_def using wf by auto
qed

context described_classes
begin

lemma find_rest_known:
  assumes env: "env_classes env = ct" and ok: "dm_lists m" "dm_served m" "dm_store m = None"
    and known: "objectForKey (dm_all m) k = Some r" "sd_address (dm_heap m q) = Some k" and "unshared q r m"
    and add: "addServiceDescription env now q r (dm_setDevice r d (dm_heap m) m) = Inr (m2, o1)"
    and d: "cd_description d = cd_description (dm_device m r)" "cd_services d = cd_services (dm_device m r)"
    and upd: "handleDeviceUpdate now t2 r m2 = Inr (m', o2) \<or> handleDeviceAdd r m2 = Inr (m', o2)"
    and ne: "cd_services (dm_device m2 r) \<noteq> []"
  shows "dm_ok m'"
proof -
  let ?m = "dm_setDevice r d (dm_heap m) m"
  have t1: "touches r q m ?m" using d(1) by (rule dates_touch)
  have a: "dm_addressOf ?m r = Some k" using t1 ok(1) known(1) by (simp add: touches_def dm_lists_def)
  have t: "touches r q m m2"
    using t1 addServiceDescription_touches [OF env add a] known(2) by (auto intro: touches_trans)
  have l: "dm_lists m2" using touches_lists [OF ok(1) known(1) assms(7) t] .
  have s: "dm_served m2" using served_touches [OF ok(2) t ne] .
  have k: "objectForKey (dm_all m2) k = Some r" "dm_store m2 = None" using t known(1) ok(3) by (simp_all add: touches_def)
  have "compatStep m2 m'"
    using upd handleDeviceUpdate_lists [OF l k(2,1)] handleDeviceAdd_lists [OF l k(1)] by blast
  from compatStep_served [OF this s] k show ?thesis by (simp add: dm_ok_def)
qed

lemma find_ok:
  assumes env: "env_classes env = ct" and ok: "dm_ok m0"
    and find: "dm_didFindService env now t2 (w_next (dm_world m0)) (dm_newDescription sd m0) = Inr (m', out)"
  shows "dm_ok m'"
proof -
  let ?m = "dm_newDescription sd m0" and ?q = "w_next (dm_world m0)"
  have ok': "dm_lists ?m" "dm_served ?m" "dm_store ?m = None" "\<And>r. unshared ?q r ?m"
    using ok newDescription_lists by (simp_all add: dm_ok_def)
  have q: "dm_heap ?m ?q = sd" by simp
  obtain m1 r new where dev: "dm_deviceForDescription ?q ?m = Inr (m1, r, new)"
    using find by (auto simp: dm_didFindService_def rbind_Inr_iff)
  define d where "d = (dm_device m1 r)\<lparr>cd_lastDetection := now, cd_lastKnownIPAddress := sd_address sd,
                 cd_lastSeenOnWifi := dm_currentSSID m1\<rparr>"
  have d: "cd_description d = cd_description (dm_device m1 r)" "cd_services d = cd_services (dm_device m1 r)"
    by (simp_all add: d_def)
  obtain m2 o1 o2 where add: "addServiceDescription env now ?q r (dm_setDevice r d (dm_heap m1) m1) = Inr (m2, o1)"
    and rest: "(if dev_services (dm_world m2) r = []
                 then rbind (removeObjectForKeyN (sd_address sd) (dm_all m2)) (\<lambda>a. Inr (m2\<lparr>dm_all := a\<rparr>, []))
                 else if new then handleDeviceAdd r m2 else handleDeviceUpdate now t2 r m2) = Inr (m', o2)"
    using find dev by (auto simp: dm_didFindService_def Let_def andThen_Inr_iff d_def)
  have svcs: "dev_services (dm_world m2) r = [] \<longleftrightarrow> cd_services (dm_device m2 r) = []"
    by (simp add: dev_services_def dm_device_def allValues_def)
  from ok'(3) dev show ?thesis
  proof (cases rule: deviceForDescription_cases)
    case (known k)
    have "cd_services d \<noteq> []" using ok'(2) known(2,3) d(2) by (auto simp: dm_served_def)
    moreover have "dm_addressOf (dm_setDevice r d (dm_heap m1) m1) r = Some k"
      using ok'(1) known(2,3) dates_touch [OF d(1), of ?q] by (simp add: touches_def dm_lists_def)
    ultimately have ne: "cd_services (dm_device m2 r) \<noteq> []"
      using addServiceDescription_touches [OF env add, of k] known(1,3) by simp
    then have "handleDeviceUpdate now t2 r m2 = Inr (m', o2) \<or> handleDeviceAdd r m2 = Inr (m', o2)"
      using rest svcs known(4) by simp
    from find_rest_known [OF env ok'(1-3) known(2,1) ok'(4) add [unfolded known(3)] d [unfolded known(3)] this ne]
    show ?thesis .
  next
    case (created k)
    have n: "objectForKey (dm_compatible ?m) k = None"
      using ok'(1) created(2) by (cases "objectForKey (dm_compatible ?m) k") (auto simp: dm_lists_def)
    have l1: "dm_lists m1" unfolding created(3) using ok'(1,4) created(2,1) by (rule newDevice_lists)
    have k1: "objectForKey (dm_all m1) k = Some r" "dm_heap m1 ?q = sd" by (simp_all add: created(3,4))
    have u1: "unshared ?q r m1"
      using ok'(4) [of r] by (auto simp: created(3,4) unshared_def split: if_split_asm)
    let ?m2 = "dm_setDevice r d (dm_heap m1) m1"
    have t1: "touches r ?q m1 ?m2" using d(1) by (rule dates_touch)
    have "dm_addressOf ?m2 r = Some k" using t1 l1 k1(1) by (simp add: touches_def dm_lists_def)
    then have t: "touches r ?q m1 m2"
      using t1 addServiceDescription_touches [OF env add, of k] k1(2) created(1) by (auto intro: touches_trans)
    have l2: "dm_lists m2" using touches_lists [OF l1 k1(1) u1 t] .
    have f2: "dm_all m2 = dm_all m1" "dm_compatible m2 = dm_compatible ?m" "dm_store m2 = None"
      using t ok'(3) by (simp_all add: touches_def created(3))
    have s2: "cd_services (dm_device m2 s) \<noteq> []" if "objectForKey (dm_all m1) j = Some s" "s \<noteq> r" for j s
      using that ok'(2) t by (auto simp: created(3,4) dm_served_def touches_def split: if_split_asm)
    show ?thesis
    proof (cases "cd_services (dm_device m2 r) = []")
      case True
      then have m': "m' = m2\<lparr>dm_all := removeObjectForKey k (dm_all m2)\<rparr>"
        using rest svcs created(1) by (simp add: removeObjectForKeyN_def)
      have "j = k" if "objectForKey (dm_all m1) j = Some r" for j
        using that k1(1) l1 unfolding dm_lists_def by (metis option.inject)
      then have "dm_served m'"
        using s2 unfolding m' dm_served_def f2 by (fastforce split: if_split_asm)
      moreover have "dm_lists m'" unfolding m' using l2 n f2(2) by (intro lists_removeKnown) simp_all
      ultimately show ?thesis by (simp add: dm_ok_def m' f2(3))
    next
      case False
      then have "dm_served m2" using s2 unfolding dm_served_def f2(1) by blast
      moreover have "compatStep m2 m'"
        using handleDeviceAdd_lists [OF l2] k1(1) f2(1) rest svcs False created(5) by simp
      ultimately show ?thesis using compatStep_served f2(3) by (auto simp: dm_ok_def)
    qed
  qed
qed

end

lemma lose_ok:
  assumes ok: "dm_ok m0" and lose: "dm_didLoseService env now t2 q m0 = Inr (m', out)"
  shows "dm_ok m'"
proof (cases "objectForKeyN (dm_all m0) (sd_address (dm_heap m0 q))")
  case None
  with assms show ?thesis by (simp add: dm_didLoseService_def)
next
  case (Some r)
  then obtain k where k: "sd_address (dm_heap m0 q) = Some k" "objectForKey (dm_all m0) k = Some r"
    by (auto simp: objectForKeyN_def bind_eq_Some_conv)
  obtain m1 o1 o2 where rm: "dm_removeService env (sd_serviceId (dm_heap m0 q)) r m0 = Inr (m1, o1)"
    and rest: "(if \<not> hasServices (dm_device m1 r)
        then rbind (removeObjectForKeyN (sd_address (dm_heap m0 q)) (dm_all m1)) (\<lambda>a.
               andThen (dm_removeCompatible (sd_address (dm_heap m0 q))) (handleDeviceLoss r) (m1\<lparr>dm_all := a\<rparr>))
        else handleDeviceUpdate now t2 r m1) = Inr (m', o2)"
    using lose Some by (auto simp: dm_didLoseService_def Let_def andThen_Inr_iff)
  note rest = rest [unfolded k(1)]
  obtain x where x: "cd_description (dm_device m0 r) = Some x" "x < w_next (dm_world m0)"
    using ok k(2) unfolding dm_ok_def dm_lists_def dm_addressOf_def cd_address_def cd_get_def
    by (metis bind_eq_Some_conv)
  have t: "touches r x m0 m1" using rm by (rule remove_touches)
  have "unshared x r m0" using ok k(2) x unfolding dm_ok_def dm_lists_def unshared_def by metis
  then have l: "dm_lists m1" using touches_lists [OF _ k(2) _ t] ok by (simp add: dm_ok_def)
  have k1: "objectForKey (dm_all m1) k = Some r" "dm_store m1 = None" using t ok k(2) by (simp_all add: touches_def dm_ok_def)
  show ?thesis
  proof (cases "cd_services (dm_device m1 r) = []")
    case False
    then have "dm_served m1" using served_touches [OF _ t] ok by (simp add: dm_ok_def)
    moreover have "compatStep m1 m'" using handleDeviceUpdate_lists [OF l k1(2,1)] rest False by (simp add: hasServices_def)
    ultimately show ?thesis using compatStep_served k1(2) by (auto simp: dm_ok_def)
  next
    case True
    define c where "c = m1\<lparr>dm_compatible := removeObjectForKey k (dm_compatible m1)\<rparr>"
    have "m' = m1\<lparr>dm_all := removeObjectForKey k (dm_all m1), dm_compatible := removeObjectForKey k (dm_compatible m1)\<rparr>"
      using rest True
      by (auto simp: hasServices_def removeObjectForKeyN_def andThen_Inr_iff dm_removeCompatible_def dest!: handleDeviceLoss_state)
    then have m': "m' = c\<lparr>dm_all := removeObjectForKey k (dm_all c)\<rparr>" by (simp add: c_def)
    have "dm_lists m'" unfolding m' using lists_removeCompatible [OF l] by (intro lists_removeKnown) (simp_all add: c_def)
    moreover have "dm_served m'"
    proof -
      have "cd_services (dm_device m1 s) \<noteq> []" if "objectForKey (dm_all m1) j = Some s" "j \<noteq> k" for j s
      proof -
        have "s \<noteq> r" using that k1(1) l unfolding dm_lists_def by (metis option.inject)
        then show ?thesis using that ok t by (auto simp: dm_ok_def dm_served_def touches_def)
      qed
      then show ?thesis by (auto simp: dm_served_def m' c_def split: if_split_asm)
    qed
    ultimately show ?thesis using k1(2) by (simp add: dm_ok_def m' c_def)
  qed
qed

section \<open>Other events\<close>

lemma filters_ok:
  assumes ok: "dm_ok m" and f: "setCapabilityFilters filters m = Inr (m', out)"
  shows "dm_ok m'"
proof -
  have inv: "dm_inv m" using ok dm_inv_lists by (simp add: dm_ok_def)
  let ?m0 = "m\<lparr>dm_capabilityFilters := filters\<rparr>"
  have step: "(\<lambda>r m. if deviceIsCompatible r m
      then andThen (dm_setCompatible r) (dm_tell DmSelFind (DmFound r)) m else Inr (m, [])) = rebuildStep"
    by (intro ext) (simp add: rebuildStep_def)
  obtain m1 o1 o2 where t: "forEach (\<lambda>r. dm_tell DmSelLose (DmLost r)) (allValues (dm_compatible m)) ?m0 = Inr (m1, o1)"
    and r: "forEach rebuildStep (allValues (dm_all m1)) (m1\<lparr>dm_compatible := []\<rparr>) = Inr (m', o2)"
    using f unfolding setCapabilityFilters_def andThen_Inr_iff step by blast
  have m1: "m1 = ?m0" using t by (rule forEach_tell_state)
  obtain c where m': "m' = ?m0\<lparr>dm_compatible := c\<rparr>" and wf: "dict_wf c"
    using rebuild_state [OF r] unfolding m1 by auto
  have "\<And>k r. objectForKey c k = Some r \<Longrightarrow> objectForKey (dm_all m) k = Some r"
    using filters_exact [OF inv f] by (auto simp: m' split: option.splits if_split_asm)
  with ok wf show ?thesis
    unfolding m' dm_ok_def dm_lists_def dm_served_def by (simp add: dm_addressOf_def dm_device_def dm_heap_def)
qed

lemma empty_ok: "dm_all m = [] \<Longrightarrow> dm_compatible m = [] \<Longrightarrow> dm_store m = None \<Longrightarrow> dm_ok m"
  by (simp add: dm_ok_def dm_lists_def dm_served_def dict_wf_def)

text \<open>Operations that leave the devices and their lists alone.\<close>

definition sameDevices :: "DiscoveryManager \<Rightarrow> DiscoveryManager \<Rightarrow> bool" where
  "sameDevices m m' \<longleftrightarrow> dm_world m' = dm_world m \<and> dm_all m' = dm_all m \<and> dm_compatible m' = dm_compatible m
     \<and> dm_store m' = dm_store m"

lemma sameDevices_ok: "sameDevices m m' \<Longrightarrow> dm_ok m \<Longrightarrow> dm_ok m'"
  by (simp add: sameDevices_def dm_ok_def dm_lists_def dm_served_def dm_addressOf_def dm_device_def dm_heap_def)

lemma providers_same:
  "dm_startProviders env now m = Inr (m', out) \<Longrightarrow> sameDevices m m'"
  "dm_stopProviders m = Inr (m', out) \<Longrightarrow> sameDevices m m'"
  by (auto simp: dm_startProviders_def dm_stopProviders_def sameDevices_def rbind_Inr_iff split: prod.splits)

lemma sameDevices_trans [trans]: "sameDevices m m1 \<Longrightarrow> sameDevices m1 m2 \<Longrightarrow> sameDevices m m2"
  by (simp add: sameDevices_def)

lemma register_same: "registerDeviceService env c d m = Inr (m', out) \<Longrightarrow> sameDevices m m'"
  by (auto simp: registerDeviceService_def registerWithFactory_def Let_def rbind_Inr_iff sameDevices_def split: if_split_asm)

lemma forEach_same:
  assumes "\<And>x m m' out. f x m = Inr (m', out) \<Longrightarrow> sameDevices m m'" "forEach f xs m = Inr (m', out)"
  shows "sameDevices m m'"
  using assms(2)
proof (induction xs arbitrary: m out)
  case (Cons x xs)
  then obtain m1 o1 o2 where "f x m = Inr (m1, o1)" "forEach f xs m1 = Inr (m', o2)" by (auto simp: andThen_Inr_iff)
  with assms(1) Cons.IH show ?case by (blast intro: sameDevices_trans)
qed (simp add: noOp_def sameDevices_def)

lemma registerDefault_same: "registerDefaultServices env m = Inr (m', out) \<Longrightarrow> sameDevices m m'"
  unfolding registerDefaultServices_def by (rule forEach_same) (auto intro: register_same)

lemma start_same:
  assumes "dm_startDiscovery env now m = Inr (m', out)" shows "sameDevices m m'"
proof (cases "dm_searching m")
  case True
  with assms show ?thesis by (simp add: dm_startDiscovery_def sameDevices_def)
next
  case False
  then obtain m1 o1 m2 o2 where r: "(if dm_deviceClasses m = [] then registerDefaultServices env else noOp) m = Inr (m1, o1)"
    and s: "dm_startProviders env now (m1\<lparr>dm_searching := True\<rparr>) = Inr (m2, o2)"
    and m': "m' = m2\<lparr>dm_notifier := startListening (dm_notifier m2)\<rparr>"
    using assms by (auto simp: dm_startDiscovery_def andThen_Inr_iff)
  have "sameDevices m m1" using r registerDefault_same by (auto simp: noOp_def sameDevices_def split: if_split_asm)
  moreover have "sameDevices m1 m'" using providers_same(1) [OF s] by (simp add: sameDevices_def m')
  ultimately show ?thesis by (rule sameDevices_trans)
qed

lemma stop_same:
  assumes "dm_stopDiscovery m = Inr (m', out)" shows "sameDevices m m'"
proof (cases "dm_searching m")
  case True
  with assms obtain m1 o1 where s: "dm_stopProviders (m\<lparr>dm_searching := False\<rparr>) = Inr (m1, o1)"
    and m': "m' = (if \<not> dm_shouldResumeSearch m1 then m1\<lparr>dm_notifier := stopListening (dm_notifier m1)\<rparr> else m1)"
    by (auto simp: dm_stopDiscovery_def andThen_Inr_iff)
  from providers_same(2) [OF s] show ?thesis by (simp add: sameDevices_def m')
qed (use assms in \<open>simp add: dm_stopDiscovery_def sameDevices_def\<close>)

lemma control_same: "dm_control env c m = Inr (m', out) \<Longrightarrow> sameDevices m m'"
proof (cases c)
  case CtlPause
  moreover assume "dm_control env c m = Inr (m', out)"
  ultimately show ?thesis
    using providers_same(2) [of "(stopSSIDTimer m)\<lparr>dm_searching := False, dm_shouldResumeSearch := True\<rparr>" m' out]
    by (auto simp: dm_pauseDiscovery_def stopSSIDTimer_def Let_def sameDevices_def split: if_split_asm)
next
  case (CtlResume now)
  moreover assume "dm_control env c m = Inr (m', out)"
  ultimately show ?thesis
    using providers_same(1) [of env now "(startSSIDTimer m)\<lparr>dm_searching := True, dm_shouldResumeSearch := False\<rparr>" m' out]
    by (auto simp: dm_resumeDiscovery_def startSSIDTimer_def Let_def sameDevices_def split: if_split_asm)
qed (auto dest: start_same stop_same)

lemma disconnectDevice_store: "dm_disconnectDevice env r m = Inr (m', out) \<Longrightarrow> dm_store m' = dm_store m"
  by (auto simp: dm_disconnectDevice_def split: prod.splits)

lemma purge_ok:
  assumes "dm_store m = None" "purgeDeviceList env now m = Inr (m', out)"
  shows "dm_ok m'"
proof -
  have loop: "dm_store m2 = dm_store m1"
    if "forEach (\<lambda>r. andThen (dm_disconnectDevice env r) (andThen (dm_tell DmSelLose (DmLost r))
        (andThen devicePicker (dm_tellPicker (PickerLost r))))) rs m1 = Inr (m2, o2)" for rs m1 m2 o2
    using that
    by (induction rs arbitrary: m1 o2)
       (fastforce simp: noOp_def andThen_Inr_iff devicePicker_def dest: disconnectDevice_store tell_state split: if_split_asm)+
  have "dm_all m' = []" "dm_compatible m' = []" "dm_store m' = None"
    using assms loop by (auto simp: purgeDeviceList_def andThen_Inr_iff sameDevices_def dest!: providers_same)
  then show ?thesis by (rule empty_ok)
qed

lemma network_ok:
  assumes "dm_ok m" "detectSSIDChange env f now ssid m = Inr (m', out)"
  shows "dm_ok m'"
proof -
  consider x where "m' = m\<lparr>dm_currentSSID := x\<rparr>"
    | m1 o1 x where "purgeDeviceList env now m = Inr (m1, o1)" "m' = m1\<lparr>dm_currentSSID := x\<rparr>"
  proof (cases "dm_currentSSID m")
    case None
    with assms(2) that(1) [of None] that(1) [of "Some (case ssid of None \<Rightarrow> [] | Some s \<Rightarrow> s)"] show thesis
      by (auto simp: detectSSIDChange_def Let_def split: if_split_asm)
  next
    case (Some c)
    with assms(2) that(1) [of "Some c"] that(2) show thesis
      by (auto simp: detectSSIDChange_def Let_def andThen_Inr_iff split: if_split_asm)
  qed
  then show ?thesis
  proof cases
    case 1
    with assms(1) show ?thesis using sameDevices_ok [of m m'] by (simp add: sameDevices_def)
  next
    case 2
    have "dm_store m = None" using assms(1) by (simp add: dm_ok_def)
    then have "dm_ok m1" using 2(1) by (rule purge_ok)
    then show ?thesis using sameDevices_ok [of m1 m'] 2(2) by (simp add: sameDevices_def)
  qed
qed

section \<open>Runs of the manager\<close>

text \<open>
  What happens to a manager: messages of the application, reports of the providers (each with a
  description it has just created), a capability change of a known device, a reading of the network
  name, and the application going to and returning from the background.
\<close>

inductive dm_step :: "dmEnv \<Rightarrow> DiscoveryManager \<Rightarrow> DiscoveryManager \<Rightarrow> bool" for env where
  message: "dm_perform env msg m = Inr (m', out) \<Longrightarrow> (\<And>st. msg \<noteq> MsgSetDeviceStore (Some st)) \<Longrightarrow> dm_step env m m'"
| found: "dm_didFindService env now t2 (w_next (dm_world m)) (dm_newDescription sd m) = Inr (m', out) \<Longrightarrow> dm_step env m m'"
| lost: "dm_didLoseService env now t2 q m = Inr (m', out) \<Longrightarrow> dm_step env m m'"
| capabilities: "objectForKey (dm_all m) k = Some r \<Longrightarrow> dm_capabilitiesChanged t1 t2 r m = Inr (m', out) \<Longrightarrow> dm_step env m m'"
| network: "detectSSIDChange env f now ssid m = Inr (m', out) \<Longrightarrow> dm_step env m m'"
| application: "dm_control env c m = Inr (m', out) \<Longrightarrow> dm_step env m m'"

inductive_cases dm_stepE: "dm_step env m m'"

inductive dm_reach :: "dmEnv \<Rightarrow> DiscoveryManager \<Rightarrow> bool" for env where
  start: "dm_reach env (dm_init w)"
| step: "dm_reach env m \<Longrightarrow> dm_step env m m' \<Longrightarrow> dm_reach env m'"

lemma message_ok:
  assumes "dm_ok m" "dm_perform env msg m = Inr (m', out)" "\<And>st. msg \<noteq> MsgSetDeviceStore (Some st)"
  shows "dm_ok m'"
proof -
  have "sameDevices m m' \<or> (\<exists>fs. setCapabilityFilters fs m = Inr (m', out))"
    using assms(1,2,3)
  proof (cases msg)
    case (MsgSetDeviceStore st)
    with assms show ?thesis by (cases st) (auto simp: sameDevices_def dm_setDeviceStore_def dm_ok_def)
  qed (auto simp: sameDevices_def setPairingLevel_def rbind_Inr_iff unregisterDeviceService_def devicePicker_def
      split: if_split_asm option.splits dest!: register_same registerDefault_same start_same stop_same)
  then show ?thesis using assms(1) sameDevices_ok filters_ok by blast
qed

context described_classes
begin

lemma step_ok:
  assumes "env_classes env = ct" "dm_step env m m'" "dm_ok m"
  shows "dm_ok m'"
  using assms(2)
proof cases
  case (message msg out)
  with assms(3) show ?thesis by (blast intro: message_ok)
next
  case (found now t2 sd out)
  with assms find_ok show ?thesis by blast
next
  case (lost now t2 q out)
  with assms(3) lose_ok show ?thesis by blast
next
  case (capabilities k r t1 t2 out)
  have "compatStep m m'"
    using assms(3) capabilities handleDeviceUpdate_lists by (auto simp: dm_ok_def dm_capabilitiesChanged_def)
  with assms(3) compatStep_served show ?thesis by (auto simp: dm_ok_def)
next
  case (network f now ssid out)
  with assms(3) network_ok show ?thesis by blast
next
  case (application c out)
  with assms(3) control_same sameDevices_ok show ?thesis by blast
qed

lemma reach_ok: "dm_reach env m \<Longrightarrow> env_classes env = ct \<Longrightarrow> dm_ok m"
proof (induction rule: dm_reach.induct)
  case (start w)
  show ?case by (rule empty_ok) (simp_all add: dm_init_def startSSIDTimer_def)
next
  case (step m m')
  then show ?case using step_ok by blast
qed

end

text \<open>
  In every run without a device store, whatever providers report and the application asks for: a
  compatible device is a known device under the same address; a known device is filed under its own
  current address and has at least one service; and no two known devices share the description that
  holds their consolidated name and address.
\<close>
theorem dm_reach_device_lists:
  assumes "dm_reach env m" "described_classes (env_classes env)"
  shows "dm_inv m"
proof -
  have "dm_ok m" using described_classes.reach_ok [OF assms(2,1)] by simp
  then show ?thesis by (simp add: dm_ok_def dm_inv_lists)
qed

theorem dm_reach_device_lists_witness:
  "dm_reach sample_env ((dm_init sample_world)\<lparr>dm_delegate := Some [DmSelFind]\<rparr>)
    \<and> dm_inv ((dm_init sample_world)\<lparr>dm_delegate := Some [DmSelFind]\<rparr>)"
proof -
  let ?m = "(dm_init sample_world)\<lparr>dm_delegate := Some [DmSelFind]\<rparr>"
  have r: "dm_reach sample_env ?m"
    by (rule dm_reach.step [OF dm_reach.start dm_step.message [of _ "MsgSetDelegate (Some [DmSelFind])"]]) simp_all
  have "env_classes sample_env = (\<lambda>_. DeviceService_class)" by (simp add: sample_env_def)
  then have "described_classes (env_classes sample_env)" using base_described.described_classes_axioms by simp
  from dm_reach_device_lists [OF r this] r show ?thesis by blast
qed

end
