(* ===== verification/System.thy ===== *)
theory System
  imports DeviceLists
begin

text \<open>
  The discovery system put together: the providers answer the network, their reports
  (\<open>Discovery/DiscoveryProviderDelegate.h\<close>) reach the discovery manager, directly from the ZeroConf
  provider and over the main queue from the SSDP provider (\<open>dispatch_on_main\<close> in
  \<open>notifyDelegateOfNewService:\<close> and \<open>notifyDelegateOfLostService:\<close>), and the manager creates, changes
  and drops devices. Whatever else happens between the dispatch of a report and its delivery, the
  device lists and the tables of the providers stay consistent.
\<close>

section \<open>Reports\<close>

text \<open>The messages of a provider to its delegate; the reports that its outputs hold, in order.\<close>

datatype providerReport =
    DidFindService ServiceDescription
  | DidLoseService ServiceDescription
  | ProviderDidFail NSError

fun reportOf :: "provOutput \<Rightarrow> providerReport option" where
  "reportOf (FromSsdp (SsdpDidFind sd)) = Some (DidFindService sd)"
| "reportOf (FromSsdp (SsdpDidLose sd)) = Some (DidLoseService sd)"
| "reportOf (FromZeroConf (ZcDidFind sd)) = Some (DidFindService sd)"
| "reportOf (FromZeroConf (ZcDidLose sd)) = Some (DidLoseService sd)"
| "reportOf _ = None"

definition reportsOf :: "provOutput list \<Rightarrow> providerReport list" where
  "reportsOf out = List.map_filter reportOf out"

text \<open>The manager as the delegate of its providers; a failure is only logged.\<close>

fun dm_report :: "dmEnv \<Rightarrow> real \<Rightarrow> real \<Rightarrow> providerReport \<Rightarrow> dmOp" where
  "dm_report env now t2 (DidFindService sd) m =
     dm_didFindService env now t2 (w_next (dm_world m)) (dm_newDescription sd m)"
| "dm_report env now t2 (DidLoseService sd) m =
     dm_didLoseService env now t2 (w_next (dm_world m)) (dm_newDescription sd m)"
| "dm_report env now t2 (ProviderDidFail e) m = Inr (m, [])"

section \<open>Steps of the system\<close>

record discoverySystem =
  sys_manager :: DiscoveryManager
  sys_mainQueue :: "providerReport list"

text \<open>What the network, and not the manager, makes a provider do.\<close>

fun ssdp_fromNetwork :: "ssdpEvent \<Rightarrow> bool" where
  "ssdp_fromNetwork (EvTimer now) = True"
| "ssdp_fromNetwork (EvData now msg a) = True"
| "ssdp_fromNetwork (EvLoaded now u t lr) = True"
| "ssdp_fromNetwork _ = False"

fun zc_fromNetwork :: "zcEvent \<Rightarrow> bool" where
  "zc_fromNetwork ZcStart = False"
| "zc_fromNetwork ZcStop = False"
| "zc_fromNetwork _ = True"

definition dm_setProvider :: "nat \<Rightarrow> DiscoveryProvider \<Rightarrow> DiscoveryManager \<Rightarrow> DiscoveryManager" where
  "dm_setProvider i p m = m\<lparr>dm_providers := (dm_providers m)[i := p]\<rparr>"

text \<open>An event at the provider with index \<open>i\<close>; one of the wrong kind, or past the end, does nothing.\<close>

definition sys_ssdp :: "dmEnv \<Rightarrow> (string \<Rightarrow> string option) \<Rightarrow> nat \<Rightarrow> ssdpEvent \<Rightarrow> discoverySystem \<Rightarrow> discoverySystem result" where
  "sys_ssdp env hostOf i e s =
     (if i < length (dm_providers (sys_manager s))
      then (case dm_providers (sys_manager s) ! i of
          Ssdp p \<Rightarrow> rbind (ssdp_handle (env_platform env) hostOf e p) (\<lambda>(p', out).
            Inr (s\<lparr>sys_manager := dm_setProvider i (Ssdp p') (sys_manager s),
                   sys_mainQueue := sys_mainQueue s @ reportsOf (map FromSsdp out)\<rparr>))
        | _ \<Rightarrow> Inr s)
      else Inr s)"

definition sys_zeroconf :: "dmEnv \<Rightarrow> real \<Rightarrow> real \<Rightarrow> nat \<Rightarrow> zcEvent \<Rightarrow> discoverySystem \<Rightarrow>
    (discoverySystem \<times> dmOutput list) result" where
  "sys_zeroconf env now t2 i e s =
     (if i < length (dm_providers (sys_manager s))
      then (case dm_providers (sys_manager s) ! i of
          ZeroConf p \<Rightarrow> rbind (zc_handle e p) (\<lambda>(p', out).
            rbind (forEach (dm_report env now t2) (reportsOf (map FromZeroConf out))
                     (dm_setProvider i (ZeroConf p') (sys_manager s))) (\<lambda>(m, out').
              Inr (s\<lparr>sys_manager := m\<rparr>, out')))
        | _ \<Rightarrow> Inr (s, []))
      else Inr (s, []))"

text \<open>The main queue runs its first block.\<close>

definition sys_main :: "dmEnv \<Rightarrow> real \<Rightarrow> real \<Rightarrow> discoverySystem \<Rightarrow> (discoverySystem \<times> dmOutput list) result" where
  "sys_main env now t2 s = (case sys_mainQueue s of
      [] \<Rightarrow> Inr (s, [])
    | r # rs \<Rightarrow> rbind (dm_report env now t2 r (sys_manager s)) (\<lambda>(m, out).
        Inr (s\<lparr>sys_manager := m, sys_mainQueue := rs\<rparr>, out)))"

inductive sys_step :: "dmEnv \<Rightarrow> (string \<Rightarrow> string option) \<Rightarrow> discoverySystem \<Rightarrow> discoverySystem \<Rightarrow> bool"
  for env hostOf where
  manager: "dm_step env (sys_manager s) m \<Longrightarrow> sys_step env hostOf s (s\<lparr>sys_manager := m\<rparr>)"
| ssdp: "ssdp_fromNetwork e \<Longrightarrow> sys_ssdp env hostOf i e s = Inr s' \<Longrightarrow> sys_step env hostOf s s'"
| zeroconf: "zc_fromNetwork e \<Longrightarrow> sys_zeroconf env now t2 i e s = Inr (s', out) \<Longrightarrow> sys_step env hostOf s s'"
| main: "sys_main env now t2 s = Inr (s', out) \<Longrightarrow> sys_step env hostOf s s'"

inductive sys_reach :: "dmEnv \<Rightarrow> (string \<Rightarrow> string option) \<Rightarrow> discoverySystem \<Rightarrow> bool" for env hostOf where
  start: "sys_reach env hostOf \<lparr>sys_manager = dm_init w, sys_mainQueue = []\<rparr>"
| step: "sys_reach env hostOf s \<Longrightarrow> sys_step env hostOf s s' \<Longrightarrow> sys_reach env hostOf s'"

section \<open>The tables of the providers\<close>

fun prov_ok :: "DiscoveryProvider \<Rightarrow> bool" where
  "prov_ok BaseProvider = True"
| "prov_ok (Ssdp p) = ssdp_inv p"
| "prov_ok (ZeroConf p) = zc_inv p"

definition provs_ok :: "DiscoveryManager \<Rightarrow> bool" where
  "provs_ok m \<longleftrightarrow> list_all prov_ok (dm_providers m)"

lemma prov_start_ok:
  assumes "prov_startDiscovery pf now p = Inr (p', out)" "prov_ok p" shows "prov_ok p'"
proof (cases p)
  case (Ssdp q)
  with assms ssdp_handle_inv [of pf "\<lambda>_. None" "EvStart now" q] show ?thesis by (auto simp: rbind_Inr_iff)
next
  case (ZeroConf q)
  with assms zc_handle_inv [of ZcStart q "fst (zc_startDiscovery q)" "snd (zc_startDiscovery q)"] show ?thesis
    by (auto simp: split_beta)
qed (use assms in simp)

lemma prov_stop_ok: "prov_ok p \<Longrightarrow> prov_ok (fst (prov_stopDiscovery p))"
proof (cases p)
  case (Ssdp q)
  assume "prov_ok p"
  with Ssdp ssdp_handle_inv [of undefined undefined EvStop q] show ?thesis by simp
next
  case (ZeroConf q)
  assume "prov_ok p"
  with ZeroConf zc_handle_inv [of ZcStop q] show ?thesis by (cases "zc_stopDiscovery q") simp
qed simp

lemma prov_filter_ok:
  assumes "prov_addDeviceFilter d p = Inr p'" "prov_ok p" shows "prov_ok p'"
proof (cases p)
  case (Ssdp q)
  with assms ssdp_handle_inv [of undefined "\<lambda>_. None" "EvAddFilter d" q] show ?thesis by (auto simp: rbind_Inr_iff)
next
  case (ZeroConf q)
  with assms show ?thesis by (auto simp: rbind_Inr_iff zc_addDeviceFilter_def zc_inv_def Let_def split: if_split_asm option.splits)
qed (use assms in simp)

lemma prov_new_ok: "prov_ok (prov_new c)" "prov_ok p \<Longrightarrow> prov_ok (prov_setDelegate p)"
  by (simp add: prov_new_def ssdp_inv_def ssdp_init_def ssdp_hellos_def zc_inv_def zc_new_def)
    (cases p; simp add: zc_inv_def)

lemma startProviders_ok:
  "startProviders env now ps = Inr (ps', out) \<Longrightarrow> list_all prov_ok ps \<Longrightarrow> list_all prov_ok ps'"
  by (induction ps arbitrary: ps' out) (auto simp: rbind_Inr_iff dest: prov_start_ok)

lemma stopProviders_ok: "list_all prov_ok ps \<Longrightarrow> list_all prov_ok (fst (stopProviders ps))"
  by (simp add: stopProviders_def list_all_iff prov_stop_ok)

text \<open>Operations that keep the providers consistent, and how they compose.\<close>

definition keepsProviders :: "dmOp \<Rightarrow> bool" where
  "keepsProviders f \<longleftrightarrow> (\<forall>m m' out. f m = Inr (m', out) \<longrightarrow> provs_ok m \<longrightarrow> provs_ok m')"

named_theorems keeps

lemma keeps_dest: "f m = Inr (m', out) \<Longrightarrow> keepsProviders f \<Longrightarrow> provs_ok m \<Longrightarrow> provs_ok m'"
  by (auto simp: keepsProviders_def)

lemma keeps_same [intro]: "(\<And>m m' out. f m = Inr (m', out) \<Longrightarrow> dm_providers m' = dm_providers m) \<Longrightarrow> keepsProviders f"
  by (simp add: keepsProviders_def provs_ok_def)

lemma keeps_andThen [keeps]: "keepsProviders f \<Longrightarrow> keepsProviders g \<Longrightarrow> keepsProviders (andThen f g)"
  unfolding keepsProviders_def andThen_Inr_iff by blast

lemma keeps_if [keeps]: "keepsProviders f \<Longrightarrow> keepsProviders g \<Longrightarrow> keepsProviders (\<lambda>m. if P m then f m else g m)"
  unfolding keepsProviders_def by simp

lemma keeps_if_fixed [keeps]: "keepsProviders f \<Longrightarrow> keepsProviders g \<Longrightarrow> keepsProviders (if b then f else g)"
  by simp

lemma keeps_before [keeps]:
  "keepsProviders f \<Longrightarrow> (\<And>m. dm_providers (h m) = dm_providers m) \<Longrightarrow> keepsProviders (\<lambda>m. f (h m))"
  unfolding keepsProviders_def provs_ok_def by metis

lemma keeps_noOp [keeps]: "keepsProviders noOp" "keepsProviders (\<lambda>m. Inr (m, []))"
  "(\<And>m. dm_providers (h m) = dm_providers m) \<Longrightarrow> keepsProviders (\<lambda>m. Inr (h m, o' m))"
  by (auto simp: noOp_def)

lemma keeps_forEach [keeps]: "(\<And>x. keepsProviders (f x)) \<Longrightarrow> keepsProviders (forEach f xs)"
proof (induction xs)
  case (Cons x xs)
  then show ?case by (simp add: keeps_andThen)
qed (simp add: keeps_noOp)

lemma keeps_tell [keeps]:
  "keepsProviders (dm_tell sel e)" "keepsProviders (dm_tellPicker e)" "keepsProviders devicePicker"
  by (rule keeps_same; auto simp: dm_tell_def dm_tellPicker_def devicePicker_def split: option.splits if_split_asm)+

lemma keeps_compatible [keeps]:
  "keepsProviders (dm_setCompatible r)" "keepsProviders (dm_removeCompatible k)"
  by (rule keeps_same; auto simp: dm_setCompatible_def dm_removeCompatible_def rbind_Inr_iff)+

lemma keeps_storeUpdate [keeps]: "keepsProviders (dm_storeUpdate t1 t2 r)"
  by (rule keeps_same) (auto simp: dm_storeUpdate_def rbind_Inr_iff split: option.split_asm)

lemma setDevice_providers [simp]: "dm_providers (dm_setDevice r d heap m) = dm_providers m"
  by (simp add: dm_setDevice_def)

lemma keeps_services [keeps]:
  "keepsProviders (dm_disconnectDevice env r)" "keepsProviders (dm_removeService env sid r)"
  by (rule keeps_same; simp add: dm_disconnectDevice_def dm_removeService_def split: prod.split_asm; auto)+

lemma keeps_refreshService [keeps]: "keepsProviders (dm_refreshService env q r)"
proof (rule keeps_same)
  show "dm_refreshService env q r m = Inr (m', out) \<Longrightarrow> dm_providers m' = dm_providers m" for m m' out
    unfolding dm_refreshService_def Let_def by (clarsimp split: option.split_asm prod.split_asm)
qed

lemma keeps_addNewService [keeps]: "keepsProviders (dm_addNewService env cls config q r)"
proof (rule keeps_same)
  fix m m' out
  obtain service heap where s: "(case deviceServiceWithClass (map_option (env_classes env) cls) (Some config) of
           None \<Rightarrow> (None, dm_heap m)
         | Some s \<Rightarrow> (case svc_setServiceDescription (env_classes env) q (dm_heap m) s of (s', h) \<Rightarrow> (Some s', h)))
       = (service, heap)" by (rule prod.exhaust)
  assume "dm_addNewService env cls config q r m = Inr (m', out)"
  then show "dm_providers m' = dm_providers m"
    unfolding dm_addNewService_def s Let_def by (auto simp: rbind_Inr_iff)
qed

lemma keeps_start [keeps]: "keepsProviders (dm_startProviders env now)" "keepsProviders dm_stopProviders"
  using startProviders_ok stopProviders_ok
  by (fastforce simp: keepsProviders_def provs_ok_def dm_startProviders_def dm_stopProviders_def rbind_Inr_iff
      split: prod.splits)+

lemma keeps_handleAdd [keeps]: "keepsProviders (handleDeviceAdd r)"
proof -
  have "keepsProviders (andThen (dm_setCompatible r) (andThen (dm_tell DmSelFind (DmFound r)) (dm_tellPicker (PickerFound r))))"
    by (intro keeps_andThen keeps_tell keeps_compatible)
  then show ?thesis unfolding keepsProviders_def handleDeviceAdd_def by auto
qed

lemma keeps_handleLoss [keeps]: "keepsProviders (handleDeviceLoss r)"
  unfolding handleDeviceLoss_def by (intro keeps_andThen keeps_tell)

lemma keeps_handleUpdate [keeps]: "keepsProviders (handleDeviceUpdate t1 t2 r)"
proof -
  have "keepsProviders (andThen (dm_removeCompatible k) (handleDeviceLoss r))" for k
    by (intro keeps_andThen keeps_compatible keeps_handleLoss)
  moreover have "keepsProviders (andThen (dm_tell DmSelUpdate (DmUpdated r)) (dm_tellPicker (PickerUpdated r)))"
    by (intro keeps_andThen keeps_tell)
  moreover note keeps_handleAdd [of r]
  ultimately have "keepsProviders (\<lambda>m. if deviceIsCompatible r m
       then (if objectForKeyN (dm_compatible m) (dm_addressOf m r) \<noteq> None
             then andThen (dm_tell DmSelUpdate (DmUpdated r)) (dm_tellPicker (PickerUpdated r)) m
             else handleDeviceAdd r m)
       else andThen (dm_removeCompatible (dm_addressOf m r)) (handleDeviceLoss r) m)"
    unfolding keepsProviders_def by auto
  then show ?thesis unfolding handleDeviceUpdate_def by (intro keeps_andThen keeps_storeUpdate)
qed

lemma keeps_addServiceDescription [keeps]: "keepsProviders (addServiceDescription env now q r)"
proof -
  have add: "keepsProviders (dm_addNewService env cls config q r)"
    "keepsProviders (andThen (dm_removeService env sid r) (dm_addNewService env cls config q r))" for cls config sid
    by (intro keeps_andThen keeps_services keeps_addNewService)+
  show ?thesis
    unfolding keepsProviders_def addServiceDescription_def Let_def
    by (auto simp: rbind_Inr_iff split: if_split_asm bool.split_asm prod.split_asm
        dest: keeps_dest [OF _ add(1)] keeps_dest [OF _ add(2)] keeps_dest [OF _ keeps_refreshService])
qed

lemma deviceForDescription_providers:
  assumes "dm_deviceForDescription q m = Inr (m1, r, new)"
  shows "dm_providers m1 = dm_providers m"
proof (cases "objectForKeyN (dm_all m) (sd_address (dm_heap m q))")
  case (Some s)
  with assms show ?thesis by (simp add: dm_deviceForDescription_def)
next
  case None
  obtain m2 found where restore: "(case (dm_useDeviceStore m, dm_store m) of
        (True, Some st) \<Rightarrow> rbind (deviceForId (sd_UUID (dm_heap m q)) (dm_world m) st) (\<lambda>(found, w, st').
             Inr (m\<lparr>dm_world := w, dm_store := Some st'\<rparr>, found))
      | _ \<Rightarrow> Inr (m, None)) = Inr (m2, found)"
    and new: "(case found of
        Some r \<Rightarrow> rbind (setObjectN r (sd_address (dm_heap m q)) (dm_all m2)) (\<lambda>a. Inr (m2\<lparr>dm_all := a\<rparr>, r, True))
      | None \<Rightarrow> (let w = dm_world m2; r = Suc (w_next w) in
          case cd_initWithDescription (w_next w) (Some q) (w_sd w) of (d, heap) \<Rightarrow>
          rbind (setObjectN r (sd_address (dm_heap m q)) (dm_all m2)) (\<lambda>a.
            Inr (m2\<lparr>dm_world := w\<lparr>w_sd := heap, w_dev := (w_dev w)(r := d), w_next := Suc r\<rparr>,
                   dm_all := a\<rparr>, r, True)))) = Inr (m1, r, new)"
    using assms None unfolding dm_deviceForDescription_def Let_def by (auto simp only: option.case rbind_Inr_iff split_paired_all prod.case)
  have "dm_providers m2 = dm_providers m"
    using restore by (cases "dm_useDeviceStore m"; cases "dm_store m") (auto simp: rbind_Inr_iff)
  moreover have "dm_providers m1 = dm_providers m2"
    using new by (cases found) (auto simp: rbind_Inr_iff Let_def split: prod.split_asm)
  ultimately show ?thesis by simp
qed

lemma keeps_find [keeps]: "keepsProviders (dm_didFindService env now t2 q)"
proof -
  have rest: "keepsProviders (\<lambda>m. if dev_services (dm_world m) r = []
       then rbind (removeObjectForKeyN a (dm_all m)) (\<lambda>d. Inr (m\<lparr>dm_all := d\<rparr>, []))
       else if new then handleDeviceAdd r m else handleDeviceUpdate now t2 r m)" for r a new
  proof -
    have "keepsProviders (\<lambda>m. rbind (removeObjectForKeyN a (dm_all m)) (\<lambda>d. Inr (m\<lparr>dm_all := d\<rparr>, [])))"
      by (rule keeps_same) (auto simp: rbind_Inr_iff)
    with keeps_handleAdd [of r] keeps_handleUpdate [of now t2 r] show ?thesis by (simp add: keepsProviders_def)
  qed
  have "provs_ok m'" if f: "dm_didFindService env now t2 q m0 = Inr (m', out)" and ok: "provs_ok m0" for m0 m' out
  proof -
    obtain m1 r new where dev: "dm_deviceForDescription q m0 = Inr (m1, r, new)"
      using f by (auto simp: dm_didFindService_def rbind_Inr_iff)
    have ok1: "provs_ok (dm_setDevice r d heap m1)" for d heap
      using ok deviceForDescription_providers [OF dev] by (simp add: provs_ok_def)
    from f dev keeps_dest [OF _ keeps_andThen [OF keeps_addServiceDescription rest] ok1] show ?thesis
      unfolding dm_didFindService_def Let_def by simp
  qed
  then show ?thesis unfolding keepsProviders_def by blast
qed

lemma keeps_lose [keeps]: "keepsProviders (dm_didLoseService env now t2 q)"
proof -
  have rest: "keepsProviders (\<lambda>m. if \<not> hasServices (dm_device m r)
       then rbind (removeObjectForKeyN a (dm_all m)) (\<lambda>d.
              andThen (dm_removeCompatible a) (handleDeviceLoss r) (m\<lparr>dm_all := d\<rparr>))
       else handleDeviceUpdate now t2 r m)" for r a
  proof -
    have l: "keepsProviders (andThen (dm_removeCompatible a) (handleDeviceLoss r))"
      by (intro keeps_andThen keeps_compatible keeps_handleLoss)
    have "provs_ok m'" if "rbind (removeObjectForKeyN a (dm_all m)) (\<lambda>d.
        andThen (dm_removeCompatible a) (handleDeviceLoss r) (m\<lparr>dm_all := d\<rparr>)) = Inr (m', out)" "provs_ok m" for m m' out
      using that keeps_dest [OF _ l] by (auto simp: rbind_Inr_iff provs_ok_def)
    with keeps_dest [OF _ keeps_handleUpdate [of now t2 r]] show ?thesis
      unfolding keepsProviders_def by (metis (no_types, lifting))
  qed
  show ?thesis
    unfolding keepsProviders_def dm_didLoseService_def Let_def
    by (auto split: option.split_asm dest: keeps_dest [OF _ keeps_andThen [OF keeps_services(2) rest]])
qed

lemma keeps_report [keeps]: "keepsProviders (dm_report env now t2 r)"
proof (cases r)
  case (DidFindService sd)
  have "provs_ok (dm_newDescription sd m) = provs_ok m" for m by (simp add: provs_ok_def dm_newDescription_def)
  with DidFindService show ?thesis unfolding keepsProviders_def by (auto dest: keeps_dest [OF _ keeps_find])
next
  case (DidLoseService sd)
  have "provs_ok (dm_newDescription sd m) = provs_ok m" for m by (simp add: provs_ok_def dm_newDescription_def)
  with DidLoseService show ?thesis unfolding keepsProviders_def by (auto dest: keeps_dest [OF _ keeps_lose])
qed (auto simp: keepsProviders_def)

lemma keeps_register [keeps]: "keepsProviders (registerDeviceService env c d)"
proof -
  have "provs_ok m'" if r: "registerWithFactory env c (prov_new d) m = Inr (m', out)" and ok: "provs_ok m" for m m' out
  proof (cases "env_isService env c")
    case True
    define ps where "ps = (case findIndex (\<lambda>p. prov_isSubclass (prov_class p) (prov_class (prov_new d))) 0 (dm_providers m) of
        Some i \<Rightarrow> dm_providers m | None \<Rightarrow> dm_providers m @ [prov_setDelegate (prov_new d)])"
    have ps: "list_all prov_ok ps"
      using ok prov_new_ok by (simp add: ps_def provs_ok_def split: option.split)
    have step: "list_all prov_ok (ps[i := p])" if "prov_addDeviceFilter f (ps ! i) = Inr p" for i p f
    proof (cases "i < length ps")
      case True
      then have "prov_ok p" using ps that by (auto simp: list_all_length intro: prov_filter_ok)
      with ps show ?thesis by (auto simp: list_all_iff dest: set_update_subset_insert [THEN subsetD])
    qed (use ps in \<open>simp add: list_update_beyond\<close>)
    from r True show ?thesis
      by (auto simp: registerWithFactory_def Let_def rbind_Inr_iff ps_def [symmetric] provs_ok_def intro: step)
  qed (use r ok in \<open>auto simp: registerWithFactory_def\<close>)
  then show ?thesis unfolding keepsProviders_def registerDeviceService_def by auto
qed

lemma keeps_registerDefault [keeps]: "keepsProviders (registerDefaultServices env)"
  unfolding registerDefaultServices_def by (rule keeps_forEach) (simp add: keeps_register split: prod.split)

lemma keeps_control [keeps]: "keepsProviders (dm_control env c)"
proof -
  have after: "keepsProviders (\<lambda>m. andThen (dm_startProviders env now) (\<lambda>m2. Inr (h m2, [])) (g m))"
    if "\<And>m. dm_providers (h m) = dm_providers m" "\<And>m. dm_providers (g m) = dm_providers m" for now h g
    using that keeps_andThen [OF keeps_start(1) keeps_noOp(3) [of h "\<lambda>_. []"]] keeps_before by blast
  have start: "keepsProviders (dm_startDiscovery env now)" for now
  proof -
    have "keepsProviders (andThen (if b then registerDefaultServices env else noOp)
        (\<lambda>m1. andThen (dm_startProviders env now)
           (\<lambda>m2. Inr (m2\<lparr>dm_notifier := startListening (dm_notifier m2)\<rparr>, [])) (m1\<lparr>dm_searching := True\<rparr>)))" for b
      by (rule keeps_andThen) (auto intro: keeps_registerDefault keeps_noOp after)
    from keeps_dest [OF _ this] show ?thesis
      unfolding keepsProviders_def dm_startDiscovery_def by (metis (no_types, lifting) Inr_inject prod.inject)
  qed
  have stop: "keepsProviders dm_stopDiscovery"
  proof -
    have "keepsProviders (andThen dm_stopProviders
        (\<lambda>m1. Inr (if \<not> dm_shouldResumeSearch m1 then m1\<lparr>dm_notifier := stopListening (dm_notifier m1)\<rparr> else m1, [])))"
      by (intro keeps_andThen keeps_start keeps_noOp(3)) simp
    from keeps_dest [OF _ this] show ?thesis
      unfolding keepsProviders_def dm_stopDiscovery_def provs_ok_def by (auto split: if_split_asm)
  qed
  have pause: "keepsProviders dm_pauseDiscovery" "keepsProviders (dm_resumeDiscovery env now)" for now
    using keeps_dest [OF _ keeps_start(1)] keeps_dest [OF _ keeps_start(2)]
    unfolding keepsProviders_def dm_pauseDiscovery_def dm_resumeDiscovery_def stopSSIDTimer_def startSSIDTimer_def
      Let_def provs_ok_def
    by (auto split: if_split_asm)
  show ?thesis using start stop pause by (cases c) simp_all
qed

lemma keeps_filters [keeps]: "keepsProviders (setCapabilityFilters fs)"
proof -
  have build: "keepsProviders (\<lambda>m. if deviceIsCompatible r m
      then andThen (dm_setCompatible r) (dm_tell DmSelFind (DmFound r)) m else Inr (m, []))" for r
    using keeps_andThen [OF keeps_compatible(1) [of r] keeps_tell(1) [of DmSelFind "DmFound r"]]
    by (auto simp: keepsProviders_def)
  have rebuild: "keepsProviders (\<lambda>m. forEach (\<lambda>r m. if deviceIsCompatible r m
      then andThen (dm_setCompatible r) (dm_tell DmSelFind (DmFound r)) m else Inr (m, []))
      (allValues (dm_all m)) (m\<lparr>dm_compatible := []\<rparr>))"
    using keeps_dest [OF _ keeps_forEach [OF build]] unfolding keepsProviders_def provs_ok_def by fastforce
  have "keepsProviders (andThen (forEach (\<lambda>r. dm_tell DmSelLose (DmLost r)) rs)
     (\<lambda>m. forEach (\<lambda>r m. if deviceIsCompatible r m
      then andThen (dm_setCompatible r) (dm_tell DmSelFind (DmFound r)) m else Inr (m, []))
      (allValues (dm_all m)) (m\<lparr>dm_compatible := []\<rparr>)))" for rs
    by (intro keeps_andThen keeps_forEach keeps_tell rebuild)
  from keeps_dest [OF _ this] show ?thesis
    unfolding keepsProviders_def setCapabilityFilters_def provs_ok_def by fastforce
qed

lemma keeps_network [keeps]: "keepsProviders (detectSSIDChange env f now ssid)"
proof -
  have purge: "keepsProviders (purgeDeviceList env now)"
  proof -
    have "keepsProviders (andThen (forEach (\<lambda>r. andThen (dm_disconnectDevice env r)
         (andThen (dm_tell DmSelLose (DmLost r)) (andThen devicePicker (dm_tellPicker (PickerLost r))))) rs)
       (andThen dm_stopProviders (andThen (dm_startProviders env now)
         (\<lambda>m. Inr (m\<lparr>dm_all := [], dm_compatible := []\<rparr>, [])))))" for rs
      by (intro keeps_andThen keeps_forEach keeps_tell keeps_services keeps_start keeps_noOp(3)) simp
    from keeps_dest [OF _ this] show ?thesis unfolding keepsProviders_def purgeDeviceList_def by blast
  qed
  have "keepsProviders (andThen (purgeDeviceList env now) (\<lambda>m'. Inr (m'\<lparr>dm_currentSSID := Some n\<rparr>, [PostSSIDChanged])))" for n
    by (intro keeps_andThen purge keeps_noOp(3)) simp
  from keeps_dest [OF _ this] show ?thesis
    unfolding keepsProviders_def detectSSIDChange_def Let_def by (auto simp: provs_ok_def split: option.split_asm if_split_asm)
qed

lemma perform_provs_ok:
  assumes "dm_perform env msg m = Inr (m', out)" "provs_ok m" shows "provs_ok m'"
proof (cases msg)
  case MsgRegisterDefaultServices
  with assms keeps_dest [OF _ keeps_registerDefault] show ?thesis by simp
next
  case (MsgRegisterDeviceService c d)
  with assms keeps_dest [OF _ keeps_register] show ?thesis by simp
next
  case (MsgSetCapabilityFilters fs)
  with assms keeps_dest [OF _ keeps_filters] show ?thesis by simp
next
  case (MsgStartDiscovery now)
  with assms keeps_dest [OF _ keeps_control [of env "CtlStart now"]] show ?thesis by simp
next
  case MsgStopDiscovery
  with assms keeps_dest [OF _ keeps_control [of env CtlStop]] show ?thesis by simp
qed (use assms in \<open>auto simp: provs_ok_def setPairingLevel_def unregisterDeviceService_def devicePicker_def
    dm_setDeviceStore_def rbind_Inr_iff split: if_split_asm option.split_asm\<close>)

lemma step_provs_ok: "dm_step env m m' \<Longrightarrow> provs_ok m \<Longrightarrow> provs_ok m'"
proof (induction rule: dm_step.induct)
  case (message msg m m' out)
  then show ?case using perform_provs_ok by blast
next
  case (found now t2 m sd m' out)
  have "provs_ok (dm_newDescription sd m)" using found(2) by (simp add: provs_ok_def dm_newDescription_def)
  with found(1) keeps_dest [OF _ keeps_find] show ?case by blast
next
  case (capabilities m k r t1 t2 m' out)
  then show ?case using keeps_dest [OF _ keeps_handleUpdate] by (simp add: dm_capabilitiesChanged_def)
qed (blast dest: keeps_dest [OF _ keeps_lose] keeps_dest [OF _ keeps_network] keeps_dest [OF _ keeps_control])+

section \<open>The system keeps its invariant\<close>

definition sys_ok :: "discoverySystem \<Rightarrow> bool" where
  "sys_ok s \<longleftrightarrow> dm_ok (sys_manager s) \<and> provs_ok (sys_manager s)"

lemma setProvider_ok:
  assumes "dm_ok m" "provs_ok m" "prov_ok p" shows "dm_ok (dm_setProvider i p m) \<and> provs_ok (dm_setProvider i p m)"
proof
  show "dm_ok (dm_setProvider i p m)"
    using assms(1) by (rule sameDevices_ok [rotated]) (simp add: sameDevices_def dm_setProvider_def)
  show "provs_ok (dm_setProvider i p m)"
    using assms(2,3) by (auto simp: provs_ok_def dm_setProvider_def list_all_iff dest: set_update_subset_insert [THEN subsetD])
qed

lemma provider_ok: "provs_ok m \<Longrightarrow> i < length (dm_providers m) \<Longrightarrow> prov_ok (dm_providers m ! i)"
  by (simp add: provs_ok_def list_all_length)

lemma sys_ssdp_ok:
  assumes h: "sys_ssdp env hostOf i e s = Inr s'" and ok: "sys_ok s" shows "sys_ok s'"
proof (cases "i < length (dm_providers (sys_manager s)) \<and> (\<exists>p. dm_providers (sys_manager s) ! i = Ssdp p)")
  case True
  then obtain p where p: "dm_providers (sys_manager s) ! i = Ssdp p" "prov_ok (Ssdp p)"
    using ok provider_ok unfolding sys_ok_def by metis
  with h True obtain p' out where e: "ssdp_handle (env_platform env) hostOf e p = Inr (p', out)"
    and s': "s' = s\<lparr>sys_manager := dm_setProvider i (Ssdp p') (sys_manager s),
                   sys_mainQueue := sys_mainQueue s @ reportsOf (map FromSsdp out)\<rparr>"
    by (auto simp: sys_ssdp_def rbind_Inr_iff)
  have "prov_ok (Ssdp p')" using ssdp_handle_inv [OF e] p(2) by simp
  with ok setProvider_ok show ?thesis by (simp add: sys_ok_def s')
next
  case False
  with h ok show ?thesis by (auto simp: sys_ssdp_def split: if_split_asm DiscoveryProvider.split_asm)
qed

context described_classes
begin

lemma report_ok:
  assumes env: "env_classes env = ct" and r: "dm_report env now t2 rep m = Inr (m', out)" and ok: "dm_ok m \<and> provs_ok m"
  shows "dm_ok m' \<and> provs_ok m'"
proof (cases rep)
  case (DidFindService sd)
  from r have "dm_ok m'" using find_ok [OF env] ok unfolding DidFindService dm_report.simps by blast
  with ok keeps_dest [OF r keeps_report] show ?thesis by simp
next
  case (DidLoseService sd)
  have "dm_ok (dm_newDescription sd m)" using ok newDescription_lists by (simp add: dm_ok_def)
  with DidLoseService r ok lose_ok keeps_dest [OF r keeps_report] show ?thesis by fastforce
qed (use r ok in simp)

lemma reports_ok:
  assumes env: "env_classes env = ct"
  shows "forEach (dm_report env now t2) rs m = Inr (m', out) \<Longrightarrow> dm_ok m \<and> provs_ok m \<Longrightarrow> dm_ok m' \<and> provs_ok m'"
proof (induction rs arbitrary: m out)
  case (Cons r rs)
  then obtain m1 o1 o2 where "dm_report env now t2 r m = Inr (m1, o1)" "forEach (dm_report env now t2) rs m1 = Inr (m', o2)"
    by (auto simp: andThen_Inr_iff)
  with Cons.IH Cons.prems(2) report_ok [OF env] show ?case by blast
qed (simp add: noOp_def)

lemma sys_zeroconf_ok:
  assumes env: "env_classes env = ct" and h: "sys_zeroconf env now t2 i e s = Inr (s', out)" and ok: "sys_ok s"
  shows "sys_ok s'"
proof (cases "i < length (dm_providers (sys_manager s)) \<and> (\<exists>p. dm_providers (sys_manager s) ! i = ZeroConf p)")
  case True
  then obtain p where p: "dm_providers (sys_manager s) ! i = ZeroConf p" "prov_ok (ZeroConf p)"
    using ok provider_ok unfolding sys_ok_def by metis
  with h True obtain p' o1 m o2 where e: "zc_handle e p = Inr (p', o1)"
    and f: "forEach (dm_report env now t2) (reportsOf (map FromZeroConf o1)) (dm_setProvider i (ZeroConf p') (sys_manager s))
      = Inr (m, o2)" and s': "s' = s\<lparr>sys_manager := m\<rparr>"
    by (auto simp: sys_zeroconf_def rbind_Inr_iff)
  have "prov_ok (ZeroConf p')" using zc_handle_inv [OF e] p(2) by simp
  with ok setProvider_ok reports_ok [OF env f] show ?thesis by (simp add: sys_ok_def s')
next
  case False
  with h ok show ?thesis by (auto simp: sys_zeroconf_def split: if_split_asm DiscoveryProvider.split_asm)
qed

lemma sys_step_ok:
  assumes env: "env_classes env = ct" and "sys_step env hostOf s s'" "sys_ok s" shows "sys_ok s'"
  using assms(2)
proof cases
  case (manager m)
  with assms(3) step_ok [OF env] step_provs_ok show ?thesis by (simp add: sys_ok_def)
next
  case (ssdp e i)
  with assms(3) sys_ssdp_ok show ?thesis by blast
next
  case (zeroconf e now t2 i out)
  with assms(3) sys_zeroconf_ok [OF env] show ?thesis by blast
next
  case (main now t2 out)
  show ?thesis
  proof (cases "sys_mainQueue s")
    case (Cons r rs)
    with main obtain m where "dm_report env now t2 r (sys_manager s) = Inr (m, out)" "sys_manager s' = m"
      by (auto simp: sys_main_def rbind_Inr_iff)
    with report_ok [OF env] assms(3) show ?thesis by (simp add: sys_ok_def)
  qed (use main assms(3) in \<open>simp add: sys_main_def\<close>)
qed

lemma sys_reach_ok:
  assumes env: "env_classes env = ct" shows "sys_reach env hostOf s \<Longrightarrow> sys_ok s"
proof (induction rule: sys_reach.induct)
  case (start w)
  have "dm_ok (dm_init w)" by (rule empty_ok) (simp_all add: dm_init_def startSSIDTimer_def)
  then show ?case by (simp add: sys_ok_def provs_ok_def dm_init_def startSSIDTimer_def)
next
  case (step s s')
  with sys_step_ok [OF env] show ?case by blast
qed

end




end
