(* ===== verification/ServiceMessages.thy ===== *)
theory ServiceMessages
  imports ConnectableDevice
begin

text \<open>
  The interface of \<open>src/Services/DeviceService.h\<close> as messages to a service, and what they promise to the delegate
  of the service about its capabilities.
\<close>

section \<open>Messages\<close>

text \<open>
  One constructor per method and writable property of the class. What a subclass overrides is looked up in the
  class table; \<open>requiresPairing\<close>, \<open>pairingData\<close> and \<open>pairWithData:\<close> are those of the base class.
\<close>

datatype svcMessage =
    SvcSetDelegate "svcDelegate option"
  | SvcServiceName
  | SvcCapabilities
  | SvcSetCapabilities "string list"
  | SvcUpdateCapabilities
  | SvcAddCapability string
  | SvcAddCapabilities "string list"
  | SvcRemoveCapability string
  | SvcRemoveCapabilities "string list"
  | SvcHasCapability string
  | SvcHasCapabilities "string list"
  | SvcHasAnyCapability "string list"
  | SvcConnected
  | SvcIsConnectable
  | SvcConnect
  | SvcDisconnect
  | SvcRequiresPairing
  | SvcSetPairingType DeviceServicePairingType
  | SvcPairingData
  | SvcPairWithData "json option"
  | SvcCloseLaunchSession "LaunchSession option"

datatype svcReply =
    SvcVoid
  | SvcNil
  | SvcString "string option"
  | SvcBool bool
  | SvcStrings "string list"
  | SvcClosed closeOutcome

definition svc_answer :: "svcReply \<Rightarrow> DeviceService \<Rightarrow> DeviceService \<times> svcEvent list \<times> svcReply" where
  "svc_answer reply s = (s, [], reply)"

definition svc_act :: "DeviceService \<times> svcEvent list \<Rightarrow> DeviceService \<times> svcEvent list \<times> svcReply" where
  "svc_act r = (fst r, snd r, SvcVoid)"

fun svc_perform ::
  "classTable \<Rightarrow> sdHeap \<Rightarrow> svcMessage \<Rightarrow> DeviceService \<Rightarrow> DeviceService \<times> svcEvent list \<times> svcReply" where
  "svc_perform ct h (SvcSetDelegate d) s = svc_answer SvcVoid (s\<lparr>svc_delegate := d\<rparr>)"
| "svc_perform ct h SvcServiceName s = svc_answer (SvcString (serviceName h s)) s"
| "svc_perform ct h SvcCapabilities s = svc_answer (SvcStrings (svc_capabilities s)) s"
| "svc_perform ct h (SvcSetCapabilities cs) s = svc_act (svc_setCapabilities cs s)"
| "svc_perform ct h SvcUpdateCapabilities s =
     (if svc_class s = ''DeviceService'' then svc_answer SvcVoid s
      else svc_act (svc_setCapabilities (cls_updateCapabilities (ct (svc_class s))) s))"
| "svc_perform ct h (SvcAddCapability c) s = svc_act (svc_addCapability c s)"
| "svc_perform ct h (SvcAddCapabilities cs) s = svc_act (svc_addCapabilities cs s)"
| "svc_perform ct h (SvcRemoveCapability c) s = svc_act (svc_removeCapability c s)"
| "svc_perform ct h (SvcRemoveCapabilities cs) s = svc_act (svc_removeCapabilities cs s)"
| "svc_perform ct h (SvcHasCapability c) s = svc_answer (SvcBool (svc_hasCapability s c)) s"
| "svc_perform ct h (SvcHasCapabilities cs) s = svc_answer (SvcBool (svc_hasCapabilities s cs)) s"
| "svc_perform ct h (SvcHasAnyCapability cs) s = svc_answer (SvcBool (svc_hasAnyCapability s cs)) s"
| "svc_perform ct h SvcConnected s = svc_answer (SvcBool (svc_connected s)) s"
| "svc_perform ct h SvcIsConnectable s = svc_answer (SvcBool (svc_isConnectable ct s)) s"
| "svc_perform ct h SvcConnect s = svc_act (svc_connect ct s)"
| "svc_perform ct h SvcDisconnect s = svc_act (svc_disconnect ct s)"
| "svc_perform ct h SvcRequiresPairing s = svc_answer (SvcBool (svc_pairingType s \<noteq> PairingTypeNone)) s"
| "svc_perform ct h (SvcSetPairingType t) s = svc_answer SvcVoid (cls_setPairingType (ct (svc_class s)) t s)"
| "svc_perform ct h SvcPairingData s = svc_answer SvcNil s"
| "svc_perform ct h (SvcPairWithData d) s = svc_answer SvcVoid s"
| "svc_perform ct h (SvcCloseLaunchSession l) s = svc_answer (SvcClosed (closeLaunchSession l)) s"

section \<open>A delegate that follows the reports\<close>

text \<open>
  The delegate keeps a set of capabilities and changes it as each report of a change says. \<open>svc_run\<close> collects the
  messages a service sends while it performs a list of messages.
\<close>

fun svc_run :: "classTable \<Rightarrow> sdHeap \<Rightarrow> svcMessage list \<Rightarrow> DeviceService \<Rightarrow> DeviceService \<times> svcEvent list" where
  "svc_run ct h [] s = (s, [])"
| "svc_run ct h (m # ms) s = (case svc_perform ct h m s of (s1, ev, reply) \<Rightarrow>
     case svc_run ct h ms s1 of (s2, ev') \<Rightarrow> (s2, ev @ ev'))"

fun mirror :: "svcEvent \<Rightarrow> string set \<Rightarrow> string set" where
  "mirror (CapabilitiesChanged added removed) m = (m - set removed) \<union> set added"
| "mirror _ m = m"

text \<open>A name that is neither empty nor a wildcard.\<close>

definition literalName :: "string \<Rightarrow> bool" where
  "literalName c \<longleftrightarrow> c \<noteq> [] \<and> rangeOfString c ''.Any'' = None"

fun literalMessage :: "svcMessage \<Rightarrow> bool" where
  "literalMessage (SvcSetDelegate d) = False"
| "literalMessage (SvcAddCapability c) = literalName c"
| "literalMessage (SvcAddCapabilities cs) = (\<forall>c\<in>set cs. literalName c)"
| "literalMessage (SvcRemoveCapability c) = literalName c"
| "literalMessage (SvcRemoveCapabilities cs) = (\<forall>c\<in>set cs. literalName c)"
| "literalMessage _ = True"

lemma caps_add_literal: "literalName c \<Longrightarrow> set (caps_add c caps) = insert c (set caps)"
  by (auto simp: caps_add_def literalName_def caps_hasCapability_plain)

lemma caps_remove_literal: "literalName c \<Longrightarrow> set (caps_remove c caps) = set caps - {c}"
  by (auto simp: caps_remove_def literalName_def caps_hasCapability_plain)

lemma caps_add_all_literal: "\<forall>c\<in>set cs. literalName c \<Longrightarrow> set (fold caps_add cs caps) = set caps \<union> set cs"
  by (induction cs arbitrary: caps) (auto simp: caps_add_literal)

lemma caps_remove_all_literal: "\<forall>c\<in>set cs. literalName c \<Longrightarrow> set (fold caps_remove cs caps) = set caps - set cs"
  by (induction cs arbitrary: caps) (auto simp: caps_remove_literal)

lemma set_collect_if: "set (fold (\<lambda>c acc. if P c then acc @ [c] else acc) cs acc) = set acc \<union> {c \<in> set cs. P c}"
  by (induction cs arbitrary: acc) auto

lemma fold_keeps:
  assumes "\<And>c t. f (g c t) = f t"
  shows "f (fold g cs s) = f s"
  using assms by (induction cs arbitrary: s) simp_all

lemma svc_capabilities_keep:
  "svc_delegate (fst (svc_setCapabilities cs s)) = svc_delegate s"
  "svc_delegate (fst (svc_addCapability c s)) = svc_delegate s"
  "svc_delegate (fst (svc_addCapabilities cs s)) = svc_delegate s"
  "svc_delegate (fst (svc_removeCapability c s)) = svc_delegate s"
  "svc_delegate (fst (svc_removeCapabilities cs s)) = svc_delegate s"
  "svc_class (fst (svc_setCapabilities cs s)) = svc_class s"
  "svc_class (fst (svc_addCapability c s)) = svc_class s"
  "svc_class (fst (svc_addCapabilities cs s)) = svc_class s"
  "svc_class (fst (svc_removeCapability c s)) = svc_class s"
  "svc_class (fst (svc_removeCapabilities cs s)) = svc_class s"
  by (simp_all add: svc_setCapabilities_def svc_addCapability_def svc_addCapabilities_def svc_removeCapability_def
      svc_removeCapabilities_def Let_def fold_keeps)

text \<open>
  What the subclass's own methods must keep: the capability list, the delegate and the class, without reporting a
  change of the list.
\<close>

definition class_keeps_capabilities :: "ServiceClass \<Rightarrow> bool" where
  "class_keeps_capabilities cls \<longleftrightarrow>
     (\<forall>s. \<forall>f\<in>{cls_connect cls, cls_disconnect cls} \<union>
            range (\<lambda>t s. (cls_setPairingType cls t s, [])).
        svc_capabilities (fst (f s)) = svc_capabilities s \<and> svc_delegate (fst (f s)) = svc_delegate s
      \<and> svc_class (fst (f s)) = svc_class s \<and> (\<forall>added removed. CapabilitiesChanged added removed \<notin> set (snd (f s))))"

lemma mirror_other: "\<forall>added removed. CapabilitiesChanged added removed \<notin> set ev \<Longrightarrow> fold mirror ev m = m"
proof (induction ev)
  case (Cons e ev)
  then have "mirror e m = m" by (cases e) auto
  with Cons show ?case by auto
qed simp

definition mirrors :: "classTable \<Rightarrow> sdHeap \<Rightarrow> svcMessage \<Rightarrow> DeviceService \<Rightarrow> bool" where
  "mirrors ct h m s \<longleftrightarrow> (case svc_perform ct h m s of (s', ev, reply) \<Rightarrow>
     fold mirror ev (set (svc_capabilities s)) = set (svc_capabilities s') \<and> svc_delegate s' = svc_delegate s \<and> svc_class s' = svc_class s)"

lemma svc_setCapabilities_mirrors:
  assumes "svc_responds (svc_delegate s) SelCapabilitiesAdded"
  shows "fold mirror (snd (svc_setCapabilities cs s)) (set (svc_capabilities s)) = set (svc_capabilities (fst (svc_setCapabilities cs s)))"
  using assms by (auto simp: svc_setCapabilities_def Let_def svc_tell_def set_collect_if)

lemma svc_change_mirrors:
  assumes "svc_responds (svc_delegate s) SelCapabilitiesAdded"
  shows "literalName c \<Longrightarrow> fold mirror (snd (svc_addCapability c s)) (set (svc_capabilities s)) = set (caps_add c (svc_capabilities s))"
    and "literalName c \<Longrightarrow> fold mirror (snd (svc_removeCapability c s)) (set (svc_capabilities s)) = set (caps_remove c (svc_capabilities s))"
    and "\<forall>c\<in>set cs. literalName c \<Longrightarrow> fold mirror (snd (svc_addCapabilities cs s)) (set (svc_capabilities s)) = set (fold caps_add cs (svc_capabilities s))"
    and "\<forall>c\<in>set cs. literalName c \<Longrightarrow> fold mirror (snd (svc_removeCapabilities cs s)) (set (svc_capabilities s)) = set (fold caps_remove cs (svc_capabilities s))"
  using assms
  by (auto simp: svc_addCapability_def svc_removeCapability_def svc_addCapabilities_def svc_removeCapabilities_def Let_def
      svc_tell_def caps_add_literal caps_remove_literal caps_add_all_literal caps_remove_all_literal fold_keeps
      svc_hasCapability_def caps_hasCapability_plain literalName_def)

lemma svc_perform_mirrors:
  assumes "svc_responds (svc_delegate s) SelCapabilitiesAdded" and "class_keeps_capabilities (ct (svc_class s))" and "literalMessage m"
  shows "mirrors ct h m s"
  using assms svc_setCapabilities_mirrors [of s] svc_change_mirrors [of s]
  by (cases m)
     (auto simp: mirrors_def svc_answer_def svc_act_def svc_capabilities_keep svc_connect_def svc_disconnect_def
        class_keeps_capabilities_def mirror_other)

text \<open>
  C15: A delegate that responds to capability changes and applies each reported difference to its own set always has
  exactly the capabilities of the service, whatever messages the service performs, if the reports arrive in the
  order they are made, added and removed names are not wildcards, and the subclass does not change the list itself.
\<close>

theorem svc_delegate_mirrors_capabilities:
  assumes "svc_responds (svc_delegate s) SelCapabilitiesAdded" and "class_keeps_capabilities (ct (svc_class s))"
    and "\<forall>m\<in>set ms. literalMessage m"
    and "svc_run ct h ms s = (s', ev)"
  shows "fold mirror ev (set (svc_capabilities s)) = set (svc_capabilities s')"
  using assms
proof (induction ms arbitrary: s ev)
  case (Cons m ms)
  obtain s1 ev1 reply where p: "svc_perform ct h m s = (s1, ev1, reply)" by (cases "svc_perform ct h m s")
  obtain ev2 where r: "svc_run ct h ms s1 = (s', ev2)" and ev: "ev = ev1 @ ev2"
    using Cons.prems(4) p by (auto split: prod.splits)
  have "mirrors ct h m s" using svc_perform_mirrors Cons.prems(1-3) by simp
  then have one: "fold mirror ev1 (set (svc_capabilities s)) = set (svc_capabilities s1)"
    and keep: "svc_delegate s1 = svc_delegate s" "svc_class s1 = svc_class s"
    using p by (auto simp: mirrors_def)
  have "fold mirror ev2 (set (svc_capabilities s1)) = set (svc_capabilities s')"
    using Cons.IH [OF _ _ _ r] Cons.prems(1-3) keep by simp
  with one ev show ?case by simp
qed simp

theorem svc_delegate_mirrors_capabilities_witness:
  "\<exists>s' ev. svc_run (\<lambda>_. DeviceService_class) (\<lambda>_. sd_new)
      [SvcSetCapabilities [''Launcher.App'', ''KeyControl.Up''], SvcRemoveCapability ''KeyControl.Up'', SvcAddCapability ''KeyControl.OK'']
      (sample_service\<lparr>svc_delegate := Some OwningDevice\<rparr>) = (s', ev)
     \<and> length ev = 3 \<and> fold mirror ev {} = {''Launcher.App'', ''KeyControl.OK''}"
proof -
  let ?s = "sample_service\<lparr>svc_delegate := Some OwningDevice\<rparr>" and ?ct = "\<lambda>_. DeviceService_class"
  let ?ms = "[SvcSetCapabilities [''Launcher.App'', ''KeyControl.Up''], SvcRemoveCapability ''KeyControl.Up'', SvcAddCapability ''KeyControl.OK'']"
  obtain s' ev where r: "svc_run ?ct (\<lambda>_. sd_new) ?ms ?s = (s', ev)" by (cases "svc_run ?ct (\<lambda>_. sd_new) ?ms ?s")
  have 1: "svc_responds (svc_delegate ?s) SelCapabilitiesAdded" by simp
  have 2: "class_keeps_capabilities (?ct (svc_class ?s))"
    by (auto simp: class_keeps_capabilities_def DeviceService_class_def)
  have names: "rangeOfString ''KeyControl.Up'' ''.Any'' = None" "rangeOfString ''KeyControl.OK'' ''.Any'' = None"
    by (simp_all add: rangeOfString_def hasPrefix_def)
  have 3: "\<forall>m\<in>set ?ms. literalMessage m" using names by (simp add: literalName_def)
  have caps: "svc_capabilities ?s = []"
    by (simp add: sample_service_def svc_initWithServiceConfig_def DeviceService_class_def)
  have "set (svc_capabilities s') = {''Launcher.App'', ''KeyControl.OK''} \<and> length ev = 3"
    using r names by (auto simp: svc_act_def svc_setCapabilities_def svc_removeCapability_def svc_addCapability_def Let_def
        svc_tell_def svc_hasCapability_def caps_hasCapability_plain)
  with r caps svc_delegate_mirrors_capabilities [OF 1 2 3 r] show ?thesis by auto
qed

text \<open>
  \<open>setCapabilities:\<close> dispatches its report to the main queue while \<open>addCapability:\<close> calls the delegate directly, so
  that the later report can arrive first; the delegate is then left with a wrong set.
\<close>

lemma svc_reports_can_overtake:
  fixes s :: DeviceService
  assumes "svc_capabilities s = [''A'']" and "svc_responds (svc_delegate s) SelCapabilitiesAdded"
    and "svc_setCapabilities [''B''] s = (s1, dispatched)" and "svc_addCapability ''A'' s1 = (s2, direct)"
  shows "set (svc_capabilities s2) = {''A'', ''B''} \<and> fold mirror (direct @ dispatched) (set (svc_capabilities s)) = {''B''}"
proof -
  have "rangeOfString ''A'' ''.Any'' = None" by (simp add: rangeOfString_def hasPrefix_def)
  then show ?thesis
    using assms
    by (auto simp: svc_setCapabilities_def svc_addCapability_def Let_def svc_tell_def svc_hasCapability_def caps_hasCapability_plain)
qed

end
