(* ===== verification/Commands.thy ===== *)
theory Commands
  imports Json
begin

text \<open>
  \<open>Services/Commands\<close>: a command with its callbacks, the asynchronous command, and the subscription,
  which collects success and failure blocks and keeps the call id its delegate assigns.

  Blocks are compared by identity and are named by numbers. A callback property is \<open>Block b\<close>, the
  block the client set, or \<open>CallEach bs\<close>, the block the subscription builds over a snapshot of its list.
\<close>

section \<open>Commands\<close>

datatype callback = Block nat | CallEach "nat list"

datatype cmdSelector = SelSendCommand | SelSendSubscription | SelSendAsync

datatype ServiceSubscriptionType = SubscriptionTypeUnsubscribe | SubscriptionTypeSubscribe

text \<open>What a delegate receives.\<close>

datatype cmdMessage =
    SendCommand "json option" "string option"
  | SendAsync "json option" "string option"
  | SendSubscription ServiceSubscriptionType "json option" "string option" int

text \<open>
  The delegate: the selectors it implements and the call id its \<open>sendSubscription:\<close> answers.
\<close>

record cmdDelegate =
  del_selectors :: "cmdSelector list"
  del_callId :: "cmdMessage \<Rightarrow> int"

record ServiceCommand =
  cmd_delegate :: "cmdDelegate option"
  cmd_callbackComplete :: "callback option"
  cmd_callbackError :: "callback option"
  cmd_HTTPMethod :: string
  cmd_payload :: "json option"
  cmd_target :: "string option"

definition cmd_responds :: "cmdDelegate option \<Rightarrow> cmdSelector \<Rightarrow> bool" where
  "cmd_responds d sel = (case d of None \<Rightarrow> False | Some d' \<Rightarrow> sel \<in> set (del_selectors d'))"

definition commandWithDelegate ::
  "cmdDelegate option \<Rightarrow> string option \<Rightarrow> json option \<Rightarrow> ServiceCommand" where
  "commandWithDelegate d target payload = \<lparr>cmd_delegate = d, cmd_callbackComplete = None,
     cmd_callbackError = None, cmd_HTTPMethod = ''POST'', cmd_payload = payload, cmd_target = target\<rparr>"

definition cmd_send :: "'a ServiceCommand_scheme \<Rightarrow> cmdMessage list" where
  "cmd_send c = (if cmd_responds (cmd_delegate c) SelSendCommand
     then [SendCommand (cmd_payload c) (cmd_target c)] else [])"

definition async_send :: "'a ServiceCommand_scheme \<Rightarrow> cmdMessage list" where
  "async_send c = (if cmd_responds (cmd_delegate c) SelSendAsync
     then [SendAsync (cmd_payload c) (cmd_target c)] else [])"

definition cmd_clone :: "ServiceCommand \<Rightarrow> ServiceCommand" where
  "cmd_clone c = (commandWithDelegate (cmd_delegate c) (cmd_target c) (cmd_payload c))
     \<lparr>cmd_callbackComplete := cmd_callbackComplete c, cmd_callbackError := cmd_callbackError c\<rparr>"

text \<open>The blocks that run, in order, when a callback property is called; calling nil runs nothing.\<close>

fun runCallback :: "callback option \<Rightarrow> nat list" where
  "runCallback None = []"
| "runCallback (Some (Block b)) = [b]"
| "runCallback (Some (CallEach bs)) = bs"

section \<open>Subscriptions\<close>

record ServiceSubscription = ServiceCommand +
  sub_callId :: int
  sub_successCalls :: "nat list option"
  sub_failureCalls :: "nat list option"
  sub_isSubscribed :: bool

definition sub_init :: "cmdDelegate option \<Rightarrow> string option \<Rightarrow> json option \<Rightarrow> ServiceSubscription" where
  "sub_init d target payload =
     ServiceCommand.extend ((commandWithDelegate d target payload)\<lparr>cmd_target := target\<rparr>)
       (ServiceSubscription.fields (- 1) None None False)"

definition subscriptionWithDelegate ::
  "cmdDelegate option \<Rightarrow> string option \<Rightarrow> json option \<Rightarrow> int \<Rightarrow> ServiceSubscription" where
  "subscriptionWithDelegate d url payload callId = (sub_init d url payload)\<lparr>sub_callId := callId\<rparr>"

text \<open>A list property that may be nil, with a block appended unless it is nil or already there.\<close>

definition collectBlock :: "nat option \<Rightarrow> nat list option \<Rightarrow> nat list" where
  "collectBlock b calls = (let calls' = (case calls of None \<Rightarrow> [] | Some bs \<Rightarrow> bs) in
     (case b of None \<Rightarrow> calls' | Some b' \<Rightarrow> if b' \<in> set calls' then calls' else calls' @ [b']))"

definition addSuccess :: "nat option \<Rightarrow> ServiceSubscription \<Rightarrow> ServiceSubscription" where
  "addSuccess success s = (let calls = collectBlock success (sub_successCalls s) in
     s\<lparr>sub_successCalls := Some calls, cmd_callbackComplete := Some (CallEach calls)\<rparr>)"

definition addFailure :: "nat option \<Rightarrow> ServiceSubscription \<Rightarrow> ServiceSubscription" where
  "addFailure failure s = (let calls = collectBlock failure (sub_failureCalls s) in
     s\<lparr>sub_failureCalls := Some calls, cmd_callbackError := Some (CallEach calls)\<rparr>)"

definition sub_sendType ::
  "ServiceSubscriptionType \<Rightarrow> ServiceSubscription \<Rightarrow> ServiceSubscription \<times> cmdMessage list" where
  "sub_sendType t s = (case cmd_delegate s of
      None \<Rightarrow> (s, [])
    | Some d \<Rightarrow>
        if SelSendSubscription \<in> set (del_selectors d)
        then (let m = SendSubscription t (cmd_payload s) (cmd_target s) (sub_callId s) in
              (s\<lparr>sub_callId := del_callId d m, sub_isSubscribed := (t = SubscriptionTypeSubscribe)\<rparr>, [m]))
        else (s, []))"

definition subscribe :: "ServiceSubscription \<Rightarrow> ServiceSubscription \<times> cmdMessage list" where
  "subscribe s = sub_sendType SubscriptionTypeSubscribe s"

definition unsubscribe :: "ServiceSubscription \<Rightarrow> ServiceSubscription \<times> cmdMessage list" where
  "unsubscribe s = (case sub_sendType SubscriptionTypeUnsubscribe s of (s', ms) \<Rightarrow>
     (s'\<lparr>sub_successCalls := None, sub_failureCalls := None\<rparr>, ms))"

definition sub_cancel :: "ServiceSubscription \<Rightarrow> ServiceSubscription \<times> cmdMessage list" where
  "sub_cancel s = unsubscribe s"

definition sub_clone :: "ServiceSubscription \<Rightarrow> ServiceSubscription" where
  "sub_clone s = subscriptionWithDelegate (cmd_delegate s) (cmd_target s) (cmd_payload s) (sub_callId s)"

section \<open>Properties\<close>

text \<open>The first occurrence of each element, in order.\<close>

fun firsts :: "'a list \<Rightarrow> 'a list" where
  "firsts [] = []"
| "firsts (x # xs) = x # filter (\<lambda>y. y \<noteq> x) (firsts xs)"

lemma firsts_props [simp]: "set (firsts xs) = set xs" "distinct (firsts xs)"
  by (induction xs) auto

lemma firsts_snoc: "firsts (xs @ [x]) = (if x \<in> set xs then firsts xs else firsts xs @ [x])"
  by (induction xs) auto

text \<open>The blocks a sequence of additions leaves, some of them nil.\<close>

definition givenBlocks :: "nat option list \<Rightarrow> nat list" where
  "givenBlocks bs = map the (filter (\<lambda>b. b \<noteq> None) bs)"

lemma collectBlock_firsts:
  "collectBlock b (if bs = [] then None else Some (firsts (givenBlocks bs))) = firsts (givenBlocks (bs @ [b]))"
  by (cases b) (auto simp: collectBlock_def givenBlocks_def firsts_snoc)

lemma addSuccess_run:
  assumes "sub_successCalls s = None"
  shows "sub_successCalls (fold addSuccess bs s)
    = (if bs = [] then None else Some (firsts (givenBlocks bs)))"
proof (induction bs rule: rev_induct)
  case Nil
  then show ?case using assms by simp
next
  case (snoc b bs)
  then show ?case by (simp add: addSuccess_def Let_def collectBlock_firsts [symmetric])
qed

lemma callback_snapshot:
  "bs \<noteq> [] \<Longrightarrow> cmd_callbackComplete (fold addSuccess bs s)
    = map_option CallEach (sub_successCalls (fold addSuccess bs s))"
  by (cases bs rule: rev_cases) (simp_all add: addSuccess_def Let_def)

lemmas subscription_defs = subscriptionWithDelegate_def sub_init_def commandWithDelegate_def
  ServiceCommand.defs ServiceSubscription.defs

text \<open>
  However often and in whatever order success blocks are added to a fresh subscription, nil blocks
  included, completing it runs every distinct block exactly once, in the order of its first addition.
\<close>
theorem sub_completes_each_block_once:
  "runCallback (cmd_callbackComplete (fold addSuccess bs (subscriptionWithDelegate d url payload i)))
     = firsts (givenBlocks bs)"
proof (cases "bs = []")
  case True
  then show ?thesis
    by (simp add: subscription_defs givenBlocks_def)
next
  case False
  have fresh: "sub_successCalls (subscriptionWithDelegate d url payload i) = None"
    by (simp add: subscription_defs givenBlocks_def)
  show ?thesis
    using False by (simp add: callback_snapshot [OF False] addSuccess_run [OF fresh])
qed

text \<open>
  Cancelling a subscription sends one unsubscribe message with the current call id to a delegate
  that implements it, forgets the collected blocks and marks it not subscribed; the callback built from
  the blocks stays, so a response that still arrives runs all of them.
\<close>
theorem sub_cancel_keeps_callback:
  assumes "cmd_delegate s = Some d" "SelSendSubscription \<in> set (del_selectors d)"
  shows "snd (sub_cancel s) = [SendSubscription SubscriptionTypeUnsubscribe (cmd_payload s) (cmd_target s) (sub_callId s)]
    \<and> \<not> sub_isSubscribed (fst (sub_cancel s))
    \<and> sub_successCalls (fst (sub_cancel s)) = None
    \<and> runCallback (cmd_callbackComplete (fst (sub_cancel s))) = runCallback (cmd_callbackComplete s)"
  using assms by (simp add: sub_cancel_def unsubscribe_def sub_sendType_def Let_def)

theorem sub_cancel_keeps_callback_witness:
  "runCallback (cmd_callbackComplete (fst (sub_cancel (addSuccess (Some 7) (subscriptionWithDelegate
      (Some \<lparr>del_selectors = [SelSendSubscription], del_callId = (\<lambda>_. 3)\<rparr>) (Some ''ssap://x'') None 3))))) = [7]"
proof -
  let ?d = "\<lparr>del_selectors = [SelSendSubscription], del_callId = (\<lambda>_. 3)\<rparr> :: cmdDelegate"
  let ?s = "addSuccess (Some 7) (subscriptionWithDelegate (Some ?d) (Some ''ssap://x'') None 3)"
  have s: "?s = addSuccess (Some 7) (subscriptionWithDelegate (Some ?d) (Some ''ssap://x'') None 3)" by simp
  have del: "cmd_delegate ?s = Some ?d" and cb: "runCallback (cmd_callbackComplete ?s) = [7]"
    by (simp_all add: addSuccess_def collectBlock_def Let_def subscription_defs)
  have sel: "SelSendSubscription \<in> set (del_selectors ?d)" by simp
  from sub_cancel_keeps_callback [OF del sel] cb show ?thesis by simp
qed

end
