(* ===== verification/Protocols.thy ===== *)
theory Protocols
  imports Info Commands
begin

text \<open>
  The capability protocols of \<open>src/Services/Capabilities\<close>: one datatype per protocol with a constructor
  per method, one per protocol for the values its success blocks receive, and the enumerations the headers
  declare. A method that answers a \<open>ServiceSubscription\<close> is a constructor like the others.

  A request is what a service does for a message: it calls one of the two blocks, stays silent, raises, or
  sends a command to the device and goes on with the answer. A block may be nil: \<open>Success\<close> and \<open>Failure\<close>
  test it before the call, \<open>CallSuccess\<close> and \<open>CallFailure\<close> do not.
\<close>

section \<open>Web app sessions\<close>

datatype WebAppStatus =
    WebAppStatusUnknown | WebAppStatusOpen | WebAppStatusBackground | WebAppStatusForeground
  | WebAppStatusClosed

datatype webAppEvent = DidReceiveMessage json | WebAppSessionDidDisconnect

datatype webAppSelector = SelDidReceiveMessage | SelSessionDidDisconnect

record WebAppSession =
  was_launchSession :: "LaunchSession option"
  was_service :: "sessionService option"
  was_delegate :: "webAppSelector list option"

datatype webAppSessionMsg =
    SubscribeWebAppStatus
  | JoinWebApp | CloseWebAppSession | ConnectWebApp | DisconnectFromWebApp
  | PinWebAppS string | UnPinWebAppS string | IsWebAppPinnedS string | SubscribeIsWebAppPinnedS string
  | SendTextS string | SendJSON jdict

datatype webAppSessionReply = WebAppStatusReply WebAppStatus | WebAppPinReply bool

section \<open>Launching\<close>

datatype launcherMsg =
    LaunchApp "string option"
  | LaunchAppWithInfo "AppInfo option"
  | LaunchAppWithParams "AppInfo option" "jdict option"
  | CloseAppMsg "LaunchSession option"
  | GetAppList
  | GetRunningApp | SubscribeRunningApp
  | GetAppState "LaunchSession option" | SubscribeAppState "LaunchSession option"
  | LaunchAppStore "string option"
  | LaunchBrowser "string option"
  | LaunchYouTube "string option"
  | LaunchYouTubeAt "string option" real
  | LaunchNetflix "string option"
  | LaunchHulu "string option"

datatype launcherReply =
    AppInfoReply AppInfo
  | AppLaunchReply LaunchSession
  | AppListReply "AppInfo list"
  | AppStateReply bool bool

datatype externalInputMsg =
    LaunchInputPicker
  | CloseInputPickerMsg "LaunchSession option"
  | GetExternalInputList
  | SetExternalInput "ExternalInputInfo option"

datatype externalInputReply = ExternalInputListReply "ExternalInputInfo list"

datatype webAppLauncherMsg =
    LaunchWebApp "string option"
  | LaunchWebAppParams "string option" "jdict option"
  | LaunchWebAppRelaunch "string option" bool
  | LaunchWebAppParamsRelaunch "string option" "jdict option" bool
  | JoinWebAppSession "LaunchSession option"
  | JoinWebAppWithId "string option"
  | CloseWebAppMsg "LaunchSession option"
  | PinWebApp "string option"
  | UnPinWebApp "string option"
  | IsWebAppPinned "string option"
  | SubscribeIsWebAppPinned "string option"

datatype webAppLauncherReply = WebAppLaunchReply WebAppSession | WebAppPinStatusReply bool

section \<open>Media\<close>

datatype MediaControlPlayState =
    MediaControlPlayStateUnknown | MediaControlPlayStateIdle | MediaControlPlayStatePlaying
  | MediaControlPlayStatePaused | MediaControlPlayStateBuffering | MediaControlPlayStateFinished

datatype mediaControlMsg =
    MediaPlay | MediaPause | MediaStop | MediaRewind | MediaFastForward
  | MediaSeek real
  | GetDuration | GetPosition | GetMediaMetaData
  | GetPlayState | SubscribePlayState | SubscribeMediaInfo

datatype mediaControlReply =
    MediaPlayStateReply MediaControlPlayState
  | MediaPositionReply real
  | MediaDurationReply real

datatype playListControlMsg = PlayNext | PlayPrevious | JumpToTrackWithIndex int

datatype mediaPlayerMsg =
    DisplayImageWithMediaInfo "MediaInfo option"
  | PlayMediaWithMediaInfo "MediaInfo option" bool
  | CloseMediaMsg "LaunchSession option"
  | DisplayImageURL "string option" "string option" "string option" "string option" "string option"
  | DisplayImageInfo "MediaInfo option"
  | PlayMediaURL "string option" "string option" "string option" "string option" "string option" bool
  | PlayMediaInfo "MediaInfo option" bool

datatype mediaPlayerReply =
    MediaPlayerReply MediaLaunchObject
  | MediaPlayerDisplayReply "LaunchSession option" "capObject option"

section \<open>Volume, television, keys, mouse, text, power and toasts\<close>

datatype volumeControlMsg =
    VolumeUp | VolumeDown | GetVolume | SetVolume real | SubscribeVolume
  | GetMute | SetMute bool | SubscribeMute

datatype volumeControlReply = VolumeReply real | MuteReply bool

datatype tvControlMsg =
    ChannelUp | ChannelDown | SetChannel "ChannelInfo option"
  | GetCurrentChannel | SubscribeCurrentChannel | GetChannelList
  | GetProgramInfo | SubscribeProgramInfo | GetProgramList | SubscribeProgramList
  | Get3DEnabled | Set3DEnabled bool | Subscribe3DEnabled

datatype tvControlReply =
    CurrentChannelReply ChannelInfo
  | ChannelListReply "ChannelInfo list"
  | ProgramInfoReply ProgramInfo
  | ProgramListReply "ProgramInfo list"
  | TV3DEnabledReply bool

datatype keyControlMsg =
    KeyUp | KeyDown | KeyLeft | KeyRight | KeyOK | KeyBack | KeyHome | SendKeyCode nat

datatype mouseControlMsg =
    ConnectMouse | DisconnectMouse | MouseClick | MouseMove real real | MouseScroll real real

datatype textInputMsg = SubscribeTextInputStatus | SendText string | SendEnter | SendDelete

datatype textInputReply = TextInputStatusReply TextInputStatusInfo

datatype powerControlMsg = PowerOff | PowerOn

datatype toastControlMsg =
    ShowToast "string option"
  | ShowToastIcon "string option" "string option" "string option"
  | ShowClickableToastApp "string option" "AppInfo option" "jdict option"
  | ShowClickableToastAppIcon "string option" "AppInfo option" "jdict option" "string option" "string option"
  | ShowClickableToastURL "string option" "string option"
  | ShowClickableToastURLIcon "string option" "string option" "string option" "string option"

section \<open>Mirroring and camera\<close>

datatype RemoteCameraLensFacing = RemoteCameraLensFacingFront | RemoteCameraLensFacingBack

fun lensFacingValue :: "RemoteCameraLensFacing \<Rightarrow> int" where
  "lensFacingValue RemoteCameraLensFacingFront = 0"
| "lensFacingValue RemoteCameraLensFacingBack = 1"

datatype RemoteCameraProperty =
    RemoteCameraPropertyUnknown | RemoteCameraPropertyBrightness | RemoteCameraPropertyWhiteBalance
  | RemoteCameraPropertyRotation

datatype RemoteCameraError =
    RemoteCameraErrorGeneric | RemoteCameraErrorConnectionClosed | RemoteCameraErrorDeviceShutdown
  | RemoteCameraErrorRendererTerminated

datatype remoteCameraEvent =
    RemoteCameraDidPair
  | RemoteCameraDidStart bool
  | RemoteCameraDidStop bool
  | RemoteCameraDidPlay
  | RemoteCameraDidChange RemoteCameraProperty
  | RemoteCameraErrorDidOccur RemoteCameraError
  | RemoteCameraAccessDenied

datatype remoteCameraMsg =
    StartRemoteCamera
  | StartRemoteCameraWithSettings "jdict option"
  | StopRemoteCamera
  | SetLensFacing int
  | SetMicMute bool
  | SetRemoteCameraDelegate "string list option"

datatype ScreenMirroringError =
    ScreenMirroringErrorGeneric | ScreenMirroringErrorConnectionClosed | ScreenMirroringErrorDeviceShutdown
  | ScreenMirroringErrorRendererTerminated

datatype screenMirroringEvent =
    ScreenMirroringDidStart bool
  | ScreenMirroringDidStop bool
  | ScreenMirroringErrorDidOccur ScreenMirroringError

datatype screenMirroringMsg =
    StartScreenMirroring
  | StartScreenMirroringWithSettings "jdict option"
  | PushSampleBuffer
  | StopScreenMirroring
  | SetScreenMirroringDelegate "string list option"

section \<open>Messages and replies of any protocol\<close>

datatype capMessage =
    LauncherMsg launcherMsg
  | ExternalInputMsg externalInputMsg
  | WebAppLauncherMsg webAppLauncherMsg
  | MediaControlMsg mediaControlMsg
  | PlayListControlMsg playListControlMsg
  | MediaPlayerMsg mediaPlayerMsg
  | VolumeControlMsg volumeControlMsg
  | TVControlMsg tvControlMsg
  | KeyControlMsg keyControlMsg
  | MouseControlMsg mouseControlMsg
  | TextInputMsg textInputMsg
  | PowerControlMsg powerControlMsg
  | ToastControlMsg toastControlMsg

text \<open>The argument of \<open>SuccessBlock\<close> is any object or nil; the other blocks have their own types.\<close>

datatype capReply =
    ResponseObject "json option"
  | LauncherReply launcherReply
  | ExternalInputReply externalInputReply
  | WebAppLauncherReply webAppLauncherReply
  | WebAppSessionReply webAppSessionReply
  | MediaControlReply mediaControlReply
  | MediaPlayerReplyC mediaPlayerReply
  | VolumeControlReply volumeControlReply
  | TVControlReply tvControlReply
  | TextInputReply textInputReply

section \<open>Requests\<close>

datatype commandKind = SyncCommand | AsyncCommand | SubscribeCommand

datatype request =
    Success capReply
  | CallSuccess capReply
  | Failure NSError
  | CallFailure NSError
  | Silent
  | Raises nsexception
  | Send commandKind string "jdict option" "jdict \<Rightarrow> request" "NSError \<Rightarrow> request"

definition sendNotSupportedFailure :: request where
  "sendNotSupportedFailure = Failure (generateErrorWithCode ConnectStatusCodeNotSupported None)"

text \<open>The blocks a caller passes, and what one request makes of them.\<close>

record blocks =
  has_success :: bool
  has_failure :: bool

datatype outcome =
    GotReply capReply
  | GotError NSError
  | Nothing
  | RaisedException nsexception
  | NilBlockCalled

text \<open>
  A run of a request against a device: the device answers each command with a response or an error; without
  a device (a nil command delegate) a command is not sent and nothing happens.
\<close>

type_synonym device = "string \<Rightarrow> jdict option \<Rightarrow> NSError + jdict"

primrec run_request ::
  "blocks \<Rightarrow> device option \<Rightarrow> request \<Rightarrow> (string \<times> jdict option) list \<times> outcome" where
  "run_request bs dev (Success r) = ([], if has_success bs then GotReply r else Nothing)"
| "run_request bs dev (CallSuccess r) = ([], if has_success bs then GotReply r else NilBlockCalled)"
| "run_request bs dev (Failure e) = ([], if has_failure bs then GotError e else Nothing)"
| "run_request bs dev (CallFailure e) = ([], if has_failure bs then GotError e else NilBlockCalled)"
| "run_request bs dev Silent = ([], Nothing)"
| "run_request bs dev (Raises e) = ([], RaisedException e)"
| "run_request bs dev (Send k target payload onSuccess onError) = (case dev of
      None \<Rightarrow> ([], Nothing)
    | Some d \<Rightarrow> (case d target payload of
          Inr response \<Rightarrow> apfst (\<lambda>xs. (target, payload) # xs) (run_request bs dev (onSuccess response))
        | Inl e \<Rightarrow> apfst (\<lambda>xs. (target, payload) # xs) (run_request bs dev (onError e))))"

text \<open>A request that always calls exactly one of its blocks, or raises on a malformed response.\<close>

primrec completes :: "request \<Rightarrow> bool" where
  "completes (Success r) = True"
| "completes (CallSuccess r) = True"
| "completes (Failure e) = True"
| "completes (CallFailure e) = True"
| "completes Silent = False"
| "completes (Raises e) = True"
| "completes (Send k t p f g) = ((\<forall>r. completes (f r)) \<and> (\<forall>e. completes (g e)))"

lemma completes_outcome:
  assumes "completes rq" "has_success bs" "has_failure bs"
  shows "snd (run_request bs (Some d) rq) \<notin> {Nothing, NilBlockCalled}"
  using assms by (induction rq) (auto split: sum.splits)

lemma run_request_no_device: "fst (run_request bs None rq) = []"
  by (cases rq) auto

text \<open>The number of commands a request sends at most, for requests with such a bound.\<close>

primrec sends_at_most :: "request \<Rightarrow> nat \<Rightarrow> bool" where
  "sends_at_most (Success r) n = True"
| "sends_at_most (CallSuccess r) n = True"
| "sends_at_most (Failure e) n = True"
| "sends_at_most (CallFailure e) n = True"
| "sends_at_most Silent n = True"
| "sends_at_most (Raises e) n = True"
| "sends_at_most (Send k t p f g) n =
     (n > 0 \<and> (\<forall>r. sends_at_most (f r) (n - 1)) \<and> (\<forall>e. sends_at_most (g e) (n - 1)))"

lemma sends_at_most_run: "sends_at_most rq n \<Longrightarrow> length (fst (run_request bs dev rq)) \<le> n"
proof (induction rq arbitrary: n)
  case (Send k t p f g)
  show ?case
  proof (cases dev)
    case (Some d)
    have "length (fst (run_request bs dev (f r))) \<le> n - 1" for r
      using Send by simp
    moreover have "length (fst (run_request bs dev (g e))) \<le> n - 1" for e
      using Send by simp
    ultimately show ?thesis
      using Send.prems Some by (auto split: sum.splits) (metis Suc_le_mono Suc_pred)+
  qed simp
qed simp_all

text \<open>A command whose response is handed to the success block as it is, with the failure block as error block.\<close>

definition forward :: "commandKind \<Rightarrow> string \<Rightarrow> jdict option \<Rightarrow> request" where
  "forward k target payload = Send k target payload (\<lambda>r. Success (ResponseObject (Some (JObj r)))) Failure"

lemma forward_completes [simp]: "completes (forward k t p)"
  by (simp add: forward_def)

lemma forward_sends [simp]: "sends_at_most (forward k t p) n \<longleftrightarrow> n > 0"
  by (simp add: forward_def)

lemma not_supported_completes [simp]: "completes sendNotSupportedFailure"
  by (simp add: sendNotSupportedFailure_def)

lemma not_supported_sends [simp]: "sends_at_most sendNotSupportedFailure n"
  by (simp add: sendNotSupportedFailure_def)

lemma run_forward:
  "run_request bs (Some d) (forward k t p) = ([(t, p)], case d t p of
      Inr r \<Rightarrow> if has_success bs then GotReply (ResponseObject (Some (JObj r))) else Nothing
    | Inl e \<Rightarrow> if has_failure bs then GotError e else Nothing)"
  by (simp add: forward_def split: sum.splits)

end
