(* ===== verification/WebOSRequests.thy ===== *)
theory WebOSRequests
  imports Protocols
begin

text \<open>
  The requests of \<open>src/Services/WebOSTVService.m\<close> that do not change the service: launching, inputs,
  transport, volume, television, power, web apps and toasts. Each handler answers the request it makes of a
  message. \<open>self\<close> is the service as a launch session refers to it. Numbers are exact; a float of the source
  has the value it stands for. What the handlers read from the system is a record: a random identifier, the
  format of a start time and the icon of the application.
\<close>

record webosEnv =
  we_guid :: string
  we_format1 :: "real \<Rightarrow> string"
  we_appIcon :: "string option"

text \<open>A value computed from a response: an exception on the way raises, otherwise the success block gets it.\<close>

definition reply :: "capReply result \<Rightarrow> request" where
  "reply r = (case r of Inl e \<Rightarrow> Raises e | Inr v \<Rightarrow> Success v)"

lemma reply_simps [simp]: "reply (Inl e) = Raises e" "reply (Inr v) = Success v"
  by (simp_all add: reply_def)

lemma reply_completes [simp]: "completes (reply r)" "sends_at_most (reply r) n"
  by (cases r; simp)+

text \<open>\<open>objectForKey:\<close> on a value that should be a dictionary; nil answers nil, another class raises.\<close>

definition lookupIn :: "json option \<Rightarrow> string \<Rightarrow> json option result" where
  "lookupIn d k = (case d of None \<Rightarrow> Inr None | Some j \<Rightarrow> subscript j (Some k))"

text \<open>The elements of an array of dictionaries, converted one by one.\<close>

fun mapDicts :: "(jdict \<Rightarrow> 'a result) \<Rightarrow> json list \<Rightarrow> 'a list result" where
  "mapDicts f [] = Inr []"
| "mapDicts f (JObj d # js) = rbind (f d) (\<lambda>x. rbind (mapDicts f js) (\<lambda>xs. Inr (x # xs)))"
| "mapDicts f (j # js) = Inl NSInvalidArgumentException"

definition eachDict :: "(jdict \<Rightarrow> 'a result) \<Rightarrow> json option \<Rightarrow> 'a list result" where
  "eachDict f j = (case j of
      None \<Rightarrow> Inr []
    | Some (JArr js) \<Rightarrow> mapDicts f js
    | Some _ \<Rightarrow> Inl NSInvalidArgumentException)"

section \<open>Conversion of responses\<close>

definition channelInfoFromDictionary :: "jdict \<Rightarrow> ChannelInfo result" where
  "channelInfoFromDictionary info =
     rbind (intValue (objectForKey info ''majorNumber'')) (\<lambda>major.
     rbind (intValue (objectForKey info ''minorNumber'')) (\<lambda>minor.
       Inr \<lparr>chan_id = asString (objectForKey info ''channelId''), chan_name = asString (objectForKey info ''channelName''),
            chan_number = asString (objectForKey info ''channelNumber''), chan_majorNumber = major,
            chan_minorNumber = minor, chan_rawData = Some (JObj info)\<rparr>))"

definition appInfoFromDictionary :: "jdict \<Rightarrow> AppInfo result" where
  "appInfoFromDictionary info = Inr \<lparr>app_id = asString (objectForKey info ''id''),
     app_name = asString (objectForKey info ''title''), app_rawData = Some (JObj info)\<rparr>"

text \<open>\<open>URLWithString:\<close> raises on nil.\<close>

definition externalInputInfoFromDictionary :: "jdict \<Rightarrow> ExternalInputInfo result" where
  "externalInputInfoFromDictionary info =
     rbind (boolValue (objectForKey info ''connected'')) (\<lambda>connected.
       case asString (objectForKey info ''icon'') of
         None \<Rightarrow> Inl NSInvalidArgumentException
       | Some icon \<Rightarrow> Inr \<lparr>inp_id = asString (objectForKey info ''id''), inp_name = asString (objectForKey info ''label''),
           inp_connected = connected, inp_iconURL = URLWithString icon, inp_rawData = Some (JObj info)\<rparr>)"

definition launchedApp :: "sessionService \<Rightarrow> string option \<Rightarrow> int \<Rightarrow> jdict \<Rightarrow> LaunchSession" where
  "launchedApp self appId sessionType response = (launchSessionForAppId appId)
     \<lparr>ls_sessionId := asString (objectForKey response ''sessionId''), ls_sessionType := sessionType,
      ls_service := Some self, ls_rawData := Some (JObj response)\<rparr>"

section \<open>Launcher\<close>

definition wos_getAppList :: request where
  "wos_getAppList = Send SyncCommand ''ssap://com.webos.applicationManager/listApps'' None
     (\<lambda>r. reply (rbind (eachDict appInfoFromDictionary (objectForKey r ''apps''))
        (\<lambda>apps. Inr (LauncherReply (AppListReply apps))))) Failure"

text \<open>\<open>setValue:forKey:\<close> with nil removes the key; the failure block may be another request.\<close>

definition launchApplicationElse ::
  "sessionService \<Rightarrow> string option \<Rightarrow> jdict option \<Rightarrow> (NSError \<Rightarrow> request) \<Rightarrow> request" where
  "launchApplicationElse self appId params failure =
     (let payload0 = setKeyed (map_option JStr appId) ''id'' [];
          payload = (case params of
              None \<Rightarrow> payload0
            | Some p \<Rightarrow> setIfPresent (objectForKey p ''contentId'') ''contentId'' (setObject (JObj p) ''params'' payload0))
      in Send SyncCommand ''ssap://system.launcher/launch'' (Some payload)
           (\<lambda>r. Success (LauncherReply (AppLaunchReply (launchedApp self appId 1 r)))) failure)"

definition launchApplication :: "sessionService \<Rightarrow> string option \<Rightarrow> jdict option \<Rightarrow> request" where
  "launchApplication self appId params = launchApplicationElse self appId params Failure"

definition launchAppStore :: "sessionService \<Rightarrow> string option \<Rightarrow> request" where
  "launchAppStore self appId =
     (let params = (case appId of
          Some i \<Rightarrow> if length i > 0 then Some [(''query'', JStr (''category/GAME_APPS/'' @ i))] else None
        | None \<Rightarrow> None)
      in launchApplication self (Some ''com.webos.app.discovery'') params)"

definition launchBrowser :: "sessionService \<Rightarrow> string option \<Rightarrow> request" where
  "launchBrowser self target = (case target of
      None \<Rightarrow> Raises NSInvalidArgumentException
    | Some u \<Rightarrow> Send SyncCommand ''ssap://system.launcher/open'' (Some [(''target'', JStr u)])
        (\<lambda>r. Success (LauncherReply (AppLaunchReply (launchedApp self (asString (objectForKey r ''id'')) 1 r)))) Failure)"

definition launchHulu :: "sessionService \<Rightarrow> string option \<Rightarrow> request" where
  "launchHulu self contentId = (case contentId of
      None \<Rightarrow> Raises NSInvalidArgumentException
    | Some c \<Rightarrow> launchApplication self (Some ''hulu'') (Some [(''hulu'', JStr c)]))"

definition launchNetflix :: "sessionService \<Rightarrow> string option \<Rightarrow> request" where
  "launchNetflix self contentId = launchApplication self (Some ''netflix'')
     (Some [(''contentId'', JStr (''m=http%3A%2F%2Fapi.netflix.com%2Fcatalog%2Ftitles%2Fmovies%2F'' @
        formatObject contentId @ ''&source_type=4''))])"

definition launchYouTubeAt :: "webosEnv \<Rightarrow> sessionService \<Rightarrow> string option \<Rightarrow> real \<Rightarrow> request" where
  "launchYouTubeAt we self contentId startTime =
     (if contentId \<noteq> None \<and> length (the contentId) > 0
      then (if startTime < 0
            then Failure (generateErrorWithCode ConnectStatusCodeArgumentError (Some ''Start time may not be negative''))
            else launchApplication self (Some ''youtube.leanback.v4'')
                   (Some [(''contentId'', JStr (the contentId @ ''&pairingCode='' @ we_guid we @ ''&t='' @ we_format1 we startTime))]))
      else launchApplication self (Some ''youtube.leanback.v4'') None)"

definition runningApp :: "bool \<Rightarrow> jdict \<Rightarrow> AppInfo" where
  "runningApp withName r = \<lparr>app_id = asString (objectForKey r ''appId''),
     app_name = (if withName then asString (objectForKey r ''appName'') else None), app_rawData = Some (JObj r)\<rparr>"

definition appStatePayload :: "LaunchSession option \<Rightarrow> jdict" where
  "appStatePayload launchSession =
     setIfPresent (map_option JStr (Option.bind launchSession ls_sessionId)) ''sessionId''
       (setIfPresent (map_option JStr (Option.bind launchSession ls_appId)) ''appId'' [])"

definition appStateReply :: "jdict \<Rightarrow> capReply result" where
  "appStateReply r =
     rbind (boolValue (objectForKey r ''running'')) (\<lambda>running.
     rbind (boolValue (objectForKey r ''visible'')) (\<lambda>visible. Inr (LauncherReply (AppStateReply running visible))))"

definition wos_closeApp :: "LaunchSession option \<Rightarrow> request" where
  "wos_closeApp launchSession = forward AsyncCommand ''ssap://system.launcher/close''
     (Some (setIfPresent (map_option JStr (Option.bind launchSession ls_sessionId)) ''sessionId''
       (setIfPresent (map_option JStr (Option.bind launchSession ls_appId)) ''id'' [])))"

fun wos_launcher :: "webosEnv \<Rightarrow> sessionService \<Rightarrow> launcherMsg \<Rightarrow> request" where
  "wos_launcher we self GetAppList = wos_getAppList"
| "wos_launcher we self (LaunchApp appId) = launchApplication self appId None"
| "wos_launcher we self (LaunchAppWithInfo appInfo) = launchApplication self (Option.bind appInfo app_id) None"
| "wos_launcher we self (LaunchAppWithParams appInfo params) = launchApplication self (Option.bind appInfo app_id) params"
| "wos_launcher we self (LaunchAppStore appId) = launchAppStore self appId"
| "wos_launcher we self (LaunchBrowser target) = launchBrowser self target"
| "wos_launcher we self (LaunchHulu contentId) = launchHulu self contentId"
| "wos_launcher we self (LaunchNetflix contentId) = launchNetflix self contentId"
| "wos_launcher we self (LaunchYouTube contentId) = launchYouTubeAt we self contentId 0"
| "wos_launcher we self (LaunchYouTubeAt contentId startTime) = launchYouTubeAt we self contentId startTime"
| "wos_launcher we self SubscribeRunningApp = Send SubscribeCommand ''ssap://com.webos.applicationManager/getForegroundAppInfo'' None
     (\<lambda>r. Success (LauncherReply (AppInfoReply (runningApp False r)))) Failure"
| "wos_launcher we self GetRunningApp = Send SyncCommand ''ssap://com.webos.applicationManager/getForegroundAppInfo'' None
     (\<lambda>r. Success (LauncherReply (AppInfoReply (runningApp True r)))) Failure"
| "wos_launcher we self (GetAppState l) = Send SyncCommand ''ssap://system.launcher/getAppState'' (Some (appStatePayload l))
     (\<lambda>r. reply (appStateReply r)) Failure"
| "wos_launcher we self (SubscribeAppState l) = Send SubscribeCommand ''ssap://system.launcher/getAppState'' (Some (appStatePayload l))
     (\<lambda>r. reply (appStateReply r)) Failure"
| "wos_launcher we self (CloseAppMsg l) = wos_closeApp l"

section \<open>External inputs\<close>

fun wos_externalInput :: "sessionService \<Rightarrow> externalInputMsg \<Rightarrow> request" where
  "wos_externalInput self LaunchInputPicker = launchApplicationElse self (Some ''com.webos.app.inputpicker'') None
     (\<lambda>e. launchApplication self (Some ''com.webos.app.inputmgr'') None)"
| "wos_externalInput self (CloseInputPickerMsg l) = wos_closeApp l"
| "wos_externalInput self GetExternalInputList = Send AsyncCommand ''ssap://tv/getExternalInputList'' None
     (\<lambda>r. reply (rbind (eachDict externalInputInfoFromDictionary (objectForKey r ''devices''))
        (\<lambda>xs. Inr (ExternalInputReply (ExternalInputListReply xs))))) Failure"
| "wos_externalInput self (SetExternalInput info) = forward AsyncCommand ''ssap://tv/switchInput''
     (Some (setIfPresent (map_option JStr (Option.bind info inp_id)) ''inputId'' []))"

section \<open>Media and playlists\<close>

fun wos_mediaControl :: "mediaControlMsg \<Rightarrow> request" where
  "wos_mediaControl MediaPlay = forward AsyncCommand ''ssap://media.controls/play'' None"
| "wos_mediaControl MediaPause = forward AsyncCommand ''ssap://media.controls/pause'' None"
| "wos_mediaControl MediaStop = forward AsyncCommand ''ssap://media.controls/stop'' None"
| "wos_mediaControl MediaRewind = forward AsyncCommand ''ssap://media.controls/rewind'' None"
| "wos_mediaControl MediaFastForward = forward AsyncCommand ''ssap://media.controls/fastForward'' None"
| "wos_mediaControl (MediaSeek position) = sendNotSupportedFailure"
| "wos_mediaControl GetPlayState = sendNotSupportedFailure"
| "wos_mediaControl GetDuration = sendNotSupportedFailure"
| "wos_mediaControl GetPosition = sendNotSupportedFailure"
| "wos_mediaControl SubscribePlayState = sendNotSupportedFailure"
| "wos_mediaControl GetMediaMetaData = sendNotSupportedFailure"
| "wos_mediaControl SubscribeMediaInfo = sendNotSupportedFailure"

definition wos_playList :: "playListControlMsg \<Rightarrow> request" where
  "wos_playList msg = sendNotSupportedFailure"

definition ensureString :: "string option \<Rightarrow> string" where
  "ensureString value = (case value of Some s \<Rightarrow> s | None \<Rightarrow> '''')"

text \<open>\<open>displayMediaWithParams:\<close>: the built-in viewer of the oldest TVs.\<close>

definition displayMediaWithParams :: "sessionService \<Rightarrow> capObject \<Rightarrow> jdict \<Rightarrow> request" where
  "displayMediaWithParams self control params = Send SyncCommand ''ssap://media.viewer/open'' (Some params)
     (\<lambda>r. Success (MediaPlayerReplyC (MediaPlayerReply
        (mlo_initWithLaunchSession (Some (launchedApp self (asString (objectForKey r ''id'')) 3 r)) (Some control))))) Failure"

definition firstImageURL :: "MediaInfo \<Rightarrow> string option" where
  "firstImageURL mediaInfo = (case mi_images mediaInfo of Some (i # is) \<Rightarrow> img_url i | _ \<Rightarrow> None)"

definition viewerParams :: "MediaInfo \<Rightarrow> jdict" where
  "viewerParams mediaInfo = [(''target'', JStr (ensureString (mi_url mediaInfo))),
     (''iconSrc'', JStr (ensureString (firstImageURL mediaInfo))), (''title'', JStr (ensureString (mi_title mediaInfo))),
     (''description'', JStr (ensureString (mi_description mediaInfo))), (''mimeType'', JStr (ensureString (mi_mimeType mediaInfo)))]"

section \<open>Volume\<close>

definition roundf :: "real \<Rightarrow> int" where
  "roundf x = (if x \<ge> 0 then \<lfloor>x + 1 / 2\<rfloor> else - \<lfloor>1 / 2 - x\<rfloor>)"

definition volumeOf :: "(json option \<Rightarrow> 'a result) \<Rightarrow> jdict \<Rightarrow> 'a result" where
  "volumeOf conv r = (case objectForKey r ''volume'' of
      Some v \<Rightarrow> conv (Some v)
    | None \<Rightarrow> rbind (lookupIn (objectForKey r ''volumeStatus'') ''volume'') conv)"

definition volumeReply :: "jdict \<Rightarrow> capReply result" where
  "volumeReply r = rbind (volumeOf intValue r) (\<lambda>v. Inr (VolumeControlReply (VolumeReply (real_of_int v / 100))))"

definition volumeSubscriptionReply :: "jdict \<Rightarrow> capReply result" where
  "volumeSubscriptionReply r = rbind (volumeOf doubleValue r) (\<lambda>v. Inr (VolumeControlReply (VolumeReply (v / 100))))"

definition muteReply :: "jdict \<Rightarrow> capReply result" where
  "muteReply r = rbind (boolValue (objectForKey r ''mute'')) (\<lambda>m. Inr (VolumeControlReply (MuteReply m)))"

fun wos_volume :: "volumeControlMsg \<Rightarrow> request" where
  "wos_volume GetMute = Send AsyncCommand ''ssap://audio/getMute'' None (\<lambda>r. reply (muteReply r)) Failure"
| "wos_volume (SetMute mute) = forward AsyncCommand ''ssap://audio/setMute'' (Some [(''mute'', JBool mute)])"
| "wos_volume GetVolume = Send AsyncCommand ''ssap://audio/getVolume'' None (\<lambda>r. reply (volumeReply r)) Failure"
| "wos_volume (SetVolume volume) = forward AsyncCommand ''ssap://audio/setVolume''
     (Some [(''volume'', JNum (real_of_int (roundf (volume * 100))))])"
| "wos_volume VolumeUp = forward AsyncCommand ''ssap://audio/volumeUp'' None"
| "wos_volume VolumeDown = forward AsyncCommand ''ssap://audio/volumeDown'' None"
| "wos_volume SubscribeMute = Send SubscribeCommand ''ssap://audio/getMute'' None (\<lambda>r. reply (muteReply r)) Failure"
| "wos_volume SubscribeVolume = Send SubscribeCommand ''ssap://audio/getVolume'' None (\<lambda>r. reply (volumeSubscriptionReply r)) Failure"

section \<open>Television\<close>

definition currentChannelReply :: "jdict \<Rightarrow> capReply result" where
  "currentChannelReply r = rbind (channelInfoFromDictionary r) (\<lambda>c. Inr (TVControlReply (CurrentChannelReply c)))"

definition status3DReply :: "jdict \<Rightarrow> capReply result" where
  "status3DReply r = rbind (lookupIn (objectForKey r ''status3D'') ''status'') (\<lambda>s.
     rbind (boolValue s) (\<lambda>b. Inr (TVControlReply (TV3DEnabledReply b))))"

definition wos_setChannel :: "ChannelInfo option \<Rightarrow> request" where
  "wos_setChannel channelInfo = (case channelInfo of
      None \<Rightarrow> Failure (generateErrorWithCode ConnectStatusCodeArgumentError (Some ''channelInfo cannot be empty''))
    | Some c \<Rightarrow> forward AsyncCommand ''ssap://tv/openChannel''
        (Some (setNullableObject (map_option JStr (chan_number c)) ''channelNumber''
          (setNullableObject (map_option JStr (chan_id c)) ''channelId'' []))))"

fun wos_tv :: "tvControlMsg \<Rightarrow> request" where
  "wos_tv GetCurrentChannel = Send AsyncCommand ''ssap://tv/getCurrentChannel'' None (\<lambda>r. reply (currentChannelReply r)) Failure"
| "wos_tv SubscribeCurrentChannel = Send SubscribeCommand ''ssap://tv/getCurrentChannel'' None (\<lambda>r. reply (currentChannelReply r)) Failure"
| "wos_tv GetChannelList = Send AsyncCommand ''ssap://tv/getChannelList'' None
     (\<lambda>r. reply (rbind (eachDict channelInfoFromDictionary (objectForKey r ''channelList''))
        (\<lambda>xs. Inr (TVControlReply (ChannelListReply xs))))) Failure"
| "wos_tv ChannelUp = forward AsyncCommand ''ssap://tv/channelUp'' None"
| "wos_tv ChannelDown = forward AsyncCommand ''ssap://tv/channelDown'' None"
| "wos_tv (SetChannel channelInfo) = wos_setChannel channelInfo"
| "wos_tv GetProgramInfo = sendNotSupportedFailure"
| "wos_tv SubscribeProgramInfo = sendNotSupportedFailure"
| "wos_tv GetProgramList = sendNotSupportedFailure"
| "wos_tv SubscribeProgramList = sendNotSupportedFailure"
| "wos_tv Get3DEnabled = Send AsyncCommand ''ssap://com.webos.service.tv.display/get3DStatus'' None
     (\<lambda>r. reply (status3DReply r)) Failure"
| "wos_tv (Set3DEnabled enabled) = forward AsyncCommand
     (if enabled then ''ssap://com.webos.service.tv.display/set3DOn'' else ''ssap://com.webos.service.tv.display/set3DOff'') None"
| "wos_tv Subscribe3DEnabled = Send SubscribeCommand ''ssap://com.webos.service.tv.display/get3DStatus'' None
     (\<lambda>r. reply (status3DReply r)) Failure"

section \<open>Power\<close>

text \<open>The success block takes part in the test of the response.\<close>

fun wos_power :: "blocks \<Rightarrow> powerControlMsg \<Rightarrow> request" where
  "wos_power bs PowerOff = Send AsyncCommand ''ssap://system/turnOff'' None
     (\<lambda>r. case boolValue (objectForKey r ''returnValue'') of
        Inl e \<Rightarrow> Raises e
      | Inr didTurnOff \<Rightarrow> if didTurnOff \<and> has_success bs then Success (ResponseObject None)
          else Failure (generateErrorWithCode ConnectStatusCodeTvError None)) Failure"
| "wos_power bs PowerOn = sendNotSupportedFailure"

section \<open>Web apps\<close>

definition noWebAppId :: "string option \<Rightarrow> bool" where
  "noWebAppId webAppId \<longleftrightarrow> webAppId = None \<or> webAppId = Some []"

definition argumentError :: "string \<Rightarrow> request" where
  "argumentError details = Failure (generateErrorWithCode ConnectStatusCodeArgumentError (Some details))"

text \<open>
  The session a launch answers: the one already known under the id, with its launch session updated, or a new
  one. \<open>known\<close> is the table of sessions when the launch is requested.
\<close>

definition launchedWebApp ::
  "sessionService \<Rightarrow> WebAppSession option \<Rightarrow> string \<Rightarrow> jdict \<Rightarrow> WebAppSession" where
  "launchedWebApp self known webAppId response =
     (let update = (\<lambda>l. l\<lparr>ls_sessionType := 4, ls_service := Some self,
            ls_sessionId := asString (objectForKey response ''sessionId''), ls_rawData := Some (JObj response)\<rparr>)
      in case known of
           Some s \<Rightarrow> s\<lparr>was_launchSession := map_option update (was_launchSession s)\<rparr>
         | None \<Rightarrow> \<lparr>was_launchSession = Some (update (launchSessionForAppId (Some webAppId))),
             was_service = Some self, was_delegate = None\<rparr>)"

definition launchWebAppParams ::
  "sessionService \<Rightarrow> WebAppSession nsdict \<Rightarrow> string option \<Rightarrow> jdict option \<Rightarrow> request" where
  "launchWebAppParams self sessions webAppId params =
     (if noWebAppId webAppId then argumentError ''You must provide a valid web app id''
      else Send AsyncCommand ''ssap://webapp/launchWebApp''
             (Some (setIfPresent (map_option JObj params) ''urlParams'' [(''webAppId'', JStr (the webAppId))]))
             (\<lambda>r. Success (WebAppLauncherReply (WebAppLaunchReply
                (launchedWebApp self (objectForKey sessions (the webAppId)) (the webAppId) r)))) Failure)"

text \<open>\<open>joined\<close> is the session that \<open>webAppSessionForLaunchSession:\<close> finds or creates.\<close>

definition joinedSession ::
  "sessionService \<Rightarrow> WebAppSession nsdict \<Rightarrow> LaunchSession \<Rightarrow> WebAppSession" where
  "joinedSession self sessions l =
     (case objectForKeyN sessions (ls_appId l) of
        Some s \<Rightarrow> s
      | None \<Rightarrow> \<lparr>was_launchSession = Some (if ls_service l = None then l\<lparr>ls_service := Some self\<rparr> else l),
          was_service = Some self, was_delegate = None\<rparr>)"

definition launchWebAppRelaunch ::
  "sessionService \<Rightarrow> WebAppSession nsdict \<Rightarrow> string option \<Rightarrow> jdict option \<Rightarrow> bool \<Rightarrow> request" where
  "launchWebAppRelaunch self sessions webAppId params relaunchIfRunning =
     (if noWebAppId webAppId then argumentError ''You need to provide a valid webAppId.''
      else if relaunchIfRunning then launchWebAppParams self sessions webAppId params
      else Send SyncCommand ''ssap://com.webos.applicationManager/getForegroundAppInfo'' None
             (\<lambda>r. let appInfo = runningApp True r in
                (case app_id appInfo of
                   Some i \<Rightarrow> if hasSuffix i (the webAppId)
                     then Success (WebAppLauncherReply (WebAppLaunchReply (joinedSession self sessions
                            ((launchSessionForAppId webAppId)\<lparr>ls_sessionType := 4, ls_service := Some self,
                               ls_rawData := app_rawData appInfo\<rparr>))))
                     else launchWebAppParams self sessions webAppId params
                 | None \<Rightarrow> launchWebAppParams self sessions webAppId params)) Failure)"

definition wos_closeWebApp :: "LaunchSession option \<Rightarrow> request" where
  "wos_closeWebApp launchSession =
     (if noWebAppId (Option.bind launchSession ls_appId) then argumentError ''Must provide a valid launch session object''
      else forward AsyncCommand ''ssap://webapp/closeWebApp''
             (Some (setIfPresent (map_option JStr (Option.bind launchSession ls_sessionId)) ''sessionId''
                [(''webAppId'', JStr (the (Option.bind launchSession ls_appId)))])))"

text \<open>
  Pinning subscribes: a response that asks for confirmation shows an alert and waits, any other one ends
  the subscription and calls the block without asking whether there is one.
\<close>

definition pinRequest :: "string \<Rightarrow> string option \<Rightarrow> request" where
  "pinRequest target webAppId =
     (if noWebAppId webAppId then argumentError ''You must provide a valid web app id''
      else Send SubscribeCommand target (Some [(''webAppId'', JStr (the webAppId))])
             (\<lambda>r. if objectForKey r ''pairingType'' \<noteq> None then Silent
                  else CallSuccess (ResponseObject (Some (JObj r)))) CallFailure)"

definition pinStatusReply :: "jdict \<Rightarrow> capReply result" where
  "pinStatusReply r = rbind (boolValue (objectForKey r ''pinned'')) (\<lambda>b. Inr (WebAppLauncherReply (WebAppPinStatusReply b)))"

definition wos_isWebAppPinned :: "string option \<Rightarrow> request" where
  "wos_isWebAppPinned webAppId =
     (if noWebAppId webAppId then argumentError ''You must provide a valid web app id''
      else Send AsyncCommand ''ssap://webapp/isWebAppPinned'' (Some [(''webAppId'', JStr (the webAppId))])
             (\<lambda>r. reply (pinStatusReply r)) Failure)"

definition wos_subscribeIsWebAppPinned :: "string option \<Rightarrow> request" where
  "wos_subscribeIsWebAppPinned webAppId = (case webAppId of
      None \<Rightarrow> Raises NSInvalidArgumentException
    | Some i \<Rightarrow> Send SubscribeCommand ''ssap://webapp/isWebAppPinned'' (Some [(''webAppId'', JStr i)])
        (\<lambda>r. reply (pinStatusReply r)) Failure)"

definition sendPairingKey :: "string option \<Rightarrow> request" where
  "sendPairingKey pairingKey = (case pairingKey of
      None \<Rightarrow> Raises NSInvalidArgumentException
    | Some k \<Rightarrow> forward AsyncCommand ''ssap://pairing/setPin'' (Some [(''pin'', JStr k)]))"

section \<open>Toasts\<close>

definition toastParams ::
  "string option \<Rightarrow> (string option) option \<Rightarrow> jdict option \<Rightarrow> string option \<Rightarrow> string option \<Rightarrow> jdict" where
  "toastParams message target params iconData iconExtension =
     (setIfPresent (map_option JStr iconExtension) ''iconExtension'' \<circ>
      setIfPresent (map_option JStr iconData) ''iconData'' \<circ>
      setIfPresent (map_option JObj params) ''params'' \<circ>
      (case target of None \<Rightarrow> id | Some t \<Rightarrow> setKeyed (map_option JStr t) ''target'') \<circ>
      setIfPresent (map_option JStr message) ''message'') []"

text \<open>Without an icon the toast gets the icon of the application, when there is one.\<close>

definition showToastWithParams :: "webosEnv \<Rightarrow> jdict \<Rightarrow> request" where
  "showToastWithParams we params =
     (let toastParams = (if objectForKey params ''iconData'' = None
        then (case we_appIcon we of
                None \<Rightarrow> params
              | Some icon \<Rightarrow> setObject (JStr ''png'') ''iconExtension'' (setObject (JStr icon) ''iconData'' params))
        else params)
      in forward SyncCommand ''ssap://system.notifications/createToast'' (Some toastParams))"

fun wos_toast :: "webosEnv \<Rightarrow> toastControlMsg \<Rightarrow> request" where
  "wos_toast we (ShowToast message) = showToastWithParams we (toastParams message None None None None)"
| "wos_toast we (ShowToastIcon message iconData iconExtension) =
     showToastWithParams we (toastParams message None None iconData iconExtension)"
| "wos_toast we (ShowClickableToastApp message appInfo params) =
     showToastWithParams we (toastParams message (map_option app_id appInfo) params None None)"
| "wos_toast we (ShowClickableToastAppIcon message appInfo params iconData iconExtension) =
     showToastWithParams we (toastParams message (map_option app_id appInfo) params iconData iconExtension)"
| "wos_toast we (ShowClickableToastURL message url) =
     showToastWithParams we (toastParams message (map_option Some url) None None None)"
| "wos_toast we (ShowClickableToastURLIcon message url iconData iconExtension) =
     showToastWithParams we (toastParams message (map_option Some url) None iconData iconExtension)"

section \<open>System information\<close>

definition getServiceList :: request where
  "getServiceList = Send SyncCommand ''ssap://api/getServiceList'' None
     (\<lambda>r. Success (ResponseObject (objectForKey r ''services''))) Failure"

definition getSystemInfo :: request where
  "getSystemInfo = Send SyncCommand ''ssap://system/getSystemInfo'' None
     (\<lambda>r. Success (ResponseObject (objectForKey r ''features''))) Failure"

section \<open>Dispatch\<close>

text \<open>The messages whose handlers do not change the service.\<close>

fun wos_request ::
  "webosEnv \<Rightarrow> sessionService \<Rightarrow> WebAppSession nsdict \<Rightarrow> blocks \<Rightarrow> capMessage \<Rightarrow> request option" where
  "wos_request we self sessions bs (LauncherMsg m) = Some (wos_launcher we self m)"
| "wos_request we self sessions bs (ExternalInputMsg m) = Some (wos_externalInput self m)"
| "wos_request we self sessions bs (MediaControlMsg m) = Some (wos_mediaControl m)"
| "wos_request we self sessions bs (PlayListControlMsg m) = Some (wos_playList m)"
| "wos_request we self sessions bs (VolumeControlMsg m) = Some (wos_volume m)"
| "wos_request we self sessions bs (TVControlMsg m) = Some (wos_tv m)"
| "wos_request we self sessions bs (PowerControlMsg m) = Some (wos_power bs m)"
| "wos_request we self sessions bs (ToastControlMsg m) = Some (wos_toast we m)"
| "wos_request we self sessions bs (KeyControlMsg (SendKeyCode n)) = Some sendNotSupportedFailure"
| "wos_request we self sessions bs (WebAppLauncherMsg (LaunchWebApp i)) = Some (launchWebAppRelaunch self sessions i None True)"
| "wos_request we self sessions bs (WebAppLauncherMsg (LaunchWebAppParams i p)) = Some (launchWebAppParams self sessions i p)"
| "wos_request we self sessions bs (WebAppLauncherMsg (LaunchWebAppRelaunch i b)) = Some (launchWebAppRelaunch self sessions i None b)"
| "wos_request we self sessions bs (WebAppLauncherMsg (LaunchWebAppParamsRelaunch i p b)) = Some (launchWebAppRelaunch self sessions i p b)"
| "wos_request we self sessions bs (WebAppLauncherMsg (CloseWebAppMsg l)) = Some (wos_closeWebApp l)"
| "wos_request we self sessions bs (WebAppLauncherMsg (PinWebApp i)) = Some (pinRequest ''ssap://webapp/pinWebApp'' i)"
| "wos_request we self sessions bs (WebAppLauncherMsg (UnPinWebApp i)) = Some (pinRequest ''ssap://webapp/removePinnedWebApp'' i)"
| "wos_request we self sessions bs (WebAppLauncherMsg (IsWebAppPinned i)) = Some (wos_isWebAppPinned i)"
| "wos_request we self sessions bs (WebAppLauncherMsg (SubscribeIsWebAppPinned i)) = Some (wos_subscribeIsWebAppPinned i)"
| "wos_request we self sessions bs _ = None"

section \<open>Every request calls one block\<close>

lemma launchApplicationElse_completes [simp]:
  "completes (launchApplicationElse self i p f) \<longleftrightarrow> (\<forall>e. completes (f e))"
  "sends_at_most (launchApplicationElse self i p f) n \<longleftrightarrow> n > 0 \<and> (\<forall>e. sends_at_most (f e) (n - 1))"
  by (simp_all add: launchApplicationElse_def Let_def)

lemma launchApplication_completes [simp]:
  "completes (launchApplication self i p)" "sends_at_most (launchApplication self i p) n \<longleftrightarrow> n > 0"
  by (simp_all add: launchApplication_def)

lemma launcher_completes: "completes (wos_launcher we self m) \<and> sends_at_most (wos_launcher we self m) 2"
  by (cases m) (simp_all add: wos_getAppList_def launchAppStore_def launchBrowser_def launchHulu_def launchNetflix_def
      launchYouTubeAt_def wos_closeApp_def Let_def split: option.splits)

lemma externalInput_completes: "completes (wos_externalInput self m) \<and> sends_at_most (wos_externalInput self m) 2"
  by (cases m) (simp_all add: wos_closeApp_def)

lemma media_completes:
  "completes (wos_mediaControl m)" "sends_at_most (wos_mediaControl m) 2"
  "completes (wos_playList l)" "sends_at_most (wos_playList l) 2"
  by (cases m; simp add: wos_playList_def)+

lemma volume_completes: "completes (wos_volume m) \<and> sends_at_most (wos_volume m) 2"
  by (cases m) simp_all

lemma tv_completes: "completes (wos_tv m) \<and> sends_at_most (wos_tv m) 2"
  by (cases m) (simp_all add: wos_setChannel_def split: option.splits)

lemma power_completes: "completes (wos_power bs m) \<and> sends_at_most (wos_power bs m) 2"
  by (cases m) (simp_all split: sum.splits)

lemma toast_completes: "completes (wos_toast we m) \<and> sends_at_most (wos_toast we m) 2"
  by (cases m) (simp_all add: showToastWithParams_def Let_def)

lemma launchWebAppParams_completes [simp]:
  "completes (launchWebAppParams self ss i p)" "n > 0 \<Longrightarrow> sends_at_most (launchWebAppParams self ss i p) n"
  by (simp_all add: launchWebAppParams_def argumentError_def)

lemma launchWebAppRelaunch_completes [simp]:
  "completes (launchWebAppRelaunch self ss i p b)" "sends_at_most (launchWebAppRelaunch self ss i p b) 2"
  by (simp_all add: launchWebAppRelaunch_def argumentError_def Let_def split: option.splits)

lemma webApp_requests_complete [simp]:
  "completes (wos_closeWebApp l)" "sends_at_most (wos_closeWebApp l) 2"
  "completes (wos_isWebAppPinned i)" "sends_at_most (wos_isWebAppPinned i) 2"
  "completes (wos_subscribeIsWebAppPinned i)" "sends_at_most (wos_subscribeIsWebAppPinned i) 2"
  by (simp_all add: wos_closeWebApp_def wos_isWebAppPinned_def wos_subscribeIsWebAppPinned_def argumentError_def
      split: option.splits)

fun isPinning :: "capMessage \<Rightarrow> bool" where
  "isPinning (WebAppLauncherMsg (PinWebApp i)) = True"
| "isPinning (WebAppLauncherMsg (UnPinWebApp i)) = True"
| "isPinning _ = False"

lemma wos_request_completes:
  "wos_request we self sessions bs msg = Some rq \<Longrightarrow> \<not> isPinning msg \<Longrightarrow> completes rq \<and> sends_at_most rq 2"
proof (cases msg)
  case (WebAppLauncherMsg m)
  assume "wos_request we self sessions bs msg = Some rq" "\<not> isPinning msg"
  with WebAppLauncherMsg show ?thesis by (cases m) auto
next
  case (KeyControlMsg m)
  assume "wos_request we self sessions bs msg = Some rq"
  with KeyControlMsg show ?thesis by (cases m) auto
qed (use launcher_completes externalInput_completes media_completes volume_completes tv_completes
      power_completes toast_completes in auto)


definition sample_webosEnv :: webosEnv where
  "sample_webosEnv = \<lparr>we_guid = ''guid'', we_format1 = (\<lambda>_. ''0.0''), we_appIcon = None\<rparr>"

definition sample_sessionService :: sessionService where
  "sample_sessionService = \<lparr>ss_serviceName = Some ''webOS TV'', ss_conforms = [ProtoLauncher]\<rparr>"


section \<open>Volume\<close>

lemma roundf_near: "\<bar>real_of_int (roundf x) - x\<bar> \<le> 1 / 2"
proof (cases "x \<ge> 0")
  case True
  then show ?thesis unfolding roundf_def by (simp only: if_True) linarith
next
  case False
  then show ?thesis unfolding roundf_def by (simp only: if_False of_int_minus) linarith
qed

lemma roundf_bound:
  assumes "\<bar>x\<bar> \<le> 1000000" shows "- (2 ^ 31) \<le> roundf x" "roundf x < 2 ^ 31"
proof -
  have "\<bar>real_of_int (roundf x)\<bar> \<le> 1000001" using roundf_near [of x] assms by linarith
  then have "\<bar>roundf x\<bar> \<le> 1000001" by linarith
  then show "- (2 ^ 31) \<le> roundf x" "roundf x < 2 ^ 31" by simp_all
qed

text \<open>
  The volume survives the round trip through the TV up to half a step of its scale of one hundred: when the
  TV reports the value that \<open>setVolume:\<close> sent, \<open>getVolume\<close> answers a volume within 1/200 of the one set.
\<close>
theorem wos_volume_roundtrip:
  assumes "\<bar>v\<bar> \<le> 10000" "has_success bs" "tv1 ''ssap://audio/setVolume'' (Some p) = Inr r"
    "fst (run_request bs (Some tv1) (wos_volume (SetVolume v))) = [(''ssap://audio/setVolume'', Some p)]"
    "tv2 ''ssap://audio/getVolume'' None = Inr p"
  shows "\<exists>w. snd (run_request bs (Some tv2) (wos_volume GetVolume)) = GotReply (VolumeControlReply (VolumeReply w))
    \<and> \<bar>w - v\<bar> \<le> 1 / 200"
proof -
  have p: "p = [(''volume'', JNum (real_of_int (roundf (v * 100))))]"
    using assms(4) by (simp add: run_forward)
  have b: "- (2 ^ 31) \<le> roundf (v * 100)" "roundf (v * 100) < 2 ^ 31"
    using roundf_bound [of "v * 100"] assms(1) by (simp_all add: abs_mult)
  have "volumeReply p = Inr (VolumeControlReply (VolumeReply (real_of_int (roundf (v * 100)) / 100)))"
    using wrap32_id [OF b] by (simp add: volumeReply_def volumeOf_def p objectForKey_Cons)
  then have "snd (run_request bs (Some tv2) (wos_volume GetVolume))
      = GotReply (VolumeControlReply (VolumeReply (real_of_int (roundf (v * 100)) / 100)))"
    using assms(2,5) by simp
  moreover have "\<bar>real_of_int (roundf (v * 100)) / 100 - v\<bar> \<le> 1 / 200"
    using roundf_near [of "v * 100"] by linarith
  ultimately show ?thesis by blast
qed

theorem wos_volume_roundtrip_witness:
  "\<exists>w. snd (run_request \<lparr>has_success = True, has_failure = True\<rparr>
      (Some (\<lambda>_ _. Inr [(''volume'', JNum (real_of_int (roundf (1 / 4 * 100))))])) (wos_volume GetVolume))
      = GotReply (VolumeControlReply (VolumeReply w)) \<and> \<bar>w - 1 / 4\<bar> \<le> 1 / 200"
  by (rule wos_volume_roundtrip [where ?tv1.0 = "\<lambda>_ _. Inr []" and r = "[]"]) (simp_all add: run_forward)

section \<open>Power and relaunching\<close>

text \<open>
  A TV that confirms that it turns off makes a caller without a success block get an error: the failure block
  is called although nothing failed.
\<close>
theorem wos_powerOff_reports_failure_without_success_block:
  assumes "\<not> has_success bs" "has_failure bs" "tv ''ssap://system/turnOff'' None = Inr [(''returnValue'', JBool True)]"
  shows "snd (run_request bs (Some tv) (wos_power bs PowerOff))
    = GotError (generateErrorWithCode ConnectStatusCodeTvError None)"
  using assms by (simp add: objectForKey_Cons)

theorem wos_powerOff_reports_failure_without_success_block_witness:
  "snd (run_request \<lparr>has_success = False, has_failure = True\<rparr> (Some (\<lambda>_ _. Inr [(''returnValue'', JBool True)]))
      (wos_power \<lparr>has_success = False, has_failure = True\<rparr> PowerOff))
    = GotError (generateErrorWithCode ConnectStatusCodeTvError None)"
  by (rule wos_powerOff_reports_failure_without_success_block) simp_all

text \<open>
  Launching a web app without relaunch asks the TV for the foreground app first; when its id ends with the id
  of the web app nothing is launched and the caller gets the session of that app.
\<close>
theorem wos_no_relaunch_when_running:
  assumes "webAppId \<noteq> []" "tv ''ssap://com.webos.applicationManager/getForegroundAppInfo'' None = Inr r"
    "objectForKey r ''appId'' = Some (JStr (pre @ webAppId))" "has_success bs"
  shows "\<exists>s. run_request bs (Some tv) (launchWebAppRelaunch self [] (Some webAppId) params False)
      = ([(''ssap://com.webos.applicationManager/getForegroundAppInfo'', None)],
         GotReply (WebAppLauncherReply (WebAppLaunchReply s)))
    \<and> map_option ls_appId (was_launchSession s) = Some (Some webAppId)"
  using assms by (auto simp: launchWebAppRelaunch_def noWebAppId_def runningApp_def Let_def hasSuffix_def
      joinedSession_def launchSessionForAppId_def objectForKeyN_def)

theorem wos_no_relaunch_when_running_witness:
  "\<exists>s. run_request \<lparr>has_success = True, has_failure = True\<rparr>
       (Some (\<lambda>_ _. Inr [(''appId'', JStr ''com.webos.MediaPlayer'')]))
       (launchWebAppRelaunch sample_sessionService [] (Some ''MediaPlayer'') None False)
      = ([(''ssap://com.webos.applicationManager/getForegroundAppInfo'', None)],
         GotReply (WebAppLauncherReply (WebAppLaunchReply s)))"
  using wos_no_relaunch_when_running [of "''MediaPlayer''" "\<lambda>_ _. Inr [(''appId'', JStr ''com.webos.MediaPlayer'')]"
      "[(''appId'', JStr ''com.webos.MediaPlayer'')]" "''com.webos.''" "\<lparr>has_success = True, has_failure = True\<rparr>"
      sample_sessionService None]
  by (auto simp: objectForKey_Cons)

end
