(* ===== verification/WebOSSocket.thy ===== *)
theory WebOSSocket
  imports DeviceService Commands
begin

text \<open>
  \<open>src/Services/Helpers/WebOSTVServiceSocketClient\<close>: the connection of a webOS service to its TV over a
  web socket. The client numbers its messages, keeps the commands that wait for a response, queues what it
  cannot send yet, greets and registers with the TV, and restores subscriptions after the application was
  in the background.

  The web socket itself is the environment: its ready state is part of the state, its callbacks are
  operations. A JSON text is the value it encodes. A block run by \<open>dispatch_on_main\<close> is an output; the
  operation it runs is called when the main queue takes it. The service the client reads and changes is a
  record of the properties it uses.
\<close>

section \<open>State\<close>

datatype readyState = LGSR_CONNECTING | LGSR_OPEN | LGSR_CLOSING | LGSR_CLOSED

record socketService =
  so_clientKey :: "string option"
  so_SSLCertificates :: "json option"
  so_configUUID :: "string option"
  so_address :: "string option"
  so_port :: nat
  so_descriptionUUID :: "string option"
  so_pairingType :: DeviceServicePairingType

text \<open>
  A command that waits for a response: the greeting, the registration, a command named by its number, or
  a subscription, which stays after a response. A callback that is nil stands for a block that does nothing.
\<close>

datatype activeCommand = HelloCommand | RegisterCommand | PlainCommand nat | SubscriptionCommand nat

datatype socketSelector = SelSocketWillRegister | SelRegistrationFailed | SelSocketDidReceiveMessage

record WebOSTVServiceSocketClient =
  sk_UID :: int
  sk_connected :: bool
  sk_socket :: "readyState option"
  sk_commandQueue :: "json list"
  sk_activeConnections :: "activeCommand nsdict"
  sk_subscribed :: "nat nsdict"
  sk_subscriptions :: "nat \<Rightarrow> ServiceSubscription"
  sk_savedSubscriptions :: "nat nsdict option"
  sk_reconnectOnWake :: bool
  sk_observing :: bool
  sk_delegate :: "socketSelector list option"
  sk_service :: socketService

text \<open>What the delegate of the client is told.\<close>

datatype socketEvent =
    SocketDidConnect
  | SocketDidCloseWithError "NSError option"
  | SocketDidFailWithError NSError
  | CloseByResponse NSError
  | SocketWillRegister
  | SocketRegistrationFailed NSError

datatype socketOutput =
    OpenWebSocket string "json option"
  | SendOverSocket json
  | CloseWebSocket string
  | TellDelegate socketEvent
  | CompleteOnMain activeCommand "json option"
  | FailOnMain activeCommand NSError bool

type_synonym socketOp = "WebOSTVServiceSocketClient \<Rightarrow> WebOSTVServiceSocketClient \<times> socketOutput list"

definition thenDo :: "socketOp \<Rightarrow> socketOp \<Rightarrow> socketOp" where
  "thenDo f g st = (case f st of (st1, out1) \<Rightarrow> (case g st1 of (st2, out2) \<Rightarrow> (st2, out1 @ out2)))"

definition sk_tell :: "socketEvent \<Rightarrow> socketOp" where
  "sk_tell e st = (st, if sk_delegate st = None then [] else [TellDelegate e])"

definition sk_responds :: "WebOSTVServiceSocketClient \<Rightarrow> socketSelector \<Rightarrow> bool" where
  "sk_responds st sel = (case sk_delegate st of None \<Rightarrow> False | Some sels \<Rightarrow> sel \<in> set sels)"

text \<open>The surroundings: the greeting, the bundle, the permissions of the service, the background setting.\<close>

record socketEnv =
  se_helloPayload :: jdict
  se_infoDictionary :: jdict
  se_permissions :: "string list"
  se_disconnectOnBackground :: bool
  se_pairingOn :: bool

text \<open>The getter of \<open>pairingType\<close> of the service: the pairing level decides whether the stored type counts.\<close>

definition wos_readPairingType :: "bool \<Rightarrow> DeviceServicePairingType \<Rightarrow> DeviceServicePairingType" where
  "wos_readPairingType pairingOn stored =
     (if pairingOn then (if stored \<noteq> PairingTypeNone then stored else PairingTypeFirstScreen) else PairingTypeNone)"

section \<open>Helpers\<close>

definition sk_initWithService :: "socketService \<Rightarrow> WebOSTVServiceSocketClient" where
  "sk_initWithService service = \<lparr>sk_UID = 0, sk_connected = False, sk_socket = None, sk_commandQueue = [],
     sk_activeConnections = [], sk_subscribed = [],
     sk_subscriptions = (\<lambda>_. subscriptionWithDelegate None None None 0), sk_savedSubscriptions = None,
     sk_reconnectOnWake = False, sk_observing = False, sk_delegate = None, sk_service = service\<rparr>"

definition getNextId :: "WebOSTVServiceSocketClient \<Rightarrow> int \<times> WebOSTVServiceSocketClient" where
  "getNextId st = (let n = wrap32 (sk_UID st + 1) in (n, st\<lparr>sk_UID := n\<rparr>))"

text \<open>A message id is a number or a string; \<open>%@\<close> prints both the same way, and nil as \<open>(null)\<close>.\<close>

datatype messageId = IdNumber int | IdString string

fun showId :: "messageId option \<Rightarrow> string" where
  "showId None = ''(null)''"
| "showId (Some (IdNumber n)) = show_int n"
| "showId (Some (IdString s)) = s"

definition connectionKeyForMessageId :: "messageId option \<Rightarrow> string" where
  "connectionKeyForMessageId messageId = ''req'' @ showId messageId"

fun pairingTypeToString :: "DeviceServicePairingType \<Rightarrow> string" where
  "pairingTypeToString PairingTypeFirstScreen = ''PROMPT''"
| "pairingTypeToString PairingTypePinCode = ''PIN''"
| "pairingTypeToString PairingTypeMixed = ''COMBINED''"
| "pairingTypeToString _ = ''''"

definition pairingStringToType :: "string \<Rightarrow> DeviceServicePairingType" where
  "pairingStringToType s =
     (if s = ''PROMPT'' then PairingTypeFirstScreen
      else if s = ''PIN'' then PairingTypePinCode
      else if s = ''COMBINED'' then PairingTypeMixed else PairingTypeNone)"

text \<open>
  \<open>encodeData:andAddress:withId:\<close>: a request when there is an address, otherwise a registration, with the
  client key when the service has one.
\<close>

definition encodeData ::
  "jdict option \<Rightarrow> string option \<Rightarrow> int \<Rightarrow> WebOSTVServiceSocketClient \<Rightarrow> json \<times> WebOSTVServiceSocketClient" where
  "encodeData data add reqId st0 =
     (let (reqId', st) = (if reqId < 0 then getNextId st0 else (reqId, st0));
          payload = (case data of None \<Rightarrow> [] | Some d \<Rightarrow> d);
          payload' = (if add = None then setIfPresent (map_option JStr (so_clientKey (sk_service st))) ''client-key'' payload
                      else payload);
          base = [(''id'', JStr (show_int reqId')), (''payload'', JObj payload')]
      in (JObj (case add of
            Some u \<Rightarrow> base @ [(''uri'', JStr u), (''type'', JStr ''request'')]
          | None \<Rightarrow> base @ [(''type'', JStr ''register'')]), st))"

text \<open>The dictionary literal of \<open>manifest\<close> raises when the bundle has no identifier.\<close>

definition sk_manifest :: "socketEnv \<Rightarrow> jdict result" where
  "sk_manifest se =
     (let info = se_infoDictionary se;
          bundleName = (case objectForKey info ''CFBundleDisplayName'' of
              Some n \<Rightarrow> n
            | None \<Rightarrow> (case objectForKey info ''CFBundleName'' of Some n \<Rightarrow> n | None \<Rightarrow> JStr ''''))
      in case objectForKey info ''CFBundleIdentifier'' of
           None \<Rightarrow> Inl NSInvalidArgumentException
         | Some appId \<Rightarrow> Inr [(''manifestVersion'', JNum 1), (''appId'', appId), (''vendorId'', JStr ''''),
             (''localizedAppNames'', JObj [('''', bundleName)]), (''permissions'', JArr (map JStr (se_permissions se)))])"

section \<open>Greeting\<close>

definition helloTv :: "socketEnv \<Rightarrow> socketOp" where
  "helloTv se st0 =
     (let st1 = st0\<lparr>sk_activeConnections := setObject HelloCommand ''hello'' (sk_activeConnections st0)\<rparr>;
          (dataId, st2) = getNextId st1;
          sendData = JObj [(''id'', JNum (real_of_int dataId)), (''type'', JStr ''hello''),
                           (''payload'', JObj (se_helloPayload se))]
      in (st2\<lparr>sk_commandQueue := removeAll sendData (sk_commandQueue st2)\<rparr>, [SendOverSocket sendData]))"

definition webSocketDidOpen :: "socketEnv \<Rightarrow> socketOp" where
  "webSocketDidOpen se st = helloTv se (st\<lparr>sk_connected := True\<rparr>)"

section \<open>Opening, closing and sending\<close>

text \<open>
  A new web socket starts connecting. Re-attaching the delegate of an existing one changes nothing here,
  because the client is the only delegate its socket ever has.
\<close>

definition newSocket :: socketOp where
  "newSocket st = (let service = sk_service st in
     (st\<lparr>sk_socket := Some LGSR_CONNECTING\<rparr>,
      [OpenWebSocket (''wss://'' @ formatObject (so_address service) @ '':'' @ show_nat (so_port service))
         (so_SSLCertificates service)]))"

definition openSocket :: "socketEnv \<Rightarrow> socketOp" where
  "openSocket se st = (case sk_socket st of
      Some LGSR_OPEN \<Rightarrow> webSocketDidOpen se st
    | Some LGSR_CONNECTING \<Rightarrow> (st, [])
    | Some LGSR_CLOSED \<Rightarrow> newSocket (st\<lparr>sk_socket := None\<rparr>)
    | Some LGSR_CLOSING \<Rightarrow> newSocket (st\<lparr>sk_socket := None\<rparr>)
    | None \<Rightarrow> newSocket st)"

definition sk_connect :: "socketEnv \<Rightarrow> socketOp" where
  "sk_connect se = openSocket se"

definition disconnectWithError :: "NSError option \<Rightarrow> socketOp" where
  "disconnectWithError error st0 =
     (let st1 = (if sk_reconnectOnWake st0 then st0 else st0\<lparr>sk_observing := False\<rparr>)\<lparr>sk_connected := False\<rparr>;
          (st2, out) = (if sk_socket st1 \<in> {Some LGSR_CONNECTING, Some LGSR_OPEN}
            then (st1\<lparr>sk_socket := Some LGSR_CLOSING\<rparr>,
                  [CloseWebSocket (case error of Some e \<Rightarrow> err_message e | None \<Rightarrow> ''Disconnected by client'')])
            else (st1, []))
      in (case sk_tell (SocketDidCloseWithError error) (st2\<lparr>sk_subscribed := []\<rparr>) of
            (st3, told) \<Rightarrow> (st3, out @ told)))"

definition sendStringOverSocket :: "socketEnv \<Rightarrow> json \<Rightarrow> socketOp" where
  "sendStringOverSocket se payload =
     thenDo (\<lambda>st. if sk_socket st = None then openSocket se st else (st, []))
       (\<lambda>st. case sk_socket st of
          Some LGSR_OPEN \<Rightarrow>
            (st\<lparr>sk_commandQueue := removeAll payload (sk_commandQueue st)\<rparr>, [SendOverSocket payload])
        | Some LGSR_CONNECTING \<Rightarrow> (st\<lparr>sk_commandQueue := sk_commandQueue st @ [payload]\<rparr>, [])
        | Some LGSR_CLOSING \<Rightarrow> (st\<lparr>sk_commandQueue := sk_commandQueue st @ [payload]\<rparr>, [])
        | _ \<Rightarrow> openSocket se (st\<lparr>sk_commandQueue := sk_commandQueue st @ [payload]\<rparr>))"

definition sendDictionaryOverSocket :: "socketEnv \<Rightarrow> jdict \<Rightarrow> socketOp" where
  "sendDictionaryOverSocket se payload = sendStringOverSocket se (JObj payload)"

definition sk_sendCommand ::
  "socketEnv \<Rightarrow> nat \<Rightarrow> jdict option \<Rightarrow> string option \<Rightarrow> WebOSTVServiceSocketClient \<Rightarrow>
   int \<times> WebOSTVServiceSocketClient \<times> socketOutput list" where
  "sk_sendCommand se comm payload url st0 =
     (let (callId, st1) = getNextId st0;
          st2 = st1\<lparr>sk_activeConnections :=
            setObject (PlainCommand comm) (connectionKeyForMessageId (Some (IdNumber callId))) (sk_activeConnections st1)\<rparr>;
          (sendString, st3) = encodeData payload url callId st2
      in (callId, sendStringOverSocket se sendString st3))"

section \<open>Subscriptions\<close>

text \<open>
  The reference of a subscription: the address followed by the values of the payload. \<open>showValue\<close> is the
  description of a value, which Foundation defines.
\<close>

definition subscriptionReference :: "(json \<Rightarrow> string) \<Rightarrow> string \<Rightarrow> jdict option \<Rightarrow> string" where
  "subscriptionReference showValue url payload =
     (case payload of None \<Rightarrow> url | Some d \<Rightarrow> url @ concat (map showValue (allValues d)))"

definition killSubscribe :: "(json \<Rightarrow> string) \<Rightarrow> string \<Rightarrow> jdict option \<Rightarrow> WebOSTVServiceSocketClient \<Rightarrow>
   WebOSTVServiceSocketClient \<times> nat option" where
  "killSubscribe showValue url payload st =
     (let ref = subscriptionReference showValue url payload in
      (st\<lparr>sk_subscribed := removeObjectForKey ref (sk_subscribed st)\<rparr>, objectForKey (sk_subscribed st) ref))"

definition sk_sendSubscription ::
  "(json \<Rightarrow> string) \<Rightarrow> socketEnv \<Rightarrow> nat \<Rightarrow> ServiceSubscriptionType \<Rightarrow> jdict option \<Rightarrow> string \<Rightarrow> int \<Rightarrow>
   WebOSTVServiceSocketClient \<Rightarrow> int \<times> WebOSTVServiceSocketClient \<times> socketOutput list" where
  "sk_sendSubscription showValue se subscription type payload url callId0 st0 =
     (let (callId, st1) = (if callId0 < 0 then getNextId st0 else (callId0, st0));
          st2 = st1\<lparr>sk_activeConnections := setObject (SubscriptionCommand subscription)
            (connectionKeyForMessageId (Some (IdNumber callId))) (sk_activeConnections st1)\<rparr>;
          base = [(''id'', JNum (real_of_int callId)), (''uri'', JStr url)]
      in case type of
           SubscriptionTypeSubscribe \<Rightarrow>
             (callId, sendStringOverSocket se
                (JObj (setIfPresent (map_option JObj payload) ''payload'' (base @ [(''type'', JStr ''subscribe'')]))) st2)
         | SubscriptionTypeUnsubscribe \<Rightarrow>
             (if \<not> sk_connected st2 then (-1, st2, [])
              else (callId, sendStringOverSocket se (JObj (base @ [(''type'', JStr ''unsubscribe'')]))
                      (fst (killSubscribe showValue url payload st2)))))"

text \<open>\<open>subscribe\<close> of a subscription whose delegate is the client.\<close>

definition sk_subscribe :: "(json \<Rightarrow> string) \<Rightarrow> socketEnv \<Rightarrow> nat \<Rightarrow> socketOp" where
  "sk_subscribe showValue se r st0 =
     (let s = sk_subscriptions st0 r in
      case sk_sendSubscription showValue se r SubscriptionTypeSubscribe (asObject (cmd_payload s))
             (case cmd_target s of None \<Rightarrow> '''' | Some u \<Rightarrow> u) (sub_callId s) st0 of
        (callId, st, out) \<Rightarrow>
          (st\<lparr>sk_subscriptions := (sk_subscriptions st)(r := (sk_subscriptions st r)\<lparr>sub_callId := callId, sub_isSubscribed := True\<rparr>)\<rparr>, out))"

text \<open>\<open>addSubscribe:payload:success:failure:\<close>; \<open>fresh\<close> names the object it may create.\<close>

definition addSubscribe ::
  "(json \<Rightarrow> string) \<Rightarrow> socketEnv \<Rightarrow> nat \<Rightarrow> string \<Rightarrow> jdict option \<Rightarrow> nat option \<Rightarrow> nat option \<Rightarrow>
   WebOSTVServiceSocketClient \<Rightarrow> nat \<times> WebOSTVServiceSocketClient \<times> socketOutput list" where
  "addSubscribe showValue se fresh url payload success failure st0 =
     (let ref = subscriptionReference showValue url payload;
          (r, st1) = (case objectForKey (sk_subscribed st0) ref of
              Some r \<Rightarrow> (r, st0)
            | None \<Rightarrow> (case getNextId st0 of (callId, st) \<Rightarrow>
                (fresh, st\<lparr>sk_subscriptions := (sk_subscriptions st)
                     (fresh := subscriptionWithDelegate None (Some url) (map_option JObj payload) callId),
                   sk_subscribed := setObject fresh ref (sk_subscribed st)\<rparr>)));
          s1 = sk_subscriptions st1 r;
          s2 = (if success \<noteq> None then addSuccess success s1 else s1);
          s3 = (if failure \<noteq> None then addFailure failure s2 else s2);
          st2 = st1\<lparr>sk_subscriptions := (sk_subscriptions st1)(r := s3)\<rparr>
      in (r, if \<not> sub_isSubscribed s3 then sk_subscribe showValue se r st2 else (st2, [])))"

fun subscribeAll :: "(json \<Rightarrow> string) \<Rightarrow> socketEnv \<Rightarrow> nat list \<Rightarrow> socketOp" where
  "subscribeAll showValue se [] st = (st, [])"
| "subscribeAll showValue se (r # rs) st = thenDo (sk_subscribe showValue se r) (subscribeAll showValue se rs) st"

definition resubscribeSubscriptions :: "(json \<Rightarrow> string) \<Rightarrow> socketEnv \<Rightarrow> nat nsdict \<Rightarrow> socketOp" where
  "resubscribeSubscriptions showValue se subscriptions st =
     subscribeAll showValue se (allValues subscriptions) (st\<lparr>sk_subscribed := subscriptions\<rparr>)"

section \<open>Registration\<close>

definition registerWithTv :: "socketEnv \<Rightarrow> WebOSTVServiceSocketClient \<Rightarrow>
   (WebOSTVServiceSocketClient \<times> socketOutput list) result" where
  "registerWithTv se st0 =
     (let (dataId, st1) = getNextId st0;
          st2 = st1\<lparr>sk_activeConnections :=
            setObject RegisterCommand (connectionKeyForMessageId (Some (IdNumber dataId))) (sk_activeConnections st1)\<rparr>
      in rbind (sk_manifest se) (\<lambda>manifest.
           case encodeData (Some [(''manifest'', JObj manifest),
                  (''pairingType'', JStr (pairingTypeToString (wos_readPairingType (se_pairingOn se) (so_pairingType (sk_service st2)))))]) None dataId st2 of
             (sendString, st3) \<Rightarrow>
               Inr (st3\<lparr>sk_commandQueue := removeAll sendString (sk_commandQueue st3)\<rparr>, [SendOverSocket sendString])))"

text \<open>The completion of the greeting, run on the main queue with the payload of the response.\<close>

definition helloComplete :: "socketEnv \<Rightarrow> jdict \<Rightarrow> WebOSTVServiceSocketClient \<Rightarrow>
   (WebOSTVServiceSocketClient \<times> socketOutput list) result" where
  "helloComplete se response st0 =
     (let service = sk_service st0;
          deviceUUID = asString (objectForKey response ''deviceUUID'');
          (st1, out) =
            (if so_configUUID service \<noteq> None
             then (if \<not> isEqualToString (so_configUUID service) deviceUUID
                   then disconnectWithError (Some (generateErrorWithCode ConnectStatusCodeCertificateError None))
                     (st0\<lparr>sk_service := service\<lparr>so_clientKey := None, so_SSLCertificates := None, so_configUUID := None,
                           so_address := None, so_descriptionUUID := None\<rparr>\<rparr>)
                   else (st0, []))
             else (st0\<lparr>sk_service := service\<lparr>so_configUUID := deviceUUID, so_descriptionUUID := deviceUUID\<rparr>\<rparr>, []))
      in rbind (registerWithTv se st1) (\<lambda>(st2, out'). Inr (st2, out @ out')))"

definition helloError :: socketOp where
  "helloError = disconnectWithError (Some (generateErrorWithCode ConnectStatusCodeSocketError None))"

fun requiresAlert :: "DeviceServicePairingType \<Rightarrow> bool" where
  "requiresAlert PairingTypeNone = False"
| "requiresAlert PairingTypeFirstScreen = False"
| "requiresAlert _ = True"

text \<open>
  The completion of the registration; the TV calls it again after a pairing prompt.
\<close>

definition registerComplete ::
  "(json \<Rightarrow> string) \<Rightarrow> socketEnv \<Rightarrow> jdict \<Rightarrow> socketOp" where
  "registerComplete showValue se response =
     thenDo (\<lambda>st. case asString (objectForKey response ''pairingType'') of
          None \<Rightarrow> (st, [])
        | Some p \<Rightarrow>
            (let st' = st\<lparr>sk_service := (sk_service st)\<lparr>so_pairingType := pairingStringToType p\<rparr>\<rparr> in
             if sk_responds st' SelSocketWillRegister \<and> requiresAlert (wos_readPairingType (se_pairingOn se) (so_pairingType (sk_service st')))
             then (st', [TellDelegate SocketWillRegister]) else (st', [])))
     (thenDo (\<lambda>st. (if se_disconnectOnBackground se then st\<lparr>sk_observing := True\<rparr> else st, []))
     (thenDo (\<lambda>st. (st\<lparr>sk_commandQueue := []\<rparr>, map SendOverSocket (sk_commandQueue st)))
       (\<lambda>st. case sk_savedSubscriptions st of
          None \<Rightarrow> (st, [])
        | Some saved \<Rightarrow> if saved = [] then (st, [])
            else (case resubscribeSubscriptions showValue se saved st of (st', out) \<Rightarrow>
                    (st'\<lparr>sk_savedSubscriptions := None\<rparr>, out)))))"

text \<open>The error block asks for the wrong selector; a delegate without the right one raises.\<close>

definition registerError :: "NSError \<Rightarrow> WebOSTVServiceSocketClient \<Rightarrow>
   (WebOSTVServiceSocketClient \<times> socketOutput list) result" where
  "registerError error st =
     (if sk_responds st SelSocketWillRegister
      then (if sk_responds st SelRegistrationFailed then Inr (st, [TellDelegate (SocketRegistrationFailed error)])
            else Inl NSInvalidArgumentException)
      else Inr (st, []))"

section \<open>Application state\<close>

definition hAppDidEnterBackground :: socketOp where
  "hAppDidEnterBackground st =
     (if sk_observing st \<and> sk_connected st
      then disconnectWithError None (st\<lparr>sk_reconnectOnWake := True, sk_savedSubscriptions := Some (sk_subscribed st)\<rparr>)
      else (st, []))"

definition hAppDidBecomeActive :: "socketEnv \<Rightarrow> socketOp" where
  "hAppDidBecomeActive se st =
     (if sk_observing st \<and> sk_reconnectOnWake st
      then (case sk_connect se st of (st', out) \<Rightarrow> (st'\<lparr>sk_reconnectOnWake := False\<rparr>, out))
      else (st, []))"

section \<open>Callbacks of the web socket\<close>

definition didCloseWithCode :: "string option \<Rightarrow> bool \<Rightarrow> socketOp" where
  "didCloseWithCode reason wasClean st =
     sk_tell (SocketDidCloseWithError
         (if wasClean then None else Some (generateErrorWithCode ConnectStatusCodeTvError reason)))
       (st\<lparr>sk_connected := False, sk_activeConnections := [], sk_socket := None\<rparr>)"

definition didFailWithError :: "socketEnv \<Rightarrow> NSError \<Rightarrow> socketOp" where
  "didFailWithError se error st0 =
     (let certificate = (err_code error = 23556);
          wasConnected = sk_connected st0;
          intError = (if certificate then generateErrorWithCode ConnectStatusCodeCertificateError None
                      else generateErrorWithCode ConnectStatusCodeSocketError (Some (err_message error)));
          service = sk_service st0;
          failed = map (\<lambda>c. FailOnMain c intError False) (allValues (sk_activeConnections st0));
          st1 = st0\<lparr>sk_connected := False, sk_activeConnections := [],
            sk_service := (if certificate then service\<lparr>so_SSLCertificates := None, so_clientKey := None\<rparr> else service)\<rparr>;
          (st2, out) = (if certificate then sk_connect se st1
            else if wasConnected then sk_tell (SocketDidCloseWithError (Some intError)) st1
            else sk_tell (SocketDidFailWithError intError) st1)
      in (st2, failed @ out))"

definition didGetCertificates :: "json \<Rightarrow> socketOp" where
  "didGetCertificates certs st = (st\<lparr>sk_service := (sk_service st)\<lparr>so_SSLCertificates := Some certs\<rparr>\<rparr>, [])"

text \<open>
  A message of the TV: its id, type and payload after decoding. \<open>process\<close> is the answer of the delegate to
  \<open>socket:didReceiveMessage:\<close>, asked when it implements it.
\<close>

record tvMessage =
  tm_id :: "messageId option"
  tm_type :: "string option"
  tm_payload :: "json option"
  tm_details :: string

fun isSubscription :: "activeCommand option \<Rightarrow> bool" where
  "isSubscription (Some (SubscriptionCommand r)) = True"
| "isSubscription _ = False"

definition onMain :: "(activeCommand \<Rightarrow> socketOutput) \<Rightarrow> activeCommand option \<Rightarrow> socketOutput list" where
  "onMain f c = (case c of None \<Rightarrow> [] | Some c' \<Rightarrow> [f c'])"

definition clientKeyOf :: "json option \<Rightarrow> string option" where
  "clientKeyOf payload = Option.bind (asObject payload) (\<lambda>d. asString (objectForKey d ''client-key''))"

text \<open>The part of the handler that depends on the type of the message.\<close>

definition dispatchMessage :: "tvMessage \<Rightarrow> activeCommand option \<Rightarrow> socketOp" where
  "dispatchMessage msg connectionCommand st =
     (let payload = tm_payload msg in
      if tm_type msg = Some ''error''
      then (st, if tm_id msg \<noteq> None
                then onMain (\<lambda>c. FailOnMain c (generateErrorWithCode ConnectStatusCodeTvError (Some (tm_details msg))) True)
                       connectionCommand
                else [])
      else thenDo (\<lambda>st.
             if tm_type msg = Some ''registered''
             then sk_tell SocketDidConnect (st\<lparr>sk_service := (sk_service st)\<lparr>so_clientKey := clientKeyOf payload\<rparr>\<rparr>)
             else if tm_type msg = Some ''hello''
             then (st\<lparr>sk_activeConnections := removeObjectForKey ''hello'' (sk_activeConnections st)\<rparr>,
                   onMain (\<lambda>c. CompleteOnMain c payload) (objectForKey (sk_activeConnections st) ''hello''))
             else (st, []))
           (\<lambda>st. (st, if tm_id msg \<noteq> None then onMain (\<lambda>c. CompleteOnMain c payload) connectionCommand else [])) st)"

definition isRegistrationResponse :: "json option \<Rightarrow> bool" where
  "isRegistrationResponse payload = (case asObject payload of
      None \<Rightarrow> False | Some d \<Rightarrow> objectForKey d ''pairingType'' \<noteq> None)"

definition didReceiveMessage :: "bool \<Rightarrow> tvMessage \<Rightarrow> socketOp" where
  "didReceiveMessage process msg st =
     (if sk_responds st SelSocketDidReceiveMessage \<and> \<not> process then (st, [])
      else (let connectionKey = connectionKeyForMessageId (tm_id msg);
                connectionCommand = objectForKey (sk_activeConnections st) connectionKey;
                (st1, out) = dispatchMessage msg connectionCommand st;
                leaveConnection = (isSubscription connectionCommand \<or> isRegistrationResponse (tm_payload msg))
            in (if leaveConnection then st1
                else st1\<lparr>sk_activeConnections := removeObjectForKey connectionKey (sk_activeConnections st1)\<rparr>, out)))"

section \<open>Routing of responses\<close>

text \<open>
  The waiting commands are filed under \<open>hello\<close> and under keys made from ids the client has handed out.
\<close>

definition sk_inv :: "WebOSTVServiceSocketClient \<Rightarrow> bool" where
  "sk_inv st \<longleftrightarrow> dict_wf (sk_activeConnections st) \<and> 0 \<le> sk_UID st \<and>
     (\<forall>k c. objectForKey (sk_activeConnections st) k = Some c \<longrightarrow>
        k = ''hello'' \<or> (\<exists>n. 0 < n \<and> n \<le> sk_UID st \<and> k = connectionKeyForMessageId (Some (IdNumber n))))"

lemma connectionKey_inj:
  "connectionKeyForMessageId (Some (IdNumber m)) = connectionKeyForMessageId (Some (IdNumber n)) \<longleftrightarrow> m = n"
  by (simp add: connectionKeyForMessageId_def show_int_inj)

lemma connectionKey_not_hello: "connectionKeyForMessageId i \<noteq> ''hello''"
  by (simp add: connectionKeyForMessageId_def)

lemma connectionKey_string: "connectionKeyForMessageId (Some (IdString (show_int n))) = connectionKeyForMessageId (Some (IdNumber n))"
  by (simp add: connectionKeyForMessageId_def)

lemma sk_initWithService_inv: "sk_inv (sk_initWithService service)"
  by (simp add: sk_inv_def sk_initWithService_def)

lemma getNextId_next: "sk_UID st < 2 ^ 31 - 1 \<Longrightarrow> 0 \<le> sk_UID st \<Longrightarrow> getNextId st = (sk_UID st + 1, st\<lparr>sk_UID := sk_UID st + 1\<rparr>)"
  by (simp add: getNextId_def Let_def)

lemma openSocket_active:
  "sk_socket st \<noteq> Some LGSR_OPEN \<Longrightarrow> sk_activeConnections (fst (openSocket se st)) = sk_activeConnections st"
  "sk_socket st \<noteq> Some LGSR_OPEN \<Longrightarrow> sk_UID (fst (openSocket se st)) = sk_UID st"
  "sk_socket st \<noteq> Some LGSR_OPEN \<Longrightarrow> sk_subscribed (fst (openSocket se st)) = sk_subscribed st"
  "sk_socket st \<noteq> Some LGSR_OPEN \<Longrightarrow> sk_subscriptions (fst (openSocket se st)) = sk_subscriptions st"
  "sk_socket st \<noteq> Some LGSR_OPEN \<Longrightarrow> sk_delegate (fst (openSocket se st)) = sk_delegate st"
  "sk_socket st \<noteq> Some LGSR_OPEN \<Longrightarrow> sk_service (fst (openSocket se st)) = sk_service st"
  "sk_socket st \<noteq> Some LGSR_OPEN \<Longrightarrow> sk_savedSubscriptions (fst (openSocket se st)) = sk_savedSubscriptions st"
  by (auto simp: openSocket_def newSocket_def Let_def split: option.splits readyState.splits)

text \<open>Sending never changes the waiting commands, the ids or the subscriptions.\<close>

lemma sendString_frame [simp]:
  "sk_activeConnections (fst (sendStringOverSocket se p st)) = sk_activeConnections st"
  "sk_UID (fst (sendStringOverSocket se p st)) = sk_UID st"
  "sk_subscribed (fst (sendStringOverSocket se p st)) = sk_subscribed st"
  "sk_subscriptions (fst (sendStringOverSocket se p st)) = sk_subscriptions st"
  "sk_delegate (fst (sendStringOverSocket se p st)) = sk_delegate st"
  "sk_service (fst (sendStringOverSocket se p st)) = sk_service st"
  "sk_savedSubscriptions (fst (sendStringOverSocket se p st)) = sk_savedSubscriptions st"
  by (auto simp: sendStringOverSocket_def thenDo_def openSocket_def newSocket_def Let_def
      split: option.splits readyState.splits)

lemma encodeData_frame:
  "reqId \<ge> 0 \<Longrightarrow> snd (encodeData d a reqId st) = st"
  by (simp add: encodeData_def Let_def)

lemma sendCommand_waits:
  assumes "sk_sendCommand se c payload url st = (callId, st', out)" "0 \<le> sk_UID st" "sk_UID st < 2 ^ 31 - 1"
  shows "callId = sk_UID st + 1" "sk_UID st' = callId" "sk_delegate st' = sk_delegate st"
    "sk_activeConnections st' = setObject (PlainCommand c) (connectionKeyForMessageId (Some (IdNumber callId))) (sk_activeConnections st)"
proof -
  let ?id = "sk_UID st + 1"
  let ?st = "st\<lparr>sk_UID := ?id, sk_activeConnections :=
     setObject (PlainCommand c) (connectionKeyForMessageId (Some (IdNumber ?id))) (sk_activeConnections st)\<rparr>"
  have next_id: "getNextId st = (?id, st\<lparr>sk_UID := ?id\<rparr>)" using assms(3,2) by (rule getNextId_next)
  obtain j where enc: "encodeData payload url ?id ?st = (j, ?st)"
    using encodeData_frame [of ?id payload url ?st] assms(2) by (metis add_increasing2 eq_fst_iff snd_conv zero_le_one)
  from assms(1) have r: "callId = ?id" "(st', out) = sendStringOverSocket se j ?st"
    by (auto simp: sk_sendCommand_def next_id Let_def enc)
  then have st': "st' = fst (sendStringOverSocket se j ?st)" by (metis fst_conv)
  show "callId = sk_UID st + 1" by (rule r)
  show "sk_UID st' = callId" "sk_delegate st' = sk_delegate st"
    "sk_activeConnections st' = setObject (PlainCommand c) (connectionKeyForMessageId (Some (IdNumber callId))) (sk_activeConnections st)"
    by (simp_all add: st' r(1))
qed

text \<open>A command that is sent is filed under a fresh key: no waiting command is lost.\<close>

lemma sendCommand_fresh:
  assumes "sk_inv st" "sk_UID st < 2 ^ 31 - 1"
  shows "objectForKey (sk_activeConnections st) (connectionKeyForMessageId (Some (IdNumber (sk_UID st + 1)))) = None"
proof (rule ccontr)
  assume "\<not> ?thesis"
  then obtain c where "objectForKey (sk_activeConnections st) (connectionKeyForMessageId (Some (IdNumber (sk_UID st + 1)))) = Some c"
    by blast
  with assms(1) have "connectionKeyForMessageId (Some (IdNumber (sk_UID st + 1))) = ''hello''
      \<or> (\<exists>n. 0 < n \<and> n \<le> sk_UID st \<and> connectionKeyForMessageId (Some (IdNumber (sk_UID st + 1))) = connectionKeyForMessageId (Some (IdNumber n)))"
    unfolding sk_inv_def by blast
  then show False using connectionKey_not_hello by (auto simp: connectionKey_inj)
qed

lemma sendCommand_inv:
  assumes "sk_inv st" "sk_UID st < 2 ^ 31 - 1" "sk_sendCommand se c payload url st = (callId, st', out)"
  shows "sk_inv st'"
proof -
  have nonneg: "0 \<le> sk_UID st" using assms(1) by (simp add: sk_inv_def)
  note sent = sendCommand_waits [OF assms(3) nonneg assms(2)]
  show ?thesis
    using assms(1) unfolding sk_inv_def sent(2,4) sent(1)
    by (auto split: if_splits) (smt (verit, best))+
qed

text \<open>One response to a waiting command.\<close>

definition plainResponse :: "int \<Rightarrow> json option \<Rightarrow> tvMessage" where
  "plainResponse callId payload = \<lparr>tm_id = Some (IdString (show_int callId)), tm_type = Some ''response'',
     tm_payload = payload, tm_details = ''''\<rparr>"

lemma receive_plain:
  assumes "sk_responds st SelSocketDidReceiveMessage \<longrightarrow> process" "\<not> isRegistrationResponse payload"
  shows "didReceiveMessage process (plainResponse callId payload) st =
    (case objectForKey (sk_activeConnections st) (connectionKeyForMessageId (Some (IdNumber callId))) of
       None \<Rightarrow> (st\<lparr>sk_activeConnections := removeObjectForKey (connectionKeyForMessageId (Some (IdNumber callId))) (sk_activeConnections st)\<rparr>, [])
     | Some c \<Rightarrow> (if isSubscription (Some c) then st else
         st\<lparr>sk_activeConnections := removeObjectForKey (connectionKeyForMessageId (Some (IdNumber callId))) (sk_activeConnections st)\<rparr>,
         [CompleteOnMain c payload]))"
  using assms
  by (auto simp: didReceiveMessage_def plainResponse_def dispatchMessage_def thenDo_def Let_def connectionKey_string
      onMain_def split: option.splits)

text \<open>
  C5: The response to a command reaches that command and no other, exactly once: after a command was sent, the
  first response with its id completes it on the main queue, a second one completes nothing, and every
  command that waited before still waits.
\<close>
theorem sk_response_completes_command_once:
  assumes "sk_inv st" "sk_UID st < 2 ^ 31 - 1" "sk_sendCommand se c request url st = (callId, st1, out)"
    "sk_responds st SelSocketDidReceiveMessage \<longrightarrow> process" "\<not> isRegistrationResponse payload"
    "didReceiveMessage process (plainResponse callId payload) st1 = (st2, out1)"
  shows "out1 = [CompleteOnMain (PlainCommand c) payload]
    \<and> snd (didReceiveMessage process (plainResponse callId payload) st2) = []
    \<and> objectForKey (sk_activeConnections st2) = objectForKey (sk_activeConnections st)"
proof -
  have nonneg: "0 \<le> sk_UID st" using assms(1) by (simp add: sk_inv_def)
  note sent = sendCommand_waits [OF assms(3) nonneg assms(2)]
  let ?k = "connectionKeyForMessageId (Some (IdNumber callId))"
  have fresh: "objectForKey (sk_activeConnections st) ?k = None"
    using sendCommand_fresh [OF assms(1,2)] sent(1) by simp
  have responds: "sk_responds st1 SelSocketDidReceiveMessage \<longrightarrow> process"
    using assms(4) sent(3) by (simp add: sk_responds_def)
  have r: "st2 = st1\<lparr>sk_activeConnections := removeObjectForKey ?k (sk_activeConnections st1)\<rparr>"
    "out1 = [CompleteOnMain (PlainCommand c) payload]"
    using receive_plain [OF responds assms(5), of callId] assms(6) by (simp_all add: sent(4))
  have responds2: "sk_responds st2 SelSocketDidReceiveMessage \<longrightarrow> process"
    using responds by (simp add: r(1) sk_responds_def)
  have gone: "objectForKey (sk_activeConnections st2) ?k = None" by (simp add: r(1))
  have "snd (didReceiveMessage process (plainResponse callId payload) st2) = []"
    using receive_plain [OF responds2 assms(5), of callId] gone by simp
  moreover have "objectForKey (sk_activeConnections st2) = objectForKey (sk_activeConnections st)"
    by (rule ext) (simp add: r(1) sent(4) fresh)
  ultimately show ?thesis using r(2) by simp
qed

definition sample_socketService :: socketService where
  "sample_socketService = \<lparr>so_clientKey = Some ''key'', so_SSLCertificates = None, so_configUUID = Some ''uuid'',
     so_address = Some ''10.0.0.2'', so_port = 3001, so_descriptionUUID = Some ''uuid'',
     so_pairingType = PairingTypeNone\<rparr>"

definition sample_socketEnv :: socketEnv where
  "sample_socketEnv = \<lparr>se_helloPayload = [], se_infoDictionary = [(''CFBundleIdentifier'', JStr ''app'')],
     se_permissions = [''LAUNCH''], se_disconnectOnBackground = True, se_pairingOn = True\<rparr>"

theorem sk_response_completes_command_once_witness:
  "\<exists>st1 out st2. sk_sendCommand sample_socketEnv 7 None (Some ''ssap://audio/getVolume'')
      (sk_initWithService sample_socketService) = (1, st1, out)
     \<and> didReceiveMessage True (plainResponse 1 None) st1 = (st2, [CompleteOnMain (PlainCommand 7) None])
     \<and> snd (didReceiveMessage True (plainResponse 1 None) st2) = []"
proof -
  let ?st = "sk_initWithService sample_socketService"
  obtain callId st1 out where c: "sk_sendCommand sample_socketEnv 7 None (Some ''ssap://audio/getVolume'') ?st = (callId, st1, out)"
    using prod_cases3 by blast
  obtain st2 out1 where d: "didReceiveMessage True (plainResponse callId None) st1 = (st2, out1)"
    by fastforce
  have u: "sk_UID ?st = 0" by (simp add: sk_initWithService_def)
  have id: "callId = 1" using sendCommand_waits(1) [OF c] u by simp
  have "out1 = [CompleteOnMain (PlainCommand 7) None]
    \<and> snd (didReceiveMessage True (plainResponse callId None) st2) = []
    \<and> objectForKey (sk_activeConnections st2) = objectForKey (sk_activeConnections ?st)"
    using sk_response_completes_command_once [OF sk_initWithService_inv _ c _ _ d] u
    by (simp add: isRegistrationResponse_def)
  with c d id show ?thesis by blast
qed

section \<open>The queue of unsent commands\<close>

lemma send_while_connecting:
  "sk_socket st = Some LGSR_CONNECTING \<Longrightarrow>
    sendStringOverSocket se p st = (st\<lparr>sk_commandQueue := sk_commandQueue st @ [p]\<rparr>, [])"
  by (simp add: sendStringOverSocket_def thenDo_def)

fun sendAll :: "socketEnv \<Rightarrow> json list \<Rightarrow> socketOp" where
  "sendAll se [] st = (st, [])"
| "sendAll se (p # ps) st = thenDo (sendStringOverSocket se p) (sendAll se ps) st"

lemma sendAll_while_connecting:
  "sk_socket st = Some LGSR_CONNECTING \<Longrightarrow>
    sendAll se ps st = (st\<lparr>sk_commandQueue := sk_commandQueue st @ ps\<rparr>, [])"
  by (induction ps arbitrary: st) (simp_all add: thenDo_def send_while_connecting)

lemma registerComplete_plain:
  assumes "objectForKey response ''pairingType'' = None" "sk_savedSubscriptions st = None"
  shows "registerComplete showValue se response st =
    ((if se_disconnectOnBackground se then st\<lparr>sk_observing := True\<rparr> else st)\<lparr>sk_commandQueue := []\<rparr>,
     map SendOverSocket (sk_commandQueue st))"
  using assms by (simp add: registerComplete_def thenDo_def)



section \<open>Failures and closing\<close>

text \<open>
  C31: When the web socket fails, every waiting command gets its error exactly once and none waits any more; when
  the TV closes the connection the waiting commands are dropped and none of their blocks is called.
\<close>
theorem sk_failure_reaches_every_command:
  assumes "sk_socket st \<noteq> Some LGSR_OPEN"
  shows "\<exists>e. filter (\<lambda>x. case x of FailOnMain c e b \<Rightarrow> True | _ \<Rightarrow> False) (snd (didFailWithError se error st))
        = map (\<lambda>c. FailOnMain c e False) (allValues (sk_activeConnections st))
    \<and> sk_activeConnections (fst (didFailWithError se error st)) = []
    \<and> filter (\<lambda>x. case x of FailOnMain c e b \<Rightarrow> True | _ \<Rightarrow> False) (snd (didCloseWithCode reason wasClean st)) = []
    \<and> sk_activeConnections (fst (didCloseWithCode reason wasClean st)) = []"
proof -
  have opened: "filter (\<lambda>x. case x of FailOnMain c e b \<Rightarrow> True | _ \<Rightarrow> False) (snd (openSocket se st')) = []"
    "sk_activeConnections (fst (openSocket se st')) = sk_activeConnections st'"
    if "sk_socket st' \<noteq> Some LGSR_OPEN" for st'
    using that by (auto simp: openSocket_def newSocket_def Let_def split: option.splits readyState.splits)
  have filter_all: "filter (\<lambda>x. case x of FailOnMain c e b \<Rightarrow> True | _ \<Rightarrow> False) (map (\<lambda>c. FailOnMain c err False) cs)
      = map (\<lambda>c. FailOnMain c err False) cs" for err cs
    by (induction cs) auto
  have told: "filter (\<lambda>x. case x of FailOnMain c e b \<Rightarrow> True | _ \<Rightarrow> False) (snd (sk_tell ev st')) = []"
    "fst (sk_tell ev st') = st'" for ev st'
    by (simp_all add: sk_tell_def)
  show ?thesis
    using assms
    by (auto simp: didFailWithError_def didCloseWithCode_def sk_connect_def Let_def case_prod_beta filter_all told opened)
qed

theorem sk_failure_reaches_every_command_witness:
  "\<exists>e. filter (\<lambda>x. case x of FailOnMain c e b \<Rightarrow> True | _ \<Rightarrow> False)
      (snd (didFailWithError sample_socketEnv \<lparr>err_code = 5, err_message = ''x''\<rparr>
         ((sk_initWithService sample_socketService)\<lparr>sk_activeConnections := [(''req1'', PlainCommand 3)]\<rparr>)))
      = [FailOnMain (PlainCommand 3) e False]"
proof -
  let ?st = "(sk_initWithService sample_socketService)\<lparr>sk_activeConnections := [(''req1'', PlainCommand 3)]\<rparr>"
  have "sk_socket ?st \<noteq> Some LGSR_OPEN" "allValues (sk_activeConnections ?st) = [PlainCommand 3]"
    by (simp_all add: sk_initWithService_def allValues_def)
  with sk_failure_reaches_every_command [of ?st sample_socketEnv "\<lparr>err_code = 5, err_message = ''x''\<rparr>" None True]
  show ?thesis by auto
qed

text \<open>
  A client that disconnects tells its delegate at once and, when the web socket reports its end, a second time.
\<close>
theorem sk_disconnect_is_told_twice:
  assumes "sk_delegate st \<noteq> None" "sk_socket st = Some LGSR_OPEN"
  shows "TellDelegate (SocketDidCloseWithError None) \<in> set (snd (disconnectWithError None st))
    \<and> snd (didCloseWithCode reason True (fst (disconnectWithError None st)))
        = [TellDelegate (SocketDidCloseWithError None)]"
  using assms by (auto simp: disconnectWithError_def didCloseWithCode_def sk_tell_def Let_def)

theorem sk_disconnect_is_told_twice_witness:
  "snd (didCloseWithCode None True (fst (disconnectWithError None
      ((sk_initWithService sample_socketService)\<lparr>sk_socket := Some LGSR_OPEN, sk_delegate := Some []\<rparr>))))
    = [TellDelegate (SocketDidCloseWithError None)]"
  using sk_disconnect_is_told_twice
    [of "(sk_initWithService sample_socketService)\<lparr>sk_socket := Some LGSR_OPEN, sk_delegate := Some []\<rparr>" None]
  by simp

section \<open>Registration with a TV\<close>

lemma registerWithTv_sends:
  assumes "objectForKey (se_infoDictionary se) ''CFBundleIdentifier'' \<noteq> None"
  shows "\<exists>st' j. registerWithTv se st = Inr (st', [SendOverSocket j]) \<and> sk_socket st' = sk_socket st"
proof -
  obtain m where m: "sk_manifest se = Inr m"
    using assms by (auto simp: sk_manifest_def Let_def)
  show ?thesis
    by (simp add: registerWithTv_def m Let_def case_prod_beta encodeData_def getNextId_def)
qed

text \<open>
  A TV that greets with another UUID than the one the service was paired with loses the stored key, the
  certificate and the address, and the connection is closed; the client nevertheless goes on to send it a
  registration.
\<close>
theorem sk_imposter_is_still_registered:
  assumes "so_configUUID (sk_service st) = Some u" "asString (objectForKey response ''deviceUUID'') \<noteq> Some u"
    "sk_socket st = Some LGSR_OPEN" "objectForKey (se_infoDictionary se) ''CFBundleIdentifier'' \<noteq> None"
  shows "\<exists>st' out j. helloComplete se response st = Inr (st', out @ [SendOverSocket j])
    \<and> CloseWebSocket ''Invalid server certificate'' \<in> set out
    \<and> \<not> sk_connected (fst (disconnectWithError (Some (generateErrorWithCode ConnectStatusCodeCertificateError None)) st))"
proof -
  let ?cleared = "st\<lparr>sk_service := (sk_service st)\<lparr>so_clientKey := None, so_SSLCertificates := None, so_configUUID := None,
      so_address := None, so_descriptionUUID := None\<rparr>\<rparr>"
  let ?d = "disconnectWithError (Some (generateErrorWithCode ConnectStatusCodeCertificateError None)) ?cleared"
  obtain st' j where reg: "registerWithTv se (fst ?d) = Inr (st', [SendOverSocket j])"
    using registerWithTv_sends [OF assms(4)] by blast
  have ne: "\<not> isEqualToString (so_configUUID (sk_service st)) (asString (objectForKey response ''deviceUUID''))"
    using assms(1,2) by (auto simp: isEqualToString_def)
  have "helloComplete se response st = rbind (registerWithTv se (fst ?d)) (\<lambda>(st2, out'). Inr (st2, snd ?d @ out'))"
    using assms(1) ne by (simp add: helloComplete_def Let_def case_prod_beta)
  then have "helloComplete se response st = Inr (st', snd ?d @ [SendOverSocket j])"
    using reg by simp
  moreover have "CloseWebSocket ''Invalid server certificate'' \<in> set (snd ?d)"
    using assms(3) by (simp add: disconnectWithError_def Let_def case_prod_beta generateErrorWithCode_def)
  moreover have "\<not> sk_connected (fst (disconnectWithError (Some (generateErrorWithCode ConnectStatusCodeCertificateError None)) st))"
    by (simp add: disconnectWithError_def Let_def case_prod_beta sk_tell_def)
  ultimately show ?thesis by blast
qed

theorem sk_imposter_is_still_registered_witness:
  "\<exists>st' out j. helloComplete sample_socketEnv [(''deviceUUID'', JStr ''other'')]
      ((sk_initWithService sample_socketService)\<lparr>sk_socket := Some LGSR_OPEN\<rparr>) = Inr (st', out @ [SendOverSocket j])"
  using sk_imposter_is_still_registered
    [of "(sk_initWithService sample_socketService)\<lparr>sk_socket := Some LGSR_OPEN\<rparr>" "''uuid''"
      "[(''deviceUUID'', JStr ''other'')]" sample_socketEnv]
  by (auto simp: sk_initWithService_def sample_socketService_def sample_socketEnv_def objectForKey_Cons)

lemma pairing_type_roundtrip:
  "pairingTypeToString t \<noteq> '''' \<Longrightarrow> pairingStringToType (pairingTypeToString t) = t"
  by (cases t) (simp_all add: pairingStringToType_def)

section \<open>Subscriptions across the background\<close>

lemma sk_sendSubscription_frame:
  assumes "sk_sendSubscription showValue se r SubscriptionTypeSubscribe payload url callId st = (n, st', out)"
  shows "sk_subscribed st' = sk_subscribed st" "sk_subscriptions st' = sk_subscriptions st"
    "sk_savedSubscriptions st' = sk_savedSubscriptions st"
proof -
  let ?p = "if callId < 0 then getNextId st else (callId, st)"
  let ?st = "(snd ?p)\<lparr>sk_activeConnections := setObject (SubscriptionCommand r)
            (connectionKeyForMessageId (Some (IdNumber (fst ?p)))) (sk_activeConnections (snd ?p))\<rparr>"
  have "\<exists>j. st' = fst (sendStringOverSocket se j ?st)"
    using assms by (auto simp: sk_sendSubscription_def Let_def case_prod_beta split: if_splits) (metis fst_conv)+
  then obtain j where st': "st' = fst (sendStringOverSocket se j ?st)" ..
  have next_frame: "sk_subscribed (snd (getNextId st)) = sk_subscribed st"
    "sk_subscriptions (snd (getNextId st)) = sk_subscriptions st"
    "sk_savedSubscriptions (snd (getNextId st)) = sk_savedSubscriptions st"
    by (simp_all add: getNextId_def Let_def)
  show "sk_subscribed st' = sk_subscribed st" "sk_subscriptions st' = sk_subscriptions st"
    "sk_savedSubscriptions st' = sk_savedSubscriptions st"
    by (simp_all add: st' next_frame)
qed

lemma sk_subscribe_marks:
  "sk_subscribed (fst (sk_subscribe showValue se r st)) = sk_subscribed st"
  "sub_isSubscribed (sk_subscriptions (fst (sk_subscribe showValue se r st)) r)"
  "sub_isSubscribed (sk_subscriptions st q) \<Longrightarrow> sub_isSubscribed (sk_subscriptions (fst (sk_subscribe showValue se r st)) q)"
proof -
  let ?s = "sk_subscriptions st r"
  obtain n st' out where send: "sk_sendSubscription showValue se r SubscriptionTypeSubscribe (asObject (cmd_payload ?s))
             (case cmd_target ?s of None \<Rightarrow> '''' | Some u \<Rightarrow> u) (sub_callId ?s) st = (n, st', out)"
    using prod_cases3 by blast
  note frame = sk_sendSubscription_frame [OF send]
  show "sk_subscribed (fst (sk_subscribe showValue se r st)) = sk_subscribed st"
    "sub_isSubscribed (sk_subscriptions (fst (sk_subscribe showValue se r st)) r)"
    "sub_isSubscribed (sk_subscriptions st q) \<Longrightarrow> sub_isSubscribed (sk_subscriptions (fst (sk_subscribe showValue se r st)) q)"
    by (simp_all add: sk_subscribe_def send frame)
qed

lemma subscribeAll_marks:
  "sk_subscribed (fst (subscribeAll showValue se rs st)) = sk_subscribed st
   \<and> (\<forall>q. q \<in> set rs \<or> sub_isSubscribed (sk_subscriptions st q) \<longrightarrow>
        sub_isSubscribed (sk_subscriptions (fst (subscribeAll showValue se rs st)) q))"
proof (induction rs arbitrary: st)
  case (Cons r rs)
  have "fst (subscribeAll showValue se (r # rs) st)
      = fst (subscribeAll showValue se rs (fst (sk_subscribe showValue se r st)))"
    by (simp add: thenDo_def case_prod_beta)
  with Cons [of "fst (sk_subscribe showValue se r st)"] sk_subscribe_marks [where showValue = showValue and se = se and r = r and st = st]
  show ?case by auto
qed simp



end
