(* ===== verification/WebAppSession.thy ===== *)
theory WebAppSession
  imports Protocols
begin

text \<open>
  \<open>src/Services/Sessions/WebAppSession\<close>: the base class of web app sessions. It answers almost every message
  of its protocols with the error for an unsupported feature; the five transport commands go to the media
  control of the service that launched the web app. \<open>serviceControl\<close> is that object: \<open>None\<close> when the session
  has no service, the service has no \<open>mediaControl\<close>, or that answers nil.
\<close>

section \<open>Operations\<close>

definition was_initWithJSONObject :: "jdict \<Rightarrow> WebAppSession option" where
  "was_initWithJSONObject dict = None"

definition was_initWithLaunchSession :: "LaunchSession option \<Rightarrow> sessionService option \<Rightarrow> WebAppSession" where
  "was_initWithLaunchSession launchSession service =
     \<lparr>was_launchSession = launchSession, was_service = service, was_delegate = None\<rparr>"

definition was_toJSONObject :: "WebAppSession \<Rightarrow> jdict result" where
  "was_toJSONObject self =
     rbind (case was_launchSession self of
              None \<Rightarrow> Inr []
            | Some l \<Rightarrow> rbind (ls_toJSONObject l) (\<lambda>j. Inr (setObject (JObj j) ''launchSession'' [])))
       (\<lambda>dict. Inr (setKeyed (map_option JStr (Option.bind (was_service self) ss_serviceName)) ''serviceName'' dict))"

text \<open>The session as a command delegate: no command is ever sent.\<close>

definition was_sendCommand :: "json option \<Rightarrow> string option \<Rightarrow> int" where
  "was_sendCommand payload url = -1"

definition was_sendAsync :: "json option \<Rightarrow> string option \<Rightarrow> int" where
  "was_sendAsync payload url = -1"

definition was_sendSubscription :: "ServiceSubscriptionType \<Rightarrow> json option \<Rightarrow> string option \<Rightarrow> int \<Rightarrow> int" where
  "was_sendSubscription type payload url callId = -1"

fun was_perform :: "webAppSessionMsg \<Rightarrow> request" where
  "was_perform SubscribeWebAppStatus = sendNotSupportedFailure"
| "was_perform ConnectWebApp = sendNotSupportedFailure"
| "was_perform JoinWebApp = sendNotSupportedFailure"
| "was_perform DisconnectFromWebApp = Silent"
| "was_perform (SendTextS message) = sendNotSupportedFailure"
| "was_perform (SendJSON message) = sendNotSupportedFailure"
| "was_perform (PinWebAppS webAppId) = sendNotSupportedFailure"
| "was_perform (UnPinWebAppS webAppId) = sendNotSupportedFailure"
| "was_perform (IsWebAppPinnedS webAppId) = sendNotSupportedFailure"
| "was_perform (SubscribeIsWebAppPinnedS webAppId) = sendNotSupportedFailure"
| "was_perform CloseWebAppSession = sendNotSupportedFailure"

definition was_mediaPlayer :: "mediaPlayerMsg \<Rightarrow> request" where
  "was_mediaPlayer msg = sendNotSupportedFailure"

definition toService :: "(mediaControlMsg \<Rightarrow> request) option \<Rightarrow> mediaControlMsg \<Rightarrow> request" where
  "toService serviceControl msg = (case serviceControl of Some control \<Rightarrow> control msg | None \<Rightarrow> sendNotSupportedFailure)"

fun was_mediaControl :: "(mediaControlMsg \<Rightarrow> request) option \<Rightarrow> mediaControlMsg \<Rightarrow> request" where
  "was_mediaControl serviceControl MediaPlay = toService serviceControl MediaPlay"
| "was_mediaControl serviceControl MediaPause = toService serviceControl MediaPause"
| "was_mediaControl serviceControl MediaStop = toService serviceControl MediaStop"
| "was_mediaControl serviceControl MediaRewind = toService serviceControl MediaRewind"
| "was_mediaControl serviceControl MediaFastForward = toService serviceControl MediaFastForward"
| "was_mediaControl serviceControl (MediaSeek position) = sendNotSupportedFailure"
| "was_mediaControl serviceControl GetPlayState = sendNotSupportedFailure"
| "was_mediaControl serviceControl GetDuration = sendNotSupportedFailure"
| "was_mediaControl serviceControl SubscribePlayState = sendNotSupportedFailure"
| "was_mediaControl serviceControl GetPosition = sendNotSupportedFailure"
| "was_mediaControl serviceControl GetMediaMetaData = sendNotSupportedFailure"
| "was_mediaControl serviceControl SubscribeMediaInfo = sendNotSupportedFailure"

definition was_playListControl :: "capObject option" where
  "was_playListControl = None"

definition was_playList :: "playListControlMsg \<Rightarrow> request" where
  "was_playList msg = sendNotSupportedFailure"

section \<open>Properties\<close>

definition isTransport :: "mediaControlMsg \<Rightarrow> bool" where
  "isTransport msg \<longleftrightarrow> msg \<in> {MediaPlay, MediaPause, MediaStop, MediaRewind, MediaFastForward}"

lemma was_mediaControl_cases:
  "was_mediaControl serviceControl msg =
     (case serviceControl of Some control \<Rightarrow> if isTransport msg then control msg else sendNotSupportedFailure
      | None \<Rightarrow> sendNotSupportedFailure)"
  by (cases msg) (simp_all add: isTransport_def toService_def split: option.splits)

text \<open>
  A web app session sends nothing itself: a media control message reaches the service unchanged exactly when
  it is one of the five transport commands and the service offers media control, and fails as unsupported
  otherwise, whatever the device would answer.
\<close>
theorem was_mediaControl_forwards:
  "run_request bs dev (was_mediaControl serviceControl msg) =
     (case serviceControl of
        Some control \<Rightarrow> if isTransport msg then run_request bs dev (control msg)
          else ([], if has_failure bs then GotError (generateErrorWithCode ConnectStatusCodeNotSupported None) else Nothing)
      | None \<Rightarrow> ([], if has_failure bs then GotError (generateErrorWithCode ConnectStatusCodeNotSupported None) else Nothing))"
  by (simp add: was_mediaControl_cases sendNotSupportedFailure_def split: option.splits)

lemma was_perform_silent_iff: "completes (was_perform msg) \<longleftrightarrow> msg \<noteq> DisconnectFromWebApp"
  by (cases msg) simp_all

end
