(* ===== verification/WebOS.thy ===== *)
theory WebOS
  imports WebOSRequests WebOSSocket WebAppSession
begin

text \<open>
  \<open>src/Services/WebOSTVService\<close> and \<open>src/Services/Helpers/WebOSTVServiceMouse\<close>: the state of a webOS
  service. Its capabilities follow the pairing level and the version of the TV; it connects through its
  socket client; keys and pointer movements go over a second web socket, opened on first use; typed text is
  queued and sent in batches. What the service reads from elsewhere is a record: the pairing level of the
  discovery manager, whether the same device offers DLNA, and the parser of XML.
\<close>

section \<open>Permissions\<close>

datatype WebOSTVServiceOpenPermission =
    LAUNCH | LAUNCH_WEBAPP | APP_TO_APP | CONTROL_AUDIO | CONTROL_INPUT_MEDIA_PLAYBACK

datatype WebOSTVServiceProtectedPermission =
    CONTROL_POWER | READ_INSTALLED_APPS | CONTROL_DISPLAY | CONTROL_INPUT_JOYSTICK
  | CONTROL_INPUT_MEDIA_RECORDING | CONTROL_INPUT_TV | READ_INPUT_DEVICE_LIST | READ_NETWORK_STATE
  | READ_TV_CHANNEL_LIST | WRITE_NOTIFICATION_TOAST

datatype WebOSTVServicePersonalActivityPermission =
    CONTROL_INPUT_TEXT | CONTROL_MOUSE_AND_KEYBOARD | READ_CURRENT_CHANNEL | READ_RUNNING_APPS

fun openPermission :: "WebOSTVServiceOpenPermission \<Rightarrow> string" where
  "openPermission LAUNCH = ''LAUNCH''"
| "openPermission LAUNCH_WEBAPP = ''LAUNCH_WEBAPP''"
| "openPermission APP_TO_APP = ''APP_TO_APP''"
| "openPermission CONTROL_AUDIO = ''CONTROL_AUDIO''"
| "openPermission CONTROL_INPUT_MEDIA_PLAYBACK = ''CONTROL_INPUT_MEDIA_PLAYBACK''"

fun protectedPermission :: "WebOSTVServiceProtectedPermission \<Rightarrow> string" where
  "protectedPermission CONTROL_POWER = ''CONTROL_POWER''"
| "protectedPermission READ_INSTALLED_APPS = ''READ_INSTALLED_APPS''"
| "protectedPermission CONTROL_DISPLAY = ''CONTROL_DISPLAY''"
| "protectedPermission CONTROL_INPUT_JOYSTICK = ''CONTROL_INPUT_JOYSTICK''"
| "protectedPermission CONTROL_INPUT_MEDIA_RECORDING = ''CONTROL_INPUT_MEDIA_RECORDING''"
| "protectedPermission CONTROL_INPUT_TV = ''CONTROL_INPUT_TV''"
| "protectedPermission READ_INPUT_DEVICE_LIST = ''READ_INPUT_DEVICE_LIST''"
| "protectedPermission READ_NETWORK_STATE = ''READ_NETWORK_STATE''"
| "protectedPermission READ_TV_CHANNEL_LIST = ''READ_TV_CHANNEL_LIST''"
| "protectedPermission WRITE_NOTIFICATION_TOAST = ''WRITE_NOTIFICATION_TOAST''"

fun personalActivityPermission :: "WebOSTVServicePersonalActivityPermission \<Rightarrow> string" where
  "personalActivityPermission CONTROL_INPUT_TEXT = ''CONTROL_INPUT_TEXT''"
| "personalActivityPermission CONTROL_MOUSE_AND_KEYBOARD = ''CONTROL_MOUSE_AND_KEYBOARD''"
| "personalActivityPermission READ_CURRENT_CHANNEL = ''READ_CURRENT_CHANNEL''"
| "personalActivityPermission READ_RUNNING_APPS = ''READ_RUNNING_APPS''"

definition kWebOSTVServiceOpenPermissions :: "string list" where
  "kWebOSTVServiceOpenPermissions =
     map openPermission [LAUNCH, LAUNCH_WEBAPP, APP_TO_APP, CONTROL_AUDIO, CONTROL_INPUT_MEDIA_PLAYBACK]"

definition kWebOSTVServiceProtectedPermissions :: "string list" where
  "kWebOSTVServiceProtectedPermissions = map protectedPermission
     [CONTROL_POWER, READ_INSTALLED_APPS, CONTROL_DISPLAY, CONTROL_INPUT_JOYSTICK, CONTROL_INPUT_MEDIA_RECORDING,
      CONTROL_INPUT_TV, READ_INPUT_DEVICE_LIST, READ_NETWORK_STATE, READ_TV_CHANNEL_LIST, WRITE_NOTIFICATION_TOAST]"

definition kWebOSTVServicePersonalActivityPermissions :: "string list" where
  "kWebOSTVServicePersonalActivityPermissions = map personalActivityPermission
     [CONTROL_INPUT_TEXT, CONTROL_MOUSE_AND_KEYBOARD, READ_CURRENT_CHANNEL, READ_RUNNING_APPS]"

section \<open>The pointer socket\<close>

datatype WebOSTVMouseButton =
    WebOSTVMouseButtonHome | WebOSTVMouseButtonBack | WebOSTVMouseButtonUp | WebOSTVMouseButtonDown
  | WebOSTVMouseButtonLeft | WebOSTVMouseButtonRight

fun mouseButtonValue :: "WebOSTVMouseButton \<Rightarrow> int" where
  "mouseButtonValue WebOSTVMouseButtonHome = 1000"
| "mouseButtonValue WebOSTVMouseButtonBack = 1001"
| "mouseButtonValue WebOSTVMouseButtonUp = 1002"
| "mouseButtonValue WebOSTVMouseButtonDown = 1003"
| "mouseButtonValue WebOSTVMouseButtonLeft = 1004"
| "mouseButtonValue WebOSTVMouseButtonRight = 1005"

fun mouseButtonName :: "WebOSTVMouseButton \<Rightarrow> string" where
  "mouseButtonName WebOSTVMouseButtonHome = ''HOME''"
| "mouseButtonName WebOSTVMouseButtonBack = ''BACK''"
| "mouseButtonName WebOSTVMouseButtonUp = ''UP''"
| "mouseButtonName WebOSTVMouseButtonDown = ''DOWN''"
| "mouseButtonName WebOSTVMouseButtonLeft = ''LEFT''"
| "mouseButtonName WebOSTVMouseButtonRight = ''RIGHT''"

text \<open>The packages; their text is made from the fields by a fixed format.\<close>

datatype mousePackage = MovePackage "real \<times> real" | ScrollPackage "real \<times> real" | ClickPackage | ButtonPackage string

text \<open>What the success block of a connection does: nothing else, press a button, or click; then the caller's block.\<close>

datatype mouseIntent = ConnectOnly | PressButton WebOSTVMouseButton | PressClick

record WebOSTVServiceMouse =
  mo_socket :: "readyState option"
  mo_success :: "mouseIntent option"
  mo_failure :: bool
  mo_mouseDistance :: "real \<times> real"
  mo_scrollDistance :: "real \<times> real"
  mo_mouseIsMoving :: bool
  mo_mouseIsScrolling :: bool

definition mo_initWithSocket :: "mouseIntent option \<Rightarrow> bool \<Rightarrow> WebOSTVServiceMouse" where
  "mo_initWithSocket success failure = \<lparr>mo_socket = Some LGSR_CONNECTING, mo_success = success, mo_failure = failure,
     mo_mouseDistance = (0, 0), mo_scrollDistance = (0, 0), mo_mouseIsMoving = False, mo_mouseIsScrolling = False\<rparr>"

definition sendPackage :: "mousePackage \<Rightarrow> WebOSTVServiceMouse \<Rightarrow> mousePackage list" where
  "sendPackage package mo = (if mo_socket mo = Some LGSR_OPEN then [package] else [])"

definition vectorAdd :: "real \<times> real \<Rightarrow> real \<times> real \<Rightarrow> real \<times> real" where
  "vectorAdd a b = (fst a + fst b, snd a + snd b)"

definition moveMouse :: "WebOSTVServiceMouse \<Rightarrow> WebOSTVServiceMouse \<times> mousePackage list" where
  "moveMouse mo = (mo\<lparr>mo_mouseDistance := (0, 0), mo_mouseIsMoving := False\<rparr>, sendPackage (MovePackage (mo_mouseDistance mo)) mo)"

definition mo_move :: "real \<times> real \<Rightarrow> WebOSTVServiceMouse \<Rightarrow> WebOSTVServiceMouse \<times> mousePackage list" where
  "mo_move distance mo0 =
     (let mo = mo0\<lparr>mo_mouseDistance := vectorAdd (mo_mouseDistance mo0) distance\<rparr>
      in if \<not> mo_mouseIsMoving mo then moveMouse (mo\<lparr>mo_mouseIsMoving := True\<rparr>) else (mo, []))"

definition scrollMouse :: "WebOSTVServiceMouse \<Rightarrow> WebOSTVServiceMouse \<times> mousePackage list" where
  "scrollMouse mo = (mo\<lparr>mo_scrollDistance := (0, 0), mo_mouseIsScrolling := False\<rparr>, sendPackage (ScrollPackage (mo_scrollDistance mo)) mo)"

definition mo_scroll :: "real \<times> real \<Rightarrow> WebOSTVServiceMouse \<Rightarrow> WebOSTVServiceMouse \<times> mousePackage list" where
  "mo_scroll distance mo0 =
     (let mo = mo0\<lparr>mo_scrollDistance := vectorAdd (mo_scrollDistance mo0) distance\<rparr>
      in if \<not> mo_mouseIsScrolling mo then scrollMouse (mo\<lparr>mo_mouseIsScrolling := True\<rparr>) else (mo, []))"

definition mo_click :: "WebOSTVServiceMouse \<Rightarrow> mousePackage list" where
  "mo_click = sendPackage ClickPackage"

definition mo_button :: "WebOSTVMouseButton \<Rightarrow> WebOSTVServiceMouse \<Rightarrow> mousePackage list" where
  "mo_button keyName = sendPackage (ButtonPackage (mouseButtonName keyName))"

definition mo_reset :: "WebOSTVServiceMouse \<Rightarrow> WebOSTVServiceMouse" where
  "mo_reset mo = mo\<lparr>mo_mouseDistance := (0, 0), mo_mouseIsMoving := False, mo_scrollDistance := (0, 0), mo_mouseIsScrolling := False\<rparr>"

definition mo_disconnect :: "WebOSTVServiceMouse \<Rightarrow> WebOSTVServiceMouse" where
  "mo_disconnect mo = (mo_reset mo)\<lparr>mo_socket := None, mo_success := None, mo_failure := False\<rparr>"

section \<open>State\<close>

record webosContext =
  wc_pairingOn :: bool
  wc_dlnaService :: bool
  wc_parseXML :: "string \<Rightarrow> jdict option"

record WebOSTVService =
  wos_base :: DeviceService
  wos_description :: "ServiceDescription option"
  wos_config :: "ServiceConfig option"
  wos_storedPairingType :: DeviceServicePairingType
  wos_socket :: "WebOSTVServiceSocketClient option"
  wos_mouseSocket :: "WebOSTVServiceMouse option"
  wos_mouseInit :: bool
  wos_permissions :: "string list option"
  wos_webAppSessions :: "WebAppSession nsdict option"
  wos_appToAppIdMappings :: "string nsdict option"
  wos_keyboardQueue :: "string list option"
  wos_keyboardQueueProcessing :: bool

definition webOSTVServiceConfig :: "WebOSTVService \<Rightarrow> ServiceConfig option" where
  "webOSTVServiceConfig s = (case wos_config s of
      Some c \<Rightarrow> if cfg_class c = WebOSTVServiceConfigClass then Some c else None
    | None \<Rightarrow> None)"

definition wos_hasKey :: "ServiceConfig option \<Rightarrow> bool" where
  "wos_hasKey c \<longleftrightarrow> Option.bind c cfg_clientKey \<noteq> None"

section \<open>Configuration and capabilities\<close>

text \<open>A configuration that would lose the key of the TV is refused; one of another class is converted.\<close>

definition wos_setServiceConfig :: "ServiceConfig \<Rightarrow> WebOSTVService \<Rightarrow> WebOSTVService result" where
  "wos_setServiceConfig serviceConfig s =
     (let oldHasKey = wos_hasKey (webOSTVServiceConfig s) in
      if cfg_class serviceConfig = WebOSTVServiceConfigClass
      then rbind (assert_state (\<not> (oldHasKey \<and> \<not> wos_hasKey (Some serviceConfig)))) (\<lambda>_.
             Inr (s\<lparr>wos_config := Some serviceConfig\<rparr>))
      else rbind (assert_state (\<not> oldHasKey)) (\<lambda>_.
           rbind (cfg_initWithServiceConfig WebOSTVServiceConfigClass serviceConfig) (\<lambda>(new, old).
             Inr (s\<lparr>wos_config := Some new\<rparr>))))"

definition isLegacyVersion :: "string \<Rightarrow> bool" where
  "isLegacyVersion version \<longleftrightarrow> rangeOfString version ''4.0.0'' \<noteq> None \<or> rangeOfString version ''4.0.1'' \<noteq> None"

definition pairedCapabilities :: "string list" where
  "pairedCapabilities =
     [''KeyControl.Send.KeyCode'', ''KeyControl.Up'', ''KeyControl.Down'', ''KeyControl.Left'', ''KeyControl.Right'',
      ''KeyControl.Home'', ''KeyControl.Back'', ''KeyControl.OK'']
     @ kMouseControlCapabilities @ kTextInputControlCapabilities @ [''PowerControl.Off''] @ kMediaPlayerCapabilities
     @ kLauncherCapabilities @ kTVControlCapabilities @ kExternalInputControlCapabilities @ kVolumeControlCapabilities
     @ kToastControlCapabilities @ kMediaControlCapabilities"

text \<open>
  Two string literals of the list have no comma between them, so that the compiler joins them.
\<close>

definition unpairedCapabilities :: "string list" where
  "unpairedCapabilities = kMediaPlayerCapabilities @ kMediaControlCapabilities @ kVolumeControlCapabilities
     @ [''Launcher.App'', ''Launcher.App.Params'', ''Launcher.AppStore'', ''Launcher.AppStore.ParamsLauncher.App.Close'',
        ''Launcher.Browser'', ''Launcher.Browser.Params'', ''Launcher.Hulu'', ''Launcher.Netflix'',
        ''Launcher.Netflix.Params'', ''Launcher.YouTube'', ''Launcher.YouTube.Params'', ''Launcher.AppState'',
        ''Launcher.AppState.Subscribe'']"

definition versionCapabilities :: "bool \<Rightarrow> string \<Rightarrow> string list" where
  "versionCapabilities dlna version =
     (if \<not> isLegacyVersion version
      then kWebAppLauncherCapabilities @ kMediaControlCapabilities @ kPlayListControlCapabilities
        @ [''MediaPlayer.Play.Playlist'', ''MediaPlayer.Loop''] @ [''MediaPlayer.Subtitle.WebVTT'']
      else [''WebAppLauncher.Launch'', ''WebAppLauncher.Launch.Params'', ''MediaControl.Play'', ''MediaControl.Pause'',
            ''MediaControl.Stop'', ''MediaControl.Seek'', ''MediaControl.Position'', ''MediaControl.Duration'',
            ''MediaControl.PlayState'', ''WebAppLauncher.Close'']
        @ (if dlna then [''MediaPlayer.Subtitle.SRT''] else []))"

text \<open>\<open>[[d objectForKey:k] objectForKey:@"text"]\<close>\<close>

definition textOf :: "json option \<Rightarrow> string \<Rightarrow> string option result" where
  "textOf d k = rbind (lookupIn d k) (\<lambda>e. rbind (lookupIn e ''text'') (\<lambda>t. Inr (asString t)))"

definition castingCapabilities :: "jdict \<Rightarrow> string list result" where
  "castingCapabilities locationXML =
     rbind (lookupIn (objectForKey locationXML ''root'') ''device'') (\<lambda>deviceDic.
     rbind (textOf deviceDic ''supportAppcastingFeatures'') (\<lambda>feature.
       case feature of
         None \<Rightarrow> rbind (textOf deviceDic ''appCasting'') (\<lambda>appCasting.
           Inr (if appCasting = Some ''support'' then [''ScreenMirroringControl.ScreenMirroring''] else []))
       | Some f \<Rightarrow> Inr ((if rangeOfString f ''mirroring'' \<noteq> None then [''ScreenMirroringControl.ScreenMirroring''] else [])
           @ (if rangeOfString f ''remote-camera'' \<noteq> None then [''RemoteCameraControl.RemoteCamera''] else []))))"

definition wos_capabilityList :: "webosContext \<Rightarrow> ServiceDescription option \<Rightarrow> string list result" where
  "wos_capabilityList wc description =
     (let base = (if wc_pairingOn wc then pairedCapabilities else unpairedCapabilities) in
      case Option.bind description sd_version of
        None \<Rightarrow> Inr (base @ [''MediaPlayer.Subtitle.WebVTT''])
      | Some version \<Rightarrow>
          (let base' = base @ versionCapabilities (wc_dlnaService wc) version in
           case Option.bind (Option.bind description sd_locationXML) (wc_parseXML wc) of
             None \<Rightarrow> Inr base'
           | Some xml \<Rightarrow> rbind (castingCapabilities xml) (\<lambda>casting. Inr (base' @ casting))))"

definition wos_updateCapabilities :: "webosContext \<Rightarrow> WebOSTVService \<Rightarrow> (WebOSTVService \<times> svcEvent list) result" where
  "wos_updateCapabilities wc s = rbind (wos_capabilityList wc (wos_description s)) (\<lambda>caps.
     (case svc_setCapabilities caps (wos_base s) of (b, ev) \<Rightarrow> Inr (s\<lparr>wos_base := b\<rparr>, ev)))"

definition serverVersion :: "string nsdict \<Rightarrow> string option" where
  "serverVersion headers = (case objectForKey headers ''Server'' of
      None \<Rightarrow> None
    | Some serverInfo \<Rightarrow>
        (let systemOS = hd (componentsSeparatedBy (CHR '' '') serverInfo)
         in Some (last (componentsSeparatedBy (CHR ''/'') systemOS))))"

definition wos_setServiceDescription ::
  "webosContext \<Rightarrow> ServiceDescription option \<Rightarrow> WebOSTVService \<Rightarrow> (WebOSTVService \<times> svcEvent list) result" where
  "wos_setServiceDescription wc description s0 =
     (let s1 = s0\<lparr>wos_description := description\<rparr>;
          s2 = (case wos_config s1 of
              None \<Rightarrow> s1
            | Some c \<Rightarrow> if cfg_UUID c = None
                then s1\<lparr>wos_config := Some (fst (cfg_setUUID (Option.bind description sd_UUID) c))\<rparr> else s1)
      in case Option.bind description sd_locationResponseHeaders of
           None \<Rightarrow> Inr (s2, [])
         | Some headers \<Rightarrow>
             wos_updateCapabilities wc (s2\<lparr>wos_description := map_option (\<lambda>d. d\<lparr>sd_version := serverVersion headers\<rparr>) description\<rparr>))"

definition wos_getPermissions :: "bool \<Rightarrow> WebOSTVService \<Rightarrow> string list" where
  "wos_getPermissions pairingOn s = (case wos_permissions s of
      Some p \<Rightarrow> p
    | None \<Rightarrow> kWebOSTVServiceOpenPermissions
        @ (if pairingOn then kWebOSTVServiceProtectedPermissions @ kWebOSTVServicePersonalActivityPermissions else []))"

section \<open>Connection\<close>

definition wos_connected :: "bool \<Rightarrow> WebOSTVService \<Rightarrow> bool" where
  "wos_connected pairingOn s =
     (let connected = (case wos_socket s of None \<Rightarrow> False | Some k \<Rightarrow> sk_connected k) in
      if pairingOn then connected \<and> wos_hasKey (webOSTVServiceConfig s) else connected)"

text \<open>The properties of the service its socket client uses.\<close>

definition wos_socketService :: "WebOSTVService \<Rightarrow> socketService" where
  "wos_socketService s =
     \<lparr>so_clientKey = Option.bind (webOSTVServiceConfig s) cfg_clientKey,
      so_SSLCertificates = Option.bind (webOSTVServiceConfig s) cfg_SSLCertificates,
      so_configUUID = Option.bind (wos_config s) cfg_UUID,
      so_address = Option.bind (wos_description s) sd_address,
      so_port = (case wos_description s of None \<Rightarrow> 0 | Some d \<Rightarrow> sd_port d),
      so_descriptionUUID = Option.bind (wos_description s) sd_UUID,
      so_pairingType = wos_storedPairingType s\<rparr>"

definition wos_connect :: "socketEnv \<Rightarrow> WebOSTVService \<Rightarrow> WebOSTVService \<times> socketOutput list" where
  "wos_connect se s0 =
     (let s = (case wos_socket s0 of
          Some k \<Rightarrow> s0
        | None \<Rightarrow> s0\<lparr>wos_socket := Some ((sk_initWithService (wos_socketService s0))
            \<lparr>sk_delegate := Some [SelSocketWillRegister, SelRegistrationFailed]\<rparr>)\<rparr>)
      in if \<not> wos_connected (se_pairingOn se) s
         then (case sk_connect se (the (wos_socket s)) of (k, out) \<Rightarrow> (s\<lparr>wos_socket := Some k\<rparr>, out))
         else (s, []))"

text \<open>The sessions of web apps are told to disconnect (not modelled) and forgotten.\<close>

definition wos_disconnectWithError :: "NSError option \<Rightarrow> WebOSTVService \<Rightarrow> WebOSTVService \<times> socketOutput list" where
  "wos_disconnectWithError error s =
     (case wos_socket s of
        None \<Rightarrow> (s\<lparr>wos_webAppSessions := Some []\<rparr>, [])
      | Some k \<Rightarrow> (case disconnectWithError error k of (k', out) \<Rightarrow>
          (s\<lparr>wos_socket := Some k', wos_webAppSessions := Some []\<rparr>, out)))"

definition wos_setPermissions ::
  "bool \<Rightarrow> string list option \<Rightarrow> WebOSTVService \<Rightarrow> WebOSTVService \<times> socketOutput list" where
  "wos_setPermissions pairingOn permissions s0 =
     (let s = s0\<lparr>wos_permissions := permissions\<rparr> in
      if wos_hasKey (webOSTVServiceConfig s)
      then (let s' = s\<lparr>wos_config := map_option (\<lambda>c. fst (cfg_setClientKey None c)) (wos_config s)\<rparr>
            in if wos_connected pairingOn s'
               then wos_disconnectWithError (Some (generateErrorWithCode ConnectStatusCodeError
                      (Some ''Permissions changed -- you will need to re-pair to the TV.''))) s'
               else (s', []))
      else (s, []))"

text \<open>
  What the service does when its socket client reports: the messages to its own delegate, and what it sends over
  the socket. A failed registration closes the connection. The pairing alert is left out.
\<close>

fun wos_socketEvent :: "socketEvent \<Rightarrow> WebOSTVService \<Rightarrow> WebOSTVService \<times> svcEvent list \<times> socketOutput list" where
  "wos_socketEvent SocketDidConnect s = (s,
     svc_tell (wos_base s) SelPairingSuccess PairingSuccess @ svc_tell (wos_base s) SelConnectionSuccess ConnectionSuccess, [])"
| "wos_socketEvent (SocketDidFailWithError e) s = (s, svc_tell (wos_base s) SelDidFailConnect (DidFailConnect (Some e)), [])"
| "wos_socketEvent (SocketDidCloseWithError e) s = (s, svc_tell (wos_base s) SelDisconnected (DisconnectedWithError e), [])"
| "wos_socketEvent (SocketRegistrationFailed e) s = (case wos_disconnectWithError None s of (s', out) \<Rightarrow>
     (s', svc_tell (wos_base s) SelPairingFailed (PairingFailed (Some e)), out))"
| "wos_socketEvent _ s = (s, [], [])"

section \<open>Keys and pointer\<close>

datatype mouseOutput =
    MousePackage mousePackage
  | MouseCommand string
  | MouseSucceeded
  | MouseFailed NSError

definition connectMouse :: "WebOSTVService \<Rightarrow> WebOSTVService \<times> mouseOutput list" where
  "connectMouse s =
     (if wos_mouseSocket s \<noteq> None \<or> wos_mouseInit s then (s, [])
      else (s\<lparr>wos_mouseInit := True\<rparr>, [MouseCommand ''ssap://com.webos.service.networkinput/getPointerInputSocket'']))"

text \<open>The two callbacks of that command; the first opens the pointer socket with what is to be done next.\<close>

definition pointerSocketReceived :: "mouseIntent option \<Rightarrow> WebOSTVService \<Rightarrow> WebOSTVService" where
  "pointerSocketReceived intent s = s\<lparr>wos_mouseSocket := Some (mo_initWithSocket intent True)\<rparr>"

definition pointerSocketFailed :: "NSError \<Rightarrow> WebOSTVService \<Rightarrow> WebOSTVService \<times> mouseOutput list" where
  "pointerSocketFailed error s = (s\<lparr>wos_mouseInit := False, wos_mouseSocket := None\<rparr>, [MouseFailed error])"

definition disconnectMouse :: "WebOSTVService \<Rightarrow> WebOSTVService" where
  "disconnectMouse s = s\<lparr>wos_mouseSocket := None, wos_mouseInit := False\<rparr>"

definition sendMouseButton :: "WebOSTVMouseButton \<Rightarrow> WebOSTVService \<Rightarrow> WebOSTVService \<times> mouseOutput list" where
  "sendMouseButton button s = (case wos_mouseSocket s of
      Some mo \<Rightarrow> (s, map MousePackage (mo_button button mo) @ [MouseSucceeded])
    | None \<Rightarrow> connectMouse s)"

definition sendClick :: "WebOSTVService \<Rightarrow> WebOSTVService \<times> mouseOutput list" where
  "sendClick s = (case wos_mouseSocket s of
      Some mo \<Rightarrow> (s, map MousePackage (mo_click mo) @ [MouseSucceeded])
    | None \<Rightarrow> connectMouse s)"

definition pointerNotReady :: NSError where
  "pointerNotReady = generateErrorWithCode ConnectStatusCodeError (Some ''MouseControl socket is not yet initialized.'')"

definition movePointer ::
  "(WebOSTVServiceMouse \<Rightarrow> WebOSTVServiceMouse \<times> mousePackage list) \<Rightarrow> WebOSTVService \<Rightarrow> WebOSTVService \<times> mouseOutput list" where
  "movePointer f s = (case wos_mouseSocket s of
      Some mo \<Rightarrow> (case f mo of (mo', ps) \<Rightarrow> (s\<lparr>wos_mouseSocket := Some mo'\<rparr>, map MousePackage ps @ [MouseSucceeded]))
    | None \<Rightarrow> (s, [MouseFailed pointerNotReady]))"

fun wos_key :: "keyControlMsg \<Rightarrow> WebOSTVService \<Rightarrow> WebOSTVService \<times> mouseOutput list" where
  "wos_key KeyUp s = sendMouseButton WebOSTVMouseButtonUp s"
| "wos_key KeyDown s = sendMouseButton WebOSTVMouseButtonDown s"
| "wos_key KeyLeft s = sendMouseButton WebOSTVMouseButtonLeft s"
| "wos_key KeyRight s = sendMouseButton WebOSTVMouseButtonRight s"
| "wos_key KeyOK s = sendClick s"
| "wos_key KeyBack s = sendMouseButton WebOSTVMouseButtonBack s"
| "wos_key KeyHome s = sendMouseButton WebOSTVMouseButtonHome s"
| "wos_key (SendKeyCode n) s = (s, [MouseFailed (generateErrorWithCode ConnectStatusCodeNotSupported None)])"

fun wos_mouse :: "mouseControlMsg \<Rightarrow> WebOSTVService \<Rightarrow> WebOSTVService \<times> mouseOutput list" where
  "wos_mouse ConnectMouse s = connectMouse s"
| "wos_mouse DisconnectMouse s = (disconnectMouse s, [])"
| "wos_mouse MouseClick s = sendClick s"
| "wos_mouse (MouseMove dx dy) s = movePointer (mo_move (dx, dy)) s"
| "wos_mouse (MouseScroll dx dy) s = movePointer (mo_scroll (dx, dy)) s"

text \<open>
  The callbacks of the pointer socket, which is open when it reports so. The success block then presses what was
  asked for.
\<close>

definition runIntent :: "mouseIntent \<Rightarrow> WebOSTVServiceMouse \<Rightarrow> mouseOutput list" where
  "runIntent intent mo = (case intent of
      ConnectOnly \<Rightarrow> []
    | PressButton b \<Rightarrow> map MousePackage (mo_button b mo)
    | PressClick \<Rightarrow> map MousePackage (mo_click mo)) @ [MouseSucceeded]"

definition pointerDidOpen :: "WebOSTVServiceMouse \<Rightarrow> WebOSTVServiceMouse \<times> mouseOutput list" where
  "pointerDidOpen mo0 = (let mo = (mo_reset mo0)\<lparr>mo_socket := Some LGSR_OPEN\<rparr> in
     (mo, case mo_success mo of None \<Rightarrow> [] | Some intent \<Rightarrow> runIntent intent mo))"

definition pointerDidFail :: "NSError \<Rightarrow> WebOSTVServiceMouse \<Rightarrow> mouseOutput list" where
  "pointerDidFail error mo = (if mo_failure mo then [MouseFailed error] else [])"

definition pointerDidClose :: "string option \<Rightarrow> bool \<Rightarrow> WebOSTVServiceMouse \<Rightarrow> WebOSTVServiceMouse \<times> mouseOutput list" where
  "pointerDidClose reason wasClean mo =
     (if wasClean then ((mo_reset mo)\<lparr>mo_success := None, mo_failure := False\<rparr>, [])
      else (mo, if mo_failure mo then [MouseFailed (generateErrorWithCode ConnectStatusCodeTvError reason)] else []))"

section \<open>Text input\<close>

definition kKeyboardEnter :: string where
  "kKeyboardEnter = [CHR 0x1B] @ '' ENTER '' @ [CHR 0x1B]"

definition kKeyboardDelete :: string where
  "kKeyboardDelete = [CHR 0x1B] @ '' DELETE '' @ [CHR 0x1B]"

definition isText :: "string \<Rightarrow> bool" where
  "isText key \<longleftrightarrow> key \<noteq> kKeyboardEnter \<and> key \<noteq> kKeyboardDelete"

text \<open>One command: its target, its payload and what remains of the queue. A nil queue behaves as an empty one.\<close>

definition nextKeys :: "string list \<Rightarrow> string \<times> jdict \<times> string list" where
  "nextKeys queue = (case queue of
      [] \<Rightarrow> (''ssap://com.webos.service.ime/insertText'', [(''text'', JStr ''''), (''replace'', JBool False)], [])
    | key # rest \<Rightarrow>
        if key = kKeyboardEnter then (''ssap://com.webos.service.ime/sendEnterKey'', [], rest)
        else if key = kKeyboardDelete
        then (let count = length (takeWhile (\<lambda>k. k = kKeyboardDelete) queue)
              in (''ssap://com.webos.service.ime/deleteCharacters'', [(''count'', JNum (real count))], drop count queue))
        else (let texts = takeWhile isText queue
              in (''ssap://com.webos.service.ime/insertText'', [(''text'', JStr (concat texts)), (''replace'', JBool False)],
                  drop (length texts) queue)))"

definition sendKeys :: "WebOSTVService \<Rightarrow> WebOSTVService \<times> (string \<times> jdict) list" where
  "sendKeys s = (case nextKeys (case wos_keyboardQueue s of None \<Rightarrow> [] | Some q \<Rightarrow> q) of
     (target, payload, rest) \<Rightarrow>
       (s\<lparr>wos_keyboardQueueProcessing := True, wos_keyboardQueue := map_option (\<lambda>_. rest) (wos_keyboardQueue s)\<rparr>,
        [(target, payload)]))"

definition enqueueKey :: "string \<Rightarrow> WebOSTVService \<Rightarrow> WebOSTVService \<times> (string \<times> jdict) list" where
  "enqueueKey key s0 =
     (let s = s0\<lparr>wos_keyboardQueue := map_option (\<lambda>q. q @ [key]) (wos_keyboardQueue s0)\<rparr>
      in if \<not> wos_keyboardQueueProcessing s then sendKeys s else (s, []))"

text \<open>The completion and the error callback of a command do the same.\<close>

definition keysAnswered :: "WebOSTVService \<Rightarrow> WebOSTVService \<times> (string \<times> jdict) list" where
  "keysAnswered s0 =
     (let s = s0\<lparr>wos_keyboardQueueProcessing := False\<rparr>
      in if length (case wos_keyboardQueue s of None \<Rightarrow> [] | Some q \<Rightarrow> q) > 0 then sendKeys s else (s, []))"

definition subscribeTextInputStatus :: "WebOSTVService \<Rightarrow> WebOSTVService" where
  "subscribeTextInputStatus s = s\<lparr>wos_keyboardQueue := Some [], wos_keyboardQueueProcessing := False\<rparr>"

definition keyboardTypeOf :: "string option \<Rightarrow> UIKeyboardType" where
  "keyboardTypeOf type =
     (if type = Some ''url'' then UIKeyboardTypeURL
      else if type = Some ''number'' then UIKeyboardTypeNumberPad
      else if type = Some ''phonenumber'' then UIKeyboardTypeNamePhonePad
      else if type = Some ''email'' then UIKeyboardTypeEmailAddress else UIKeyboardTypeDefault)"

definition textInputStatus :: "jdict \<Rightarrow> TextInputStatusInfo result" where
  "textInputStatus response =
     rbind (lookupIn (objectForKey response ''currentWidget'') ''focus'') (\<lambda>focus.
     rbind (boolValue focus) (\<lambda>isVisible.
     rbind (lookupIn (objectForKey response ''currentWidget'') ''contentType'') (\<lambda>type.
       Inr \<lparr>ti_keyboardType = keyboardTypeOf (asString type), ti_isVisible = isVisible, ti_rawData = Some (JObj response)\<rparr>)))"

fun wos_textInput :: "textInputMsg \<Rightarrow> WebOSTVService \<Rightarrow> WebOSTVService \<times> (string \<times> jdict) list" where
  "wos_textInput SubscribeTextInputStatus s =
     (subscribeTextInputStatus s, [(''ssap://com.webos.service.ime/registerRemoteKeyboard'', [])])"
| "wos_textInput (SendText input) s = enqueueKey input s"
| "wos_textInput SendEnter s = enqueueKey kKeyboardEnter s"
| "wos_textInput SendDelete s = enqueueKey kKeyboardDelete s"

section \<open>Web app sessions\<close>

text \<open>\<open>webAppSessionForLaunchSession:\<close>; storing under a nil id raises.\<close>

definition webAppSessionForLaunchSession ::
  "sessionService \<Rightarrow> LaunchSession \<Rightarrow> WebOSTVService \<Rightarrow> (WebAppSession \<times> WebOSTVService) result" where
  "webAppSessionForLaunchSession self l s =
     (let sessions = (case wos_webAppSessions s of None \<Rightarrow> [] | Some t \<Rightarrow> t);
          session = joinedSession self sessions l
      in if objectForKeyN sessions (ls_appId l) \<noteq> None then Inr (session, s\<lparr>wos_webAppSessions := Some sessions\<rparr>)
         else rbind (setObjectN session (ls_appId l) sessions) (\<lambda>t. Inr (session, s\<lparr>wos_webAppSessions := Some t\<rparr>)))"

text \<open>The table after a web app was launched; a nil table stays nil.\<close>

definition rememberLaunched :: "string \<Rightarrow> WebAppSession \<Rightarrow> WebOSTVService \<Rightarrow> WebOSTVService" where
  "rememberLaunched webAppId session s =
     s\<lparr>wos_webAppSessions := map_option (\<lambda>t. setObject session webAppId t) (wos_webAppSessions s)\<rparr>"

datatype connectState = StillWaiting | ConnectFailed NSError | Connected "string option"

text \<open>
  \<open>connectToWebApp:joinOnly:\<close>: the request of the subscription, and the reading of one of its responses. The tables
  are created first, also when the session is refused.
\<close>

definition connectToWebApp :: "WebAppSession option \<Rightarrow> WebOSTVService \<Rightarrow> WebOSTVService \<times> (NSError + string \<times> jdict)" where
  "connectToWebApp session s0 =
     (let s = s0\<lparr>wos_webAppSessions := Some (case wos_webAppSessions s0 of None \<Rightarrow> [] | Some t \<Rightarrow> t),
                wos_appToAppIdMappings := Some (case wos_appToAppIdMappings s0 of None \<Rightarrow> [] | Some t \<Rightarrow> t)\<rparr>
      in (s, case Option.bind session was_launchSession of
        None \<Rightarrow> Inl (generateErrorWithCode ConnectStatusCodeArgumentError (Some ''You must provide a valid LaunchSession object.''))
      | Some l \<Rightarrow>
          (if noWebAppId (ls_appId l)
           then Inl (generateErrorWithCode ConnectStatusCodeArgumentError (Some ''You must provide a valid web app session''))
           else Inr (''ssap://webapp/connectToApp'',
             [(if ls_sessionType l = 4 then ''webAppId'' else ''appId'', JStr (the (ls_appId l)))]))))"

text \<open>The failure of that subscription: a closed channel is told to the delegate of the session, anything else to the caller.\<close>

definition connectFailure :: "NSError \<Rightarrow> WebAppSession \<Rightarrow> webAppEvent list \<times> NSError list" where
  "connectFailure error session =
     (if rangeOfString (err_message error) ''app channel closed'' \<noteq> None
      then ((case was_delegate session of
               Some sels \<Rightarrow> if SelSessionDidDisconnect \<in> set sels then [WebAppSessionDidDisconnect] else []
             | None \<Rightarrow> []), [])
      else ([], [error]))"

definition connectVerdict :: "bool \<Rightarrow> jdict \<Rightarrow> connectState" where
  "connectVerdict joinOnly response =
     (let state = asString (objectForKey response ''state'') in
      if state \<noteq> Some ''CONNECTED''
      then (if joinOnly \<and> state = Some ''WAITING_FOR_APP''
            then ConnectFailed (generateErrorWithCode ConnectStatusCodeError (Some ''Web app is not currently running''))
            else StillWaiting)
      else Connected (asString (objectForKey response ''appId'')))"

definition rememberFullAppId :: "string \<Rightarrow> string option \<Rightarrow> int \<Rightarrow> WebOSTVService \<Rightarrow> WebOSTVService" where
  "rememberFullAppId appId fullAppId sessionType s =
     (case fullAppId of
        None \<Rightarrow> s
      | Some f \<Rightarrow> if sessionType = 4
          then s\<lparr>wos_appToAppIdMappings := map_option (\<lambda>t. setObject appId f t) (wos_appToAppIdMappings s)\<rparr> else s)"

end
