(* ===== verification/WebOSControl.thy ===== *)
theory WebOSControl
  imports WebOS
begin

text \<open>
  Properties of \<open>src/Services/WebOSTVService.m\<close>. The keyboard: the queue of entered keys, the requests made from it and
  the answers that release the next one, against the specification that every key takes effect once and in order.
  The keys sent over the pointer socket. The key of the TV, which a new configuration must not lose.
\<close>

text \<open>
  The keyboard of the TV is not part of this code: \<open>ins\<close>, \<open>del\<close> and \<open>ent\<close> stand for what its three requests do.
  \<open>enteredKey\<close> is what one entered key means; \<open>imeRequest\<close> is what one request of the service does there.
\<close>

definition enteredKey ::
  "(string \<Rightarrow> 't \<Rightarrow> 't) \<Rightarrow> (nat \<Rightarrow> 't \<Rightarrow> 't) \<Rightarrow> ('t \<Rightarrow> 't) \<Rightarrow> string \<Rightarrow> 't \<Rightarrow> 't" where
  "enteredKey ins del ent key tv =
     (if key = kKeyboardEnter then ent tv else if key = kKeyboardDelete then del 1 tv else ins key tv)"

definition imeRequest ::
  "(string \<Rightarrow> 't \<Rightarrow> 't) \<Rightarrow> (nat \<Rightarrow> 't \<Rightarrow> 't) \<Rightarrow> ('t \<Rightarrow> 't) \<Rightarrow> string \<times> jdict \<Rightarrow> 't \<Rightarrow> 't" where
  "imeRequest ins del ent request tv = (case request of (target, payload) \<Rightarrow>
     if target = ''ssap://com.webos.service.ime/sendEnterKey'' then ent tv
     else if target = ''ssap://com.webos.service.ime/deleteCharacters''
     then (case objectForKey payload ''count'' of Some (JNum n) \<Rightarrow> del (nat \<lfloor>n\<rfloor>) tv | _ \<Rightarrow> tv)
     else if target = ''ssap://com.webos.service.ime/insertText''
     then (case objectForKey payload ''text'' of Some (JStr t) \<Rightarrow> ins t tv | _ \<Rightarrow> tv)
     else tv)"

datatype keyboardEvent = KeyEntered string | RequestAnswered

fun keyboardStep :: "keyboardEvent \<Rightarrow> WebOSTVService \<Rightarrow> WebOSTVService \<times> (string \<times> jdict) list" where
  "keyboardStep (KeyEntered key) s = enqueueKey key s"
| "keyboardStep RequestAnswered s = keysAnswered s"

fun keyboardRun :: "keyboardEvent list \<Rightarrow> WebOSTVService \<Rightarrow> WebOSTVService \<times> (string \<times> jdict) list" where
  "keyboardRun [] s = (s, [])"
| "keyboardRun (e # es) s =
     (case keyboardStep e s of (s1, sent) \<Rightarrow> case keyboardRun es s1 of (s2, sent') \<Rightarrow> (s2, sent @ sent'))"

fun keysOf :: "keyboardEvent list \<Rightarrow> string list" where
  "keysOf [] = []"
| "keysOf (KeyEntered key # es) = key # keysOf es"
| "keysOf (RequestAnswered # es) = keysOf es"

definition keyboardQueue :: "WebOSTVService \<Rightarrow> string list" where
  "keyboardQueue s = (case wos_keyboardQueue s of None \<Rightarrow> [] | Some q \<Rightarrow> q)"

text \<open>Keys wait only while a request is under way.\<close>

definition keyboard_inv :: "WebOSTVService \<Rightarrow> bool" where
  "keyboard_inv s \<longleftrightarrow> wos_keyboardQueue s \<noteq> None \<and> (keyboardQueue s \<noteq> [] \<longrightarrow> wos_keyboardQueueProcessing s)"

lemma keyboard_constants [simp]: "kKeyboardEnter \<noteq> kKeyboardDelete" "kKeyboardDelete \<noteq> kKeyboardEnter"
  by (simp_all add: kKeyboardEnter_def kKeyboardDelete_def)

lemma nextKeys_shortens: "queue \<noteq> [] \<Longrightarrow> nextKeys queue = (t, p, rest) \<Longrightarrow> length rest < length queue"
  by (auto simp: nextKeys_def isText_def Let_def split: list.split_asm if_split_asm)

lemma enteredTexts:
  assumes "\<And>a b tv. ins (a @ b) tv = ins b (ins a tv)" and "xs \<noteq> []" and "\<forall>x\<in>set xs. isText x"
  shows "fold (enteredKey ins del ent) xs tv = ins (concat xs) tv"
  using assms(2,3)
proof (induction xs arbitrary: tv rule: list_nonempty_induct)
  case (single x)
  then show ?case by (simp add: enteredKey_def isText_def)
next
  case (cons x xs)
  then show ?case using assms(1) by (simp add: enteredKey_def isText_def)
qed

lemma enteredDeletes:
  assumes "\<And>m n tv. del (m + n) tv = del n (del m tv)" and "xs \<noteq> []" and "\<forall>x\<in>set xs. x = kKeyboardDelete"
  shows "fold (enteredKey ins del ent) xs tv = del (length xs) tv"
  using assms(2,3)
proof (induction xs arbitrary: tv rule: list_nonempty_induct)
  case (single x)
  then show ?case by (simp add: enteredKey_def)
next
  case (cons x xs)
  then show ?case using assms(1) [of 1 "length xs"] by (simp add: enteredKey_def)
qed

lemma fold_takeWhile: "fold f (drop (length (takeWhile P xs)) xs) (fold f (takeWhile P xs) s) = fold f xs s"
  by (metis takeWhile_dropWhile_id dropWhile_eq_drop fold_append o_apply)

lemma nextKeys_applied:
  assumes ins: "\<And>a b tv. ins (a @ b) tv = ins b (ins a tv)"
    and del: "\<And>m n tv. del (m + n) tv = del n (del m tv)"
    and queue: "queue \<noteq> []" and next_keys: "nextKeys queue = (t, p, rest)"
  shows "fold (enteredKey ins del ent) rest (imeRequest ins del ent (t, p) tv) = fold (enteredKey ins del ent) queue tv"
proof -
  obtain key keys where q: "queue = key # keys" using queue by (cases queue) auto
  consider "key = kKeyboardEnter" | "key = kKeyboardDelete" | "isText key" by (auto simp: isText_def)
  then show ?thesis
  proof cases
    case 1
    then show ?thesis using next_keys q by (auto simp: nextKeys_def imeRequest_def enteredKey_def)
  next
    case 2
    let ?ds = "takeWhile (\<lambda>k. k = kKeyboardDelete) queue"
    have "fold (enteredKey ins del ent) ?ds tv = del (length ?ds) tv"
      using 2 q by (intro enteredDeletes [OF del]) (auto dest: set_takeWhileD)
    moreover have "t = ''ssap://com.webos.service.ime/deleteCharacters''" "p = [(''count'', JNum (real (length ?ds)))]"
      "rest = drop (length ?ds) queue"
      using 2 next_keys q by (auto simp: nextKeys_def Let_def)
    ultimately show ?thesis
      using fold_takeWhile [of "enteredKey ins del ent" "\<lambda>k. k = kKeyboardDelete" queue tv]
      by (simp add: imeRequest_def objectForKey_Cons)
  next
    case 3
    let ?ts = "takeWhile isText queue"
    have "fold (enteredKey ins del ent) ?ts tv = ins (concat ?ts) tv"
      using 3 q by (intro enteredTexts [OF ins]) (auto dest: set_takeWhileD)
    moreover have "t = ''ssap://com.webos.service.ime/insertText''"
      "p = [(''text'', JStr (concat ?ts)), (''replace'', JBool False)]" "rest = drop (length ?ts) queue"
      using 3 next_keys q by (auto simp: nextKeys_def Let_def isText_def)
    ultimately show ?thesis
      using fold_takeWhile [of "enteredKey ins del ent" isText queue tv]
      by (simp add: imeRequest_def objectForKey_Cons)
  qed
qed

definition newKeys :: "keyboardEvent \<Rightarrow> string list" where
  "newKeys e = keysOf [e]"

lemma newKeys_simps [simp]: "newKeys (KeyEntered key) = [key]" "newKeys RequestAnswered = []"
  by (simp_all add: newKeys_def)

lemma keysOf_Cons: "keysOf (e # es) = newKeys e @ keysOf es"
  by (cases e) simp_all

text \<open>A step either leaves the queue as it is, or sends one request made from a non-empty queue.\<close>

lemma keyboardStep_cases:
  assumes "keyboard_inv s"
  obtains (wait) "snd (keyboardStep e s) = []" "keyboardQueue (fst (keyboardStep e s)) = keyboardQueue s @ newKeys e"
  | (send) t p rest where "keyboardQueue s @ newKeys e \<noteq> []" "nextKeys (keyboardQueue s @ newKeys e) = (t, p, rest)"
      "snd (keyboardStep e s) = [(t, p)]" "keyboardQueue (fst (keyboardStep e s)) = rest"
proof -
  obtain q where q: "wos_keyboardQueue s = Some q" using assms by (auto simp: keyboard_inv_def)
  obtain t p rest where n: "nextKeys (q @ newKeys e) = (t, p, rest)" by (cases "nextKeys (q @ newKeys e)")
  note unfold = keyboardQueue_def enqueueKey_def keysAnswered_def sendKeys_def Let_def
  show thesis
  proof (cases e)
    case (KeyEntered key)
    then show thesis
      using q n wait send [of t p rest] by (cases "wos_keyboardQueueProcessing s") (simp_all add: unfold)
  next
    case RequestAnswered
    then show thesis using q n wait send [of t p rest] by (cases "q = []") (simp_all add: unfold)
  qed
qed

lemma keyboardStep_inv: "keyboard_inv s \<Longrightarrow> keyboard_inv (fst (keyboardStep e s))"
  by (cases e)
     (auto simp: keyboard_inv_def keyboardQueue_def enqueueKey_def keysAnswered_def sendKeys_def Let_def
       split: prod.split)

lemma keyboardRun_inv: "keyboard_inv s \<Longrightarrow> keyboard_inv (fst (keyboardRun es s))"
proof (induction es arbitrary: s)
  case (Cons e es)
  then show ?case using keyboardStep_inv [of s e] by (simp add: case_prod_beta)
qed simp

lemma keyboardRun_applied:
  assumes ins: "\<And>a b tv. ins (a @ b) tv = ins b (ins a tv)"
    and del: "\<And>m n tv. del (m + n) tv = del n (del m tv)"
    and inv: "keyboard_inv s"
  shows "fold (enteredKey ins del ent) (keyboardQueue (fst (keyboardRun es s)))
           (fold (imeRequest ins del ent) (snd (keyboardRun es s)) tv)
         = fold (enteredKey ins del ent) (keyboardQueue s @ keysOf es) tv"
  using inv
proof (induction es arbitrary: s tv)
  case (Cons e es)
  let ?s = "fst (keyboardStep e s)" and ?k = "fold (enteredKey ins del ent)" and ?r = "fold (imeRequest ins del ent)"
  have step: "?k (keyboardQueue ?s) (?r (snd (keyboardStep e s)) tv) = ?k (keyboardQueue s @ newKeys e) tv"
    using \<open>keyboard_inv s\<close>
  proof (cases rule: keyboardStep_cases [where e = e])
    case (send t p rest)
    then show ?thesis using nextKeys_applied [OF ins del send(1,2), of ent tv] by (simp del: fold_append)
  qed simp
  show ?case
    using Cons.IH [OF keyboardStep_inv [OF Cons.prems], of e "?r (snd (keyboardStep e s)) tv"] step
    by (simp add: case_prod_beta keysOf_Cons)
qed simp

lemma answers_drain:
  assumes "keyboard_inv s" and "length (keyboardQueue s) \<le> n"
  shows "keyboardQueue (fst (keyboardRun (replicate n RequestAnswered) s)) = []"
  using assms
proof (induction n arbitrary: s)
  case (Suc n)
  have "length (keyboardQueue (fst (keyboardStep RequestAnswered s))) \<le> n"
  proof (cases "keyboardQueue s = []")
    case True
    then show ?thesis by (simp add: keysAnswered_def keyboardQueue_def Let_def split: option.splits)
  next
    case False
    then obtain t p rest where "nextKeys (keyboardQueue s) = (t, p, rest)" "keyboardQueue (fst (keyboardStep RequestAnswered s)) = rest"
      using \<open>keyboard_inv s\<close>
      by (cases "nextKeys (keyboardQueue s)")
         (auto simp: keyboard_inv_def keyboardQueue_def keysAnswered_def sendKeys_def Let_def)
    then show ?thesis using nextKeys_shortens False Suc.prems(2) by fastforce
  qed
  then show ?case using Suc.IH keyboardStep_inv [OF Suc.prems(1), of RequestAnswered] by (simp add: case_prod_beta)
qed simp

lemma keyboardRun_append:
  "keyboardRun (es @ fs) s =
     (case keyboardRun es s of (s1, sent) \<Rightarrow> case keyboardRun fs s1 of (s2, sent') \<Rightarrow> (s2, sent @ sent'))"
  by (induction es arbitrary: s) (auto simp: case_prod_beta)

lemma keysOf_append [simp]: "keysOf (es @ fs) = keysOf es @ keysOf fs"
  by (induction es rule: keysOf.induct) simp_all

lemma keysOf_answers [simp]: "keysOf (replicate n RequestAnswered) = []"
  by (induction n) simp_all

lemma subscribed_inv: "keyboard_inv (subscribeTextInputStatus s)"
  by (simp add: keyboard_inv_def keyboardQueue_def subscribeTextInputStatus_def)

text \<open>
  C4: The requests the service sends after a subscription, whatever the order of key presses and of answers, do to
  the TV what the entered keys would do one by one, but for those that still wait in the queue; and as many
  answers as keys wait empty the queue. The TV is any state with an insertion and a deletion that can be split.
\<close>

theorem keyboard_refines_entered_keys:
  assumes "\<And>a b tv. ins (a @ b) tv = ins b (ins a tv)"
    and "\<And>m n tv. del (m + n) tv = del n (del m tv)"
    and "keyboardRun es (subscribeTextInputStatus s) = (s', sent)"
    and "keyboardRun (replicate (length (keyboardQueue s')) RequestAnswered) s' = (s'', rest)"
  shows "fold (enteredKey ins del ent) (keyboardQueue s') (fold (imeRequest ins del ent) sent tv)
           = fold (enteredKey ins del ent) (keysOf es) tv
       \<and> fold (imeRequest ins del ent) (sent @ rest) tv = fold (enteredKey ins del ent) (keysOf es) tv"
proof -
  let ?s = "subscribeTextInputStatus s" and ?k = "fold (enteredKey ins del ent)" and ?r = "fold (imeRequest ins del ent)"
  have q: "keyboardQueue ?s = []" by (simp add: keyboardQueue_def subscribeTextInputStatus_def)
  have one: "?k (keyboardQueue s') (?r sent tv) = ?k (keysOf es) tv"
    using keyboardRun_applied [OF assms(1,2) subscribed_inv, of ent es s tv] assms(3) q by simp
  have inv: "keyboard_inv s'" using keyboardRun_inv [OF subscribed_inv, of es s] assms(3) by simp
  have "?k (keyboardQueue s'') (?r rest (?r sent tv)) = ?k (keyboardQueue s') (?r sent tv)"
    using keyboardRun_applied [OF assms(1,2) inv, of ent "replicate (length (keyboardQueue s')) RequestAnswered" "?r sent tv"] assms(4)
    by simp
  moreover have "keyboardQueue s'' = []" using answers_drain [OF inv order_refl] assms(4) by simp
  ultimately show ?thesis using one by simp
qed

text \<open>A TV whose text field is a string: insertion appends, deletion drops from the end, Enter starts afresh.\<close>

lemma textField_laws:
  "(\<lambda>t tv. tv @ t) (a @ b) (tv :: string) = (\<lambda>t tv. tv @ t) b ((\<lambda>t tv. tv @ t) a tv)"
  "(butlast ^^ (m + n)) (tv :: string) = (butlast ^^ n) ((butlast ^^ m) tv)"
  by (simp_all add: add.commute [of m] funpow_add)

definition sample_webos :: WebOSTVService where
  "sample_webos = \<lparr>wos_base = svc_initWithServiceConfig DeviceService_class None, wos_description = None,
     wos_config = Some ((cfg_alloc WebOSTVServiceConfigClass)\<lparr>cfg_clientKey := Some ''key''\<rparr>),
     wos_storedPairingType = PairingTypeFirstScreen, wos_socket = None, wos_mouseSocket = None, wos_mouseInit = False,
     wos_permissions = None, wos_webAppSessions = None, wos_appToAppIdMappings = None,
     wos_keyboardQueue = None, wos_keyboardQueueProcessing = False\<rparr>"

theorem keyboard_refines_entered_keys_witness:
  "\<exists>s' sent s'' rest.
     keyboardRun [KeyEntered ''ab'', KeyEntered ''cd'', KeyEntered kKeyboardDelete] (subscribeTextInputStatus sample_webos) = (s', sent)
   \<and> keyboardRun (replicate (length (keyboardQueue s')) RequestAnswered) s' = (s'', rest)
   \<and> keyboardQueue s' = [''cd'', kKeyboardDelete]
   \<and> fold (imeRequest (\<lambda>t tv. tv @ t) (\<lambda>n. butlast ^^ n) (\<lambda>_. [])) (sent @ rest) ''x'' = ''xabc''"
proof -
  let ?es = "[KeyEntered ''ab'', KeyEntered ''cd'', KeyEntered kKeyboardDelete]"
  obtain s' sent where one: "keyboardRun ?es (subscribeTextInputStatus sample_webos) = (s', sent)" by fastforce
  obtain s'' rest where two: "keyboardRun (replicate (length (keyboardQueue s')) RequestAnswered) s' = (s'', rest)" by fastforce
  have texts: "''ab'' \<noteq> kKeyboardEnter" "''ab'' \<noteq> kKeyboardDelete" "''cd'' \<noteq> kKeyboardEnter" "''cd'' \<noteq> kKeyboardDelete"
    by (simp_all add: kKeyboardEnter_def kKeyboardDelete_def)
  have "keyboardQueue s' = [''cd'', kKeyboardDelete]"
    using one texts
    by (auto simp: keyboardQueue_def enqueueKey_def sendKeys_def subscribeTextInputStatus_def nextKeys_def isText_def Let_def)
  then show ?thesis
    using one two texts keyboard_refines_entered_keys [of "\<lambda>t tv. tv @ t" "\<lambda>n. butlast ^^ n" ?es sample_webos s' sent s'' rest
        "\<lambda>_. []" "''x''", OF textField_laws one two]
    by (simp add: enteredKey_def)
qed

text \<open>
  Before the text input status is subscribed to there is no queue: an entered key is dropped, an empty insertion is
  sent in its place, and nothing is sent any more until that request is answered.
\<close>

lemma keyboard_unsubscribed_drops_keys:
  "wos_keyboardQueue s = None \<Longrightarrow> \<not> wos_keyboardQueueProcessing s \<Longrightarrow>
     enqueueKey key s = (s\<lparr>wos_keyboardQueueProcessing := True\<rparr>,
       [(''ssap://com.webos.service.ime/insertText'', [(''text'', JStr ''''), (''replace'', JBool False)])])"
  by (simp add: enqueueKey_def sendKeys_def nextKeys_def Let_def)

section \<open>Keys and the pointer socket\<close>



text \<open>
  While the pointer socket is asked for, a further press has no effect and runs neither block; while it is being
  opened, a press is reported as a success although nothing is sent.
\<close>

lemma wos_key_press_lost:
  "wos_mouseSocket s = None \<Longrightarrow> wos_mouseInit s \<Longrightarrow> sendMouseButton b s = (s, [])"
  "wos_mouseSocket s = Some mo \<Longrightarrow> mo_socket mo = Some LGSR_CONNECTING \<Longrightarrow> sendMouseButton b s = (s, [MouseSucceeded])"
  by (simp_all add: sendMouseButton_def connectMouse_def mo_button_def sendPackage_def)

section \<open>The key of the TV\<close>

text \<open>
  C33: A configuration that would lose the key of the paired TV is never installed: replacing the configuration of a
  service with a key either raises or leaves a webOS configuration with a key.
\<close>

theorem wos_config_keeps_key:
  assumes "wos_hasKey (webOSTVServiceConfig s)"
  shows "(case wos_setServiceConfig c s of
            Inl e \<Rightarrow> e = NSInternalInconsistencyException \<and> \<not> (cfg_class c = WebOSTVServiceConfigClass \<and> wos_hasKey (Some c))
          | Inr s' \<Rightarrow> wos_hasKey (webOSTVServiceConfig s') \<and> s' = s\<lparr>wos_config := Some c\<rparr>)"
  using assms by (auto simp: wos_setServiceConfig_def assert_state_def webOSTVServiceConfig_def Let_def)

theorem wos_config_keeps_key_witness:
  "wos_setServiceConfig (cfg_alloc WebOSTVServiceConfigClass) sample_webos = Inl NSInternalInconsistencyException
   \<and> (\<exists>s'. wos_setServiceConfig ((cfg_alloc WebOSTVServiceConfigClass)\<lparr>cfg_clientKey := Some ''new''\<rparr>) sample_webos = Inr s'
        \<and> wos_hasKey (webOSTVServiceConfig s'))"
proof -
  have key: "wos_hasKey (webOSTVServiceConfig sample_webos)"
    by (simp add: sample_webos_def webOSTVServiceConfig_def wos_hasKey_def cfg_alloc_def)
  show ?thesis
    using wos_config_keeps_key [OF key, of "cfg_alloc WebOSTVServiceConfigClass"]
      wos_config_keeps_key [OF key, of "(cfg_alloc WebOSTVServiceConfigClass)\<lparr>cfg_clientKey := Some ''new''\<rparr>"]
    by (auto simp: wos_hasKey_def webOSTVServiceConfig_def cfg_alloc_def split: sum.splits)
qed

text \<open>
  Changing the permissions of a paired service forgets its key. With pairing on, the service counts as connected
  only with a key, so that the disconnection meant to follow never happens and the socket stays open.
\<close>

lemma wos_setPermissions_keeps_socket_open:
  "snd (wos_setPermissions True p s) = [] \<and> wos_socket (fst (wos_setPermissions True p s)) = wos_socket s"
  by (auto simp: wos_setPermissions_def Let_def wos_connected_def wos_hasKey_def webOSTVServiceConfig_def
      cfg_setClientKey_def split: option.splits)

text \<open>
  Two entries of the capability list of an unpaired TV are one string, so that neither is offered.
\<close>

lemma unpaired_lacks_close:
  "''Launcher.App.Close'' \<notin> set unpairedCapabilities" "''Launcher.AppStore.Params'' \<notin> set unpairedCapabilities"
  by (simp_all add: unpairedCapabilities_def kMediaPlayerCapabilities_def kMediaControlCapabilities_def kVolumeControlCapabilities_def)

end
