(* ===== verification/WebOSSession.thy ===== *)
theory WebOSSession
  imports WebOS
begin

text \<open>
  \<open>src/Services/Sessions/WebOSWebAppSession\<close>: a web app on a webOS TV, with which the application exchanges
  messages over a socket client of its own. Media commands are messages to the web app; each carries an
  identifier, and the web app's answer completes the command with that identifier.

  The session holds its socket client; the session is its delegate. Blocks of the application are named by
  numbers. The service is not part of the state: what the session asks of it (\<open>connectToWebApp:\<close> and the
  launcher) is an output, and the table of full identifiers that the service keeps is the argument \<open>maps\<close>.
\<close>

section \<open>State\<close>

text \<open>
  Who waits for the connection to the web app: the application, or a message that is sent when it is there.
\<close>

datatype sessionCaller =
    AppCaller "nat option" "nat option"
  | MessageCaller json "nat option" "nat option"

text \<open>What the completion of a media command does with the response before it calls the success block.\<close>

datatype mediaCallback =
    MbResponse | MbPosition | MbDuration | MbPlayState
  | MbLaunchImage | MbLaunchMedia | MbDisplayImage | MbDisplayMedia

record mediaPending =
  mp_callback :: mediaCallback
  mp_success :: "nat option"
  mp_failure :: "nat option"

record WebOSWebAppSession = WebAppSession +
  wss_fullAppId :: "string option"
  wss_connected :: bool
  wss_socket :: "WebOSTVServiceSocketClient option"
  wss_connect :: "(bool \<times> sessionCaller) option"
  wss_appToApp :: bool
  wss_playState :: "ServiceSubscription option"
  wss_message :: bool
  wss_pinned :: bool
  wss_activeCommands :: "mediaPending nsdict"
  wss_UID :: int

datatype sessionOutput =
    SessionReply nat capReply
  | SessionError nat NSError
  | NilSuccessCalled
  | SessionTell webAppEvent
  | SessionTellOnMain webAppEvent
  | OnSocket socketOutput
  | AskConnectToWebApp bool sessionCaller
  | AskLauncher webAppLauncherMsg "nat option" "nat option"

type_synonym sessionOp = "WebOSWebAppSession \<Rightarrow> (WebOSWebAppSession \<times> sessionOutput list) result"

definition wss_initWithLaunchSession :: "LaunchSession option \<Rightarrow> sessionService option \<Rightarrow> WebOSWebAppSession" where
  "wss_initWithLaunchSession launchSession service =
     \<lparr>was_launchSession = launchSession, was_service = service, was_delegate = None, wss_fullAppId = None,
      wss_connected = False, wss_socket = None, wss_connect = None, wss_appToApp = False, wss_playState = None,
      wss_message = False, wss_pinned = False, wss_activeCommands = [], wss_UID = 0\<rparr>"

definition wss_getNextId :: "WebOSWebAppSession \<Rightarrow> int \<times> WebOSWebAppSession" where
  "wss_getNextId s = (let n = wrap32 (wss_UID s + 1) in (n, s\<lparr>wss_UID := n\<rparr>))"

text \<open>
  The getter of \<open>fullAppId\<close> remembers what it finds: the identifier of the launch session when that is no web app,
  otherwise the key under which the table of the service has it.
\<close>

definition getFullAppId :: "string nsdict \<Rightarrow> WebOSWebAppSession \<Rightarrow> WebOSWebAppSession \<times> string option" where
  "getFullAppId maps s =
     (let appId = Option.bind (was_launchSession s) ls_appId;
          found = (case wss_fullAppId s of
              Some f \<Rightarrow> Some f
            | None \<Rightarrow> if (case was_launchSession s of Some l \<Rightarrow> ls_sessionType l | None \<Rightarrow> 0) \<noteq> 4 then appId
                else enumerateObjects (\<lambda>(full, mapped) acc.
                    if isEqualToString (Some mapped) appId then (Some full, True) else (acc, False)) maps None)
      in (s\<lparr>wss_fullAppId := found\<rparr>, case found of None \<Rightarrow> appId | Some f \<Rightarrow> Some f))"

section \<open>Blocks\<close>

definition callSuccess :: "nat option \<Rightarrow> capReply \<Rightarrow> sessionOutput list" where
  "callSuccess b r = (case b of None \<Rightarrow> [] | Some n \<Rightarrow> [SessionReply n r])"

definition callFailure :: "nat option \<Rightarrow> NSError \<Rightarrow> sessionOutput list" where
  "callFailure b e = (case b of None \<Rightarrow> [] | Some n \<Rightarrow> [SessionError n e])"

fun callerFails :: "sessionCaller \<Rightarrow> NSError \<Rightarrow> sessionOutput list" where
  "callerFails (AppCaller success failure) e = callFailure failure e"
| "callerFails (MessageCaller message success failure) e = callFailure failure e"

definition tellsSession :: "webAppSelector \<Rightarrow> WebOSWebAppSession \<Rightarrow> bool" where
  "tellsSession sel s \<longleftrightarrow> (case was_delegate s of None \<Rightarrow> False | Some sels \<Rightarrow> sel \<in> set sels)"

definition onSocket :: "WebOSWebAppSession \<Rightarrow> WebOSTVServiceSocketClient \<times> socketOutput list \<Rightarrow>
    WebOSWebAppSession \<times> sessionOutput list" where
  "onSocket s r = (s\<lparr>wss_socket := Some (fst r)\<rparr>, map OnSocket (snd r))"

section \<open>Connecting and disconnecting\<close>

text \<open>The socket loses its delegate before it is closed, so that it reports nothing of it.\<close>

definition disconnectFromWebApp :: "WebOSWebAppSession \<Rightarrow> WebOSWebAppSession \<times> sessionOutput list" where
  "disconnectFromWebApp s =
     (s\<lparr>wss_connected := False, wss_connect := None, wss_appToApp := False, wss_socket := None\<rparr>,
      (case wss_socket s of
         None \<Rightarrow> [] | Some k \<Rightarrow> map OnSocket (snd (disconnectWithError None (k\<lparr>sk_delegate := None\<rparr>))))
      @ (if tellsSession SelSessionDidDisconnect s then [SessionTellOnMain WebAppSessionDidDisconnect] else []))"

text \<open>\<open>_connectFailure\<close>: disconnect, then the block of the caller.\<close>

definition connectFails :: "sessionCaller \<Rightarrow> NSError option \<Rightarrow> WebOSWebAppSession \<Rightarrow>
    WebOSWebAppSession \<times> sessionOutput list" where
  "connectFails caller error s =
     (case disconnectFromWebApp s of (s', out) \<Rightarrow>
        (s', out @ callerFails caller (case error of Some e \<Rightarrow> e
           | None \<Rightarrow> generateErrorWithCode ConnectStatusCodeError (Some ''Unknown error connecting to web app''))))"

text \<open>
  \<open>connect:success:failure:\<close>. When the socket client is connected the service is asked at once, otherwise a new
  client is made and connects first. The blocks of an earlier attempt are replaced.
\<close>

definition wss_connectTo :: "socketEnv \<Rightarrow> socketService \<Rightarrow> bool \<Rightarrow> sessionCaller \<Rightarrow>
    WebOSWebAppSession \<Rightarrow> WebOSWebAppSession \<times> sessionOutput list" where
  "wss_connectTo se so joinOnly caller s0 =
     (let s = s0\<lparr>wss_message := True, wss_connect := Some (joinOnly, caller)\<rparr>
      in case wss_socket s of
           Some k \<Rightarrow> if sk_connected k then (s, [AskConnectToWebApp joinOnly caller])
             else onSocket s (sk_connect se ((sk_initWithService so)\<lparr>sk_delegate := Some [SelSocketDidReceiveMessage]\<rparr>))
         | None \<Rightarrow> onSocket s (sk_connect se ((sk_initWithService so)\<lparr>sk_delegate := Some [SelSocketDidReceiveMessage]\<rparr>)))"

definition connectPending :: "WebOSWebAppSession \<Rightarrow> bool" where
  "connectPending s \<longleftrightarrow> Option.bind (wss_socket s) sk_socket = Some LGSR_CONNECTING"

definition sendP2PMessage :: "socketEnv \<Rightarrow> socketService \<Rightarrow> string nsdict \<Rightarrow> json \<Rightarrow> nat option \<Rightarrow> nat option \<Rightarrow> sessionOp" where
  "sendP2PMessage se so maps message success failure s0 =
     (case getFullAppId maps s0 of (s, appId) \<Rightarrow>
        case appId of
          None \<Rightarrow> Inl NSInvalidArgumentException
        | Some a \<Rightarrow>
           if wss_connected s
           then Inr (case wss_socket s of
                  None \<Rightarrow> (s, callSuccess success (ResponseObject None))
                | Some k \<Rightarrow> apsnd (\<lambda>out. out @ callSuccess success (ResponseObject None))
                    (onSocket s (sendDictionaryOverSocket se [(''type'', JStr ''p2p''), (''to'', JStr a), (''payload'', message)] k)))
           else Inr (if connectPending s
             then (s, callFailure failure (generateErrorWithCode ConnectStatusCodeError
                    (Some ''You have a connect request pending, please wait until it has finished'')))
             else wss_connectTo se so False (MessageCaller message success failure) s))"

text \<open>
  The two public connections. The success of a message that had to connect first sends it again and then calls the
  success block of the application.
\<close>

fun callerSucceeds :: "socketEnv \<Rightarrow> socketService \<Rightarrow> string nsdict \<Rightarrow> sessionCaller \<Rightarrow> sessionOp" where
  "callerSucceeds se so maps (AppCaller success failure) s = Inr (s, callSuccess success (ResponseObject None))"
| "callerSucceeds se so maps (MessageCaller message success failure) s =
     rbind (sendP2PMessage se so maps message success failure s) (\<lambda>(s', out).
       Inr (s', out @ callSuccess success (ResponseObject None)))"

definition wss_connectCall :: "socketEnv \<Rightarrow> socketService \<Rightarrow> string nsdict \<Rightarrow> bool \<Rightarrow> sessionCaller \<Rightarrow> sessionOp" where
  "wss_connectCall se so maps joinOnly caller s =
     (if connectPending s
      then Inr (s, callerFails caller (generateErrorWithCode ConnectStatusCodeError
             (Some ''You have a connect request pending, please wait until it has finished'')))
      else if wss_connected s then callerSucceeds se so maps caller s
      else Inr (wss_connectTo se so joinOnly caller s))"

section \<open>Reports of the socket client\<close>

definition wss_socketDidConnect :: "WebOSWebAppSession \<Rightarrow> WebOSWebAppSession \<times> sessionOutput list" where
  "wss_socketDidConnect s = (case wss_connect s of
      None \<Rightarrow> (s, [])
    | Some (joinOnly, caller) \<Rightarrow> (s\<lparr>wss_connect := None\<rparr>, [AskConnectToWebApp joinOnly caller]))"

definition wss_socketDidFail :: "NSError option \<Rightarrow> WebOSWebAppSession \<Rightarrow> WebOSWebAppSession \<times> sessionOutput list" where
  "wss_socketDidFail error s0 =
     (let s = s0\<lparr>wss_connected := False, wss_appToApp := False\<rparr>;
          (s1, out) = (case wss_connect s of
              None \<Rightarrow> (s, [])
            | Some (joinOnly, caller) \<Rightarrow> connectFails caller (Some (case error of Some e \<Rightarrow> e
                | None \<Rightarrow> generateErrorWithCode ConnectStatusCodeError (Some ''Unknown error connecting to web socket''))) s);
          (s2, out') = disconnectFromWebApp (s1\<lparr>wss_connect := None\<rparr>)
      in (s2, out @ out'))"

definition wss_socketDidClose :: "NSError option \<Rightarrow> WebOSWebAppSession \<Rightarrow> WebOSWebAppSession \<times> sessionOutput list" where
  "wss_socketDidClose error s0 =
     (let s = s0\<lparr>wss_connected := False, wss_appToApp := False\<rparr>;
          (s1, out) = (case wss_connect s of
              None \<Rightarrow> (s, [])
            | Some (joinOnly, caller) \<Rightarrow> (case error of
                Some e \<Rightarrow> connectFails caller (Some e) s
              | None \<Rightarrow> (s, if tellsSession SelSessionDidDisconnect s then [SessionTell WebAppSessionDidDisconnect] else [])));
          (s2, out') = disconnectFromWebApp (s1\<lparr>wss_connect := None\<rparr>)
      in (s2, out @ out'))"

text \<open>The answer of the service to \<open>connectToWebApp:\<close>.\<close>

definition webAppConnected :: "socketEnv \<Rightarrow> socketService \<Rightarrow> string nsdict \<Rightarrow> sessionCaller \<Rightarrow> sessionOp" where
  "webAppConnected se so maps caller s = callerSucceeds se so maps caller (s\<lparr>wss_connected := True\<rparr>)"

definition webAppNotConnected :: "NSError option \<Rightarrow> sessionCaller \<Rightarrow> sessionOp" where
  "webAppNotConnected error caller s = Inr (connectFails caller error s)"

definition setAppToAppSubscription :: "bool \<Rightarrow> WebOSWebAppSession \<Rightarrow> WebOSWebAppSession" where
  "setAppToAppSubscription given s = s\<lparr>wss_appToApp := given\<rparr>"

section \<open>Messages of the application\<close>

definition emptyMessage :: NSError where
  "emptyMessage = generateErrorWithCode ConnectStatusCodeArgumentError (Some ''Cannot send an empty message'')"

definition wss_sendText :: "socketEnv \<Rightarrow> socketService \<Rightarrow> string nsdict \<Rightarrow> string option \<Rightarrow> nat option \<Rightarrow> nat option \<Rightarrow> sessionOp" where
  "wss_sendText se so maps message success failure s = (case message of
      None \<Rightarrow> Inr (s, callFailure failure emptyMessage)
    | Some m \<Rightarrow> if m = [] then Inr (s, callFailure failure emptyMessage)
        else sendP2PMessage se so maps (JStr m) success failure s)"

definition wss_sendJSON :: "socketEnv \<Rightarrow> socketService \<Rightarrow> string nsdict \<Rightarrow> jdict option \<Rightarrow> nat option \<Rightarrow> nat option \<Rightarrow> sessionOp" where
  "wss_sendJSON se so maps message success failure s = (case message of
      None \<Rightarrow> Inr (s, callFailure failure emptyMessage)
    | Some m \<Rightarrow> if m = [] then Inr (s, callFailure failure emptyMessage)
        else sendP2PMessage se so maps (JObj m) success failure s)"

section \<open>Media commands\<close>

text \<open>
  A media command is filed under its identifier and sent as JSON; the failure block of the caller gets both the
  failure of the sending and the error of the web app.
\<close>

definition requestIdOf :: "int \<Rightarrow> string" where
  "requestIdOf n = ''req'' @ show_int n"

definition messageForMediaCommand :: "jdict \<Rightarrow> jdict" where
  "messageForMediaCommand mediaCommand =
     [(''contentType'', JStr ''connectsdk.mediaCommand''), (''mediaCommand'', JObj mediaCommand)]"

definition wss_sendMediaCommand :: "socketEnv \<Rightarrow> socketService \<Rightarrow> string nsdict \<Rightarrow> mediaCallback \<Rightarrow> jdict \<Rightarrow>
    nat option \<Rightarrow> nat option \<Rightarrow> sessionOp" where
  "wss_sendMediaCommand se so maps callback mediaCommand success failure s0 =
     (let (n, s) = wss_getNextId s0;
          command = setObject (JStr (requestIdOf n)) ''requestId'' mediaCommand
      in wss_sendJSON se so maps (Some (messageForMediaCommand command)) None failure
           (s\<lparr>wss_activeCommands := setObject \<lparr>mp_callback = callback, mp_success = success, mp_failure = failure\<rparr>
                (requestIdOf n) (wss_activeCommands s)\<rparr>))"

definition mediaFields :: "string \<Rightarrow> MediaInfo \<Rightarrow> jdict" where
  "mediaFields type mediaInfo = [(''type'', JStr type), (''mediaURL'', JStr (ensureString (mi_url mediaInfo))),
     (''iconURL'', JStr (ensureString (firstImageURL mediaInfo))), (''title'', JStr (ensureString (mi_title mediaInfo))),
     (''description'', JStr (ensureString (mi_description mediaInfo))), (''mimeType'', JStr (ensureString (mi_mimeType mediaInfo)))]"

definition subtitlesDictionary :: "SubtitleInfo \<Rightarrow> jdict" where
  "subtitlesDictionary subtitleInfo =
     [(''tracks'', JArr [JObj (setNullableObject (map_option JStr (sub_label subtitleInfo)) ''label''
         (setNullableObject (map_option JStr (sub_language subtitleInfo)) ''language''
            [(''id'', JStr ''0''), (''source'', JStr (sub_url subtitleInfo))]))]),
      (''enabled'', JStr ''0'')]"

definition playMediaFields :: "MediaInfo \<Rightarrow> bool \<Rightarrow> jdict" where
  "playMediaFields mediaInfo shouldLoop =
     setNullableObject (map_option (JObj \<circ> subtitlesDictionary) (mi_subtitleInfo mediaInfo)) ''subtitles''
       (mediaFields ''playMedia'' mediaInfo @ [(''shouldLoop'', JBool shouldLoop)])"

text \<open>The media object the deprecated methods make from their arguments; it has no subtitles.\<close>

definition mediaFromURL :: "string option \<Rightarrow> string option \<Rightarrow> string option \<Rightarrow> string option \<Rightarrow> string option \<Rightarrow> MediaInfo result" where
  "mediaFromURL url iconURL title description mimeType =
     addImage (img_initWithURL iconURL ImageTypeThumb)
       ((mi_initWithURL url mimeType)\<lparr>mi_title := title, mi_description := description\<rparr>)"

definition mediaOrNil :: "MediaInfo option \<Rightarrow> MediaInfo" where
  "mediaOrNil m = (case m of Some x \<Rightarrow> x | None \<Rightarrow> (mi_initWithURL None None)\<lparr>mi_images := None\<rparr>)"

text \<open>\<open>closeMedia:\<close> closes the web app: \<open>closeWithSuccess:failure:\<close>.\<close>

definition wss_close :: "nat option \<Rightarrow> nat option \<Rightarrow> WebOSWebAppSession \<Rightarrow> WebOSWebAppSession \<times> sessionOutput list" where
  "wss_close success failure s =
     (s\<lparr>wss_activeCommands := [], wss_playState := None, wss_message := False, wss_pinned := False\<rparr>,
      [AskLauncher (CloseWebAppMsg (was_launchSession s)) success failure])"

fun wss_mediaPlayer :: "socketEnv \<Rightarrow> socketService \<Rightarrow> string nsdict \<Rightarrow> mediaPlayerMsg \<Rightarrow> nat option \<Rightarrow> nat option \<Rightarrow> sessionOp" where
  "wss_mediaPlayer se so maps (DisplayImageWithMediaInfo m) success failure s =
     wss_sendMediaCommand se so maps MbLaunchImage (mediaFields ''displayImage'' (mediaOrNil m)) success failure s"
| "wss_mediaPlayer se so maps (PlayMediaWithMediaInfo m shouldLoop) success failure s =
     wss_sendMediaCommand se so maps MbLaunchMedia (playMediaFields (mediaOrNil m) shouldLoop) success failure s"
| "wss_mediaPlayer se so maps (CloseMediaMsg l) success failure s = Inr (wss_close success failure s)"
| "wss_mediaPlayer se so maps (DisplayImageURL url iconURL title description mimeType) success failure s =
     rbind (mediaFromURL url iconURL title description mimeType) (\<lambda>m.
       wss_sendMediaCommand se so maps MbDisplayImage (mediaFields ''displayImage'' m) success failure s)"
| "wss_mediaPlayer se so maps (DisplayImageInfo m) success failure s =
     (let i = mediaOrNil m in
      rbind (mediaFromURL (mi_url i) (firstImageURL i) (mi_title i) (mi_description i) (mi_mimeType i)) (\<lambda>m'.
        wss_sendMediaCommand se so maps MbDisplayImage (mediaFields ''displayImage'' m') success failure s))"
| "wss_mediaPlayer se so maps (PlayMediaURL url iconURL title description mimeType shouldLoop) success failure s =
     rbind (mediaFromURL url iconURL title description mimeType) (\<lambda>m.
       wss_sendMediaCommand se so maps MbDisplayMedia (playMediaFields m shouldLoop) success failure s)"
| "wss_mediaPlayer se so maps (PlayMediaInfo m shouldLoop) success failure s =
     (let i = mediaOrNil m in
      rbind (mediaFromURL (mi_url i) (firstImageURL i) (mi_title i) (mi_description i) (mi_mimeType i)) (\<lambda>m'.
        wss_sendMediaCommand se so maps MbDisplayMedia (playMediaFields m' shouldLoop) success failure s))"

definition subscribePlayState :: "socketEnv \<Rightarrow> socketService \<Rightarrow> string nsdict \<Rightarrow> nat option \<Rightarrow> nat option \<Rightarrow> sessionOp" where
  "subscribePlayState se so maps success failure s0 =
     (let sub = (case wss_playState s0 of Some p \<Rightarrow> p | None \<Rightarrow> subscriptionWithDelegate None None None (-1));
          s = s0\<lparr>wss_playState := Some sub\<rparr>
      in rbind (if wss_connected s then Inr (s, []) else wss_connectCall se so maps False (AppCaller None failure) s) (\<lambda>(s', out).
           Inr (s'\<lparr>wss_playState := Some (addFailure failure (addSuccess success sub))\<rparr>, out)))"

text \<open>
  The transport commands are inherited: they go to the media control of the service, as do the messages that
  the base class refuses.
\<close>

datatype mediaAnswer = Handled sessionOp | Inherited mediaControlMsg

fun wss_mediaControl :: "socketEnv \<Rightarrow> socketService \<Rightarrow> string nsdict \<Rightarrow> mediaControlMsg \<Rightarrow> nat option \<Rightarrow> nat option \<Rightarrow> mediaAnswer" where
  "wss_mediaControl se so maps (MediaSeek position) success failure = Handled (wss_sendMediaCommand se so maps MbResponse
     [(''type'', JStr ''seek''), (''position'', JNum position)] success failure)"
| "wss_mediaControl se so maps GetPosition success failure = Handled (wss_sendMediaCommand se so maps MbPosition
     [(''type'', JStr ''getPosition'')] success failure)"
| "wss_mediaControl se so maps GetDuration success failure = Handled (wss_sendMediaCommand se so maps MbDuration
     [(''type'', JStr ''getDuration'')] success failure)"
| "wss_mediaControl se so maps GetPlayState success failure = Handled (wss_sendMediaCommand se so maps MbPlayState
     [(''type'', JStr ''getPlayState'')] success failure)"
| "wss_mediaControl se so maps SubscribePlayState success failure = Handled (subscribePlayState se so maps success failure)"
| "wss_mediaControl se so maps SubscribeMediaInfo success failure = Handled (\<lambda>s.
     Inr (s, callFailure failure (generateErrorWithCode ConnectStatusCodeNotSupported None)))"
| "wss_mediaControl se so maps msg success failure = Inherited msg"

fun wss_playList :: "socketEnv \<Rightarrow> socketService \<Rightarrow> string nsdict \<Rightarrow> playListControlMsg \<Rightarrow> nat option \<Rightarrow> nat option \<Rightarrow> sessionOp" where
  "wss_playList se so maps PlayNext success failure =
     wss_sendMediaCommand se so maps MbResponse [(''type'', JStr ''playNext'')] success failure"
| "wss_playList se so maps PlayPrevious success failure =
     wss_sendMediaCommand se so maps MbResponse [(''type'', JStr ''playPrevious'')] success failure"
| "wss_playList se so maps (JumpToTrackWithIndex index) success failure =
     wss_sendMediaCommand se so maps MbResponse [(''type'', JStr ''jumpToTrack''), (''index'', JNum (real_of_int index))] success failure"

section \<open>Messages of the web app\<close>

definition parsePlayState :: "string option \<Rightarrow> MediaControlPlayState" where
  "parsePlayState playStateString =
     (if playStateString = Some ''playing'' then MediaControlPlayStatePlaying
      else if playStateString = Some ''paused'' then MediaControlPlayStatePaused
      else if playStateString = Some ''idle'' then MediaControlPlayStateIdle
      else if playStateString = Some ''buffering'' then MediaControlPlayStateBuffering
      else if playStateString = Some ''finished'' then MediaControlPlayStateFinished
      else MediaControlPlayStateUnknown)"

definition wss_self :: capObject where
  "wss_self = \<lparr>co_name = ''WebOSWebAppSession'', co_priority = (\<lambda>_. CapabilityPriorityLevelHigh)\<rparr>"

definition secondsOf :: "jdict \<Rightarrow> string \<Rightarrow> real result" where
  "secondsOf d k = (if objectForKey d k = Some JNull then Inr 0
     else rbind (intValue (objectForKey d k)) (\<lambda>i. Inr (real_of_int i)))"

text \<open>The two display methods call the block of the application without a test for nil.\<close>

definition uncheckedSuccess :: "nat option \<Rightarrow> capReply \<Rightarrow> sessionOutput list" where
  "uncheckedSuccess b r = (case b of None \<Rightarrow> [NilSuccessCalled] | Some n \<Rightarrow> [SessionReply n r])"

fun completeCommand :: "mediaCallback \<Rightarrow> nat option \<Rightarrow> LaunchSession option \<Rightarrow> jdict \<Rightarrow> sessionOutput list result" where
  "completeCommand MbResponse b l d = Inr (callSuccess b (ResponseObject (Some (JObj d))))"
| "completeCommand MbPosition b l d = rbind (secondsOf d ''position'') (\<lambda>x.
     Inr (callSuccess b (MediaControlReply (MediaPositionReply x))))"
| "completeCommand MbDuration b l d = rbind (secondsOf d ''duration'') (\<lambda>x.
     Inr (callSuccess b (MediaControlReply (MediaDurationReply x))))"
| "completeCommand MbPlayState b l d =
     Inr (callSuccess b (MediaControlReply (MediaPlayStateReply (parsePlayState (asString (objectForKey d ''playState''))))))"
| "completeCommand MbLaunchImage b l d =
     Inr (callSuccess b (MediaPlayerReplyC (MediaPlayerReply (mlo_initWithLaunchSession l (Some wss_self)))))"
| "completeCommand MbLaunchMedia b l d =
     Inr (callSuccess b (MediaPlayerReplyC (MediaPlayerReply (mlo_initWithPlayList l (Some wss_self) (Some wss_self)))))"
| "completeCommand MbDisplayImage b l d = Inr (uncheckedSuccess b (MediaPlayerReplyC (MediaPlayerDisplayReply l (Some wss_self))))"
| "completeCommand MbDisplayMedia b l d = Inr (uncheckedSuccess b (MediaPlayerReplyC (MediaPlayerDisplayReply l (Some wss_self))))"

definition handleMediaCommandResponse :: "jdict \<Rightarrow> sessionOp" where
  "handleMediaCommandResponse payload s =
     (case asString (objectForKey payload ''requestId'') of
        None \<Rightarrow> Inr (s, [])
      | Some requestId \<Rightarrow>
         (case objectForKey (wss_activeCommands s) requestId of
            None \<Rightarrow> Inr (s, [])
          | Some p \<Rightarrow>
              rbind (case objectForKey payload ''error'' of
                  Some e \<Rightarrow> Inr (callFailure (mp_failure p) (generateErrorWithCode ConnectStatusCodeError (asString (Some e))))
                | None \<Rightarrow> completeCommand (mp_callback p) (mp_success p) (was_launchSession s) payload) (\<lambda>out.
              Inr (s\<lparr>wss_activeCommands := removeObjectForKey requestId (wss_activeCommands s)\<rparr>, out))))"

definition handleMediaEvent :: "jdict \<Rightarrow> WebOSWebAppSession \<Rightarrow> sessionOutput list" where
  "handleMediaEvent payload s =
     (case wss_playState s of
        None \<Rightarrow> []
      | Some sub \<Rightarrow>
         (case objectForKey payload ''type'' of
            None \<Rightarrow> (case objectForKey payload ''error'' of
                None \<Rightarrow> []
              | Some e \<Rightarrow> map (\<lambda>b. SessionError b (generateErrorWithCode ConnectStatusCodeTvError (asString (Some e))))
                  (case sub_failureCalls sub of None \<Rightarrow> [] | Some bs \<Rightarrow> bs))
          | Some t \<Rightarrow> if asString (Some t) = Some ''playState''
              then map (\<lambda>b. SessionReply b (MediaControlReply (MediaPlayStateReply
                     (parsePlayState (asString (objectForKey payload ''playState'')))))) 
                   (case sub_successCalls sub of None \<Rightarrow> [] | Some bs \<Rightarrow> bs)
              else []))"

definition handleMessage :: "json \<Rightarrow> WebOSWebAppSession \<Rightarrow> sessionOutput list" where
  "handleMessage m s = (if tellsSession SelDidReceiveMessage s then [SessionTell (DidReceiveMessage m)] else [])"

definition handleContent :: "string \<Rightarrow> jdict \<Rightarrow> sessionOp" where
  "handleContent contentType m s =
     (let payloadKey = drop (length ''connectsdk.'') contentType in
      if payloadKey = [] then Inr (s, [])
      else let errors = (if payloadKey = ''media-error'' then handleMediaEvent m s else [])
           in case objectForKey m payloadKey of
                None \<Rightarrow> Inr (s, errors)
              | Some p \<Rightarrow>
                  if payloadKey = ''mediaEvent''
                  then (case p of JObj d \<Rightarrow> Inr (s, errors @ handleMediaEvent d s) | _ \<Rightarrow> Inl NSInvalidArgumentException)
                  else if payloadKey = ''mediaCommandResponse''
                  then (case p of JObj d \<Rightarrow> rbind (handleMediaCommandResponse d s) (\<lambda>(s', out). Inr (s', errors @ out))
                        | _ \<Rightarrow> Inl NSInvalidArgumentException)
                  else Inr (s, errors))"

text \<open>\<open>socket:didReceiveMessage:\<close>: the answer tells the client whether to go on with the message itself.\<close>

definition wss_didReceiveMessage :: "string nsdict \<Rightarrow> jdict \<Rightarrow> WebOSWebAppSession \<Rightarrow>
    (bool \<times> WebOSWebAppSession \<times> sessionOutput list) result" where
  "wss_didReceiveMessage maps payload s0 =
     (if asString (objectForKey payload ''type'') \<noteq> Some ''p2p'' then Inr (True, s0, [])
      else case getFullAppId maps s0 of (s, appId) \<Rightarrow>
        if \<not> isEqualToString (asString (objectForKey payload ''from'')) appId then Inr (False, s, [])
        else (case objectForKey payload ''payload'' of
            Some (JObj m) \<Rightarrow>
              (case asString (objectForKey m ''contentType'') of
                 Some contentType \<Rightarrow>
                   if rangeOfString contentType ''connectsdk.'' \<noteq> None
                   then rbind (handleContent contentType m s) (\<lambda>r. Inr (False, r))
                   else Inr (False, s, handleMessage (JObj m) s)
               | None \<Rightarrow> Inr (False, s, handleMessage (JObj m) s))
          | Some (JStr text) \<Rightarrow> Inr (False, s, handleMessage (JStr text) s)
          | _ \<Rightarrow> Inr (False, s, [])))"

section \<open>The interface of a session\<close>

text \<open>The subscriptions a session holds; unsubscribing one forgets it and sends nothing.\<close>

datatype heldSubscription = PlayStateSubscription | MessageSubscription | PinnedSubscription

definition wss_sendSubscription :: "heldSubscription \<Rightarrow> ServiceSubscriptionType \<Rightarrow> WebOSWebAppSession \<Rightarrow> WebOSWebAppSession \<times> int" where
  "wss_sendSubscription which type s = (case type of
      SubscriptionTypeSubscribe \<Rightarrow> s
    | SubscriptionTypeUnsubscribe \<Rightarrow> (case which of
          PlayStateSubscription \<Rightarrow> s\<lparr>wss_playState := None\<rparr>
        | MessageSubscription \<Rightarrow> s\<lparr>wss_message := False\<rparr>
        | PinnedSubscription \<Rightarrow> s\<lparr>wss_pinned := False\<rparr>), -1)"

fun wss_perform :: "socketEnv \<Rightarrow> socketService \<Rightarrow> string nsdict \<Rightarrow> webAppSessionMsg \<Rightarrow> nat option \<Rightarrow> nat option \<Rightarrow> sessionOp" where
  "wss_perform se so maps ConnectWebApp success failure s = wss_connectCall se so maps False (AppCaller success failure) s"
| "wss_perform se so maps JoinWebApp success failure s = wss_connectCall se so maps True (AppCaller success failure) s"
| "wss_perform se so maps DisconnectFromWebApp success failure s = Inr (disconnectFromWebApp s)"
| "wss_perform se so maps (SendTextS message) success failure s = wss_sendText se so maps (Some message) success failure s"
| "wss_perform se so maps (SendJSON message) success failure s = wss_sendJSON se so maps (Some message) success failure s"
| "wss_perform se so maps CloseWebAppSession success failure s = Inr (wss_close success failure s)"
| "wss_perform se so maps (PinWebAppS i) success failure s = Inr (s, [AskLauncher (PinWebApp (Some i)) success failure])"
| "wss_perform se so maps (UnPinWebAppS i) success failure s = Inr (s, [AskLauncher (UnPinWebApp (Some i)) success failure])"
| "wss_perform se so maps (IsWebAppPinnedS i) success failure s = Inr (s, [AskLauncher (IsWebAppPinned (Some i)) success failure])"
| "wss_perform se so maps (SubscribeIsWebAppPinnedS i) success failure s =
     Inr (s\<lparr>wss_pinned := True\<rparr>, [AskLauncher (SubscribeIsWebAppPinned (Some i)) success failure])"
| "wss_perform se so maps SubscribeWebAppStatus success failure s =
     Inr (s, callFailure failure (generateErrorWithCode ConnectStatusCodeNotSupported None))"

section \<open>A message that has to connect first\<close>

definition sentOver :: "sessionOutput list \<Rightarrow> json list" where
  "sentOver out = List.map_filter (\<lambda>x. case x of OnSocket (SendOverSocket j) \<Rightarrow> Some j | _ \<Rightarrow> None) out"

definition repliesTo :: "nat \<Rightarrow> sessionOutput list \<Rightarrow> nat" where
  "repliesTo b out = length (filter (\<lambda>x. case x of SessionReply n r \<Rightarrow> n = b | _ \<Rightarrow> False) out)"

definition failuresTo :: "nat \<Rightarrow> sessionOutput list \<Rightarrow> nat" where
  "failuresTo b out = length (filter (\<lambda>x. case x of SessionError n e \<Rightarrow> n = b | _ \<Rightarrow> False) out)"

lemmas countOutputs = sentOver_def repliesTo_def failuresTo_def map_filter_simps

lemma sentOver_append: "sentOver (xs @ ys) = sentOver xs @ sentOver ys"
  by (simp add: sentOver_def map_filter_def)

lemma countOnSocket [simp]: "repliesTo b (map OnSocket xs) = 0" "failuresTo b (map OnSocket xs) = 0"
  by (induction xs) (simp_all add: repliesTo_def failuresTo_def)

lemma repliesTo_append [simp]: "repliesTo b (xs @ ys) = repliesTo b xs + repliesTo b ys"
  "failuresTo b (xs @ ys) = failuresTo b xs + failuresTo b ys"
  by (simp_all add: repliesTo_def failuresTo_def)

lemma connectTo_new:
  assumes "\<forall>k. wss_socket s = Some k \<longrightarrow> \<not> sk_connected k"
  shows "wss_connectTo se so joinOnly caller s =
    onSocket (s\<lparr>wss_message := True, wss_connect := Some (joinOnly, caller)\<rparr>)
      (newSocket ((sk_initWithService so)\<lparr>sk_delegate := Some [SelSocketDidReceiveMessage]\<rparr>))"
proof -
  have "sk_connect se ((sk_initWithService so)\<lparr>sk_delegate := d\<rparr>) = newSocket ((sk_initWithService so)\<lparr>sk_delegate := d\<rparr>)" for d
    by (simp add: sk_connect_def openSocket_def sk_initWithService_def)
  with assms show ?thesis by (simp add: wss_connectTo_def Let_def split: option.split)
qed

lemma getFullAppId_again: "getFullAppId maps s = (s', Some a) \<Longrightarrow> was_launchSession t = was_launchSession s \<Longrightarrow>
    wss_fullAppId t = wss_fullAppId s' \<Longrightarrow> snd (getFullAppId maps t) = Some a"
  by (auto simp: getFullAppId_def Let_def split: option.splits if_splits)

lemma getFullAppId_frame:
  "fst (getFullAppId maps s) = s\<lparr>wss_fullAppId := wss_fullAppId (fst (getFullAppId maps s))\<rparr>"
  by (simp add: getFullAppId_def Let_def)


section \<open>Media commands and their answers\<close>

text \<open>Every command that waits is filed under an identifier that was handed out.\<close>

definition wss_inv :: "WebOSWebAppSession \<Rightarrow> bool" where
  "wss_inv s \<longleftrightarrow> dict_wf (wss_activeCommands s) \<and> 0 \<le> wss_UID s
     \<and> (\<forall>k. objectForKey (wss_activeCommands s) k \<noteq> None \<longrightarrow> (\<exists>n. 1 \<le> n \<and> n \<le> wss_UID s \<and> k = requestIdOf n))"

definition sameCommands :: "WebOSWebAppSession \<Rightarrow> WebOSWebAppSession \<Rightarrow> bool" where
  "sameCommands s s' \<longleftrightarrow> wss_activeCommands s' = wss_activeCommands s \<and> wss_UID s' = wss_UID s
     \<and> was_launchSession s' = was_launchSession s"

lemma sameCommands_trans [trans]: "sameCommands s t \<Longrightarrow> sameCommands t u \<Longrightarrow> sameCommands s u"
  by (simp add: sameCommands_def)

lemma sameCommands_fullAppId: "getFullAppId maps s = (s', a) \<Longrightarrow> sameCommands s s'"
  by (auto simp: getFullAppId_def Let_def sameCommands_def)

lemma sameCommands_onSocket: "sameCommands s (fst (onSocket s r))"
  by (simp add: onSocket_def sameCommands_def)

lemma sameCommands_connectTo: "sameCommands s (fst (wss_connectTo se so j c s))"
  by (simp add: wss_connectTo_def Let_def onSocket_def sameCommands_def split: option.split)

lemma sendP2P_same:
  assumes "sendP2PMessage se so maps m b f s = Inr (s', out)" shows "sameCommands s s'"
proof -
  obtain s0 a where a: "getFullAppId maps s = (s0, Some a)"
    using assms by (auto simp: sendP2PMessage_def split: prod.splits option.splits)
  note r = assms [unfolded sendP2PMessage_def a prod.case option.case]
  have "sameCommands s0 s'"
  proof (cases "wss_connected s0")
    case True
    with r show ?thesis by (cases "wss_socket s0") (auto simp: sameCommands_def onSocket_def)
  next
    case False
    note r = r [unfolded if_not_P [OF False]]
    show ?thesis
    proof (cases "connectPending s0")
      case True
      with r show ?thesis by (auto simp: sameCommands_def)
    next
      case False
      with r have "s' = fst (wss_connectTo se so False (MessageCaller m b f) s0)" by (simp add: prod_eq_iff)
      then show ?thesis by (simp add: sameCommands_connectTo)
    qed
  qed
  with sameCommands_fullAppId [OF a] show ?thesis by (rule sameCommands_trans)
qed

lemma sendJSON_same: "wss_sendJSON se so maps m b f s = Inr (s', out) \<Longrightarrow> sameCommands s s'"
  by (auto simp: wss_sendJSON_def sameCommands_def dest: sendP2P_same split: option.splits if_splits)

lemma sendMediaCommand_files:
  assumes "wss_sendMediaCommand se so maps cb d b f s = Inr (s', out)" "0 \<le> wss_UID s" "wss_UID s < 2 ^ 31 - 1"
  shows "wss_UID s' = wss_UID s + 1" "was_launchSession s' = was_launchSession s"
    "wss_activeCommands s' = setObject \<lparr>mp_callback = cb, mp_success = b, mp_failure = f\<rparr>
       (requestIdOf (wss_UID s + 1)) (wss_activeCommands s)"
proof -
  have "wrap32 (wss_UID s + 1) = wss_UID s + 1" using assms(2,3) by (intro wrap32_id) simp_all
  with assms(1) show "wss_UID s' = wss_UID s + 1" "was_launchSession s' = was_launchSession s"
    "wss_activeCommands s' = setObject \<lparr>mp_callback = cb, mp_success = b, mp_failure = f\<rparr>
       (requestIdOf (wss_UID s + 1)) (wss_activeCommands s)"
    by (auto simp: wss_sendMediaCommand_def wss_getNextId_def Let_def sameCommands_def dest!: sendJSON_same)
qed

text \<open>
  C7: The answer of the web app to a media command completes that command and no other, exactly once: the first
  response with its identifier does what the completion of the command says, a second one does nothing, and
  every command that waited before still waits.
\<close>
theorem wss_command_answered_once:
  assumes "wss_inv s" "wss_UID s < 2 ^ 31 - 1" "wss_sendMediaCommand se so maps cb command b f s = Inr (s1, out1)"
    and "objectForKey d ''requestId'' = Some (JStr (requestIdOf (wss_UID s + 1)))"
    and "objectForKey d ''error'' = None" "completeCommand cb b (was_launchSession s) d = Inr answer"
  shows "\<exists>s2. handleMediaCommandResponse d s1 = Inr (s2, answer) \<and> handleMediaCommandResponse d s2 = Inr (s2, [])
    \<and> objectForKey (wss_activeCommands s2) = objectForKey (wss_activeCommands s) \<and> wss_inv s1"
proof -
  let ?k = "requestIdOf (wss_UID s + 1)"
  have nonneg: "0 \<le> wss_UID s" using assms(1) by (simp add: wss_inv_def)
  note filed = sendMediaCommand_files [OF assms(3) nonneg assms(2)]
  have fresh: "objectForKey (wss_activeCommands s) ?k = None"
  proof (rule ccontr)
    assume "objectForKey (wss_activeCommands s) ?k \<noteq> None"
    then obtain n where "n \<le> wss_UID s" "?k = requestIdOf n" using assms(1) by (auto simp: wss_inv_def)
    then show False by (simp add: requestIdOf_def show_int_inj)
  qed
  define s2 where "s2 = s1\<lparr>wss_activeCommands := removeObjectForKey ?k (wss_activeCommands s1)\<rparr>"
  have "handleMediaCommandResponse d s1 = Inr (s2, answer)"
    using assms(4-6) filed by (simp add: handleMediaCommandResponse_def s2_def)
  moreover have active: "objectForKey (wss_activeCommands s2) = objectForKey (wss_activeCommands s)"
    using fresh by (auto simp: s2_def filed fun_eq_iff)
  moreover have "handleMediaCommandResponse d s2 = Inr (s2, [])"
    using assms(4) fresh by (simp add: handleMediaCommandResponse_def active)
  moreover have "wss_inv s1"
    using assms(1) nonneg by (force simp: wss_inv_def filed)
  ultimately show ?thesis by blast
qed

definition sample_socketService2 :: socketService where
  "sample_socketService2 = \<lparr>so_clientKey = None, so_SSLCertificates = None, so_configUUID = None, so_address = Some ''10.0.0.5'',
     so_port = 3001, so_descriptionUUID = None, so_pairingType = PairingTypeNone\<rparr>"

definition sample_appSession :: WebOSWebAppSession where
  "sample_appSession = wss_initWithLaunchSession (Some \<lparr>ls_appId = Some ''app'', ls_name = None, ls_sessionId = None,
     ls_rawData = None, ls_sessionType = 1, ls_service = None\<rparr>) None"

lemma sample_fullAppId: "getFullAppId [] sample_appSession = (sample_appSession\<lparr>wss_fullAppId := Some ''app''\<rparr>, Some ''app'')"
  by (simp add: getFullAppId_def sample_appSession_def wss_initWithLaunchSession_def Let_def)

lemma sample_session_fields: "\<not> wss_connected sample_appSession" "wss_socket sample_appSession = None" "wss_UID sample_appSession = 0"
  "wss_activeCommands sample_appSession = []"
  by (simp_all add: sample_appSession_def wss_initWithLaunchSession_def)


theorem wss_command_answered_once_witness:
  "\<exists>s1 out1 s2. wss_sendMediaCommand sample_socketEnv sample_socketService2 [] MbPosition [(''type'', JStr ''getPosition'')] (Some 1) None
       sample_appSession = Inr (s1, out1)
     \<and> handleMediaCommandResponse [(''requestId'', JStr ''req1''), (''position'', JNum 12)] s1
         = Inr (s2, [SessionReply 1 (MediaControlReply (MediaPositionReply 12))])"
proof -
  let ?s = sample_appSession and ?d = "[(''requestId'', JStr ''req1''), (''position'', JNum 12)]"
  have inv: "wss_inv ?s" "wss_UID ?s < 2 ^ 31 - 1" by (simp_all add: wss_inv_def sample_session_fields dict_wf_def)
  have "\<exists>s1 out1. wss_sendMediaCommand sample_socketEnv sample_socketService2 [] MbPosition [(''type'', JStr ''getPosition'')] (Some 1) None ?s
      = Inr (s1, out1)"
    by (simp add: wss_sendMediaCommand_def wss_getNextId_def wss_sendJSON_def sendP2PMessage_def getFullAppId_def
        messageForMediaCommand_def sample_appSession_def wss_initWithLaunchSession_def connectPending_def Let_def)
  then obtain s1 out1 where 1: "wss_sendMediaCommand sample_socketEnv sample_socketService2 [] MbPosition [(''type'', JStr ''getPosition'')]
      (Some 1) None ?s = Inr (s1, out1)" by blast
  have r: "objectForKey ?d ''requestId'' = Some (JStr (requestIdOf (wss_UID ?s + 1)))" "objectForKey ?d ''error'' = None"
    by (simp_all add: objectForKey_Cons sample_session_fields requestIdOf_def show_int_def show_nat.simps digit_char_def char_of_def bit_0)
  have "completeCommand MbPosition (Some 1) (was_launchSession ?s) ?d = Inr [SessionReply 1 (MediaControlReply (MediaPositionReply 12))]"
    by (simp add: secondsOf_def objectForKey_Cons callSuccess_def trunc_def)
  from wss_command_answered_once [OF inv 1 r this] 1 show ?thesis by blast
qed

section \<open>What can go wrong\<close>

text \<open>
  The connection closes without an error while the session is connecting: neither block of the caller is
  called, and the delegate is told of the disconnection twice.
\<close>
lemma wss_close_while_connecting_is_silent:
  assumes "wss_connect s = Some (joinOnly, caller)" "wss_socketDidClose None s = (s', out)"
  shows "wss_connect s' = None \<and> repliesTo b out = 0 \<and> failuresTo b out = 0"
    "tellsSession SelSessionDidDisconnect s \<Longrightarrow>
       SessionTell WebAppSessionDidDisconnect \<in> set out \<and> SessionTellOnMain WebAppSessionDidDisconnect \<in> set out"
proof -
  let ?tells = "tellsSession SelSessionDidDisconnect s"
  have same: "tellsSession sel (s\<lparr>wss_connected := False, wss_appToApp := False, wss_connect := None\<rparr>) = tellsSession sel s"
    "tellsSession sel (s\<lparr>wss_connected := False, wss_appToApp := False\<rparr>) = tellsSession sel s" for sel
    by (simp_all add: tellsSession_def)
  define closing where "closing = (case wss_socket s of None \<Rightarrow> []
    | Some k \<Rightarrow> map OnSocket (snd (disconnectWithError None (k\<lparr>sk_delegate := None\<rparr>))))"
  have quiet: "repliesTo b closing = 0" "failuresTo b closing = 0"
    by (simp_all add: closing_def split: option.split) (simp_all add: repliesTo_def failuresTo_def)
  have r: "wss_connect s' = None" "out = (if ?tells then [SessionTell WebAppSessionDidDisconnect] else []) @ closing
      @ (if ?tells then [SessionTellOnMain WebAppSessionDidDisconnect] else [])"
    using assms(2) [symmetric]
    by (simp_all add: wss_socketDidClose_def disconnectFromWebApp_def Let_def assms(1) same closing_def)
  show "wss_connect s' = None \<and> repliesTo b out = 0 \<and> failuresTo b out = 0"
    using r quiet by (simp add: repliesTo_def failuresTo_def)
  show "?tells \<Longrightarrow> SessionTell WebAppSessionDidDisconnect \<in> set out \<and> SessionTellOnMain WebAppSessionDidDisconnect \<in> set out"
    by (simp add: r)
qed

text \<open>
  The service reports the web app as connected after the session has disconnected: the session counts as
  connected without a socket, and a message is then reported as sent though nothing is sent.
\<close>
lemma wss_late_connection_loses_messages:
  assumes "webAppConnected se so maps (AppCaller success failure) (fst (disconnectFromWebApp s)) = Inr (s1, out1)"
    and "text \<noteq> []" "wss_sendText se so maps (Some text) (Some b) f s1 = Inr (s2, out2)"
  shows "sentOver out2 = [] \<and> repliesTo b out2 = 1"
proof -
  have s1: "wss_connected s1" "wss_socket s1 = None"
    using assms(1) by (auto simp: webAppConnected_def disconnectFromWebApp_def)
  obtain s0 a where a: "getFullAppId maps s1 = (s0, Some a)"
    using assms(2,3) by (auto simp: wss_sendText_def sendP2PMessage_def split: prod.splits option.splits)
  have "wss_connected s0" "wss_socket s0 = None" using a s1 by (auto simp: getFullAppId_def Let_def)
  with assms(2,3) show ?thesis by (auto simp: wss_sendText_def sendP2PMessage_def a callSuccess_def countOutputs)
qed

end
