(* ===== verification/HttpTasks.thy ===== *)
theory HttpTasks
  imports Protocols
begin

text \<open>
  What a service that talks HTTP does for a message of the application: it calls one of the two blocks, stays
  silent, raises, or sends a command and goes on with its answer. A block may be nil: \<open>Insist\<close> calls the
  success block without testing it. The services for DIAL devices and Roku players are made of such tasks.
\<close>

record httpCommand =
  hc_method :: string
  hc_target :: "string option"
  hc_payload :: "json option"

datatype task =
    Reply capReply
  | Insist capReply
  | Fail "NSError option"
  | Quiet
  | Throw nsexception
  | Command httpCommand "json option \<Rightarrow> task" "NSError option \<Rightarrow> task"

definition failWith :: "ConnectStatusCode \<Rightarrow> string option \<Rightarrow> task" where
  "failWith code details = Fail (Some (generateErrorWithCode code details))"

definition unsupported :: task where
  "unsupported = failWith ConnectStatusCodeNotSupported None"

definition orThrow :: "'a result \<Rightarrow> ('a \<Rightarrow> task) \<Rightarrow> task" where
  "orThrow r f = (case r of Inl e \<Rightarrow> Throw e | Inr v \<Rightarrow> f v)"

text \<open>The blocks a caller gives and what becomes of them.\<close>

datatype taskOutcome = Replied capReply | Failed "NSError option" | NothingCalled | Thrown nsexception | NilCalled

primrec runTask :: "blocks \<Rightarrow> (httpCommand \<Rightarrow> NSError option + json option) \<Rightarrow> task \<Rightarrow> httpCommand list \<times> taskOutcome" where
  "runTask bs dev (Reply r) = ([], if has_success bs then Replied r else NothingCalled)"
| "runTask bs dev (Insist r) = ([], if has_success bs then Replied r else NilCalled)"
| "runTask bs dev (Fail e) = ([], if has_failure bs then Failed e else NothingCalled)"
| "runTask bs dev Quiet = ([], NothingCalled)"
| "runTask bs dev (Throw e) = ([], Thrown e)"
| "runTask bs dev (Command c done failed) = apfst (Cons c)
     (case dev c of Inl e \<Rightarrow> runTask bs dev (failed e) | Inr r \<Rightarrow> runTask bs dev (done r))"

text \<open>A task that calls one of its blocks in the end, or raises, whatever the device answers.\<close>

primrec alwaysAnswers :: "task \<Rightarrow> bool" where
  "alwaysAnswers (Reply r) = True"
| "alwaysAnswers (Insist r) = True"
| "alwaysAnswers (Fail e) = True"
| "alwaysAnswers Quiet = False"
| "alwaysAnswers (Throw e) = True"
| "alwaysAnswers (Command c f g) = ((\<forall>r. alwaysAnswers (f r)) \<and> (\<forall>e. alwaysAnswers (g e)))"

primrec commandsAtMost :: "task \<Rightarrow> nat \<Rightarrow> bool" where
  "commandsAtMost (Reply r) n = True"
| "commandsAtMost (Insist r) n = True"
| "commandsAtMost (Fail e) n = True"
| "commandsAtMost Quiet n = True"
| "commandsAtMost (Throw e) n = True"
| "commandsAtMost (Command c f g) n = (n > 0 \<and> (\<forall>r. commandsAtMost (f r) (n - 1)) \<and> (\<forall>e. commandsAtMost (g e) (n - 1)))"

lemma runTask_answers:
  "alwaysAnswers t \<Longrightarrow> has_success bs \<Longrightarrow> has_failure bs \<Longrightarrow> snd (runTask bs dev t) \<notin> {NothingCalled, NilCalled}"
  by (induction t) (auto split: sum.split)

lemma runTask_commands: "commandsAtMost t n \<Longrightarrow> length (fst (runTask bs dev t)) \<le> n"
proof (induction t arbitrary: n)
  case (Command c f g)
  have "length (fst (runTask bs dev (f r))) \<le> n - 1" for r using Command by simp
  moreover have "length (fst (runTask bs dev (g e))) \<le> n - 1" for e using Command by simp
  ultimately show ?case using Command.prems by (auto split: sum.splits) (metis Suc_le_mono Suc_pred)+
qed simp_all

lemma commandsAtMost_mono: "commandsAtMost t n \<Longrightarrow> n \<le> m \<Longrightarrow> commandsAtMost t m"
proof (induction t arbitrary: n m)
  case (Command c f g)
  have le: "n - 1 \<le> m - 1" using Command.prems by simp
  have "commandsAtMost (f r) (n - 1)" "commandsAtMost (g e) (n - 1)" for r e using Command.prems(1) by simp_all
  then have "commandsAtMost (f r) (m - 1)" "commandsAtMost (g e) (m - 1)" for r e
    using Command.IH(1) [OF rangeI _ le] Command.IH(2) [OF rangeI _ le] by blast+
  then show ?case using Command.prems by simp
qed simp_all

lemma failWith_simps [simp]: "alwaysAnswers (failWith c d)" "commandsAtMost (failWith c d) n"
  "alwaysAnswers unsupported" "commandsAtMost unsupported n"
  by (simp_all add: failWith_def unsupported_def)

lemma orThrow_simps [simp]: "alwaysAnswers (orThrow r f) \<longleftrightarrow> (\<forall>v. r = Inr v \<longrightarrow> alwaysAnswers (f v))"
  "commandsAtMost (orThrow r f) n \<longleftrightarrow> (\<forall>v. r = Inr v \<longrightarrow> commandsAtMost (f v) n)"
  by (auto simp: orThrow_def split: sum.split)

section \<open>Paths\<close>

text \<open>
  \<open>stringByAppendingPathComponent:\<close> treats its receiver as a file path: one slash between the parts, no doubled
  slashes anywhere (also not after \<open>http:\<close>) and none at the end. \<open>pathWithComponents:\<close> joins in the same way.
\<close>

fun collapseSlashes :: "string \<Rightarrow> string" where
  "collapseSlashes (c # d # s) = (if c = CHR ''/'' \<and> d = CHR ''/'' then collapseSlashes (d # s) else c # collapseSlashes (d # s))"
| "collapseSlashes s = s"

definition appendPathComponent :: "string \<Rightarrow> string \<Rightarrow> string" where
  "appendPathComponent path component =
     (let p = collapseSlashes (if path = [] then component else path @ ''/'' @ component)
      in if length p > 1 \<and> last p = CHR ''/'' then butlast p else p)"

definition pathWithComponents :: "string list \<Rightarrow> string" where
  "pathWithComponents cs = fold (\<lambda>c p. appendPathComponent p c) cs []"

text \<open>\<open>objectForKey:\<close> sent along a path; nil answers nil, and what is not a dictionary raises.\<close>

definition lookupKey :: "json option \<Rightarrow> string \<Rightarrow> json option result" where
  "lookupKey d k = (case d of None \<Rightarrow> Inr None | Some j \<Rightarrow> subscript j (Some k))"

fun lookupPath :: "json option \<Rightarrow> string list \<Rightarrow> json option result" where
  "lookupPath j [] = Inr j"
| "lookupPath j (k # ks) = rbind (lookupKey j k) (\<lambda>v. lookupPath v ks)"

end
