(* ===== verification/XmlWriter.thy ===== *)
theory XmlWriter
  imports Json
begin

text \<open>
  \<open>src/Frameworks/xswi/XMLWriter.m\<close> and its convenience methods in
  \<open>src/Services/Helpers/XMLWriter+ConvenienceMethods.m\<close>: a writer of XML documents with namespaces, as the DLNA
  service uses it. A block that writes is an operation on the writer; operations that raise end a document. The
  writer of the service has neither line breaks nor indentation.
\<close>

section \<open>Escaping\<close>

text \<open>
  The writer goes through the text in UTF-16: control characters other than tab and line ends are skipped, and so
  are both halves of a surrogate pair, which is a character of four bytes in UTF-8, and the two noncharacters at
  the end of the plane.
\<close>

definition escapeXMLChar :: "char \<Rightarrow> string" where
  "escapeXMLChar c =
     (if c = CHR 0x22 then ''&quot;'' else if c = CHR ''&'' then ''&amp;'' else if c = CHR ''<'' then ''&lt;''
      else if c = CHR ''>'' then ''&gt;''
      else if (of_char c :: nat) < 32 \<and> c \<notin> {CHR 0x09, CHR 0x0A, CHR 0x0D} then [] else [c])"

function escapeXML :: "string \<Rightarrow> string" where
  "escapeXML [] = []"
| "escapeXML (c # s) =
     (if (of_char c :: nat) \<ge> 240 then escapeXML (drop 3 s)
      else if (of_char c :: nat) = 239 \<and> take 2 s \<in> {[CHR 0xBF, CHR 0xBE], [CHR 0xBF, CHR 0xBF]} then escapeXML (drop 2 s)
      else escapeXMLChar c @ escapeXML s)"
  by pat_completeness auto
termination by (relation "measure length") auto

section \<open>The writer\<close>

definition XML_NAMESPACE_URI :: string where
  "XML_NAMESPACE_URI = ''http://www.w3.org/XML/1998/namespace''"

definition XMLNS_NAMESPACE_URI :: string where
  "XMLNS_NAMESPACE_URI = ''http://www.w3.org/2000/xmlns/''"

text \<open>
  The stacks of elements and of namespace counts have their top first; a namespace carries whether its declaration
  was written.
\<close>

record XMLWriter =
  xw_text :: string
  xw_level :: int
  xw_open :: bool
  xw_empty :: bool
  xw_elements :: "(string option \<times> string) list"
  xw_namespaces :: "(string \<times> bool) list"
  xw_counts :: "nat list"
  xw_prefixes :: "string \<rightharpoonup> string"
  xw_uris :: "string \<rightharpoonup> string"

type_synonym xmlOp = "XMLWriter \<Rightarrow> XMLWriter result"

definition xw_write :: "string \<Rightarrow> XMLWriter \<Rightarrow> XMLWriter" where
  "xw_write s w = w\<lparr>xw_text := xw_text w @ s\<rparr>"

definition lastCount :: "XMLWriter \<Rightarrow> nat" where
  "lastCount w = (case xw_counts w of [] \<Rightarrow> 0 | c # cs \<Rightarrow> c)"

definition xw_writeNamespace :: "string option \<Rightarrow> string \<Rightarrow> xmlOp" where
  \<open>xw_writeNamespace prefix' uri w =
     (if \<not> xw_open w then Inl XMLWriterException
      else case xw_prefixes w XMLNS_NAMESPACE_URI of
        None \<Rightarrow> Inl XMLWriterException
      | Some xmlns \<Rightarrow> Inr (xw_write ('' '' @ xmlns @ (case prefix' of Some (c # cs) \<Rightarrow> '':'' @ c # cs | _ \<Rightarrow> [])
            @ ''="'' @ escapeXML uri @ ''"'') w))\<close>

definition xw_setPrefix :: "string \<Rightarrow> string \<Rightarrow> xmlOp" where
  "xw_setPrefix prefix' uri w =
     (if xw_prefixes w uri \<noteq> None \<or> xw_uris w prefix' \<noteq> None then Inl XMLWriterException
      else let w' = w\<lparr>xw_namespaces := xw_namespaces w @ [(uri, xw_open w)],
              xw_prefixes := (xw_prefixes w)(uri \<mapsto> prefix'), xw_uris := (xw_uris w)(prefix' \<mapsto> uri)\<rparr>
           in if xw_open w then xw_writeNamespace (Some prefix') uri w' else Inr w')"

definition xw_empty0 :: XMLWriter where
  "xw_empty0 = \<lparr>xw_text = [], xw_level = 0, xw_open = False, xw_empty = False, xw_elements = [], xw_namespaces = [],
     xw_counts = [2], xw_prefixes = (\<lambda>u. None), xw_uris = (\<lambda>p. None)\<rparr>"

definition xw_new :: "XMLWriter result" where
  "xw_new = rbind (xw_setPrefix ''xml'' XML_NAMESPACE_URI xw_empty0) (xw_setPrefix ''xmlns'' XMLNS_NAMESPACE_URI)"

fun xw_declare :: "(string \<times> bool) list \<Rightarrow> xmlOp" where
  "xw_declare [] w = Inr w"
| "xw_declare ((uri, written) # ns) w =
     (if written then xw_declare ns w else rbind (xw_writeNamespace (xw_prefixes w uri) uri w) (xw_declare ns))"

definition xw_writeNamespaceAttributes :: xmlOp where
  "xw_writeNamespaceAttributes w =
     (if \<not> xw_open w then Inl XMLWriterException
      else rbind (xw_declare (drop (lastCount w) (xw_namespaces w)) w) (\<lambda>w'.
        Inr (w'\<lparr>xw_namespaces := take (lastCount w) (xw_namespaces w)
          @ map (\<lambda>(uri, b). (uri, True)) (drop (lastCount w) (xw_namespaces w))\<rparr>)))"

definition pushNamespaceStack :: "XMLWriter \<Rightarrow> XMLWriter" where
  "pushNamespaceStack w = w\<lparr>xw_counts := length (xw_namespaces w) # xw_counts w\<rparr>"

definition forgetNamespace :: "string \<times> bool \<Rightarrow> (string \<rightharpoonup> string) \<times> (string \<rightharpoonup> string) \<Rightarrow> (string \<rightharpoonup> string) \<times> (string \<rightharpoonup> string)" where
  "forgetNamespace n m = ((fst m)(fst n := None), case fst m (fst n) of None \<Rightarrow> snd m | Some p \<Rightarrow> (snd m)(p := None))"

definition popNamespaceStack :: xmlOp where
  "popNamespaceStack w = (case xw_counts w of
      previous # current # cs \<Rightarrow>
       (let m = fold forgetNamespace (rev (drop current (take previous (xw_namespaces w)))) (xw_prefixes w, xw_uris w)
        in Inr (w\<lparr>xw_namespaces := take (length (xw_namespaces w) - (previous - current)) (xw_namespaces w),
             xw_prefixes := fst m, xw_uris := snd m, xw_counts := current # cs\<rparr>))
    | _ \<Rightarrow> Inl NSRangeException)"

definition xw_writeCloseElement :: "bool \<Rightarrow> xmlOp" where
  "xw_writeCloseElement isEmpty w = rbind (xw_writeNamespaceAttributes w) (\<lambda>w'.
     Inr ((xw_write (if isEmpty then '' />'' else ''>'') (pushNamespaceStack w'))\<lparr>xw_open := False\<rparr>))"

definition closeIfOpen :: xmlOp where
  "closeIfOpen w = (if xw_open w then xw_writeCloseElement False w else Inr w)"

text \<open>A name with the prefix of its namespace.\<close>

definition qualifiedName :: "(string \<rightharpoonup> string) \<Rightarrow> string option \<Rightarrow> string \<Rightarrow> string result" where
  "qualifiedName P uri localName = (case uri of
      None \<Rightarrow> Inr localName
    | Some u \<Rightarrow> (case P u of
        None \<Rightarrow> Inl XMLWriterException
      | Some p \<Rightarrow> Inr ((if p = [] then [] else p @ '':'') @ localName)))"

definition xw_writeStartDocument :: "string option \<Rightarrow> string option \<Rightarrow> xmlOp" where
  \<open>xw_writeStartDocument encoding version w =
     (if xw_text w \<noteq> [] then Inl XMLWriterException
      else Inr (xw_write (''<?xml version="'' @ (case version of None \<Rightarrow> ''1.0'' | Some v \<Rightarrow> v) @ ''"''
        @ (case encoding of None \<Rightarrow> [] | Some e \<Rightarrow> '' encoding="'' @ e @ ''"'') @ '' ?>'') w))\<close>

definition xw_writeStartElement :: "string option \<Rightarrow> string \<Rightarrow> xmlOp" where
  "xw_writeStartElement uri localName w0 = rbind (closeIfOpen w0) (\<lambda>w.
     rbind (qualifiedName (xw_prefixes w) uri localName) (\<lambda>name.
       Inr ((xw_write (''<'' @ name) w)\<lparr>xw_elements := (uri, localName) # xw_elements w, xw_open := True, xw_empty := True,
         xw_level := xw_level w + 1\<rparr>)))"

definition xw_writeEndElementWithNamespace :: "string option \<Rightarrow> string \<Rightarrow> xmlOp" where
  "xw_writeEndElementWithNamespace uri localName w0 =
     (if xw_level w0 \<le> 0 then Inl XMLWriterException
      else rbind (closeIfOpen (w0\<lparr>xw_level := xw_level w0 - 1\<rparr>)) (\<lambda>w.
        rbind (qualifiedName (xw_prefixes w) uri localName) (\<lambda>name.
          rbind (popNamespaceStack (xw_write (''</'' @ name @ ''>'') w)) (\<lambda>w'.
            Inr (w'\<lparr>xw_elements := tl (xw_elements w'), xw_empty := True, xw_open := False\<rparr>)))))"

definition xw_writeEndElement :: xmlOp where
  "xw_writeEndElement w =
     (if xw_open w
      then rbind (xw_writeCloseElement True w) (\<lambda>w1. rbind (popNamespaceStack w1) (\<lambda>w2.
        Inr (w2\<lparr>xw_elements := tl (xw_elements w2), xw_empty := True, xw_open := False, xw_level := xw_level w2 - 1\<rparr>)))
      else case xw_elements w of
        [] \<Rightarrow> Inl XMLWriterException
      | (uri, localName) # es \<Rightarrow> xw_writeEndElementWithNamespace uri localName w)"

definition xw_writeAttribute :: "string option \<Rightarrow> string \<Rightarrow> string \<Rightarrow> xmlOp" where
  \<open>xw_writeAttribute uri localName value w =
     (if \<not> xw_open w then Inl XMLWriterException
      else rbind (qualifiedName (xw_prefixes w) uri localName) (\<lambda>name.
        Inr (xw_write ('' '' @ name @ ''="'' @ escapeXML value @ ''"'') w)))\<close>

definition xw_writeCharacters :: "string \<Rightarrow> xmlOp" where
  "xw_writeCharacters t w0 = rbind (closeIfOpen w0) (\<lambda>w. Inr ((xw_write (escapeXML t) w)\<lparr>xw_empty := False\<rparr>))"

section \<open>Convenience methods\<close>

definition andOp :: "xmlOp \<Rightarrow> xmlOp \<Rightarrow> xmlOp" where
  "andOp f g w = rbind (f w) g"

fun allOps :: "xmlOp list \<Rightarrow> xmlOp" where
  "allOps [] w = Inr w"
| "allOps (f # fs) w = rbind (f w) (allOps fs)"

definition xw_writeElementBlock :: "string option \<Rightarrow> string \<Rightarrow> xmlOp \<Rightarrow> xmlOp" where
  "xw_writeElementBlock uri elementName writerBlock =
     andOp (xw_writeStartElement uri elementName) (andOp writerBlock xw_writeEndElement)"

definition xw_writeElementIn :: "string option \<Rightarrow> string \<Rightarrow> string \<Rightarrow> xmlOp" where
  "xw_writeElementIn uri elementName contents = xw_writeElementBlock uri elementName (xw_writeCharacters contents)"

definition xw_writeElement :: "string \<Rightarrow> string \<Rightarrow> xmlOp" where
  "xw_writeElement elementName contents = xw_writeElementIn None elementName contents"

definition xw_writeAttributes :: "(string \<times> string) list \<Rightarrow> xmlOp" where
  "xw_writeAttributes attributes = allOps (map (\<lambda>(name, value). xw_writeAttribute None name value) attributes)"

section \<open>Documents as trees\<close>

text \<open>
  What a nest of blocks writes is a tree: an element has attributes, among them declarations of namespaces, and
  contents. The text of a tree is given by \<open>xmlText\<close>, for the prefixes in force and the declarations the
  outermost element has to make.
\<close>

datatype xmlAttr = Attr "string option" string string | Declare string string

datatype xmlNode = Chars string | Element "string option" string "xmlAttr list" "xmlNode list"

fun attrOp :: "xmlAttr \<Rightarrow> xmlOp" where
  "attrOp (Attr uri name value) = xw_writeAttribute uri name value"
| "attrOp (Declare p uri) = xw_setPrefix p uri"

primrec nodeOp :: "xmlNode \<Rightarrow> xmlOp" where
  "nodeOp (Chars t) = xw_writeCharacters t"
| "nodeOp (Element uri name as cs) =
     xw_writeElementBlock uri name (andOp (allOps (map attrOp as)) (allOps (map nodeOp cs)))"

definition qName :: "(string \<rightharpoonup> string) \<Rightarrow> string option \<Rightarrow> string \<Rightarrow> string" where
  "qName P uri name = (case Option.bind uri P of None \<Rightarrow> name | Some p \<Rightarrow> (if p = [] then [] else p @ '':'') @ name)"

definition declText :: "string \<times> string \<Rightarrow> string" where
  \<open>declText d = '' xmlns'' @ (if fst d = [] then [] else '':'' @ fst d) @ ''="'' @ escapeXML (snd d) @ ''"''\<close>

fun attrText :: "(string \<rightharpoonup> string) \<Rightarrow> xmlAttr list \<Rightarrow> string" where
  "attrText P [] = []"
| \<open>attrText P (Attr uri name value # as) = '' '' @ qName P uri name @ ''="'' @ escapeXML value @ ''"'' @ attrText P as\<close>
| "attrText P (Declare p uri # as) = declText (p, uri) @ attrText (P(uri \<mapsto> p)) as"

fun declarations :: "xmlAttr list \<Rightarrow> (string \<times> string) list" where
  "declarations [] = []"
| "declarations (Declare p uri # as) = (p, uri) # declarations as"
| "declarations (Attr uri name value # as) = declarations as"

definition declareAll :: "(string \<times> string) list \<Rightarrow> (string \<rightharpoonup> string) \<Rightarrow> (string \<rightharpoonup> string)" where
  "declareAll ds P = fold (\<lambda>(p, uri) P. P(uri \<mapsto> p)) ds P"

definition declareURIs :: "(string \<times> string) list \<Rightarrow> (string \<rightharpoonup> string) \<Rightarrow> (string \<rightharpoonup> string)" where
  "declareURIs ds U = fold (\<lambda>(p, uri) U. U(p \<mapsto> uri)) ds U"

primrec xmlText :: "xmlNode \<Rightarrow> (string \<rightharpoonup> string) \<Rightarrow> (string \<times> string) list \<Rightarrow> string" where
  "xmlText (Chars t) P ds = escapeXML t"
| "xmlText (Element uri name as cs) P ds =
     ''<'' @ qName P uri name @ attrText P as @ concat (map declText ds)
     @ (if cs = [] then '' />''
        else ''>'' @ concat (map (\<lambda>c. c (declareAll (declarations as) P) []) (map xmlText cs)) @ ''</'' @ qName P uri name @ ''>'')"

text \<open>A tree may be written when its namespaces are known where they are used and declared once.\<close>

definition xml_known :: "(string \<rightharpoonup> string) \<Rightarrow> string option \<Rightarrow> bool" where
  "xml_known P uri \<longleftrightarrow> (\<forall>u. uri = Some u \<longrightarrow> P u \<noteq> None)"

fun attrsWritable :: "xmlAttr list \<Rightarrow> (string \<rightharpoonup> string) \<Rightarrow> (string \<rightharpoonup> string) \<Rightarrow> bool" where
  "attrsWritable [] P U = True"
| "attrsWritable (Attr uri name value # as) P U = (xml_known P uri \<and> attrsWritable as P U)"
| "attrsWritable (Declare p uri # as) P U = (P uri = None \<and> U p = None \<and> attrsWritable as (P(uri \<mapsto> p)) (U(p \<mapsto> uri)))"

primrec writable :: "xmlNode \<Rightarrow> (string \<rightharpoonup> string) \<Rightarrow> (string \<rightharpoonup> string) \<Rightarrow> bool" where
  "writable (Chars t) P U = True"
| "writable (Element uri name as cs) P U = (xml_known P uri \<and> attrsWritable as P U
     \<and> list_all (\<lambda>c. c (declareAll (declarations as) P) (declareURIs (declarations as) U)) (map writable cs))"

section \<open>The writer writes the text of the tree\<close>

lemma rbind_assoc: "rbind (rbind r f) g = rbind r (\<lambda>x. rbind (f x) g)"
  by (cases r) simp_all

lemma rbind_Inr_right [simp]: "rbind r Inr = r"
  by (cases r) simp_all

lemma allOps_fun: "allOps [] = Inr" "allOps (f # fs) = (\<lambda>w. rbind (f w) (allOps fs))"
  by (rule ext, simp)+

lemma declareAll_simps [simp]: "declareAll [] P = P" "declareAll ((p, uri) # ds) P = declareAll ds (P(uri \<mapsto> p))"
  "declareURIs [] U = U" "declareURIs ((p, uri) # ds) U = declareURIs ds (U(p \<mapsto> uri))"
  by (simp_all add: declareAll_def declareURIs_def)

definition xml_pending :: "(string \<times> string) list \<Rightarrow> (string \<times> bool) list" where
  "xml_pending ds = map (\<lambda>(p, uri). (uri, False)) ds"

definition xml_written :: "(string \<times> string) list \<Rightarrow> (string \<times> bool) list" where
  "xml_written ds = map (\<lambda>(p, uri). (uri, True)) ds"

lemma xml_pending_simps [simp]: "length (xml_pending ds) = length ds" "length (xml_written ds) = length ds"
  "xml_pending [] = []" "xml_written [] = []" "map (\<lambda>(uri, b). (uri, True)) (xml_pending ds) = xml_written ds"
  "map (\<lambda>(uri, b). (uri, True)) (xml_written ds) = xml_written ds" "xml_written (ds @ es) = xml_written ds @ xml_written es"
  by (auto simp: xml_pending_def xml_written_def)

lemma xml_written_Cons: "xml_written ((p, uri) # ds) = (uri, True) # xml_written ds"
  by (simp add: xml_written_def)

lemma qualifiedName_known: "xml_known P uri \<Longrightarrow> qualifiedName P uri name = Inr (qName P uri name)"
  by (auto simp: xml_known_def qualifiedName_def qName_def split: option.split)

lemma namespace_text:
  assumes "xw_open w" "xw_prefixes w XMLNS_NAMESPACE_URI = Some ''xmlns''"
  shows "xw_writeNamespace (Some p) uri w = Inr (xw_write (declText (p, uri)) w)"
  using assms by (cases p) (simp_all add: xw_writeNamespace_def declText_def)

lemma attrs_run:
  assumes "xw_open w" "xw_prefixes w XMLNS_NAMESPACE_URI = Some ''xmlns''" "attrsWritable as (xw_prefixes w) (xw_uris w)"
  shows "allOps (map attrOp as) w = Inr (w\<lparr>xw_text := xw_text w @ attrText (xw_prefixes w) as,
      xw_namespaces := xw_namespaces w @ xml_written (declarations as), xw_prefixes := declareAll (declarations as) (xw_prefixes w),
      xw_uris := declareURIs (declarations as) (xw_uris w)\<rparr>)"
  using assms
proof (induction as arbitrary: w)
  case (Cons a as)
  show ?case
  proof (cases a)
    case (Attr uri name v)
    define t where "t = '' '' @ qName (xw_prefixes w) uri name @ [CHR ''='', CHR 0x22] @ escapeXML v @ [CHR 0x22]"
    from Attr Cons.prems Cons.IH [of "xw_write t w"]
    show ?thesis by (simp add: xw_writeAttribute_def qualifiedName_known xw_write_def t_def)
  next
    case (Declare p uri)
    define w' where "w' = w\<lparr>xw_namespaces := xw_namespaces w @ [(uri, True)], xw_prefixes := (xw_prefixes w)(uri \<mapsto> p),
      xw_uris := (xw_uris w)(p \<mapsto> uri)\<rparr>"
    from Declare Cons.prems have "xw_open w'" "xw_prefixes w' XMLNS_NAMESPACE_URI = Some ''xmlns''"
      by (auto simp: w'_def)
    then have "xw_setPrefix p uri w = Inr (xw_write (declText (p, uri)) w')"
      using Declare Cons.prems by (simp add: xw_setPrefix_def namespace_text w'_def Let_def)
    moreover have "xw_open (xw_write (declText (p, uri)) w')" "xw_prefixes (xw_write (declText (p, uri)) w') XMLNS_NAMESPACE_URI = Some ''xmlns''"
        "attrsWritable as (xw_prefixes (xw_write (declText (p, uri)) w')) (xw_uris (xw_write (declText (p, uri)) w'))"
      using Declare Cons.prems by (auto simp: w'_def xw_write_def)
    from Declare Cons.IH [OF this]
    have "allOps (map attrOp as) (xw_write (declText (p, uri)) w') = Inr (w\<lparr>xw_text := xw_text w @ attrText (xw_prefixes w) (a # as),
      xw_namespaces := xw_namespaces w @ xml_written (declarations (a # as)), xw_prefixes := declareAll (declarations (a # as)) (xw_prefixes w),
      xw_uris := declareURIs (declarations (a # as)) (xw_uris w)\<rparr>)"
      by (simp add: w'_def xw_write_def xml_written_Cons del: fun_upd_apply)
    ultimately show ?thesis using Declare by simp
  qed
qed simp

lemma declare_run:
  assumes "xw_open w" "xw_prefixes w XMLNS_NAMESPACE_URI = Some ''xmlns''" "\<forall>(p, uri)\<in>set ds. xw_prefixes w uri = Some p"
  shows "xw_declare (xml_pending ds @ xml_written es) w = Inr (xw_write (concat (map declText ds)) w)"
proof -
  have skip: "xw_declare (xml_written es) v = Inr v" for v
    by (induction es) (auto simp: xml_written_def)
  show ?thesis using assms
  proof (induction ds arbitrary: w)
    case Nil
    then show ?case using skip by (simp add: xw_write_def)
  next
    case (Cons d ds)
    obtain p uri where d: "d = (p, uri)" by (cases d)
    have "xw_declare (xml_pending ds @ xml_written es) (xw_write (declText d) w)
        = Inr (xw_write (concat (map declText ds)) (xw_write (declText d) w))"
      using Cons.prems by (intro Cons.IH) (auto simp: xw_write_def)
    then show ?case using Cons.prems d by (simp add: xml_pending_def namespace_text) (simp add: xw_write_def)
  qed
qed

lemma close_run:
  assumes "xw_open w" "xw_prefixes w XMLNS_NAMESPACE_URI = Some ''xmlns''" "\<forall>(p, uri)\<in>set ds. xw_prefixes w uri = Some p"
    and "xw_namespaces w = A @ xml_pending ds @ xml_written es" "xw_counts w = length A # cs"
  shows "xw_writeCloseElement b w = Inr (w\<lparr>xw_text := xw_text w @ concat (map declText ds) @ (if b then '' />'' else ''>''),
    xw_open := False, xw_namespaces := A @ xml_written (ds @ es), xw_counts := (length A + length ds + length es) # length A # cs\<rparr>)"
  using assms by (simp add: xw_writeCloseElement_def xw_writeNamespaceAttributes_def lastCount_def declare_run
      pushNamespaceStack_def) (simp add: xw_write_def)

lemma pop_run:
  assumes "xw_namespaces w = A @ X" "xw_counts w = (length A + length X) # length A # cs"
  shows "popNamespaceStack w = Inr (w\<lparr>xw_namespaces := A,
    xw_prefixes := fst (fold forgetNamespace (rev X) (xw_prefixes w, xw_uris w)),
    xw_uris := snd (fold forgetNamespace (rev X) (xw_prefixes w, xw_uris w)), xw_counts := length A # cs\<rparr>)"
  using assms by (simp add: popNamespaceStack_def Let_def)

lemma forget_declared:
  "attrsWritable as P U \<Longrightarrow>
   fold forgetNamespace (rev (xml_written (declarations as))) (declareAll (declarations as) P, declareURIs (declarations as) U) = (P, U)"
proof (induction as P U rule: attrsWritable.induct)
  case (3 p uri as P U)
  then have "P(uri := None) = P" "U(p := None) = U" by (auto simp: fun_upd_idem_iff)
  moreover from 3 have "fold forgetNamespace (rev (xml_written (declarations as)))
      (declareAll (declarations as) (P(uri \<mapsto> p)), declareURIs (declarations as) (U(p \<mapsto> uri))) = (P(uri \<mapsto> p), U(p \<mapsto> uri))"
    by (simp del: fun_upd_apply)
  ultimately show ?case by (simp add: xml_written_Cons del: fun_upd_apply) (simp add: forgetNamespace_def)
qed simp_all

lemma declareAll_extends: "attrsWritable as P U \<Longrightarrow> P u = Some p \<Longrightarrow> declareAll (declarations as) P u = Some p"
proof (induction as P U rule: attrsWritable.induct)
  case (3 p' uri as P U)
  then have "(P(uri \<mapsto> p')) u = Some p" by auto
  with 3 show ?case by (simp del: fun_upd_apply)
qed simp_all

lemma qName_extends:
  assumes "attrsWritable as P U" "xml_known P uri"
  shows "qName (declareAll (declarations as) P) uri name = qName P uri name" "xml_known (declareAll (declarations as) P) uri"
  using declareAll_extends [OF assms(1)] assms(2) by (auto simp: xml_known_def qName_def bind_eq_Some_conv split: option.split)

text \<open>A writer between two tags: the namespaces \<open>A\<close> are in scope, \<open>ds\<close> wait for the next start tag.\<close>

definition xml_ready :: "(string \<times> bool) list \<Rightarrow> (string \<times> string) list \<Rightarrow> XMLWriter \<Rightarrow> bool" where
  "xml_ready A ds w \<longleftrightarrow> \<not> xw_open w \<and> xw_namespaces w = A @ xml_pending ds \<and> (\<exists>cs. xw_counts w = length A # cs)
     \<and> 0 \<le> xw_level w \<and> xw_prefixes w XMLNS_NAMESPACE_URI = Some ''xmlns'' \<and> (\<forall>(p, uri)\<in>set ds. xw_prefixes w uri = Some p)"

definition undeclared :: "(string \<times> string) list \<Rightarrow> XMLWriter \<Rightarrow> (string \<rightharpoonup> string) \<times> (string \<rightharpoonup> string)" where
  "undeclared ds w = fold forgetNamespace (rev (xml_written ds)) (xw_prefixes w, xw_uris w)"

definition xml_finished :: "(string \<times> bool) list \<Rightarrow> (string \<times> string) list \<Rightarrow> string \<Rightarrow> bool \<Rightarrow> XMLWriter \<Rightarrow> XMLWriter" where
  "xml_finished A ds t e w = w\<lparr>xw_text := xw_text w @ t, xw_empty := e, xw_namespaces := A,
     xw_prefixes := fst (undeclared ds w), xw_uris := snd (undeclared ds w)\<rparr>"

definition writesTree :: "xmlNode \<Rightarrow> bool" where
  "writesTree node \<longleftrightarrow> (\<forall>A w. xml_ready A [] w \<longrightarrow> writable node (xw_prefixes w) (xw_uris w) \<longrightarrow>
     (\<exists>e. nodeOp node w = Inr (w\<lparr>xw_text := xw_text w @ xmlText node (xw_prefixes w) [], xw_empty := e\<rparr>)))"

lemma xml_ready_text [simp]: "xml_ready A ds (w\<lparr>xw_text := t, xw_empty := e\<rparr>) \<longleftrightarrow> xml_ready A ds w"
  by (simp add: xml_ready_def)

lemma children_run:
  assumes "\<forall>c\<in>set cs. writesTree c" "xml_ready A [] w" "\<forall>c\<in>set cs. writable c (xw_prefixes w) (xw_uris w)"
  shows "\<exists>e. allOps (map nodeOp cs) w =
    Inr (w\<lparr>xw_text := xw_text w @ concat (map (\<lambda>c. xmlText c (xw_prefixes w) []) cs), xw_empty := e\<rparr>)"
  using assms
proof (induction cs arbitrary: w)
  case (Cons c cs)
  then obtain e where e: "nodeOp c w = Inr (w\<lparr>xw_text := xw_text w @ xmlText c (xw_prefixes w) [], xw_empty := e\<rparr>)"
    unfolding writesTree_def by (meson list.set_intros(1))
  from Cons.IH [of "w\<lparr>xw_text := xw_text w @ xmlText c (xw_prefixes w) [], xw_empty := e\<rparr>"] Cons.prems
  obtain e' where "allOps (map nodeOp cs) (w\<lparr>xw_text := xw_text w @ xmlText c (xw_prefixes w) [], xw_empty := e\<rparr>)
      = Inr (w\<lparr>xw_text := (xw_text w @ xmlText c (xw_prefixes w) []) @ concat (map (\<lambda>c. xmlText c (xw_prefixes w) []) cs), xw_empty := e'\<rparr>)"
    by auto
  with e show ?case by auto
next
  case Nil
  show ?case by (rule exI [of _ "xw_empty w"]) simp
qed

lemma closed_after: "xw_writeCloseElement b w = Inr w' \<Longrightarrow> \<not> xw_open w'"
  by (auto simp: xw_writeCloseElement_def rbind_Inr_iff)

lemma nodeOp_when_open:
  assumes "xw_open w"
  shows "nodeOp c w = rbind (xw_writeCloseElement False w) (nodeOp c)"
proof -
  have "closeIfOpen w = rbind (xw_writeCloseElement False w) closeIfOpen"
    using assms closed_after [of False w] by (cases "xw_writeCloseElement False w") (auto simp: closeIfOpen_def)
  then show ?thesis
    by (cases c; cases "xw_writeCloseElement False w")
      (simp_all add: xw_writeCharacters_def xw_writeElementBlock_def andOp_def xw_writeStartElement_def closeIfOpen_def)
qed

lemma element_run:
  assumes "\<forall>c\<in>set cs. writesTree c" "xml_ready A ds w" "writable (Element uri name as cs) (xw_prefixes w) (xw_uris w)"
  shows "nodeOp (Element uri name as cs) w = Inr (xml_finished A ds (xmlText (Element uri name as cs) (xw_prefixes w) ds) True w)"
proof -
  obtain cnt where w: "\<not> xw_open w" "xw_namespaces w = A @ xml_pending ds" "xw_counts w = length A # cnt" "0 \<le> xw_level w"
    "xw_prefixes w XMLNS_NAMESPACE_URI = Some ''xmlns''" "\<forall>(p, uri)\<in>set ds. xw_prefixes w uri = Some p"
    using assms(2) by (auto simp: xml_ready_def)
  have ok: "xml_known (xw_prefixes w) uri" "attrsWritable as (xw_prefixes w) (xw_uris w)" using assms(3) by simp_all
  define P' where "P' = declareAll (declarations as) (xw_prefixes w)"
  define U' where "U' = declareURIs (declarations as) (xw_uris w)"
  define q where "q = qName (xw_prefixes w) uri name"
  define w2 where "w2 = w\<lparr>xw_text := xw_text w @ ''<'' @ q @ attrText (xw_prefixes w) as, xw_elements := (uri, name) # xw_elements w,
    xw_open := True, xw_empty := True, xw_level := xw_level w + 1,
    xw_namespaces := A @ xml_pending ds @ xml_written (declarations as), xw_prefixes := P', xw_uris := U'\<rparr>"
  have "xw_writeStartElement uri name w = Inr (w\<lparr>xw_text := xw_text w @ ''<'' @ q, xw_elements := (uri, name) # xw_elements w,
    xw_open := True, xw_empty := True, xw_level := xw_level w + 1\<rparr>)"
    using w(1) ok(1) by (simp add: xw_writeStartElement_def closeIfOpen_def qualifiedName_known q_def xw_write_def)
  then have start: "rbind (xw_writeStartElement uri name w) (allOps (map attrOp as)) = Inr w2"
    using attrs_run [of "w\<lparr>xw_text := xw_text w @ ''<'' @ q, xw_elements := (uri, name) # xw_elements w,
      xw_open := True, xw_empty := True, xw_level := xw_level w + 1\<rparr>" as] w ok(2) by (simp add: w2_def P'_def U'_def)
  then have whole: "nodeOp (Element uri name as cs) w = rbind (allOps (map nodeOp cs) w2) xw_writeEndElement"
    by (cases "xw_writeStartElement uri name w") (auto simp: xw_writeElementBlock_def andOp_def)
  have open2: "xw_open w2" by (simp add: w2_def)
  have P': "P' XMLNS_NAMESPACE_URI = Some ''xmlns''" "\<forall>(p, uri)\<in>set ds. P' uri = Some p" "xml_known P' uri" "qName P' uri name = q"
    using w(5,6) declareAll_extends [OF ok(2)] qName_extends [OF ok(2,1)] by (auto simp: P'_def q_def)
  define w3 where "w3 b = w2\<lparr>xw_text := xw_text w2 @ concat (map declText ds) @ (if b then '' />'' else ''>''), xw_open := False,
    xw_namespaces := A @ xml_written (ds @ declarations as),
    xw_counts := (length A + length ds + length (declarations as)) # length A # cnt\<rparr>" for b
  have close: "xw_writeCloseElement b w2 = Inr (w3 b)" for b
    using close_run [of w2 ds A "declarations as" cnt b] P' w(3) by (simp add: w2_def w3_def)
  have restored: "fold forgetNamespace (rev (xml_written (ds @ declarations as))) (P', U') = undeclared ds w"
    using forget_declared [OF ok(2)] by (simp add: P'_def U'_def undeclared_def)
  show ?thesis
  proof (cases "cs = []")
    case True
    have "popNamespaceStack (w3 True) = Inr ((w3 True)\<lparr>xw_namespaces := A, xw_prefixes := fst (undeclared ds w),
        xw_uris := snd (undeclared ds w), xw_counts := length A # cnt\<rparr>)"
      using pop_run [of "w3 True" A "xml_written (ds @ declarations as)" cnt] restored by (simp add: w3_def w2_def)
    then show ?thesis
      using close [of True] True open2 unfolding whole
      by (simp add: xw_writeEndElement_def xml_finished_def)
        (rule XMLWriter.equality; simp add: w2_def w3_def q_def w)
  next
    case False
    have wr: "\<forall>c\<in>set cs. writable c P' U'" using assms(3) by (simp add: list_all_iff P'_def U'_def)
    have "xml_ready (A @ xml_written (ds @ declarations as)) [] (w3 False)"
      using w(4) P'(1) by (simp add: xml_ready_def w3_def w2_def)
    from children_run [OF assms(1) this] wr obtain e where
      "allOps (map nodeOp cs) (w3 False) = Inr ((w3 False)\<lparr>xw_text := xw_text (w3 False)
         @ concat (map (\<lambda>c. xmlText c P' []) cs), xw_empty := e\<rparr>)"
      by (auto simp: w3_def w2_def)
    moreover have "allOps (map nodeOp cs) w2 = rbind (xw_writeCloseElement False w2) (allOps (map nodeOp cs))"
      using False nodeOp_when_open [of w2] close [of False] by (cases cs) (simp_all add: w2_def)
    ultimately have kids: "allOps (map nodeOp cs) w2 = Inr ((w3 False)\<lparr>xw_text := xw_text (w3 False)
         @ concat (map (\<lambda>c. xmlText c P' []) cs), xw_empty := e\<rparr>)"
      using close [of False] by simp
    define w4 where "w4 = (w3 False)\<lparr>xw_text := xw_text (w3 False) @ concat (map (\<lambda>c. xmlText c P' []) cs) @ ''</'' @ q @ ''>'',
      xw_empty := e, xw_level := xw_level w\<rparr>"
    have "popNamespaceStack w4 = Inr (w4\<lparr>xw_namespaces := A, xw_prefixes := fst (undeclared ds w),
        xw_uris := snd (undeclared ds w), xw_counts := length A # cnt\<rparr>)"
      using pop_run [of w4 A "xml_written (ds @ declarations as)" cnt] restored by (simp add: w4_def w3_def w2_def)
    moreover have "\<not> xw_open ((w3 False)\<lparr>xw_text := t, xw_empty := e\<rparr>)" "xw_level (w3 False) = xw_level w + 1"
      "xw_elements (w3 False) = (uri, name) # xw_elements w" "xw_prefixes (w3 False) = P'" for t
      by (simp_all add: w3_def w2_def)
    moreover have "xw_write (''</'' @ q @ ''>'') ((w3 False)\<lparr>xw_text := xw_text (w3 False) @ concat (map (\<lambda>c. xmlText c P' []) cs),
        xw_empty := e, xw_level := xw_level w\<rparr>) = w4"
      by (simp add: xw_write_def w4_def)
    ultimately show ?thesis
      using kids False w(4) qualifiedName_known [OF P'(3), of name] P'(4) unfolding whole
      by (simp add: xw_writeEndElement_def xw_writeEndElementWithNamespace_def closeIfOpen_def xml_finished_def)
        (rule XMLWriter.equality; simp add: w4_def w3_def w2_def w q_def P'_def comp_def)
  qed
qed

lemma every_tree_written: "writesTree node"
proof (induction node)
  case (Chars t)
  then show ?case
    by (auto simp: writesTree_def xml_ready_def xw_writeCharacters_def closeIfOpen_def xw_write_def)
next
  case (Element uri name as cs)
  show ?case unfolding writesTree_def
  proof (intro allI impI)
    fix A w
    assume a: "xml_ready A [] w" "writable (Element uri name as cs) (xw_prefixes w) (xw_uris w)"
    then have "xml_finished A [] t True w = w\<lparr>xw_text := xw_text w @ t, xw_empty := True\<rparr>" for t
      by (simp add: xml_finished_def undeclared_def xml_ready_def)
    with element_run [OF _ a] Element.IH
    show "\<exists>e. nodeOp (Element uri name as cs) w
        = Inr (w\<lparr>xw_text := xw_text w @ xmlText (Element uri name as cs) (xw_prefixes w) [], xw_empty := e\<rparr>)"
      by auto
  qed
qed

section \<open>Documents\<close>

text \<open>The names every writer knows, and the prefixes a document sets before its root element.\<close>

definition reservedPrefixes :: "string \<rightharpoonup> string" where
  "reservedPrefixes = [XML_NAMESPACE_URI \<mapsto> ''xml'', XMLNS_NAMESPACE_URI \<mapsto> ''xmlns'']"

definition reservedURIs :: "string \<rightharpoonup> string" where
  "reservedURIs = [''xml'' \<mapsto> XML_NAMESPACE_URI, ''xmlns'' \<mapsto> XMLNS_NAMESPACE_URI]"

definition setPrefixes :: "(string \<times> string) list \<Rightarrow> xmlOp" where
  "setPrefixes ds = allOps (map (\<lambda>(p, uri). xw_setPrefix p uri) ds)"

definition declares :: "(string \<times> string) list \<Rightarrow> xmlAttr list" where
  "declares ds = map (\<lambda>(p, uri). Declare p uri) ds"

lemma declares_simps [simp]: "declarations (declares ds) = ds" "declares [] = []"
  "declares ((p, uri) # ds) = Declare p uri # declares ds"
  by (induction ds) (auto simp: declares_def)

definition newWriter :: XMLWriter where
  "newWriter = xw_empty0\<lparr>xw_namespaces := [(XML_NAMESPACE_URI, False), (XMLNS_NAMESPACE_URI, False)],
     xw_prefixes := reservedPrefixes, xw_uris := reservedURIs\<rparr>"

lemma xw_new_eq: "xw_new = Inr newWriter"
  by (simp add: xw_new_def xw_setPrefix_def xw_empty0_def newWriter_def reservedPrefixes_def reservedURIs_def
      XML_NAMESPACE_URI_def XMLNS_NAMESPACE_URI_def fun_upd_twist)

lemma setPrefixes_run:
  assumes "\<not> xw_open w" "attrsWritable (declares ds) (xw_prefixes w) (xw_uris w)"
  shows "setPrefixes ds w = Inr (w\<lparr>xw_namespaces := xw_namespaces w @ xml_pending ds,
    xw_prefixes := declareAll ds (xw_prefixes w), xw_uris := declareURIs ds (xw_uris w)\<rparr>)"
  using assms
proof (induction ds arbitrary: w)
  case (Cons d ds)
  obtain p uri where d: "d = (p, uri)" by (cases d)
  define w' where "w' = w\<lparr>xw_namespaces := xw_namespaces w @ [(uri, False)], xw_prefixes := (xw_prefixes w)(uri \<mapsto> p),
    xw_uris := (xw_uris w)(p \<mapsto> uri)\<rparr>"
  have "\<not> xw_open w'" "attrsWritable (declares ds) (xw_prefixes w') (xw_uris w')"
    using Cons.prems d by (simp_all add: w'_def del: fun_upd_apply)
  from Cons.IH [OF this] have "setPrefixes ds w' = Inr (w'\<lparr>xw_namespaces := xw_namespaces w' @ xml_pending ds,
    xw_prefixes := declareAll ds (xw_prefixes w'), xw_uris := declareURIs ds (xw_uris w')\<rparr>)" .
  moreover have "xw_setPrefix p uri w = Inr w'"
    using Cons.prems d by (simp add: xw_setPrefix_def w'_def Let_def)
  ultimately show ?case by (simp add: setPrefixes_def d xml_pending_def) (simp add: w'_def)
qed (simp add: setPrefixes_def)

lemma declareAll_declared: "attrsWritable (declares ds) P U \<Longrightarrow> (p, uri) \<in> set ds \<Longrightarrow> declareAll ds P uri = Some p"
proof (induction ds arbitrary: P U)
  case (Cons d ds)
  obtain q u where d: "d = (q, u)" by (cases d)
  have ok: "attrsWritable (declares ds) (P(u \<mapsto> q)) (U(q \<mapsto> u))" using Cons.prems d by simp
  show ?case
  proof (cases "(p, uri) \<in> set ds")
    case True
    then show ?thesis using Cons.IH [OF ok] d by (simp del: fun_upd_apply)
  next
    case False
    then have "uri = u" "p = q" using Cons.prems d by auto
    then show ?thesis using declareAll_extends [OF ok, of u q] d by simp
  qed
qed simp

lemma document_run:
  assumes "attrsWritable (declares ds) reservedPrefixes reservedURIs"
    and "writable (Element uri name as cs) (declareAll ds reservedPrefixes) (declareURIs ds reservedURIs)"
  shows "rbind xw_new (\<lambda>w. rbind (setPrefixes ds (xw_write header w)) (nodeOp (Element uri name as cs)))
    = Inr (newWriter\<lparr>xw_text := header @ xmlText (Element uri name as cs) (declareAll ds reservedPrefixes) ds, xw_empty := True\<rparr>)"
proof -
  define w0 where "w0 = xw_write header newWriter"
  have w0: "\<not> xw_open w0" "xw_prefixes w0 = reservedPrefixes" "xw_uris w0 = reservedURIs" "xw_text w0 = header"
    "xw_namespaces w0 = [(XML_NAMESPACE_URI, False), (XMLNS_NAMESPACE_URI, False)]" "xw_counts w0 = [2]" "xw_level w0 = 0"
    by (simp_all add: w0_def newWriter_def xw_empty0_def xw_write_def)
  define w1 where "w1 = w0\<lparr>xw_namespaces := xw_namespaces w0 @ xml_pending ds, xw_prefixes := declareAll ds reservedPrefixes,
    xw_uris := declareURIs ds reservedURIs\<rparr>"
  have set1: "setPrefixes ds w0 = Inr w1"
    using setPrefixes_run [of w0 ds] w0 assms(1) by (simp add: w1_def)
  have "reservedPrefixes XMLNS_NAMESPACE_URI = Some ''xmlns''" by (simp add: reservedPrefixes_def)
  then have "xml_ready (xw_namespaces w0) ds w1"
    using w0 declareAll_extends [OF assms(1)] declareAll_declared [OF assms(1)]
    by (auto simp: xml_ready_def w1_def)
  from element_run [OF _ this, of cs uri name as] assms(2) every_tree_written
  have run: "nodeOp (Element uri name as cs) w1
      = Inr (xml_finished (xw_namespaces w0) ds (xmlText (Element uri name as cs) (declareAll ds reservedPrefixes) ds) True w1)"
    by (simp add: w1_def)
  have "undeclared ds w1 = (reservedPrefixes, reservedURIs)"
    using forget_declared [OF assms(1)] by (simp add: undeclared_def w1_def)
  with run set1 show ?thesis
    by (simp add: xw_new_eq del: xmlText.simps flip: w0_def)
      (rule XMLWriter.equality; simp add: xml_finished_def w1_def newWriter_def xw_empty0_def w0_def xw_write_def del: xmlText.simps)
qed


text \<open>
  C11: A document that sets prefixes and then writes a tree never raises and has the text of the tree, with the prefixes
  declared in the start tag of the root; afterwards the writer knows the namespaces it knew before, for every
  text that came before the root.
\<close>
theorem writer_writes_tree:
  assumes "attrsWritable (declares ds) reservedPrefixes reservedURIs"
    and "writable (Element uri name as cs) (declareAll ds reservedPrefixes) (declareURIs ds reservedURIs)"
  shows "\<exists>w. rbind xw_new (\<lambda>w. rbind (setPrefixes ds (xw_write header w)) (nodeOp (Element uri name as cs))) = Inr w
    \<and> xw_text w = header @ xmlText (Element uri name as cs) (declareAll ds reservedPrefixes) ds
    \<and> xw_namespaces w = [(XML_NAMESPACE_URI, False), (XMLNS_NAMESPACE_URI, False)]
    \<and> xw_prefixes w = reservedPrefixes \<and> xw_uris w = reservedURIs"
  using document_run [OF assms] by (simp add: newWriter_def xw_empty0_def)

theorem writer_writes_tree_witness:
  \<open>\<exists>w. rbind xw_new (\<lambda>w. rbind (setPrefixes [(''s'', ''urn:s'')] (xw_write [] w))
      (nodeOp (Element (Some ''urn:s'') ''a'' [Attr None ''b'' ''1''] [Element None ''c'' [] [], Chars ''x<y''])) ) = Inr w
    \<and> xw_text w = ''<s:a b="1" xmlns:s="urn:s"><c />x&lt;y</s:a>''\<close>
proof -
  have "attrsWritable (declares [(''s'', ''urn:s'')]) reservedPrefixes reservedURIs"
    by (simp add: reservedPrefixes_def reservedURIs_def XML_NAMESPACE_URI_def XMLNS_NAMESPACE_URI_def)
  moreover have "writable (Element (Some ''urn:s'') ''a'' [Attr None ''b'' ''1''] [Element None ''c'' [] [], Chars ''x<y''])
      (declareAll [(''s'', ''urn:s'')] reservedPrefixes) (declareURIs [(''s'', ''urn:s'')] reservedURIs)"
    by (simp add: xml_known_def)
  moreover have \<open>xmlText (Element (Some ''urn:s'') ''a'' [Attr None ''b'' ''1''] [Element None ''c'' [] [], Chars ''x<y''])
      (declareAll [(''s'', ''urn:s'')] reservedPrefixes) [(''s'', ''urn:s'')] = ''<s:a b="1" xmlns:s="urn:s"><c />x&lt;y</s:a>''\<close>
    by (simp add: qName_def declText_def escapeXMLChar_def)
  ultimately show ?thesis
    using writer_writes_tree [of "[(''s'', ''urn:s'')]" "Some ''urn:s''" "''a''" "[Attr None ''b'' ''1'']"
      "[Element None ''c'' [] [], Chars ''x<y'']" "[]"] by auto
qed

lemma startDocument_run: \<open>xw_text w = [] \<Longrightarrow>
    xw_writeStartDocument (Some e) (Some v) w = Inr (xw_write (''<?xml version="'' @ v @ ''" encoding="'' @ e @ ''" ?>'') w)\<close>
  by (simp add: xw_writeStartDocument_def)

text \<open>A text with a character outside the basic plane loses it: its four bytes, two surrogates to the writer, are skipped.\<close>
lemma escapeXML_drops_astral: "240 \<le> (of_char c :: nat) \<Longrightarrow> escapeXML (c # x # y # z # s) = escapeXML s"
  by simp

text \<open>The convenience methods are the trees with one contents.\<close>
lemma writeElement_tree: "xw_writeElementIn uri name contents = nodeOp (Element uri name [] [Chars contents])"
  by (intro ext) (auto simp: xw_writeElementIn_def xw_writeElementBlock_def andOp_def rbind_def split: sum.split)

end
