(* ===== verification/Netcast.thy ===== *)
theory Netcast
  imports Config Dispatch Util WebOSRequests HttpTasks XmlWriter
begin

text \<open>
  \<open>src/Services/NetcastTVService.m\<close>: the service for Netcast TVs, XML over HTTP with a pairing code. Commands and
  what their completion blocks do are values: an operation answers the commands it sends, the blocks of the
  application it calls and the messages to its delegate; the answer of the TV to a command is a step of its own.
  Apps and channels come in chains of commands, keys hide the pointer first, pointer movements are collected while
  one of them is being sent.
\<close>

section \<open>Key codes and addresses\<close>

datatype NetcastTVKeyCode =
    NcKeyPower | NcKeyNumber0 | NcKeyNumber1 | NcKeyNumber2 | NcKeyNumber3 | NcKeyNumber4 | NcKeyNumber5
  | NcKeyNumber6 | NcKeyNumber7 | NcKeyNumber8 | NcKeyNumber9 | NcKeyUp | NcKeyDown | NcKeyLeft | NcKeyRight | NcKeyOK | NcKeyHome | NcKeyMenu
  | NcKeyBack | NcKeyVolumeUp | NcKeyVolumeDown | NcKeyMute | NcKeyChannelUp | NcKeyChannelDown | NcKeyBlue
  | NcKeyGreen | NcKeyRed | NcKeyYellow | NcKeyPlay | NcKeyPause | NcKeyStop | NcKeyFastForward | NcKeyRewind
  | NcKeySkipForward | NcKeySkipBackward | NcKeyRecord | NcKeyRecordingList | NcKeyRepeat | NcKeyLiveTV | NcKeyEPG
  | NcKeyCurrentProgramInfo | NcKeyAspectRatio | NcKeyExternalInput | NcKeyPIP | NcKeySubtitle | NcKeyProgramList
  | NcKeyTeleText | NcKeyMark | NcKey3DVideo | NcKey3DLR | NcKeyDash | NcKeyPreviousChannel | NcKeyFavoriteChannel
  | NcKeyQuickMenu | NcKeyTextOption | NcKeyAudioDescription | NcKeyNetcast | NcKeyEnergySaving | NcKeyAVMode
  | NcKeySIMPLINK | NcKeyExit | NcKeyReservationProgramsList | NcKeyPIPChannelUp | NcKeyPIPChannelDown
  | NcKeyVideoSwitch | NcKeyMyApps

fun keyCodeValue :: "NetcastTVKeyCode \<Rightarrow> nat" where
  "keyCodeValue NcKeyPower = 1" | "keyCodeValue NcKeyNumber0 = 2" | "keyCodeValue NcKeyNumber1 = 3"
| "keyCodeValue NcKeyNumber2 = 4" | "keyCodeValue NcKeyNumber3 = 5" | "keyCodeValue NcKeyNumber4 = 6"
| "keyCodeValue NcKeyNumber5 = 7" | "keyCodeValue NcKeyNumber6 = 8" | "keyCodeValue NcKeyNumber7 = 9"
| "keyCodeValue NcKeyNumber8 = 10" | "keyCodeValue NcKeyNumber9 = 11"
| "keyCodeValue NcKeyUp = 12" | "keyCodeValue NcKeyDown = 13" | "keyCodeValue NcKeyLeft = 14"
| "keyCodeValue NcKeyRight = 15" | "keyCodeValue NcKeyOK = 20" | "keyCodeValue NcKeyHome = 21"
| "keyCodeValue NcKeyMenu = 22" | "keyCodeValue NcKeyBack = 23" | "keyCodeValue NcKeyVolumeUp = 24"
| "keyCodeValue NcKeyVolumeDown = 25" | "keyCodeValue NcKeyMute = 26" | "keyCodeValue NcKeyChannelUp = 27"
| "keyCodeValue NcKeyChannelDown = 28" | "keyCodeValue NcKeyBlue = 29" | "keyCodeValue NcKeyGreen = 30"
| "keyCodeValue NcKeyRed = 31" | "keyCodeValue NcKeyYellow = 32" | "keyCodeValue NcKeyPlay = 33"
| "keyCodeValue NcKeyPause = 34" | "keyCodeValue NcKeyStop = 35" | "keyCodeValue NcKeyFastForward = 36"
| "keyCodeValue NcKeyRewind = 37" | "keyCodeValue NcKeySkipForward = 38" | "keyCodeValue NcKeySkipBackward = 39"
| "keyCodeValue NcKeyRecord = 40" | "keyCodeValue NcKeyRecordingList = 41" | "keyCodeValue NcKeyRepeat = 42"
| "keyCodeValue NcKeyLiveTV = 43" | "keyCodeValue NcKeyEPG = 44" | "keyCodeValue NcKeyCurrentProgramInfo = 45"
| "keyCodeValue NcKeyAspectRatio = 46" | "keyCodeValue NcKeyExternalInput = 47" | "keyCodeValue NcKeyPIP = 48"
| "keyCodeValue NcKeySubtitle = 49" | "keyCodeValue NcKeyProgramList = 50" | "keyCodeValue NcKeyTeleText = 51"
| "keyCodeValue NcKeyMark = 52" | "keyCodeValue NcKey3DVideo = 400" | "keyCodeValue NcKey3DLR = 401"
| "keyCodeValue NcKeyDash = 402" | "keyCodeValue NcKeyPreviousChannel = 403"
| "keyCodeValue NcKeyFavoriteChannel = 404" | "keyCodeValue NcKeyQuickMenu = 405" | "keyCodeValue NcKeyTextOption = 406"
| "keyCodeValue NcKeyAudioDescription = 407" | "keyCodeValue NcKeyNetcast = 408" | "keyCodeValue NcKeyEnergySaving = 409"
| "keyCodeValue NcKeyAVMode = 410" | "keyCodeValue NcKeySIMPLINK = 411" | "keyCodeValue NcKeyExit = 412"
| "keyCodeValue NcKeyReservationProgramsList = 413" | "keyCodeValue NcKeyPIPChannelUp = 414"
| "keyCodeValue NcKeyPIPChannelDown = 415" | "keyCodeValue NcKeyVideoSwitch = 416" | "keyCodeValue NcKeyMyApps = 417"

datatype LGE_REQUEST_TYPE =
    LGE_EVENT_REQUEST | LGE_COMMAND_REQUEST | LGE_AUTH_REQUEST | LGE_DATA_GET_REQUEST | LGE_STREAMING_REQUEST
  | LGE_QUERY_REQUEST | LGE_PAIRING_REQUEST | LGE_APPTOAPP_DATA_REQUEST

fun lgeUDAPRequestURI :: "LGE_REQUEST_TYPE \<Rightarrow> string" where
  "lgeUDAPRequestURI LGE_EVENT_REQUEST = ''/udap/api/event''"
| "lgeUDAPRequestURI LGE_COMMAND_REQUEST = ''/udap/api/command''"
| "lgeUDAPRequestURI LGE_AUTH_REQUEST = ''/udap/api/auth''"
| "lgeUDAPRequestURI LGE_DATA_GET_REQUEST = ''/udap/api/data''"
| "lgeUDAPRequestURI LGE_STREAMING_REQUEST = ''/''"
| "lgeUDAPRequestURI LGE_QUERY_REQUEST = ''/udap/api/query''"
| "lgeUDAPRequestURI LGE_PAIRING_REQUEST = ''/udap/api/pairing''"
| "lgeUDAPRequestURI LGE_APPTOAPP_DATA_REQUEST = ''/udap/api/apptoapp/data''"

definition kSmartShareName :: string where
  "kSmartShareName = ''SmartShare'' @ [char_of (226 :: nat), char_of (132 :: nat), char_of (162 :: nat)]"

section \<open>Payloads\<close>

definition xmlElement :: "string \<Rightarrow> string \<Rightarrow> string" where
  "xmlElement name contents = ''<'' @ name @ ''>'' @ contents @ ''</'' @ name @ ''>''"

definition udapEnvelope :: "string \<Rightarrow> string \<Rightarrow> string" where
  \<open>udapEnvelope type contents =
     ''<envelope><api type="'' @ type @ ''">'' @ contents @ ''</api></envelope>''\<close>

section \<open>State\<close>

text \<open>
  The environment: the pairing level and the background setting, the services of the devices the discovery manager
  knows (a reference and a class each), what the parser makes of the description of the DLNA service, and what
  \<open>%@\<close> prints for an object that is not a string.
\<close>

record netcastEnv =
  ne_pairingOn :: bool
  ne_disconnectOnBackground :: bool
  ne_services :: "string \<Rightarrow> (nat \<times> string) list option"
  ne_parseXML :: "string option \<Rightarrow> jdict option"
  ne_describe :: "json \<Rightarrow> string"
  ne_self :: sessionService

definition formatJson :: "netcastEnv \<Rightarrow> json option \<Rightarrow> string" where
  "formatJson ne j = (case j of None \<Rightarrow> ''(null)'' | Some (JStr s) \<Rightarrow> s | Some v \<Rightarrow> ne_describe ne v)"

text \<open>What a subscription does with an event; the blocks are those of the application.\<close>

datatype ncEventBlock =
    ChannelChangedBlock "nat option"
  | Changed3DBlock "nat option"
  | KeyboardVisibleBlock "nat option"

record ncSubscription =
  nsu_ref :: nat
  nsu_success :: "ncEventBlock list"
  nsu_failure :: "nat list"
  nsu_isSubscribed :: bool

record NetcastTVService =
  nc_base :: DeviceService
  nc_config :: "ServiceConfig option"
  nc_description :: "ServiceDescription option"
  nc_commandURL :: "string option"
  nc_dlna :: "nat option"
  nc_dial :: "nat option"
  nc_mouseVisible :: bool
  nc_mouseDistance :: "real \<times> real"
  nc_mouseIsMoving :: bool
  nc_keyboardString :: "string option"
  nc_subscribed :: "ncSubscription nsdict option"
  nc_nextSubscription :: nat
  nc_reconnectOnWake :: bool
  nc_observers :: nat
  nc_server :: bool
  nc_reachability :: "Reachability option"

section \<open>Commands and their blocks\<close>

text \<open>What follows a key: the block of the caller, or first the end of the text input.\<close>

datatype keyUse = KeyPressed | KeyEntersText

text \<open>What a list of apps is for: the caller, or an app that is looked for by name.\<close>

datatype findUse = LaunchFound | LaunchWithContent "string option" | CloseFound

datatype appUse = ListApps | FindApp "string option" findUse

text \<open>The completion block of a command.\<close>

datatype ncDone =
    DoneNothing
  | DoneRaw
  | DonePairingShown | DonePaired "string option" | DoneStopQueue
  | DonePremiumCount appUse | DoneMyCount appUse int | DonePremiumList appUse int | DoneMyList appUse "AppInfo list"
  | DoneLaunched AppInfo | DoneStoreLaunched | DoneAppState
  | DoneChannel | DoneChannelList | Done3D | DoneSet3D bool
  | DoneVolume | DoneMute | DoneSetMute bool
  | DoneMouseShown | DoneMouseHidden | DoneHiddenForKey nat keyUse
  | DoneKeyEnters | DoneMoved | DoneInputList

text \<open>Its error block: the failure block of the caller, or what the service does itself.\<close>

datatype ncFailed = FailCaller | FailPairingRequest | FailPairing | FailMove

record ncCommand =
  nco_method :: string
  nco_target :: "string option"
  nco_payload :: "string option"
  nco_done :: ncDone
  nco_failed :: ncFailed
  nco_success :: "nat option"
  nco_failure :: "nat option"

text \<open>What the success block of a message to the DLNA service does before it calls the block of the caller.\<close>

datatype ncForward = ForwardPlain | ForwardDisplayed | ForwardPlayed | ForwardDisplayedURL | ForwardPlayedURL

datatype ncOutput =
    NcCommand ncCommand
  | NcReply nat capReply
  | NcError nat "NSError option"
  | NcNilBlockCalled
  | NcForward nat capMessage ncForward "nat option" "nat option"
  | NcTellOnMain svcEvent
  | NcTell svcEvent
  | NcShowPairingDialog
  | NcCancelQueue

type_synonym ncOp = "NetcastTVService \<Rightarrow> (NetcastTVService \<times> ncOutput list) result"

definition ncSucceed :: "nat option \<Rightarrow> capReply \<Rightarrow> ncOutput list" where
  "ncSucceed b r = (case b of None \<Rightarrow> [] | Some n \<Rightarrow> [NcReply n r])"

definition ncFail :: "nat option \<Rightarrow> NSError option \<Rightarrow> ncOutput list" where
  "ncFail b e = (case b of None \<Rightarrow> [] | Some n \<Rightarrow> [NcError n e])"

definition ncNotSupported :: "nat option \<Rightarrow> ncOp" where
  "ncNotSupported failure s = Inr (s, ncFail failure (Some (generateErrorWithCode ConnectStatusCodeNotSupported None)))"

definition ncThen :: "ncOp \<Rightarrow> ncOp \<Rightarrow> ncOp" where
  "ncThen f g s = rbind (f s) (\<lambda>(s1, out1). rbind (g s1) (\<lambda>(s2, out2). Inr (s2, out1 @ out2)))"

section \<open>Requests\<close>

definition nc_getCommandURL :: "NetcastTVService \<Rightarrow> NetcastTVService \<times> string option" where
  "nc_getCommandURL s = (case nc_commandURL s of
      Some u \<Rightarrow> (s, Some u)
    | None \<Rightarrow> (let u = URLWithString (''http://'' @ formatObject (Option.bind (nc_description s) sd_address) @ '':8080'')
        in (s\<lparr>nc_commandURL := u\<rparr>, u)))"

text \<open>
  The two ways a target is made: a path component that is appended, which is nil for a nil URL and then raises, and
  a formatted string.
\<close>

definition atPath :: "string list \<Rightarrow> string option \<Rightarrow> string option" where
  "atPath components = map_option (\<lambda>u. fold (\<lambda>c p. appendPathComponent p c) components u)"

definition atSuffix :: "string \<Rightarrow> string option \<Rightarrow> string option" where
  "atSuffix rest u = Some (formatObject u @ rest)"

definition ncSend ::
  "string \<Rightarrow> (string option \<Rightarrow> string option) \<Rightarrow> string option \<Rightarrow> ncDone \<Rightarrow> ncFailed \<Rightarrow> nat option \<Rightarrow> nat option \<Rightarrow> ncOp" where
  "ncSend method target payload done failed success failure s0 =
     (case nc_getCommandURL s0 of (s, u) \<Rightarrow> case target u of
        None \<Rightarrow> Inl NSInvalidArgumentException
      | Some t \<Rightarrow> Inr (s, [NcCommand \<lparr>nco_method = method, nco_target = URLWithString t, nco_payload = payload,
          nco_done = done, nco_failed = failed, nco_success = success, nco_failure = failure\<rparr>]))"

definition ncPost :: "LGE_REQUEST_TYPE \<Rightarrow> string \<Rightarrow> ncDone \<Rightarrow> nat option \<Rightarrow> nat option \<Rightarrow> ncOp" where
  "ncPost uri payload done = ncSend ''POST'' (atPath [lgeUDAPRequestURI uri]) (Some payload) done FailCaller"

definition ncGet :: "string \<Rightarrow> ncDone \<Rightarrow> nat option \<Rightarrow> nat option \<Rightarrow> ncOp" where
  "ncGet query done = ncSend ''GET'' (atSuffix (lgeUDAPRequestURI LGE_DATA_GET_REQUEST @ query)) None done FailCaller"

text \<open>The HTTP request of a command: an empty payload is not sent.\<close>

record httpRequest =
  hr_URL :: "string option"
  hr_method :: string
  hr_headers :: "(string \<times> string) list"
  hr_body :: "string option"

definition nc_sendCommand :: "ncCommand \<Rightarrow> httpRequest" where
  \<open>nc_sendCommand c =
     (let xml = ''<?xml version="1.0" encoding="utf-8"?>'' @ formatObject (nco_payload c);
          hasPayload = (case nco_payload c of None \<Rightarrow> False | Some p \<Rightarrow> p \<noteq> [])
      in \<lparr>hr_URL = nco_target c, hr_method = nco_method c,
          hr_headers = [(''Content-Type'', ''text/xml; charset=utf-8''), (''Connection'', ''Close''),
              (''User-Agent'', ''Apple iOS UDAP/2.0 Connect SDK'')]
            @ (if hasPayload then [(''Content-Length'', show_nat (length xml))] else []),
          hr_body = (if hasPayload then Some xml else None)\<rparr>)\<close>

text \<open>
  What comes back: no data and perhaps an error, or data with the status, the length the server announced, the text
  (unless it is not UTF-8) and the dictionary the XML reader makes of it.
\<close>

datatype httpAnswer =
    NoData "NSError option"
  | Data int "string option" nat "string option" "jdict option"

definition parseCommandResponse :: "int \<Rightarrow> NSError option" where
  "parseCommandResponse statusCode =
     (let tvError = (\<lambda>m. Some (generateErrorWithCode ConnectStatusCodeTvError (Some m))) in
      if statusCode = 400 then tvError ''The command format is not valid or it has an incorrect value.''
      else if statusCode = 401 then tvError ''A command is sent when a Host and a Controller are not paired.''
      else if statusCode = 404 then tvError ''The POST path of a command is incorrect.''
      else if statusCode = 500 then tvError ''The command execution has failed.''
      else None)"

fun nc_answer :: "httpAnswer \<Rightarrow> NSError option + json option" where
  "nc_answer (NoData e) = Inl e"
| "nc_answer (Data statusCode contentLength n text xml) =
     (if n = 0 then
        (case contentLength of
           Some l \<Rightarrow> if string_int l > 0 then Inl (Some (generateErrorWithCode ConnectStatusCodeTvError
               (Some ''Expected data from server, but did not receive any.''))) else Inr None
         | None \<Rightarrow> Inr None)
      else case text of
        None \<Rightarrow> Inr None
      | Some t \<Rightarrow> (case parseCommandResponse statusCode of
           Some e \<Rightarrow> Inl (Some e)
         | None \<Rightarrow> Inr (Some (case xml of None \<Rightarrow> JStr t | Some d \<Rightarrow> JObj d))))"

section \<open>Configuration, description, capabilities\<close>

definition netcastTVServiceConfig :: "NetcastTVService \<Rightarrow> ServiceConfig option" where
  "netcastTVServiceConfig s = (case nc_config s of
      Some c \<Rightarrow> if cfg_class c = NetcastTVServiceConfigClass then Some c else None
    | None \<Rightarrow> None)"

definition nc_hasCode :: "ServiceConfig option \<Rightarrow> bool" where
  "nc_hasCode c \<longleftrightarrow> Option.bind c cfg_pairingCode \<noteq> None"

definition nc_setServiceConfig :: "ServiceConfig \<Rightarrow> NetcastTVService \<Rightarrow> NetcastTVService result" where
  "nc_setServiceConfig serviceConfig s =
     (let oldHasCode = nc_hasCode (netcastTVServiceConfig s) in
      if cfg_class serviceConfig = NetcastTVServiceConfigClass
      then rbind (assert_state (\<not> (oldHasCode \<and> \<not> nc_hasCode (Some serviceConfig)))) (\<lambda>_.
             Inr (s\<lparr>nc_config := Some serviceConfig\<rparr>))
      else rbind (assert_state (\<not> oldHasCode)) (\<lambda>_.
           rbind (cfg_initWithServiceConfig NetcastTVServiceConfigClass serviceConfig) (\<lambda>(new, old).
             Inr (s\<lparr>nc_config := Some new\<rparr>))))"

text \<open>The stored description; the UUID of the configuration is set once. The DLNA service gets the description, too.\<close>

definition nc_setServiceDescription :: "ServiceDescription option \<Rightarrow> NetcastTVService \<Rightarrow> NetcastTVService" where
  "nc_setServiceDescription description s0 =
     (let s = s0\<lparr>nc_description := description\<rparr> in
      case nc_config s of
        None \<Rightarrow> s
      | Some c \<Rightarrow> if cfg_UUID c = None
          then s\<lparr>nc_config := Some (fst (cfg_setUUID (Option.bind description sd_UUID) c))\<rparr> else s)"

text \<open>The first service of a class among those of the device at the own address; the answer is kept.\<close>

definition siblingService :: "netcastEnv \<Rightarrow> string \<Rightarrow> NetcastTVService \<Rightarrow> nat option" where
  "siblingService ne cls s =
     (case Option.bind (Option.bind (nc_description s) sd_address) (ne_services ne) of
        None \<Rightarrow> None
      | Some services \<Rightarrow> map_option fst (find (\<lambda>(r, c). c = cls) services))"

definition dlnaService :: "netcastEnv \<Rightarrow> NetcastTVService \<Rightarrow> NetcastTVService \<times> nat option" where
  "dlnaService ne s = (case nc_dlna s of
      Some r \<Rightarrow> (s, Some r)
    | None \<Rightarrow> (let r = siblingService ne ''DLNAService'' s in (s\<lparr>nc_dlna := r\<rparr>, r)))"

definition dialService :: "netcastEnv \<Rightarrow> NetcastTVService \<Rightarrow> NetcastTVService \<times> nat option" where
  "dialService ne s = (case nc_dial s of
      Some r \<Rightarrow> (s, Some r)
    | None \<Rightarrow> (let r = siblingService ne ''DIALService'' s in (s\<lparr>nc_dial := r\<rparr>, r)))"

text \<open>\<open>modelNumber\<close>: \<open>locationXML\<close> is that of the description of the DLNA service.\<close>

definition nc_modelNumber :: "netcastEnv \<Rightarrow> string option \<Rightarrow> NetcastTVService \<Rightarrow> (NetcastTVService \<times> string option) result" where
  "nc_modelNumber ne locationXML s = (case Option.bind (nc_description s) sd_modelNumber of
      Some m \<Rightarrow> Inr (s, Some m)
    | None \<Rightarrow> (case ne_parseXML ne locationXML of
        None \<Rightarrow> Inr (s, None)
      | Some xml \<Rightarrow> rbind (lookupPath (Some (JObj xml)) [''root'', ''device'', ''modelNumber'', ''text'']) (\<lambda>model.
          case asString model of
            None \<Rightarrow> Inr (s, None)
          | Some m \<Rightarrow> (let d = map_option (\<lambda>d. d\<lparr>sd_modelNumber := Some (replaceOccurrences (replaceOccurrences
                (replaceOccurrences m [CHR 0x0A] []) '' '' []) [CHR 0x09] [])\<rparr>) (nc_description s)
              in Inr (s\<lparr>nc_description := d\<rparr>, Option.bind d sd_modelNumber)))))"

definition nc_capabilityList :: "bool \<Rightarrow> string option \<Rightarrow> string list" where
  "nc_capabilityList pairingOn model = [''MediaPlayer.Subtitle.SRT''] @
     (if pairingOn then
        kTextInputControlCapabilities @ kMouseControlCapabilities @ kKeyControlCapabilities @ [''PowerControl.Off'']
        @ kMediaPlayerCapabilities @
        [''MediaControl.Play'', ''MediaControl.Pause'', ''MediaControl.Stop'', ''MediaControl.PlayState'',
         ''MediaControl.Position'', ''MediaControl.Duration'', ''MediaControl.Seek'',
         ''Launcher.App'', ''Launcher.App.Close'', ''Launcher.AppStore'', ''Launcher.App.List'', ''Launcher.AppState'',
         ''Launcher.Browser'', ''Launcher.Hulu'', ''Launcher.Netflix'', ''Launcher.Netflix.Params'',
         ''Launcher.YouTube'', ''Launcher.YouTube.Params'',
         ''TVControl.Channel.Up'', ''TVControl.Channel.Down'', ''TVControl.Channel.Get'', ''TVControl.Channel.List'',
         ''TVControl.Channel.Subscribe'', ''TVControl.3D.Get'', ''TVControl.3D.Set'', ''TVControl.3D.Subscribe'',
         ''ExternalInputControl.Picker.Launch'', ''ExternalInputControl.Picker.Close'',
         ''VolumeControl.Get'', ''VolumeControl.UpDown'', ''VolumeControl.Mute.Get'', ''VolumeControl.Mute.Set'']
        @ (if model = Some ''4.0'' then [''Launcher.AppStore.Params''] else [])
      else kMediaPlayerCapabilities @
        [''MediaControl.Play'', ''MediaControl.Pause'', ''MediaControl.Stop'', ''MediaPlayer.MetaData.Title'',
         ''MediaPlayer.MetaData.MimeType'', ''Launcher.YouTube'', ''Launcher.YouTube.Params''])"

definition nc_updateCapabilities :: "netcastEnv \<Rightarrow> string option \<Rightarrow> ncOp" where
  "nc_updateCapabilities ne locationXML s =
     rbind (if ne_pairingOn ne then nc_modelNumber ne locationXML s else Inr (s, None)) (\<lambda>(s', model).
       case svc_setCapabilities (nc_capabilityList (ne_pairingOn ne) model) (nc_base s') of
         (b, ev) \<Rightarrow> Inr (s'\<lparr>nc_base := b\<rparr>, map NcTellOnMain ev))"

section \<open>Connection and pairing\<close>

definition nc_connected :: "NetcastTVService \<Rightarrow> bool" where
  "nc_connected s = svc_connected (nc_base s)"

definition nc_setConnected :: "bool \<Rightarrow> NetcastTVService \<Rightarrow> NetcastTVService" where
  "nc_setConnected b s = s\<lparr>nc_base := (nc_base s)\<lparr>svc_connected := b\<rparr>\<rparr>"

definition nc_tellOnMain :: "svcSelector \<Rightarrow> svcEvent \<Rightarrow> NetcastTVService \<Rightarrow> ncOutput list" where
  "nc_tellOnMain sel e s = map NcTellOnMain (svc_tell (nc_base s) sel e)"

text \<open>The delegate is told without asking whether it responds: a delegate that does not raises.\<close>

definition nc_tell :: "svcSelector \<Rightarrow> svcEvent \<Rightarrow> ncOp" where
  "nc_tell sel e s = (case svc_delegate (nc_base s) of
      None \<Rightarrow> Inr (s, [])
    | Some d \<Rightarrow> if svc_responds (Some d) sel then Inr (s, [NcTell e]) else Inl NSInvalidArgumentException)"

definition nc_hConnectSuccess :: "NetcastTVService \<Rightarrow> NetcastTVService \<times> ncOutput list" where
  "nc_hConnectSuccess s0 =
     (let s = nc_setConnected True ((fst (nc_getCommandURL s0))
            \<lparr>nc_reachability := Some (rea_start \<lparr>rea_running = False, rea_timer = False, rea_delegate = True\<rparr>)\<rparr>)
      in (s, nc_tellOnMain SelConnectionSuccess ConnectionSuccess s))"

definition invokePairing :: ncOp where
  "invokePairing = ncSend ''POST'' (atPath [lgeUDAPRequestURI LGE_PAIRING_REQUEST])
     (Some (udapEnvelope ''pairing'' (xmlElement ''name'' ''showKey''))) DonePairingShown FailPairingRequest None None"

definition dismissPairing :: "ncDone \<Rightarrow> ncOp" where
  "dismissPairing done = ncPost LGE_PAIRING_REQUEST
     (udapEnvelope ''pairing'' (xmlElement ''name'' ''byebye'' @ xmlElement ''port'' ''8080'')) done None None"

text \<open>The port of the command URL, which \<open>commandURL\<close> itself puts there.\<close>

definition nc_pairWithData :: "string option \<Rightarrow> ncOp" where
  "nc_pairWithData pairingCode s0 = (case nc_getCommandURL s0 of (s, u) \<Rightarrow>
     ncSend ''POST'' (atPath [lgeUDAPRequestURI LGE_PAIRING_REQUEST])
       (Some (udapEnvelope ''pairing'' (xmlElement ''name'' ''hello'' @ xmlElement ''value'' (formatObject pairingCode)
          @ xmlElement ''port'' (if u = None then ''(null)'' else ''8080''))))
       (DonePaired pairingCode) FailPairing None None s)"

definition nc_connect :: "netcastEnv \<Rightarrow> ncOp" where
  "nc_connect ne s =
     (if nc_connected s then Inr (s, [])
      else case Option.bind (netcastTVServiceConfig s) cfg_pairingCode of
        Some code \<Rightarrow> nc_pairWithData (Some code) s
      | None \<Rightarrow> if ne_pairingOn ne then invokePairing s else Inr (nc_hConnectSuccess s))"

definition nc_disconnect :: ncOp where
  "nc_disconnect s0 =
     (if \<not> nc_connected s0 then Inr (s0, [])
      else let s = nc_setConnected False (s0\<lparr>nc_observers := (if nc_reconnectOnWake s0 then nc_observers s0 else 0),
                     nc_server := False\<rparr>)
           in rbind (dismissPairing DoneStopQueue s) (\<lambda>(s', out).
                Inr (s'\<lparr>nc_reachability := map_option rea_stop (nc_reachability s')\<rparr>,
                     out @ nc_tellOnMain SelDisconnected (DisconnectedWithError None) s')))"

definition nc_didLoseReachability :: ncOp where
  "nc_didLoseReachability s =
     (if nc_connected s then nc_disconnect s
      else Inr (s\<lparr>nc_reachability := map_option rea_stop (nc_reachability s)\<rparr>, []))"

text \<open>The alert of the pairing: the first button cancels, the second sends the entered code.\<close>

definition nc_alertDismissed :: "nat \<Rightarrow> string option \<Rightarrow> ncOp" where
  "nc_alertDismissed buttonIndex code s =
     (if buttonIndex = 0 then dismissPairing DoneNothing s
      else if buttonIndex = 1 then nc_pairWithData code s else Inr (s, []))"

text \<open>The notifications reach the service once for every time it was registered.\<close>

definition nc_hAppDidEnterBackground :: ncOp where
  "nc_hAppDidEnterBackground s = (if nc_connected s then nc_disconnect (s\<lparr>nc_reconnectOnWake := True\<rparr>) else Inr (s, []))"

definition nc_hAppDidBecomeActive :: "netcastEnv \<Rightarrow> ncOp" where
  "nc_hAppDidBecomeActive ne s =
     (if nc_reconnectOnWake s
      then rbind (nc_connect ne s) (\<lambda>(s', out). Inr (s'\<lparr>nc_reconnectOnWake := False\<rparr>, out))
      else Inr (s, []))"

definition nc_notified :: "ncOp \<Rightarrow> ncOp" where
  "nc_notified handler s = ((ncThen handler) ^^ nc_observers s) (\<lambda>s. Inr (s, [])) s"

definition nc_paired :: "netcastEnv \<Rightarrow> string option \<Rightarrow> NetcastTVService \<Rightarrow> NetcastTVService \<times> ncOutput list" where
  "nc_paired ne code s0 =
     (let s = s0\<lparr>nc_config := (case netcastTVServiceConfig s0 of
                 None \<Rightarrow> nc_config s0
               | Some c \<Rightarrow> Some (c\<lparr>cfg_pairingCode := code\<rparr>)),
               nc_observers := nc_observers s0 + (if ne_disconnectOnBackground ne then 1 else 0),
               nc_server := True\<rparr>;
          out = nc_tellOnMain SelPairingSuccess PairingSuccess s;
          (s', out') = nc_hConnectSuccess s
      in (s', out @ out'))"

definition nc_new :: "ServiceClass \<Rightarrow> NetcastTVService" where
  "nc_new cls = \<lparr>nc_base = svc_initWithServiceConfig cls None, nc_config = None, nc_description = None, nc_commandURL = None,
     nc_dlna = None, nc_dial = None, nc_mouseVisible = False, nc_mouseDistance = (0, 0), nc_mouseIsMoving = False,
     nc_keyboardString = None, nc_subscribed = None, nc_nextSubscription = 0, nc_reconnectOnWake = False,
     nc_observers = 0, nc_server = False, nc_reachability = None\<rparr>"

definition nc_initWithServiceConfig :: "ServiceClass \<Rightarrow> ServiceConfig \<Rightarrow> NetcastTVService result" where
  "nc_initWithServiceConfig cls serviceConfig = nc_setServiceConfig serviceConfig (nc_new cls)"

section \<open>Apps\<close>

definition channelInfoFromXML :: "netcastEnv \<Rightarrow> json option \<Rightarrow> ChannelInfo result" where
  "channelInfoFromXML ne info =
     (let field = (\<lambda>k. lookupPath info [k, ''text'']) in
      rbind (field ''physicalNum'') (\<lambda>physicalNum. rbind (field ''chname'') (\<lambda>chname.
      rbind (field ''major'') (\<lambda>major. rbind (field ''minor'') (\<lambda>minor.
      rbind (rbind (field ''displayMajor'') intValue) (\<lambda>displayMajor.
      rbind (rbind (field ''displayMinor'') intValue) (\<lambda>displayMinor.
        Inr \<lparr>chan_id = asString physicalNum, chan_name = asString chname,
             chan_number = Some (formatJson ne major @ ''-'' @ formatJson ne minor),
             chan_majorNumber = displayMajor, chan_minorNumber = displayMinor, chan_rawData = info\<rparr>)))))))"

text \<open>\<open>appInfo.rawData[@"cpid"][@"text"] = content\<close>: nothing for an app without \<open>cpid\<close>, and nil raises.\<close>

definition setContent :: "string option \<Rightarrow> AppInfo \<Rightarrow> AppInfo result" where
  "setContent content app = rbind (lookupKey (app_rawData app) ''cpid'') (\<lambda>cpid. case cpid of
      None \<Rightarrow> Inr app
    | Some (JObj c) \<Rightarrow> (case content of
        None \<Rightarrow> Inl NSInvalidArgumentException
      | Some t \<Rightarrow> Inr (app\<lparr>app_rawData := Some (JObj (setObject (JObj (setObject (JStr t) ''text'' c)) ''cpid''
           (the (asObject (app_rawData app)))))\<rparr>))
    | Some _ \<Rightarrow> Inl NSInvalidArgumentException)"

definition appInfoFromXML :: "json option \<Rightarrow> AppInfo result" where
  "appInfoFromXML info = rbind (lookupPath info [''name'', ''text'']) (\<lambda>name.
     rbind (lookupPath info [''auid'', ''text'']) (\<lambda>auid.
       setContent (Some []) \<lparr>app_id = asString auid, app_name = asString name, app_rawData = info\<rparr>))"

text \<open>\<open>enumerateObjectsUsingBlock:\<close> on the parsed data: nil has no elements, a dictionary raises.\<close>

fun mapJson :: "(json option \<Rightarrow> 'a result) \<Rightarrow> json list \<Rightarrow> 'a list result" where
  "mapJson f [] = Inr []"
| "mapJson f (j # js) = rbind (f (Some j)) (\<lambda>x. rbind (mapJson f js) (\<lambda>xs. Inr (x # xs)))"

definition dataAt :: "json option \<Rightarrow> json option result" where
  "dataAt response = lookupPath response [''envelope'', ''dataList'', ''data'']"

definition appsFromXML :: "json option \<Rightarrow> AppInfo list result" where
  "appsFromXML response = rbind (dataAt response) (\<lambda>rawApps. case rawApps of
      None \<Rightarrow> Inr []
    | Some (JArr js) \<Rightarrow> mapJson appInfoFromXML js
    | Some _ \<Rightarrow> Inl NSInvalidArgumentException)"

definition getNumberOfApps :: "int \<Rightarrow> ncDone \<Rightarrow> nat option \<Rightarrow> nat option \<Rightarrow> ncOp" where
  "getNumberOfApps type done = ncGet (''?target=appnum_get&type='' @ show_int type) done"

definition getAppListForType :: "int \<Rightarrow> int \<Rightarrow> ncDone \<Rightarrow> nat option \<Rightarrow> nat option \<Rightarrow> ncOp" where
  "getAppListForType type numberOfApps done =
     ncGet (''?target=applist_get&type='' @ show_int type @ ''&index=1&number='' @ show_int numberOfApps) done"

definition appTypePremium :: int where "appTypePremium = 2"
definition appTypeMyApps :: int where "appTypeMyApps = 3"

definition nc_getAppList :: "appUse \<Rightarrow> nat option \<Rightarrow> nat option \<Rightarrow> ncOp" where
  "nc_getAppList use = getNumberOfApps appTypePremium (DonePremiumCount use)"

text \<open>The apps of both lists by identifier; an app without one raises.\<close>

fun collectApps :: "AppInfo list \<Rightarrow> AppInfo nsdict \<Rightarrow> AppInfo nsdict result" where
  "collectApps [] apps = Inr apps"
| "collectApps (a # as) apps = rbind (setObjectN a (app_id a) apps) (collectApps as)"

definition nc_findApp :: "string option \<Rightarrow> AppInfo list \<Rightarrow> AppInfo option" where
  "nc_findApp appId apps =
     find (\<lambda>a. isEqualToString (map_option lowercaseString (app_name a)) (map_option lowercaseString appId)) apps"

definition launchAppWithInfo :: "netcastEnv \<Rightarrow> AppInfo option \<Rightarrow> nat option \<Rightarrow> nat option \<Rightarrow> ncOp" where
  "launchAppWithInfo ne appInfo success failure s =
     (let app = (case appInfo of None \<Rightarrow> appInfoForId None | Some a \<Rightarrow> a) in
      rbind (lookupPath (app_rawData app) [''cpid'', ''text'']) (\<lambda>content.
        ncPost LGE_COMMAND_REQUEST
          (udapEnvelope ''command'' (xmlElement ''name'' ''AppExecute'' @ xmlElement ''auid'' (formatObject (app_id app))
             @ xmlElement ''appname'' (formatObject (app_name app)) @ xmlElement ''contentId'' (formatJson ne content)))
          (DoneLaunched app) success failure s))"

definition appSession :: "netcastEnv \<Rightarrow> AppInfo \<Rightarrow> json option \<Rightarrow> LaunchSession" where
  "appSession ne app response = (launchSessionForAppId (app_id app))
     \<lparr>ls_name := app_name app, ls_sessionType := 1, ls_service := Some (ne_self ne), ls_rawData := response\<rparr>"

definition nc_launchAppStore :: "string option \<Rightarrow> nat option \<Rightarrow> nat option \<Rightarrow> ncOp" where
  "nc_launchAppStore appId success failure = ncSend ''POST'' (atPath [''roap'', ''api'', ''command''])
     (Some (udapEnvelope ''command'' (xmlElement ''name'' ''SearchCMDPlaySDPContent'' @ xmlElement ''content_type'' ''4''
        @ ''<conts_exec_type /><conts_plex_type_flag /><conts_search_id />'' @ xmlElement ''conts_age'' ''12''
        @ ''<exec_id />'' @ xmlElement ''item_id'' (formatObject (map_option urlEncode appId)) @ xmlElement ''app_type'' ''S'')))
     DoneStoreLaunched FailCaller success failure"

definition nc_launchNetflix :: "netcastEnv \<Rightarrow> string option \<Rightarrow> string option \<Rightarrow> nat option \<Rightarrow> nat option \<Rightarrow> ncOp" where
  "nc_launchNetflix ne locationXML contentId success failure s0 =
     rbind (nc_modelNumber ne locationXML s0) (\<lambda>(s, model).
       if model \<noteq> Some ''4.0'' then nc_getAppList (FindApp (Some ''Netflix'') LaunchFound) success failure s
       else ncPost LGE_COMMAND_REQUEST
         (udapEnvelope ''command'' (xmlElement ''name'' ''SearchCMDPlaySDPContent'' @ xmlElement ''content_type'' ''1''
            @ xmlElement ''conts_exec_type'' ''20'' @ xmlElement ''conts_plex_type_flag'' ''N''
            @ xmlElement ''conts_search_id'' ''2023237'' @ xmlElement ''conts_age'' ''18'' @ xmlElement ''exec_id'' ''netflix''
            @ xmlElement ''item_id'' (''-Q m='' @ urlEncode (''http://api.netflix.com/catalog/titles/movies/''
                @ formatObject contentId @ ''&source_type=4&trackId=6054700&trackUrl=https://api.netflix.com/API_APP_ID_6261?#Search?''))
            @ xmlElement ''app_type'' []))
         DoneRaw success failure s)"

definition nc_launchYouTube :: "netcastEnv \<Rightarrow> string option \<Rightarrow> real \<Rightarrow> nat option \<Rightarrow> nat option \<Rightarrow> ncOp" where
  "nc_launchYouTube ne contentId startTime success failure s0 = (case dialService ne s0 of
      (s, Some r) \<Rightarrow> Inr (s, [NcForward r (LauncherMsg (LaunchYouTubeAt contentId startTime)) ForwardPlain success failure])
    | (s, None) \<Rightarrow>
        if startTime \<le> 0 then nc_getAppList (FindApp (Some ''YouTube'') (LaunchWithContent contentId)) success failure s
        else Inr (s, ncFail failure (Some (generateErrorWithCode ConnectStatusCodeNotSupported
               (Some ''Cannot reach DIAL service for launching with provided start time'')))))"

text \<open>A session without an app identifier is closed by the name of the app, which has to be looked for.\<close>

definition nc_closeApp :: "LaunchSession option \<Rightarrow> nat option \<Rightarrow> nat option \<Rightarrow> ncOp" where
  "nc_closeApp launchSession success failure =
     (let appId = Option.bind launchSession ls_appId; name = Option.bind launchSession ls_name in
      if name \<noteq> Some kSmartShareName \<and> (appId = None \<or> appId = Some [])
      then nc_getAppList (FindApp name CloseFound) success failure
      else ncPost LGE_COMMAND_REQUEST
        (udapEnvelope ''command'' (xmlElement ''name'' ''AppTerminate''
           @ xmlElement ''auid'' (case appId of None \<Rightarrow> [] | Some i \<Rightarrow> i)
           @ xmlElement ''appname'' (case name of None \<Rightarrow> [] | Some n \<Rightarrow> n)))
        DoneRaw success failure)"

definition nc_getAppState :: "LaunchSession option \<Rightarrow> nat option \<Rightarrow> nat option \<Rightarrow> ncOp" where
  "nc_getAppState launchSession success failure =
     ncSend ''POST'' (atSuffix (lgeUDAPRequestURI LGE_APPTOAPP_DATA_REQUEST @ ''/''
         @ formatObject (Option.bind launchSession ls_appId) @ ''/status''))
       None DoneAppState FailCaller success failure"

fun nc_launcher :: "netcastEnv \<Rightarrow> string option \<Rightarrow> launcherMsg \<Rightarrow> nat option \<Rightarrow> nat option \<Rightarrow> ncOp" where
  "nc_launcher ne x (LaunchApp appId) b f = nc_getAppList (FindApp appId LaunchFound) b f"
| "nc_launcher ne x (LaunchAppWithInfo appInfo) b f = launchAppWithInfo ne appInfo b f"
| "nc_launcher ne x (LaunchAppWithParams appInfo params) b f = ncNotSupported f"
| "nc_launcher ne x (CloseAppMsg launchSession) b f = nc_closeApp launchSession b f"
| "nc_launcher ne x GetAppList b f = nc_getAppList ListApps b f"
| "nc_launcher ne x GetRunningApp b f = ncNotSupported f"
| "nc_launcher ne x SubscribeRunningApp b f = ncNotSupported f"
| "nc_launcher ne x (GetAppState launchSession) b f = nc_getAppState launchSession b f"
| "nc_launcher ne x (SubscribeAppState launchSession) b f = ncNotSupported f"
| "nc_launcher ne x (LaunchAppStore appId) b f = nc_launchAppStore appId b f"
| "nc_launcher ne x (LaunchBrowser target) b f = nc_getAppList (FindApp (Some ''Internet'') LaunchFound) b f"
| "nc_launcher ne x (LaunchYouTube contentId) b f = nc_launchYouTube ne contentId 0 b f"
| "nc_launcher ne x (LaunchYouTubeAt contentId startTime) b f = nc_launchYouTube ne contentId startTime b f"
| "nc_launcher ne x (LaunchNetflix contentId) b f = nc_launchNetflix ne x contentId b f"
| "nc_launcher ne x (LaunchHulu contentId) b f = nc_getAppList (FindApp (Some ''Hulu Plus'') (LaunchWithContent contentId)) b f"

section \<open>Pointer and keys\<close>

definition cursorVisible :: "string \<Rightarrow> string" where
  "cursorVisible v = udapEnvelope ''event'' (xmlElement ''name'' ''CursorVisible'' @ xmlElement ''value'' v @ xmlElement ''mode'' ''auto'')"

definition showMouse :: "nat option \<Rightarrow> nat option \<Rightarrow> ncOp" where
  "showMouse success failure s =
     (if nc_mouseVisible s then Inr (s, ncSucceed success (ResponseObject None))
      else ncPost LGE_EVENT_REQUEST (cursorVisible ''true'') DoneMouseShown success failure s)"

definition sendKeyNow :: "nat \<Rightarrow> keyUse \<Rightarrow> nat option \<Rightarrow> nat option \<Rightarrow> ncOp" where
  "sendKeyNow keyCode use success failure =
     ncPost LGE_COMMAND_REQUEST
       (udapEnvelope ''command'' (xmlElement ''name'' ''HandleKeyInput'' @ xmlElement ''value'' (show_int (wrap32 (int keyCode)))))
       (case use of KeyPressed \<Rightarrow> DoneRaw | KeyEntersText \<Rightarrow> DoneKeyEnters) success failure"

text \<open>\<open>hideMouseWithSuccess:\<close>, called with the key to send afterwards or without a block.\<close>

definition hideMouse :: "(nat \<times> keyUse) option \<Rightarrow> nat option \<Rightarrow> nat option \<Rightarrow> ncOp" where
  "hideMouse key success failure s =
     (if \<not> nc_mouseVisible s
      then (case key of None \<Rightarrow> Inr (s, ncSucceed success (ResponseObject None)) | Some (k, use) \<Rightarrow> sendKeyNow k use success failure s)
      else ncPost LGE_EVENT_REQUEST (cursorVisible ''false'')
        (case key of None \<Rightarrow> DoneMouseHidden | Some (k, use) \<Rightarrow> DoneHiddenForKey k use) success failure s)"

definition nc_sendKeyCode :: "nat \<Rightarrow> nat option \<Rightarrow> nat option \<Rightarrow> ncOp" where
  "nc_sendKeyCode keyCode = hideMouse (Some (keyCode, KeyPressed))"

definition nc_key :: "NetcastTVKeyCode \<Rightarrow> nat option \<Rightarrow> nat option \<Rightarrow> ncOp" where
  "nc_key k = nc_sendKeyCode (keyCodeValue k)"

fun nc_keyControl :: "keyControlMsg \<Rightarrow> nat option \<Rightarrow> nat option \<Rightarrow> ncOp" where
  "nc_keyControl KeyUp = nc_key NcKeyUp"
| "nc_keyControl KeyDown = nc_key NcKeyDown"
| "nc_keyControl KeyLeft = nc_key NcKeyLeft"
| "nc_keyControl KeyRight = nc_key NcKeyRight"
| "nc_keyControl KeyOK = nc_key NcKeyOK"
| "nc_keyControl KeyBack = nc_key NcKeyBack"
| "nc_keyControl KeyHome = nc_key NcKeyHome"
| "nc_keyControl (SendKeyCode k) = nc_sendKeyCode k"

definition moveMouseBy :: "nat option \<Rightarrow> nat option \<Rightarrow> ncOp" where
  "moveMouseBy success failure s =
     (case nc_mouseDistance s of (dx, dy) \<Rightarrow>
        ncSend ''POST'' (atPath [lgeUDAPRequestURI LGE_COMMAND_REQUEST])
          (Some (udapEnvelope ''command'' (xmlElement ''name'' ''HandleTouchMove'' @ xmlElement ''x'' (show_int (roundf dx))
             @ xmlElement ''y'' (show_int (roundf dy)))))
          DoneMoved FailMove success failure (s\<lparr>nc_mouseDistance := (0, 0)\<rparr>))"

definition nc_move :: "real \<times> real \<Rightarrow> nat option \<Rightarrow> nat option \<Rightarrow> ncOp" where
  "nc_move distance success failure s0 =
     (let s = s0\<lparr>nc_mouseDistance := (fst (nc_mouseDistance s0) + fst distance, snd (nc_mouseDistance s0) + snd distance)\<rparr>
      in if \<not> nc_mouseIsMoving s then moveMouseBy success failure (s\<lparr>nc_mouseIsMoving := True\<rparr>) else Inr (s, []))"

fun nc_mouse :: "mouseControlMsg \<Rightarrow> nat option \<Rightarrow> nat option \<Rightarrow> ncOp" where
  "nc_mouse ConnectMouse b f = (\<lambda>s. showMouse b f (s\<lparr>nc_mouseDistance := (0, 0), nc_mouseIsMoving := False\<rparr>))"
| "nc_mouse DisconnectMouse b f = (\<lambda>s. hideMouse None None None (s\<lparr>nc_mouseDistance := (0, 0), nc_mouseIsMoving := False\<rparr>))"
| "nc_mouse MouseClick b f = ncPost LGE_COMMAND_REQUEST (udapEnvelope ''command'' (xmlElement ''name'' ''HandleTouchClick'')) DoneRaw b f"
| "nc_mouse (MouseMove dx dy) b f = nc_move (dx, dy) b f"
| "nc_mouse (MouseScroll dx dy) b f = ncPost LGE_COMMAND_REQUEST (udapEnvelope ''command''
     (xmlElement ''name'' ''HandleTouchWheel'' @ xmlElement ''value'' (if dy > 0 then ''down'' else ''up''))) DoneRaw b f"

section \<open>Media over the DLNA service\<close>

definition toDLNA :: "netcastEnv \<Rightarrow> capMessage \<Rightarrow> ncForward \<Rightarrow> nat option \<Rightarrow> nat option \<Rightarrow> ncOp" where
  "toDLNA ne m use success failure s0 = (case dlnaService ne s0 of
      (s, Some r) \<Rightarrow> Inr (s, [NcForward r m use success failure])
    | (s, None) \<Rightarrow> ncNotSupported failure s)"

definition nc_mediaFromURL :: "string option \<Rightarrow> string option \<Rightarrow> string option \<Rightarrow> string option \<Rightarrow> string option \<Rightarrow> MediaInfo result" where
  "nc_mediaFromURL url iconURL title description mimeType =
     addImage (img_initWithURL iconURL ImageTypeThumb)
       ((mi_initWithURL url mimeType)\<lparr>mi_title := title, mi_description := description\<rparr>)"

text \<open>The older methods for a media information take its first image and drop the rest; a nil one is empty.\<close>

definition nc_mediaAgain :: "MediaInfo option \<Rightarrow> MediaInfo result" where
  "nc_mediaAgain mediaInfo = nc_mediaFromURL (Option.bind mediaInfo mi_url) (Option.bind mediaInfo firstImageURL)
     (Option.bind mediaInfo mi_title) (Option.bind mediaInfo mi_description) (Option.bind mediaInfo mi_mimeType)"

definition nc_displayImage :: "netcastEnv \<Rightarrow> ncForward \<Rightarrow> MediaInfo result \<Rightarrow> nat option \<Rightarrow> nat option \<Rightarrow> ncOp" where
  "nc_displayImage ne use mediaInfo b f s =
     rbind mediaInfo (\<lambda>m. toDLNA ne (MediaPlayerMsg (DisplayImageWithMediaInfo (Some m))) use b f s)"

definition nc_playMedia :: "netcastEnv \<Rightarrow> ncForward \<Rightarrow> MediaInfo result \<Rightarrow> bool \<Rightarrow> nat option \<Rightarrow> nat option \<Rightarrow> ncOp" where
  "nc_playMedia ne use mediaInfo shouldLoop b f s =
     rbind mediaInfo (\<lambda>m. toDLNA ne (MediaPlayerMsg (PlayMediaWithMediaInfo (Some m) shouldLoop)) use b f s)"

fun nc_mediaPlayer :: "netcastEnv \<Rightarrow> mediaPlayerMsg \<Rightarrow> nat option \<Rightarrow> nat option \<Rightarrow> ncOp" where
  "nc_mediaPlayer ne (DisplayImageWithMediaInfo m) b f = toDLNA ne (MediaPlayerMsg (DisplayImageWithMediaInfo m)) ForwardDisplayed b f"
| "nc_mediaPlayer ne (PlayMediaWithMediaInfo m l) b f = toDLNA ne (MediaPlayerMsg (PlayMediaWithMediaInfo m l)) ForwardPlayed b f"
| "nc_mediaPlayer ne (CloseMediaMsg l) b f = toDLNA ne (MediaPlayerMsg (CloseMediaMsg l)) ForwardPlain b f"
| "nc_mediaPlayer ne (DisplayImageURL u i t d m) b f = nc_displayImage ne ForwardDisplayedURL (nc_mediaFromURL u i t d m) b f"
| "nc_mediaPlayer ne (DisplayImageInfo m) b f = nc_displayImage ne ForwardDisplayedURL (nc_mediaAgain m) b f"
| "nc_mediaPlayer ne (PlayMediaURL u i t d m l) b f = nc_playMedia ne ForwardPlayedURL (nc_mediaFromURL u i t d m) l b f"
| "nc_mediaPlayer ne (PlayMediaInfo m l) b f = nc_playMedia ne ForwardPlayedURL (nc_mediaAgain m) l b f"

definition nc_self :: capObject where
  "nc_self = \<lparr>co_name = ''NetcastTVService'', co_priority = (\<lambda>_. CapabilityPriorityLevelHigh)\<rparr>"

text \<open>\<open>mediaControl\<close>: without pairing the DLNA service, given as the object that stands for it.\<close>

definition nc_getMediaControl :: "netcastEnv \<Rightarrow> (nat \<Rightarrow> capObject) \<Rightarrow> NetcastTVService \<Rightarrow> NetcastTVService \<times> capObject option" where
  "nc_getMediaControl ne objectOf s =
     (if \<not> ne_pairingOn ne then apsnd (map_option objectOf) (dlnaService ne s) else (s, Some nc_self))"

text \<open>
  The answer of the DLNA service. The launch object and its session are changed in place; the older methods call
  the block of the caller without asking whether it is there.
\<close>

definition smartShareSession :: "MediaLaunchObject \<Rightarrow> MediaLaunchObject" where
  "smartShareSession o' = o'\<lparr>mlo_session := map_option (\<lambda>l. l\<lparr>ls_appId := Some kSmartShareName,
     ls_name := Some kSmartShareName\<rparr>) (mlo_session o')\<rparr>"

definition displayReply :: "nat option \<Rightarrow> MediaLaunchObject \<Rightarrow> capObject option \<Rightarrow> ncOutput list" where
  "displayReply success o' control = (case success of
      None \<Rightarrow> [NcNilBlockCalled]
    | Some b \<Rightarrow> [NcReply b (MediaPlayerReplyC (MediaPlayerDisplayReply (mlo_session o') control))])"

fun nc_mediaLaunched ::
  "netcastEnv \<Rightarrow> (nat \<Rightarrow> capObject) \<Rightarrow> ncForward \<Rightarrow> nat option \<Rightarrow> MediaLaunchObject \<Rightarrow> NetcastTVService \<Rightarrow> NetcastTVService \<times> ncOutput list" where
  "nc_mediaLaunched ne objectOf ForwardDisplayed success o' s =
     (s, ncSucceed success (MediaPlayerReplyC (MediaPlayerReply (smartShareSession o'))))"
| "nc_mediaLaunched ne objectOf ForwardPlayed success o' s = (case nc_getMediaControl ne objectOf s of (s', c) \<Rightarrow>
     (s', ncSucceed success (MediaPlayerReplyC (MediaPlayerReply ((smartShareSession o')\<lparr>mlo_mediaControl := c\<rparr>)))))"
| "nc_mediaLaunched ne objectOf ForwardDisplayedURL success o' s =
     (s, displayReply success (smartShareSession o') (mlo_mediaControl o'))"
| "nc_mediaLaunched ne objectOf ForwardPlayedURL success o' s = (case nc_getMediaControl ne objectOf s of (s', c) \<Rightarrow>
     (s', displayReply success (smartShareSession o') c))"
| "nc_mediaLaunched ne objectOf ForwardPlain success o' s = (s, ncSucceed success (MediaPlayerReplyC (MediaPlayerReply o')))"

fun nc_mediaControl :: "netcastEnv \<Rightarrow> mediaControlMsg \<Rightarrow> nat option \<Rightarrow> nat option \<Rightarrow> ncOp" where
  "nc_mediaControl ne MediaPlay b f = nc_key NcKeyPlay b f"
| "nc_mediaControl ne MediaPause b f = nc_key NcKeyPause b f"
| "nc_mediaControl ne MediaStop b f = nc_key NcKeyStop b f"
| "nc_mediaControl ne MediaRewind b f = ncNotSupported f"
| "nc_mediaControl ne MediaFastForward b f = ncNotSupported f"
| "nc_mediaControl ne m b f = toDLNA ne (MediaControlMsg m) ForwardPlain b f"

section \<open>Subscriptions\<close>

definition nc_addSubscribe :: "string \<Rightarrow> ncEventBlock \<Rightarrow> nat option \<Rightarrow> NetcastTVService \<Rightarrow> NetcastTVService" where
  "nc_addSubscribe event success failure s =
     (let subscribed = (case nc_subscribed s of None \<Rightarrow> [] | Some d \<Rightarrow> d);
          (sub, next) = (case objectForKey subscribed event of
              Some u \<Rightarrow> (u, nc_nextSubscription s)
            | None \<Rightarrow> (\<lparr>nsu_ref = nc_nextSubscription s, nsu_success = [], nsu_failure = [], nsu_isSubscribed = False\<rparr>,
                       nc_nextSubscription s + 1));
          sub' = sub\<lparr>nsu_success := nsu_success sub @ [success],
                     nsu_failure := collectBlock failure (Some (nsu_failure sub)), nsu_isSubscribed := True\<rparr>
      in s\<lparr>nc_subscribed := Some (setObject sub' event subscribed), nc_nextSubscription := next\<rparr>)"

text \<open>Unsubscribing forgets the subscription and tells the TV nothing.\<close>

definition nc_sendSubscription :: "nat \<Rightarrow> ServiceSubscriptionType \<Rightarrow> NetcastTVService \<Rightarrow> NetcastTVService \<times> int" where
  "nc_sendSubscription ref type s =
     (if type = SubscriptionTypeUnsubscribe
      then s\<lparr>nc_subscribed := map_option (filter (\<lambda>(k, u). nsu_ref u \<noteq> ref)) (nc_subscribed s)\<rparr> else s, 0)"

section \<open>Television, volume, power, inputs and text\<close>

definition nc_get3D :: "ncDone \<Rightarrow> nat option \<Rightarrow> nat option \<Rightarrow> ncOp" where
  "nc_get3D = ncGet ''?target=is_3d''"

definition nc_getChannel :: "nat option \<Rightarrow> nat option \<Rightarrow> ncOp" where
  "nc_getChannel = ncGet ''?target=cur_channel'' DoneChannel"

definition nc_setChannel :: "netcastEnv \<Rightarrow> ChannelInfo option \<Rightarrow> nat option \<Rightarrow> nat option \<Rightarrow> ncOp" where
  "nc_setChannel ne channelInfo b f s =
     (let raw = Option.bind channelInfo chan_rawData in
      rbind (lookupPath raw [''major'', ''text'']) (\<lambda>major. rbind (lookupPath raw [''minor'', ''text'']) (\<lambda>minor.
      rbind (lookupPath raw [''sourceIndex'', ''text'']) (\<lambda>sourceIndex.
        ncPost LGE_COMMAND_REQUEST (udapEnvelope ''command'' (xmlElement ''name'' ''HandleChannelChange''
          @ xmlElement ''major'' (formatJson ne major) @ xmlElement ''minor'' (formatJson ne minor)
          @ xmlElement ''sourceIndex'' (formatJson ne sourceIndex)
          @ xmlElement ''physicalNum'' (formatObject (Option.bind channelInfo chan_id)))) DoneRaw b f s))))"

fun nc_tv :: "netcastEnv \<Rightarrow> tvControlMsg \<Rightarrow> nat option \<Rightarrow> nat option \<Rightarrow> ncOp" where
  "nc_tv ne ChannelUp b f = nc_key NcKeyChannelUp b f"
| "nc_tv ne ChannelDown b f = nc_key NcKeyChannelDown b f"
| "nc_tv ne (SetChannel channelInfo) b f = nc_setChannel ne channelInfo b f"
| "nc_tv ne GetCurrentChannel b f = nc_getChannel b f"
| "nc_tv ne SubscribeCurrentChannel b f = ncThen (nc_getChannel b f)
     (\<lambda>s. Inr (nc_addSubscribe ''ChannelChanged'' (ChannelChangedBlock b) f s, []))"
| "nc_tv ne GetChannelList b f = ncGet ''?target=channel_list'' DoneChannelList b f"
| "nc_tv ne Get3DEnabled b f = nc_get3D Done3D b f"
| "nc_tv ne (Set3DEnabled enabled) b f = nc_get3D (DoneSet3D enabled) b f"
| "nc_tv ne Subscribe3DEnabled b f = ncThen (nc_get3D Done3D b f)
     (\<lambda>s. Inr (nc_addSubscribe ''3DMode'' (Changed3DBlock b) f s, []))"
| "nc_tv ne m b f = ncNotSupported f"

fun nc_volume :: "netcastEnv \<Rightarrow> volumeControlMsg \<Rightarrow> nat option \<Rightarrow> nat option \<Rightarrow> ncOp" where
  "nc_volume ne GetVolume b f = ncGet ''?target=volume_info'' DoneVolume b f"
| "nc_volume ne GetMute b f = ncGet ''?target=volume_info'' DoneMute b f"
| "nc_volume ne (SetMute mute) b f = ncGet ''?target=volume_info'' (DoneSetMute mute) b f"
| "nc_volume ne VolumeUp b f = nc_key NcKeyVolumeUp b f"
| "nc_volume ne VolumeDown b f = nc_key NcKeyVolumeDown b f"
| "nc_volume ne m b f = toDLNA ne (VolumeControlMsg m) ForwardPlain b f"

fun nc_power :: "powerControlMsg \<Rightarrow> nat option \<Rightarrow> nat option \<Rightarrow> ncOp" where
  "nc_power PowerOff b f = nc_key NcKeyPower b f"
| "nc_power PowerOn b f = ncNotSupported f"

fun nc_externalInput :: "externalInputMsg \<Rightarrow> nat option \<Rightarrow> nat option \<Rightarrow> ncOp" where
  "nc_externalInput LaunchInputPicker b f = ncSend ''GET''
     (atSuffix (lgeUDAPRequestURI LGE_APPTOAPP_DATA_REQUEST @ ''/'' @ urlEncode ''Input List'')) None DoneInputList FailCaller b f"
| "nc_externalInput (CloseInputPickerMsg l) b f = nc_key NcKeyExit b f"
| "nc_externalInput GetExternalInputList b f = ncNotSupported f"
| "nc_externalInput (SetExternalInput i) b f = ncNotSupported f"

text \<open>The event for an edited text is a document of the XML writer.\<close>

definition textEventDocument :: "string \<Rightarrow> string \<Rightarrow> string result" where
  "textEventDocument text state = rbind xw_new (\<lambda>w. rbind
     (xw_writeElementBlock None ''envelope'' (xw_writeElementBlock None ''api''
        (allOps [xw_writeAttribute None ''type'' ''event'', xw_writeElement ''name'' ''TextEdited'',
           xw_writeElement ''state'' state, xw_writeElement ''value'' text])) w) (\<lambda>w'. Inr (xw_text w')))"

definition sendTextState :: "string \<Rightarrow> string \<Rightarrow> nat option \<Rightarrow> nat option \<Rightarrow> ncOp" where
  "sendTextState text state b f = (\<lambda>s.
     rbind (textEventDocument text state) (\<lambda>payload. ncPost LGE_EVENT_REQUEST payload DoneRaw b f s))"

lemma textEventDocument_text: \<open>textEventDocument text state = Inr (''<envelope><api type="event">'' @ xmlElement ''name'' ''TextEdited''
    @ xmlElement ''state'' (escapeXML state) @ xmlElement ''value'' (escapeXML text) @ ''</api></envelope>'')\<close>
proof -
  define cs where "cs = [Element None ''name'' [] [Chars ''TextEdited''], Element None ''state'' [] [Chars state],
    Element None ''value'' [] [Chars text]]"
  have "xw_writeElementBlock None ''envelope'' (xw_writeElementBlock None ''api''
      (allOps [xw_writeAttribute None ''type'' ''event'', xw_writeElement ''name'' ''TextEdited'',
         xw_writeElement ''state'' state, xw_writeElement ''value'' text]))
    = nodeOp (Element None ''envelope'' [] [Element None ''api'' [Attr None ''type'' ''event''] cs])"
    by (intro ext) (auto simp: xw_writeElement_def writeElement_tree xw_writeElementBlock_def andOp_def cs_def rbind_def split: sum.split)
  then have "textEventDocument text state = rbind (rbind xw_new (\<lambda>w. rbind (setPrefixes [] (xw_write [] w))
      (nodeOp (Element None ''envelope'' [] [Element None ''api'' [Attr None ''type'' ''event''] cs])))) (\<lambda>w. Inr (xw_text w))"
    by (simp add: textEventDocument_def setPrefixes_def xw_new_eq xw_write_def)
  then show ?thesis
    using document_run [of "[]" None "''envelope''" "[]" "[Element None ''api'' [Attr None ''type'' ''event''] cs]" "[]"]
    by (simp add: xml_known_def cs_def qName_def xmlElement_def escapeXMLChar_def)
qed

definition nc_keyboard :: "NetcastTVService \<Rightarrow> string" where
  "nc_keyboard s = (case nc_keyboardString s of None \<Rightarrow> [] | Some k \<Rightarrow> k)"

fun nc_textInput :: "textInputMsg \<Rightarrow> nat option \<Rightarrow> nat option \<Rightarrow> ncOp" where
  "nc_textInput (SendText input) b f = (\<lambda>s. let t = nc_keyboard s @ input in
     sendTextState t ''Editing'' b f (s\<lparr>nc_keyboardString := Some t\<rparr>))"
| "nc_textInput SendEnter b f = (\<lambda>s.
     if nc_keyboard s \<noteq> []
     then ncThen (sendTextState (nc_keyboard s) ''EditEnd'' None None)
       (hideMouse (Some (keyCodeValue NcKeyRed, KeyEntersText)) b f) s
     else Inr (s, ncFail f (Some (generateErrorWithCode ConnectStatusCodeArgumentError
            (Some ''You have not inputted any text to send.'')))))"
| "nc_textInput SendDelete b f = (\<lambda>s.
     if nc_keyboard s \<noteq> []
     then (let t = butlast (nc_keyboard s) in sendTextState t ''Editing'' b f (s\<lparr>nc_keyboardString := Some t\<rparr>))
     else Inr (s, ncFail f (Some (generateErrorWithCode ConnectStatusCodeArgumentError
            (Some ''There are no characters to delete.'')))))"
| "nc_textInput SubscribeTextInputStatus b f = (\<lambda>s.
     Inr (nc_addSubscribe ''KeyboardVisible'' (KeyboardVisibleBlock b) f s, []))"

text \<open>Every message of the protocols the service implements; a message of another one is not understood.\<close>

fun nc_perform :: "netcastEnv \<Rightarrow> string option \<Rightarrow> capMessage \<Rightarrow> nat option \<Rightarrow> nat option \<Rightarrow> ncOp" where
  "nc_perform ne x (LauncherMsg m) = nc_launcher ne x m"
| "nc_perform ne x (ExternalInputMsg m) = nc_externalInput m"
| "nc_perform ne x (MediaControlMsg m) = nc_mediaControl ne m"
| "nc_perform ne x (MediaPlayerMsg m) = nc_mediaPlayer ne m"
| "nc_perform ne x (VolumeControlMsg m) = nc_volume ne m"
| "nc_perform ne x (TVControlMsg m) = nc_tv ne m"
| "nc_perform ne x (KeyControlMsg m) = nc_keyControl m"
| "nc_perform ne x (MouseControlMsg m) = nc_mouse m"
| "nc_perform ne x (TextInputMsg m) = nc_textInput m"
| "nc_perform ne x (PowerControlMsg m) = nc_power m"
| "nc_perform ne x m = (\<lambda>b f s. Inl NSInvalidArgumentException)"

section \<open>Answers of the TV\<close>

text \<open>A value shown with \<open>%lX\<close> (a negative one as 64 bits) and filled with zeros to sixteen digits.\<close>

fun show_hex :: "nat \<Rightarrow> string" where
  "show_hex n = (if n < 16 then [hexU n] else show_hex (n div 16) @ [hexU (n mod 16)])"

declare show_hex.simps [simp del]

function padZeros :: "string \<Rightarrow> string" where
  "padZeros auidString = (if length auidString < 16 then padZeros (CHR ''0'' # auidString) else auidString)"
  by pat_completeness auto
termination by (relation "measure (\<lambda>s. 16 - length s)") auto

declare padZeros.simps [simp del]

definition inputListApp :: "int \<Rightarrow> AppInfo" where
  "inputListApp auid = (appInfoForId (Some (padZeros (show_hex (nat (auid mod 2 ^ 64))))))\<lparr>app_name := Some ''Input List''\<rparr>"

text \<open>A message for a string sent to the response; nil answers NO.\<close>

definition responseIs :: "json option \<Rightarrow> string \<Rightarrow> bool result" where
  "responseIs response s = (case response of
      None \<Rightarrow> Inr False | Some (JStr t) \<Rightarrow> Inr (t = s) | Some _ \<Rightarrow> Inl NSInvalidArgumentException)"

definition appStateOf :: "json option \<Rightarrow> (bool \<times> bool) result" where
  "appStateOf response =
     rbind (responseIs response ''NONE'') (\<lambda>none. if none then Inr (False, False) else
     rbind (responseIs response ''LOAD'') (\<lambda>load. if load then Inr (False, True) else
     rbind (responseIs response ''RUN_NF'') (\<lambda>run. if run then Inr (True, False) else
     rbind (responseIs response ''TERM'') (\<lambda>term. Inr (False, term)))))"

text \<open>The app a name was looked for: what to do with it. The blocks of the search are never nil.\<close>

definition nc_found :: "netcastEnv \<Rightarrow> findUse \<Rightarrow> AppInfo \<Rightarrow> nat option \<Rightarrow> nat option \<Rightarrow> ncOp" where
  "nc_found ne use app success failure s = (case use of
      LaunchFound \<Rightarrow> launchAppWithInfo ne (Some app) success failure s
    | LaunchWithContent content \<Rightarrow> rbind (setContent content app) (\<lambda>app'.
        if success \<noteq> None then launchAppWithInfo ne (Some app') success failure s else Inr (s, []))
    | CloseFound \<Rightarrow> nc_closeApp (Some (appSession ne app None)) success failure s)"

definition nc_appsListed :: "netcastEnv \<Rightarrow> appUse \<Rightarrow> AppInfo list \<Rightarrow> AppInfo list \<Rightarrow> nat option \<Rightarrow> nat option \<Rightarrow> ncOp" where
  "nc_appsListed ne use premiumApps myApps success failure s =
     rbind (collectApps (premiumApps @ myApps) []) (\<lambda>allApps. case use of
       ListApps \<Rightarrow> Inr (s, ncSucceed success (LauncherReply (AppListReply (allValues allApps))))
     | FindApp appId u \<Rightarrow> (case nc_findApp appId (allValues allApps) of
         Some app \<Rightarrow> nc_found ne u app success failure s
       | None \<Rightarrow> Inr (s, ncFail failure (Some (generateErrorWithCode ConnectStatusCodeError
             (Some ''Could not find app with specified id.''))))))"

definition channelsOf :: "netcastEnv \<Rightarrow> json list \<Rightarrow> ChannelInfo list result" where
  "channelsOf ne js = rbind (mapJson (channelInfoFromXML ne) js) (\<lambda>cs.
     Inr (allValues (fold (\<lambda>c d. setKeyed (Some c) (the (chan_number c)) d) cs [])))"

text \<open>A channel list that is no array is reported as empty, and then once more.\<close>

definition nc_channelsListed :: "netcastEnv \<Rightarrow> json option \<Rightarrow> nat option \<Rightarrow> ncOutput list result" where
  "nc_channelsListed ne rawChannels success =
     (let listed = (\<lambda>cs. ncSucceed success (TVControlReply (ChannelListReply cs))) in
      case rawChannels of
        Some (JArr js) \<Rightarrow> rbind (channelsOf ne js) (\<lambda>cs. Inr (listed cs))
      | _ \<Rightarrow> Inr (listed [] @ listed []))"

text \<open>The number of apps of one kind; no app is a failure.\<close>

definition nc_counted :: "json option \<Rightarrow> nat option \<Rightarrow> (int \<Rightarrow> ncOp) \<Rightarrow> ncOp" where
  "nc_counted response failure continue s =
     rbind (rbind (rbind (dataAt response) (\<lambda>d. lookupPath d [''number'', ''text''])) intValue) (\<lambda>n.
       if n = 0 then Inr (s, ncFail failure (Some (generateErrorWithCode ConnectStatusCodeTvError (Some []))))
       else continue n s)"

definition nc_replied :: "nat option \<Rightarrow> ('a \<Rightarrow> capReply) \<Rightarrow> 'a result \<Rightarrow> ncOp" where
  "nc_replied success r v s = rbind v (\<lambda>x. Inr (s, ncSucceed success (r x)))"

definition muteAt :: "json option \<Rightarrow> bool result" where
  "muteAt response = rbind (rbind (dataAt response) (\<lambda>d. lookupPath d [''mute'', ''text''])) boolValue"

definition is3DAt :: "string list \<Rightarrow> json option \<Rightarrow> bool result" where
  "is3DAt path response = rbind (lookupPath response (''envelope'' # path)) (\<lambda>v. responseIs v ''true'')"

fun nc_complete :: "netcastEnv \<Rightarrow> ncDone \<Rightarrow> json option \<Rightarrow> nat option \<Rightarrow> nat option \<Rightarrow> ncOp" where
  "nc_complete ne DoneNothing r b f s = Inr (s, [])"
| "nc_complete ne DoneRaw r b f s = Inr (s, ncSucceed b (ResponseObject r))"
| "nc_complete ne DonePairingShown r b f s =
     rbind (nc_tell SelPairingRequired (PairingRequired PairingTypePinCode) s) (\<lambda>(s', out). Inr (s', NcShowPairingDialog # out))"
| "nc_complete ne (DonePaired code) r b f s = Inr (nc_paired ne code s)"
| "nc_complete ne DoneStopQueue r b f s = Inr (s, [NcCancelQueue])"
| "nc_complete ne (DonePremiumCount use) r b f s =
     nc_counted r f (\<lambda>n. getNumberOfApps appTypeMyApps (DoneMyCount use n) b f) s"
| "nc_complete ne (DoneMyCount use n) r b f s =
     nc_counted r f (\<lambda>m. getAppListForType appTypePremium n (DonePremiumList use m) b f) s"
| "nc_complete ne (DonePremiumList use m) r b f s =
     rbind (appsFromXML r) (\<lambda>apps. getAppListForType appTypeMyApps m (DoneMyList use apps) b f s)"
| "nc_complete ne (DoneMyList use premiumApps) r b f s =
     rbind (appsFromXML r) (\<lambda>myApps. nc_appsListed ne use premiumApps myApps b f s)"
| "nc_complete ne (DoneLaunched app) r b f s =
     Inr (s, ncSucceed b (LauncherReply (AppLaunchReply (appSession ne app r))))"
| "nc_complete ne DoneStoreLaunched r b f s =
     Inr (s, ncSucceed b (LauncherReply (AppLaunchReply ((launchSessionForAppId (Some []))
        \<lparr>ls_name := Some ''LG Smart World'', ls_sessionType := 1, ls_service := Some (ne_self ne)\<rparr>))))"
| "nc_complete ne DoneAppState r b f s =
     (if b = None then Inr (s, []) else nc_replied b (\<lambda>(running, visible). LauncherReply (AppStateReply running visible)) (appStateOf r) s)"
| "nc_complete ne DoneChannel r b f s = rbind (dataAt r) (\<lambda>d.
     if b = None then Inr (s, []) else nc_replied b (\<lambda>c. TVControlReply (CurrentChannelReply c)) (channelInfoFromXML ne d) s)"
| "nc_complete ne DoneChannelList r b f s =
     rbind (dataAt r) (\<lambda>d. rbind (nc_channelsListed ne d b) (\<lambda>out. Inr (s, out)))"
| "nc_complete ne Done3D r b f s =
     nc_replied b (\<lambda>v. TVControlReply (TV3DEnabledReply v)) (is3DAt [''dataList'', ''data'', ''is3D'', ''text''] r) s"
| "nc_complete ne (DoneSet3D enabled) r b f s =
     rbind (is3DAt [''dataList'', ''data'', ''is3D'', ''text''] r) (\<lambda>v.
       if v = enabled then Inr (s, ncSucceed b (ResponseObject None)) else nc_key NcKey3DVideo b f s)"
| "nc_complete ne DoneVolume r b f s =
     nc_replied b (\<lambda>v. VolumeControlReply (VolumeReply (of_int v / 100)))
       (rbind (rbind (dataAt r) (\<lambda>d. lookupPath d [''level'', ''text''])) intValue) s"
| "nc_complete ne DoneMute r b f s = nc_replied b (\<lambda>v. VolumeControlReply (MuteReply v)) (muteAt r) s"
| "nc_complete ne (DoneSetMute mute) r b f s =
     rbind (muteAt r) (\<lambda>v. if v = mute then Inr (s, ncSucceed b (ResponseObject None)) else nc_key NcKeyMute b f s)"
| "nc_complete ne DoneMouseShown r b f s = Inr (s\<lparr>nc_mouseVisible := True\<rparr>, ncSucceed b (ResponseObject None))"
| "nc_complete ne DoneMouseHidden r b f s = Inr (s\<lparr>nc_mouseVisible := False\<rparr>, ncSucceed b (ResponseObject None))"
| "nc_complete ne (DoneHiddenForKey k use) r b f s = sendKeyNow k use b f (s\<lparr>nc_mouseVisible := False\<rparr>)"
| "nc_complete ne DoneKeyEnters r b f s = Inr (s\<lparr>nc_keyboardString := Some []\<rparr>, ncSucceed b (ResponseObject None))"
| "nc_complete ne DoneMoved r b f s =
     rbind (if nc_mouseDistance s \<noteq> (0, 0) then moveMouseBy None None s else Inr (s\<lparr>nc_mouseIsMoving := False\<rparr>, []))
       (\<lambda>(s', out). Inr (s', out @ ncSucceed b (ResponseObject r)))"
| "nc_complete ne DoneInputList r b f s = (case r of
     None \<Rightarrow> Inr (s, ncFail f (Some (generateErrorWithCode ConnectStatusCodeError (Some ''Could not find app with specified id.''))))
   | Some v \<Rightarrow> rbind (intValue (Some v)) (\<lambda>auid. launchAppWithInfo ne (Some (inputListApp auid)) b f s))"

fun nc_commandFails :: "ncFailed \<Rightarrow> NSError option \<Rightarrow> nat option \<Rightarrow> ncOp" where
  "nc_commandFails FailCaller e f s = Inr (s, ncFail f e)"
| "nc_commandFails FailPairingRequest e f s = nc_tell SelDidFailConnect (DidFailConnect e) s"
| "nc_commandFails FailPairing e f s = nc_tell SelPairingFailed (PairingFailed e) s"
| "nc_commandFails FailMove e f s = Inr (s\<lparr>nc_mouseIsMoving := False\<rparr>, ncFail f e)"

definition nc_answered :: "netcastEnv \<Rightarrow> ncCommand \<Rightarrow> httpAnswer \<Rightarrow> ncOp" where
  "nc_answered ne c a s = (case nc_answer a of
      Inl e \<Rightarrow> nc_commandFails (nco_failed c) e (nco_failure c) s
    | Inr r \<Rightarrow> nc_complete ne (nco_done c) r (nco_success c) (nco_failure c) s)"

section \<open>Events of the TV\<close>

text \<open>
  The server for events: a request is parsed on the server's queue; what it means for the text or for a
  subscription runs on the main queue.
\<close>

datatype ncMainBlock = SetKeyboardText string | HandleEvent "string option" jdict

definition nc_serverRequest :: "jdict option \<Rightarrow> ncMainBlock list result" where
  "nc_serverRequest responseXML = (case responseXML of
      None \<Rightarrow> Inr []
    | Some d \<Rightarrow> rbind (lookupPath (Some (JObj d)) [''envelope'', ''api'', ''name'', ''text'']) (\<lambda>name.
        if asString name = Some ''TextEdited''
        then rbind (lookupPath (Some (JObj d)) [''envelope'', ''api'', ''value'', ''text'']) (\<lambda>text. case asString text of
            Some t \<Rightarrow> Inr (if t = [] then [] else [SetKeyboardText t]) | None \<Rightarrow> Inr [])
        else Inr [HandleEvent (asString name) d]))"

fun nc_eventBlock :: "netcastEnv \<Rightarrow> jdict \<Rightarrow> ncEventBlock \<Rightarrow> ncOp" where
  "nc_eventBlock ne d (ChannelChangedBlock b) s = rbind (lookupPath (Some (JObj d)) [''envelope'', ''api'']) (\<lambda>info.
     if b = None then Inr (s, []) else nc_replied b (\<lambda>c. TVControlReply (CurrentChannelReply c)) (channelInfoFromXML ne info) s)"
| "nc_eventBlock ne d (Changed3DBlock b) s =
     nc_replied b (\<lambda>v. TVControlReply (TV3DEnabledReply v)) (is3DAt [''api'', ''value'', ''text''] (Some (JObj d))) s"
| "nc_eventBlock ne d (KeyboardVisibleBlock b) s =
     rbind (is3DAt [''api'', ''value'', ''text''] (Some (JObj d))) (\<lambda>v.
       ncThen (sendTextState [] ''EditStart'' None None) (\<lambda>s. Inr (s, ncSucceed b (TextInputReply (TextInputStatusReply
         \<lparr>ti_keyboardType = UIKeyboardTypeDefault, ti_isVisible = v, ti_rawData = Some (JObj d)\<rparr>)))) s)"

fun nc_eventBlocks :: "netcastEnv \<Rightarrow> jdict \<Rightarrow> ncEventBlock list \<Rightarrow> ncOp" where
  "nc_eventBlocks ne d [] s = Inr (s, [])"
| "nc_eventBlocks ne d (e # es) s = ncThen (nc_eventBlock ne d e) (nc_eventBlocks ne d es) s"

fun nc_runMain :: "netcastEnv \<Rightarrow> ncMainBlock \<Rightarrow> ncOp" where
  "nc_runMain ne (SetKeyboardText t) s = Inr (s\<lparr>nc_keyboardString := Some t\<rparr>, [])"
| "nc_runMain ne (HandleEvent event d) s =
     (case Option.bind (nc_subscribed s) (\<lambda>subs. objectForKeyN subs event) of
        None \<Rightarrow> Inr (s, []) | Some u \<Rightarrow> nc_eventBlocks ne d (nsu_success u) s)"

end
