(* ===== verification/NetcastRuns.thy ===== *)
theory NetcastRuns
  imports Netcast
begin

text \<open>
  Runs of the Netcast service: the application's calls, the answers of the TV to the commands that wait, in any
  order, events and connections interleave. Every call is answered exactly once, and answering the waiting
  commands comes to an end although answers send new commands. A command whose completion is cancelled with the
  queue is one that is never answered.
\<close>

section \<open>Steps\<close>

record ncSystem =
  ncs_service :: NetcastTVService
  ncs_commands :: "ncCommand list"

datatype ncInput =
    NcCall capMessage "nat option" "nat option"
  | NcAnswered nat httpAnswer
  | NcMain ncMainBlock
  | NcConnect | NcDisconnect | NcBackground | NcForeground | NcLostReachability
  | NcAlert nat "string option"
  | NcUnsubscribe nat

definition commandsIn :: "ncOutput list \<Rightarrow> ncCommand list" where
  "commandsIn out = List.map_filter (\<lambda>x. case x of NcCommand c \<Rightarrow> Some c | _ \<Rightarrow> None) out"

definition ncs_do :: "ncOp \<Rightarrow> ncSystem \<Rightarrow> (ncSystem \<times> ncOutput list) result" where
  "ncs_do f y = rbind (f (ncs_service y)) (\<lambda>(s, out).
     Inr (\<lparr>ncs_service = s, ncs_commands = ncs_commands y @ commandsIn out\<rparr>, out))"

definition removeAt :: "nat \<Rightarrow> 'a list \<Rightarrow> 'a list" where
  "removeAt i xs = take i xs @ drop (Suc i) xs"

text \<open>Which of the waiting commands is answered next is up to the network: the number is taken modulo their number.\<close>

definition ncs_answer :: "netcastEnv \<Rightarrow> nat \<Rightarrow> httpAnswer \<Rightarrow> ncSystem \<Rightarrow> (ncSystem \<times> ncOutput list) result" where
  "ncs_answer ne i a y = (let cs = ncs_commands y; k = i mod length cs in
     if cs = [] then Inr (y, []) else ncs_do (nc_answered ne (cs ! k) a) (y\<lparr>ncs_commands := removeAt k cs\<rparr>))"

fun ncs_step :: "netcastEnv \<Rightarrow> string option \<Rightarrow> ncInput \<Rightarrow> ncSystem \<Rightarrow> (ncSystem \<times> ncOutput list) result" where
  "ncs_step ne x (NcCall m b f) y = ncs_do (nc_perform ne x m b f) y"
| "ncs_step ne x (NcAnswered i a) y = ncs_answer ne i a y"
| "ncs_step ne x (NcMain m) y = ncs_do (nc_runMain ne m) y"
| "ncs_step ne x NcConnect y = ncs_do (nc_connect ne) y"
| "ncs_step ne x NcDisconnect y = ncs_do nc_disconnect y"
| "ncs_step ne x NcBackground y = ncs_do (nc_notified nc_hAppDidEnterBackground) y"
| "ncs_step ne x NcForeground y = ncs_do (nc_notified (nc_hAppDidBecomeActive ne)) y"
| "ncs_step ne x NcLostReachability y = ncs_do nc_didLoseReachability y"
| "ncs_step ne x (NcAlert i code) y = ncs_do (nc_alertDismissed i code) y"
| "ncs_step ne x (NcUnsubscribe r) y =
     ncs_do (\<lambda>s. Inr (fst (nc_sendSubscription r SubscriptionTypeUnsubscribe s), [])) y"

fun ncs_run :: "netcastEnv \<Rightarrow> string option \<Rightarrow> ncInput list \<Rightarrow> ncSystem \<Rightarrow> (ncSystem \<times> ncOutput list) result" where
  "ncs_run ne x [] y = Inr (y, [])"
| "ncs_run ne x (i # is) y = rbind (ncs_step ne x i y) (\<lambda>(y1, out1).
     rbind (ncs_run ne x is y1) (\<lambda>(y2, out2). Inr (y2, out1 @ out2)))"

section \<open>What is owed to a call\<close>

text \<open>
  A call is known by the number of its blocks. An output settles it when it calls one of its blocks or hands it to
  another service; a command owes it an answer.
\<close>

fun settles :: "nat \<Rightarrow> ncOutput \<Rightarrow> bool" where
  "settles b (NcReply n r) \<longleftrightarrow> n = b"
| "settles b (NcError n e) \<longleftrightarrow> n = b"
| "settles b (NcForward r m u bs f) \<longleftrightarrow> f = Some b"
| "settles b x \<longleftrightarrow> False"

definition settled :: "nat \<Rightarrow> ncOutput list \<Rightarrow> nat" where
  "settled b out = length (filter (settles b) out)"

definition owed :: "nat \<Rightarrow> ncCommand list \<Rightarrow> nat" where
  "owed b cs = length (filter (\<lambda>c. nco_failure c = Some b) cs)"

text \<open>The blocks come in pairs, and a command that has them calls them.\<close>

definition pairedBlocks :: "nat \<Rightarrow> nat option \<Rightarrow> nat option \<Rightarrow> bool" where
  "pairedBlocks b success failure \<longleftrightarrow> (success = Some b \<longleftrightarrow> failure = Some b)"

fun callsBlocks :: "ncDone \<Rightarrow> bool" where
  "callsBlocks DoneNothing = False"
| "callsBlocks DonePairingShown = False"
| "callsBlocks (DonePaired code) = False"
| "callsBlocks DoneStopQueue = False"
| "callsBlocks DoneChannelList = False"
| "callsBlocks d = True"

definition commandOk :: "nat \<Rightarrow> ncCommand \<Rightarrow> bool" where
  "commandOk b c \<longleftrightarrow> pairedBlocks b (nco_success c) (nco_failure c)
     \<and> (nco_failure c = Some b \<longrightarrow> nco_failed c \<in> {FailCaller, FailMove} \<and> callsBlocks (nco_done c))"

text \<open>No subscription holds a block of the call.\<close>

fun eventBlockOf :: "ncEventBlock \<Rightarrow> nat option" where
  "eventBlockOf (ChannelChangedBlock b) = b"
| "eventBlockOf (Changed3DBlock b) = b"
| "eventBlockOf (KeyboardVisibleBlock b) = b"

definition notSubscribed :: "nat \<Rightarrow> NetcastTVService \<Rightarrow> bool" where
  "notSubscribed b s \<longleftrightarrow> (\<forall>subs u. nc_subscribed s = Some subs \<longrightarrow> u \<in> set (allValues subs)
     \<longrightarrow> Some b \<notin> eventBlockOf ` set (nsu_success u))"

definition paid :: "nat \<Rightarrow> bool \<Rightarrow> (NetcastTVService \<times> ncOutput list) result \<Rightarrow> bool" where
  "paid b due r \<longleftrightarrow> (\<forall>s out. r = Inr (s, out) \<longrightarrow>
     notSubscribed b s \<and> settled b out + owed b (commandsIn out) = of_bool due \<and> (\<forall>c \<in> set (commandsIn out). commandOk b c))"

definition pays :: "nat \<Rightarrow> bool \<Rightarrow> ncOp \<Rightarrow> bool" where
  "pays b due f \<longleftrightarrow> (\<forall>s. notSubscribed b s \<longrightarrow> paid b due (f s))"

named_theorems pay

lemma settled_simps [simp]: "settled b [] = 0" "settled b (x # xs) = of_bool (settles b x) + settled b xs"
  "settled b (xs @ ys) = settled b xs + settled b ys"
  by (simp_all add: settled_def)

lemma owed_simps [simp]: "owed b [] = 0" "owed b (c # cs) = of_bool (nco_failure c = Some b) + owed b cs"
  "owed b (xs @ ys) = owed b xs + owed b ys"
  by (simp_all add: owed_def)

lemma commandsIn_simps [simp]: "commandsIn [] = []" "commandsIn (NcCommand c # xs) = c # commandsIn xs"
  "commandsIn (NcReply n r # xs) = commandsIn xs" "commandsIn (NcError n e # xs) = commandsIn xs"
  "commandsIn (NcNilBlockCalled # xs) = commandsIn xs" "commandsIn (NcForward q m u bs f # xs) = commandsIn xs"
  "commandsIn (NcTellOnMain e' # xs) = commandsIn xs" "commandsIn (NcTell e' # xs) = commandsIn xs"
  "commandsIn (NcShowPairingDialog # xs) = commandsIn xs" "commandsIn (NcCancelQueue # xs) = commandsIn xs"
  "commandsIn (xs @ ys) = commandsIn xs @ commandsIn ys"
  by (simp_all add: commandsIn_def map_filter_def)

lemma notSubscribed_frame [simp]:
  "notSubscribed b (s\<lparr>nc_base := v0\<rparr>) = notSubscribed b s"
  "notSubscribed b (s\<lparr>nc_config := v1\<rparr>) = notSubscribed b s"
  "notSubscribed b (s\<lparr>nc_description := v2\<rparr>) = notSubscribed b s"
  "notSubscribed b (s\<lparr>nc_commandURL := v3\<rparr>) = notSubscribed b s"
  "notSubscribed b (s\<lparr>nc_dlna := v4\<rparr>) = notSubscribed b s"
  "notSubscribed b (s\<lparr>nc_dial := v5\<rparr>) = notSubscribed b s"
  "notSubscribed b (s\<lparr>nc_mouseVisible := v6\<rparr>) = notSubscribed b s"
  "notSubscribed b (s\<lparr>nc_mouseDistance := v7\<rparr>) = notSubscribed b s"
  "notSubscribed b (s\<lparr>nc_mouseIsMoving := v8\<rparr>) = notSubscribed b s"
  "notSubscribed b (s\<lparr>nc_keyboardString := v9\<rparr>) = notSubscribed b s"
  "notSubscribed b (s\<lparr>nc_nextSubscription := v10\<rparr>) = notSubscribed b s"
  "notSubscribed b (s\<lparr>nc_reconnectOnWake := v11\<rparr>) = notSubscribed b s"
  "notSubscribed b (s\<lparr>nc_observers := v12\<rparr>) = notSubscribed b s"
  "notSubscribed b (s\<lparr>nc_server := v13\<rparr>) = notSubscribed b s"
  "notSubscribed b (s\<lparr>nc_reachability := v14\<rparr>) = notSubscribed b s"
  by (simp_all add: notSubscribed_def)

lemma tellOnMain_pays [simp]: "settled b (nc_tellOnMain sel e s) = 0" "commandsIn (nc_tellOnMain sel e s) = []"
  by (simp_all add: nc_tellOnMain_def svc_tell_def)

lemma ncSucceed_pays [simp]: "settled b (ncSucceed f r) = of_bool (f = Some b)" "commandsIn (ncSucceed f r) = []"
  by (auto simp: ncSucceed_def split: option.splits)

lemma ncFail_pays [simp]: "settled b (ncFail f e) = of_bool (f = Some b)" "commandsIn (ncFail f e) = []"
  by (auto simp: ncFail_def split: option.splits)

lemma paid_Inl [simp]: "paid b due (Inl e)"
  by (simp add: paid_def)

lemma paid_Inr [simp]: "paid b due (Inr (s, out)) \<longleftrightarrow> notSubscribed b s
    \<and> settled b out + owed b (commandsIn out) = of_bool due \<and> (\<forall>c \<in> set (commandsIn out). commandOk b c)"
  by (simp add: paid_def)

lemma paid_rbind: "(\<And>v. x = Inr v \<Longrightarrow> paid b due (g v)) \<Longrightarrow> paid b due (rbind x g)"
  by (cases x) simp_all

lemma paysD: "pays b due f \<Longrightarrow> notSubscribed b s \<Longrightarrow> paid b due (f s)"
  by (simp add: pays_def)

lemma paysI: "(\<And>s. notSubscribed b s \<Longrightarrow> paid b due (f s)) \<Longrightarrow> pays b due f"
  by (simp add: pays_def)

lemma pays_ext: "(\<And>s. f s = g s) \<Longrightarrow> pays b due g \<Longrightarrow> pays b due f"
  by (simp add: pays_def)

lemma pays_pure [pay]: "due \<longleftrightarrow> f = Some b \<Longrightarrow> pays b due (\<lambda>s. Inr (s, ncFail f e))"
  "due \<longleftrightarrow> f = Some b \<Longrightarrow> pays b due (\<lambda>s. Inr (s, ncSucceed f r))" "\<not> due \<Longrightarrow> pays b due (\<lambda>s. Inr (s, []))"
  by (simp_all add: pays_def)

lemma pays_raises [pay]: "pays b due (\<lambda>s. Inl e)"
  by (simp add: pays_def)

lemma pays_notSupported [pay]: "due \<longleftrightarrow> f = Some b \<Longrightarrow> pays b due (ncNotSupported f)"
  by (simp add: pays_def ncNotSupported_def)

lemma getCommandURL_subscribed: "nc_getCommandURL s = (s', u) \<Longrightarrow> notSubscribed b s' = notSubscribed b s"
  by (auto simp: nc_getCommandURL_def Let_def split: option.splits)

lemma pays_send [pay]:
  assumes "due \<longleftrightarrow> f = Some b" "pairedBlocks b v f" "due \<Longrightarrow> fl \<in> {FailCaller, FailMove} \<and> callsBlocks d"
  shows "pays b due (ncSend m t p d fl v f)"
  using assms by (auto simp: pays_def ncSend_def commandOk_def getCommandURL_subscribed split: prod.split option.split)

lemma pays_post [pay]: "due \<longleftrightarrow> f = Some b \<Longrightarrow> pairedBlocks b v f \<Longrightarrow> (due \<Longrightarrow> callsBlocks d) \<Longrightarrow> pays b due (ncPost u p d v f)"
  and pays_get [pay]: "due \<longleftrightarrow> f = Some b \<Longrightarrow> pairedBlocks b v f \<Longrightarrow> (due \<Longrightarrow> callsBlocks d) \<Longrightarrow> pays b due (ncGet q d v f)"
  unfolding ncPost_def ncGet_def by (rule pays_send; simp)+

lemma pays_then [pay]:
  assumes "pays b due f" "pays b due' g" "\<not> (due \<and> due')" "due'' \<longleftrightarrow> due \<or> due'"
  shows "pays b due'' (ncThen f g)"
proof (rule paysI)
  fix s assume ns: "notSubscribed b s"
  show "paid b due'' (ncThen f g s)" unfolding ncThen_def
  proof (intro paid_rbind, clarify, intro paid_rbind, clarify)
    fix s1 out1 s2 out2 assume "f s = Inr (s1, out1)" and g: "g s1 = Inr (s2, out2)"
    then have p: "paid b due (Inr (s1, out1))" using paysD [OF assms(1) ns] by simp
    then have "paid b due' (Inr (s2, out2))" using paysD [OF assms(2), of s1] g by simp
    with p assms(3,4) show "paid b due'' (Inr (s2, out1 @ out2))" by auto
  qed
qed

lemma pays_rbind [pay]: "(\<And>v. pays b due (\<lambda>s. g v s)) \<Longrightarrow> pays b due (\<lambda>s. rbind x (\<lambda>v. g v s))"
  by (auto simp: pays_def intro: paid_rbind)

lemma pays_if [pay]: "pays b due f \<Longrightarrow> pays b due g \<Longrightarrow> pays b due (\<lambda>s. if P s then f s else g s)"
  "pays b due f \<Longrightarrow> pays b due g \<Longrightarrow> pays b due (if Q then f else g)"
  by (simp_all add: pays_def)

lemma pays_pre: "pays b due f \<Longrightarrow> (\<And>s. notSubscribed b s \<Longrightarrow> notSubscribed b (g s)) \<Longrightarrow> pays b due (\<lambda>s. f (g s))"
  by (simp add: pays_def)

lemma pays_case_option [pay]: "pays b due f \<Longrightarrow> (\<And>v. pays b due (g v)) \<Longrightarrow>
    pays b due (\<lambda>s. case x of None \<Rightarrow> f s | Some v \<Rightarrow> g v s)"
  by (cases x) simp_all

lemma pays_case_pair [pay]: "(\<And>v u. pays b due (g v u)) \<Longrightarrow> pays b due (\<lambda>s. case x of (v, u) \<Rightarrow> g v u s)"
  by (cases x) simp

text \<open>First a query of the state that may raise and change the state, then a request.\<close>

lemma pays_query: "(\<And>s s' v. q s = Inr (s', v) \<Longrightarrow> notSubscribed b s' = notSubscribed b s) \<Longrightarrow> (\<And>v. pays b due (g v)) \<Longrightarrow>
    pays b due (\<lambda>s. rbind (q s) (\<lambda>(s', v). g v s'))"
  unfolding pays_def by (auto intro!: paid_rbind)

lemma pays_query_pair: "(\<And>s s' v. q s = (s', v) \<Longrightarrow> notSubscribed b s' = notSubscribed b s) \<Longrightarrow> (\<And>v. pays b due (g v)) \<Longrightarrow>
    pays b due (\<lambda>s. case q s of (s', v) \<Rightarrow> g v s')"
  by (simp add: pays_def split: prod.split)

section \<open>Every request settles its call once\<close>

lemma pays_findApps [pay]: "pairedBlocks b v f \<Longrightarrow> pays b (f = Some b) (nc_getAppList use v f)"
  by (simp add: nc_getAppList_def getNumberOfApps_def pay)

lemma pays_launchApp [pay]: "pairedBlocks b v f \<Longrightarrow> pays b (f = Some b) (launchAppWithInfo ne a v f)"
  by (rule pays_ext [OF launchAppWithInfo_def]) (simp add: Let_def pay)

lemma pays_closeApp [pay]: "pairedBlocks b v f \<Longrightarrow> pays b (f = Some b) (nc_closeApp l v f)"
  by (simp add: nc_closeApp_def Let_def pay)

lemma dialService_subscribed: "dialService ne s = (s', r) \<Longrightarrow> notSubscribed b s' = notSubscribed b s"
  and dlnaService_subscribed: "dlnaService ne s = (s', r) \<Longrightarrow> notSubscribed b s' = notSubscribed b s"
  and modelNumber_subscribed: "nc_modelNumber ne x s = Inr (s', m) \<Longrightarrow> notSubscribed b s' = notSubscribed b s"
  by (auto simp: dialService_def dlnaService_def nc_modelNumber_def Let_def rbind_Inr_iff split: option.splits)

lemma pays_youTube [pay]: "pairedBlocks b v f \<Longrightarrow> pays b (f = Some b) (nc_launchYouTube ne c t v f)"
  by (rule pays_ext [OF nc_launchYouTube_def], rule pays_query_pair)
    (simp_all add: dialService_subscribed pay pays_def [of _ _ "\<lambda>s. Inr (s, [NcForward _ _ _ _ _])"])

lemma pays_toDLNA [pay]: "pays b (f = Some b) (toDLNA ne m u v f)"
  by (rule pays_ext [OF toDLNA_def], rule pays_query_pair)
    (simp_all add: dlnaService_subscribed pay pays_def [of _ _ "\<lambda>s. Inr (s, [NcForward _ _ _ _ _])"])

lemma pays_netflix [pay]: "pairedBlocks b v f \<Longrightarrow> pays b (f = Some b) (nc_launchNetflix ne x c v f)"
  by (rule pays_ext [OF nc_launchNetflix_def], rule pays_query) (simp_all add: modelNumber_subscribed pay)

lemma pays_launcher [pay]: "pairedBlocks b v f \<Longrightarrow> pays b (f = Some b) (nc_launcher ne x m v f)"
  by (cases m) (simp_all add: pay nc_launchAppStore_def nc_getAppState_def)

lemma pays_sendKeyNow [pay]: "pairedBlocks b v f \<Longrightarrow> pays b (f = Some b) (sendKeyNow k u v f)"
  by (simp add: sendKeyNow_def pay split: keyUse.split)

lemma pays_hideMouse [pay]: "pairedBlocks b v f \<Longrightarrow> pays b (f = Some b) (hideMouse k v f)"
  by (rule pays_ext [OF hideMouse_def]) (auto intro!: pay simp: pairedBlocks_def split: option.split)

lemma pays_key [pay]: "pairedBlocks b v f \<Longrightarrow> pays b (f = Some b) (nc_key k v f)"
  "pairedBlocks b v f \<Longrightarrow> pays b (f = Some b) (nc_sendKeyCode n v f)"
  by (simp_all add: nc_key_def nc_sendKeyCode_def pay)

lemma pays_keyControl [pay]: "pairedBlocks b v f \<Longrightarrow> pays b (f = Some b) (nc_keyControl m v f)"
  by (cases m) (simp_all add: pay)

lemma pays_showMouse [pay]: "pairedBlocks b v f \<Longrightarrow> pays b (f = Some b) (showMouse v f)"
  by (rule pays_ext [OF showMouse_def]) (auto intro!: pay simp: pairedBlocks_def)

lemma pays_moveMouseBy [pay]: "pairedBlocks b v f \<Longrightarrow> pays b (f = Some b) (moveMouseBy v f)"
  unfolding pays_def moveMouseBy_def by (auto intro!: paysD [OF pays_send] split: prod.split)

text \<open>
  The messages with one answer. Subscriptions are answered by every event; a movement while another one is being
  sent, and the disconnection of the pointer, call no block; a channel list that is no array is answered twice.
\<close>

fun answersOnce :: "capMessage \<Rightarrow> bool" where
  "answersOnce (MouseControlMsg m) \<longleftrightarrow> m \<in> {ConnectMouse, MouseClick} \<or> (\<exists>dx dy. m = MouseScroll dx dy)"
| "answersOnce (TextInputMsg m) \<longleftrightarrow> m \<noteq> SubscribeTextInputStatus"
| "answersOnce (TVControlMsg m) \<longleftrightarrow> m \<notin> {SubscribeCurrentChannel, Subscribe3DEnabled, GetChannelList}"
| "answersOnce m \<longleftrightarrow> True"

lemma notSubscribed_add [simp]: "eventBlockOf blk \<noteq> Some b \<Longrightarrow> notSubscribed b s \<Longrightarrow> notSubscribed b (nc_addSubscribe event blk f s)"
proof -
  assume blk: "eventBlockOf blk \<noteq> Some b" and ns: "notSubscribed b s"
  define subs where "subs = (case nc_subscribed s of None \<Rightarrow> [] | Some d \<Rightarrow> d)"
  have old: "Some b \<notin> eventBlockOf ` set (nsu_success u)" if "u \<in> set (allValues subs)" for u
  proof (cases "nc_subscribed s")
    case None
    with that show ?thesis by (simp add: subs_def allValues_def)
  next
    case (Some d)
    with that have "u \<in> set (allValues d)" by (simp add: subs_def)
    with ns Some show ?thesis unfolding notSubscribed_def by blast
  qed
  have found: "u \<in> set (allValues subs)" if "objectForKey subs event = Some u" for u
    using that by (auto simp: objectForKey_def allValues_def image_iff dest!: map_of_SomeD intro!: bexI [of _ "(event, u)"])
  have vals: "set (allValues (setObject v k d)) \<subseteq> insert v (set (allValues d))" for v :: ncSubscription and k d
    by (induction d) (auto simp: setObject_def allValues_def)
  have clean: "Some b \<notin> eventBlockOf ` set (nsu_success u)" if "objectForKey subs event = Some u" for u
    using old found that by blast
  show ?thesis
  proof (unfold notSubscribed_def, intro allI impI)
    fix subs' u assume s': "nc_subscribed (nc_addSubscribe event blk f s) = Some subs'" and u: "u \<in> set (allValues subs')"
    define old_sub where "old_sub = (case objectForKey subs event of Some v \<Rightarrow> v
      | None \<Rightarrow> \<lparr>nsu_ref = nc_nextSubscription s, nsu_success = [], nsu_failure = [], nsu_isSubscribed = False\<rparr>)"
    define w where "w = old_sub\<lparr>nsu_success := nsu_success old_sub @ [blk],
        nsu_failure := collectBlock f (Some (nsu_failure old_sub)), nsu_isSubscribed := True\<rparr>"
    have "nc_subscribed (nc_addSubscribe event blk f s) = Some (setObject w event subs)"
    proof (cases "objectForKey subs event")
      case None
      then have "w = \<lparr>nsu_ref = nc_nextSubscription s, nsu_success = [blk], nsu_failure = collectBlock f (Some []), nsu_isSubscribed = True\<rparr>"
        by (simp add: w_def old_sub_def)
      then show ?thesis unfolding nc_addSubscribe_def Let_def subs_def [symmetric] by (simp add: None)
    next
      case (Some v)
      then have v: "w = v\<lparr>nsu_success := nsu_success v @ [blk], nsu_failure := collectBlock f (Some (nsu_failure v)), nsu_isSubscribed := True\<rparr>"
        by (simp add: w_def old_sub_def)
      show ?thesis unfolding nc_addSubscribe_def Let_def subs_def [symmetric] Some option.case prod.case v by simp
    qed
    with s' have subs': "subs' = setObject w event subs" by simp
    have "nsu_success w = nsu_success old_sub @ [blk]" by (simp add: w_def)
    moreover have "Some b \<notin> eventBlockOf ` set (nsu_success old_sub)"
    proof (cases "objectForKey subs event")
      case None
      then show ?thesis by (simp add: old_sub_def)
    next
      case (Some v)
      then have "old_sub = v" by (simp add: old_sub_def)
      with clean [OF Some] show ?thesis by simp
    qed
    ultimately have w: "Some b \<notin> eventBlockOf ` set (nsu_success w)" using blk [symmetric] by (simp del: image_iff)
    have "u \<in> insert w (set (allValues subs))" using vals [of w event subs] u unfolding subs' by (rule subsetD)
    with w show "Some b \<notin> eventBlockOf ` set (nsu_success u)" using old [of u] by auto
  qed
qed

lemma pays_mediaPlayer [pay]: "pays b (f = Some b) (nc_mediaPlayer ne m v f)"
  by (cases m) (simp_all add: nc_displayImage_def [abs_def] nc_playMedia_def [abs_def] pay)

lemma pays_mediaControl [pay]: "pairedBlocks b v f \<Longrightarrow> pays b (f = Some b) (nc_mediaControl ne m v f)"
  by (cases m) (simp_all add: pay)

lemma pays_volume [pay]: "pairedBlocks b v f \<Longrightarrow> pays b (f = Some b) (nc_volume ne m v f)"
  by (cases m) (simp_all add: pay)

lemma pays_power [pay]: "pairedBlocks b v f \<Longrightarrow> pays b (f = Some b) (nc_power m v f)"
  by (cases m) (simp_all add: pay)

lemma pays_externalInput [pay]: "pairedBlocks b v f \<Longrightarrow> pays b (f = Some b) (nc_externalInput m v f)"
  by (cases m) (simp_all add: pay)

lemma pays_setChannel [pay]: "pairedBlocks b v f \<Longrightarrow> pays b (f = Some b) (nc_setChannel ne c v f)"
  by (rule pays_ext [OF nc_setChannel_def]) (simp add: Let_def pay)

lemma pays_subscribing:
  "eventBlockOf blk \<noteq> Some b \<Longrightarrow> pays b False (\<lambda>s. Inr (nc_addSubscribe event blk f s, []))"
  by (simp add: pays_def)

lemma pays_tv [pay]:
  assumes "pairedBlocks b v f" "f = Some b \<Longrightarrow> answersOnce (TVControlMsg m)"
  shows "pays b (f = Some b) (nc_tv ne m v f)"
  using assms
  by (cases m) (auto simp: nc_get3D_def nc_getChannel_def pairedBlocks_def intro!: pay pays_subscribing)

lemma pays_sendText [pay]: "pairedBlocks b v f \<Longrightarrow> pays b (f = Some b) (sendTextState t st v f)"
  by (simp add: sendTextState_def textEventDocument_text pay)

lemma pairedBlocks_None [simp]: "pairedBlocks b None None"
  by (simp add: pairedBlocks_def)

lemma pays_textInput [pay]:
  assumes "pairedBlocks b v f" "f = Some b \<Longrightarrow> answersOnce (TextInputMsg m)"
  shows "pays b (f = Some b) (nc_textInput m v f)"
proof (cases m)
  case SubscribeTextInputStatus
  then show ?thesis using assms by (auto simp: pays_subscribing pairedBlocks_def)
next
  case (SendText t)
  have "paid b (f = Some b) (sendTextState u st v f s)" if "notSubscribed b s" for u st s
    using that pays_sendText [OF assms(1)] by (rule paysD [rotated])
  then show ?thesis by (simp add: SendText pays_def Let_def)
next
  case SendEnter
  have "pays b (f = Some b) (ncThen (sendTextState t ''EditEnd'' None None) (hideMouse k v f))" for t k
    by (rule pays_then [OF pays_sendText pays_hideMouse]) (simp_all add: assms)
  then show ?thesis by (simp add: SendEnter pays_def)
next
  case SendDelete
  have "paid b (f = Some b) (sendTextState u st v f s)" if "notSubscribed b s" for u st s
    using that pays_sendText [OF assms(1)] by (rule paysD [rotated])
  then show ?thesis by (simp add: SendDelete pays_def Let_def)
qed

lemma pays_mouse [pay]:
  assumes "pairedBlocks b v f" "f = Some b \<Longrightarrow> answersOnce (MouseControlMsg m)"
  shows "pays b (f = Some b) (nc_mouse m v f)"
proof (cases m)
  case ConnectMouse
  then show ?thesis using paysD [OF pays_showMouse [OF assms(1)]] by (simp add: pays_def)
next
  case DisconnectMouse
  then have f: "f \<noteq> Some b" using assms by auto
  show ?thesis using paysD [OF pays_hideMouse [of b None None]] f by (simp add: DisconnectMouse pays_def)
next
  case (MouseMove dx dy)
  then have f: "f \<noteq> Some b" using assms by auto
  show ?thesis using paysD [OF pays_moveMouseBy [OF assms(1)]] f by (simp add: MouseMove pays_def nc_move_def Let_def)
next
  case MouseClick
  with assms(1) show ?thesis by (simp add: pays_post)
next
  case (MouseScroll dx dy)
  with assms(1) show ?thesis by (simp add: pays_post)
qed

lemma pays_perform [pay]:
  assumes "pairedBlocks b v f" "f = Some b \<Longrightarrow> answersOnce m"
  shows "pays b (f = Some b) (nc_perform ne x m v f)"
  using assms
  by (cases m) (simp_all only: nc_perform.simps pays_launcher pays_externalInput pays_mediaControl
    pays_mediaPlayer pays_volume pays_tv pays_keyControl pays_mouse pays_textInput pays_power pays_raises)

lemma pays_found [pay]:
  assumes "pairedBlocks b v f" shows "pays b (f = Some b) (nc_found ne u a v f)"
proof (cases u)
  case (LaunchWithContent c)
  have "pays b (f = Some b) (\<lambda>s. if v \<noteq> None then launchAppWithInfo ne (Some a') v f s else Inr (s, []))" for a'
  proof (cases v)
    case None
    with assms show ?thesis by (auto simp: pairedBlocks_def pays_def)
  next
    case (Some n)
    with pays_launchApp [OF assms] show ?thesis by simp
  qed
  then have "pays b (f = Some b) (\<lambda>s. rbind (setContent c a) (\<lambda>a'. if v \<noteq> None then launchAppWithInfo ne (Some a') v f s else Inr (s, [])))"
    by (rule pays_rbind)
  then show ?thesis by (simp add: nc_found_def [abs_def] LaunchWithContent)
qed (use assms in \<open>simp_all add: nc_found_def [abs_def] pays_launchApp pays_closeApp\<close>)

lemma pays_appsListed [pay]: "pairedBlocks b v f \<Longrightarrow> pays b (f = Some b) (nc_appsListed ne u p m v f)"
  by (rule pays_ext [OF nc_appsListed_def], rule pays_rbind)
    (cases u; auto simp: pairedBlocks_def intro!: pay)

lemma pays_counted [pay]: "(\<And>n. pays b (f = Some b) (g n)) \<Longrightarrow> pays b (f = Some b) (nc_counted r f g)"
  by (rule pays_ext [OF nc_counted_def], rule pays_rbind) (auto intro!: pay)

lemma pays_replied [pay]: "due \<longleftrightarrow> v = Some b \<Longrightarrow> pays b due (nc_replied v q x)"
  by (rule pays_ext [OF nc_replied_def], rule pays_rbind) (auto intro!: pay)

lemma pays_tell [pay]: "pays b False (nc_tell sel e)"
  by (auto simp: pays_def nc_tell_def split: option.split)

lemma hConnectSuccess_subscribed [simp]: "notSubscribed b (fst (nc_hConnectSuccess s)) = notSubscribed b s"
  using getCommandURL_subscribed [of s "fst (nc_getCommandURL s)" "snd (nc_getCommandURL s)"]
  by (simp add: nc_hConnectSuccess_def Let_def nc_setConnected_def)

lemma paid_paired: "notSubscribed b s \<Longrightarrow> paid b False (Inr (nc_paired ne code s))"
  using hConnectSuccess_subscribed
  by (auto simp: nc_paired_def Let_def paid_def nc_hConnectSuccess_def nc_setConnected_def getCommandURL_subscribed
      split: prod.splits option.splits)

lemma pays_moved:
  assumes "pairedBlocks b v f"
  shows "pays b (f = Some b) (nc_complete ne DoneMoved r v f)"
proof (rule paysI)
  fix s assume ns: "notSubscribed b s"
  have "paid b False (moveMouseBy None None s)" using paysD [OF pays_moveMouseBy [of b None None] ns] by simp
  with ns assms show "paid b (f = Some b) (nc_complete ne DoneMoved r v f s)"
    by (auto simp: paid_def rbind_Inr_iff pairedBlocks_def split: if_splits)
qed

text \<open>The completion of a command settles its call or passes it on to another command.\<close>

lemma pays_complete:
  assumes "pairedBlocks b v f" "f = Some b \<Longrightarrow> callsBlocks d"
  shows "pays b (f = Some b) (nc_complete ne d r v f)"
proof (cases d)
  case DoneMoved
  with pays_moved [OF assms(1)] show ?thesis by simp
next
  case DonePairingShown
  with assms have "f \<noteq> Some b" by auto
  with paysD [OF pays_tell] show ?thesis
    by (fastforce simp: DonePairingShown pays_def paid_def rbind_Inr_iff)
next
  case (DonePaired code)
  with assms have "f \<noteq> Some b" by auto
  with DonePaired paid_paired show ?thesis by (simp add: pays_def)
next
  case (DoneHiddenForKey k u)
  with paysD [OF pays_sendKeyNow [OF assms(1)]] show ?thesis by (simp add: pays_def)
next
  case DoneChannelList
  with assms have "f \<noteq> Some b" "v \<noteq> Some b" by (auto simp: pairedBlocks_def)
  then have "settled b out = 0 \<and> commandsIn out = []" if "nc_channelsListed ne c v = Inr out" for c out
    using that by (auto simp: nc_channelsListed_def Let_def rbind_Inr_iff split: option.splits json.splits)
  with \<open>f \<noteq> Some b\<close> show ?thesis by (simp add: DoneChannelList pays_def paid_rbind)
next
  case (DoneSet3D e)
  from paysD [OF pays_key(1) [OF assms(1)]] assms(1) show ?thesis
    by (auto simp: DoneSet3D pays_def pairedBlocks_def intro!: paid_rbind)
next
  case (DoneSetMute e)
  from paysD [OF pays_key(1) [OF assms(1)]] assms(1) show ?thesis
    by (auto simp: DoneSetMute pays_def pairedBlocks_def intro!: paid_rbind)
next
  case DoneInputList
  from paysD [OF pays_launchApp [OF assms(1)]] show ?thesis
    by (auto simp: DoneInputList pays_def intro!: paid_rbind split: option.split)
qed (use assms in \<open>auto simp: pairedBlocks_def pays_def getNumberOfApps_def getAppListForType_def intro!: pay paysD [OF pays_counted]
  paysD [OF pays_get] paysD [OF pays_appsListed] paysD [OF pays_replied] paid_rbind\<close>)

section \<open>Failures, events and connections\<close>

lemma pays_fails:
  assumes "f = Some b \<Longrightarrow> fl \<in> {FailCaller, FailMove}" shows "pays b (f = Some b) (nc_commandFails fl e f)"
proof (cases "fl \<in> {FailCaller, FailMove}")
  case True
  then show ?thesis by (auto simp: pays_def)
next
  case False
  then have f: "f \<noteq> Some b" using assms by blast
  with False show ?thesis using pays_tell by (cases fl) (auto simp: pays_def)
qed

lemma pays_answered:
  assumes "commandOk b c" shows "pays b (nco_failure c = Some b) (nc_answered ne c a)"
proof (cases "nc_answer a")
  case (Inl e)
  with assms show ?thesis using pays_fails [of "nco_failure c" b "nco_failed c" e] by (auto simp: nc_answered_def pays_def commandOk_def)
next
  case (Inr r)
  with assms show ?thesis using pays_complete [of b "nco_success c" "nco_failure c" "nco_done c" ne r]
    by (auto simp: nc_answered_def pays_def commandOk_def)
qed

lemma paid_appended: "paid b due r \<Longrightarrow> (\<And>s. settled b (g s) = 0) \<Longrightarrow> (\<And>s. commandsIn (g s) = []) \<Longrightarrow>
    (\<And>s. notSubscribed b s \<Longrightarrow> notSubscribed b (h s)) \<Longrightarrow> paid b due (rbind r (\<lambda>(s, out). Inr (h s, out @ g s)))"
  by (auto simp: paid_def rbind_Inr_iff)

lemma pays_dismiss [pay]: "pays b False (dismissPairing d)"
  using pays_post [of False None b] by (simp add: dismissPairing_def)

lemma pays_silentSend: "pays b False (ncSend m t p d fl None None)"
  by (rule pays_send) simp_all

lemma pays_pairWithData [pay]: "pays b False (nc_pairWithData code)"
  by (rule pays_ext [OF nc_pairWithData_def], rule pays_query_pair) (simp_all add: getCommandURL_subscribed pays_silentSend)

lemma pays_connect [pay]: "pays b False (nc_connect ne)"
proof (rule paysI)
  fix s assume ns: "notSubscribed b s"
  have "paid b False (Inr (nc_hConnectSuccess s))"
    using ns hConnectSuccess_subscribed [of b s] by (simp add: paid_def nc_hConnectSuccess_def Let_def)
  with paysD [OF pays_pairWithData ns] paysD [OF pays_silentSend ns] ns show "paid b False (nc_connect ne s)"
    by (simp add: nc_connect_def invokePairing_def split: option.split)
qed

lemma pays_disconnect [pay]: "pays b False nc_disconnect"
proof (rule paysI)
  fix s assume ns: "notSubscribed b s"
  then have "paid b False (dismissPairing DoneStopQueue (nc_setConnected False (s\<lparr>nc_observers := n, nc_server := False\<rparr>)))" for n
    by (intro paysD [OF pays_dismiss]) (simp add: nc_setConnected_def)
  then have "paid b False (rbind (dismissPairing DoneStopQueue (nc_setConnected False (s\<lparr>nc_observers := n, nc_server := False\<rparr>)))
      (\<lambda>(s', out). Inr (s'\<lparr>nc_reachability := map_option rea_stop (nc_reachability s')\<rparr>,
        out @ nc_tellOnMain SelDisconnected (DisconnectedWithError None) s')))" for n
    by (rule paid_appended) simp_all
  with ns show "paid b False (nc_disconnect s)"
    unfolding nc_disconnect_def Let_def by simp
qed

lemma pays_connection [pay]: "pays b False nc_didLoseReachability" "pays b False (nc_alertDismissed i code)"
  "pays b False nc_hAppDidEnterBackground" "pays b False (nc_hAppDidBecomeActive ne)"
proof -
  note d = paysD [OF pays_disconnect] and c = paysD [OF pays_connect]
  show "pays b False nc_didLoseReachability" "pays b False nc_hAppDidEnterBackground"
    by (simp_all add: pays_def nc_didLoseReachability_def nc_hAppDidEnterBackground_def d)
  show "pays b False (nc_alertDismissed i code)"
    by (simp add: pays_def nc_alertDismissed_def paysD [OF pays_dismiss] paysD [OF pays_pairWithData])
  have "paid b False (rbind r (\<lambda>(s', out). Inr (s'\<lparr>nc_reconnectOnWake := False\<rparr>, out)))" if "paid b False r" for r
    using paid_appended [OF that, of "\<lambda>s. []" "\<lambda>s. s\<lparr>nc_reconnectOnWake := False\<rparr>"] by simp
  with c show "pays b False (nc_hAppDidBecomeActive ne)" by (simp add: pays_def nc_hAppDidBecomeActive_def)
qed

lemma pays_notified [pay]: "pays b False h \<Longrightarrow> pays b False (nc_notified h)"
proof -
  assume h: "pays b False h"
  have "pays b False (((ncThen h) ^^ n) (\<lambda>s. Inr (s, [])))" for n
  proof (induction n)
    case 0
    then show ?case by (simp add: pays_def)
  next
    case (Suc n)
    with h show ?case by (auto intro: pays_then)
  qed
  then show ?thesis by (simp add: pays_def nc_notified_def)
qed

lemma pays_eventBlock: "eventBlockOf blk \<noteq> Some b \<Longrightarrow> pays b False (nc_eventBlock ne d blk)"
proof (cases blk)
  case (ChannelChangedBlock v)
  assume "eventBlockOf blk \<noteq> Some b"
  then have "paid b False (nc_replied v q r s)" if "notSubscribed b s" for q and r :: "ChannelInfo result" and s
    using paysD [OF pays_replied [of False v b] that] by (simp add: ChannelChangedBlock)
  then show ?thesis by (auto simp: ChannelChangedBlock pays_def intro!: paid_rbind)
next
  case (Changed3DBlock v)
  assume "eventBlockOf blk \<noteq> Some b"
  then show ?thesis using paysD [OF pays_replied [of False v]] by (auto simp: Changed3DBlock pays_def)
next
  case (KeyboardVisibleBlock v)
  assume "eventBlockOf blk \<noteq> Some b"
  then have "pays b False (ncThen (sendTextState [] ''EditStart'' None None) (\<lambda>s. Inr (s, ncSucceed v r)))" for r
    using pays_sendText [of b None None] by (auto simp: KeyboardVisibleBlock intro!: pays_then pays_pure)
  then show ?thesis by (auto simp: KeyboardVisibleBlock pays_def intro!: paid_rbind)
qed

lemma pays_eventBlocks: "\<forall>blk \<in> set blks. eventBlockOf blk \<noteq> Some b \<Longrightarrow> pays b False (nc_eventBlocks ne d blks)"
proof (induction blks)
  case Nil
  then show ?case by (simp add: pays_def)
next
  case (Cons blk blks)
  then have "pays b False (ncThen (nc_eventBlock ne d blk) (nc_eventBlocks ne d blks))"
    by (intro pays_then [where due = False and due' = False] pays_eventBlock) simp_all
  then show ?case by (simp add: pays_def)
qed

lemma pays_runMain [pay]: "pays b False (nc_runMain ne m)"
proof (cases m)
  case (SetKeyboardText t)
  then show ?thesis by (simp add: pays_def)
next
  case (HandleEvent event d)
  have "paid b False (nc_eventBlocks ne d (nsu_success u) s)"
    if "notSubscribed b s" "Option.bind (nc_subscribed s) (\<lambda>subs. objectForKeyN subs event) = Some u" for s u
  proof -
    from that(2) obtain subs e where "nc_subscribed s = Some subs" "objectForKey subs e = Some u"
      by (auto simp: objectForKeyN_def bind_eq_Some_conv split: option.splits)
    then have "Some b \<notin> eventBlockOf ` set (nsu_success u)"
      using that(1) by (force simp: notSubscribed_def objectForKey_def allValues_def dest!: map_of_SomeD)
    then have "\<forall>blk \<in> set (nsu_success u). eventBlockOf blk \<noteq> Some b" by (metis image_eqI)
    then show ?thesis by (rule paysD [OF pays_eventBlocks that(1)])
  qed
  then show ?thesis by (simp add: HandleEvent pays_def split: option.split)
qed

lemma pays_unsubscribe [pay]: "pays b False (\<lambda>s. Inr (fst (nc_sendSubscription r t s), []))"
proof (rule paysI)
  fix s assume ns: "notSubscribed b s"
  have sub: "u \<in> set (allValues d)" if "u \<in> set (allValues (filter (\<lambda>(k, u). nsu_ref u \<noteq> r) d))" for u d
    using that by (force simp: allValues_def)
  have "notSubscribed b (fst (nc_sendSubscription r t s))"
    using ns sub unfolding notSubscribed_def nc_sendSubscription_def
    by (cases "nc_subscribed s") (simp, simp del: image_iff, blast)
  then show "paid b False (Inr (fst (nc_sendSubscription r t s), []))" by simp
qed

section \<open>Every call is answered once\<close>

definition callFree :: "nat \<Rightarrow> ncSystem \<Rightarrow> bool" where
  "callFree b y \<longleftrightarrow> notSubscribed b (ncs_service y) \<and> (\<forall>c \<in> set (ncs_commands y). commandOk b c)"

fun otherInput :: "nat \<Rightarrow> ncInput \<Rightarrow> bool" where
  "otherInput b (NcCall m v f) \<longleftrightarrow> v \<noteq> Some b \<and> f \<noteq> Some b"
| "otherInput b i \<longleftrightarrow> True"

lemma ncs_do_keeps:
  assumes "pays b due f" "callFree b y" "ncs_do f y = Inr (y', out)"
  shows "callFree b y' \<and> settled b out + owed b (ncs_commands y') = of_bool due + owed b (ncs_commands y)"
proof -
  from assms(3) obtain s where s: "f (ncs_service y) = Inr (s, out)"
    and y': "y' = \<lparr>ncs_service = s, ncs_commands = ncs_commands y @ commandsIn out\<rparr>"
    by (auto simp: ncs_do_def rbind_Inr_iff)
  have "paid b due (f (ncs_service y))" using assms(1,2) by (simp add: paysD callFree_def)
  with s y' assms(2) show ?thesis by (auto simp: callFree_def)
qed

lemma owed_removeAt: "k < length cs \<Longrightarrow> owed b (removeAt k cs) + of_bool (nco_failure (cs ! k) = Some b) = owed b cs"
  by (subst (2) id_take_nth_drop [of k cs]) (simp_all add: removeAt_def del: append_take_drop_id)

lemma set_removeAt: "set (removeAt k cs) \<subseteq> set cs"
  by (auto simp: removeAt_def dest: in_set_takeD in_set_dropD)

lemma ncs_answer_keeps:
  assumes "callFree b y" "ncs_answer ne i a y = Inr (y', out)"
  shows "callFree b y' \<and> settled b out + owed b (ncs_commands y') = owed b (ncs_commands y)"
proof (cases "ncs_commands y = []")
  case True
  with assms show ?thesis by (auto simp: ncs_answer_def Let_def)
next
  case False
  define k where "k = i mod length (ncs_commands y)"
  from False have k: "k < length (ncs_commands y)" by (simp add: k_def)
  define z where "z = y\<lparr>ncs_commands := removeAt k (ncs_commands y)\<rparr>"
  have free: "callFree b z" using assms(1) set_removeAt [of k "ncs_commands y"] by (auto simp: callFree_def z_def)
  have "commandOk b (ncs_commands y ! k)" using assms(1) k by (simp add: callFree_def)
  note ncs_do_keeps [OF pays_answered [OF this] free]
  moreover have "ncs_do (nc_answered ne (ncs_commands y ! k) a) z = Inr (y', out)"
    using assms(2) False by (simp add: ncs_answer_def Let_def k_def z_def)
  ultimately show ?thesis using owed_removeAt [OF k, of b] by (fastforce simp: z_def)
qed

lemma ncs_step_keeps:
  assumes "callFree b y" "otherInput b i" "ncs_step ne x i y = Inr (y', out)"
  shows "callFree b y' \<and> settled b out + owed b (ncs_commands y') = owed b (ncs_commands y)"
proof (cases i)
  case (NcCall m v f)
  then have f: "f \<noteq> Some b" and "pairedBlocks b v f" using assms(2) by (auto simp: pairedBlocks_def)
  from pays_perform [OF this(2), of m ne x] f have "pays b False (nc_perform ne x m v f)" by simp
  with NcCall assms ncs_do_keeps [of b False] show ?thesis by simp
next
  case (NcAnswered n a)
  with assms ncs_answer_keeps show ?thesis by simp
next
  case (NcUnsubscribe r)
  with assms ncs_do_keeps [OF pays_unsubscribe] show ?thesis by fastforce
qed (use assms pay in \<open>auto dest!: ncs_do_keeps [rotated 2, where due = False] simp: pays_connection pays_notified pays_connect pays_disconnect pays_runMain\<close>)

lemma ncs_run_keeps:
  "callFree b y \<Longrightarrow> \<forall>i \<in> set is. otherInput b i \<Longrightarrow> ncs_run ne x is y = Inr (y', out) \<Longrightarrow>
    callFree b y' \<and> settled b out + owed b (ncs_commands y') = owed b (ncs_commands y)"
proof (induction "is" arbitrary: y out)
  case (Cons i "is")
  then obtain y1 out1 out2 where i: "ncs_step ne x i y = Inr (y1, out1)" and r: "ncs_run ne x is y1 = Inr (y', out2)"
    and out: "out = out1 @ out2" by (auto simp: rbind_Inr_iff)
  from ncs_step_keeps [OF Cons.prems(1) _ i] Cons.prems(2)
  have 1: "callFree b y1 \<and> settled b out1 + owed b (ncs_commands y1) = owed b (ncs_commands y)" by simp
  with Cons.IH [OF _ _ r] Cons.prems(2) out show ?case by auto
qed simp


section \<open>Answering comes to an end\<close>

text \<open>
  The most commands that are still sent for one that waits, itself included. An app that is closed by name is
  looked for again when it has an empty identifier; the XML reader leaves out empty texts, so that there is none.
\<close>

fun useWork :: "appUse \<Rightarrow> nat" where
  "useWork ListApps = 0"
| "useWork (FindApp name use) = 1"

fun doneWork :: "ncDone \<Rightarrow> nat" where
  "doneWork (DonePremiumCount use) = 4 + useWork use"
| "doneWork (DoneMyCount use n) = 3 + useWork use"
| "doneWork (DonePremiumList use m) = 2 + useWork use"
| "doneWork (DoneMyList use apps) = 1 + useWork use"
| "doneWork (DoneSet3D e) = 3"
| "doneWork (DoneSetMute m) = 3"
| "doneWork (DoneHiddenForKey k use) = 2"
| "doneWork DoneInputList = 2"
| "doneWork d = 1"

definition commandsWork :: "ncCommand list \<Rightarrow> nat" where
  "commandsWork cs = sum_list (map (doneWork \<circ> nco_done) cs)"

definition pendingMove :: "NetcastTVService \<Rightarrow> nat" where
  "pendingMove s = of_bool (nc_mouseDistance s \<noteq> (0, 0))"

definition systemWork :: "ncSystem \<Rightarrow> nat" where
  "systemWork y = commandsWork (ncs_commands y) + pendingMove (ncs_service y)"

definition namedApps :: "AppInfo list \<Rightarrow> bool" where
  "namedApps apps \<longleftrightarrow> (\<forall>a \<in> set apps. app_id a \<noteq> Some [])"

definition namedCommand :: "ncCommand \<Rightarrow> bool" where
  "namedCommand c \<longleftrightarrow> (case nco_done c of DoneMyList use apps \<Rightarrow> namedApps apps | _ \<Rightarrow> True)"

definition namedAnswer :: "httpAnswer \<Rightarrow> bool" where
  "namedAnswer a \<longleftrightarrow> (case nc_answer a of Inl e \<Rightarrow> True
     | Inr r \<Rightarrow> (case appsFromXML r of Inl e \<Rightarrow> True | Inr apps \<Rightarrow> namedApps apps))"

definition inBudget :: "nat \<Rightarrow> (NetcastTVService \<times> ncOutput list) result \<Rightarrow> bool" where
  "inBudget n r \<longleftrightarrow> (\<forall>s out. r = Inr (s, out) \<longrightarrow> commandsWork (commandsIn out) + pendingMove s \<le> n
     \<and> (\<forall>c \<in> set (commandsIn out). namedCommand c))"

definition costs :: "nat \<Rightarrow> ncOp \<Rightarrow> bool" where
  "costs n f \<longleftrightarrow> (\<forall>s. inBudget (n + pendingMove s) (f s))"

lemma commandsWork_simps [simp]: "commandsWork [] = 0" "commandsWork (c # cs) = doneWork (nco_done c) + commandsWork cs"
  "commandsWork (xs @ ys) = commandsWork xs + commandsWork ys"
  by (simp_all add: commandsWork_def)

lemma inBudget_simps [simp]: "inBudget n (Inl e)" "inBudget n (Inr (s, out)) \<longleftrightarrow> commandsWork (commandsIn out) + pendingMove s \<le> n
    \<and> (\<forall>c \<in> set (commandsIn out). namedCommand c)"
  by (simp_all add: inBudget_def)

lemma inBudget_rbind: "(\<And>v. x = Inr v \<Longrightarrow> inBudget n (g v)) \<Longrightarrow> inBudget n (rbind x g)"
  by (cases x) simp_all

lemma costsD: "costs n f \<Longrightarrow> inBudget (n + pendingMove s) (f s)"
  by (simp add: costs_def)

lemma inBudget_mono: "inBudget m r \<Longrightarrow> m \<le> n \<Longrightarrow> inBudget n r"
  by (auto simp: inBudget_def intro: le_trans)

lemma costs_mono: "costs m f \<Longrightarrow> m \<le> n \<Longrightarrow> costs n f"
  by (auto simp: costs_def intro: inBudget_mono)

lemma pendingMove_frame [simp]: "pendingMove (s\<lparr>nc_commandURL := u\<rparr>) = pendingMove s"
  "pendingMove (s\<lparr>nc_mouseVisible := v\<rparr>) = pendingMove s" "pendingMove (s\<lparr>nc_keyboardString := k\<rparr>) = pendingMove s"
  "pendingMove (s\<lparr>nc_mouseIsMoving := v\<rparr>) = pendingMove s" "pendingMove (s\<lparr>nc_reachability := r\<rparr>) = pendingMove s"
  "pendingMove (s\<lparr>nc_base := b\<rparr>) = pendingMove s" "pendingMove (s\<lparr>nc_config := c\<rparr>) = pendingMove s"
  "pendingMove (s\<lparr>nc_observers := n\<rparr>) = pendingMove s" "pendingMove (s\<lparr>nc_server := v\<rparr>) = pendingMove s"
  "pendingMove (s\<lparr>nc_mouseDistance := (0, 0)\<rparr>) = 0"
  by (simp_all add: pendingMove_def)

lemma getCommandURL_move [simp]: "pendingMove (fst (nc_getCommandURL s)) = pendingMove s"
  by (simp add: nc_getCommandURL_def Let_def split: option.split)

lemma costs_send:
  assumes "doneWork d \<le> n" "\<forall>use apps. d = DoneMyList use apps \<longrightarrow> namedApps apps"
  shows "costs n (ncSend m t p d fl v f)"
proof -
  have "namedCommand c" if "nco_done c = d" for c using assms(2) that by (auto simp: namedCommand_def split: ncDone.split)
  moreover have "pendingMove s' = pendingMove s" if "nc_getCommandURL s = (s', u)" for s s' u
    using getCommandURL_move [of s] that by simp
  ultimately show ?thesis using assms(1) by (auto simp: costs_def ncSend_def split: prod.split option.split)
qed

lemma costs_post: "doneWork d \<le> n \<Longrightarrow> (\<forall>use apps. d = DoneMyList use apps \<longrightarrow> namedApps apps) \<Longrightarrow> costs n (ncPost u p d v f)"
  and costs_get: "doneWork d \<le> n \<Longrightarrow> (\<forall>use apps. d = DoneMyList use apps \<longrightarrow> namedApps apps) \<Longrightarrow> costs n (ncGet q d v f)"
  by (simp_all add: ncPost_def ncGet_def costs_send)

lemma costs_launchApp: "costs 1 (launchAppWithInfo ne a v f)"
  by (auto simp: costs_def launchAppWithInfo_def Let_def intro!: inBudget_rbind costsD [OF costs_post, of _ 1, simplified])

lemma costs_sendKeyNow: "costs 1 (sendKeyNow k u v f)"
  unfolding sendKeyNow_def by (rule costs_post) (simp_all split: keyUse.split)

lemma costs_key: "costs 2 (nc_key k v f)"
proof -
  have "costs 2 (ncPost u p (DoneHiddenForKey n use) v f)" for u p n use by (rule costs_post) simp_all
  with costsD [OF costs_mono [OF costs_sendKeyNow, of 2]] show ?thesis
    by (simp add: costs_def nc_key_def nc_sendKeyCode_def hideMouse_def)
qed

lemma costs_found:
  assumes "app_id a \<noteq> None" "app_id a \<noteq> Some []" shows "costs 1 (nc_found ne u a v f)"
proof (cases u)
  case LaunchFound
  with costs_launchApp show ?thesis by (simp add: nc_found_def [abs_def])
next
  case (LaunchWithContent c)
  with costsD [OF costs_launchApp] show ?thesis by (auto simp: costs_def nc_found_def intro!: inBudget_rbind)
next
  case CloseFound
  have "costs 1 (ncPost u p DoneRaw v f)" for u p by (rule costs_post) simp_all
  then show ?thesis using assms
    by (auto simp: nc_found_def [abs_def] CloseFound nc_closeApp_def Let_def appSession_def launchSessionForAppId_def)
qed

lemma collectApps_members:
  "collectApps as d = Inr d' \<Longrightarrow> set (allValues d') \<subseteq> set as \<union> set (allValues d) \<and> (\<forall>a \<in> set as. app_id a \<noteq> None)"
proof (induction as arbitrary: d)
  case (Cons a as)
  then obtain k where k: "app_id a = Some k" "collectApps as (setObject a k d) = Inr d'"
    by (cases "app_id a") (auto simp: setObjectN_def)
  have "set (allValues (setObject v k d)) \<subseteq> insert v (set (allValues d))" for v
    by (induction d) (auto simp: setObject_def allValues_def)
  with Cons.IH [OF k(2)] k(1) show ?case by fastforce
qed simp

lemma costs_appsListed:
  assumes "namedApps p" "namedApps m" shows "costs (useWork u) (nc_appsListed ne u p m v f)"
proof -
  have "inBudget (useWork u + pendingMove s) (case u of
      ListApps \<Rightarrow> Inr (s, ncSucceed v (LauncherReply (AppListReply (allValues d))))
    | FindApp appId w \<Rightarrow> (case nc_findApp appId (allValues d) of
        Some app \<Rightarrow> nc_found ne w app v f s
      | None \<Rightarrow> Inr (s, ncFail f e)))" if d: "collectApps (p @ m) [] = Inr d" for s d e
  proof (cases u)
    case (FindApp n w)
    have "app_id a \<noteq> None \<and> app_id a \<noteq> Some []" if "nc_findApp n (allValues d) = Some a" for a
    proof -
      have "a \<in> set (allValues d)" using that by (auto simp: nc_findApp_def find_Some_iff in_set_conv_nth)
      with collectApps_members [OF d] assms show ?thesis by (auto simp: namedApps_def allValues_def)
    qed
    then show ?thesis using costsD [OF costs_found] by (auto simp: FindApp split: option.split)
  qed simp
  then show ?thesis by (auto simp: costs_def nc_appsListed_def intro!: inBudget_rbind)
qed

lemma costs_counted: "(\<And>n. costs k (g n)) \<Longrightarrow> costs k (nc_counted r f g)"
  by (auto simp: costs_def nc_counted_def intro!: inBudget_rbind)

lemma costs_replied: "costs 0 (nc_replied v q x)"
  by (auto simp: costs_def nc_replied_def intro!: inBudget_rbind)

lemma costs_tell: "costs 0 (nc_tell sel e)"
  by (simp add: costs_def nc_tell_def split: option.split)

lemma hConnectSuccess_costs: "pendingMove (fst (nc_hConnectSuccess s)) = pendingMove s" "commandsIn (snd (nc_hConnectSuccess s)) = []"
  by (simp_all add: nc_hConnectSuccess_def Let_def nc_setConnected_def)

lemma nc_paired_costs: "pendingMove (fst (nc_paired ne code s)) = pendingMove s" "commandsIn (snd (nc_paired ne code s)) = []"
  by (simp_all add: nc_paired_def Let_def split_beta hConnectSuccess_costs)

text \<open>The completion of a command costs less than the command was worth.\<close>

lemma costs_complete:
  assumes "\<And>use apps. d = DoneMyList use apps \<Longrightarrow> namedApps apps"
    and "\<And>apps. appsFromXML r = Inr apps \<Longrightarrow> namedApps apps"
  shows "costs (doneWork d - 1) (nc_complete ne d r v f)"
proof (cases d)
  case (DonePremiumCount u)
  have "costs (3 + useWork u) (nc_counted r f (\<lambda>n. getNumberOfApps appTypeMyApps (DoneMyCount u n) v f))"
    unfolding getNumberOfApps_def by (intro costs_counted costs_get) simp_all
  then show ?thesis by (simp add: DonePremiumCount costs_def)
next
  case (DoneMyCount u n)
  have "costs (2 + useWork u) (nc_counted r f (\<lambda>m. getAppListForType appTypePremium n (DonePremiumList u m) v f))"
    unfolding getAppListForType_def by (intro costs_counted costs_get) simp_all
  then show ?thesis by (simp add: DoneMyCount costs_def)
next
  case (DonePremiumList u m)
  have "costs (1 + useWork u) (getAppListForType appTypeMyApps m (DoneMyList u apps) v f)" if "appsFromXML r = Inr apps" for apps
    unfolding getAppListForType_def using assms(2) [OF that] by (intro costs_get) simp_all
  then show ?thesis by (auto simp: DonePremiumList costs_def intro!: inBudget_rbind)
next
  case (DoneMyList u apps)
  then show ?thesis using assms costs_appsListed by (auto simp: costs_def intro!: inBudget_rbind)
next
  case (DoneSet3D e)
  then show ?thesis using costsD [OF costs_key] by (auto simp: costs_def intro!: inBudget_rbind)
next
  case (DoneSetMute m)
  then show ?thesis using costsD [OF costs_key] by (auto simp: costs_def intro!: inBudget_rbind)
next
  case (DoneHiddenForKey k u)
  have "inBudget (Suc (pendingMove s)) (sendKeyNow k u v f (s\<lparr>nc_mouseVisible := False\<rparr>))" for s
    using costsD [OF costs_sendKeyNow, of "s\<lparr>nc_mouseVisible := False\<rparr>"] by simp
  then show ?thesis by (simp add: DoneHiddenForKey costs_def)
next
  case DoneInputList
  then show ?thesis using costsD [OF costs_launchApp] by (auto simp: costs_def intro!: inBudget_rbind split: option.split)
next
  case DoneMoved
  have "inBudget (pendingMove s) (moveMouseBy None None s)" if "nc_mouseDistance s \<noteq> (0, 0)" for s
    using costsD [OF costs_send [of DoneMoved 1], where s = "s\<lparr>nc_mouseDistance := (0, 0)\<rparr>"] that
    by (auto simp: moveMouseBy_def pendingMove_def split: prod.split)
  then show ?thesis by (auto simp: DoneMoved costs_def inBudget_def rbind_Inr_iff split: if_splits)
next
  case DonePairingShown
  then show ?thesis using costsD [OF costs_tell] by (fastforce simp: costs_def inBudget_def rbind_Inr_iff)
next
  case (DonePaired code)
  have "inBudget (pendingMove s) (Inr (nc_paired ne code s))" for s
    by (cases "nc_paired ne code s") (metis (no_types) nc_paired_costs fst_conv snd_conv inBudget_simps(2) commandsWork_simps(1)
      add_0 order_refl empty_iff empty_set)
  then show ?thesis by (simp add: DonePaired costs_def)
next
  case DoneChannelList
  have "commandsIn out = []" if "nc_channelsListed ne c v = Inr out" for c out
    using that by (auto simp: nc_channelsListed_def Let_def rbind_Inr_iff split: option.splits json.splits)
  then show ?thesis by (simp add: DoneChannelList costs_def inBudget_rbind)
qed (use costsD [OF costs_replied] in \<open>auto simp: costs_def intro!: inBudget_rbind\<close>)

lemma fails_costs: "costs 0 (nc_commandFails fl e f)"
  using costs_tell by (cases fl) (simp_all add: costs_def)

lemma costs_answered: "namedCommand c \<Longrightarrow> namedAnswer a \<Longrightarrow> costs (doneWork (nco_done c) - 1) (nc_answered ne c a)"
proof (cases "nc_answer a")
  case (Inl e)
  then show ?thesis using costs_mono [OF fails_costs] by (simp add: nc_answered_def [abs_def])
next
  case (Inr r)
  assume "namedCommand c" "namedAnswer a"
  with Inr have "costs (doneWork (nco_done c) - 1) (nc_complete ne (nco_done c) r (nco_success c) (nco_failure c))"
    by (intro costs_complete) (auto simp: namedCommand_def namedAnswer_def)
  with Inr show ?thesis by (simp add: nc_answered_def [abs_def])
qed

lemma commandsWork_removeAt: "k < length cs \<Longrightarrow> commandsWork (removeAt k cs) + doneWork (nco_done (cs ! k)) = commandsWork cs"
  by (subst (3) id_take_nth_drop [of k cs]) (simp_all add: removeAt_def del: append_take_drop_id)

lemma doneWork_pos: "doneWork d > 0"
  by (cases d) simp_all

lemma ncs_answer_works:
  assumes "\<forall>c \<in> set (ncs_commands y). namedCommand c" "namedAnswer a" "ncs_commands y \<noteq> []"
    and "ncs_answer ne i a y = Inr (y', out)"
  shows "systemWork y' < systemWork y \<and> (\<forall>c \<in> set (ncs_commands y'). namedCommand c)"
proof -
  define k where "k = i mod length (ncs_commands y)"
  from assms(3) have k: "k < length (ncs_commands y)" by (simp add: k_def)
  let ?c = "ncs_commands y ! k"
  from assms(3,4) obtain s where s: "nc_answered ne ?c a (ncs_service y) = Inr (s, out)"
    and y': "y' = \<lparr>ncs_service = s, ncs_commands = removeAt k (ncs_commands y) @ commandsIn out\<rparr>"
    by (auto simp: ncs_answer_def Let_def ncs_do_def rbind_Inr_iff k_def)
  have "namedCommand ?c" using assms(1) k by simp
  from costsD [OF costs_answered [OF this assms(2)], where s = "ncs_service y" and ne1 = ne] s
  have "commandsWork (commandsIn out) + pendingMove s \<le> doneWork (nco_done ?c) - 1 + pendingMove (ncs_service y)"
    "\<forall>c \<in> set (commandsIn out). namedCommand c" by simp_all
  with commandsWork_removeAt [OF k] doneWork_pos [of "nco_done ?c"] set_removeAt [of k "ncs_commands y"] assms(1)
  show ?thesis by (auto simp: y' systemWork_def)
qed

lemma ncs_answers_work:
  "\<forall>c \<in> set (ncs_commands y). namedCommand c \<Longrightarrow> \<forall>(i, a) \<in> set as. namedAnswer a \<Longrightarrow>
    ncs_run ne x (map (\<lambda>(i, a). NcAnswered i a) as) y = Inr (y', out) \<Longrightarrow>
    ncs_commands y' = [] \<or> length as + systemWork y' \<le> systemWork y"
proof (induction as arbitrary: y out)
  case (Cons ia as)
  obtain i a where ia: "ia = (i, a)" by fastforce
  with Cons.prems(3) obtain y1 out1 out2 where 1: "ncs_answer ne i a y = Inr (y1, out1)"
    and 2: "ncs_run ne x (map (\<lambda>(i, a). NcAnswered i a) as) y1 = Inr (y', out2)" by (auto simp: rbind_Inr_iff)
  show ?case
  proof (cases "ncs_commands y = []")
    case True
    then have "y1 = y" using 1 by (simp add: ncs_answer_def Let_def)
    moreover have "ncs_commands y' = []" if "ncs_run ne x (map (\<lambda>(i, a). NcAnswered i a) bs) y = Inr (y', out)" for bs out
      using that True by (induction bs arbitrary: out) (auto simp: rbind_Inr_iff ncs_answer_def Let_def)
    ultimately show ?thesis using 2 by blast
  next
    case False
    from ncs_answer_works [OF Cons.prems(1) _ this 1] Cons.prems(2) ia
    have "systemWork y1 < systemWork y" "\<forall>c \<in> set (ncs_commands y1). namedCommand c" by auto
    with Cons.IH [OF _ _ 2] Cons.prems(2) show ?thesis by auto
  qed
qed simp

text \<open>
  C13: Answering the waiting commands comes to an end: after as many answers as the commands are worth (five for an app
  that is started by its name) nothing waits any more, in whatever order the commands are answered and whatever
  the answers say, although the completion of a command may send others. No app may have an empty identifier.
\<close>
theorem nc_answers_end:
  assumes "\<forall>c \<in> set (ncs_commands y). namedCommand c" "\<forall>(i, a) \<in> set as. namedAnswer a" "systemWork y \<le> length as"
    and "ncs_run ne x (map (\<lambda>(i, a). NcAnswered i a) as) y = Inr (y', out)"
  shows "ncs_commands y' = []"
proof -
  have "commandsWork cs = 0 \<Longrightarrow> cs = []" for cs
    using doneWork_pos by (cases cs) (auto simp: neq0_conv [symmetric] simp del: neq0_conv)
  with ncs_answers_work [OF assms(1,2,4)] assms(3) show ?thesis by (auto simp: systemWork_def)
qed

section \<open>Concrete runs\<close>

definition sample_netcastEnv :: netcastEnv where
  "sample_netcastEnv = \<lparr>ne_pairingOn = True, ne_disconnectOnBackground = True, ne_services = (\<lambda>_. None),
     ne_parseXML = (\<lambda>_. None), ne_describe = (\<lambda>_. []), ne_self = sample_sessionService\<rparr>"

definition sample_netcast :: NetcastTVService where
  "sample_netcast = (nc_new DeviceService_class)\<lparr>nc_commandURL := Some ''http://10.0.0.1:8080'', nc_mouseVisible := True\<rparr>"

definition sample_answer :: httpAnswer where
  "sample_answer = Data 200 None 0 None None"

lemma sample_run: "\<exists>y out. ncs_run sample_netcastEnv None
    [NcCall (PowerControlMsg PowerOff) (Some 7) (Some 7), NcAnswered 0 sample_answer, NcAnswered 0 sample_answer]
    \<lparr>ncs_service = sample_netcast, ncs_commands = []\<rparr> = Inr (y, out)"
  by (simp add: ncs_do_def ncs_answer_def Let_def sample_netcast_def sample_answer_def nc_new_def nc_key_def nc_sendKeyCode_def
      hideMouse_def ncPost_def ncSend_def nc_getCommandURL_def atPath_def nc_answered_def sendKeyNow_def removeAt_def ncSucceed_def)


definition sample_pending :: ncSystem where
  "sample_pending = \<lparr>ncs_service = sample_netcast, ncs_commands = [\<lparr>nco_method = ''POST'', nco_target = None, nco_payload = None,
     nco_done = DoneHiddenForKey 1 KeyPressed, nco_failed = FailCaller, nco_success = Some 7, nco_failure = Some 7\<rparr>]\<rparr>"

theorem nc_answers_end_witness:
  "\<exists>y out. ncs_run sample_netcastEnv None (map (\<lambda>(i, a). NcAnswered i a) [(0, sample_answer), (4, sample_answer)]) sample_pending
      = Inr (y, out) \<and> ncs_commands y = []"
proof -
  obtain y out where r: "ncs_run sample_netcastEnv None (map (\<lambda>(i, a). NcAnswered i a) [(0, sample_answer), (4, sample_answer)])
      sample_pending = Inr (y, out)"
    by (simp add: ncs_do_def ncs_answer_def Let_def sample_netcast_def sample_answer_def sample_pending_def nc_new_def
      ncPost_def ncSend_def nc_getCommandURL_def atPath_def nc_answered_def sendKeyNow_def removeAt_def ncSucceed_def)
  have "ncs_commands y = []"
    by (rule nc_answers_end [OF _ _ _ r])
      (simp_all add: sample_pending_def namedCommand_def namedAnswer_def sample_answer_def appsFromXML_def dataAt_def
        lookupKey_def namedApps_def systemWork_def pendingMove_def sample_netcast_def nc_new_def)
  with r show ?thesis by blast
qed

section \<open>Where the service goes wrong\<close>

text \<open>A kind with a single app: the XML reader makes a dictionary of it, not an array, and the list raises.\<close>
lemma nc_single_app_raises:
  "appsFromXML (Some (JObj [(''envelope'', JObj [(''dataList'', JObj [(''data'', JObj app)])])])) = Inl NSInvalidArgumentException"
  by (simp add: appsFromXML_def dataAt_def lookupKey_def objectForKeyN_def objectForKey_def)

text \<open>A channel list that is no array is reported twice.\<close>
lemma nc_no_channels_twice:
  "nc_channelsListed ne None (Some b) = Inr [NcReply b (TVControlReply (ChannelListReply [])), NcReply b (TVControlReply (ChannelListReply []))]"
  by (simp add: nc_channelsListed_def Let_def ncSucceed_def)

text \<open>A movement while another one is being sent calls neither block.\<close>
lemma nc_move_while_moving_is_silent:
  "nc_mouseIsMoving s \<Longrightarrow> \<exists>s'. nc_move d b f s = Inr (s', [])"
  by (simp add: nc_move_def Let_def)

text \<open>An app with a content is found but not launched when the caller gave no success block.\<close>
lemma nc_hulu_needs_success:
  "setContent c a = Inr a' \<Longrightarrow> nc_found ne (LaunchWithContent c) a None f s = Inr (s, [])"
  by (simp add: nc_found_def)

text \<open>Every time the application becomes active again the service registers for the notifications once more.\<close>
lemma nc_wake_registers_again:
  "ne_disconnectOnBackground ne \<Longrightarrow> nc_observers (fst (nc_paired ne code s)) = nc_observers s + 1"
  by (simp add: nc_paired_def nc_hConnectSuccess_def Let_def nc_setConnected_def nc_getCommandURL_def split: option.split)

text \<open>The address of the commands is kept when a new description with another address arrives.\<close>
lemma nc_address_is_kept:
  "nc_commandURL s = Some u \<Longrightarrow> snd (nc_getCommandURL (nc_setServiceDescription d s)) = Some u"
  by (simp add: nc_getCommandURL_def nc_setServiceDescription_def Let_def split: option.split)

text \<open>The padded identifier of the input list always has sixteen digits, and zeros do not change what is behind them.\<close>
lemma padZeros_length: "length (padZeros s) = max 16 (length s)"
  by (induction s rule: padZeros.induct) (subst padZeros.simps, auto simp: max_def)

end
