(* ===== verification/Dial.thy ===== *)
theory Dial
  imports HttpTasks Util DeviceService
begin

text \<open>
  \<open>src/Services/DIALService.m\<close>: the launching of apps over DIAL. A message is a task of HTTP commands to the
  application URL of the device; the apps the SDK knows are probed when the description arrives, and an app that
  is there adds its capabilities.
\<close>

section \<open>State\<close>

definition initialRegisteredApps :: "string list" where
  "initialRegisteredApps = [''YouTube'', ''Netflix'', ''Amazon'']"

definition registerApp :: "string \<Rightarrow> string list \<Rightarrow> string list" where
  "registerApp appId registeredApps = (if appId \<notin> set registeredApps then registeredApps @ [appId] else registeredApps)"

definition dialCapabilities :: "string list" where
  "dialCapabilities = [''Launcher.App'', ''Launcher.App.Params'', ''Launcher.App.Close'', ''Launcher.AppState'']"

record DIALService =
  dial_base :: DeviceService
  dial_description :: "ServiceDescription option"
  dial_reachability :: "Reachability option"

definition dial_commandURL :: "DIALService \<Rightarrow> string option" where
  "dial_commandURL s = Option.bind (dial_description s) sd_commandURL"

text \<open>What the URL class answers for the host and the port of the command URL, the random identifier and \<open>%.1f\<close>.\<close>

record dialEnv =
  de_host :: "string \<Rightarrow> string option"
  de_port :: "string \<Rightarrow> string option"
  de_guid :: string
  de_format1 :: "real \<Rightarrow> string"
  de_self :: sessionService

definition dial_commonInit :: "DeviceService \<Rightarrow> DeviceService \<times> svcEvent list" where
  "dial_commonInit s = svc_addCapabilities dialCapabilities s"

definition dial_updateCapabilities :: "DeviceService \<Rightarrow> DeviceService \<times> svcEvent list" where
  "dial_updateCapabilities s = svc_setCapabilities dialCapabilities s"

definition dial_connect :: "DIALService \<Rightarrow> DIALService \<times> svcEvent list" where
  "dial_connect s0 =
     (let s = s0\<lparr>dial_reachability := Some (rea_start \<lparr>rea_running = False, rea_timer = False, rea_delegate = True\<rparr>),
                 dial_base := (dial_base s0)\<lparr>svc_connected := True\<rparr>\<rparr>
      in (s, svc_tell (dial_base s) SelConnectionSuccess ConnectionSuccess))"

definition dial_disconnect :: "DIALService \<Rightarrow> DIALService \<times> svcEvent list" where
  "dial_disconnect s0 =
     (let s = s0\<lparr>dial_reachability := map_option rea_stop (dial_reachability s0),
                 dial_base := (dial_base s0)\<lparr>svc_connected := False\<rparr>\<rparr>
      in (s, svc_tell (dial_base s) SelDisconnected (DisconnectedWithError None)))"

definition dial_didLoseReachability :: "DIALService \<Rightarrow> DIALService \<times> svcEvent list" where
  "dial_didLoseReachability s =
     (if svc_connected (dial_base s) then dial_disconnect s
      else (s\<lparr>dial_reachability := map_option rea_stop (dial_reachability s)\<rparr>, []))"

section \<open>Commands\<close>

definition hasApplication :: "DIALService \<Rightarrow> string \<Rightarrow> httpCommand result" where
  "hasApplication s appId = (case map_option (\<lambda>u. appendPathComponent u appId) (dial_commandURL s) of
      None \<Rightarrow> Inl NSInvalidArgumentException
    | Some path \<Rightarrow> Inr \<lparr>hc_method = ''GET'', hc_target = URLWithString path, hc_payload = None\<rparr>)"

text \<open>
  The description: the application URL is a header of the response with the description (nil raises), and the
  registered apps are asked for, one command each; an empty name is not asked for.
\<close>

fun probeCommands :: "DIALService \<Rightarrow> string list \<Rightarrow> (string \<times> httpCommand) list result" where
  "probeCommands s [] = Inr []"
| "probeCommands s (a # as) = (if a = [] then probeCommands s as
     else rbind (hasApplication s a) (\<lambda>c. rbind (probeCommands s as) (\<lambda>cs. Inr ((a, c) # cs))))"

definition dial_setServiceDescription ::
  "string list \<Rightarrow> ServiceDescription option \<Rightarrow> DIALService \<Rightarrow> (DIALService \<times> (string \<times> httpCommand) list) result" where
  "dial_setServiceDescription registeredApps description s0 =
     (let s1 = s0\<lparr>dial_description := description\<rparr> in
      rbind (case Option.bind description sd_locationResponseHeaders of
          None \<Rightarrow> Inr s1
        | Some headers \<Rightarrow> (case objectForKey headers ''Application-URL'' of
            None \<Rightarrow> Inl NSInvalidArgumentException
          | Some u \<Rightarrow> Inr (s1\<lparr>dial_description := map_option (\<lambda>d. d\<lparr>sd_commandURL := URLWithString u\<rparr>) description\<rparr>)))
        (\<lambda>s. rbind (probeCommands s registeredApps) (\<lambda>cs. Inr (s, cs))))"

text \<open>The answer to a probe: an app that is there adds its two capabilities, a failure nothing.\<close>

definition probed :: "string \<Rightarrow> NSError option + json option \<Rightarrow> DIALService \<Rightarrow> DIALService \<times> svcEvent list" where
  "probed appName answer s = (case answer of
      Inl e \<Rightarrow> (s, [])
    | Inr r \<Rightarrow> (case svc_addCapabilities [''Launcher.'' @ appName, ''Launcher.'' @ appName @ ''.Params''] (dial_base s) of
        (b, ev) \<Rightarrow> (s\<lparr>dial_base := b\<rparr>, ev)))"

text \<open>The HTTP request of a command; a dictionary is sent as JSON, which may fail.\<close>

record dialRequest =
  dr_method :: string
  dr_headers :: "(string \<times> string) list"
  dr_body :: "string option"

definition dial_sendCommand :: "(jdict \<Rightarrow> string option) \<Rightarrow> httpCommand \<Rightarrow> dialRequest option" where
  \<open>dial_sendCommand jsonText c =
     (if hc_payload c = None \<and> hc_method c \<noteq> ''POST''
      then Some \<lparr>dr_method = hc_method c, dr_headers = [(''Content-Length'', ''0'')], dr_body = None\<rparr>
      else case hc_payload c of
        None \<Rightarrow> Some \<lparr>dr_method = ''POST'', dr_headers = [(''Content-Length'', ''0'')], dr_body = None\<rparr>
      | Some p \<Rightarrow> map_option (\<lambda>b. \<lparr>dr_method = ''POST'', dr_headers = [(''Content-Length'', show_nat (length b)),
            (''Content-Type'', ''text/plain;charset="utf-8"'')], dr_body = Some b\<rparr>)
          (case p of JStr t \<Rightarrow> Some t | JObj d \<Rightarrow> jsonText d | _ \<Rightarrow> None))\<close>

text \<open>What comes back: an error, or a status, the location header and what the XML reader makes of the data.\<close>

datatype dialAnswer = DialError NSError | DialResponse int "string option" "NSError + jdict option"

definition statusFailure :: "int \<Rightarrow> NSError option" where
  "statusFailure statusCode =
     (if statusCode = 503 then Some (generateErrorWithCode ConnectStatusCodeTvError (Some ''Could not start application''))
      else if statusCode = 501
      then Some (generateErrorWithCode ConnectStatusCodeNotSupported (Some ''Was unable to perform the requested action, not supported''))
      else if statusCode = 413 then Some (generateErrorWithCode ConnectStatusCodeError (Some ''Message body is too long''))
      else if statusCode = 404 then Some (generateErrorWithCode ConnectStatusCodeError (Some ''Could not find requested application''))
      else if 200 \<le> statusCode \<and> statusCode \<le> 206 then None
      else Some (generateErrorWithCode ConnectStatusCodeError (Some ''An unknown error occurred'')))"

fun dial_answer :: "dialAnswer \<Rightarrow> NSError option + json option" where
  "dial_answer (DialError e) = Inl (Some e)"
| "dial_answer (DialResponse statusCode location xml) = (case statusFailure statusCode of
     Some e \<Rightarrow> Inl (Some e)
   | None \<Rightarrow> (case xml of
       Inl e \<Rightarrow> Inl (Some e)
     | Inr d \<Rightarrow> Inr (if statusCode = 201 \<and> location \<noteq> None then map_option JStr location else map_option JObj d)))"

section \<open>Launcher\<close>

definition appPath :: "DIALService \<Rightarrow> string list \<Rightarrow> (string \<Rightarrow> task) \<Rightarrow> task" where
  "appPath s components t = (case dial_commandURL s of
      None \<Rightarrow> Throw NSInvalidArgumentException | Some u \<Rightarrow> t (pathWithComponents (u # components)))"

definition getApplicationInfo :: "DIALService \<Rightarrow> string option \<Rightarrow> (json option \<Rightarrow> task) \<Rightarrow> task" where
  "getApplicationInfo s appId success =
     (if appId = None \<or> appId = Some []
      then failWith ConnectStatusCodeArgumentError (Some ''You must provide a valid app id'')
      else appPath s [the appId] (\<lambda>path.
        Command \<lparr>hc_method = ''GET'', hc_target = URLWithString path, hc_payload = None\<rparr> success Fail))"

definition dial_getAppState :: "DIALService \<Rightarrow> string option \<Rightarrow> (bool \<Rightarrow> bool \<Rightarrow> task) \<Rightarrow> task" where
  "dial_getAppState s appId success = getApplicationInfo s appId (\<lambda>r.
     orThrow (lookupPath r [''service'', ''state'', ''text'']) (\<lambda>state.
       let running = (asString state = Some ''running'') in success running running))"

text \<open>The session identifier is the location the device answers; an answer that is no string is kept as nil here.\<close>

definition dial_launch :: "dialEnv \<Rightarrow> DIALService \<Rightarrow> AppInfo \<Rightarrow> json option \<Rightarrow> string option \<Rightarrow> task" where
  "dial_launch de s appInfo params resourceName =
     appPath s (the (app_id appInfo) # (case resourceName of None \<Rightarrow> [] | Some r \<Rightarrow> if r = [] then [] else [r])) (\<lambda>path.
       Command \<lparr>hc_method = ''POST'', hc_target = URLWithString path, hc_payload = params\<rparr>
         (\<lambda>location. Reply (LauncherReply (AppLaunchReply ((launchSessionForAppId (app_id appInfo))
            \<lparr>ls_name := app_name appInfo, ls_sessionId := asString location, ls_sessionType := 1, ls_service := Some (de_self de)\<rparr>))))
         Fail)"

text \<open>An app that runs is asked for its resource first, so that the running one is addressed.\<close>

definition resourceNameOf :: "json option \<Rightarrow> json option result" where
  "resourceNameOf r = rbind (lookupPath r [''service'', ''link'', ''text'']) (\<lambda>t.
     if t = None then lookupPath r [''service'', ''atom:link'', ''rel''] else Inr t)"

definition dial_launchAppWithInfo :: "dialEnv \<Rightarrow> DIALService \<Rightarrow> AppInfo option \<Rightarrow> json option \<Rightarrow> task" where
  "dial_launchAppWithInfo de s appInfo params =
     (if Option.bind appInfo app_id = None
      then failWith ConnectStatusCodeArgumentError (Some ''Must provide a valid AppInfo object'')
      else let app = the appInfo in dial_getAppState s (app_id app) (\<lambda>running visible.
        if running then getApplicationInfo s (app_id app) (\<lambda>r.
          orThrow (resourceNameOf r) (\<lambda>resourceName. dial_launch de s app params (asString resourceName)))
        else dial_launch de s app params None))"

definition namedApp :: "string \<Rightarrow> AppInfo" where
  "namedApp i = (appInfoForId (Some i))\<lparr>app_name := Some i\<rparr>"

definition dial_launchApp :: "dialEnv \<Rightarrow> DIALService \<Rightarrow> string option \<Rightarrow> task" where
  "dial_launchApp de s appId =
     (if appId = None \<or> appId = Some [] then failWith ConnectStatusCodeArgumentError (Some ''Must provide a valid app id'')
      else dial_launchAppWithInfo de s (Some (namedApp (the appId))) None)"

definition dial_launchNetflix :: "dialEnv \<Rightarrow> DIALService \<Rightarrow> string option \<Rightarrow> task" where
  "dial_launchNetflix de s contentId = dial_launchAppWithInfo de s (Some (namedApp ''Netflix''))
     (case contentId of None \<Rightarrow> None | Some i \<Rightarrow> if i = [] then None else Some (JObj [(''v'', JStr i)]))"

definition dial_launchYouTube :: "dialEnv \<Rightarrow> DIALService \<Rightarrow> string option \<Rightarrow> real \<Rightarrow> task" where
  "dial_launchYouTube de s contentId startTime = (case contentId of
      None \<Rightarrow> dial_launchAppWithInfo de s (Some (namedApp ''YouTube'')) None
    | Some i \<Rightarrow>
        if i = [] then dial_launchAppWithInfo de s (Some (namedApp ''YouTube'')) None
        else if startTime < 0 then failWith ConnectStatusCodeArgumentError (Some ''Start time may not be negative'')
        else dial_launchAppWithInfo de s (Some (namedApp ''YouTube''))
          (Some (JStr (''pairingCode='' @ de_guid de @ ''&v='' @ i @ ''&t='' @ de_format1 de startTime))))"

definition dial_closeApp :: "dialEnv \<Rightarrow> DIALService \<Rightarrow> LaunchSession option \<Rightarrow> task" where
  "dial_closeApp de s launchSession = (case Option.bind launchSession ls_sessionId of
      None \<Rightarrow> failWith ConnectStatusCodeArgumentError (Some ''Must provide a valid launch session'')
    | Some i \<Rightarrow>
       (let root = ''http://'' @ formatObject (Option.bind (dial_commandURL s) (de_host de)) @ '':''
              @ formatObject (Option.bind (dial_commandURL s) (de_port de));
            path = (if hasPrefix i ''http://'' \<or> hasPrefix i ''https://'' then i else appendPathComponent root i)
        in Command \<lparr>hc_method = ''DELETE'', hc_target = URLWithString path, hc_payload = None\<rparr>
             (\<lambda>r. Reply (ResponseObject r)) Fail))"

fun dial_launcher :: "dialEnv \<Rightarrow> DIALService \<Rightarrow> launcherMsg \<Rightarrow> task" where
  "dial_launcher de s (LaunchApp appId) = dial_launchApp de s appId"
| "dial_launcher de s (LaunchAppWithInfo appInfo) = dial_launchAppWithInfo de s appInfo None"
| "dial_launcher de s (LaunchAppWithParams appInfo params) = dial_launchAppWithInfo de s appInfo (map_option JObj params)"
| "dial_launcher de s (CloseAppMsg launchSession) = dial_closeApp de s launchSession"
| "dial_launcher de s (GetAppState launchSession) = dial_getAppState s (Option.bind launchSession ls_appId)
     (\<lambda>running visible. Reply (LauncherReply (AppStateReply running visible)))"
| "dial_launcher de s (LaunchNetflix contentId) = dial_launchNetflix de s contentId"
| "dial_launcher de s (LaunchYouTube contentId) = dial_launchYouTube de s contentId 0"
| "dial_launcher de s (LaunchYouTubeAt contentId startTime) = dial_launchYouTube de s contentId startTime"
| "dial_launcher de s m = unsupported"

section \<open>Properties\<close>

lemma appPath_simps [simp]: "(\<And>p. alwaysAnswers (t p)) \<Longrightarrow> alwaysAnswers (appPath s cs t)"
  "(\<And>p. commandsAtMost (t p) n) \<Longrightarrow> commandsAtMost (appPath s cs t) n"
  by (simp_all add: appPath_def split: option.split)

lemma getApplicationInfo_simps [simp]: "(\<And>r. alwaysAnswers (t r)) \<Longrightarrow> alwaysAnswers (getApplicationInfo s i t)"
  "(\<And>r. commandsAtMost (t r) n) \<Longrightarrow> commandsAtMost (getApplicationInfo s i t) (Suc n)"
  by (simp_all add: getApplicationInfo_def)

lemma getAppState_simps [simp]: "(\<And>x y. alwaysAnswers (t x y)) \<Longrightarrow> alwaysAnswers (dial_getAppState s i t)"
  "(\<And>x y. commandsAtMost (t x y) n) \<Longrightarrow> commandsAtMost (dial_getAppState s i t) (Suc n)"
  by (simp_all add: dial_getAppState_def Let_def)

lemma dial_launch_simps [simp]: "alwaysAnswers (dial_launch de s a p r)" "n > 0 \<Longrightarrow> commandsAtMost (dial_launch de s a p r) n"
  by (simp_all add: dial_launch_def)

lemma dial_launchAppWithInfo_simps [simp]: "alwaysAnswers (dial_launchAppWithInfo de s a p)"
  "commandsAtMost (dial_launchAppWithInfo de s a p) 3"
proof -
  show "alwaysAnswers (dial_launchAppWithInfo de s a p)" by (simp add: dial_launchAppWithInfo_def Let_def)
  have "commandsAtMost (getApplicationInfo s i (\<lambda>r. orThrow (resourceNameOf r) (\<lambda>n. dial_launch de s x p (asString n)))) 2" for i x
    unfolding numeral_2_eq_2 by (rule getApplicationInfo_simps) simp
  then have "commandsAtMost (dial_getAppState s i (\<lambda>running visible.
      if running then getApplicationInfo s i (\<lambda>r. orThrow (resourceNameOf r) (\<lambda>n. dial_launch de s x p (asString n)))
      else dial_launch de s x p None)) 3" for i x
    unfolding numeral_3_eq_3 by (intro getAppState_simps) (simp flip: numeral_2_eq_2)
  then show "commandsAtMost (dial_launchAppWithInfo de s a p) 3" by (simp add: dial_launchAppWithInfo_def Let_def)
qed

lemma dial_launcher_simps: "alwaysAnswers (dial_launcher de s m)" "commandsAtMost (dial_launcher de s m) 3"
proof -
  show "alwaysAnswers (dial_launcher de s m)"
    by (cases m) (simp_all add: dial_launchApp_def dial_launchNetflix_def dial_launchYouTube_def dial_closeApp_def Let_def
        split: option.split)
  have "commandsAtMost (dial_getAppState s i (\<lambda>x y. Reply (q x y))) 3" for i q
    unfolding numeral_3_eq_3 by (rule getAppState_simps) simp
  then show "commandsAtMost (dial_launcher de s m) 3"
    by (cases m) (simp_all add: dial_launchApp_def dial_launchNetflix_def dial_launchYouTube_def dial_closeApp_def Let_def
        split: option.split)
qed

text \<open>
  C9: Every message to the launcher of a DIAL device calls one of the two blocks the caller gave, or raises, whatever
  the device answers, and takes at most three commands.
\<close>
theorem dial_launcher_answers:
  assumes "has_success bs" "has_failure bs"
  shows "snd (runTask bs dev (dial_launcher de s m)) \<notin> {NothingCalled, NilCalled} \<and> length (fst (runTask bs dev (dial_launcher de s m))) \<le> 3"
  using runTask_answers [OF dial_launcher_simps(1) assms] runTask_commands [OF dial_launcher_simps(2)] by blast

definition sample_dial :: DIALService where
  "sample_dial = \<lparr>dial_base = svc_initWithServiceConfig DeviceService_class None, dial_description = Some (sd_new\<lparr>sd_commandURL := Some ''http://10.0.0.1:8060/apps''\<rparr>),
     dial_reachability = None\<rparr>"

definition sample_blocks :: blocks where
  "sample_blocks = \<lparr>has_success = True, has_failure = True\<rparr>"

theorem dial_launcher_answers_witness:
  "\<forall>de. snd (runTask sample_blocks (\<lambda>c. Inr None) (dial_launcher de sample_dial (LaunchApp (Some ''YouTube'')))) \<notin> {NothingCalled, NilCalled}"
proof
  fix de
  have "has_success sample_blocks" "has_failure sample_blocks" by (simp_all add: sample_blocks_def)
  from dial_launcher_answers [OF this]
  show "snd (runTask sample_blocks (\<lambda>c. Inr None) (dial_launcher de sample_dial (LaunchApp (Some ''YouTube'')))) \<notin> {NothingCalled, NilCalled}"
    by blast
qed

text \<open>A device that answers neither the state nor a resource is asked twice: once for the state, once to launch.\<close>
lemma dial_launch_idle_app:
  assumes "dial_commandURL s = Some u" "app_id a = Some i" "i \<noteq> []" "\<And>c. hc_method c = ''GET'' \<Longrightarrow> dev c = Inr None"
  shows "map hc_method (fst (runTask bs dev (dial_launchAppWithInfo de s (Some a) p))) = [''GET'', ''POST'']"
  using assms by (simp add: dial_launchAppWithInfo_def Let_def dial_getAppState_def getApplicationInfo_def appPath_def
      lookupKey_def orThrow_def dial_launch_def split: sum.split)

text \<open>Description headers without an application URL raise; so does a launch before the description arrived.\<close>
lemma dial_no_application_URL_raises:
  "sd_locationResponseHeaders d = Some [] \<Longrightarrow> dial_setServiceDescription apps (Some d) s = Inl NSInvalidArgumentException"
  "dial_commandURL s = None \<Longrightarrow> i \<noteq> [] \<Longrightarrow> dial_launchApp de s (Some i) = Throw NSInvalidArgumentException"
  by (simp_all add: dial_setServiceDescription_def Let_def objectForKey_def dial_launchApp_def dial_launchAppWithInfo_def
      namedApp_def appInfoForId_def dial_getAppState_def getApplicationInfo_def appPath_def)

text \<open>What a probe adds is what the device confirmed: the capabilities of the app, and nothing on a failure.\<close>
lemma dial_probe_adds:
  assumes "appName \<noteq> []"
  shows "set (svc_capabilities (dial_base (fst (probed appName (Inr r) s)))) \<subseteq>
      set (svc_capabilities (dial_base s)) \<union> {''Launcher.'' @ appName, ''Launcher.'' @ appName @ ''.Params''}"
    "fst (probed appName (Inl e) s) = s"
  by (auto simp: probed_def svc_addCapabilities_def Let_def split: if_splits)

end
