(* ===== verification/Roku.thy ===== *)
theory Roku
  imports Dial SSDP WebOSRequests
begin

text \<open>
  \<open>src/Services/RokuService.m\<close>: Roku players. Every message is a task of HTTP commands; a key is the last part of
  the target of a command, a text is sent as one key per character, and YouTube is handed to the DIAL service of
  the same device.
\<close>

section \<open>Keys\<close>

datatype RokuKeyCode =
    RokuKeyCodeHome | RokuKeyCodeRewind | RokuKeyCodeFastForward | RokuKeyCodePlay | RokuKeyCodeSelect
  | RokuKeyCodeLeft | RokuKeyCodeRight | RokuKeyCodeDown | RokuKeyCodeUp | RokuKeyCodeBack
  | RokuKeyCodeInstantReplay | RokuKeyCodeInfo | RokuKeyCodeBackspace | RokuKeyCodeSearch | RokuKeyCodeEnter
  | RokuKeyCodeLiteral

fun rokuKeyCodeValue :: "RokuKeyCode \<Rightarrow> nat" where
  "rokuKeyCodeValue RokuKeyCodeHome = 0"
| "rokuKeyCodeValue RokuKeyCodeRewind = 1"
| "rokuKeyCodeValue RokuKeyCodeFastForward = 2"
| "rokuKeyCodeValue RokuKeyCodePlay = 3"
| "rokuKeyCodeValue RokuKeyCodeSelect = 4"
| "rokuKeyCodeValue RokuKeyCodeLeft = 5"
| "rokuKeyCodeValue RokuKeyCodeRight = 6"
| "rokuKeyCodeValue RokuKeyCodeDown = 7"
| "rokuKeyCodeValue RokuKeyCodeUp = 8"
| "rokuKeyCodeValue RokuKeyCodeBack = 9"
| "rokuKeyCodeValue RokuKeyCodeInstantReplay = 10"
| "rokuKeyCodeValue RokuKeyCodeInfo = 11"
| "rokuKeyCodeValue RokuKeyCodeBackspace = 12"
| "rokuKeyCodeValue RokuKeyCodeSearch = 13"
| "rokuKeyCodeValue RokuKeyCodeEnter = 14"
| "rokuKeyCodeValue RokuKeyCodeLiteral = 15"

definition kRokuKeyCodes :: "string list" where
  "kRokuKeyCodes = [''Home'', ''Rev'', ''Fwd'', ''Play'', ''Select'', ''Left'', ''Right'', ''Down'', ''Up'', ''Back'',
     ''InstantReplay'', ''Info'', ''Backspace'', ''Search'', ''Enter'', ''Lit_'']"

section \<open>State\<close>

definition roku_initialApps :: "string list" where
  "roku_initialApps = [''YouTube'', ''Netflix'', ''Amazon'']"

definition roku_registerApp :: "string \<Rightarrow> string list \<Rightarrow> string list" where
  "roku_registerApp appId registeredApps = (if appId \<in> set registeredApps then registeredApps else registeredApps @ [appId])"

text \<open>The service refers to the DIAL service of the device once it was found.\<close>

record RokuService =
  roku_base :: DeviceService
  roku_description :: "ServiceDescription option"
  roku_dialService :: "nat option"
  roku_reachability :: "Reachability option"

text \<open>
  What surrounds the service: the services of the device at an address, each with its class; the DIAL services
  behind the references; what the XML reader makes of a text, or the description of its error; how the text
  enumeration divides a text into composed character sequences; and itself.
\<close>

record rokuEnv =
  re_services :: "string \<Rightarrow> (nat \<times> string) list option"
  re_dial :: "nat \<Rightarrow> DIALService"
  re_dialEnv :: dialEnv
  re_parseXML :: "string option \<Rightarrow> string + jdict"
  re_sequences :: "string \<Rightarrow> string list"
  re_self :: sessionService
  re_mediaControl :: capObject

definition roku_capabilityList :: "string list" where
  "roku_capabilityList = [''Launcher.App.List'', ''Launcher.App'', ''Launcher.App.Params'', ''Launcher.AppStore'',
     ''Launcher.AppStore.Params'', ''Launcher.App.Close'', ''MediaPlayer.Display.Image'', ''MediaPlayer.Play.Video'',
     ''MediaPlayer.Play.Audio'', ''MediaPlayer.Close'', ''MediaPlayer.MetaData.Title'', ''MediaControl.Play'',
     ''MediaControl.Pause'', ''MediaControl.Rewind'', ''MediaControl.FastForward'', ''TextInputControl.Send.Text'',
     ''TextInputControl.Send.Enter'', ''TextInputControl.Send.Delete'']"

definition roku_updateCapabilities :: "DeviceService \<Rightarrow> DeviceService \<times> svcEvent list" where
  "roku_updateCapabilities s = svc_setCapabilities (roku_capabilityList @ kKeyControlCapabilities) s"

definition roku_connect :: "RokuService \<Rightarrow> RokuService \<times> svcEvent list" where
  "roku_connect s0 =
     (let s = s0\<lparr>roku_reachability := Some (rea_start \<lparr>rea_running = False, rea_timer = False, rea_delegate = True\<rparr>),
                 roku_base := (roku_base s0)\<lparr>svc_connected := True\<rparr>\<rparr>
      in (s, svc_tell (roku_base s) SelConnectionSuccess ConnectionSuccess))"

definition roku_disconnect :: "RokuService \<Rightarrow> RokuService \<times> svcEvent list" where
  "roku_disconnect s0 =
     (let s = s0\<lparr>roku_reachability := map_option rea_stop (roku_reachability s0),
                 roku_base := (roku_base s0)\<lparr>svc_connected := False\<rparr>\<rparr>
      in (s, svc_tell (roku_base s) SelDisconnected (DisconnectedWithError None)))"

definition roku_didLoseReachability :: "RokuService \<Rightarrow> RokuService \<times> svcEvent list" where
  "roku_didLoseReachability s =
     (if svc_connected (roku_base s) then roku_disconnect s
      else (s\<lparr>roku_reachability := map_option rea_stop (roku_reachability s)\<rparr>, []))"

definition roku_commandURL :: "RokuService \<Rightarrow> string option" where
  "roku_commandURL s = Option.bind (roku_description s) sd_commandURL"

text \<open>The first DIAL service among those of the device at the own address; the answer is kept.\<close>

definition roku_getDialService :: "rokuEnv \<Rightarrow> RokuService \<Rightarrow> RokuService \<times> nat option" where
  "roku_getDialService re s = (case roku_dialService s of
      Some r \<Rightarrow> (s, Some r)
    | None \<Rightarrow> (case Option.bind (Option.bind (roku_description s) sd_address) (re_services re) of
          None \<Rightarrow> (s, None)
        | Some services \<Rightarrow> (case find (\<lambda>(r, cls). cls = ''DIALService'') services of
              None \<Rightarrow> (s, None)
            | Some (r, cls) \<Rightarrow> (s\<lparr>roku_dialService := Some r\<rparr>, Some r))))"

section \<open>Commands\<close>

definition roku_sendCommand :: "(json \<Rightarrow> string option) \<Rightarrow> httpCommand \<Rightarrow> dialRequest" where
  \<open>roku_sendCommand jsonText c =
     (let contentType = (''Content-Type'', ''text/plain;charset="utf-8"'') in
      case hc_payload c of
        Some p \<Rightarrow> \<lparr>dr_method = ''POST'', dr_headers = [contentType, (''Content-Length'',
            show_nat (case jsonText p of None \<Rightarrow> 0 | Some b \<Rightarrow> length b))], dr_body = jsonText p\<rparr>
      | None \<Rightarrow> if hc_method c = ''POST'' then \<lparr>dr_method = ''POST'', dr_headers = [contentType], dr_body = None\<rparr>
          else \<lparr>dr_method = ''GET'', dr_headers = [contentType, (''Content-Length'', ''0'')], dr_body = None\<rparr>)\<close>

text \<open>What comes back: an error, or a status and the text of the data, nil when it is no UTF-8.\<close>

datatype rokuAnswer = RokuError NSError | RokuResponse int "string option"

fun roku_answer :: "rokuAnswer \<Rightarrow> NSError option + json option" where
  "roku_answer (RokuError e) = Inl (Some e)"
| "roku_answer (RokuResponse statusCode dataString) =
     (if statusCode < 200 \<or> statusCode \<ge> 300 then Inl (Some (generateErrorWithCode ConnectStatusCodeTvError None))
      else Inr (map_option JStr dataString))"

text \<open>
  \<open>URLByAppendingPathComponent:\<close> escapes what may not stand in a path and puts one slash before the component;
  the slashes of the URL are kept.
\<close>

definition path_char :: "char \<Rightarrow> bool" where
  "path_char c \<longleftrightarrow> url_char c \<and> c \<notin> set ''?#%;[]''"

definition escapePath :: "string \<Rightarrow> string" where
  "escapePath p = concat (map (\<lambda>c. if path_char c then [c]
     else [CHR ''%'', hexU (of_char c div 16), hexU (of_char c mod 16)]) p)"

definition URLByAppendingPathComponent :: "string \<Rightarrow> string \<Rightarrow> string" where
  "URLByAppendingPathComponent u c = u @ (if u \<noteq> [] \<and> last u = CHR ''/'' then [] else ''/'') @ escapePath c"

text \<open>Pressing a key: the target is built from its text, which raises without a command URL.\<close>

definition keyPressTarget :: "RokuService \<Rightarrow> string \<Rightarrow> string option result" where
  "keyPressTarget s keyCode = (case map_option (\<lambda>u. URLByAppendingPathComponent u ''keypress'') (roku_commandURL s) of
      None \<Rightarrow> Inl NSInvalidArgumentException
    | Some target \<Rightarrow> Inr (URLWithString (appendPathComponent target keyCode)))"

definition sendKeyPress :: "RokuService \<Rightarrow> string \<Rightarrow> task" where
  "sendKeyPress s keyCode = orThrow (keyPressTarget s keyCode) (\<lambda>targetURL.
     Command \<lparr>hc_method = ''POST'', hc_target = targetURL, hc_payload = None\<rparr> (\<lambda>r. Reply (ResponseObject r)) Fail)"

text \<open>The guard admits the code that equals the number of keys, with which the array raises.\<close>

definition roku_sendKeyCode :: "RokuService \<Rightarrow> nat \<Rightarrow> task" where
  "roku_sendKeyCode s keyCode =
     (if keyCode > length kRokuKeyCodes then failWith ConnectStatusCodeArgumentError None
      else if keyCode < length kRokuKeyCodes then sendKeyPress s (kRokuKeyCodes ! keyCode)
      else Throw NSRangeException)"

definition rokuKey :: "RokuService \<Rightarrow> RokuKeyCode \<Rightarrow> task" where
  "rokuKey s k = roku_sendKeyCode s (rokuKeyCodeValue k)"

fun roku_keyControl :: "RokuService \<Rightarrow> keyControlMsg \<Rightarrow> task" where
  "roku_keyControl s KeyUp = rokuKey s RokuKeyCodeUp"
| "roku_keyControl s KeyDown = rokuKey s RokuKeyCodeDown"
| "roku_keyControl s KeyLeft = rokuKey s RokuKeyCodeLeft"
| "roku_keyControl s KeyRight = rokuKey s RokuKeyCodeRight"
| "roku_keyControl s KeyHome = rokuKey s RokuKeyCodeHome"
| "roku_keyControl s KeyBack = rokuKey s RokuKeyCodeBack"
| "roku_keyControl s KeyOK = rokuKey s RokuKeyCodeSelect"
| "roku_keyControl s (SendKeyCode keyCode) = roku_sendKeyCode s keyCode"

text \<open>A text is one key press per character, each with the blocks of the caller.\<close>

definition roku_sendText :: "rokuEnv \<Rightarrow> RokuService \<Rightarrow> string \<Rightarrow> task list" where
  "roku_sendText re s input =
     map (\<lambda>charToSend. sendKeyPress s (kRokuKeyCodes ! rokuKeyCodeValue RokuKeyCodeLiteral @ urlEncode charToSend)) (re_sequences re input)"

fun roku_textInput :: "rokuEnv \<Rightarrow> RokuService \<Rightarrow> textInputMsg \<Rightarrow> task list" where
  "roku_textInput re s (SendText input) = roku_sendText re s input"
| "roku_textInput re s SendEnter = [rokuKey s RokuKeyCodeEnter]"
| "roku_textInput re s SendDelete = [rokuKey s RokuKeyCodeBackspace]"
| "roku_textInput re s SubscribeTextInputStatus = [unsupported]"

fun roku_mediaControl :: "RokuService \<Rightarrow> mediaControlMsg \<Rightarrow> task" where
  "roku_mediaControl s MediaPlay = rokuKey s RokuKeyCodePlay"
| "roku_mediaControl s MediaPause = rokuKey s RokuKeyCodePlay"
| "roku_mediaControl s MediaRewind = rokuKey s RokuKeyCodeRewind"
| "roku_mediaControl s MediaFastForward = rokuKey s RokuKeyCodeFastForward"
| "roku_mediaControl s m = unsupported"

section \<open>Launcher\<close>

text \<open>The parameters of an app in the query of the target; a value that is no string has no bytes to encode.\<close>

fun queryParams :: "nat \<Rightarrow> jdict \<Rightarrow> string result" where
  "queryParams count [] = Inr []"
| "queryParams count ((k, v) # ps) = (case v of
     JStr t \<Rightarrow> rbind (queryParams (Suc count) ps) (\<lambda>q.
       Inr ((if count = 0 then ''?'' else ''&'') @ urlEncode k @ ''='' @ urlEncode t @ q))
   | _ \<Rightarrow> Inl NSInvalidArgumentException)"

definition launchTarget :: "RokuService \<Rightarrow> string \<Rightarrow> jdict option \<Rightarrow> string option result" where
  "launchTarget s appId params =
     (let targetURL = map_option (\<lambda>u. URLByAppendingPathComponent (URLByAppendingPathComponent u ''launch'') appId) (roku_commandURL s) in
      case params of
        None \<Rightarrow> Inr targetURL
      | Some ps \<Rightarrow> rbind (queryParams 0 ps) (\<lambda>q. Inr (URLWithString (formatObject targetURL @ q))))"

definition roku_launchAppWithInfo :: "rokuEnv \<Rightarrow> RokuService \<Rightarrow> AppInfo option \<Rightarrow> jdict option \<Rightarrow> task" where
  "roku_launchAppWithInfo re s appInfo params = (case Option.bind appInfo app_id of
      None \<Rightarrow> failWith ConnectStatusCodeArgumentError (Some ''You must provide a valid AppInfo object.'')
    | Some appId \<Rightarrow> orThrow (launchTarget s appId params) (\<lambda>targetURL.
        Command \<lparr>hc_method = ''POST'', hc_target = targetURL, hc_payload = None\<rparr>
          (\<lambda>r. Reply (LauncherReply (AppLaunchReply ((launchSessionForAppId (Some appId))
             \<lparr>ls_name := Option.bind appInfo app_name, ls_sessionType := 1, ls_service := Some (re_self re)\<rparr>))))
          Fail))"

definition roku_launchApp :: "rokuEnv \<Rightarrow> RokuService \<Rightarrow> string option \<Rightarrow> task" where
  "roku_launchApp re s appId =
     (if appId = None then failWith ConnectStatusCodeArgumentError (Some ''You must provide an appId.'')
      else roku_launchAppWithInfo re s (Some (appInfoForId appId)) None)"

definition roku_launchYouTube :: "rokuEnv \<Rightarrow> string option \<Rightarrow> real \<Rightarrow> RokuService \<Rightarrow> RokuService \<times> task" where
  "roku_launchYouTube re contentId startTime s = (case roku_getDialService re s of
      (s', Some r) \<Rightarrow> (s', dial_launcher (re_dialEnv re) (re_dial re r) (LaunchYouTubeAt contentId startTime))
    | (s', None) \<Rightarrow> (s', failWith ConnectStatusCodeNotSupported
        (Some ''Cannot reach DIAL service for launching with provided start time'')))"

definition roku_launchAppStore :: "rokuEnv \<Rightarrow> RokuService \<Rightarrow> string option \<Rightarrow> task" where
  "roku_launchAppStore re s appId = roku_launchAppWithInfo re s
     (Some ((appInfoForId (Some ''11''))\<lparr>app_name := Some ''Channel Store''\<rparr>))
     (case appId of None \<Rightarrow> None | Some i \<Rightarrow> if i = [] then None else Some [(''contentId'', JStr i)])"

text \<open>The answer to the app list: the reader gives one dictionary for one app and an array for several.\<close>

definition roku_appInfoFromDictionary :: "json \<Rightarrow> AppInfo result" where
  "roku_appInfoFromDictionary appDictionary =
     rbind (subscript appDictionary (Some ''id'')) (\<lambda>i. rbind (subscript appDictionary (Some ''text'')) (\<lambda>name.
       Inr \<lparr>app_id = asString i, app_name = asString name, app_rawData = Some appDictionary\<rparr>))"

definition appsListed :: "jdict \<Rightarrow> AppInfo list result" where
  "appsListed appListDictionary = rbind (valueForKeyPath [''apps'', ''app''] (Some (JObj appListDictionary))) (\<lambda>appsObject.
     mapR roku_appInfoFromDictionary (case appsObject of
        Some (JObj d) \<Rightarrow> [JObj d] | Some (JArr xs) \<Rightarrow> xs | _ \<Rightarrow> []))"

definition roku_getAppList :: "rokuEnv \<Rightarrow> RokuService \<Rightarrow> (AppInfo list \<Rightarrow> task) \<Rightarrow> task" where
  "roku_getAppList re s success =
     Command \<lparr>hc_method = ''GET'', hc_target = map_option (\<lambda>u. URLByAppendingPathComponent (URLByAppendingPathComponent u ''query'') ''apps'')
         (roku_commandURL s), hc_payload = None\<rparr>
       (\<lambda>r. case re_parseXML re (asString r) of
          Inl description \<Rightarrow> failWith ConnectStatusCodeTvError (Some (''Couldn'' @ [CHR 0x27] @ ''t parse apps XML ('' @ description @ '')''))
        | Inr d \<Rightarrow> orThrow (appsListed d) success)
       Fail"

definition roku_launchNetflix :: "rokuEnv \<Rightarrow> RokuService \<Rightarrow> string option \<Rightarrow> task" where
  "roku_launchNetflix re s contentId = roku_getAppList re s (\<lambda>appList.
     case find (\<lambda>a. app_name a = Some ''Netflix'') appList of
       None \<Rightarrow> failWith ConnectStatusCodeError (Some ''Netflix app could not be found on TV'')
     | Some a \<Rightarrow> roku_launchAppWithInfo re s (Some a) (Some ((''mediaType'', JStr ''movie'') #
         (case contentId of None \<Rightarrow> [] | Some i \<Rightarrow> if i = [] then [] else [(''contentId'', JStr i)]))))"

text \<open>Closing an app, and closing media, presses the home key.\<close>

fun roku_launcher :: "rokuEnv \<Rightarrow> launcherMsg \<Rightarrow> RokuService \<Rightarrow> RokuService \<times> task" where
  "roku_launcher re (LaunchApp appId) s = (s, roku_launchApp re s appId)"
| "roku_launcher re (LaunchAppWithInfo appInfo) s = (s, roku_launchAppWithInfo re s appInfo None)"
| "roku_launcher re (LaunchAppWithParams appInfo params) s = (s, roku_launchAppWithInfo re s appInfo params)"
| "roku_launcher re (LaunchYouTube contentId) s = roku_launchYouTube re contentId 0 s"
| "roku_launcher re (LaunchYouTubeAt contentId startTime) s = roku_launchYouTube re contentId startTime s"
| "roku_launcher re (LaunchAppStore appId) s = (s, roku_launchAppStore re s appId)"
| "roku_launcher re (LaunchNetflix contentId) s = (s, roku_launchNetflix re s contentId)"
| "roku_launcher re (CloseAppMsg launchSession) s = (s, roku_keyControl s KeyHome)"
| "roku_launcher re GetAppList s = (s, roku_getAppList re s (\<lambda>appList. Reply (LauncherReply (AppListReply appList))))"
| "roku_launcher re m s = (s, unsupported)"

section \<open>The description and the probes\<close>

definition roku_hasApp :: "rokuEnv \<Rightarrow> RokuService \<Rightarrow> string \<Rightarrow> task" where
  "roku_hasApp re s appName = roku_getAppList re s (\<lambda>appList.
     case find (\<lambda>a. app_name a = Some appName) appList of
       None \<Rightarrow> failWith ConnectStatusCodeError (Some ''Could not find this app on the TV'')
     | Some a \<Rightarrow> Reply (LauncherReply (AppInfoReply a)))"

definition roku_setServiceDescription ::
  "rokuEnv \<Rightarrow> string list \<Rightarrow> ServiceDescription option \<Rightarrow> RokuService \<Rightarrow> RokuService \<times> (string \<times> task) list" where
  "roku_setServiceDescription re registeredApps description s0 =
     (let s = s0\<lparr>roku_description := map_option (\<lambda>d. d\<lparr>sd_port := 8060,
             sd_commandURL := URLWithString (''http://'' @ formatObject (sd_address d) @ '':'' @ show_nat 8060)\<rparr>) description\<rparr>
      in (s, map (\<lambda>a. (a, roku_hasApp re s a)) registeredApps))"

text \<open>The outcome of a probe: an app that was found adds its two capabilities; there is no failure block.\<close>

fun roku_probed :: "string \<Rightarrow> taskOutcome \<Rightarrow> RokuService \<Rightarrow> RokuService \<times> svcEvent list" where
  "roku_probed appName (Replied r) s =
     (case svc_addCapabilities [''Launcher.'' @ appName, ''Launcher.'' @ appName @ ''.Params''] (roku_base s) of
        (b, ev) \<Rightarrow> (s\<lparr>roku_base := b\<rparr>, ev))"
| "roku_probed appName o' s = (s, [])"

section \<open>Media\<close>

text \<open>Input to the player is the last component of the path of the target; nil in the path raises.\<close>

definition inputTask :: "rokuEnv \<Rightarrow> RokuService \<Rightarrow> string \<Rightarrow> (MediaLaunchObject \<Rightarrow> task) \<Rightarrow> task" where
  "inputTask re s applicationPath success = (case roku_commandURL s of
      None \<Rightarrow> Throw NSInvalidArgumentException
    | Some u \<Rightarrow> Command \<lparr>hc_method = ''POST'', hc_target = URLWithString (pathWithComponents [u, ''input'', applicationPath]), hc_payload = None\<rparr>
        (\<lambda>r. success (mlo_initWithLaunchSession (Some ((launchSessionForAppId (Some ''15985''))
           \<lparr>ls_name := Some ''simplevideoplayer'', ls_sessionType := 3, ls_service := Some (re_self re)\<rparr>)) (Some (re_mediaControl re))))
        Fail)"

definition roku_displayImage :: "rokuEnv \<Rightarrow> RokuService \<Rightarrow> MediaInfo option \<Rightarrow> (MediaLaunchObject \<Rightarrow> task) \<Rightarrow> task" where
  "roku_displayImage re s mediaInfo success = (case Option.bind mediaInfo mi_url of
      None \<Rightarrow> failWith ConnectStatusCodeArgumentError (Some ''You need to provide a video URL'')
    | Some imageURL \<Rightarrow> inputTask re s (''15985?t=p&u='' @ urlEncode imageURL @ ''&tr=crossfade'') success)"

definition encodeOrNull :: "string option \<Rightarrow> string" where
  "encodeOrNull t = (case t of None \<Rightarrow> ''(null)'' | Some x \<Rightarrow> urlEncode x)"

text \<open>The first letter of the type tells a video; an empty type has none, and the range raises.\<close>

definition mediaPath :: "MediaInfo \<Rightarrow> string \<Rightarrow> string result" where
  "mediaPath mediaInfo mediaURL =
     (let mediaType = ensureString (map_option (last \<circ> componentsSeparatedBy (CHR ''/'')) (mi_mimeType mediaInfo)) in
      rbind (case mi_mimeType mediaInfo of
          None \<Rightarrow> Inr False
        | Some [] \<Rightarrow> Inl NSRangeException
        | Some (c # cs) \<Rightarrow> Inr (c = CHR ''v''))
      (\<lambda>isVideo. Inr (if isVideo
         then ''15985?t=v&u='' @ urlEncode mediaURL @ ''&k=(null)&videoName='' @ encodeOrNull (mi_title mediaInfo)
           @ ''&videoFormat='' @ mediaType
         else ''15985?t=a&u='' @ urlEncode mediaURL @ ''&k=(null)&songname='' @ encodeOrNull (mi_title mediaInfo)
           @ ''&artistname='' @ encodeOrNull (mi_description mediaInfo) @ ''&songformat='' @ mediaType
           @ ''&albumarturl='' @ encodeOrNull (firstImageURL mediaInfo))))"

definition roku_playMedia :: "rokuEnv \<Rightarrow> RokuService \<Rightarrow> MediaInfo option \<Rightarrow> (MediaLaunchObject \<Rightarrow> task) \<Rightarrow> task" where
  "roku_playMedia re s mediaInfo success = (case mediaInfo of
      Some (m) \<Rightarrow> (case mi_url m of
          None \<Rightarrow> failWith ConnectStatusCodeArgumentError (Some ''You need to provide a media URL'')
        | Some mediaURL \<Rightarrow> orThrow (mediaPath m mediaURL) (\<lambda>p. inputTask re s p success))
    | None \<Rightarrow> failWith ConnectStatusCodeArgumentError (Some ''You need to provide a media URL''))"

text \<open>The messages with single values build the media object and call the success block without testing it.\<close>

definition roku_mediaFromURL ::
  "string option \<Rightarrow> string option \<Rightarrow> string option \<Rightarrow> string option \<Rightarrow> string option \<Rightarrow> MediaInfo result" where
  "roku_mediaFromURL url iconURL title description mimeType =
     addImage (img_initWithURL iconURL ImageTypeThumb)
       ((mi_initWithURL url mimeType)\<lparr>mi_title := title, mi_description := description\<rparr>)"

definition roku_mediaAgain :: "MediaInfo option \<Rightarrow> MediaInfo result" where
  "roku_mediaAgain mediaInfo = roku_mediaFromURL (Option.bind mediaInfo mi_url) (Option.bind mediaInfo firstImageURL)
     (Option.bind mediaInfo mi_title) (Option.bind mediaInfo mi_description) (Option.bind mediaInfo mi_mimeType)"

definition launched :: "MediaLaunchObject \<Rightarrow> task" where
  "launched launchObject = Reply (MediaPlayerReplyC (MediaPlayerReply launchObject))"

definition launchedParts :: "MediaLaunchObject \<Rightarrow> task" where
  "launchedParts launchObject =
     Insist (MediaPlayerReplyC (MediaPlayerDisplayReply (mlo_session launchObject) (mlo_mediaControl launchObject)))"

fun roku_mediaPlayer :: "rokuEnv \<Rightarrow> RokuService \<Rightarrow> mediaPlayerMsg \<Rightarrow> task" where
  "roku_mediaPlayer re s (DisplayImageWithMediaInfo m) = roku_displayImage re s m launched"
| "roku_mediaPlayer re s (PlayMediaWithMediaInfo m shouldLoop) = roku_playMedia re s m launched"
| "roku_mediaPlayer re s (CloseMediaMsg launchSession) = roku_keyControl s KeyHome"
| "roku_mediaPlayer re s (DisplayImageURL u i t d m) =
     orThrow (roku_mediaFromURL u i t d m) (\<lambda>mediaInfo. roku_displayImage re s (Some mediaInfo) launchedParts)"
| "roku_mediaPlayer re s (DisplayImageInfo m) =
     orThrow (roku_mediaAgain m) (\<lambda>mediaInfo. roku_displayImage re s (Some mediaInfo) launchedParts)"
| "roku_mediaPlayer re s (PlayMediaURL u i t d m shouldLoop) =
     orThrow (roku_mediaFromURL u i t d m) (\<lambda>mediaInfo. roku_playMedia re s (Some mediaInfo) launchedParts)"
| "roku_mediaPlayer re s (PlayMediaInfo m shouldLoop) =
     orThrow (roku_mediaAgain m) (\<lambda>mediaInfo. roku_playMedia re s (Some mediaInfo) launchedParts)"

section \<open>Targets of key presses\<close>

text \<open>The key of a target: what follows the last slash.\<close>

definition keyOfTarget :: "string \<Rightarrow> string" where
  "keyOfTarget t = rev (takeWhile (\<lambda>c. c \<noteq> CHR ''/'') (rev t))"

lemma collapseSlashes_without: "CHR ''/'' \<notin> set w \<Longrightarrow> collapseSlashes w = w"
  by (induction w rule: collapseSlashes.induct) auto

lemma collapseSlashes_tail:
  "w \<noteq> [] \<Longrightarrow> CHR ''/'' \<notin> set w \<Longrightarrow> collapseSlashes (x @ CHR ''/'' # w) = collapseSlashes (x @ [CHR ''/'']) @ w"
  by (induction x rule: collapseSlashes.induct) (auto simp: neq_Nil_conv collapseSlashes_without)

lemma collapseSlashes_ends: "collapseSlashes (x @ [CHR ''/'']) \<noteq> [] \<and> last (collapseSlashes (x @ [CHR ''/''])) = CHR ''/''"
  by (induction x rule: collapseSlashes.induct) auto

lemma collapseSlashes_subset: "set (collapseSlashes s) \<subseteq> set s"
  by (induction s rule: collapseSlashes.induct) auto

lemma keyOfTarget_append: "CHR ''/'' \<notin> set w \<Longrightarrow> keyOfTarget (x @ CHR ''/'' # w) = w"
  by (auto simp: keyOfTarget_def takeWhile_append)

lemma appendPathComponent_key:
  assumes "p \<noteq> []" "w \<noteq> []" "CHR ''/'' \<notin> set w"
  shows "keyOfTarget (appendPathComponent p w) = w" "set (appendPathComponent p w) \<subseteq> set p \<union> {CHR ''/''} \<union> set w"
proof -
  obtain y where y: "collapseSlashes (p @ [CHR ''/'']) = y @ [CHR ''/'']"
    using collapseSlashes_ends [of p] by (metis append_butlast_last_id)
  have "last w \<noteq> CHR ''/''" using assms(2,3) by (metis last_in_set)
  then have "appendPathComponent p w = y @ CHR ''/'' # w"
    using assms collapseSlashes_tail [OF assms(2,3), of p] y by (simp add: appendPathComponent_def)
  moreover have "set y \<subseteq> set p \<union> {CHR ''/''}"
    using collapseSlashes_subset [of "p @ [CHR ''/'']"] y by auto
  ultimately show "keyOfTarget (appendPathComponent p w) = w" "set (appendPathComponent p w) \<subseteq> set p \<union> {CHR ''/''} \<union> set w"
    using keyOfTarget_append [OF assms(3)] by auto
qed

lemma alnum_url: "is_alnum c \<Longrightarrow> url_char c \<and> c \<noteq> CHR ''/''"
  by (auto simp: is_alnum_def url_char_def Let_def)

lemma hexU_alnum: "n < 16 \<Longrightarrow> is_alnum (hexU n)"
  by (simp add: hexU_def is_alnum_def)

lemma urlEncodeChar_url: "list_all url_char (urlEncodeChar c)" "CHR ''/'' \<notin> set (urlEncodeChar c)"
proof -
  have p: "url_char (CHR ''%'')" by (simp add: url_char_def)
  have h: "is_alnum (hexU (of_char c div 16))" "is_alnum (hexU (of_char c mod 16))"
    by (rule hexU_alnum, simp)+
  from alnum_url [of c] alnum_url [OF h(1)] alnum_url [OF h(2)] p
  show "list_all url_char (urlEncodeChar c)" "CHR ''/'' \<notin> set (urlEncodeChar c)"
    by (simp_all only: urlEncodeChar_eq list.pred_inject list.set insert_iff empty_iff split: if_splits) auto
qed

lemma urlEncode_url: "list_all url_char (urlEncode s)" "CHR ''/'' \<notin> set (urlEncode s)"
proof -
  have "list_all url_char (concat (map urlEncodeChar t)) \<and> CHR ''/'' \<notin> set (concat (map urlEncodeChar t))" for t
    by (induction t) (simp_all add: urlEncodeChar_url)
  then show "list_all url_char (urlEncode s)" "CHR ''/'' \<notin> set (urlEncode s)" by (simp_all add: urlEncode_def)
qed

lemma keyPressTarget_key:
  assumes "roku_commandURL s = Some u" "list_all url_char u" "w \<noteq> []" "CHR ''/'' \<notin> set w" "list_all url_char w"
  shows "\<exists>t. keyPressTarget s w = Inr (Some t) \<and> keyOfTarget t = w"
proof -
  define p where "p = URLByAppendingPathComponent u ''keypress''"
  have "escapePath ''keypress'' = ''keypress''" by (simp add: escapePath_def path_char_def url_char_def)
  then have p: "p \<noteq> []" "list_all url_char p"
    using assms(2) by (simp_all add: p_def URLByAppendingPathComponent_def url_char_def)
  have "url_char (CHR ''/'')" by (simp add: url_char_def)
  with p(2) assms(5) appendPathComponent_key(2) [OF p(1) assms(3,4)]
  have "list_all url_char (appendPathComponent p w)" by (auto simp: list_all_iff)
  then show ?thesis
    using assms(1) appendPathComponent_key(1) [OF p(1) assms(3,4)]
    by (simp add: keyPressTarget_def URLWithString_def p_def)
qed

section \<open>Properties\<close>

lemma lit_url: "list_all url_char ''Lit_''"
  by (simp add: url_char_def)

lemma keyPress_run:
  assumes "roku_commandURL s = Some u" "list_all url_char u" "w \<noteq> []" "CHR ''/'' \<notin> set w" "list_all url_char w"
  shows "map (map_option keyOfTarget \<circ> hc_target) (fst (runTask bs dev (sendKeyPress s w))) = [Some w]"
proof -
  obtain t where "keyPressTarget s w = Inr (Some t)" "keyOfTarget t = w"
    using keyPressTarget_key [OF assms] by blast
  then show ?thesis by (simp add: sendKeyPress_def orThrow_def split: sum.split)
qed

text \<open>The text a player gets from the targets of key presses: the parts after \<open>Lit_\<close>, unescaped.\<close>

definition typedText :: "httpCommand list \<Rightarrow> string option" where
  "typedText cs = map_option concat (those (map (\<lambda>c. Option.bind (hc_target c) (\<lambda>t. urlDecode (drop 4 (keyOfTarget t)))) cs))"

lemma typedText_append:
  "typedText (xs @ ys) = Option.bind (typedText xs) (\<lambda>a. map_option (\<lambda>b. a @ b) (typedText ys))"
proof (induction xs)
  case (Cons x xs)
  then show ?case
    by (cases "Option.bind (hc_target x) (\<lambda>t. urlDecode (drop 4 (keyOfTarget t)))")
      (auto simp: typedText_def map_option_case split: option.splits)
qed (simp add: typedText_def map_option.compositionality option.map_id o_def)

text \<open>
  C37: A text sent to a Roku player arrives whole: the characters that the key presses of \<open>sendText:\<close> carry in their
  targets are, unescaped and in order, the text, for every division of the text into character sequences that
  covers it, and however the player answers.
\<close>
theorem roku_text_arrives:
  assumes "roku_commandURL s = Some u" "list_all url_char u"
    and "concat (re_sequences re input) = input"
    and "\<forall>p\<in>set (re_sequences re input). utf8_valid p \<and> CHR 0x00 \<notin> set p"
  shows "typedText (concat (map (\<lambda>t. fst (runTask bs dev t)) (roku_textInput re s (SendText input)))) = Some input"
proof -
  have one: "typedText (fst (runTask bs dev (sendKeyPress s (''Lit_'' @ urlEncode p)))) = Some p"
    if "utf8_valid p" "CHR 0x00 \<notin> set p" for p
  proof -
    have "map (map_option keyOfTarget \<circ> hc_target) (fst (runTask bs dev (sendKeyPress s (''Lit_'' @ urlEncode p))))
        = [Some (''Lit_'' @ urlEncode p)]"
      using assms(1,2) urlEncode_url lit_url by (intro keyPress_run) auto
    then obtain c t where "fst (runTask bs dev (sendKeyPress s (''Lit_'' @ urlEncode p))) = [c]"
        "hc_target c = Some t" "keyOfTarget t = ''Lit_'' @ urlEncode p"
      by (auto simp: map_eq_Cons_conv)
    then show ?thesis using urlDecode_encoded [OF that] by (simp add: typedText_def)
  qed
  have "typedText (concat (map (\<lambda>t. fst (runTask bs dev t)) (map (\<lambda>p. sendKeyPress s (''Lit_'' @ urlEncode p)) ps))) = Some (concat ps)"
    if "\<forall>p\<in>set ps. utf8_valid p \<and> CHR 0x00 \<notin> set p" for ps
    using that
  proof (induction ps)
    case (Cons p ps)
    then show ?case using one [of p] by (simp add: typedText_append)
  qed (simp add: typedText_def)
  from this [OF assms(4)] assms(3) show ?thesis
    by (simp add: roku_sendText_def kRokuKeyCodes_def)
qed


definition sample_roku :: RokuService where
  "sample_roku = \<lparr>roku_base = svc_initWithServiceConfig DeviceService_class None,
     roku_description = Some (sd_new\<lparr>sd_commandURL := Some ''http://10.0.0.2:8060''\<rparr>), roku_dialService = None,
     roku_reachability = None\<rparr>"

text \<open>A division into single bytes, which covers every text.\<close>

definition sample_roku_env :: "dialEnv \<Rightarrow> sessionService \<Rightarrow> capObject \<Rightarrow> rokuEnv" where
  "sample_roku_env de self control = \<lparr>re_services = (\<lambda>a. None), re_dial = (\<lambda>r. sample_dial), re_dialEnv = de,
     re_parseXML = (\<lambda>x. Inr []), re_sequences = map (\<lambda>c. [c]), re_self = self, re_mediaControl = control\<rparr>"

theorem roku_text_arrives_witness:
  "\<forall>de self control. typedText (concat (map (\<lambda>t. fst (runTask sample_blocks (\<lambda>c. Inr None) t))
     (roku_textInput (sample_roku_env de self control) sample_roku (SendText ''a/b'')))) = Some ''a/b''"
proof (intro allI)
  fix de self control
  have "url_char c" if "c \<in> set ''http://10.0.0.2:8060''" for c using that by (auto simp: url_char_def)
  then show "typedText (concat (map (\<lambda>t. fst (runTask sample_blocks (\<lambda>c. Inr None) t))
     (roku_textInput (sample_roku_env de self control) sample_roku (SendText ''a/b'')))) = Some ''a/b''"
    by (intro roku_text_arrives [where u = "''http://10.0.0.2:8060''"])
      (simp_all add: roku_commandURL_def sample_roku_def sample_roku_env_def list_all_iff Let_def)
qed

lemma sendKeyPress_simps [simp]: "alwaysAnswers (sendKeyPress s k)" "n > 0 \<Longrightarrow> commandsAtMost (sendKeyPress s k) n"
  by (simp_all add: sendKeyPress_def)

lemma roku_sendKeyCode_simps [simp]: "alwaysAnswers (roku_sendKeyCode s k)" "n > 0 \<Longrightarrow> commandsAtMost (roku_sendKeyCode s k) n"
  by (simp_all add: roku_sendKeyCode_def)

lemma rokuKey_simps [simp]: "alwaysAnswers (rokuKey s k)" "n > 0 \<Longrightarrow> commandsAtMost (rokuKey s k) n"
  by (simp_all add: rokuKey_def)

lemma roku_keyControl_simps [simp]: "alwaysAnswers (roku_keyControl s m)" "commandsAtMost (roku_keyControl s m) (Suc n)"
  by (cases m; simp)+

lemma roku_mediaControl_simps [simp]: "alwaysAnswers (roku_mediaControl s m)" "commandsAtMost (roku_mediaControl s m) (Suc n)"
  by (cases m; simp)+

lemma roku_launchAppWithInfo_simps [simp]: "alwaysAnswers (roku_launchAppWithInfo re s a p)"
  "n > 0 \<Longrightarrow> commandsAtMost (roku_launchAppWithInfo re s a p) n"
  by (simp_all add: roku_launchAppWithInfo_def split: option.split)

lemma roku_getAppList_simps [simp]: "(\<And>l. alwaysAnswers (f l)) \<Longrightarrow> alwaysAnswers (roku_getAppList re s f)"
  "(\<And>l. commandsAtMost (f l) n) \<Longrightarrow> commandsAtMost (roku_getAppList re s f) (Suc n)"
  by (simp_all add: roku_getAppList_def split: sum.split)

lemma launched_simps [simp]: "alwaysAnswers (launched o')" "commandsAtMost (launched o') n"
  "alwaysAnswers (launchedParts o')" "commandsAtMost (launchedParts o') n"
  by (simp_all add: launched_def launchedParts_def)

lemma input_simps [simp]: "(\<And>x. alwaysAnswers (f x)) \<Longrightarrow> alwaysAnswers (inputTask re s p f)"
  "(\<And>x. commandsAtMost (f x) n) \<Longrightarrow> commandsAtMost (inputTask re s p f) (Suc n)"
  by (simp_all add: inputTask_def split: option.split)

lemma roku_mediaPlayer_simps: "alwaysAnswers (roku_mediaPlayer re s m) \<and> commandsAtMost (roku_mediaPlayer re s m) (Suc n)"
  by (cases m) (simp_all add: roku_displayImage_def roku_playMedia_def split: option.split)


lemma roku_launcher_simps: "alwaysAnswers (snd (roku_launcher re m s))" "commandsAtMost (snd (roku_launcher re m s)) 3"
proof -
  have n: "alwaysAnswers (roku_launchNetflix re s i) \<and> commandsAtMost (roku_launchNetflix re s i) 3" for i
    unfolding roku_launchNetflix_def numeral_3_eq_3
    by (intro conjI roku_getAppList_simps) (simp_all split: option.split)
  have y: "alwaysAnswers (snd (roku_launchYouTube re i t s)) \<and> commandsAtMost (snd (roku_launchYouTube re i t s)) 3" for i t
    by (simp add: roku_launchYouTube_def dial_launcher_simps del: dial_launcher.simps split: prod.split option.split)
  have l: "alwaysAnswers (roku_getAppList re s (\<lambda>l. Reply (r l))) \<and> commandsAtMost (roku_getAppList re s (\<lambda>l. Reply (r l))) 3" for r
    unfolding numeral_3_eq_3 by (intro conjI roku_getAppList_simps) simp_all
  have k: "alwaysAnswers (roku_keyControl s KeyHome) \<and> commandsAtMost (roku_keyControl s KeyHome) 3"
    by simp
  show "alwaysAnswers (snd (roku_launcher re m s))" "commandsAtMost (snd (roku_launcher re m s)) 3"
    using n y l k by (cases m; simp add: roku_launchApp_def roku_launchAppStore_def)+
qed

text \<open>The tasks of one message of the application to a Roku player.\<close>

fun roku_tasks :: "rokuEnv \<Rightarrow> RokuService \<Rightarrow> capMessage \<Rightarrow> task list" where
  "roku_tasks re s (LauncherMsg m) = [snd (roku_launcher re m s)]"
| "roku_tasks re s (MediaPlayerMsg m) = [roku_mediaPlayer re s m]"
| "roku_tasks re s (MediaControlMsg m) = [roku_mediaControl s m]"
| "roku_tasks re s (KeyControlMsg m) = [roku_keyControl s m]"
| "roku_tasks re s (TextInputMsg m) = roku_textInput re s m"
| "roku_tasks re s m = []"

text \<open>
  Every task of a message to a Roku player calls one of the two blocks the caller gave, or raises, whatever the
  player answers, and takes at most three commands, also where YouTube is handed to the DIAL service.
\<close>
theorem roku_message_answers:
  assumes "has_success bs" "has_failure bs" "t \<in> set (roku_tasks re s m)"
  shows "snd (runTask bs dev t) \<notin> {NothingCalled, NilCalled} \<and> length (fst (runTask bs dev t)) \<le> 3"
proof -
  have "alwaysAnswers t \<and> commandsAtMost t 3"
  proof (cases m)
    case (TextInputMsg x)
    with assms(3) show ?thesis by (cases x) (auto simp: roku_sendText_def)
  next
    case (MediaPlayerMsg x)
    with assms(3) roku_mediaPlayer_simps [of re s x 2] show ?thesis by simp
  qed (use assms(3) roku_launcher_simps [of re _ s] in \<open>auto simp: numeral_3_eq_3\<close>)
  then show ?thesis using runTask_answers [OF _ assms(1,2)] runTask_commands by blast
qed

theorem roku_message_answers_witness:
  "\<forall>de self control. snd (runTask sample_blocks (\<lambda>c. Inr None) (roku_keyControl sample_roku KeyHome)) \<notin> {NothingCalled, NilCalled}"
proof (intro allI)
  fix de self control
  have b: "has_success sample_blocks" "has_failure sample_blocks" by (simp_all add: sample_blocks_def)
  have "roku_keyControl sample_roku KeyHome \<in> set (roku_tasks (sample_roku_env de self control) sample_roku (KeyControlMsg KeyHome))"
    by simp
  from roku_message_answers [OF b this]
  show "snd (runTask sample_blocks (\<lambda>c. Inr None) (roku_keyControl sample_roku KeyHome)) \<notin> {NothingCalled, NilCalled}"
    by blast
qed

text \<open>
  Every key of the enumeration has its own text in the table, so that different keys are different commands; the
  code after the last one passes the guard and raises, a larger one is an argument error.
\<close>
lemma rokuKey_text: "rokuKey s k = sendKeyPress s (kRokuKeyCodes ! rokuKeyCodeValue k)"
  by (cases k) (simp_all add: rokuKey_def roku_sendKeyCode_def kRokuKeyCodes_def)

lemma rokuKey_texts_distinct: "kRokuKeyCodes ! rokuKeyCodeValue k = kRokuKeyCodes ! rokuKeyCodeValue k' \<longleftrightarrow> k = k'"
  by (cases k; cases k'; simp add: kRokuKeyCodes_def)

lemma roku_keyCode_after_last_raises: "roku_sendKeyCode s 16 = Throw NSRangeException"
  "c > 16 \<Longrightarrow> roku_sendKeyCode s c = failWith ConnectStatusCodeArgumentError None"
  by (simp_all add: roku_sendKeyCode_def kRokuKeyCodes_def)

text \<open>The empty text calls neither block; a text of several characters calls one for each of them.\<close>
lemma roku_text_answers_per_character:
  "re_sequences re input = [] \<Longrightarrow> roku_textInput re s (SendText input) = []"
  "length (roku_textInput re s (SendText input)) = length (re_sequences re input)"
  by (simp_all add: roku_sendText_def)

text \<open>Without a success block the messages with single values call nil once the player has answered.\<close>
lemma roku_display_needs_success:
  assumes "roku_commandURL s = Some b" "\<not> has_success bs" "\<And>c. dev c = Inr r"
  shows "snd (runTask bs dev (roku_mediaPlayer re s (DisplayImageURL (Some u) i t d m))) = NilCalled"
    "snd (runTask bs dev (roku_mediaPlayer re s (DisplayImageWithMediaInfo (Some (mi_initWithURL (Some u) m))))) = NothingCalled"
  using assms by (simp_all add: roku_mediaFromURL_def addImage_def img_initWithURL_def mi_initWithURL_def orThrow_def
      roku_displayImage_def inputTask_def launchedParts_def launched_def)

lemma roku_empty_mime_type_raises:
  "roku_mediaPlayer re s (PlayMediaWithMediaInfo (Some (mi_initWithURL (Some u) (Some []))) l) = Throw NSRangeException"
  by (simp add: roku_playMedia_def mediaPath_def mi_initWithURL_def orThrow_def Let_def)

end
