(* ===== verification/DlnaServer.thy ===== *)
theory DlnaServer
  imports HttpTasks Util
begin

text \<open>
  \<open>src/Services/Helpers/DLNAHTTPServer.m\<close>: the HTTP server that takes the notifications of a media renderer and
  calls the blocks of the subscriptions to the service they come from. Subscriptions are shared objects; the table
  holds references and the store is passed along.
\<close>

section \<open>State\<close>

type_synonym subscriptionStore = "nat \<Rightarrow> ServiceSubscription"

text \<open>The web server is nil, or there with whether it runs; the subscriptions are filed under the path of their target.\<close>

record DLNAHTTPServer =
  dhs_server :: "bool option"
  dhs_subscriptions :: "nat list nsdict"

definition dhs_new :: DLNAHTTPServer where
  "dhs_new = \<lparr>dhs_server = None, dhs_subscriptions = []\<rparr>"

definition dhs_isRunning :: "DLNAHTTPServer \<Rightarrow> bool" where
  "dhs_isRunning d = (case dhs_server d of None \<Rightarrow> False | Some running \<Rightarrow> running)"

definition dhs_stop :: "DLNAHTTPServer \<Rightarrow> DLNAHTTPServer" where
  "dhs_stop d = (case dhs_server d of None \<Rightarrow> d | Some running \<Rightarrow> d\<lparr>dhs_server := None\<rparr>)"

text \<open>Starting forgets every subscription; whether the web server then runs depends on the port.\<close>

definition dhs_start :: "bool \<Rightarrow> DLNAHTTPServer \<Rightarrow> DLNAHTTPServer" where
  "dhs_start portFree d = (dhs_stop d)\<lparr>dhs_subscriptions := [], dhs_server := Some portFree\<rparr>"

definition dhs_hasSubscriptions :: "DLNAHTTPServer \<Rightarrow> bool" where
  "dhs_hasSubscriptions d = (dhs_subscriptions d \<noteq> [])"

section \<open>Subscriptions\<close>

text \<open>
  The key of a URL is what follows the host: the third slash and the rest of what follows the scheme. A URL too
  short for the range raises, one without a path fails the assertion, and nil has no key.
\<close>

definition resourceSpecifier :: "string \<Rightarrow> string" where
  "resourceSpecifier url = drop 1 (dropWhile (\<lambda>c. c \<noteq> CHR '':'') url)"

definition serviceSubscriptionKeyForURL :: "string option \<Rightarrow> string option result" where
  "serviceSubscriptionKeyForURL url = (case url of
      None \<Rightarrow> Inr None
    | Some u \<Rightarrow> (let r = resourceSpecifier u in
        if length r < 2 then Inl NSRangeException
        else case dropWhile (\<lambda>c. c \<noteq> CHR ''/'') (drop 2 r) of
          [] \<Rightarrow> Inl NSInternalInconsistencyException
        | c # cs \<Rightarrow> Inr (Some (c # cs))))"

definition dhs_addSubscription ::
  "nat \<Rightarrow> DLNAHTTPServer \<times> subscriptionStore \<Rightarrow> (DLNAHTTPServer \<times> subscriptionStore) result" where
  "dhs_addSubscription r ds = (case ds of (d, h) \<Rightarrow>
     rbind (serviceSubscriptionKeyForURL (cmd_target (h r))) (\<lambda>key. case key of
        None \<Rightarrow> Inl NSInvalidArgumentException
      | Some k \<Rightarrow> Inr (d\<lparr>dhs_subscriptions := setObject
            ((case objectForKey (dhs_subscriptions d) k of None \<Rightarrow> [] | Some rs \<Rightarrow> rs) @ [r]) k (dhs_subscriptions d)\<rparr>,
          h(r := (h r)\<lparr>sub_isSubscribed := True\<rparr>))))"

text \<open>Removing a subscription removes every occurrence, and the key with the last one.\<close>

definition dhs_removeSubscription ::
  "nat \<Rightarrow> DLNAHTTPServer \<times> subscriptionStore \<Rightarrow> (DLNAHTTPServer \<times> subscriptionStore) result" where
  "dhs_removeSubscription r ds = (case ds of (d, h) \<Rightarrow>
     rbind (serviceSubscriptionKeyForURL (cmd_target (h r))) (\<lambda>key.
       case Option.bind key (objectForKey (dhs_subscriptions d)) of
         None \<Rightarrow> Inr (d, h)
       | Some rs \<Rightarrow> (let rs' = filter (\<lambda>x. x \<noteq> r) rs; k = the key in
           Inr (d\<lparr>dhs_subscriptions := (if rs' = [] then removeObjectForKey k (dhs_subscriptions d)
                 else setObject rs' k (dhs_subscriptions d))\<rparr>,
             h(r := (h r)\<lparr>sub_isSubscribed := False\<rparr>)))))"

section \<open>Notifications\<close>

text \<open>
  A notification: its URL, its body, nil when there is none, and what the XML reader makes of a body and of a
  text. The outcome is the blocks that run on the main queue, in order, each with the event.
\<close>

record notification =
  ntf_url :: "string option"
  ntf_data :: "string option"

definition whitespace_or_newline :: "char \<Rightarrow> bool" where
  "whitespace_or_newline c \<longleftrightarrow> c \<in> {CHR '' '', CHR 0x09, CHR 0x0A, CHR 0x0B, CHR 0x0C, CHR 0x0D}"

definition trimmed :: "string \<Rightarrow> string" where
  "trimmed s = rev (dropWhile whitespace_or_newline (rev (dropWhile whitespace_or_newline s)))"

definition dhs_handleEvent :: "jdict \<Rightarrow> nat list \<Rightarrow> subscriptionStore \<Rightarrow> (nat \<times> jdict) list" where
  "dhs_handleEvent eventInfo subscriptions h = concat (map (\<lambda>r.
     map (\<lambda>b. (b, eventInfo)) (case sub_successCalls (h r) of None \<Rightarrow> [] | Some bs \<Rightarrow> bs)) subscriptions)"

definition dhs_eventOf :: "(string \<Rightarrow> jdict option) \<Rightarrow> string \<Rightarrow> jdict option result" where
  "dhs_eventOf parseXML requestData = (case parseXML requestData of
      None \<Rightarrow> Inr None
    | Some requestDataXML \<Rightarrow>
        rbind (lookupPath (Some (JObj requestDataXML)) [''e:propertyset'', ''e:property'', ''LastChange'', ''text'']) (\<lambda>t.
          case t of
            None \<Rightarrow> Inr None
          | Some (JStr encoded) \<Rightarrow> Inr (parseXML encoded)
          | Some _ \<Rightarrow> Inl NSInvalidArgumentException))"

definition dhs_processRequest ::
  "(string \<Rightarrow> jdict option) \<Rightarrow> notification \<Rightarrow> DLNAHTTPServer \<Rightarrow> subscriptionStore \<Rightarrow> (nat \<times> jdict) list result" where
  "dhs_processRequest parseXML n d h =
     (if ntf_data n = None \<or> ntf_data n = Some [] then Inr []
      else rbind (serviceSubscriptionKeyForURL (ntf_url n)) (\<lambda>key.
        case Option.bind (map_option trimmed key) (objectForKey (dhs_subscriptions d)) of
          None \<Rightarrow> Inr []
        | Some subscriptions \<Rightarrow>
            if subscriptions = [] then Inr []
            else rbind (dhs_eventOf parseXML (the (ntf_data n))) (\<lambda>e. Inr (case e of
                None \<Rightarrow> [] | Some eventXML \<Rightarrow> dhs_handleEvent eventXML subscriptions h))))"

text \<open>The address of the callbacks; the port is fixed.\<close>

definition dhs_getHostPath :: "string \<Rightarrow> string" where
  "dhs_getHostPath ipAddress = ''http://'' @ ipAddress @ '':49291/''"

text \<open>The last IPv4 address of the interfaces, each with its family; \<open>error\<close> without one.\<close>

definition getIPAddress :: "(bool \<times> string) list option \<Rightarrow> string" where
  "getIPAddress interfaces = (case interfaces of None \<Rightarrow> ''error''
     | Some is \<Rightarrow> (case rev (filter fst is) of [] \<Rightarrow> ''error'' | (f, a) # r \<Rightarrow> a))"

section \<open>Properties\<close>

text \<open>
  The table is consistent: its keys are distinct, no list is empty or has duplicates, and every subscription in it
  is marked subscribed and filed under the key of its target.
\<close>

definition dhs_inv :: "DLNAHTTPServer \<Rightarrow> subscriptionStore \<Rightarrow> bool" where
  "dhs_inv d h \<longleftrightarrow> dict_wf (dhs_subscriptions d) \<and>
     (\<forall>k rs. objectForKey (dhs_subscriptions d) k = Some rs \<longrightarrow> rs \<noteq> [] \<and>
        (\<forall>r\<in>set rs. sub_isSubscribed (h r) \<and> serviceSubscriptionKeyForURL (cmd_target (h r)) = Inr (Some k)))"

lemma dhs_inv_empty [simp]: "dhs_subscriptions d = [] \<Longrightarrow> dhs_inv d h"
  by (simp add: dhs_inv_def dict_wf_def objectForKey_def)

lemma dhs_inv_start [simp]: "dhs_inv (dhs_start p d) h"
  by (rule dhs_inv_empty) (simp add: dhs_start_def)

lemma dhs_inv_stop: "dhs_inv d h \<Longrightarrow> dhs_inv (dhs_stop d) h"
  by (simp add: dhs_stop_def dhs_inv_def split: option.split)

lemma dhs_add_files:
  assumes "dhs_addSubscription r (d, h) = Inr (d', h')"
  obtains k where "serviceSubscriptionKeyForURL (cmd_target (h r)) = Inr (Some k)"
    and "dhs_subscriptions d' = setObject ((case objectForKey (dhs_subscriptions d) k of None \<Rightarrow> [] | Some rs \<Rightarrow> rs) @ [r]) k (dhs_subscriptions d)"
    and "dhs_server d' = dhs_server d" "h' = h(r := (h r)\<lparr>sub_isSubscribed := True\<rparr>)"
proof -
  obtain k where k: "serviceSubscriptionKeyForURL (cmd_target (h r)) = Inr (Some k)"
    using assms by (auto simp: dhs_addSubscription_def rbind_Inr_iff split: option.split_asm)
  with assms show thesis by (intro that [OF k]) (auto simp: dhs_addSubscription_def)
qed

lemma dhs_inv_add:
  assumes "dhs_inv d h" "dhs_addSubscription r (d, h) = Inr (d', h')"
  shows "dhs_inv d' h'"
  using assms(2)
proof (rule dhs_add_files)
  fix k
  assume a: "serviceSubscriptionKeyForURL (cmd_target (h r)) = Inr (Some k)"
    "dhs_subscriptions d' = setObject ((case objectForKey (dhs_subscriptions d) k of None \<Rightarrow> [] | Some rs \<Rightarrow> rs) @ [r]) k (dhs_subscriptions d)"
    "h' = h(r := (h r)\<lparr>sub_isSubscribed := True\<rparr>)"
  with assms(1) show ?thesis
    by (cases "objectForKey (dhs_subscriptions d) k") (auto simp: dhs_inv_def)
qed

lemma dhs_remove_lookup:
  assumes "dhs_inv d h" "dhs_removeSubscription r (d, h) = Inr (d', h')"
  shows "dict_wf (dhs_subscriptions d')" "h' = h \<or> h' = h(r := (h r)\<lparr>sub_isSubscribed := False\<rparr>)"
    and "objectForKey (dhs_subscriptions d') k = Some rs \<Longrightarrow>
      rs \<noteq> [] \<and> r \<notin> set rs \<and> (\<exists>rs0. objectForKey (dhs_subscriptions d) k = Some rs0 \<and> set rs \<subseteq> set rs0)"
proof -
  obtain key where key: "serviceSubscriptionKeyForURL (cmd_target (h r)) = Inr key"
    using assms(2) by (auto simp: dhs_removeSubscription_def rbind_Inr_iff)
  have other: "r \<notin> set rs" if "objectForKey (dhs_subscriptions d) k = Some rs" "key \<noteq> Some k" for k rs
    using assms(1) key that by (auto simp: dhs_inv_def)
  have wf: "dict_wf (dhs_subscriptions d)" and ne: "objectForKey (dhs_subscriptions d) k \<noteq> Some []" for k
    using assms(1) by (auto simp: dhs_inv_def)
  have "dict_wf (dhs_subscriptions d') \<and> (h' = h \<or> h' = h(r := (h r)\<lparr>sub_isSubscribed := False\<rparr>)) \<and>
    (\<forall>k rs. objectForKey (dhs_subscriptions d') k = Some rs \<longrightarrow>
      rs \<noteq> [] \<and> r \<notin> set rs \<and> (\<exists>rs0. objectForKey (dhs_subscriptions d) k = Some rs0 \<and> set rs \<subseteq> set rs0))"
  proof (cases "Option.bind key (objectForKey (dhs_subscriptions d))")
    case None
    with assms(2) key have "d' = d" "h' = h" by (auto simp: dhs_removeSubscription_def)
    moreover have "rs \<noteq> [] \<and> r \<notin> set rs" if "objectForKey (dhs_subscriptions d) k = Some rs" for k rs
      using that None ne [of k] other [of k rs] by (cases "key = Some k") auto
    ultimately show ?thesis using wf by simp
  next
    case (Some rs)
    then obtain i where i: "key = Some i" "objectForKey (dhs_subscriptions d) i = Some rs" by (auto simp: bind_eq_Some_conv)
    have d': "h' = h(r := (h r)\<lparr>sub_isSubscribed := False\<rparr>)" "dhs_subscriptions d' = (if filter (\<lambda>x. x \<noteq> r) rs = []
        then removeObjectForKey i (dhs_subscriptions d) else setObject (filter (\<lambda>x. x \<noteq> r) rs) i (dhs_subscriptions d))"
      using assms(2) key i Some by (auto simp: dhs_removeSubscription_def Let_def)
    show ?thesis using wf ne other i by (auto simp: d' split: if_splits)
  qed
  then show "dict_wf (dhs_subscriptions d')" "h' = h \<or> h' = h(r := (h r)\<lparr>sub_isSubscribed := False\<rparr>)"
    and "objectForKey (dhs_subscriptions d') k = Some rs \<Longrightarrow>
      rs \<noteq> [] \<and> r \<notin> set rs \<and> (\<exists>rs0. objectForKey (dhs_subscriptions d) k = Some rs0 \<and> set rs \<subseteq> set rs0)"
    by blast+
qed

lemma dhs_inv_remove:
  assumes "dhs_inv d h" "dhs_removeSubscription r (d, h) = Inr (d', h')"
  shows "dhs_inv d' h'"
  unfolding dhs_inv_def
proof (intro conjI allI impI ballI)
  fix k rs x
  assume k: "objectForKey (dhs_subscriptions d') k = Some rs"
  from dhs_remove_lookup(3) [OF assms k] show "rs \<noteq> []" by blast
  assume "x \<in> set rs"
  with dhs_remove_lookup(3) [OF assms k] obtain rs0
    where x: "x \<noteq> r" "objectForKey (dhs_subscriptions d) k = Some rs0" "x \<in> set rs0" by blast
  with assms(1) have "sub_isSubscribed (h x)" "serviceSubscriptionKeyForURL (cmd_target (h x)) = Inr (Some k)"
    by (auto simp: dhs_inv_def)
  with x(1) dhs_remove_lookup(2) [OF assms]
  show "sub_isSubscribed (h' x)" "serviceSubscriptionKeyForURL (cmd_target (h' x)) = Inr (Some k)" by auto
qed (rule dhs_remove_lookup(1) [OF assms])

text \<open>
  An event is delivered to the subscriptions to the path it was sent to, and to no other: every block that runs is a
  success block of a subscription whose target has that path and which is marked subscribed.
\<close>
lemma dhs_event_reaches_path:
  assumes "dhs_inv d h" "dhs_processRequest parseXML n d h = Inr calls" "(b, event) \<in> set calls"
  shows "\<exists>r bs key rs. objectForKey (dhs_subscriptions d) (trimmed key) = Some rs \<and> r \<in> set rs \<and> sub_successCalls (h r) = Some bs \<and> b \<in> set bs \<and> sub_isSubscribed (h r)
    \<and> serviceSubscriptionKeyForURL (cmd_target (h r)) = Inr (Some (trimmed key))
    \<and> serviceSubscriptionKeyForURL (ntf_url n) = Inr (Some key)"
proof -
  have data: "\<not> (ntf_data n = None \<or> ntf_data n = Some [])"
  proof
    assume "ntf_data n = None \<or> ntf_data n = Some []"
    then have "calls = []" using assms(2) by (simp add: dhs_processRequest_def)
    with assms(3) show False by simp
  qed
  then obtain key where key: "serviceSubscriptionKeyForURL (ntf_url n) = Inr key"
    using assms(2) by (auto simp: dhs_processRequest_def rbind_Inr_iff)
  obtain rs where rs: "Option.bind (map_option trimmed key) (objectForKey (dhs_subscriptions d)) = Some rs"
    using assms(2,3) data key by (cases "Option.bind (map_option trimmed key) (objectForKey (dhs_subscriptions d))")
      (auto simp: dhs_processRequest_def)
  then obtain k where k: "key = Some k" "objectForKey (dhs_subscriptions d) (trimmed k) = Some rs"
    by (auto simp: bind_eq_Some_conv)
  from assms(2,3) data key rs obtain t where "calls = dhs_handleEvent t rs h"
    by (auto simp: dhs_processRequest_def rbind_Inr_iff split: if_split_asm option.split_asm)
  with assms(3) obtain r bs where r: "r \<in> set rs" "sub_successCalls (h r) = Some bs" "b \<in> set bs"
    by (auto simp: dhs_handleEvent_def split: option.split_asm) metis
  with assms(1) k have "sub_isSubscribed (h r)" "serviceSubscriptionKeyForURL (cmd_target (h r)) = Inr (Some (trimmed k))"
    by (auto simp: dhs_inv_def)
  with r key k show ?thesis by blast
qed

end
