(* ===== verification/Dlna.thy ===== *)
theory Dlna
  imports DlnaServer XmlWriter ZeroConf WebOSRequests Dial
begin

text \<open>
  \<open>src/Services/DLNAService.m\<close>: UPnP media renderers. A message is a task of SOAP actions, whose documents the XML
  writer makes; a subscription is filed with the notification server, to which the renderer sends its events once the
  service has subscribed to the renderer's own services, and which is renewed by a timer.
\<close>

section \<open>Times\<close>

text \<open>\<open>stringForTime:\<close> with the division of C, which truncates, and \<open>%02d\<close>.\<close>

definition cdiv :: "int \<Rightarrow> int \<Rightarrow> int" where
  "cdiv x y = (if x < 0 then - ((- x) div y) else x div y)"

definition cmod :: "int \<Rightarrow> int \<Rightarrow> int" where
  "cmod x y = x - y * cdiv x y"

definition twoDigits :: "int \<Rightarrow> string" where
  "twoDigits i = (if 0 \<le> i \<and> i < 10 then ''0'' @ show_int i else show_int i)"

definition stringForTime :: "real \<Rightarrow> string" where
  "stringForTime timeInterval =
     (let time = roundf timeInterval in
      twoDigits (cdiv time 3600) @ '':'' @ twoDigits (cmod (cdiv time 60) 60) @ '':'' @ twoDigits (cmod time 60))"

text \<open>
  \<open>timeForString:\<close>: the date formatter with \<open>HH:m:ss\<close> takes one or two digits per field, and hours, minutes and
  seconds of a day; everything else, nil included, is time 0.
\<close>

definition timeField :: "nat \<Rightarrow> string \<Rightarrow> nat option" where
  "timeField bound t = (if t \<noteq> [] \<and> length t \<le> 2 \<and> list_all is_digit t \<and> read_nat 0 t < bound then Some (read_nat 0 t) else None)"

definition timeForString :: "string option \<Rightarrow> real" where
  "timeForString timeString = (case timeString of
      None \<Rightarrow> 0
    | Some t \<Rightarrow> (case componentsSeparatedBy (CHR '':'') t of
        [h, m, sec] \<Rightarrow> (case (timeField 24 h, timeField 60 m, timeField 60 sec) of
            (Some x, Some y, Some z) \<Rightarrow> real (x * 3600 + y * 60 + z) | _ \<Rightarrow> 0)
      | _ \<Rightarrow> 0))"

declare show_nat.simps [simp del]

lemma twoDigits_read:
  assumes "0 \<le> i"
  shows "read_nat 0 (twoDigits i) = nat i" "list_all is_digit (twoDigits i)" "twoDigits i \<noteq> []" "CHR '':'' \<notin> set (twoDigits i)"
    "i < 100 \<Longrightarrow> length (twoDigits i) \<le> 2"
proof -
  have z: "is_digit (CHR ''0'')" "digit_val (CHR ''0'') = 0" by (simp_all add: is_digit_def digit_val_def)
  have s: "show_int i = show_nat (nat i)" using assms by (simp add: show_int_def)
  show "read_nat 0 (twoDigits i) = nat i"
    using z by (simp add: twoDigits_def s read_show_nat)
  show d: "list_all is_digit (twoDigits i)"
    using z show_nat_digits [of "nat i"] by (simp add: twoDigits_def s list_all_iff)
  show "twoDigits i \<noteq> []" by (simp add: twoDigits_def s)
  have "\<not> is_digit (CHR '':'')" by (simp add: is_digit_def)
  with d show "CHR '':'' \<notin> set (twoDigits i)" by (auto simp: list_all_iff)
  show "length (twoDigits i) \<le> 2" if "i < 100"
  proof (cases "i < 10")
    case False
    then have i: "twoDigits i = show_nat (nat i div 10) @ [digit_char (nat i mod 10)]"
      using assms show_nat.simps [of "nat i"] by (simp add: twoDigits_def s)
    have "nat i div 10 < 10" using that by linarith
    then have "show_nat (nat i div 10) = [digit_char (nat i div 10)]" by (simp add: show_nat.simps)
    with i show ?thesis by simp
  qed (use assms in \<open>simp add: twoDigits_def s show_nat.simps\<close>)
qed

lemma timeField_twoDigits:
  assumes "0 \<le> i" "bound \<le> 100"
  shows "timeField bound (twoDigits i) = (if nat i < bound then Some (nat i) else None)"
  using twoDigits_read [OF assms(1)] assms by (auto simp: timeField_def)

lemma twoDigits_negative:
  assumes "i < 0"
  shows "timeField bound (twoDigits i) = None" "CHR '':'' \<notin> set (twoDigits i)"
proof -
  have "twoDigits i = CHR ''-'' # show_nat (nat (- i))" using assms by (simp add: twoDigits_def show_int_def)
  moreover have "\<not> is_digit (CHR ''-'')" "\<not> is_digit (CHR '':'')" by (simp_all add: is_digit_def)
  ultimately show "timeField bound (twoDigits i) = None" "CHR '':'' \<notin> set (twoDigits i)"
    using show_nat_digits [of "nat (- i)"] by (auto simp: timeField_def)
qed

lemma twoDigits_no_colon: "CHR '':'' \<notin> set (twoDigits i)"
  by (cases "0 \<le> i") (simp_all add: twoDigits_read twoDigits_negative)

lemma cmod_negative: "x \<ge> 0 \<Longrightarrow> y > 0 \<Longrightarrow> cmod (- x) y = - (x mod y)"
  by (cases "x = 0") (auto simp: cmod_def cdiv_def minus_div_mult_eq_mod [symmetric] algebra_simps)

lemma clock_fields: "n div 3600 * 3600 + n div 60 mod 60 * 60 + n mod 60 = (n :: int)"
proof -
  have split: "\<exists>q r. x div 60 = q \<and> x mod 60 = r \<and> x = 60 * q + r" for x :: int by simp
  obtain k s where k: "n div 60 = k" "n mod 60 = s" "n = 60 * k + s" using split by blast
  obtain q r where q: "k div 60 = q" "k mod 60 = r" "k = 60 * q + r" using split by blast
  have "n div 3600 = q" using zdiv_zmult2_eq [of 60 n 60] k(1) q(1) by simp
  with k q show ?thesis by simp
qed

lemma three_fields:
  assumes "sep \<notin> set a" "sep \<notin> set b" "sep \<notin> set c"
  shows "componentsSeparatedBy sep (a @ [sep] @ b @ [sep] @ c) = [a, b, c]"
  using assms by (simp add: componentsSeparatedBy_append componentsSeparatedBy_single)

text \<open>
  C36: A time the service sends to a renderer is read back as the same number of seconds, rounded, when it is less than
  a day; a longer one is read as 0.
\<close>
theorem dlna_time_roundtrip:
  "timeForString (Some (stringForTime t)) =
     (if 0 \<le> roundf t \<and> roundf t < 86400 then real_of_int (roundf t) else 0)"
proof -
  define n where "n = roundf t"
  define h where "h = cdiv n 3600"
  define m where "m = cmod (cdiv n 60) 60"
  define sec where "sec = cmod n 60"
  have fields: "timeForString (Some (stringForTime t)) = (case (timeField 24 (twoDigits h), timeField 60 (twoDigits m), timeField 60 (twoDigits sec)) of
      (Some x, Some y, Some z) \<Rightarrow> real (x * 3600 + y * 60 + z) | _ \<Rightarrow> 0)"
    by (simp add: timeForString_def stringForTime_def Let_def three_fields [simplified] twoDigits_no_colon h_def m_def sec_def n_def)
  show ?thesis
  proof (cases "0 \<le> n")
    case True
    then have v: "h = n div 3600" "m = (n div 60) mod 60" "sec = n mod 60"
      by (simp_all add: h_def m_def sec_def cmod_def cdiv_def minus_mult_div_eq_mod)
    have eq: "n div 3600 * 3600 + (n div 60) mod 60 * 60 + n mod 60 = n" by (rule clock_fields)
    have nn: "0 \<le> h" "0 \<le> m" "m < 60" "0 \<le> sec" "sec < 60" using True by (simp_all add: v)
    show ?thesis
    proof (cases "n < 86400")
      case True
      then have "h < 24" by (simp add: v)
      then have "timeForString (Some (stringForTime t)) = real (nat h * 3600 + nat m * 60 + nat sec)"
        using nn by (simp add: fields timeField_twoDigits nat_less_iff)
      also have "\<dots> = real_of_int (h * 3600 + m * 60 + sec)" using nn by simp
      finally show ?thesis using eq True \<open>0 \<le> n\<close> by (simp add: v flip: n_def)
    next
      case False
      then have "\<not> nat h < 24" by (simp add: v nat_less_iff)
      then show ?thesis using nn False by (simp add: fields timeField_twoDigits flip: n_def)
    qed
  next
    case False
    then have c: "cdiv n 60 = - ((- n) div 60)" by (simp add: cdiv_def)
    have v: "h = - ((- n) div 3600)" "m = - ((- n) div 60 mod 60)" "sec = - ((- n) mod 60)"
      using False cmod_negative [of "(- n) div 60" 60] cmod_negative [of "- n" 60]
      by (simp_all add: h_def m_def sec_def c cdiv_def pos_imp_zdiv_nonneg_iff)
    have "(- n) div 3600 * 3600 + (- n) div 60 mod 60 * 60 + (- n) mod 60 = - n" by (rule clock_fields)
    then have "h * 3600 + m * 60 + sec = n" by (simp add: v)
    with False have "h < 0 \<or> m < 0 \<or> sec < 0" by linarith
    then have "timeField 24 (twoDigits h) = None \<or> timeField 60 (twoDigits m) = None \<or> timeField 60 (twoDigits sec) = None"
      by (auto simp: twoDigits_negative)
    then show ?thesis using False by (auto simp: fields split: option.split simp flip: n_def)
  qed
qed

section \<open>Documents\<close>

definition kAVTransportNamespace :: string where
  "kAVTransportNamespace = ''urn:schemas-upnp-org:service:AVTransport:1''"

definition kRenderingControlNamespace :: string where
  "kRenderingControlNamespace = ''urn:schemas-upnp-org:service:RenderingControl:1''"

definition kSOAPNamespace :: string where
  "kSOAPNamespace = ''http://schemas.xmlsoap.org/soap/envelope/''"

definition kUPNPNamespace :: string where
  "kUPNPNamespace = ''urn:schemas-upnp-org:metadata-1-0/upnp/''"

definition kDCNamespace :: string where
  "kDCNamespace = ''http://purl.org/dc/elements/1.1/''"

definition kDIDLLiteNamespace :: string where
  "kDIDLLiteNamespace = ''urn:schemas-upnp-org:metadata-1-0/DIDL-Lite/''"

definition kSecSubtitleNamespace :: string where
  "kSecSubtitleNamespace = ''http://www.sec.co.kr/''"

definition kPVSubtitleNamespace :: string where
  "kPVSubtitleNamespace = ''http://www.pv.com/pvns/''"

text \<open>
  The document of an action. The block of the caller writes the arguments; every block of the service writes a list
  of elements with contents.
\<close>

definition argument :: "string \<times> string \<Rightarrow> xmlNode" where
  "argument a = Element None (fst a) [] [Chars (snd a)]"

definition actionTree :: "string \<Rightarrow> string \<Rightarrow> (string \<times> string) list \<Rightarrow> xmlNode" where
  "actionTree commandName ns arguments =
     Element (Some kSOAPNamespace) ''Envelope'' [Attr None ''s:encodingStyle'' ''http://schemas.xmlsoap.org/soap/encoding/'']
       [Element (Some kSOAPNamespace) ''Body'' []
         [Element (Some ns) commandName [Attr None ''xmlns:u'' ns] (map argument ((''InstanceID'', ''0'') # arguments))]]"

definition commandXMLForCommandName :: "string \<Rightarrow> string \<Rightarrow> (string \<times> string) list \<Rightarrow> string result" where
  "commandXMLForCommandName commandName ns arguments =
     rbind xw_new (\<lambda>w. rbind (allOps [xw_writeStartDocument (Some ''UTF-8'') (Some ''1.0''), xw_setPrefix ''s'' kSOAPNamespace,
         xw_setPrefix ''u'' ns, nodeOp (actionTree commandName ns arguments)] w) (\<lambda>w'. Inr (xw_text w')))"

text \<open>The description of an image.\<close>

definition orEmptyString :: "string option \<Rightarrow> string" where
  "orEmptyString t = (case t of None \<Rightarrow> [] | Some x \<Rightarrow> x)"

definition metadataDocument :: "(string \<times> string) list \<Rightarrow> xmlNode list \<Rightarrow> string \<Rightarrow> string result" where
  "metadataDocument prefixList item itemId =
     rbind xw_new (\<lambda>w. rbind (andOp (setPrefixes prefixList) (nodeOp
         (Element None ''DIDL-Lite'' [Attr None ''xmlns'' kDIDLLiteNamespace]
           [Element None ''item'' [Attr None ''id'' itemId, Attr None ''parentID'' ''0'', Attr None ''restricted'' ''0''] item])) w)
       (\<lambda>w'. Inr (xw_text w')))"

definition optionalElement :: "string option \<Rightarrow> string \<Rightarrow> string option \<Rightarrow> xmlNode list" where
  "optionalElement uri name contents = (case contents of None \<Rightarrow> [] | Some c \<Rightarrow> [Element uri name [] [Chars c]])"

definition displayImageMetadata :: "MediaInfo option \<Rightarrow> string result" where
  "displayImageMetadata mediaInfo = metadataDocument [(''upnp'', kUPNPNamespace), (''dc'', kDCNamespace)]
     (optionalElement (Some kDCNamespace) ''title'' (Option.bind mediaInfo mi_title)
      @ [Element None ''res'' [Attr None ''protocolInfo'' (''http-get:*:'' @ orEmptyString (Option.bind mediaInfo mi_mimeType) @ '':DLNA.ORG_OP=01'')]
           [Chars (orEmptyString (Option.bind mediaInfo mi_url))],
         Element (Some kUPNPNamespace) ''class'' [] [Chars ''object.item.imageItem'']])
     ''1000''"

definition isValidMimeType :: "string option \<Rightarrow> bool" where
  "isValidMimeType mimeType = (case mimeType of None \<Rightarrow> False | Some m \<Rightarrow> rangeOfString m ''/'' \<noteq> None)"

text \<open>The type and the file type of a subtitle, with the defaults for a type without a slash.\<close>

definition subtitleTypes :: "SubtitleInfo \<Rightarrow> string \<times> string" where
  "subtitleTypes i = (case sub_mimeType i of
      Some m \<Rightarrow> if isValidMimeType (Some m) then (m, componentsSeparatedBy (CHR ''/'') m ! 1) else (''text/srt'', ''srt'')
    | None \<Rightarrow> (''text/srt'', ''srt''))"

definition pvSubtitleAttributes :: "SubtitleInfo \<Rightarrow> xmlAttr list" where
  "pvSubtitleAttributes i = [Declare ''pv'' kPVSubtitleNamespace,
     Attr (Some kPVSubtitleNamespace) ''subtitleFileUri'' (sub_url i),
     Attr (Some kPVSubtitleNamespace) ''subtitleFileType'' (snd (subtitleTypes i))]"

definition subtitleElements :: "SubtitleInfo \<Rightarrow> xmlNode list" where
  "subtitleElements i =
     [Element None ''res'' [Attr None ''protocolInfo'' ''http-get:*:smi/caption''] [Chars (sub_url i)],
      Element None ''res'' [Attr None ''protocolInfo'' (''http-get:*:'' @ fst (subtitleTypes i) @ '':*'')] [Chars (sub_url i)]]
     @ map (\<lambda>tag. Element (Some kSecSubtitleNamespace) tag [Attr (Some kSecSubtitleNamespace) ''type'' (snd (subtitleTypes i))]
         [Chars (sub_url i)]) [''CaptionInfo'', ''CaptionInfoEx'']"

text \<open>
  The description of audio or video. A type without a slash raises, since its second component is asked for; nil and
  empty components are an error of the caller.
\<close>

definition invalidMimeType :: NSError where
  "invalidMimeType = generateErrorWithCode ConnectStatusCodeArgumentError
     (Some ''You must provide a valid mimeType (audio/*, video/*, etc)'')"

definition playMediaItem :: "MediaInfo \<Rightarrow> string \<Rightarrow> string \<Rightarrow> xmlNode list" where
  "playMediaItem m mediaType mediaFormat =
     optionalElement (Some kDCNamespace) ''title'' (mi_title m) @ optionalElement (Some kDCNamespace) ''description'' (mi_description m)
     @ [Element None ''res'' ((case mi_subtitleInfo m of None \<Rightarrow> [] | Some i \<Rightarrow> pvSubtitleAttributes i)
            @ [Attr None ''protocolInfo'' (''http-get:*:'' @ mediaType @ ''/'' @ mediaFormat
                 @ '':DLNA.ORG_PN=MP3;DLNA.ORG_OP=01;DLNA.ORG_FLAGS=01500000000000000000000000000000'')])
          [Chars (orEmptyString (mi_url m))],
        Element (Some kUPNPNamespace) ''albumArtURI'' [] [Chars (orEmptyString (firstImageURL m))],
        Element (Some kUPNPNamespace) ''class'' [] [Chars (''object.item.'' @ mediaType @ ''Item'')]]
     @ (case mi_subtitleInfo m of None \<Rightarrow> [] | Some i \<Rightarrow> subtitleElements i)"

definition playMediaMetadata :: "MediaInfo option \<Rightarrow> (NSError + string) result" where
  "playMediaMetadata mediaInfo = (case mediaInfo of
      None \<Rightarrow> Inr (Inl invalidMimeType)
    | Some m \<Rightarrow> (case mi_mimeType m of
        None \<Rightarrow> Inr (Inl invalidMimeType)
      | Some t \<Rightarrow> (case componentsSeparatedBy (CHR ''/'') t of
          mediaType # mediaFormat # rest \<Rightarrow>
            if mediaType = [] \<or> mediaFormat = [] then Inr (Inl invalidMimeType)
            else rbind (metadataDocument [(''upnp'', kUPNPNamespace), (''dc'', kDCNamespace), (''sec'', kSecSubtitleNamespace)]
                (playMediaItem m mediaType (if mediaFormat = ''mp3'' then ''mpeg'' else mediaFormat)) ''0'') (\<lambda>xml. Inr (Inr xml))
        | _ \<Rightarrow> Inl NSRangeException)))"

section \<open>State\<close>

definition dlna_capabilityList :: "string list" where
  "dlna_capabilityList = [''MediaPlayer.Display.Image'', ''MediaPlayer.Play.Video'', ''MediaPlayer.Play.Audio'',
     ''MediaPlayer.Play.Playlist'', ''MediaPlayer.Close'', ''MediaPlayer.MetaData.Title'', ''MediaPlayer.MetaData.MimeType'',
     ''MediaControl.Play'', ''MediaControl.Pause'', ''MediaControl.Stop'', ''MediaControl.Seek'', ''MediaControl.Position'',
     ''MediaControl.Duration'', ''MediaControl.PlayState'', ''MediaControl.PlayState.Subscribe'', ''MediaControl.MetaData'',
     ''MediaControl.MetaData.Subscribe'', ''MediaPlayer.Subtitle.SRT'', ''PlayListControl.Next'', ''PlayListControl.Previous'',
     ''PlayListControl.JumpTrack'']"

definition dlna_updateCapabilities :: "DeviceService \<Rightarrow> DeviceService \<times> svcEvent list" where
  "dlna_updateCapabilities s = svc_setCapabilities (dlna_capabilityList @ kVolumeControlCapabilities) s"

text \<open>A block the service makes for a subscription: what it reads from an event, and the block of the caller.\<close>

datatype dlnaEvent = PlayStateEvent | MediaInfoEvent | VolumeEvent | MuteEvent

text \<open>
  \<open>dlna_timers\<close> counts the calls of \<open>dlna_resubscribeSubscriptions\<close> that are scheduled. The subscriptions the service made
  are in \<open>dlna_store\<close>, the first \<open>dlna_made\<close> of it; their success blocks are numbers of entries of \<open>dlna_blocks\<close>.
\<close>

record DLNAService =
  dlna_base :: DeviceService
  dlna_description :: "ServiceDescription option"
  dlna_avTransportControlURL :: "string option"
  dlna_avTransportEventURL :: "string option"
  dlna_renderingControlControlURL :: "string option"
  dlna_renderingControlEventURL :: "string option"
  dlna_httpServer :: "DLNAHTTPServer option"
  dlna_sessionIds :: "string nsdict option"
  dlna_reachability :: "Reachability option"
  dlna_timers :: nat
  dlna_store :: subscriptionStore
  dlna_made :: nat
  dlna_blocks :: "(dlnaEvent \<times> nat option) list"

text \<open>
  What surrounds the service: the URL class, the XML reader, which requests the connection can handle, the address of
  the host, whether the port of the notification server is free, and the objects the service hands out.
\<close>

record dlnaEnv =
  le_host :: "string \<Rightarrow> string option"
  le_port :: "string \<Rightarrow> string option"
  le_parseXML :: "string \<Rightarrow> jdict option"
  le_canHandle :: "string \<Rightarrow> bool"
  le_ipAddress :: string
  le_portFree :: bool
  le_self :: sessionService
  le_mediaControl :: capObject
  le_playListControl :: capObject

record genaRequest =
  gr_method :: string
  gr_url :: "string option"
  gr_headers :: "(string \<times> string) list"
  gr_service :: "string option"

datatype dlnaOutput =
    GenaRequest genaRequest
  | DlnaDelegate svcEvent
  | DlnaReply nat capReply

type_synonym dlnaOp = "DLNAService \<Rightarrow> (DLNAService \<times> dlnaOutput list) result"

definition dlnaThen :: "dlnaOp \<Rightarrow> dlnaOp \<Rightarrow> dlnaOp" where
  "dlnaThen f g s = rbind (f s) (\<lambda>(s1, o1). rbind (g s1) (\<lambda>(s2, o2). Inr (s2, o1 @ o2)))"

section \<open>The description\<close>

definition dlna_commandURL :: "DLNAService \<Rightarrow> string option" where
  "dlna_commandURL s = Option.bind (dlna_description s) sd_commandURL"

definition serviceURLForPath :: "dlnaEnv \<Rightarrow> DLNAService \<Rightarrow> string option \<Rightarrow> string option" where
  "serviceURLForPath le s path =
     (let path' = (case path of Some p \<Rightarrow> if hasPrefix p ''/'' then p else ''/'' @ p | None \<Rightarrow> ''/'' @ formatObject path)
      in URLWithString (''http://'' @ formatObject (Option.bind (dlna_commandURL s) (le_host le)) @ '':''
           @ formatObject (Option.bind (dlna_commandURL s) (le_port le)) @ path'))"

text \<open>The text of an element of a service in the description, which the XML reader keeps under \<open>text\<close>.\<close>

definition serviceText :: "json \<Rightarrow> string \<Rightarrow> string option result" where
  "serviceText service name = rbind (lookupPath (Some service) [name, ''text'']) (\<lambda>t. case t of
      None \<Rightarrow> Inr None | Some (JStr x) \<Rightarrow> Inr (Some x) | Some _ \<Rightarrow> Inl NSInvalidArgumentException)"

definition serviceListOf :: "DLNAService \<Rightarrow> json list" where
  "serviceListOf s = (case Option.bind (dlna_description s) sd_serviceList of None \<Rightarrow> [] | Some l \<Rightarrow> l)"

text \<open>A range asked of nil is not \<open>NSNotFound\<close>, so that a service without a name counts as AVTransport.\<close>

fun updateControlURLs :: "dlnaEnv \<Rightarrow> json list \<Rightarrow> DLNAService \<Rightarrow> DLNAService result" where
  "updateControlURLs le [] s = Inr s"
| "updateControlURLs le (service # services) s =
     rbind (serviceText service ''serviceId'') (\<lambda>serviceName.
     rbind (serviceText service ''controlURL'') (\<lambda>controlPath.
     rbind (serviceText service ''eventSubURL'') (\<lambda>eventPath.
       let controlURL = serviceURLForPath le s controlPath; eventURL = serviceURLForPath le s eventPath;
           found = (\<lambda>part. case serviceName of None \<Rightarrow> True | Some n \<Rightarrow> rangeOfString n part \<noteq> None) in
       updateControlURLs le services
         (if found '':AVTransport''
          then s\<lparr>dlna_avTransportControlURL := controlURL, dlna_avTransportEventURL := eventURL\<rparr>
          else if found '':RenderingControl''
          then s\<lparr>dlna_renderingControlControlURL := controlURL, dlna_renderingControlEventURL := eventURL\<rparr>
          else s))))"

definition dlna_setServiceDescription :: "dlnaEnv \<Rightarrow> ServiceDescription option \<Rightarrow> DLNAService \<Rightarrow> DLNAService result" where
  "dlna_setServiceDescription le description s0 =
     (let s = s0\<lparr>dlna_description := description\<rparr> in
      if Option.bind description sd_locationXML \<noteq> None
      then rbind (updateControlURLs le (serviceListOf s) s) (\<lambda>s1.
        Inr (if dlna_httpServer s1 = None then s1\<lparr>dlna_httpServer := Some dhs_new\<rparr> else s1))
      else Inr (s\<lparr>dlna_avTransportControlURL := None, dlna_renderingControlControlURL := None\<rparr>))"

section \<open>Subscribing to the services of the renderer\<close>

text \<open>One request to each service; a service without an event path raises when the server is there.\<close>

definition callbackPath :: "dlnaEnv \<Rightarrow> DLNAService \<Rightarrow> string option \<Rightarrow> string option result" where
  "callbackPath le s eventPath = (case dlna_httpServer s of
      None \<Rightarrow> Inr None
    | Some d \<Rightarrow> (case eventPath of
        None \<Rightarrow> Inl NSInvalidArgumentException
      | Some p \<Rightarrow> Inr (Some (dhs_getHostPath (le_ipAddress le) @ (if hasPrefix p ''/'' then drop 1 p else p)))))"

definition subscribeRequest :: "dlnaEnv \<Rightarrow> DLNAService \<Rightarrow> json \<Rightarrow> genaRequest result" where
  "subscribeRequest le s service =
     rbind (serviceText service ''serviceId'') (\<lambda>serviceId.
     rbind (serviceText service ''eventSubURL'') (\<lambda>eventPath.
     rbind (callbackPath le s eventPath) (\<lambda>serverPath.
       Inr \<lparr>gr_method = ''SUBSCRIBE'', gr_url = serviceURLForPath le s eventPath,
            gr_headers = [(''CALLBACK'', ''<'' @ formatObject serverPath @ ''>''), (''NT'', ''upnp:event''),
              (''TIMEOUT'', ''Second-300''), (''Connection'', ''close''), (''Content-Length'', ''0''),
              (''USER-AGENT'', ''iOS UPnP/1.1 ConnectSDK'')],
            gr_service = serviceId\<rparr>)))"

definition subscribeServices :: "dlnaEnv \<Rightarrow> dlnaOp" where
  "subscribeServices le s0 =
     (let s = s0\<lparr>dlna_sessionIds := Some []\<rparr> in
      rbind (mapR (subscribeRequest le s) (serviceListOf s)) (\<lambda>rs. Inr (s, map GenaRequest rs)))"

definition sessionIdOf :: "DLNAService \<Rightarrow> string option \<Rightarrow> string option" where
  "sessionIdOf s serviceId = Option.bind (dlna_sessionIds s) (\<lambda>ids. objectForKeyN ids serviceId)"

text \<open>Requests with the identifier the renderer gave; services without one are left out.\<close>

definition sessionRequest :: "dlnaEnv \<Rightarrow> string \<Rightarrow> (string \<times> string) list \<Rightarrow> DLNAService \<Rightarrow> json \<Rightarrow> genaRequest list result" where
  "sessionRequest le method headers s service =
     rbind (serviceText service ''serviceId'') (\<lambda>serviceId.
     rbind (serviceText service ''eventSubURL'') (\<lambda>eventPath.
       Inr (case sessionIdOf s serviceId of
          None \<Rightarrow> []
        | Some sessionId \<Rightarrow> [\<lparr>gr_method = method, gr_url = serviceURLForPath le s eventPath,
            gr_headers = headers @ [(''SID'', sessionId)], gr_service = serviceId\<rparr>])))"

definition dlna_resubscribeSubscriptions :: "dlnaEnv \<Rightarrow> dlnaOp" where
  "dlna_resubscribeSubscriptions le s =
     rbind (mapR (sessionRequest le ''SUBSCRIBE'' [(''TIMEOUT'', ''Second-300'')] s) (serviceListOf s)) (\<lambda>rs.
       Inr (s\<lparr>dlna_timers := 0\<rparr>, map GenaRequest (concat rs)))"

definition unsubscribeServices :: "dlnaEnv \<Rightarrow> dlnaOp" where
  "unsubscribeServices le s =
     rbind (mapR (sessionRequest le ''UNSUBSCRIBE'' [] s) (serviceListOf s)) (\<lambda>rs.
       Inr (s\<lparr>dlna_timers := 0\<rparr>, map GenaRequest (concat rs)))"

text \<open>
  The answers, with the status, or none for an error. A subscription answered without identifier is kept alive all
  the same; a renewal that fails is not tried again.
\<close>

definition subscribeAnswered :: "string option \<Rightarrow> (int \<times> string option) option \<Rightarrow> DLNAService \<Rightarrow> DLNAService result" where
  "subscribeAnswered serviceId response s = (case response of
      None \<Rightarrow> Inr s
    | Some (statusCode, sid) \<Rightarrow>
        if statusCode \<noteq> 200 then Inr s
        else rbind (case sid of
            None \<Rightarrow> Inr s
          | Some sessionId \<Rightarrow> (case (dlna_sessionIds s, serviceId) of
              (None, _) \<Rightarrow> Inr s
            | (Some ids, None) \<Rightarrow> Inl NSInvalidArgumentException
            | (Some ids, Some k) \<Rightarrow> Inr (s\<lparr>dlna_sessionIds := Some (setObject sessionId k ids)\<rparr>)))
          (\<lambda>s1. Inr (s1\<lparr>dlna_timers := dlna_timers s1 + 1\<rparr>)))"

definition resubscribeAnswered :: "int option \<Rightarrow> DLNAService \<Rightarrow> DLNAService" where
  "resubscribeAnswered response s = (if response = Some 200 then s\<lparr>dlna_timers := dlna_timers s + 1\<rparr> else s)"

definition unsubscribeAnswered :: "string option \<Rightarrow> int option \<Rightarrow> DLNAService \<Rightarrow> DLNAService result" where
  "unsubscribeAnswered serviceId response s =
     (if response = Some 200 then (case (dlna_sessionIds s, serviceId) of
          (None, _) \<Rightarrow> Inr s
        | (Some ids, None) \<Rightarrow> Inl NSInvalidArgumentException
        | (Some ids, Some k) \<Rightarrow> Inr (s\<lparr>dlna_sessionIds := Some (removeObjectForKey k ids)\<rparr>))
      else Inr s)"

section \<open>Connection\<close>

definition onServer :: "(DLNAHTTPServer \<Rightarrow> DLNAHTTPServer) \<Rightarrow> dlnaOp" where
  "onServer f s = Inr (s\<lparr>dlna_httpServer := map_option f (dlna_httpServer s)\<rparr>, [])"

definition dlna_tell :: "svcSelector \<Rightarrow> svcEvent \<Rightarrow> dlnaOp" where
  "dlna_tell selector event s = Inr (s, map DlnaDelegate (svc_tell (dlna_base s) selector event))"

definition dlna_connect :: "dlnaEnv \<Rightarrow> dlnaOp" where
  "dlna_connect le s0 =
     (let s = s0\<lparr>dlna_reachability := Some (rea_start \<lparr>rea_running = False, rea_timer = False, rea_delegate = True\<rparr>),
                 dlna_base := (dlna_base s0)\<lparr>svc_connected := True\<rparr>\<rparr>
      in dlnaThen (onServer (dhs_start (le_portFree le)))
          (dlnaThen (subscribeServices le) (dlna_tell SelConnectionSuccess ConnectionSuccess)) s)"

definition dlna_disconnect :: "dlnaEnv \<Rightarrow> dlnaOp" where
  "dlna_disconnect le s0 =
     (let s = s0\<lparr>dlna_base := (dlna_base s0)\<lparr>svc_connected := False\<rparr>\<rparr>
      in dlnaThen (unsubscribeServices le) (dlnaThen (onServer dhs_stop)
          (dlnaThen (\<lambda>s. Inr (s\<lparr>dlna_reachability := map_option rea_stop (dlna_reachability s)\<rparr>, []))
            (dlna_tell SelDisconnected (DisconnectedWithError None)))) s)"

definition dlna_didLoseReachability :: "dlnaEnv \<Rightarrow> dlnaOp" where
  "dlna_didLoseReachability le s =
     (if svc_connected (dlna_base s) then dlna_disconnect le s
      else Inr (s\<lparr>dlna_reachability := map_option rea_stop (dlna_reachability s)\<rparr>, []))"

section \<open>Subscriptions\<close>

definition fileSubscription ::
  "(nat \<Rightarrow> DLNAHTTPServer \<times> subscriptionStore \<Rightarrow> (DLNAHTTPServer \<times> subscriptionStore) result) \<Rightarrow> nat \<Rightarrow> dlnaOp" where
  "fileSubscription f r s = (case dlna_httpServer s of
      None \<Rightarrow> Inr (s, [])
    | Some d \<Rightarrow> rbind (f r (d, dlna_store s)) (\<lambda>(d', h'). Inr (s\<lparr>dlna_httpServer := Some d', dlna_store := h'\<rparr>, [])))"

text \<open>
  \<open>sendSubscription:\<close>: a subscription is filed, and a server that does not run is started then; the last one to go
  stops it. The answers of nil are no.
\<close>

definition dlna_sendSubscription :: "dlnaEnv \<Rightarrow> ServiceSubscriptionType \<Rightarrow> nat \<Rightarrow> dlnaOp" where
  "dlna_sendSubscription le type r = (case type of
      SubscriptionTypeSubscribe \<Rightarrow> dlnaThen (fileSubscription dhs_addSubscription r) (\<lambda>s.
        if (case dlna_httpServer s of None \<Rightarrow> True | Some d \<Rightarrow> \<not> dhs_isRunning d)
        then dlnaThen (onServer (dhs_start (le_portFree le))) (subscribeServices le) s
        else Inr (s, []))
    | SubscriptionTypeUnsubscribe \<Rightarrow> dlnaThen (fileSubscription dhs_removeSubscription r) (\<lambda>s.
        if (case dlna_httpServer s of None \<Rightarrow> True | Some d \<Rightarrow> \<not> dhs_hasSubscriptions d)
        then dlnaThen (unsubscribeServices le) (onServer dhs_stop) s
        else Inr (s, [])))"

text \<open>The service is the delegate of its subscriptions and answers no call id.\<close>

definition dlnaDelegate :: cmdDelegate where
  "dlnaDelegate = \<lparr>del_selectors = [SelSendCommand, SelSendSubscription], del_callId = (\<lambda>m. - 1)\<rparr>"

definition runSubscription ::
  "dlnaEnv \<Rightarrow> (ServiceSubscription \<Rightarrow> ServiceSubscription \<times> cmdMessage list) \<Rightarrow> ServiceSubscriptionType \<Rightarrow> nat \<Rightarrow> dlnaOp" where
  "runSubscription le f type r s = (case f (dlna_store s r) of (sub', ms) \<Rightarrow>
     rbind (if ms = [] then Inr (s, []) else dlna_sendSubscription le type r s) (\<lambda>(s', out).
       Inr (s'\<lparr>dlna_store := (dlna_store s')(r := sub')\<rparr>, out)))"

definition dlna_unsubscribe :: "dlnaEnv \<Rightarrow> nat \<Rightarrow> dlnaOp" where
  "dlna_unsubscribe le r = runSubscription le unsubscribe SubscriptionTypeUnsubscribe r"

definition newSubscription :: "dlnaEvent \<Rightarrow> string option \<Rightarrow> nat option \<Rightarrow> nat option \<Rightarrow> DLNAService \<Rightarrow> DLNAService" where
  "newSubscription kind target success failure s =
     s\<lparr>dlna_blocks := dlna_blocks s @ [(kind, success)],
       dlna_store := (dlna_store s)(dlna_made s := addFailure failure (addSuccess (Some (length (dlna_blocks s)))
         (subscriptionWithDelegate (Some dlnaDelegate) target None (- 1)))),
       dlna_made := dlna_made s + 1\<rparr>"

definition dlna_subscribeTo :: "dlnaEnv \<Rightarrow> dlnaEvent \<Rightarrow> nat option \<Rightarrow> nat option \<Rightarrow> dlnaOp" where
  "dlna_subscribeTo le kind success failure s =
     (let target = (case kind of PlayStateEvent \<Rightarrow> dlna_avTransportEventURL s | MediaInfoEvent \<Rightarrow> dlna_avTransportEventURL s
          | VolumeEvent \<Rightarrow> dlna_renderingControlEventURL s | MuteEvent \<Rightarrow> dlna_renderingControlEventURL s)
      in runSubscription le subscribe SubscriptionTypeSubscribe (dlna_made s) (newSubscription kind target success failure s))"

section \<open>Reading answers and events\<close>

definition playStateOf :: "string option \<Rightarrow> MediaControlPlayState" where
  "playStateOf transportState =
     (if transportState = Some ''STOPPED'' then MediaControlPlayStateFinished
      else if transportState = Some ''PAUSED_PLAYBACK'' then MediaControlPlayStatePaused
      else if transportState = Some ''PLAYING'' then MediaControlPlayStatePlaying
      else if transportState = Some ''TRANSITIONING'' then MediaControlPlayStateIdle
      else if transportState = Some ''NO_MEDIA_PRESENT'' then MediaControlPlayStateIdle
      else MediaControlPlayStateUnknown)"

text \<open>The value of an attribute or the text of an element, which the XML reader gives as strings.\<close>

definition stringAt :: "json option \<Rightarrow> string list \<Rightarrow> string option result" where
  "stringAt j path = rbind (lookupPath j path) (\<lambda>t. case t of
      None \<Rightarrow> Inr None | Some (JStr x) \<Rightarrow> Inr (Some x) | Some _ \<Rightarrow> Inl NSInvalidArgumentException)"

fun endingWith :: "string \<Rightarrow> json option \<Rightarrow> json option result" where
  "endingWith name None = Inr None"
| "endingWith name (Some (JObj d)) = objectForKeyEndingWithString d name"
| "endingWith name (Some j) = Inl NSInvalidArgumentException"

definition responseDataFromResponse :: "json option \<Rightarrow> string \<Rightarrow> json option result" where
  "responseDataFromResponse responseObject method =
     rbind (endingWith '':Envelope'' responseObject) (\<lambda>envelope.
     rbind (endingWith '':Body'' envelope) (endingWith ('':'' @ method)))"

text \<open>The volume or mute of a channel, \<open>-1\<close> when there is none; a single channel is not in an array.\<close>

fun channelValue :: "string \<Rightarrow> json list \<Rightarrow> int result" where
  "channelValue channelName [] = Inr (- 1)"
| "channelValue channelName (channel # channels) = rbind (subscript channel (Some ''channel'')) (\<lambda>c.
     if asString c = Some channelName then rbind (subscript channel (Some ''val'')) intValue
     else channelValue channelName channels)"

definition valueForVolumeKey :: "string \<Rightarrow> string \<Rightarrow> jdict \<Rightarrow> int result" where
  "valueForVolumeKey key channelName responseObject =
     rbind (lookupPath (Some (JObj responseObject)) [''Event'', ''InstanceID'', key]) (\<lambda>channelsObject.
       channelValue channelName (case channelsObject of Some (JArr xs) \<Rightarrow> xs | Some (JObj d) \<Rightarrow> [JObj d] | _ \<Rightarrow> []))"

text \<open>The description of the current track; a part that is there without text raises.\<close>

definition metadataPart :: "json option \<Rightarrow> string \<Rightarrow> (string \<Rightarrow> string option) \<Rightarrow> string \<Rightarrow> jdict \<Rightarrow> jdict result" where
  "metadataPart item name f key d = rbind (lookupKey item name) (\<lambda>part. if part = None then Inr d
     else rbind (stringAt part [''text'']) (\<lambda>t. case Option.bind t f of
        None \<Rightarrow> Inl NSInvalidArgumentException | Some x \<Rightarrow> Inr (setObject (JStr x) key d)))"

definition iconOf :: "dlnaEnv \<Rightarrow> DLNAService \<Rightarrow> string \<Rightarrow> string option" where
  "iconOf le s imageURL =
     (if (case URLWithString imageURL of None \<Rightarrow> False | Some u \<Rightarrow> le_canHandle le u) then Some imageURL
      else serviceURLForPath le s (Some imageURL))"

definition parseMetadataDictionary :: "dlnaEnv \<Rightarrow> DLNAService \<Rightarrow> string \<Rightarrow> jdict result" where
  "parseMetadataDictionary le s metadataXML =
     rbind (lookupPath (map_option JObj (le_parseXML le metadataXML)) [''DIDL-Lite'', ''item'']) (\<lambda>item.
     rbind (metadataPart item ''dc:title'' Some ''title'' []) (\<lambda>d1.
     rbind (metadataPart item ''r:albumArtist'' Some ''subtitle'' d1) (\<lambda>d2.
     rbind (metadataPart item ''dc:description'' Some ''subtitle'' d2)
       (metadataPart item ''upnp:albumArtURI'' (iconOf le s) ''iconURL''))))"

text \<open>What the block of a subscription does with an event: nothing, or a reply to the block of the caller, if there is one.\<close>

definition eventReply :: "dlnaEnv \<Rightarrow> DLNAService \<Rightarrow> dlnaEvent \<Rightarrow> bool \<Rightarrow> jdict \<Rightarrow> capReply option result" where
  "eventReply le s kind wanted event = (case kind of
      PlayStateEvent \<Rightarrow> rbind (stringAt (Some (JObj event)) [''Event'', ''InstanceID'', ''TransportState'', ''val'']) (\<lambda>t.
        Inr (if t = None then None else Some (MediaControlReply (MediaPlayStateReply (playStateOf t)))))
    | MediaInfoEvent \<Rightarrow> rbind (stringAt (Some (JObj event)) [''Event'', ''InstanceID'', ''CurrentTrackMetaData'', ''val'']) (\<lambda>t. case t of
        None \<Rightarrow> Inr None
      | Some x \<Rightarrow> if \<not> wanted then Inr None else rbind (parseMetadataDictionary le s x) (\<lambda>d. Inr (Some (ResponseObject (Some (JObj d))))))
    | VolumeEvent \<Rightarrow> rbind (valueForVolumeKey ''Volume'' ''Master'' event) (\<lambda>v.
        Inr (if v = - 1 then None else Some (VolumeControlReply (VolumeReply (real_of_int v / 100)))))
    | MuteEvent \<Rightarrow> rbind (valueForVolumeKey ''Mute'' ''Master'' event) (\<lambda>v.
        Inr (if v = - 1 then None else Some (VolumeControlReply (MuteReply (v \<noteq> 0))))))"

text \<open>A block that the notification server put on the main queue.\<close>

definition dlna_runBlock :: "dlnaEnv \<Rightarrow> nat \<times> jdict \<Rightarrow> dlnaOp" where
  "dlna_runBlock le c s =
     (if fst c < length (dlna_blocks s) then (case dlna_blocks s ! fst c of (kind, success) \<Rightarrow>
        rbind (eventReply le s kind (success \<noteq> None) (snd c)) (\<lambda>r. Inr (s, case (success, r) of
          (Some b, Some x) \<Rightarrow> [DlnaReply b x] | _ \<Rightarrow> [])))
      else Inr (s, []))"

definition dlna_notified :: "dlnaEnv \<Rightarrow> notification \<Rightarrow> DLNAService \<Rightarrow> (nat \<times> jdict) list result" where
  "dlna_notified le n s = (case dlna_httpServer s of
      None \<Rightarrow> Inr []
    | Some d \<Rightarrow> if dhs_isRunning d then dhs_processRequest (le_parseXML le) n d (dlna_store s) else Inr [])"

section \<open>Actions\<close>

text \<open>The HTTP request of an action, and what comes back: an error, or what the XML reader makes of the data.\<close>

definition dlna_sendCommand :: "httpCommand \<Rightarrow> dialRequest result" where
  \<open>dlna_sendCommand c =
     rbind (lookupKey (hc_payload c) ''SOAPAction'') (\<lambda>actionField. rbind (lookupKey (hc_payload c) ''XMLData'') (\<lambda>xml.
       Inr \<lparr>dr_method = ''POST'', dr_headers = [(''Content-Type'', ''text/xml;charset="utf-8"''),
           (''Content-Length'', show_nat (length (orEmptyString (asString xml)))), (''SOAPAction'', orEmptyString (asString actionField))],
         dr_body = asString xml\<rparr>))\<close>

datatype dlnaAnswer = DlnaError NSError | DlnaNoXML | DlnaXML jdict

fun dlna_answer :: "dlnaAnswer \<Rightarrow> (NSError option + json option) result" where
  "dlna_answer (DlnaError e) = Inr (Inl (Some e))"
| "dlna_answer DlnaNoXML = Inr (Inl (Some (generateErrorWithCode ConnectStatusCodeError (Some ''Could not parse command response''))))"
| "dlna_answer (DlnaXML d) = rbind (responseDataFromResponse (Some (JObj d)) ''Fault'') (\<lambda>upnpFault.
     if upnpFault = None then Inr (Inr (Some (JObj d)))
     else rbind (rbind (lookupKey upnpFault ''detail'') (\<lambda>detail. rbind (endingWith '':UPnPError'' detail) (\<lambda>err.
            rbind (endingWith '':errorDescription'' err) (\<lambda>des. stringAt des [''text'']))))
       (\<lambda>des. Inr (Inl (Some (generateErrorWithCode ConnectStatusCodeTvError
          (Some (case des of None \<Rightarrow> ''Unknown UPnP error'' | Some x \<Rightarrow> x)))))))"

text \<open>An action of a service: its document, and the command with the name of the action in its payload.\<close>

definition soapAction :: "string option \<Rightarrow> string \<Rightarrow> string \<Rightarrow> (string \<times> string) list \<Rightarrow> (json option \<Rightarrow> task) \<Rightarrow> task" where
  "soapAction target ns name arguments success =
     orThrow (commandXMLForCommandName name ns arguments) (\<lambda>xml.
       Command \<lparr>hc_method = ''POST'', hc_target = target,
           hc_payload = Some (JObj [(''SOAPAction'', JStr ([CHR 0x22] @ ns @ ''#'' @ name @ [CHR 0x22])), (''XMLData'', JStr xml)])\<rparr>
         success Fail)"

definition avTransport :: "DLNAService \<Rightarrow> string \<Rightarrow> (string \<times> string) list \<Rightarrow> (json option \<Rightarrow> task) \<Rightarrow> task" where
  "avTransport s = soapAction (dlna_avTransportControlURL s) kAVTransportNamespace"

definition renderingControl :: "DLNAService \<Rightarrow> string \<Rightarrow> (string \<times> string) list \<Rightarrow> (json option \<Rightarrow> task) \<Rightarrow> task" where
  "renderingControl s name arguments =
     soapAction (dlna_renderingControlControlURL s) kRenderingControlNamespace name ((''Channel'', ''Master'') # arguments)"

definition replyNil :: "json option \<Rightarrow> task" where
  "replyNil r = Reply (ResponseObject None)"

definition replyResponse :: "json option \<Rightarrow> task" where
  "replyResponse r = Reply (ResponseObject r)"

definition dlna_play :: "DLNAService \<Rightarrow> (json option \<Rightarrow> task) \<Rightarrow> task" where
  "dlna_play s success = avTransport s ''Play'' [(''Speed'', ''1'')] success"

definition positionInfo :: "DLNAService \<Rightarrow> (json option \<Rightarrow> task) \<Rightarrow> task" where
  "positionInfo s success = avTransport s ''GetPositionInfo'' [] (\<lambda>r. orThrow (responseDataFromResponse r ''GetPositionInfoResponse'') success)"

definition dlna_getPlayState :: "DLNAService \<Rightarrow> task" where
  "dlna_getPlayState s = avTransport s ''GetTransportInfo'' [] (\<lambda>r.
     orThrow (rbind (responseDataFromResponse r ''GetTransportInfoResponse'') (\<lambda>d. stringAt d [''CurrentTransportState'', ''text'']))
       (\<lambda>state. Reply (MediaControlReply (MediaPlayStateReply (playStateOf (map_option uppercaseString state))))))"

text \<open>
  Nothing is called when the position information has no description of the track. A task does not know its blocks;
  the code reads the description only for a caller with a success block.
\<close>

definition dlna_getMediaMetaData :: "dlnaEnv \<Rightarrow> DLNAService \<Rightarrow> task" where
  "dlna_getMediaMetaData le s = positionInfo s (\<lambda>d. orThrow (stringAt d [''TrackMetaData'', ''text'']) (\<lambda>t. case t of
      None \<Rightarrow> Quiet
    | Some x \<Rightarrow> orThrow (parseMetadataDictionary le s x) (\<lambda>m. Reply (ResponseObject (Some (JObj m))))))"

section \<open>Messages\<close>

text \<open>A message sends a task; a subscription also files itself, after its first request.\<close>

type_synonym dlnaMessage = "DLNAService \<Rightarrow> ((DLNAService \<times> dlnaOutput list) \<times> task) result"

definition justTask :: "(DLNAService \<Rightarrow> task) \<Rightarrow> dlnaMessage" where
  "justTask t s = Inr ((s, []), t s)"

definition andSubscribe :: "(DLNAService \<Rightarrow> task) \<Rightarrow> dlnaOp \<Rightarrow> dlnaMessage" where
  "andSubscribe t sub s = rbind (sub s) (\<lambda>so. Inr (so, t s))"

fun dlna_mediaControl :: "dlnaEnv \<Rightarrow> mediaControlMsg \<Rightarrow> nat option \<Rightarrow> nat option \<Rightarrow> dlnaMessage" where
  "dlna_mediaControl le MediaPlay b f = justTask (\<lambda>s. dlna_play s replyNil)"
| "dlna_mediaControl le MediaPause b f = justTask (\<lambda>s. avTransport s ''Pause'' [] replyNil)"
| "dlna_mediaControl le MediaStop b f = justTask (\<lambda>s. avTransport s ''Stop'' [] replyNil)"
| "dlna_mediaControl le (MediaSeek position) b f = justTask (\<lambda>s. avTransport s ''Seek''
     [(''Unit'', ''REL_TIME''), (''Target'', stringForTime position)] replyResponse)"
| "dlna_mediaControl le GetPlayState b f = justTask dlna_getPlayState"
| "dlna_mediaControl le GetDuration b f = justTask (\<lambda>s. positionInfo s (\<lambda>d.
     orThrow (stringAt d [''TrackDuration'', ''text'']) (\<lambda>t. Reply (MediaControlReply (MediaDurationReply (timeForString t))))))"
| "dlna_mediaControl le GetPosition b f = justTask (\<lambda>s. positionInfo s (\<lambda>d.
     orThrow (stringAt d [''RelTime'', ''text'']) (\<lambda>t. Reply (MediaControlReply (MediaPositionReply (timeForString t))))))"
| "dlna_mediaControl le GetMediaMetaData b f = justTask (dlna_getMediaMetaData le)"
| "dlna_mediaControl le SubscribePlayState b f = andSubscribe dlna_getPlayState (dlna_subscribeTo le PlayStateEvent b f)"
| "dlna_mediaControl le SubscribeMediaInfo b f = andSubscribe (dlna_getMediaMetaData le) (dlna_subscribeTo le MediaInfoEvent b f)"
| "dlna_mediaControl le MediaRewind b f = justTask (\<lambda>s. unsupported)"
| "dlna_mediaControl le MediaFastForward b f = justTask (\<lambda>s. unsupported)"

definition currentValue :: "string \<Rightarrow> string \<Rightarrow> json option \<Rightarrow> int result" where
  "currentValue method key r =
     rbind (responseDataFromResponse r method) (\<lambda>d. rbind (lookupPath d [key, ''text'']) intValue)"

definition dlna_getVolume :: "DLNAService \<Rightarrow> (real \<Rightarrow> task) \<Rightarrow> task" where
  "dlna_getVolume s success = renderingControl s ''GetVolume'' [] (\<lambda>r.
     orThrow (currentValue ''GetVolumeResponse'' ''CurrentVolume'' r) (\<lambda>volume.
       if volume = - 1 then failWith ConnectStatusCodeError (Some ''Could not find volume information in response'')
       else success (real_of_int volume / 100)))"

definition dlna_setVolume :: "DLNAService \<Rightarrow> real \<Rightarrow> task" where
  "dlna_setVolume s volume =
     renderingControl s ''SetVolume'' [(''DesiredVolume'', show_int (roundf (volume * 100)))] replyResponse"

definition dlna_getMute :: "DLNAService \<Rightarrow> task" where
  "dlna_getMute s = renderingControl s ''GetMute'' [] (\<lambda>r.
     orThrow (currentValue ''GetMuteResponse'' ''CurrentMute'' r) (\<lambda>mute.
       if mute = - 1 then failWith ConnectStatusCodeError (Some ''Could not find mute information in response'')
       else Reply (VolumeControlReply (MuteReply (mute \<noteq> 0)))))"

definition replyVolume :: "real \<Rightarrow> task" where
  "replyVolume v = Reply (VolumeControlReply (VolumeReply v))"

fun dlna_volume :: "dlnaEnv \<Rightarrow> volumeControlMsg \<Rightarrow> nat option \<Rightarrow> nat option \<Rightarrow> dlnaMessage" where
  "dlna_volume le VolumeUp b f = justTask (\<lambda>s. dlna_getVolume s (\<lambda>v.
     if v < 1 then dlna_setVolume s (v + 1 / 100) else failWith ConnectStatusCodeError (Some ''Volume is already at max'')))"
| "dlna_volume le VolumeDown b f = justTask (\<lambda>s. dlna_getVolume s (\<lambda>v.
     if v > 0 then dlna_setVolume s (v - 1 / 100) else failWith ConnectStatusCodeError (Some ''Volume is already at 0'')))"
| "dlna_volume le GetVolume b f = justTask (\<lambda>s. dlna_getVolume s replyVolume)"
| "dlna_volume le (SetVolume volume) b f = justTask (\<lambda>s. dlna_setVolume s volume)"
| "dlna_volume le SubscribeVolume b f = andSubscribe (\<lambda>s. dlna_getVolume s replyVolume) (dlna_subscribeTo le VolumeEvent b f)"
| "dlna_volume le GetMute b f = justTask dlna_getMute"
| "dlna_volume le (SetMute mute) b f = justTask (\<lambda>s.
     renderingControl s ''SetMute'' [(''DesiredMute'', if mute then ''1'' else ''0'')] replyResponse)"
| "dlna_volume le SubscribeMute b f = andSubscribe dlna_getMute (dlna_subscribeTo le MuteEvent b f)"

text \<open>The index of a track counts from 0, the number from 1; \<open>NSInteger\<close> has 64 bits.\<close>

definition wrap64 :: "int \<Rightarrow> int" where
  "wrap64 i = (i + 2 ^ 63) mod 2 ^ 64 - 2 ^ 63"

fun dlna_playList :: "playListControlMsg \<Rightarrow> DLNAService \<Rightarrow> task" where
  "dlna_playList PlayNext s = avTransport s ''Next'' [] replyNil"
| "dlna_playList PlayPrevious s = avTransport s ''Previous'' [] replyNil"
| "dlna_playList (JumpToTrackWithIndex index) s = avTransport s ''Seek''
     [(''Unit'', ''TRACK_NR''), (''Target'', show_int (wrap64 (index + 1)))] replyResponse"

text \<open>Media are set and then played; the caller gets its session when the renderer has confirmed both.\<close>

definition setAndPlay :: "dlnaEnv \<Rightarrow> DLNAService \<Rightarrow> string \<Rightarrow> string \<Rightarrow> (MediaLaunchObject \<Rightarrow> task) \<Rightarrow> task" where
  "setAndPlay le s mediaURL metadataXML success =
     avTransport s ''SetAVTransportURI'' [(''CurrentURI'', mediaURL), (''CurrentURIMetaData'', metadataXML)] (\<lambda>r.
       dlna_play s (\<lambda>r. success (mlo_initWithPlayList (Some \<lparr>ls_appId = None, ls_name = None, ls_sessionId = None,
           ls_rawData = None, ls_sessionType = 3, ls_service = Some (le_self le)\<rparr>)
         (Some (le_mediaControl le)) (Some (le_playListControl le)))))"

definition dlna_displayImage :: "dlnaEnv \<Rightarrow> DLNAService \<Rightarrow> MediaInfo option \<Rightarrow> (MediaLaunchObject \<Rightarrow> task) \<Rightarrow> task" where
  "dlna_displayImage le s mediaInfo success = orThrow (displayImageMetadata mediaInfo) (\<lambda>xml.
     setAndPlay le s (orEmptyString (Option.bind mediaInfo mi_url)) xml success)"

definition dlna_playMedia :: "dlnaEnv \<Rightarrow> DLNAService \<Rightarrow> MediaInfo option \<Rightarrow> (MediaLaunchObject \<Rightarrow> task) \<Rightarrow> task" where
  "dlna_playMedia le s mediaInfo success = orThrow (playMediaMetadata mediaInfo) (\<lambda>m. case m of
      Inl e \<Rightarrow> Fail (Some e)
    | Inr xml \<Rightarrow> setAndPlay le s (orEmptyString (Option.bind mediaInfo mi_url)) xml success)"

definition dlna_mediaFromURL ::
  "string option \<Rightarrow> string option \<Rightarrow> string option \<Rightarrow> string option \<Rightarrow> string option \<Rightarrow> MediaInfo result" where
  "dlna_mediaFromURL url iconURL title description mimeType =
     addImage (img_initWithURL iconURL ImageTypeThumb)
       ((mi_initWithURL url mimeType)\<lparr>mi_title := title, mi_description := description\<rparr>)"

definition dlna_mediaAgain :: "MediaInfo option \<Rightarrow> MediaInfo result" where
  "dlna_mediaAgain mediaInfo = dlna_mediaFromURL (Option.bind mediaInfo mi_url) (Option.bind mediaInfo firstImageURL)
     (Option.bind mediaInfo mi_title) (Option.bind mediaInfo mi_description) (Option.bind mediaInfo mi_mimeType)"

definition dlna_launched :: "MediaLaunchObject \<Rightarrow> task" where
  "dlna_launched launchObject = Reply (MediaPlayerReplyC (MediaPlayerReply launchObject))"

definition dlna_launchedParts :: "MediaLaunchObject \<Rightarrow> task" where
  "dlna_launchedParts launchObject =
     Insist (MediaPlayerReplyC (MediaPlayerDisplayReply (mlo_session launchObject) (mlo_mediaControl launchObject)))"

fun dlna_mediaPlayer :: "dlnaEnv \<Rightarrow> mediaPlayerMsg \<Rightarrow> DLNAService \<Rightarrow> task" where
  "dlna_mediaPlayer le (DisplayImageWithMediaInfo m) s = dlna_displayImage le s m dlna_launched"
| "dlna_mediaPlayer le (PlayMediaWithMediaInfo m shouldLoop) s = dlna_playMedia le s m dlna_launched"
| "dlna_mediaPlayer le (CloseMediaMsg launchSession) s = avTransport s ''Stop'' [] replyNil"
| "dlna_mediaPlayer le (DisplayImageURL u i t d m) s =
     orThrow (dlna_mediaFromURL u i t d m) (\<lambda>mediaInfo. dlna_displayImage le s (Some mediaInfo) dlna_launchedParts)"
| "dlna_mediaPlayer le (DisplayImageInfo m) s =
     orThrow (dlna_mediaAgain m) (\<lambda>mediaInfo. dlna_displayImage le s (Some mediaInfo) dlna_launchedParts)"
| "dlna_mediaPlayer le (PlayMediaURL u i t d m shouldLoop) s =
     orThrow (dlna_mediaFromURL u i t d m) (\<lambda>mediaInfo. dlna_playMedia le s (Some mediaInfo) dlna_launchedParts)"
| "dlna_mediaPlayer le (PlayMediaInfo m shouldLoop) s =
     orThrow (dlna_mediaAgain m) (\<lambda>mediaInfo. dlna_playMedia le s (Some mediaInfo) dlna_launchedParts)"


section \<open>Properties of the documents\<close>

lemmas namespace_defs = kSOAPNamespace_def XML_NAMESPACE_URI_def XMLNS_NAMESPACE_URI_def kAVTransportNamespace_def
  kRenderingControlNamespace_def kUPNPNamespace_def kDCNamespace_def kSecSubtitleNamespace_def kPVSubtitleNamespace_def

definition elementText :: "string \<times> string \<Rightarrow> string" where
  "elementText a = ''<'' @ fst a @ ''>'' @ escapeXML (snd a) @ ''</'' @ fst a @ ''>''"

definition soapText :: "string \<Rightarrow> string \<Rightarrow> (string \<times> string) list \<Rightarrow> string" where
  \<open>soapText commandName ns arguments =
     ''<?xml version="1.0" encoding="UTF-8" ?><s:Envelope s:encodingStyle="http://schemas.xmlsoap.org/soap/encoding/"''
     @ '' xmlns:s="http://schemas.xmlsoap.org/soap/envelope/" xmlns:u="'' @ escapeXML ns @ ''"><s:Body><u:''
     @ commandName @ '' xmlns:u="'' @ escapeXML ns @ ''"><InstanceID>0</InstanceID>'' @ concat (map elementText arguments)
     @ ''</u:'' @ commandName @ ''></s:Body></s:Envelope>''\<close>

lemma escapeXML_plain: "list_all (\<lambda>c. escapeXMLChar c = [c] \<and> (of_char c :: nat) < 239) t \<Longrightarrow> escapeXML t = t"
proof (induction t)
  case (Cons c t)
  then have "(of_char c :: nat) < 239" "escapeXMLChar c = [c]" "escapeXML t = t" by auto
  then show ?case by simp
qed simp

definition serviceNamespace :: "string \<Rightarrow> bool" where
  "serviceNamespace ns \<longleftrightarrow> ns \<in> {kAVTransportNamespace, kRenderingControlNamespace}"

lemma argument_writable [simp]: "writable (argument a) P U"
  by (simp add: argument_def xml_known_def)

lemma argument_text: "xmlText (argument a) P [] = elementText a"
  by (simp add: argument_def elementText_def qName_def)

lemma commandXML_text:
  assumes "serviceNamespace ns"
  shows "commandXMLForCommandName commandName ns arguments = Inr (soapText commandName ns arguments)"
proof -
  define ds where "ds = [(''s'', kSOAPNamespace), (''u'', ns)]"
  have fresh: "attrsWritable (declares ds) reservedPrefixes reservedURIs"
    using assms by (auto simp: ds_def serviceNamespace_def reservedPrefixes_def reservedURIs_def namespace_defs)
  define P where "P = declareAll ds reservedPrefixes"
  have P: "P kSOAPNamespace = Some ''s''" "P ns = Some ''u''"
    using assms by (auto simp: P_def ds_def serviceNamespace_def namespace_defs)
  obtain uri name as cs where t: "actionTree commandName ns arguments = Element uri name as cs"
    by (simp add: actionTree_def)
  have w: "writable (actionTree commandName ns arguments) P (declareURIs ds reservedURIs)"
    using P by (simp add: actionTree_def xml_known_def list_all_iff)
  define header where "header = ''<?xml version='' @ [CHR 0x22] @ ''1.0'' @ [CHR 0x22] @ '' encoding='' @ [CHR 0x22] @ ''UTF-8'' @ [CHR 0x22] @ '' ?>''"
  have "commandXMLForCommandName commandName ns arguments
      = rbind (rbind xw_new (\<lambda>w. rbind (setPrefixes ds (xw_write header w)) (nodeOp (actionTree commandName ns arguments)))) (\<lambda>w. Inr (xw_text w))"
    by (simp add: commandXMLForCommandName_def xw_new_eq startDocument_run newWriter_def xw_empty0_def setPrefixes_def ds_def header_def
        rbind_assoc allOps_fun del: allOps.simps)
  also have "\<dots> = Inr (header @ xmlText (actionTree commandName ns arguments) P ds)"
    using document_run [OF fresh, of uri name as cs header] w by (simp add: t P_def del: xmlText.simps writable.simps)
  finally have eq: "commandXMLForCommandName commandName ns arguments = Inr (header @ xmlText (actionTree commandName ns arguments) P ds)" .
  have soap: "escapeXML kSOAPNamespace = ''http://schemas.xmlsoap.org/soap/envelope/''"
    "escapeXML ''http://schemas.xmlsoap.org/soap/encoding/'' = ''http://schemas.xmlsoap.org/soap/encoding/''"
    by (simp_all add: kSOAPNamespace_def escapeXMLChar_def)
  have args: "map ((\<lambda>c. c P []) \<circ> (xmlText \<circ> argument)) arguments = map elementText arguments"
    by (simp add: argument_text comp_def)
  have one: "elementText (''InstanceID'', ''0'') = ''<InstanceID>0</InstanceID>''"
    by (simp add: elementText_def escapeXMLChar_def)
  show ?thesis
    using P by (simp add: eq actionTree_def soapText_def header_def qName_def declText_def ds_def soap args argument_text one
        del: escapeXML.simps)
qed

lemma metadataDocument_run:
  assumes "attrsWritable (declares ds) reservedPrefixes reservedURIs"
    "list_all (\<lambda>n. writable n (declareAll ds reservedPrefixes) (declareURIs ds reservedURIs)) item"
  shows "\<exists>t. metadataDocument ds item i = Inr t"
proof -
  define cs where "cs = [Element None ''item'' [Attr None ''id'' i, Attr None ''parentID'' ''0'', Attr None ''restricted'' ''0''] item]"
  have "writable (Element None ''DIDL-Lite'' [Attr None ''xmlns'' kDIDLLiteNamespace] cs) (declareAll ds reservedPrefixes) (declareURIs ds reservedURIs)"
    using assms(2) by (simp add: cs_def xml_known_def list_all_iff)
  from document_run [OF assms(1) this, of "[]"] obtain w where
    "rbind xw_new (\<lambda>w. rbind (setPrefixes ds w) (nodeOp (Element None ''DIDL-Lite'' [Attr None ''xmlns'' kDIDLLiteNamespace] cs))) = Inr w"
    by (auto simp: xw_write_def)
  then show ?thesis
    unfolding metadataDocument_def andOp_def cs_def [symmetric] by (simp add: xw_new_eq)
qed

lemma list_all_optionalElement [simp]:
  "list_all (\<lambda>n. writable n P U) (optionalElement uri name c) \<longleftrightarrow> (c = None \<or> xml_known P uri)"
  by (auto simp: optionalElement_def split: option.split)

lemma displayImageMetadata_run: "\<exists>t. displayImageMetadata m = Inr t"
  unfolding displayImageMetadata_def
  by (rule metadataDocument_run)
    (simp_all add: reservedPrefixes_def reservedURIs_def namespace_defs xml_known_def list_all_append)

lemma playMediaItem_writable:
  assumes "P kUPNPNamespace = Some ''upnp''" "P kDCNamespace = Some ''dc''" "P kSecSubtitleNamespace = Some ''sec''"
    and "P kPVSubtitleNamespace = None" "U ''pv'' = None"
  shows "list_all (\<lambda>n. writable n P U) (playMediaItem m t f)"
  using assms by (simp add: playMediaItem_def xml_known_def pvSubtitleAttributes_def subtitleElements_def list_all_append
      namespace_defs split: option.split)

lemma playMediaMetadata_run:
  assumes "playMediaMetadata m = Inl e"
  shows "\<exists>i t. m = Some i \<and> mi_mimeType i = Some t \<and> CHR ''/'' \<notin> set t \<and> e = NSRangeException"
proof -
  obtain i t where m: "m = Some i" "mi_mimeType i = Some t"
    using assms by (auto simp: playMediaMetadata_def split: option.split_asm)
  define ds where "ds = [(''upnp'', kUPNPNamespace), (''dc'', kDCNamespace), (''sec'', kSecSubtitleNamespace)]"
  have "\<exists>x. metadataDocument ds (playMediaItem i a b) ''0'' = Inr x" for a b
    by (rule metadataDocument_run; (rule playMediaItem_writable)?)
      (simp_all add: ds_def reservedPrefixes_def reservedURIs_def namespace_defs)
  then have ok: "metadataDocument ds (playMediaItem i a b) ''0'' \<noteq> Inl x" for a b x by (metis sum.distinct(1))
  have "CHR ''/'' \<notin> set t"
  proof
    assume "CHR ''/'' \<in> set t"
    then obtain x y where "t = x @ CHR ''/'' # y" "CHR ''/'' \<notin> set x" by (metis split_list_first)
    then obtain b bs where "componentsSeparatedBy (CHR ''/'') t = x # b # bs"
      using componentsSeparatedBy_nonempty [of "CHR ''/''" y]
      by (cases "componentsSeparatedBy (CHR ''/'') y") (simp_all add: componentsSeparatedBy_append)
    with assms m ok show False
      by (auto simp: playMediaMetadata_def ds_def [symmetric] rbind_def split: if_split_asm sum.split_asm)
  qed
  then show ?thesis
    using assms m by (simp add: playMediaMetadata_def componentsSeparatedBy_single)
qed

section \<open>Properties of the messages\<close>

lemma soapAction_command:
  assumes "serviceNamespace ns"
  shows "soapAction target ns name arguments success =
    Command \<lparr>hc_method = ''POST'', hc_target = target,
        hc_payload = Some (JObj [(''SOAPAction'', JStr ([CHR 0x22] @ ns @ ''#'' @ name @ [CHR 0x22])),
          (''XMLData'', JStr (soapText name ns arguments))])\<rparr> success Fail"
  using commandXML_text [OF assms] by (simp add: soapAction_def orThrow_def)

lemma namespaces_of_services [simp]: "serviceNamespace kAVTransportNamespace" "serviceNamespace kRenderingControlNamespace"
  by (simp_all add: serviceNamespace_def)

lemma avTransport_simps [simp]: "alwaysAnswers (avTransport s n a f) \<longleftrightarrow> (\<forall>r. alwaysAnswers (f r))"
  "commandsAtMost (avTransport s n a f) (Suc k) \<longleftrightarrow> (\<forall>r. commandsAtMost (f r) k)"
  by (simp_all add: avTransport_def soapAction_command)

lemma renderingControl_simps [simp]: "alwaysAnswers (renderingControl s n a f) \<longleftrightarrow> (\<forall>r. alwaysAnswers (f r))"
  "commandsAtMost (renderingControl s n a f) (Suc k) \<longleftrightarrow> (\<forall>r. commandsAtMost (f r) k)"
  by (simp_all add: renderingControl_def soapAction_command)

lemma dlna_reply_simps [simp]: "alwaysAnswers (replyNil r)" "commandsAtMost (replyNil r) k" "alwaysAnswers (replyResponse r)"
  "commandsAtMost (replyResponse r) k" "alwaysAnswers (replyVolume v)" "commandsAtMost (replyVolume v) k"
  "alwaysAnswers (dlna_launched o')" "commandsAtMost (dlna_launched o') k" "alwaysAnswers (dlna_launchedParts o')"
  "commandsAtMost (dlna_launchedParts o') k"
  by (simp_all add: replyNil_def replyResponse_def replyVolume_def dlna_launched_def dlna_launchedParts_def)

text \<open>The tasks of the messages to a renderer, apart from the two that ask for the description of the track.\<close>

definition dlna_tasks :: "dlnaEnv \<Rightarrow> DLNAService \<Rightarrow> capMessage \<Rightarrow> task set" where
  "dlna_tasks le s m = (case m of
      MediaPlayerMsg p \<Rightarrow> {dlna_mediaPlayer le p s}
    | PlayListControlMsg p \<Rightarrow> {dlna_playList p s}
    | MediaControlMsg c \<Rightarrow> if c \<in> {GetMediaMetaData, SubscribeMediaInfo} then {} else {t. \<exists>b f so. dlna_mediaControl le c b f s = Inr (so, t)}
    | VolumeControlMsg v \<Rightarrow> {t. \<exists>b f so. dlna_volume le v b f s = Inr (so, t)}
    | _ \<Rightarrow> {})"

lemma play_simps: "(\<And>o'. alwaysAnswers (f o') \<and> commandsAtMost (f o') 0) \<Longrightarrow>
    alwaysAnswers (setAndPlay le s u x f) \<and> commandsAtMost (setAndPlay le s u x f) 2"
  by (simp add: setAndPlay_def dlna_play_def numeral_2_eq_2)

lemma dlna_media_simps: "(\<And>o'. alwaysAnswers (f o') \<and> commandsAtMost (f o') 0) \<Longrightarrow>
    alwaysAnswers (dlna_displayImage le s m f) \<and> commandsAtMost (dlna_displayImage le s m f) 2"
  "(\<And>o'. alwaysAnswers (f o') \<and> commandsAtMost (f o') 0) \<Longrightarrow>
    alwaysAnswers (dlna_playMedia le s m f) \<and> commandsAtMost (dlna_playMedia le s m f) 2"
  using play_simps [of f] by (auto simp: dlna_displayImage_def dlna_playMedia_def split: sum.split)

lemma dlna_getVolume_simps: "(\<And>v. alwaysAnswers (f v) \<and> commandsAtMost (f v) 1) \<Longrightarrow>
    alwaysAnswers (dlna_getVolume s f) \<and> commandsAtMost (dlna_getVolume s f) 2"
  by (simp add: dlna_getVolume_def numeral_2_eq_2)

lemma dlna_tasks_answer:
  assumes "t \<in> dlna_tasks le s m"
  shows "alwaysAnswers t \<and> commandsAtMost t 2"
proof -
  have set1: "alwaysAnswers (dlna_setVolume s v)" "commandsAtMost (dlna_setVolume s v) (Suc k)" for v k
    by (simp_all add: dlna_setVolume_def)
  show ?thesis
  proof (cases m)
    case (MediaPlayerMsg p)
    with assms have t: "t = dlna_mediaPlayer le p s" by (simp add: dlna_tasks_def)
    show ?thesis unfolding t
      by (cases p) (simp_all add: dlna_media_simps numeral_2_eq_2 [symmetric], simp_all add: numeral_2_eq_2)
  next
    case (PlayListControlMsg p)
    with assms show ?thesis by (cases p) (simp_all add: dlna_tasks_def numeral_2_eq_2)
  next
    case (MediaControlMsg c)
    with assms show ?thesis
      by (cases c) (auto simp: dlna_tasks_def justTask_def andSubscribe_def rbind_Inr_iff dlna_play_def dlna_getPlayState_def
          positionInfo_def numeral_2_eq_2)
  next
    case (VolumeControlMsg v)
    with assms set1 show ?thesis
      by (cases v) (auto simp: dlna_tasks_def justTask_def andSubscribe_def rbind_Inr_iff dlna_getMute_def numeral_2_eq_2
          intro!: dlna_getVolume_simps [unfolded numeral_2_eq_2])
  qed (use assms in \<open>simp_all add: dlna_tasks_def\<close>)
qed

text \<open>
  Every task of a message to a media renderer, apart from the two that ask for the description of the track, calls
  one of the two blocks the caller gave, or raises, whatever the renderer answers, and takes at most two actions.
\<close>
lemma dlna_message_answers:
  assumes "has_success bs" "has_failure bs" "t \<in> dlna_tasks le s m"
  shows "snd (runTask bs dev t) \<notin> {NothingCalled, NilCalled} \<and> length (fst (runTask bs dev t)) \<le> 2"
  using runTask_answers [OF _ assms(1,2)] runTask_commands dlna_tasks_answer [OF assms(3)] by blast

text \<open>The action a command carries, and the document an action has.\<close>

definition actionOf :: "httpCommand \<Rightarrow> (string \<times> string) option" where
  "actionOf c = (case hc_payload c of
      Some (JObj [(_, JStr a), (_, JStr x)]) \<Rightarrow> Some (a, x) | _ \<Rightarrow> None)"

definition renderingAction :: "string \<Rightarrow> (string \<times> string) list \<Rightarrow> string \<times> string" where
  "renderingAction name arguments = ([CHR 0x22] @ kRenderingControlNamespace @ ''#'' @ name @ [CHR 0x22],
     soapText name kRenderingControlNamespace ((''Channel'', ''Master'') # arguments))"

definition volumeDocument :: "int \<Rightarrow> json" where
  "volumeDocument v = JObj [(''s:Envelope'', JObj [(''s:Body'', JObj [(''u:GetVolumeResponse'',
     JObj [(''CurrentVolume'', JObj [(''text'', JStr (show_int v))])])])])]"

lemma intValue_show_int: "0 \<le> v \<Longrightarrow> v \<le> 100 \<Longrightarrow> intValue (Some (JStr (show_int v))) = Inr v"
proof -
  assume v: "0 \<le> v" "v \<le> 100"
  obtain c t where t: "show_nat (nat v) = c # t" by (cases "show_nat (nat v)") simp_all
  then have "is_digit c" using show_nat_digits [of "nat v"] by (metis list.set_intros(1))
  then have c: "\<not> is_space c" "c \<noteq> CHR ''-''" "c \<noteq> CHR ''+''" by (auto simp: is_digit_def is_space_def)
  have "read_nat 0 (c # t) = nat v" using read_show_nat [of "nat v"] t by simp
  with v t c show ?thesis
    by (simp add: show_int_def string_int_def split_sign_def del: read_nat.simps)
qed

lemma currentValue_document:
  "0 \<le> v \<Longrightarrow> v \<le> 100 \<Longrightarrow> currentValue ''GetVolumeResponse'' ''CurrentVolume'' (Some (volumeDocument v)) = Inr v"
  using intValue_show_int [of v]
  by (simp add: currentValue_def volumeDocument_def responseDataFromResponse_def objectForKeyEndingWithString_def
      objectForKeyWithPredicate_def hasSuffix_def allKeys_def lookupKey_def objectForKey_def
      objectForKeyN_def)

text \<open>A renderer that reports its volume and takes every other action.\<close>

definition volumeRenderer :: "int \<Rightarrow> httpCommand \<Rightarrow> NSError option + json option" where
  "volumeRenderer v c = Inr (if actionOf c = Some (renderingAction ''GetVolume'' []) then Some (volumeDocument v) else None)"

lemma renderingControl_run:
  "runTask bs dev (renderingControl s name arguments f) =
     (let c = \<lparr>hc_method = ''POST'', hc_target = dlna_renderingControlControlURL s,
        hc_payload = Some (JObj [(''SOAPAction'', JStr (fst (renderingAction name arguments))),
          (''XMLData'', JStr (snd (renderingAction name arguments)))])\<rparr>
      in apfst (Cons c) (case dev c of Inl e \<Rightarrow> runTask bs dev (Fail e) | Inr r \<Rightarrow> runTask bs dev (f r)))"
  by (simp add: renderingControl_def soapAction_command renderingAction_def Let_def split: sum.split)

lemma renderingControl_action [simp]:
  "actionOf \<lparr>hc_method = m, hc_target = t, hc_payload = Some (JObj [(k, JStr (fst a)), (l, JStr (snd a))])\<rparr> = Some a"
  by (simp add: actionOf_def)

lemma SetVolume_GetVolume [simp]: "renderingAction ''SetVolume'' a \<noteq> renderingAction ''GetVolume'' b"
  by (simp add: renderingAction_def)

text \<open>
  C12: The caller presses a volume key on a renderer that reports its volume as a number from 0 to 100: the key asks for
  the volume and then moves it by one, within that range; at the end of the range nothing is set and the caller
  hears of it.
\<close>
theorem dlna_volume_step:
  assumes v: "0 \<le> v" "v \<le> 100" and m: "(m, w) \<in> {(VolumeUp, v + 1), (VolumeDown, v - 1)}"
    and t: "t \<in> dlna_tasks le s (VolumeControlMsg m)" and bs: "has_success bs" "has_failure bs"
    and run: "runTask bs (volumeRenderer v) t = (commands, outcome)"
  shows "map actionOf commands = Some (renderingAction ''GetVolume'' [])
      # (if 0 \<le> w \<and> w \<le> 100 then [Some (renderingAction ''SetVolume'' [(''DesiredVolume'', show_int w)])] else [])
    \<and> outcome = (if 0 \<le> w \<and> w \<le> 100 then Replied (ResponseObject None)
        else Failed (Some (generateErrorWithCode ConnectStatusCodeError
          (Some (if m = VolumeUp then ''Volume is already at max'' else ''Volume is already at 0'')))))"
proof -
  have up: "roundf ((real_of_int v / 100 + 1 / 100) * 100) = v + 1"
    and down: "0 < v \<Longrightarrow> roundf ((real_of_int v / 100 - 1 / 100) * 100) = v - 1"
    using v by (simp_all add: roundf_def algebra_simps floor_eq_iff) linarith?
  have set: "runTask bs (volumeRenderer v) (dlna_setVolume s x) =
      ([\<lparr>hc_method = ''POST'', hc_target = dlna_renderingControlControlURL s,
        hc_payload = Some (JObj [(''SOAPAction'', JStr (fst (renderingAction ''SetVolume'' [(''DesiredVolume'', show_int (roundf (x * 100)))]))),
          (''XMLData'', JStr (snd (renderingAction ''SetVolume'' [(''DesiredVolume'', show_int (roundf (x * 100)))])))])\<rparr>],
       Replied (ResponseObject None))" for x
    using bs by (simp add: dlna_setVolume_def renderingControl_run volumeRenderer_def replyResponse_def)
  have get: "runTask bs (volumeRenderer v) (dlna_getVolume s f) =
      apfst (Cons \<lparr>hc_method = ''POST'', hc_target = dlna_renderingControlControlURL s,
        hc_payload = Some (JObj [(''SOAPAction'', JStr (fst (renderingAction ''GetVolume'' []))),
          (''XMLData'', JStr (snd (renderingAction ''GetVolume'' [])))])\<rparr>) (runTask bs (volumeRenderer v) (f (real_of_int v / 100)))" for f
    using v by (simp add: dlna_getVolume_def renderingControl_run volumeRenderer_def currentValue_document orThrow_def)
  from m consider "m = VolumeUp" "w = v + 1" | "m = VolumeDown" "w = v - 1" by blast
  then show ?thesis
  proof cases
    case 1
    with t have "t = dlna_getVolume s (\<lambda>v. if v < 1 then dlna_setVolume s (v + 1 / 100)
        else failWith ConnectStatusCodeError (Some ''Volume is already at max''))"
      by (auto simp: dlna_tasks_def justTask_def)
    with 1 v bs run up show ?thesis by (auto simp: get set failWith_def)
  next
    case 2
    with t have "t = dlna_getVolume s (\<lambda>v. if v > 0 then dlna_setVolume s (v - 1 / 100)
        else failWith ConnectStatusCodeError (Some ''Volume is already at 0''))"
      by (auto simp: dlna_tasks_def justTask_def)
    with 2 v bs run down show ?thesis by (auto simp: get set failWith_def)
  qed
qed

theorem dlna_volume_step_witness:
  "\<forall>le s. \<exists>t. dlna_volume le VolumeUp None None s = Inr ((s, []), t)
     \<and> map actionOf (fst (runTask \<lparr>has_success = True, has_failure = True\<rparr> (volumeRenderer 99) t)) =
         [Some (renderingAction ''GetVolume'' []), Some (renderingAction ''SetVolume'' [(''DesiredVolume'', ''100'')])]"
proof (intro allI)
  fix le s
  define t where "t = dlna_getVolume s (\<lambda>v. if v < 1 then dlna_setVolume s (v + 1 / 100)
      else failWith ConnectStatusCodeError (Some ''Volume is already at max''))"
  have t: "dlna_volume le VolumeUp None None s = Inr ((s, []), t)" by (simp add: justTask_def t_def)
  then have "t \<in> dlna_tasks le s (VolumeControlMsg VolumeUp)" by (auto simp: dlna_tasks_def)
  from dlna_volume_step [OF _ _ _ this _ _ prod.collapse [symmetric],
      where v = 99 and w = 100 and bs = "\<lparr>has_success = True, has_failure = True\<rparr>"]
  have "map actionOf (fst (runTask \<lparr>has_success = True, has_failure = True\<rparr> (volumeRenderer 99) t)) =
      [Some (renderingAction ''GetVolume'' []), Some (renderingAction ''SetVolume'' [(''DesiredVolume'', show_int 100)])]" by simp
  moreover have "show_int 100 = ''100''" by (simp add: show_int_def, code_simp)
  ultimately show "\<exists>t. dlna_volume le VolumeUp None None s = Inr ((s, []), t)
     \<and> map actionOf (fst (runTask \<lparr>has_success = True, has_failure = True\<rparr> (volumeRenderer 99) t)) =
         [Some (renderingAction ''GetVolume'' []), Some (renderingAction ''SetVolume'' [(''DesiredVolume'', ''100'')])]"
    using t by metis
qed

end
