(* ===== verification/DlnaRuns.thy ===== *)
theory DlnaRuns
  imports Dlna
begin

text \<open>
  Runs of the service for media renderers: the application connects, disconnects, subscribes and unsubscribes, the
  description changes, renewals run and answers arrive, in any order and under any network. The table of the
  notification server stays consistent with the subscriptions the service handed out.
\<close>

section \<open>Runs\<close>

definition dlna_new :: "DeviceService \<Rightarrow> DLNAService" where
  "dlna_new base = \<lparr>dlna_base = base, dlna_description = None, dlna_avTransportControlURL = None,
     dlna_avTransportEventURL = None, dlna_renderingControlControlURL = None, dlna_renderingControlEventURL = None,
     dlna_httpServer = None, dlna_sessionIds = None, dlna_reachability = None, dlna_timers = 0,
     dlna_store = (\<lambda>r. subscriptionWithDelegate None None None (- 1)), dlna_made = 0, dlna_blocks = []\<rparr>"

datatype dlnaCall =
    CallSetDescription "ServiceDescription option"
  | CallConnect
  | CallDisconnect
  | CallLoseReachability
  | CallSubscribe dlnaEvent "nat option" "nat option"
  | CallUnsubscribe nat
  | CallResubscribe
  | CallSubscribeAnswered "string option" "(int \<times> string option) option"
  | CallResubscribeAnswered "int option"
  | CallUnsubscribeAnswered "string option" "int option"

fun dlna_perform :: "dlnaEnv \<Rightarrow> dlnaCall \<Rightarrow> dlnaOp" where
  "dlna_perform le (CallSetDescription d) s = rbind (dlna_setServiceDescription le d s) (\<lambda>s'. Inr (s', []))"
| "dlna_perform le CallConnect s = dlna_connect le s"
| "dlna_perform le CallDisconnect s = dlna_disconnect le s"
| "dlna_perform le CallLoseReachability s = dlna_didLoseReachability le s"
| "dlna_perform le (CallSubscribe kind b f) s = dlna_subscribeTo le kind b f s"
| "dlna_perform le (CallUnsubscribe r) s = dlna_unsubscribe le r s"
| "dlna_perform le CallResubscribe s = dlna_resubscribeSubscriptions le s"
| "dlna_perform le (CallSubscribeAnswered i r) s = rbind (subscribeAnswered i r s) (\<lambda>s'. Inr (s', []))"
| "dlna_perform le (CallResubscribeAnswered r) s = Inr (resubscribeAnswered r s, [])"
| "dlna_perform le (CallUnsubscribeAnswered i r) s = rbind (unsubscribeAnswered i r s) (\<lambda>s'. Inr (s', []))"

text \<open>The application can only unsubscribe what it was given. An exception ends the run.\<close>

inductive dlna_reach :: "DLNAService \<Rightarrow> bool" where
  dlna_reach_new: "dlna_reach (dlna_new base)"
| dlna_reach_step: "dlna_reach s \<Longrightarrow> dlna_perform le c s = Inr (s', out) \<Longrightarrow> (\<And>r. c = CallUnsubscribe r \<Longrightarrow> r < dlna_made s)
    \<Longrightarrow> dlna_reach s'"

section \<open>The invariant\<close>

definition filed :: "DLNAHTTPServer \<Rightarrow> nat set" where
  "filed d = {r. \<exists>k rs. objectForKey (dhs_subscriptions d) k = Some rs \<and> r \<in> set rs}"

definition dlna_inv :: "DLNAService \<Rightarrow> bool" where
  "dlna_inv s \<longleftrightarrow>
     (\<forall>d. dlna_httpServer s = Some d \<longrightarrow> dhs_inv d (dlna_store s) \<and> filed d \<subseteq> {..<dlna_made s}) \<and>
     (\<forall>r<dlna_made s. \<forall>bs. sub_successCalls (dlna_store s r) = Some bs \<longrightarrow> set bs \<subseteq> {..<length (dlna_blocks s)})"

lemma dhs_inv_cong:
  assumes "dhs_inv d h"
    and "\<And>r. r \<in> filed d \<Longrightarrow> sub_isSubscribed (h' r) = sub_isSubscribed (h r) \<and> cmd_target (h' r) = cmd_target (h r)"
  shows "dhs_inv d h'"
  using assms(1) assms(2) [unfolded filed_def] by (simp add: dhs_inv_def) metis

lemma filed_simps [simp]: "filed dhs_new = {}" "filed (dhs_start p d) = {}" "filed (dhs_stop d) = filed d"
  by (simp_all add: filed_def dhs_new_def dhs_start_def dhs_stop_def objectForKey_def split: option.split)

lemma filed_add:
  assumes "dhs_addSubscription r (d, h) = Inr (d', h')"
  shows "filed d' \<subseteq> insert r (filed d)"
  using assms
proof (rule dhs_add_files)
  fix k
  assume k: "dhs_subscriptions d' = setObject ((case objectForKey (dhs_subscriptions d) k of None \<Rightarrow> [] | Some rs \<Rightarrow> rs) @ [r]) k (dhs_subscriptions d)"
  show ?thesis
    by (cases "objectForKey (dhs_subscriptions d) k") (auto simp: filed_def k split: if_splits)
qed

lemma filed_remove: "dhs_inv d h \<Longrightarrow> dhs_removeSubscription r (d, h) = Inr (d', h') \<Longrightarrow> filed d' \<subseteq> filed d - {r}"
  using dhs_remove_lookup(3) [of d h r d' h'] by (fastforce simp: filed_def)

text \<open>Most operations leave the subscriptions alone, apart from emptying the table of the server.\<close>

definition keepsFrom :: "DLNAService \<Rightarrow> DLNAService \<Rightarrow> bool" where
  "keepsFrom s s' \<longleftrightarrow> dlna_store s' = dlna_store s \<and> dlna_made s' = dlna_made s \<and> dlna_blocks s' = dlna_blocks s \<and>
     (\<forall>d'. dlna_httpServer s' = Some d' \<longrightarrow> dhs_subscriptions d' = [] \<or>
        (\<exists>d. dlna_httpServer s = Some d \<and> dhs_subscriptions d' = dhs_subscriptions d))"

definition keepsSubscriptions :: "dlnaOp \<Rightarrow> bool" where
  "keepsSubscriptions f \<longleftrightarrow> (\<forall>s s' out. f s = Inr (s', out) \<longrightarrow> keepsFrom s s')"

lemma keepsFrom_refl [simp]: "keepsFrom s s"
  by (simp add: keepsFrom_def)

lemma keepsFrom_trans: "keepsFrom s s1 \<Longrightarrow> keepsFrom s1 s2 \<Longrightarrow> keepsFrom s s2"
  unfolding keepsFrom_def by metis

lemma keepsFrom_inv:
  assumes "dlna_inv s" "keepsFrom s s'"
  shows "dlna_inv s'"
proof -
  have "dhs_inv d' (dlna_store s') \<and> filed d' \<subseteq> {..<dlna_made s'}" if d': "dlna_httpServer s' = Some d'" for d'
  proof (cases "dhs_subscriptions d' = []")
    case True
    then show ?thesis by (simp add: filed_def)
  next
    case False
    with assms d' obtain d where "dlna_httpServer s = Some d" "dhs_subscriptions d' = dhs_subscriptions d"
      by (auto simp: keepsFrom_def)
    with assms show ?thesis by (auto simp: dlna_inv_def keepsFrom_def dhs_inv_def filed_def)
  qed
  with assms show ?thesis by (auto simp: dlna_inv_def keepsFrom_def)
qed

lemma keeps_dlnaThen:
  assumes "keepsSubscriptions f" "keepsSubscriptions g"
  shows "keepsSubscriptions (dlnaThen f g)"
  using assms keepsFrom_trans
  by (auto simp: keepsSubscriptions_def dlnaThen_def rbind_Inr_iff split: prod.splits) blast

lemma keeps_onServer [simp]: "keepsSubscriptions (onServer (dhs_start p))" "keepsSubscriptions (onServer dhs_stop)"
  by (auto simp: keepsSubscriptions_def onServer_def keepsFrom_def dhs_start_def dhs_stop_def split: option.splits)

lemma dlna_keeps_services [simp]: "keepsSubscriptions (subscribeServices le)" "keepsSubscriptions (unsubscribeServices le)"
  "keepsSubscriptions (dlna_resubscribeSubscriptions le)" "keepsSubscriptions (dlna_tell sel e)"
  "keepsSubscriptions (\<lambda>s. Inr (s\<lparr>dlna_reachability := f s\<rparr>, []))"
  by (auto simp: keepsSubscriptions_def subscribeServices_def unsubscribeServices_def dlna_resubscribeSubscriptions_def
      dlna_tell_def keepsFrom_def rbind_Inr_iff Let_def)

lemma keepsD: "keepsSubscriptions f \<Longrightarrow> f s = Inr (s', out) \<Longrightarrow> keepsFrom s s'"
  by (auto simp: keepsSubscriptions_def)

lemma keepsFrom_update: "keepsFrom (s\<lparr>dlna_reachability := x, dlna_base := y\<rparr>) s' = keepsFrom s s'"
  "keepsFrom (s\<lparr>dlna_base := y\<rparr>) s' = keepsFrom s s'"
  by (simp_all add: keepsFrom_def)

lemma keeps_connection: "keepsSubscriptions (dlna_connect le)" "keepsSubscriptions (dlna_disconnect le)"
  "keepsSubscriptions (dlna_didLoseReachability le)"
proof -
  have "keepsSubscriptions (dlnaThen (onServer (dhs_start (le_portFree le)))
      (dlnaThen (subscribeServices le) (dlna_tell SelConnectionSuccess ConnectionSuccess)))" by (intro keeps_dlnaThen) simp_all
  from keepsD [OF this] show "keepsSubscriptions (dlna_connect le)"
    by (auto simp: keepsSubscriptions_def dlna_connect_def Let_def keepsFrom_update dest: keepsFrom_update [THEN iffD1])
  have "keepsSubscriptions (dlnaThen (unsubscribeServices le) (dlnaThen (onServer dhs_stop)
      (dlnaThen (\<lambda>s. Inr (s\<lparr>dlna_reachability := map_option rea_stop (dlna_reachability s)\<rparr>, []))
        (dlna_tell SelDisconnected (DisconnectedWithError None)))))" by (intro keeps_dlnaThen) simp_all
  from keepsD [OF this] show disconnect: "keepsSubscriptions (dlna_disconnect le)"
    by (auto simp: keepsSubscriptions_def dlna_disconnect_def Let_def keepsFrom_update dest: keepsFrom_update [THEN iffD1])
  from keepsD [OF disconnect] show "keepsSubscriptions (dlna_didLoseReachability le)"
    by (auto simp: keepsSubscriptions_def dlna_didLoseReachability_def keepsFrom_def split: if_splits)
qed

lemma updateControlURLs_keeps: "updateControlURLs le services s = Inr s' \<Longrightarrow>
    dlna_store s' = dlna_store s \<and> dlna_made s' = dlna_made s \<and> dlna_blocks s' = dlna_blocks s \<and> dlna_httpServer s' = dlna_httpServer s"
  by (induction le services s rule: updateControlURLs.induct) (fastforce simp: rbind_Inr_iff Let_def split: if_splits)+

lemma dlna_setServiceDescription_keeps: "dlna_setServiceDescription le d s = Inr s' \<Longrightarrow> keepsFrom s s'"
  by (fastforce simp: dlna_setServiceDescription_def keepsFrom_def rbind_Inr_iff Let_def dhs_new_def
      split: if_splits dest: updateControlURLs_keeps)

lemma answers_keep: "subscribeAnswered i r s = Inr s' \<Longrightarrow> keepsFrom s s'"
  "keepsFrom s (resubscribeAnswered q s)" "unsubscribeAnswered i q s = Inr s' \<Longrightarrow> keepsFrom s s'"
  by (auto simp: subscribeAnswered_def resubscribeAnswered_def unsubscribeAnswered_def keepsFrom_def rbind_Inr_iff
      split: option.splits if_splits)

section \<open>Subscribing and unsubscribing\<close>

lemma newSubscription_inv:
  assumes "dlna_inv s"
  shows "dlna_inv (newSubscription kind target b f s)"
proof -
  let ?s = "newSubscription kind target b f s"
  have store: "dlna_store ?s r = dlna_store s r" if "r < dlna_made s" for r
    using that by (simp add: newSubscription_def)
  have "dhs_inv d (dlna_store ?s) \<and> filed d \<subseteq> {..<dlna_made ?s}" if "dlna_httpServer ?s = Some d" for d
  proof -
    from assms that have d: "dhs_inv d (dlna_store s)" "filed d \<subseteq> {..<dlna_made s}"
      by (auto simp: dlna_inv_def newSubscription_def)
    with store have "dhs_inv d (dlna_store ?s)" by (intro dhs_inv_cong [OF d(1)]) auto
    with d(2) show ?thesis by (auto simp: newSubscription_def)
  qed
  moreover have "set bs \<subseteq> {..<length (dlna_blocks ?s)}"
    if r: "r < dlna_made ?s" "sub_successCalls (dlna_store ?s r) = Some bs" for r bs
  proof (cases "r = dlna_made s")
    case True
    with r(2) have "bs = [length (dlna_blocks s)]"
      by (simp add: newSubscription_def addSuccess_def addFailure_def subscriptionWithDelegate_def sub_init_def
          collectBlock_def ServiceSubscription.defs ServiceCommand.defs commandWithDelegate_def Let_def)
    then show ?thesis by (simp add: newSubscription_def)
  next
    case False
    with r have "r < dlna_made s" by (simp add: newSubscription_def)
    with assms r(2) store have "set bs \<subseteq> {..<length (dlna_blocks s)}" by (auto simp: dlna_inv_def)
    then show ?thesis by (auto simp: newSubscription_def)
  qed
  ultimately show ?thesis by (auto simp: dlna_inv_def)
qed

text \<open>What sending a subscription keeps, besides the invariant: the objects keep their targets and blocks.\<close>

definition keepsObjects :: "DLNAService \<Rightarrow> DLNAService \<Rightarrow> bool" where
  "keepsObjects s s' \<longleftrightarrow> dlna_made s' = dlna_made s \<and> dlna_blocks s' = dlna_blocks s \<and>
     (\<forall>x. cmd_target (dlna_store s' x) = cmd_target (dlna_store s x) \<and>
          sub_successCalls (dlna_store s' x) = sub_successCalls (dlna_store s x))"

lemma keepsFrom_objects: "keepsFrom s s' \<Longrightarrow> keepsObjects s0 s \<Longrightarrow> keepsObjects s0 s'"
  by (simp add: keepsFrom_def keepsObjects_def)

lemma fileSubscription_add:
  assumes "dlna_inv s" "r < dlna_made s" "fileSubscription dhs_addSubscription r s = Inr (s', out)"
  shows "dlna_inv s' \<and> keepsObjects s s'"
proof (cases "dlna_httpServer s")
  case None
  with assms show ?thesis by (simp add: fileSubscription_def keepsObjects_def)
next
  case (Some d)
  with assms(3) obtain d' h' where f: "dhs_addSubscription r (d, dlna_store s) = Inr (d', h')"
    and s': "s' = s\<lparr>dlna_httpServer := Some d', dlna_store := h'\<rparr>"
    by (auto simp: fileSubscription_def rbind_Inr_iff)
  from f have h': "h' = (dlna_store s)(r := (dlna_store s r)\<lparr>sub_isSubscribed := True\<rparr>)" by (rule dhs_add_files)
  from Some assms(1) have "dhs_inv d (dlna_store s)" "filed d \<subseteq> {..<dlna_made s}" by (auto simp: dlna_inv_def)
  with f filed_add [OF f] assms(2) have "dhs_inv d' h'" "filed d' \<subseteq> {..<dlna_made s}"
    using dhs_inv_add by auto
  with assms(1) show ?thesis by (auto simp: dlna_inv_def keepsObjects_def s' h')
qed

lemma fileSubscription_remove:
  assumes "dlna_inv s" "fileSubscription dhs_removeSubscription r s = Inr (s', out)"
  shows "dlna_inv s' \<and> keepsObjects s s' \<and> (\<forall>d. dlna_httpServer s' = Some d \<longrightarrow> r \<notin> filed d)"
proof (cases "dlna_httpServer s")
  case None
  with assms show ?thesis by (simp add: fileSubscription_def keepsObjects_def)
next
  case (Some d)
  with assms(2) obtain d' h' where f: "dhs_removeSubscription r (d, dlna_store s) = Inr (d', h')"
    and s': "s' = s\<lparr>dlna_httpServer := Some d', dlna_store := h'\<rparr>"
    by (auto simp: fileSubscription_def rbind_Inr_iff)
  from Some assms(1) have inv: "dhs_inv d (dlna_store s)" "filed d \<subseteq> {..<dlna_made s}" by (auto simp: dlna_inv_def)
  have "dhs_inv d' h'" using dhs_inv_remove [OF inv(1) f] .
  moreover have "filed d' \<subseteq> {..<dlna_made s} - {r}" using filed_remove [OF inv(1) f] inv(2) by blast
  moreover have "cmd_target (h' x) = cmd_target (dlna_store s x) \<and> sub_successCalls (h' x) = sub_successCalls (dlna_store s x)" for x
    using dhs_remove_lookup(2) [OF inv(1) f] by auto
  ultimately show ?thesis using assms(1) by (auto simp: dlna_inv_def keepsObjects_def s')
qed

lemma sendSubscription_inv:
  assumes "dlna_inv s" "r < dlna_made s" "dlna_sendSubscription le type r s = Inr (s', out)"
  shows "dlna_inv s' \<and> keepsObjects s s'
    \<and> (type = SubscriptionTypeUnsubscribe \<longrightarrow> (\<forall>d. dlna_httpServer s' = Some d \<longrightarrow> r \<notin> filed d))"
proof -
  have start: "keepsSubscriptions (dlnaThen (onServer (dhs_start (le_portFree le))) (subscribeServices le))"
    and stop: "keepsSubscriptions (dlnaThen (unsubscribeServices le) (onServer dhs_stop))"
    by (intro keeps_dlnaThen; simp)+
  show ?thesis
  proof (cases type)
    case SubscriptionTypeSubscribe
    with assms(3) obtain s1 o1 where "fileSubscription dhs_addSubscription r s = Inr (s1, o1)" "keepsFrom s1 s'"
      using keepsD [OF start] by (fastforce simp: dlna_sendSubscription_def dlnaThen_def rbind_Inr_iff split: if_splits prod.splits)
    with fileSubscription_add [OF assms(1,2)] SubscriptionTypeSubscribe show ?thesis
      using keepsFrom_inv keepsFrom_objects by blast
  next
    case SubscriptionTypeUnsubscribe
    with assms(3) obtain s1 o1 where f: "fileSubscription dhs_removeSubscription r s = Inr (s1, o1)" and k: "keepsFrom s1 s'"
      using keepsD [OF stop] by (fastforce simp: dlna_sendSubscription_def dlnaThen_def rbind_Inr_iff split: if_splits prod.splits)
    from k fileSubscription_remove [OF assms(1) f] have "\<forall>d. dlna_httpServer s' = Some d \<longrightarrow> r \<notin> filed d"
      by (fastforce simp: keepsFrom_def filed_def)
    with k fileSubscription_remove [OF assms(1) f] show ?thesis
      using keepsFrom_inv keepsFrom_objects by blast
  qed
qed

lemma storeUpdate_inv:
  assumes "dlna_inv s" "keepsObjects s0 s" "dlna_inv s0"
    and "cmd_target sub = cmd_target (dlna_store s0 r)" "sub_successCalls sub \<in> {None, sub_successCalls (dlna_store s0 r)}"
    and "\<not> sub_isSubscribed sub \<Longrightarrow> (\<forall>d. dlna_httpServer s = Some d \<longrightarrow> r \<notin> filed d)"
  shows "dlna_inv (s\<lparr>dlna_store := (dlna_store s)(r := sub)\<rparr>)"
proof -
  have target: "cmd_target sub = cmd_target (dlna_store s r)" using assms(2,4) by (simp add: keepsObjects_def)
  have "dhs_inv d ((dlna_store s)(r := sub)) \<and> filed d \<subseteq> {..<dlna_made s}" if d: "dlna_httpServer s = Some d" for d
  proof -
    from assms(1) d have inv: "dhs_inv d (dlna_store s)" "filed d \<subseteq> {..<dlna_made s}" by (auto simp: dlna_inv_def)
    have "sub_isSubscribed (dlna_store s r)" if "r \<in> filed d" using inv(1) that by (auto simp: dhs_inv_def filed_def)
    then have "dhs_inv d ((dlna_store s)(r := sub))"
      using assms(6) d target by (intro dhs_inv_cong [OF inv(1)]) auto
    with inv(2) show ?thesis by simp
  qed
  moreover have "set bs \<subseteq> {..<length (dlna_blocks s)}"
    if "x < dlna_made s" "sub_successCalls (((dlna_store s)(r := sub)) x) = Some bs" for x bs
    using that assms(1,2,5) by (auto simp: dlna_inv_def keepsObjects_def split: if_splits)
  ultimately show ?thesis by (auto simp: dlna_inv_def)
qed

lemma sub_sendType_fields:
  assumes "sub_sendType type s = (s', ms)"
  shows "cmd_target s' = cmd_target s" "sub_successCalls s' = sub_successCalls s" "ms = [] \<Longrightarrow> s' = s"
    "ms \<noteq> [] \<Longrightarrow> sub_isSubscribed s' = (type = SubscriptionTypeSubscribe)"
  using assms by (auto simp: sub_sendType_def Let_def split: option.splits if_splits)

lemma subscribeTo_inv:
  assumes "dlna_inv s" "dlna_subscribeTo le kind b f s = Inr (s', out)"
  shows "dlna_inv s'"
proof -
  obtain target where run: "runSubscription le subscribe SubscriptionTypeSubscribe (dlna_made s)
      (newSubscription kind target b f s) = Inr (s', out)" using assms(2) by (auto simp: dlna_subscribeTo_def Let_def)
  define s0 where "s0 = newSubscription kind target b f s"
  have s0: "dlna_inv s0" "dlna_made s < dlna_made s0"
    using newSubscription_inv [OF assms(1)] by (simp_all add: s0_def newSubscription_def)
  obtain sub ms where sub: "subscribe (dlna_store s0 (dlna_made s)) = (sub, ms)" by (cases "subscribe (dlna_store s0 (dlna_made s))")
  note fields = sub_sendType_fields [OF sub [unfolded subscribe_def]]
  show ?thesis
  proof (cases "ms = []")
    case True
    with run sub fields(3) s0(1) show ?thesis by (simp add: runSubscription_def s0_def [symmetric])
  next
    case False
    with run sub obtain s1 where s1: "dlna_sendSubscription le SubscriptionTypeSubscribe (dlna_made s) s0 = Inr (s1, out)"
      and s': "s' = s1\<lparr>dlna_store := (dlna_store s1)(dlna_made s := sub)\<rparr>"
      by (auto simp: runSubscription_def s0_def [symmetric] rbind_Inr_iff)
    from sendSubscription_inv [OF s0 s1] fields False s0(1) show ?thesis unfolding s' by (intro storeUpdate_inv) auto
  qed
qed

lemma unsubscribe_inv:
  assumes "dlna_inv s" "r < dlna_made s" "dlna_unsubscribe le r s = Inr (s', out)"
  shows "dlna_inv s'"
proof -
  obtain sub ms where sub: "sub_sendType SubscriptionTypeUnsubscribe (dlna_store s r) = (sub, ms)"
    by (cases "sub_sendType SubscriptionTypeUnsubscribe (dlna_store s r)")
  note fields = sub_sendType_fields [OF sub]
  let ?sub = "sub\<lparr>sub_successCalls := None, sub_failureCalls := None\<rparr>"
  show ?thesis
  proof (cases "ms = []")
    case True
    with assms(3) sub fields(3) have s': "s' = s\<lparr>dlna_store := (dlna_store s)(r := ?sub)\<rparr>" and "sub = dlna_store s r"
      by (simp_all add: dlna_unsubscribe_def runSubscription_def unsubscribe_def)
    then show ?thesis unfolding s' using assms(1)
      by (intro storeUpdate_inv [OF assms(1) _ assms(1)]) (auto simp: keepsObjects_def dlna_inv_def dhs_inv_def filed_def)
  next
    case False
    with assms(3) sub obtain s1 where s1: "dlna_sendSubscription le SubscriptionTypeUnsubscribe r s = Inr (s1, out)"
      and s': "s' = s1\<lparr>dlna_store := (dlna_store s1)(r := ?sub)\<rparr>"
      by (auto simp: dlna_unsubscribe_def runSubscription_def unsubscribe_def rbind_Inr_iff)
    from sendSubscription_inv [OF assms(1,2) s1] fields False assms(1) show ?thesis
      unfolding s' by (intro storeUpdate_inv) auto
  qed
qed

section \<open>Every run\<close>

lemma dlna_inv_new [simp]: "dlna_inv (dlna_new base)"
  by (simp add: dlna_inv_def dlna_new_def)

lemma dlna_perform_inv:
  assumes "dlna_inv s" "dlna_perform le c s = Inr (s', out)" "\<And>r. c = CallUnsubscribe r \<Longrightarrow> r < dlna_made s"
  shows "dlna_inv s'"
proof (cases c)
  case (CallUnsubscribe r)
  with assms show ?thesis using unsubscribe_inv by auto
next
  case (CallSubscribe kind b f)
  with assms show ?thesis using subscribeTo_inv by auto
qed (use assms keepsD [OF keeps_connection(1)] keepsD [OF keeps_connection(2)] keepsD [OF keeps_connection(3)]
    keepsD [OF dlna_keeps_services(3)] answers_keep dlna_setServiceDescription_keeps
    in \<open>fastforce simp: rbind_Inr_iff intro: keepsFrom_inv\<close>)+

lemma dlna_reach_inv: "dlna_reach s \<Longrightarrow> dlna_inv s"
  by (induction rule: dlna_reach.induct) (auto intro: dlna_perform_inv)

text \<open>
  C10: Whatever the application, the renderer and the network did before, an event from a renderer puts on the main queue
  only blocks of subscriptions the service handed out, whose target has the path the event was sent to and which are
  subscribed at that time; never a block of a subscription that was given up before.
\<close>
theorem dlna_event_reaches_subscribers:
  assumes "dlna_reach s" "dlna_notified le n s = Inr calls" "(b, event) \<in> set calls"
  shows "b < length (dlna_blocks s) \<and>
    (\<exists>r<dlna_made s. \<exists>bs key. sub_isSubscribed (dlna_store s r) \<and> sub_successCalls (dlna_store s r) = Some bs \<and> b \<in> set bs
      \<and> serviceSubscriptionKeyForURL (cmd_target (dlna_store s r)) = Inr (Some (trimmed key))
      \<and> serviceSubscriptionKeyForURL (ntf_url n) = Inr (Some key))"
proof -
  have inv: "dlna_inv s" by (rule dlna_reach_inv [OF assms(1)])
  from assms(2,3) obtain d where d: "dlna_httpServer s = Some d"
    "dhs_processRequest (le_parseXML le) n d (dlna_store s) = Inr calls"
    by (auto simp: dlna_notified_def split: option.splits if_splits)
  from inv d(1) have dinv: "dhs_inv d (dlna_store s)" "filed d \<subseteq> {..<dlna_made s}" by (auto simp: dlna_inv_def)
  from dhs_event_reaches_path [OF dinv(1) d(2) assms(3)] obtain r bs key where r: "r \<in> filed d"
    "sub_successCalls (dlna_store s r) = Some bs" "b \<in> set bs" "sub_isSubscribed (dlna_store s r)"
    "serviceSubscriptionKeyForURL (cmd_target (dlna_store s r)) = Inr (Some (trimmed key))"
    "serviceSubscriptionKeyForURL (ntf_url n) = Inr (Some key)" unfolding filed_def by blast
  with dinv(2) have "r < dlna_made s" by auto
  moreover from this r(2) inv have "set bs \<subseteq> {..<length (dlna_blocks s)}" unfolding dlna_inv_def by blast
  with r(3) have "b < length (dlna_blocks s)" by auto
  ultimately show ?thesis using r by blast
qed

text \<open>A renderer with one service, the environment of its service, and a notification with an event.\<close>

definition exampleEnv :: dlnaEnv where
  "exampleEnv = \<lparr>le_host = (\<lambda>u. Some ''10.0.0.7''), le_port = (\<lambda>u. Some ''80''),
     le_parseXML = (\<lambda>t. if t = ''event'' then Some [(''Event'', JObj [])]
       else Some [(''e:propertyset'', JObj [(''e:property'', JObj [(''LastChange'', JObj [(''text'', JStr ''event'')])])])]),
     le_canHandle = (\<lambda>u. True), le_ipAddress = ''10.0.0.2'', le_portFree = True,
     le_self = \<lparr>ss_serviceName = Some ''DLNA'', ss_conforms = []\<rparr>,
     le_mediaControl = \<lparr>co_name = ''DLNA'', co_priority = (\<lambda>a. CapabilityPriorityLevelNormal)\<rparr>,
     le_playListControl = \<lparr>co_name = ''DLNA'', co_priority = (\<lambda>a. CapabilityPriorityLevelNormal)\<rparr>\<rparr>"

definition exampleDescription :: ServiceDescription where
  "exampleDescription = sd_new\<lparr>sd_commandURL := Some ''http://10.0.0.7:80/'', sd_locationXML := Some ''xml'',
     sd_serviceList := Some [JObj [(''serviceId'', JObj [(''text'', JStr ''urn:upnp-org:serviceId:AVTransport'')]),
       (''controlURL'', JObj [(''text'', JStr ''/control'')]), (''eventSubURL'', JObj [(''text'', JStr ''/event'')])]]\<rparr>"

definition exampleBase :: DeviceService where
  "exampleBase = \<lparr>svc_class = ''DLNAService'', svc_description = None, svc_config = None, svc_capabilities = [],
     svc_connected = False, svc_delegate = None, svc_pairingType = PairingTypeNone\<rparr>"

definition exampleRun :: "DLNAService result" where
  "exampleRun = rbind (dlna_perform exampleEnv (CallSetDescription (Some exampleDescription)) (dlna_new exampleBase)) (\<lambda>(s, o1).
     rbind (dlna_perform exampleEnv CallConnect s) (\<lambda>(s, o2).
     rbind (dlna_perform exampleEnv (CallSubscribe PlayStateEvent (Some 7) None) s) (\<lambda>(s, o3). Inr s)))"

lemma exampleRun_reached: "exampleRun = Inr s \<Longrightarrow> dlna_reach s"
proof -
  assume "exampleRun = Inr s"
  then obtain s1 o1 s2 o2 o3 where
    "dlna_perform exampleEnv (CallSetDescription (Some exampleDescription)) (dlna_new exampleBase) = Inr (s1, o1)"
    "dlna_perform exampleEnv CallConnect s1 = Inr (s2, o2)"
    "dlna_perform exampleEnv (CallSubscribe PlayStateEvent (Some 7) None) s2 = Inr (s, o3)"
    by (auto simp: exampleRun_def rbind_Inr_iff simp del: dlna_perform.simps)
  note steps = this
  have "dlna_reach s1" by (rule dlna_reach_step [OF dlna_reach_new steps(1)]) simp
  then have "dlna_reach s2" by (rule dlna_reach_step [OF _ steps(2)]) simp
  then show ?thesis by (rule dlna_reach_step [OF _ steps(3)]) simp
qed

theorem dlna_event_reaches_subscribers_witness:
  "\<exists>s. exampleRun = Inr s \<and> dlna_notified exampleEnv \<lparr>ntf_url = Some ''http://10.0.0.2:49291/event'', ntf_data = Some ''x''\<rparr> s
     = Inr [(0, [(''Event'', JObj [])])] \<and> 0 < length (dlna_blocks s)"
proof -
  have "case exampleRun of Inl e \<Rightarrow> False | Inr s \<Rightarrow> dlna_notified exampleEnv
      \<lparr>ntf_url = Some ''http://10.0.0.2:49291/event'', ntf_data = Some ''x''\<rparr> s = Inr [(0, [(''Event'', JObj [])])]"
    by code_simp
  then obtain s where s: "exampleRun = Inr s" "dlna_notified exampleEnv
      \<lparr>ntf_url = Some ''http://10.0.0.2:49291/event'', ntf_data = Some ''x''\<rparr> s = Inr [(0, [(''Event'', JObj [])])]"
    by (auto split: sum.splits)
  from dlna_event_reaches_subscribers [OF exampleRun_reached [OF s(1)] s(2), of 0] s show ?thesis by auto
qed

section \<open>A subscription that is lost\<close>

text \<open>
  Subscribing while the notification server does not run, as it does not after the last subscription was given up,
  files the subscription, starts the server, and starting it empties the table: the subscription counts as
  subscribed, and no event reaches it or any other.
\<close>

lemma subscription_lost:
  assumes "dlna_subscribeTo le kind b f s = Inr (s', out)" "dlna_httpServer s = Some d" "\<not> dhs_isRunning d"
  shows "sub_isSubscribed (dlna_store s' (dlna_made s))"
    and "dlna_notified le' n s' = Inr calls \<Longrightarrow> calls = []"
proof -
  define s0 where "s0 = newSubscription kind (case kind of PlayStateEvent \<Rightarrow> dlna_avTransportEventURL s
      | MediaInfoEvent \<Rightarrow> dlna_avTransportEventURL s | VolumeEvent \<Rightarrow> dlna_renderingControlEventURL s
      | MuteEvent \<Rightarrow> dlna_renderingControlEventURL s) b f s"
  have d0: "dlna_httpServer s0 = Some d" using assms(2) by (simp add: s0_def newSubscription_def)
  have "cmd_delegate (dlna_store s0 (dlna_made s)) = Some dlnaDelegate"
    by (simp add: s0_def newSubscription_def addSuccess_def addFailure_def subscriptionWithDelegate_def sub_init_def
        ServiceSubscription.defs ServiceCommand.defs commandWithDelegate_def Let_def)
  then obtain sub ms where sub: "subscribe (dlna_store s0 (dlna_made s)) = (sub, ms)" "ms \<noteq> []" "sub_isSubscribed sub"
    by (auto simp: subscribe_def sub_sendType_def dlnaDelegate_def)
  with assms(1) obtain s1 where s1: "dlna_sendSubscription le SubscriptionTypeSubscribe (dlna_made s) s0 = Inr (s1, out)"
    and s': "s' = s1\<lparr>dlna_store := (dlna_store s1)(dlna_made s := sub)\<rparr>"
    by (auto simp: dlna_subscribeTo_def runSubscription_def s0_def Let_def rbind_Inr_iff)
  from sub(3) show "sub_isSubscribed (dlna_store s' (dlna_made s))" by (simp add: s')
  from s1 obtain s2 o2 o3 where s2: "fileSubscription dhs_addSubscription (dlna_made s) s0 = Inr (s2, o2)"
    and rest: "(if (case dlna_httpServer s2 of None \<Rightarrow> True | Some d \<Rightarrow> \<not> dhs_isRunning d)
      then dlnaThen (onServer (dhs_start (le_portFree le))) (subscribeServices le) s2 else Inr (s2, [])) = Inr (s1, o3)"
    by (auto simp: dlna_sendSubscription_def dlnaThen_def rbind_Inr_iff)
  from s2 d0 obtain d2 h2 where d2: "dhs_addSubscription (dlna_made s) (d, dlna_store s0) = Inr (d2, h2)" "dlna_httpServer s2 = Some d2"
    by (auto simp: fileSubscription_def rbind_Inr_iff)
  from d2(1) have "dhs_server d2 = dhs_server d" by (rule dhs_add_files)
  with assms(3) have "\<not> dhs_isRunning d2" by (simp add: dhs_isRunning_def)
  with rest d2(2) obtain d' where "dlna_httpServer s1 = Some d'" "dhs_subscriptions d' = []"
    by (auto simp: dlnaThen_def onServer_def subscribeServices_def rbind_Inr_iff Let_def dhs_start_def)
  then show "calls = []" if "dlna_notified le' n s' = Inr calls" for calls
    using that by (auto simp: s' dlna_notified_def dhs_processRequest_def rbind_Inr_iff bind_eq_Some_conv
        split: if_splits option.split_asm)
qed

end
