(* ===== verification/AirPlayHTTP.thy ===== *)
theory AirPlayHTTP
  imports Roku WebOSSession
begin

text \<open>
  \<open>src/Services/Helpers/AirPlayServiceHTTP\<close> and \<open>AirPlayServiceHTTPKeepAlive\<close>: playing media on an AirPlay device by
  HTTP requests. Requests wait in a serial queue, images are fetched in another, and what the answers lead to waits in
  the queue of the main thread; each queue is a list in the state, and running its first block is a step. Blocks of the
  application are named by numbers.
\<close>

section \<open>State\<close>

text \<open>A payload: the sources send none, a property list and image data; a text is what a caller may send.\<close>

datatype airPayload = TextPayload string | PlistPayload jdict | DataPayload string | OtherPayload

record airRequest =
  ar_method :: string
  ar_url :: "string option"
  ar_contentType :: "string option"
  ar_body :: string
  ar_keepAlive :: bool
  ar_sessionId :: "string option"
  ar_assetId :: "string option"

text \<open>What the completion of a command does before it calls the success block.\<close>

datatype airCompletion = AcResponse | AcDuration | AcPosition | AcPlayState | AcStop | AcPhoto bool | AcPlay bool | AcKeepAlive

datatype networkJob =
    RunRequest airRequest airCompletion "nat option" "nat option"
  | EndBackgroundTask

record imageJob =
  ij_url :: "string option"
  ij_target :: "string option"
  ij_parts :: bool
  ij_success :: "nat option"
  ij_failure :: "nat option"

datatype mainJob = RunComplete airCompletion json "nat option" | RunFailure NSError "nat option"

text \<open>
  \<open>ah_keepAlive\<close> names the object that sends keep-alive requests; \<open>ah_timers\<close> are the scheduled timers, each with the
  object it keeps and the URL of that. A scheduled timer retains its object.
\<close>

record AirPlayServiceHTTP =
  ah_sessionId :: "string option"
  ah_assetId :: "string option"
  ah_connected :: bool
  ah_reachability :: "Reachability option"
  ah_background :: bool
  ah_keepAlive :: "nat option"
  ah_timers :: "(nat \<times> string option) list"
  ah_made :: nat
  ah_network :: "networkJob list"
  ah_images :: "imageJob list"
  ah_main :: "mainJob list"

definition ah_initWithAirPlayService :: AirPlayServiceHTTP where
  "ah_initWithAirPlayService = \<lparr>ah_sessionId = None, ah_assetId = None, ah_connected = False, ah_reachability = None,
     ah_background = False, ah_keepAlive = None, ah_timers = [], ah_made = 0, ah_network = [], ah_images = [], ah_main = []\<rparr>"

text \<open>
  What surrounds it: the next random identifiers, the serialiser of property lists (an error that may be nil, or the
  data), the command URL of the service, and the objects that a launched media refers to.
\<close>

record airEnv =
  ae_guid :: string
  ae_serialize :: "jdict \<Rightarrow> NSError option + string"
  ae_commandURL :: "string option"
  ae_self :: sessionService
  ae_control :: capObject

datatype airOutput =
    AirRequest airRequest
  | AirReply nat capReply
  | AirFail nat NSError
  | NilBlockCalled
  | BeganBackground
  | EndedBackground
  | AirDelegate svcEvent

type_synonym airOp = "AirPlayServiceHTTP \<Rightarrow> (AirPlayServiceHTTP \<times> airOutput list) result"

definition airSuccess :: "nat option \<Rightarrow> capReply \<Rightarrow> airOutput list" where
  "airSuccess b r = (case b of None \<Rightarrow> [] | Some n \<Rightarrow> [AirReply n r])"

definition airFailure :: "nat option \<Rightarrow> NSError \<Rightarrow> airOutput list" where
  "airFailure b e = (case b of None \<Rightarrow> [] | Some n \<Rightarrow> [AirFail n e])"

section \<open>Connection\<close>

definition ah_connect :: "airEnv \<Rightarrow> DeviceService \<Rightarrow> bool \<Rightarrow> AirPlayServiceHTTP \<Rightarrow> AirPlayServiceHTTP \<times> airOutput list" where
  "ah_connect ae base serviceConnected s =
     (s\<lparr>ah_sessionId := Some (ae_guid ae), ah_connected := True,
        ah_reachability := Some (rea_start \<lparr>rea_running = False, rea_timer = False, rea_delegate = True\<rparr>)\<rparr>,
      if serviceConnected then map AirDelegate (svc_tell base SelConnectionSuccess ConnectionSuccess) else [])"

text \<open>The background task is ended in the queue of the requests, after those that wait there.\<close>

definition ah_disconnect :: "AirPlayServiceHTTP \<Rightarrow> AirPlayServiceHTTP" where
  "ah_disconnect s = s\<lparr>ah_sessionId := None,
     ah_network := (if ah_background s then ah_network s @ [EndBackgroundTask] else ah_network s),
     ah_reachability := map_option rea_stop (ah_reachability s), ah_connected := False\<rparr>"

text \<open>
  The service that owns it: disconnecting it in the media mode, and what a loss of the connection does, which asks the
  service to disconnect first and then disconnects once more.
\<close>

definition air_disconnect :: "DeviceService \<Rightarrow> AirPlayServiceHTTP \<Rightarrow> AirPlayServiceHTTP \<times> airOutput list" where
  "air_disconnect base s = (if ah_connected s then ah_disconnect s else s,
     map AirDelegate (svc_tell base SelDisconnected (DisconnectedWithError None)))"

definition ah_didLoseReachability :: "DeviceService \<Rightarrow> AirPlayServiceHTTP \<Rightarrow> AirPlayServiceHTTP \<times> airOutput list" where
  "ah_didLoseReachability base s =
     (if ah_connected s then (case air_disconnect base s of (s1, out) \<Rightarrow> (ah_disconnect s1, out))
      else (s\<lparr>ah_reachability := map_option rea_stop (ah_reachability s)\<rparr>, []))"

text \<open>What the service can do depends on the mode it was given for all services.\<close>

datatype AirPlayServiceMode = AirPlayServiceModeWebApp | AirPlayServiceModeMedia

fun air_capabilityList :: "AirPlayServiceMode \<Rightarrow> string list" where
  "air_capabilityList AirPlayServiceModeMedia = [''MediaPlayer.Display.Image'', ''MediaPlayer.Play.Video'', ''MediaPlayer.Play.Audio'',
     ''MediaPlayer.Close'', ''MediaPlayer.MetaData.MimeType'', ''MediaControl.Play'', ''MediaControl.Pause'', ''MediaControl.Stop'',
     ''MediaControl.Rewind'', ''MediaControl.FastForward'', ''MediaControl.PlayState'', ''MediaControl.Duration'',
     ''MediaControl.Position'', ''MediaControl.Seek'']"
| "air_capabilityList AirPlayServiceModeWebApp = [''WebAppLauncher.Launch'', ''WebAppLauncher.Message.Send'',
     ''WebAppLauncher.Message.Receive'', ''WebAppLauncher.Message.Send.JSON'', ''WebAppLauncher.Message.Receive.JSON'',
     ''WebAppLauncher.Close'', ''WebAppLauncher.Connect'', ''WebAppLauncher.Join'', ''WebAppLauncher.Disconnect'']"

definition air_updateCapabilities :: "AirPlayServiceMode \<Rightarrow> DeviceService \<Rightarrow> DeviceService \<times> svcEvent list" where
  "air_updateCapabilities mode = svc_setCapabilities (air_capabilityList mode)"

section \<open>Commands\<close>

definition contentOf :: "airEnv \<Rightarrow> airPayload \<Rightarrow> (NSError option) + (string \<times> string) option" where
  "contentOf ae payload = (case payload of
      TextPayload t \<Rightarrow> Inr (Some (t, ''text/parameters''))
    | PlistPayload d \<Rightarrow> (case ae_serialize ae d of Inl e \<Rightarrow> Inl e | Inr x \<Rightarrow> Inr (Some (x, ''application/x-apple-binary-plist'')))
    | DataPayload x \<Rightarrow> Inr (Some (x, ''image/jpeg''))
    | OtherPayload \<Rightarrow> Inr None)"

definition plistError :: "NSError option \<Rightarrow> NSError" where
  "plistError e = (case e of Some x \<Rightarrow> x
     | None \<Rightarrow> generateErrorWithCode ConnectStatusCodeError (Some ''Error occurred while parsing property list''))"

definition enqueueRequest :: "string \<Rightarrow> string option \<Rightarrow> (string \<times> string) option \<Rightarrow> airCompletion \<Rightarrow> nat option \<Rightarrow> nat option \<Rightarrow>
    AirPlayServiceHTTP \<Rightarrow> AirPlayServiceHTTP" where
  "enqueueRequest method target content completion success failure s =
     s\<lparr>ah_network := ah_network s @ [RunRequest
        \<lparr>ar_method = method, ar_url = target, ar_contentType = map_option snd content,
         ar_body = (case content of None \<Rightarrow> [] | Some (x, t) \<Rightarrow> x), ar_keepAlive = (content \<noteq> None),
         ar_sessionId = ah_sessionId s, ar_assetId = ah_assetId s\<rparr> completion success failure]\<rparr>"

text \<open>\<open>sendCommand:withPayload:toURL:\<close>, up to the request in the queue.\<close>

definition ah_sendCommand :: "airEnv \<Rightarrow> string \<Rightarrow> string option \<Rightarrow> airPayload option \<Rightarrow> airCompletion \<Rightarrow> nat option \<Rightarrow> nat option \<Rightarrow>
    AirPlayServiceHTTP \<Rightarrow> AirPlayServiceHTTP \<times> airOutput list" where
  "ah_sendCommand ae method target payload completion success failure s = (case payload of
      None \<Rightarrow> (enqueueRequest method target None completion success failure s, [])
    | Some p \<Rightarrow> (case contentOf ae p of
        Inl e \<Rightarrow> (s, airFailure failure (plistError e))
      | Inr None \<Rightarrow> (s, airFailure failure (generateErrorWithCode ConnectStatusCodeError (Some ''Unknown error preparing message to send'')))
      | Inr (Some c) \<Rightarrow> (enqueueRequest method target (Some c) completion success failure s, [])))"

definition appended :: "airEnv \<Rightarrow> string \<Rightarrow> string option" where
  "appended ae component = map_option (\<lambda>u. URLByAppendingPathComponent u component) (ae_commandURL ae)"

text \<open>A path written after the text of the command URL, which is \<open>(null)\<close> without one.\<close>

definition written_after :: "airEnv \<Rightarrow> string \<Rightarrow> string option" where
  "written_after ae path = URLWithString (formatObject (ae_commandURL ae) @ path)"

section \<open>Answers\<close>

text \<open>
  The answer to a request: another status than 200, data that is a property list or not, or none, since the connection
  failed, for which the request has no block. Data that is no property list is passed on as it is; here it is a string,
  which like \<open>NSData\<close> answers no key.
\<close>

datatype airAnswer = AirStatus int | AirData string | AirPlist json | AirNothing

definition statusError :: "int \<Rightarrow> NSError" where
  "statusError code = \<lparr>err_code = code, err_message = ''A generic error occured''\<rparr>"

definition hasCallback :: "airCompletion \<Rightarrow> nat option \<Rightarrow> bool" where
  "hasCallback completion success \<longleftrightarrow> completion \<noteq> AcResponse \<or> success \<noteq> None"

definition completeWith :: "airCompletion \<Rightarrow> json \<Rightarrow> nat option \<Rightarrow> mainJob list" where
  "completeWith completion object success = (if hasCallback completion success then [RunComplete completion object success] else [])"

definition answered :: "airAnswer \<Rightarrow> airCompletion \<Rightarrow> nat option \<Rightarrow> nat option \<Rightarrow> mainJob list" where
  "answered answer completion success failure = (case answer of
      AirStatus code \<Rightarrow> if failure \<noteq> None then [RunFailure (statusError code) failure] else []
    | AirData x \<Rightarrow> completeWith completion (JStr x) success
    | AirPlist j \<Rightarrow> completeWith completion j success
    | AirNothing \<Rightarrow> [])"

definition ah_networkStep :: "airAnswer \<Rightarrow> AirPlayServiceHTTP \<Rightarrow> AirPlayServiceHTTP \<times> airOutput list" where
  "ah_networkStep answer s = (case ah_network s of
      [] \<Rightarrow> (s, [])
    | EndBackgroundTask # jobs \<Rightarrow> (s\<lparr>ah_network := jobs, ah_background := False\<rparr>, [EndedBackground])
    | RunRequest request completion success failure # jobs \<Rightarrow>
        (s\<lparr>ah_network := jobs, ah_background := True, ah_main := ah_main s @ answered answer completion success failure\<rparr>,
         (if ah_background s then [] else [BeganBackground]) @ [AirRequest request]))"

section \<open>Keeping the connection alive\<close>

definition stopKeepAliveTimer :: "AirPlayServiceHTTP \<Rightarrow> AirPlayServiceHTTP" where
  "stopKeepAliveTimer s = (case ah_keepAlive s of
      None \<Rightarrow> s
    | Some n \<Rightarrow> s\<lparr>ah_keepAlive := None, ah_timers := filter (\<lambda>t. fst t \<noteq> n) (ah_timers s)\<rparr>)"

text \<open>A new object takes the place of the old one, whose timer still runs.\<close>

definition startKeepAliveTimer :: "airEnv \<Rightarrow> AirPlayServiceHTTP \<Rightarrow> AirPlayServiceHTTP" where
  "startKeepAliveTimer ae s = s\<lparr>ah_keepAlive := Some (ah_made s), ah_timers := ah_timers s @ [(ah_made s, ae_commandURL ae)],
     ah_made := ah_made s + 1\<rparr>"

definition ah_sendKeepAlive :: "airEnv \<Rightarrow> nat \<Rightarrow> airOp" where
  "ah_sendKeepAlive ae n s = (case map_of (ah_timers s) n of
      None \<Rightarrow> Inr (s, [])
    | Some None \<Rightarrow> Inl NSInternalInconsistencyException
    | Some (Some u) \<Rightarrow> Inr (ah_sendCommand ae ''GET'' (Some (URLByAppendingPathComponent u ''0'')) None AcKeepAlive None None s))"

section \<open>Completions\<close>

definition playbackState :: "json \<Rightarrow> MediaControlPlayState result" where
  "playbackState info = rbind (subscript info (Some ''rate'')) (\<lambda>rate. case rate of
      Some r \<Rightarrow> rbind (integerValue (Some r)) (\<lambda>n. Inr (if n = 0 then MediaControlPlayStatePaused else MediaControlPlayStatePlaying))
    | None \<Rightarrow> rbind (subscript info (Some ''readyToPlay'')) (\<lambda>ready. case ready of
        None \<Rightarrow> Inr MediaControlPlayStateUnknown
      | Some r \<Rightarrow> rbind (integerValue (Some r)) (\<lambda>n. Inr (if n = 0 then MediaControlPlayStateFinished else MediaControlPlayStateUnknown))))"

definition mediaSession :: "airEnv \<Rightarrow> string \<Rightarrow> AirPlayServiceHTTP \<Rightarrow> MediaLaunchObject" where
  "mediaSession ae component s = mlo_initWithLaunchSession (Some ((launchSessionForAppId (Some component))
     \<lparr>ls_sessionType := 3, ls_service := Some (ae_self ae), ls_sessionId := ah_sessionId s\<rparr>)) (Some (ae_control ae))"

text \<open>
  The success of a launch: the launch object, or its parts for the methods with single values, which call the block
  of the caller without testing that there is one.
\<close>

definition launchedMedia :: "bool \<Rightarrow> nat option \<Rightarrow> MediaLaunchObject \<Rightarrow> airOutput list" where
  "launchedMedia parts success launchObject =
     (if parts then (if success = None then [NilBlockCalled]
        else airSuccess success (MediaPlayerReplyC (MediaPlayerDisplayReply (mlo_session launchObject) (mlo_mediaControl launchObject))))
      else airSuccess success (MediaPlayerReplyC (MediaPlayerReply launchObject)))"

fun ah_complete :: "airEnv \<Rightarrow> airCompletion \<Rightarrow> json \<Rightarrow> nat option \<Rightarrow> airOp" where
  "ah_complete ae AcResponse object success s = Inr (s, airSuccess success (ResponseObject (Some object)))"
| "ah_complete ae AcDuration object success s = rbind (rbind (subscript object (Some ''duration'')) doubleValue) (\<lambda>d.
     Inr (s, airSuccess success (MediaControlReply (MediaDurationReply d))))"
| "ah_complete ae AcPosition object success s = rbind (rbind (subscript object (Some ''position'')) doubleValue) (\<lambda>p.
     Inr (s, airSuccess success (MediaControlReply (MediaPositionReply p))))"
| "ah_complete ae AcPlayState object success s = rbind (playbackState object) (\<lambda>p.
     Inr (s, airSuccess success (MediaControlReply (MediaPlayStateReply p))))"
| "ah_complete ae AcStop object success s =
     Inr (stopKeepAliveTimer (s\<lparr>ah_assetId := None\<rparr>), airSuccess success (ResponseObject (Some object)))"
| "ah_complete ae (AcPhoto parts) object success s = Inr (s, launchedMedia parts success (mediaSession ae ''photo'' s))"
| "ah_complete ae (AcPlay parts) object success s =
     Inr (startKeepAliveTimer ae s, launchedMedia parts success (mediaSession ae ''play'' s))"
| "ah_complete ae AcKeepAlive object success s = Inr (s, [])"

definition ah_mainStep :: "airEnv \<Rightarrow> airOp" where
  "ah_mainStep ae s = (case ah_main s of
      [] \<Rightarrow> Inr (s, [])
    | RunFailure e failure # jobs \<Rightarrow> Inr (s\<lparr>ah_main := jobs\<rparr>, airFailure failure e)
    | RunComplete completion object success # jobs \<Rightarrow> ah_complete ae completion object success (s\<lparr>ah_main := jobs\<rparr>))"

section \<open>Media player\<close>

definition ah_displayImage :: "airEnv \<Rightarrow> bool \<Rightarrow> MediaInfo option \<Rightarrow> nat option \<Rightarrow> nat option \<Rightarrow> AirPlayServiceHTTP \<Rightarrow> AirPlayServiceHTTP" where
  "ah_displayImage ae parts mediaInfo success failure s =
     s\<lparr>ah_assetId := Some (ae_guid ae), ah_images := ah_images s @ [\<lparr>ij_url = Option.bind mediaInfo mi_url,
        ij_target = appended ae ''photo'', ij_parts = parts, ij_success = success, ij_failure = failure\<rparr>]\<rparr>"

text \<open>
  What fetching the image gives, an error that may be nil or the data, and what UIKit makes of the data: no image, an
  image that has no JPEG form, or its JPEG form. An image named as JPEG is sent as it is.
\<close>

definition processedImage :: "string option \<Rightarrow> NSError option + string \<Rightarrow> string option option \<Rightarrow> NSError + string" where
  "processedImage url download picture = (case download of
      Inl e \<Rightarrow> Inl (case e of Some x \<Rightarrow> x
        | None \<Rightarrow> generateErrorWithCode ConnectStatusCodeError (Some ''Could not download requested image''))
    | Inr data \<Rightarrow>
        if (case url of None \<Rightarrow> False | Some u \<Rightarrow> hasSuffix u ''jpg'' \<or> hasSuffix u ''jpeg'') then Inr data
        else (case picture of
            None \<Rightarrow> Inl (generateErrorWithCode ConnectStatusCodeError (Some ''Could not convert downloaded data to a suitable image format''))
          | Some None \<Rightarrow> Inl (generateErrorWithCode ConnectStatusCodeError (Some ''Could not convert downloaded image to JPEG format''))
          | Some (Some jpeg) \<Rightarrow> Inr jpeg))"

definition ah_imageStep :: "airEnv \<Rightarrow> NSError option + string \<Rightarrow> string option option \<Rightarrow> AirPlayServiceHTTP \<Rightarrow>
    AirPlayServiceHTTP \<times> airOutput list" where
  "ah_imageStep ae download picture s = (case ah_images s of
      [] \<Rightarrow> (s, [])
    | j # js \<Rightarrow> (let s1 = s\<lparr>ah_images := js\<rparr> in case processedImage (ij_url j) download picture of
          Inl e \<Rightarrow> (if ij_failure j = None then s1 else s1\<lparr>ah_main := ah_main s1 @ [RunFailure e (ij_failure j)]\<rparr>, [])
        | Inr jpeg \<Rightarrow> ah_sendCommand ae ''PUT'' (ij_target j) (Some (DataPayload jpeg)) (AcPhoto (ij_parts j)) (ij_success j) (ij_failure j) s1))"

text \<open>Setting nil for a key removes it.\<close>

definition playPlist :: "MediaInfo option \<Rightarrow> jdict" where
  "playPlist mediaInfo = setIfPresent (map_option JStr (Option.bind mediaInfo mi_url)) ''Content-Location'' [] @ [(''Start-Position'', JNum 0)]"

definition ah_playMedia :: "airEnv \<Rightarrow> bool \<Rightarrow> MediaInfo option \<Rightarrow> nat option \<Rightarrow> nat option \<Rightarrow> AirPlayServiceHTTP \<Rightarrow>
    AirPlayServiceHTTP \<times> airOutput list" where
  "ah_playMedia ae parts mediaInfo success failure s0 =
     (let s = s0\<lparr>ah_assetId := Some (ae_guid ae)\<rparr>; plist = playPlist mediaInfo in
      case ae_serialize ae plist of
        Inl e \<Rightarrow> (s, airFailure failure (plistError e))
      | Inr x \<Rightarrow> ah_sendCommand ae ''POST'' (appended ae ''play'') (Some (PlistPayload plist)) (AcPlay parts) success failure s)"

definition ah_stop :: "airEnv \<Rightarrow> nat option \<Rightarrow> nat option \<Rightarrow> AirPlayServiceHTTP \<Rightarrow> AirPlayServiceHTTP \<times> airOutput list" where
  "ah_stop ae = ah_sendCommand ae ''POST'' (appended ae ''stop'') None AcStop"

definition mediaAgain :: "MediaInfo option \<Rightarrow> MediaInfo result" where
  "mediaAgain mediaInfo = (let i = mediaOrNil mediaInfo in
     mediaFromURL (mi_url i) (firstImageURL i) (mi_title i) (mi_description i) (mi_mimeType i))"

fun ah_mediaPlayer :: "airEnv \<Rightarrow> mediaPlayerMsg \<Rightarrow> nat option \<Rightarrow> nat option \<Rightarrow> airOp" where
  "ah_mediaPlayer ae (DisplayImageWithMediaInfo m) b f s = Inr (ah_displayImage ae False m b f s, [])"
| "ah_mediaPlayer ae (PlayMediaWithMediaInfo m shouldLoop) b f s = Inr (ah_playMedia ae False m b f s)"
| "ah_mediaPlayer ae (CloseMediaMsg launchSession) b f s = Inr (ah_stop ae b f s)"
| "ah_mediaPlayer ae (DisplayImageURL u i t d m) b f s = rbind (mediaFromURL u i t d m) (\<lambda>mediaInfo.
     Inr (ah_displayImage ae True (Some mediaInfo) b f s, []))"
| "ah_mediaPlayer ae (DisplayImageInfo m) b f s = rbind (mediaAgain m) (\<lambda>mediaInfo.
     Inr (ah_displayImage ae True (Some mediaInfo) b f s, []))"
| "ah_mediaPlayer ae (PlayMediaURL u i t d m shouldLoop) b f s = rbind (mediaFromURL u i t d m) (\<lambda>mediaInfo.
     Inr (ah_playMedia ae True (Some mediaInfo) b f s))"
| "ah_mediaPlayer ae (PlayMediaInfo m shouldLoop) b f s = rbind (mediaAgain m) (\<lambda>mediaInfo.
     Inr (ah_playMedia ae True (Some mediaInfo) b f s))"

section \<open>Media control\<close>

text \<open>The format \<open>%.06f\<close>: six digits after the point, ties to the even digit.\<close>

definition roundTiesEven :: "real \<Rightarrow> int" where
  "roundTiesEven x = (let n = \<lfloor>x\<rfloor>; r = x - real_of_int n in
     if r < 1 / 2 \<or> (r = 1 / 2 \<and> even n) then n else n + 1)"

definition padded :: "nat \<Rightarrow> string \<Rightarrow> string" where
  "padded n s = replicate (n - length s) (CHR ''0'') @ s"

definition fixed6 :: "real \<Rightarrow> string" where
  "fixed6 x = (let n = nat (roundTiesEven (\<bar>x\<bar> * 10 ^ 6)) in
     (if x < 0 then ''-'' else []) @ show_nat (n div 10 ^ 6) @ ''.'' @ padded 6 (show_nat (n mod 10 ^ 6)))"

definition setRate :: "airEnv \<Rightarrow> string \<Rightarrow> nat option \<Rightarrow> nat option \<Rightarrow> airOp" where
  "setRate ae value b f s = Inr (ah_sendCommand ae ''POST'' (written_after ae (''rate?value='' @ value)) None AcResponse b f s)"

definition playbackInfo :: "airEnv \<Rightarrow> airCompletion \<Rightarrow> nat option \<Rightarrow> nat option \<Rightarrow> airOp" where
  "playbackInfo ae completion b f s = Inr (ah_sendCommand ae ''GET'' (appended ae ''playback-info'') None completion b f s)"

definition notSupported :: "nat option \<Rightarrow> airOp" where
  "notSupported f s = Inr (s, airFailure f (generateErrorWithCode ConnectStatusCodeNotSupported None))"

fun ah_mediaControl :: "airEnv \<Rightarrow> mediaControlMsg \<Rightarrow> nat option \<Rightarrow> nat option \<Rightarrow> airOp" where
  "ah_mediaControl ae MediaPlay b f = setRate ae ''1.000000'' b f"
| "ah_mediaControl ae MediaPause b f = setRate ae ''0.000000'' b f"
| "ah_mediaControl ae MediaStop b f = (\<lambda>s. Inr (ah_stop ae b f s))"
| "ah_mediaControl ae MediaRewind b f = setRate ae ''-2.000000'' b f"
| "ah_mediaControl ae MediaFastForward b f = setRate ae ''2.000000'' b f"
| "ah_mediaControl ae GetDuration b f = playbackInfo ae AcDuration b f"
| "ah_mediaControl ae GetPosition b f = playbackInfo ae AcPosition b f"
| "ah_mediaControl ae GetPlayState b f = playbackInfo ae AcPlayState b f"
| "ah_mediaControl ae (MediaSeek position) b f = (\<lambda>s. Inr (ah_sendCommand ae ''POST''
     (written_after ae (''scrub?position='' @ fixed6 position)) None AcResponse b f s))"
| "ah_mediaControl ae SubscribePlayState b f = notSupported f"
| "ah_mediaControl ae SubscribeMediaInfo b f = notSupported f"
| "ah_mediaControl ae GetMediaMetaData b f = notSupported f"

definition ah_playList :: "playListControlMsg \<Rightarrow> nat option \<Rightarrow> airOp" where
  "ah_playList m f = notSupported f"

section \<open>Runs\<close>

datatype airCall =
    AhConnect | AhDisconnect | AhLoseReachability
  | AhMediaPlayer mediaPlayerMsg "nat option" "nat option"
  | AhMediaControl mediaControlMsg "nat option" "nat option"
  | AhPlayList playListControlMsg "nat option"
  | AhNetwork airAnswer
  | AhImage "NSError option + string" "string option option"
  | AhMain
  | AhTimer nat

fun ah_perform :: "airEnv \<Rightarrow> DeviceService \<Rightarrow> bool \<Rightarrow> airCall \<Rightarrow> airOp" where
  "ah_perform ae base c AhConnect s = Inr (ah_connect ae base c s)"
| "ah_perform ae base c AhDisconnect s = Inr (air_disconnect base s)"
| "ah_perform ae base c AhLoseReachability s = Inr (ah_didLoseReachability base s)"
| "ah_perform ae base c (AhMediaPlayer m b f) s = ah_mediaPlayer ae m b f s"
| "ah_perform ae base c (AhMediaControl m b f) s = ah_mediaControl ae m b f s"
| "ah_perform ae base c (AhPlayList m f) s = ah_playList m f s"
| "ah_perform ae base c (AhNetwork answer) s = Inr (ah_networkStep answer s)"
| "ah_perform ae base c (AhImage download picture) s = Inr (ah_imageStep ae download picture s)"
| "ah_perform ae base c AhMain s = ah_mainStep ae s"
| "ah_perform ae base c (AhTimer n) s = ah_sendKeepAlive ae n s"

text \<open>A run: the steps, each with the surroundings at that time, from a state, with all that is sent and reported.\<close>

inductive ah_run :: "AirPlayServiceHTTP \<Rightarrow> airCall list \<Rightarrow> airOutput list \<Rightarrow> AirPlayServiceHTTP \<Rightarrow> bool" where
  ah_run_start: "ah_run s [] [] s"
| ah_run_step: "ah_run s cs out s1 \<Longrightarrow> ah_perform ae base on c s1 = Inr (s2, o2) \<Longrightarrow> ah_run s (cs @ [c]) (out @ o2) s2"

section \<open>Calls are answered once\<close>

text \<open>How often the block \<open>n\<close> was given to a message, waits in a queue, and was called.\<close>

definition has :: "nat \<Rightarrow> nat option \<Rightarrow> nat option \<Rightarrow> nat" where
  "has n b f = (if b = Some n \<or> f = Some n then 1 else 0)"

fun given :: "nat \<Rightarrow> airCall \<Rightarrow> nat" where
  "given n (AhMediaPlayer m b f) = has n b f"
| "given n (AhMediaControl m b f) = has n b f"
| "given n (AhPlayList m f) = has n f f"
| "given n c = 0"

fun networkWaits :: "nat \<Rightarrow> networkJob \<Rightarrow> nat" where
  "networkWaits n (RunRequest r c b f) = has n b f"
| "networkWaits n EndBackgroundTask = 0"

definition imageWaits :: "nat \<Rightarrow> imageJob \<Rightarrow> nat" where
  "imageWaits n j = has n (ij_success j) (ij_failure j)"

fun mainWaits :: "nat \<Rightarrow> mainJob \<Rightarrow> nat" where
  "mainWaits n (RunComplete c object b) = has n b b"
| "mainWaits n (RunFailure e f) = has n f f"

fun called :: "nat \<Rightarrow> airOutput \<Rightarrow> nat" where
  "called n (AirReply m r) = (if m = n then 1 else 0)"
| "called n (AirFail m e) = (if m = n then 1 else 0)"
| "called n x = 0"

definition waiting :: "nat \<Rightarrow> AirPlayServiceHTTP \<Rightarrow> nat" where
  "waiting n s = sum_list (map (networkWaits n) (ah_network s)) + sum_list (map (imageWaits n) (ah_images s))
     + sum_list (map (mainWaits n) (ah_main s))"

definition callsOf :: "nat \<Rightarrow> airOutput list \<Rightarrow> nat" where
  "callsOf n out = sum_list (map (called n) out)"

lemma callsOf_simps [simp]: "callsOf n [] = 0" "callsOf n (x # xs) = called n x + callsOf n xs" "callsOf n (xs @ ys) = callsOf n xs + callsOf n ys"
  "callsOf n (airSuccess b r) = has n b b" "callsOf n (airFailure b e) = has n b b" "callsOf n (map AirDelegate es) = 0"
  by (auto simp: callsOf_def airSuccess_def airFailure_def has_def split: option.split if_splits intro!: sum_list_0 cong: map_cong)

lemma has_simps [simp]: "has n None None = 0" "has n f f \<le> has n b f" "has n b b \<le> has n b f"
  by (simp_all add: has_def)

lemma waiting_send: "waiting n (fst (ah_sendCommand ae m t p c b f s)) + callsOf n (snd (ah_sendCommand ae m t p c b f s))
    \<le> waiting n s + has n b f"
  by (simp add: ah_sendCommand_def enqueueRequest_def waiting_def split: option.split sum.split)

lemma waiting_updates [simp]: "waiting n (s\<lparr>ah_assetId := x\<rparr>) = waiting n s" "waiting n (stopKeepAliveTimer s) = waiting n s"
  "waiting n (startKeepAliveTimer ae s) = waiting n s"
  by (simp_all add: waiting_def stopKeepAliveTimer_def startKeepAliveTimer_def split: option.split)

lemma waiting_connection [simp]: "waiting n (fst (ah_connect ae base c s)) = waiting n s" "waiting n (ah_disconnect s) = waiting n s"
  "callsOf n (snd (ah_connect ae base c s)) = 0" "waiting n (s\<lparr>ah_reachability := r\<rparr>) = waiting n s"
  by (simp_all add: ah_connect_def ah_disconnect_def waiting_def)

lemma answered_waits: "sum_list (map (mainWaits n) (answered a c b f)) \<le> has n b f"
  by (auto simp: answered_def completeWith_def has_def split: airAnswer.split)

lemma waiting_network:
  "waiting n (fst (ah_networkStep a s)) + callsOf n (snd (ah_networkStep a s)) \<le> waiting n s"
proof (cases "ah_network s")
  case (Cons j js)
  then show ?thesis
  proof (cases j)
    case (RunRequest r c b f)
    with Cons answered_waits [of n a c b f] show ?thesis by (simp add: ah_networkStep_def waiting_def)
  qed (simp add: ah_networkStep_def waiting_def)
qed (simp add: ah_networkStep_def)

lemma launchedMedia_calls: "callsOf n (launchedMedia parts b l) \<le> has n b b"
  by (simp add: launchedMedia_def)

lemma waiting_complete: "ah_complete ae c object b s = Inr (s', out) \<Longrightarrow> waiting n s' + callsOf n out \<le> waiting n s + has n b b"
  using launchedMedia_calls [of n] by (cases c) (auto simp: rbind_Inr_iff)

lemma waiting_main: "ah_mainStep ae s = Inr (s', out) \<Longrightarrow> waiting n s' + callsOf n out \<le> waiting n s"
proof (cases "ah_main s")
  case (Cons j js)
  assume step: "ah_mainStep ae s = Inr (s', out)"
  show ?thesis
  proof (cases j)
    case (RunComplete c object b)
    with Cons step have "ah_complete ae c object b (s\<lparr>ah_main := js\<rparr>) = Inr (s', out)" by (simp add: ah_mainStep_def)
    from waiting_complete [OF this, of n] Cons RunComplete show ?thesis by (simp add: waiting_def)
  next
    case (RunFailure e f)
    with Cons step show ?thesis by (auto simp: ah_mainStep_def waiting_def)
  qed
qed (simp add: ah_mainStep_def)

lemma waiting_image: "waiting n (fst (ah_imageStep ae d p s)) + callsOf n (snd (ah_imageStep ae d p s)) \<le> waiting n s"
proof (cases "ah_images s")
  case (Cons j js)
  then have w: "waiting n s = waiting n (s\<lparr>ah_images := js\<rparr>) + has n (ij_success j) (ij_failure j)"
    by (simp add: waiting_def imageWaits_def)
  show ?thesis
  proof (cases "processedImage (ij_url j) d p")
    case (Inl e)
    with Cons show ?thesis by (auto simp: ah_imageStep_def waiting_def imageWaits_def has_def Let_def)
  next
    case (Inr jpeg)
    with Cons w waiting_send [of n ae "''PUT''" "ij_target j" "Some (DataPayload jpeg)" "AcPhoto (ij_parts j)"
        "ij_success j" "ij_failure j" "s\<lparr>ah_images := js\<rparr>"] show ?thesis by (simp add: ah_imageStep_def Let_def)
  qed
qed (simp add: ah_imageStep_def)

lemma waiting_stop: "waiting n (fst (ah_stop ae b f s)) + callsOf n (snd (ah_stop ae b f s)) \<le> waiting n s + has n b f"
  unfolding ah_stop_def by (rule waiting_send)

lemma waiting_play: "waiting n (fst (ah_playMedia ae parts m b f s)) + callsOf n (snd (ah_playMedia ae parts m b f s)) \<le> waiting n s + has n b f"
  using waiting_send [of n ae _ _ _ _ b f "s\<lparr>ah_assetId := Some (ae_guid ae)\<rparr>"]
  by (auto simp: ah_playMedia_def Let_def split: sum.split)

lemma waiting_display: "waiting n (ah_displayImage ae parts m b f s) = waiting n s + has n b f"
  by (simp add: ah_displayImage_def waiting_def imageWaits_def)

lemma waiting_perform:
  assumes "ah_perform ae base on c s = Inr (s', out)"
  shows "waiting n s' + callsOf n out \<le> waiting n s + given n c"
proof (cases c)
  case (AhMediaPlayer m b f)
  with assms waiting_display [of n] waiting_play [of n] waiting_stop [of n] show ?thesis
    by (cases m) (auto simp: rbind_Inr_iff, (metis fst_conv snd_conv)+)
next
  case (AhMediaControl m b f)
  with assms waiting_send [of n ae _ _ _ _ b f s] waiting_stop [of n ae b f s] show ?thesis
    by (cases m) (auto simp: setRate_def playbackInfo_def notSupported_def, (metis fst_conv snd_conv)+)
next
  case (AhNetwork a)
  with assms waiting_network [of n a s] show ?thesis by auto
next
  case (AhImage d p)
  with assms waiting_image [of n ae d p s] show ?thesis by auto
next
  case AhMain
  with assms waiting_main [of ae s s' out n] show ?thesis by simp
next
  case (AhTimer i)
  with assms waiting_send [of n ae _ _ _ _ None None s] show ?thesis
    by (auto simp: ah_sendKeepAlive_def split: option.splits) (metis fst_conv snd_conv add_0_right has_simps(1))+
next
  case AhConnect
  with assms waiting_connection(1) [of n ae base on s] waiting_connection(3) [of n ae base on s] show ?thesis by auto
qed (use assms in \<open>auto simp: ah_playList_def notSupported_def air_disconnect_def ah_didLoseReachability_def split: if_splits\<close>)

text \<open>
  Whatever happens between the application, the device and the queues, the blocks a message was given are called at
  most as often as they were given: a call is answered at most once, with a success or a failure, and a call that still
  waits in a queue was not answered.
\<close>
theorem ah_calls_answered_once:
  assumes "ah_run ah_initWithAirPlayService cs out s"
  shows "callsOf n out + waiting n s \<le> sum_list (map (given n) cs)"
proof -
  have "callsOf n out + waiting n s \<le> waiting n s0 + sum_list (map (given n) cs)" if "ah_run s0 cs out s" for s0
    using that
  proof (induction rule: ah_run.induct)
    case (ah_run_step s cs out s1 ae base on c s2 o2)
    with waiting_perform [OF ah_run_step.hyps(2), of n] show ?case by simp
  qed simp
  from this [OF assms] show ?thesis by (simp add: waiting_def ah_initWithAirPlayService_def)
qed

definition exampleAir :: airEnv where
  "exampleAir = \<lparr>ae_guid = ''guid'', ae_serialize = (\<lambda>d. Inr ''plist''), ae_commandURL = Some ''http://10.0.0.9:7000/'',
     ae_self = \<lparr>ss_serviceName = Some ''AirPlay'', ss_conforms = []\<rparr>,
     ae_control = \<lparr>co_name = ''AirPlay'', co_priority = (\<lambda>a. CapabilityPriorityLevelHigh)\<rparr>\<rparr>"

theorem ah_calls_answered_once_witness:
  "\<exists>out s. ah_run ah_initWithAirPlayService [AhMediaControl MediaPause (Some 7) (Some 7), AhNetwork (AirPlist (JObj [])), AhMain] out s
     \<and> AirReply 7 (ResponseObject (Some (JObj []))) \<in> set out \<and> callsOf 7 out + waiting 7 s \<le> 1"
proof -
  obtain s1 o1 where 1: "ah_perform exampleAir (svc_initWithServiceConfig DeviceService_class None) True (AhMediaControl MediaPause (Some 7) (Some 7)) ah_initWithAirPlayService = Inr (s1, o1)"
    by (simp add: setRate_def ah_sendCommand_def)
  have s1: "s1 = fst (ah_sendCommand exampleAir ''POST'' (written_after exampleAir ''rate?value=0.000000'') None AcResponse (Some 7) (Some 7)
      ah_initWithAirPlayService)" using 1 by (simp add: setRate_def)
  obtain s2 o2 where 2: "ah_perform exampleAir (svc_initWithServiceConfig DeviceService_class None) True (AhNetwork (AirPlist (JObj []))) s1 = Inr (s2, o2)"
    by (cases "ah_networkStep (AirPlist (JObj [])) s1") simp
  have main: "ah_main s2 = [RunComplete AcResponse (JObj []) (Some 7)]"
    using 2 by (auto simp: s1 ah_sendCommand_def enqueueRequest_def ah_networkStep_def answered_def completeWith_def hasCallback_def
        ah_initWithAirPlayService_def)
  obtain s3 o3 where 3: "ah_perform exampleAir (svc_initWithServiceConfig DeviceService_class None) True AhMain s2 = Inr (s3, o3)" "o3 = [AirReply 7 (ResponseObject (Some (JObj [])))]"
    using main by (simp add: ah_mainStep_def airSuccess_def)
  have "ah_run ah_initWithAirPlayService ((([] @ [AhMediaControl MediaPause (Some 7) (Some 7)]) @ [AhNetwork (AirPlist (JObj []))]) @ [AhMain])
      ((([] @ o1) @ o2) @ o3) s3" by (intro ah_run_step [OF _ 3(1)] ah_run_step [OF _ 2] ah_run_step [OF _ 1] ah_run_start)
  then have run: "ah_run ah_initWithAirPlayService [AhMediaControl MediaPause (Some 7) (Some 7), AhNetwork (AirPlist (JObj [])), AhMain]
      (o1 @ o2 @ o3) s3" by simp
  from ah_calls_answered_once [OF run, of 7] run 3(2) show ?thesis by (auto simp: has_def intro!: exI [of _ "o1 @ o2 @ o3"] exI [of _ s3])
qed

section \<open>Timers\<close>

text \<open>Objects are numbered in order, and the current one runs a timer.\<close>

definition timers_inv :: "AirPlayServiceHTTP \<Rightarrow> bool" where
  "timers_inv s \<longleftrightarrow> distinct (map fst (ah_timers s)) \<and> (\<forall>t \<in> set (ah_timers s). fst t < ah_made s) \<and>
     (\<forall>n. ah_keepAlive s = Some n \<longrightarrow> n < ah_made s \<and> n \<in> fst ` set (ah_timers s))"

definition sameTimers :: "AirPlayServiceHTTP \<Rightarrow> AirPlayServiceHTTP \<Rightarrow> bool" where
  "sameTimers s s' \<longleftrightarrow> ah_timers s' = ah_timers s \<and> ah_keepAlive s' = ah_keepAlive s \<and> ah_made s' = ah_made s"

lemma sameTimers_send [simp]: "sameTimers s (fst (ah_sendCommand ae m t p c b f s))"
  by (simp add: sameTimers_def ah_sendCommand_def enqueueRequest_def split: option.split sum.split)

text \<open>What a step does to the timers: nothing, or it stops the current one or adds a new one.\<close>

definition timerStep :: "AirPlayServiceHTTP \<Rightarrow> AirPlayServiceHTTP \<Rightarrow> bool" where
  "timerStep s s' \<longleftrightarrow> sameTimers s s' \<or> sameTimers (stopKeepAliveTimer s) s' \<or> (\<exists>ae. sameTimers (startKeepAliveTimer ae s) s')"

lemma timerStep_same [simp]: "sameTimers s s' \<Longrightarrow> timerStep s s'"
  by (simp add: timerStep_def)

lemma complete_timers:
  assumes "ah_complete ae c object b s0 = Inr (s', out)" "sameTimers s s0"
  shows "timerStep s s'"
proof -
  have "sameTimers (stopKeepAliveTimer s) (stopKeepAliveTimer (s0\<lparr>ah_assetId := None\<rparr>))"
    "sameTimers (startKeepAliveTimer ae s) (startKeepAliveTimer ae s0)"
    using assms(2) by (simp_all add: sameTimers_def stopKeepAliveTimer_def startKeepAliveTimer_def split: option.split)
  with assms show ?thesis by (cases c) (auto simp: timerStep_def rbind_Inr_iff)
qed

lemma sameTimers_updates [simp]: "sameTimers s (s\<lparr>ah_main := x\<rparr>)" "sameTimers s (fst (ah_networkStep a s))"
  "sameTimers s (fst (ah_connect ae base on s))" "sameTimers s (ah_disconnect s)" "sameTimers s (ah_displayImage ae parts m b f s)"
  "sameTimers s (fst (ah_imageStep ae d p s))" "sameTimers s (fst (ah_playMedia ae parts m b f s))" "sameTimers s s"
  "sameTimers s (fst (ah_stop ae b f s))"
  by (auto simp: sameTimers_def ah_networkStep_def ah_connect_def ah_disconnect_def ah_displayImage_def ah_imageStep_def ah_playMedia_def
      ah_sendCommand_def enqueueRequest_def ah_stop_def Let_def split: option.split sum.split list.split networkJob.split)

lemma sameTimersD: "ah_sendCommand ae m t p c b f s = (s', out) \<Longrightarrow> sameTimers s s'"
  "ah_playMedia ae parts i b f s = (s', out) \<Longrightarrow> sameTimers s s'" "ah_stop ae b f s = (s', out) \<Longrightarrow> sameTimers s s'"
  "ah_networkStep a s = (s', out) \<Longrightarrow> sameTimers s s'" "ah_imageStep ae d q s = (s', out) \<Longrightarrow> sameTimers s s'"
  "ah_connect ae base on s = (s', out) \<Longrightarrow> sameTimers s s'"
  by (metis fst_conv sameTimers_send sameTimers_updates)+

lemma sameTimers_disconnect: "air_disconnect base s = (s', out) \<Longrightarrow> sameTimers s s'"
  "ah_didLoseReachability base s = (s', out) \<Longrightarrow> sameTimers s s'"
  by (auto simp: air_disconnect_def ah_didLoseReachability_def ah_disconnect_def sameTimers_def split: if_splits)

lemma perform_timers:
  assumes "ah_perform ae base on c s = Inr (s', out)"
  shows "timerStep s s'"
proof (cases c)
  case (AhMediaPlayer m b f)
  with assms show ?thesis by (cases m) (auto simp: rbind_Inr_iff dest: sameTimersD)
next
  case (AhMediaControl m b f)
  with assms show ?thesis
    by (cases m) (auto simp: setRate_def playbackInfo_def notSupported_def dest: sameTimersD)
next
  case AhMain
  with assms show ?thesis by (auto simp: ah_mainStep_def complete_timers split: list.splits mainJob.splits)
qed (use assms in \<open>auto simp: ah_playList_def notSupported_def ah_sendKeepAlive_def split: option.splits dest: sameTimersD sameTimers_disconnect\<close>)

lemma sameTimers_inv: "timers_inv s \<Longrightarrow> sameTimers s s' \<Longrightarrow> timers_inv s'"
  by (simp add: timers_inv_def sameTimers_def)

lemma stop_timers_inv: "timers_inv s \<Longrightarrow> timers_inv (stopKeepAliveTimer s)"
  by (auto simp: timers_inv_def stopKeepAliveTimer_def distinct_map inj_on_def split: option.split)

lemma start_timers_inv: "timers_inv s \<Longrightarrow> timers_inv (startKeepAliveTimer ae s)"
  by (force simp: timers_inv_def startKeepAliveTimer_def)

lemma timerStep_inv: "timers_inv s \<Longrightarrow> timerStep s s' \<Longrightarrow> timers_inv s'"
  unfolding timerStep_def by (blast intro: sameTimers_inv stop_timers_inv start_timers_inv)

lemma ah_run_timers: "ah_run s cs out s' \<Longrightarrow> timers_inv s \<Longrightarrow> timers_inv s'"
  by (induction rule: ah_run.induct) (use perform_timers timerStep_inv in blast)+

text \<open>
  Media that starts while other media is kept alive gets an object of its own; the timer of the other one is not
  stopped then, and nothing stops it later: not the end of the media, not closing the connection.
\<close>
lemma replaced_timer_never_stops:
  assumes "ah_run ah_initWithAirPlayService cs out s" "ah_run s cs' out' s'"
    and "(n, u) \<in> set (ah_timers s)" "ah_keepAlive s \<noteq> Some n"
  shows "(n, u) \<in> set (ah_timers s')"
proof -
  have inv: "timers_inv s" using ah_run_timers [OF assms(1)] by (simp add: timers_inv_def ah_initWithAirPlayService_def)
  have "timers_inv s' \<and> (n, u) \<in> set (ah_timers s') \<and> ah_keepAlive s' \<noteq> Some n"
    using assms(2,3,4) inv
  proof (induction rule: ah_run.induct)
    case (ah_run_step s cs out s1 ae base on c s2 o2)
    then have IH: "timers_inv s1" "(n, u) \<in> set (ah_timers s1)" "ah_keepAlive s1 \<noteq> Some n" by auto
    have step: "timerStep s1 s2" by (rule perform_timers [OF ah_run_step.hyps(2)])
    with IH have "(n, u) \<in> set (ah_timers s2) \<and> ah_keepAlive s2 \<noteq> Some n"
      by (auto simp: timerStep_def sameTimers_def stopKeepAliveTimer_def startKeepAliveTimer_def timers_inv_def split: option.splits)
    with timerStep_inv [OF IH(1) step] show ?case by blast
  qed auto
  then show ?thesis by blast
qed

end
