(* ===== verification/CastConnection.thy ===== *)
theory CastConnection
  imports Protocols
begin

text \<open>
  \<open>src/Services/Helpers/LGCast/ConnectionManager\<close> and \<open>WebOSTVService+LGCast\<close>: the connection over which screen
  mirroring and the remote camera talk to a TV. It connects the device, subscribes to the commands of the TV,
  exchanges parameters and keeps the session alive. Devices and services are references; \<open>keys\<close> gives the client
  key a service holds at the time of the call.
\<close>

section \<open>Data\<close>

datatype ConnectionState =
    kConnectionStateNone | kConnectionStateConnecting | kConnectionStateConnected | kConnectionStateDisconnecting

datatype ConnectionError =
    kConnectionErrorUnknown | kConnectionErrorConnectionClosed | kConnectionErrorDeviceShutdown
  | kConnectionErrorRendererTerminated

datatype ServiceType = kServiceTypeScreenMirroring | kServiceTypeRemoteCamera

text \<open>\<open>ConnectionManagerDelegate\<close>, and the two services that implement it.\<close>

datatype cmEvent =
    OnPairingRequested
  | OnPairingRejected
  | OnConnectionFailed string
  | OnConnectionCompleted jdict
  | OnReceivePlayCommand jdict
  | OnReceiveStopCommand jdict
  | OnReceiveGetParameter jdict
  | OnReceiveSetParameter jdict
  | OnError ConnectionError string

datatype castClient = MirroringClient | CameraClient

text \<open>What the blocks of a command that was sent do: the kind of the command decides it.\<close>

datatype castPending =
    PendingConnect | PendingGetParameter | PendingSource | PendingSetParameter bool | PendingNothing

datatype cmOutput =
    CmTell castClient cmEvent
  | CmSend castPending jdict
  | CmSubscribeCommand | CmSubscribePowerState
  | CmUnsubscribeCommand | CmUnsubscribePowerState
  | CmConnectDevice nat
  | CmDisconnectDevice nat

record ConnectionManager =
  cm_delegate :: "castClient option"
  cm_serviceName :: "string option"
  cm_currentState :: ConnectionState
  cm_tvDevice :: "nat option"
  cm_service :: "nat option"
  cm_commandSubscription :: bool
  cm_powerStateSubscription :: bool
  cm_keepAliveTimer :: bool

definition cm_sharedInstance :: ConnectionManager where
  "cm_sharedInstance = \<lparr>cm_delegate = None, cm_serviceName = None, cm_currentState = kConnectionStateNone,
     cm_tvDevice = None, cm_service = None, cm_commandSubscription = False, cm_powerStateSubscription = False,
     cm_keepAliveTimer = False\<rparr>"

type_synonym cmOp = "ConnectionManager \<Rightarrow> ConnectionManager \<times> cmOutput list"

definition cm_then :: "cmOp \<Rightarrow> cmOp \<Rightarrow> cmOp" where
  "cm_then f g m = (case f m of (m1, out1) \<Rightarrow> case g m1 of (m2, out2) \<Rightarrow> (m2, out1 @ out2))"

definition cm_quiet :: cmOp where
  "cm_quiet m = (m, [])"

definition serviceTypeName :: "ServiceType \<Rightarrow> string" where
  "serviceTypeName type = (if type = kServiceTypeScreenMirroring then ''mirroring'' else ''camera'')"

definition sameIgnoringCase :: "string \<Rightarrow> string \<Rightarrow> bool" where
  "sameIgnoringCase a b \<longleftrightarrow> lowercaseString a = lowercaseString b"

section \<open>Commands to the TV\<close>

text \<open>Without a client key the command is dropped, and neither of its blocks ever runs.\<close>

definition sendCommandWithService ::
  "(nat \<Rightarrow> string option) \<Rightarrow> castPending \<Rightarrow> string \<Rightarrow> jdict \<Rightarrow> cmOp" where
  "sendCommandWithService keys pending command parameter m =
     (m, case (Option.bind (cm_service m) keys, cm_serviceName m) of
           (Some key, Some name) \<Rightarrow>
             [CmSend pending (fold (\<lambda>(k, v) d. setObject v k d) parameter
               [(''cmd'', JStr command), (''clientKey'', JStr key), (''service'', JStr name)])]
         | _ \<Rightarrow> [])"

definition nameParam :: "ConnectionManager \<Rightarrow> jdict \<Rightarrow> jdict" where
  "nameParam m values = (case cm_serviceName m of None \<Rightarrow> [] | Some name \<Rightarrow> [(name, JObj values)])"

definition sendConnect :: "(nat \<Rightarrow> string option) \<Rightarrow> cmOp" where
  "sendConnect keys = sendCommandWithService keys PendingConnect ''CONNECT'' []"

definition sendGetParameter :: "(nat \<Rightarrow> string option) \<Rightarrow> cmOp" where
  "sendGetParameter keys = sendCommandWithService keys PendingGetParameter ''GET_PARAMETER'' []"

definition sendSetParameter :: "(nat \<Rightarrow> string option) \<Rightarrow> jdict \<Rightarrow> bool \<Rightarrow> cmOp" where
  "sendSetParameter keys values ignoreResult m =
     sendCommandWithService keys (PendingSetParameter ignoreResult) ''SET_PARAMETER'' (nameParam m values) m"

definition sendGetParameterResponse :: "(nat \<Rightarrow> string option) \<Rightarrow> jdict \<Rightarrow> cmOp" where
  "sendGetParameterResponse keys values m =
     (if cm_currentState m \<noteq> kConnectionStateConnected then (m, [])
      else sendCommandWithService keys PendingNothing ''GET_PARAMETER_RESPONSE'' (nameParam m values) m)"

definition sendSetParameterResponse :: "(nat \<Rightarrow> string option) \<Rightarrow> jdict \<Rightarrow> cmOp" where
  "sendSetParameterResponse keys values m =
     (if cm_currentState m \<noteq> kConnectionStateConnected then (m, [])
      else sendCommandWithService keys PendingNothing ''SET_PARAMETER_RESPONSE'' (nameParam m values) m)"

definition keepAliveFired :: "(nat \<Rightarrow> string option) \<Rightarrow> cmOp" where
  "keepAliveFired keys = sendCommandWithService keys PendingNothing ''KEEPALIVE'' []"

definition sendKeepAlive :: "(nat \<Rightarrow> string option) \<Rightarrow> cmOp" where
  "sendKeepAlive keys = cm_then (keepAliveFired keys) (\<lambda>m. (m\<lparr>cm_keepAliveTimer := True\<rparr>, []))"

section \<open>Opening and closing\<close>

text \<open>\<open>webos\<close> is the webOS service of the device, which may have none. The device object's delegate becomes the manager.\<close>

definition openConnection :: "ServiceType \<Rightarrow> nat option \<Rightarrow> nat option \<Rightarrow> cmOp" where
  "openConnection type device webos m = (case device of
      None \<Rightarrow> (m, [])
    | Some d \<Rightarrow> (m\<lparr>cm_currentState := kConnectionStateConnecting, cm_serviceName := Some (serviceTypeName type),
                  cm_service := webos, cm_tvDevice := Some d\<rparr>, [CmConnectDevice d]))"

text \<open>
  The state is \<open>Disconnecting\<close> while the device is told to disconnect, so that its own report of the disconnection is
  ignored.
\<close>

definition closeConnection :: "(nat \<Rightarrow> string option) \<Rightarrow> cmOp" where
  "closeConnection keys m0 =
     (if cm_currentState m0 = kConnectionStateDisconnecting then (m0, [])
      else let m = m0\<lparr>cm_currentState := kConnectionStateDisconnecting, cm_keepAliveTimer := False\<rparr>;
               (m', out) = sendCommandWithService keys PendingNothing ''TEARDOWN'' [] m
           in (m'\<lparr>cm_tvDevice := None, cm_currentState := kConnectionStateNone\<rparr>,
               out @ (if cm_powerStateSubscription m then [CmUnsubscribePowerState] else [])
                 @ (if cm_commandSubscription m then [CmUnsubscribeCommand] else [])
                 @ (case cm_tvDevice m of None \<Rightarrow> [] | Some d \<Rightarrow> [CmDisconnectDevice d])))"

section \<open>Reports to the delegate\<close>

definition cm_tell :: "cmEvent \<Rightarrow> cmOp" where
  "cm_tell e m = (m, case cm_delegate m of None \<Rightarrow> [] | Some c \<Rightarrow> [CmTell c e])"

definition cm_setState :: "ConnectionState \<Rightarrow> cmOp" where
  "cm_setState st m = (m\<lparr>cm_currentState := st\<rparr>, [])"

text \<open>The body of \<open>callOnPairingRequested\<close> is empty.\<close>

definition callOnPairingRequested :: cmOp where
  "callOnPairingRequested = cm_quiet"

definition callOnPairingRejected :: cmOp where
  "callOnPairingRejected = cm_then (cm_setState kConnectionStateNone) (cm_tell OnPairingRejected)"

definition callOnConnectionFailed :: "(nat \<Rightarrow> string option) \<Rightarrow> string \<Rightarrow> cmOp" where
  "callOnConnectionFailed keys message =
     cm_then (closeConnection keys) (cm_then (cm_setState kConnectionStateNone) (cm_tell (OnConnectionFailed message)))"

definition callOnConnectionCompleted :: "jdict \<Rightarrow> cmOp" where
  "callOnConnectionCompleted values = cm_then (cm_setState kConnectionStateConnected) (cm_tell (OnConnectionCompleted values))"

definition callOnError :: "(nat \<Rightarrow> string option) \<Rightarrow> ConnectionError \<Rightarrow> string \<Rightarrow> cmOp" where
  "callOnError keys error message =
     cm_then (closeConnection keys) (cm_then (cm_setState kConnectionStateNone) (cm_tell (OnError error message)))"

section \<open>Events\<close>

definition isOpen :: "ConnectionManager \<Rightarrow> bool" where
  "isOpen m \<longleftrightarrow> cm_currentState m \<in> {kConnectionStateConnected, kConnectionStateConnecting}"

definition cm_subscribe :: cmOp where
  "cm_subscribe m = (if \<not> isOpen m then (m, [])
     else (m\<lparr>cm_commandSubscription := True, cm_powerStateSubscription := True\<rparr>, [CmSubscribeCommand, CmSubscribePowerState]))"

definition setSourceDeviceInfo :: "(nat \<Rightarrow> string option) \<Rightarrow> jdict option \<Rightarrow> jdict option \<Rightarrow> cmOp" where
  "setSourceDeviceInfo keys sourceInfo deviceInfo m = (case (sourceInfo, deviceInfo) of
      (Some source, Some dev) \<Rightarrow>
        sendCommandWithService keys PendingSource ''SET_PARAMETER'' (nameParam m source @ [(''deviceInfo'', JObj dev)]) m
    | _ \<Rightarrow> callOnConnectionFailed keys ''setSourceDeviceInfo failure'' m)"

definition handleSubscribed :: "(nat \<Rightarrow> string option) \<Rightarrow> jdict \<Rightarrow> cmOp" where
  "handleSubscribed keys response =
     (if objectForKey response ''subscribed'' \<noteq> None then sendConnect keys else callOnConnectionFailed keys ''subscribe failure'')"

text \<open>Comparing with a nil string, or sending a string message to another object, raises.\<close>

definition forThisClient :: "string option \<Rightarrow> json option \<Rightarrow> bool result" where
  "forThisClient key clientKey = (case clientKey of
      None \<Rightarrow> Inr True
    | Some (JStr c) \<Rightarrow> (case key of None \<Rightarrow> Inl NSInvalidArgumentException | Some k \<Rightarrow> Inr (sameIgnoringCase c k))
    | Some _ \<Rightarrow> Inl NSInvalidArgumentException)"

definition runCommand :: "(nat \<Rightarrow> string option) \<Rightarrow> string \<Rightarrow> jdict \<Rightarrow> cmOp" where
  "runCommand keys command response =
     (let on = (\<lambda>name (f :: cmOp). if sameIgnoringCase command name then f else cm_quiet) in
      cm_then (on ''PLAY'' (cm_tell (OnReceivePlayCommand response)))
     (cm_then (on ''TEARDOWN'' (callOnError keys kConnectionErrorRendererTerminated ''renderer terminated''))
     (cm_then (on ''STOP'' (cm_tell (OnReceiveStopCommand response)))
     (cm_then (on ''GET_PARAMETER'' (cm_tell (OnReceiveGetParameter response)))
              (on ''SET_PARAMETER'' (cm_tell (OnReceiveSetParameter response)))))))"

definition handleCommand ::
  "(nat \<Rightarrow> string option) \<Rightarrow> jdict \<Rightarrow> ConnectionManager \<Rightarrow> (ConnectionManager \<times> cmOutput list) result" where
  "handleCommand keys response m =
     rbind (forThisClient (Option.bind (cm_service m) keys) (objectForKey response ''clientKey'')) (\<lambda>ours.
       if \<not> ours then Inr (m, [])
       else (case objectForKey response ''cmd'' of
               None \<Rightarrow> Inr (m, [])
             | Some (JStr command) \<Rightarrow> Inr (runCommand keys command response m)
             | Some _ \<Rightarrow> Inl NSInvalidArgumentException))"

text \<open>A response of the command subscription, a failure of it, and a response of the power state subscription.\<close>

definition commandReceived ::
  "(nat \<Rightarrow> string option) \<Rightarrow> jdict option \<Rightarrow> ConnectionManager \<Rightarrow> (ConnectionManager \<times> cmOutput list) result" where
  "commandReceived keys response m = (case response of
      None \<Rightarrow> Inr (m, [])
    | Some r \<Rightarrow>
        if \<not> isOpen m then Inr (m, if cm_commandSubscription m then [CmUnsubscribeCommand] else [])
        else if objectForKey r ''subscribed'' \<noteq> None then Inr (handleSubscribed keys r m)
        else if objectForKey r ''cmd'' \<noteq> None then handleCommand keys r m else Inr (m, []))"

definition commandFailed :: "(nat \<Rightarrow> string option) \<Rightarrow> cmOp" where
  "commandFailed keys = callOnError keys kConnectionErrorConnectionClosed ''subscribe error''"

definition powerStateReceived ::
  "(nat \<Rightarrow> string option) \<Rightarrow> jdict option \<Rightarrow> ConnectionManager \<Rightarrow> (ConnectionManager \<times> cmOutput list) result" where
  "powerStateReceived keys response m = (case Option.bind response (\<lambda>r. objectForKey r ''processing'') of
      None \<Rightarrow> Inr (m, [])
    | Some (JStr p) \<Rightarrow> Inr (if sameIgnoringCase p ''Request Power Off''
        then callOnError keys kConnectionErrorDeviceShutdown ''Device shut down'' m else (m, []))
    | Some _ \<Rightarrow> Inl NSInvalidArgumentException)"

text \<open>The success and the failure block of a command.\<close>

fun cm_succeeded :: "(nat \<Rightarrow> string option) \<Rightarrow> castPending \<Rightarrow> jdict option \<Rightarrow> cmOp" where
  "cm_succeeded keys PendingConnect response = sendGetParameter keys"
| "cm_succeeded keys PendingGetParameter response =
     (case response of None \<Rightarrow> cm_quiet | Some json \<Rightarrow> callOnConnectionCompleted json)"
| "cm_succeeded keys PendingSource response = sendKeepAlive keys"
| "cm_succeeded keys (PendingSetParameter ignore) response = cm_quiet"
| "cm_succeeded keys PendingNothing response = cm_quiet"

fun cm_failed :: "(nat \<Rightarrow> string option) \<Rightarrow> castPending \<Rightarrow> cmOp" where
  "cm_failed keys PendingConnect = callOnConnectionFailed keys ''sendConnect failure''"
| "cm_failed keys PendingGetParameter = callOnConnectionFailed keys ''sendGetParameter failure''"
| "cm_failed keys PendingSource = callOnConnectionFailed keys ''sendSetParameter failure''"
| "cm_failed keys (PendingSetParameter ignore) =
     (if ignore then cm_quiet else callOnConnectionFailed keys ''sendSetParameter failure'')"
| "cm_failed keys PendingNothing = cm_quiet"

text \<open>The messages of the device, whose delegate the manager is.\<close>

definition connectableDeviceDisconnected :: "(nat \<Rightarrow> string option) \<Rightarrow> cmOp" where
  "connectableDeviceDisconnected keys m = (case cm_currentState m of
      kConnectionStateConnecting \<Rightarrow> callOnPairingRejected m
    | kConnectionStateConnected \<Rightarrow> callOnError keys kConnectionErrorDeviceShutdown ''device disconnected'' m
    | _ \<Rightarrow> (m, []))"

definition connectableDeviceReady :: cmOp where
  "connectableDeviceReady = cm_subscribe"

section \<open>Runs of the manager\<close>

datatype cmInput =
    InOpen ServiceType "nat option" "nat option"
  | InClose
  | InDeviceReady
  | InDeviceDisconnected
  | InCommand "jdict option"
  | InCommandFailed
  | InPowerState "jdict option"
  | InSucceeded castPending "jdict option"
  | InFailed castPending
  | InSourceInfo "jdict option" "jdict option"
  | InSetParameter jdict bool
  | InGetParameterResponse jdict
  | InSetParameterResponse jdict
  | InKeepAliveTimer

fun cm_handle ::
  "(nat \<Rightarrow> string option) \<Rightarrow> cmInput \<Rightarrow> ConnectionManager \<Rightarrow> (ConnectionManager \<times> cmOutput list) result" where
  "cm_handle keys (InOpen type device webos) m = Inr (openConnection type device webos m)"
| "cm_handle keys InClose m = Inr (closeConnection keys m)"
| "cm_handle keys InDeviceReady m = Inr (connectableDeviceReady m)"
| "cm_handle keys InDeviceDisconnected m = Inr (connectableDeviceDisconnected keys m)"
| "cm_handle keys (InCommand r) m = commandReceived keys r m"
| "cm_handle keys InCommandFailed m = Inr (commandFailed keys m)"
| "cm_handle keys (InPowerState r) m = powerStateReceived keys r m"
| "cm_handle keys (InSucceeded p r) m = Inr (cm_succeeded keys p r m)"
| "cm_handle keys (InFailed p) m = Inr (cm_failed keys p m)"
| "cm_handle keys (InSourceInfo s d) m = Inr (setSourceDeviceInfo keys s d m)"
| "cm_handle keys (InSetParameter v i) m = Inr (sendSetParameter keys v i m)"
| "cm_handle keys (InGetParameterResponse v) m = Inr (sendGetParameterResponse keys v m)"
| "cm_handle keys (InSetParameterResponse v) m = Inr (sendSetParameterResponse keys v m)"
| "cm_handle keys InKeepAliveTimer m = Inr (if cm_keepAliveTimer m then keepAliveFired keys m else (m, []))"

inductive cm_reach :: "(nat \<Rightarrow> string option) \<Rightarrow> ConnectionManager \<Rightarrow> bool" for keys where
  start: "cm_reach keys (cm_sharedInstance\<lparr>cm_delegate := d\<rparr>)"
| step: "cm_reach keys m \<Longrightarrow> cm_handle keys i m = Inr (m', out) \<Longrightarrow> cm_reach keys m'"

definition cm_inv :: "ConnectionManager \<Rightarrow> bool" where
  "cm_inv m \<longleftrightarrow> cm_currentState m \<noteq> kConnectionStateDisconnecting
     \<and> (cm_currentState m = kConnectionStateConnecting \<longrightarrow> cm_tvDevice m \<noteq> None \<and> cm_serviceName m \<noteq> None)
     \<and> (cm_tvDevice m \<noteq> None \<longrightarrow> cm_serviceName m \<noteq> None)"

named_theorems cast_simps

lemma fst_cm_then [cast_simps]: "fst (cm_then f g m) = fst (g (fst (f m)))"
  by (simp add: cm_then_def case_prod_beta)

lemma snd_cm_then [cast_simps]: "snd (cm_then f g m) = snd (f m) @ snd (g (fst (f m)))"
  by (simp add: cm_then_def case_prod_beta)

lemma fst_commands [simp]:
  "fst (sendCommandWithService keys p c d m) = m"
  "fst (sendConnect keys m) = m" "fst (sendGetParameter keys m) = m" "fst (sendSetParameter keys v i m) = m"
  "fst (sendGetParameterResponse keys v m) = m" "fst (sendSetParameterResponse keys v m) = m"
  "fst (keepAliveFired keys m) = m"
  by (simp_all add: sendCommandWithService_def sendConnect_def sendGetParameter_def sendSetParameter_def
      sendGetParameterResponse_def sendSetParameterResponse_def keepAliveFired_def)

lemma tell_and_state [simp]:
  "fst (cm_tell e m) = m" "fst (cm_quiet m) = m" "snd (cm_quiet m) = []"
  "fst (cm_setState st m) = m\<lparr>cm_currentState := st\<rparr>" "snd (cm_setState st m) = []"
  by (simp_all add: cm_tell_def cm_quiet_def cm_setState_def)

lemma fst_closeConnection:
  "cm_currentState m \<noteq> kConnectionStateDisconnecting \<Longrightarrow> fst (closeConnection keys m) =
     m\<lparr>cm_currentState := kConnectionStateNone, cm_keepAliveTimer := False, cm_tvDevice := None\<rparr>"
  by (simp add: closeConnection_def Let_def case_prod_beta)

lemma closeConnection_inv [simp]: "cm_inv m \<Longrightarrow> cm_inv (fst (closeConnection keys m))"
  by (simp add: cm_inv_def fst_closeConnection)

lemma call_inv [simp]:
  assumes "cm_inv m"
  shows "cm_inv (fst (callOnConnectionFailed keys t m))" "cm_inv (fst (callOnError keys e t m))"
    "cm_inv (fst (callOnPairingRejected m))" "cm_inv (fst (callOnConnectionCompleted v m))"
  using assms
  by (simp_all add: callOnConnectionFailed_def callOnError_def callOnPairingRejected_def callOnConnectionCompleted_def
      cast_simps cm_inv_def fst_closeConnection)

lemma runCommand_inv [simp]: "cm_inv m \<Longrightarrow> cm_inv (fst (runCommand keys c r m))"
  by (simp add: runCommand_def Let_def cast_simps)

lemma cm_handle_inv:
  assumes "cm_inv m" and "cm_handle keys i m = Inr (m', out)"
  shows "cm_inv m'"
proof (cases i)
  case (InCommand r)
  then show ?thesis
    using assms
    by (auto simp: commandReceived_def handleCommand_def handleSubscribed_def rbind_Inr_iff
        split: option.split_asm if_split_asm json.split_asm dest!: arg_cong [of _ _ fst])
next
  case (InPowerState r)
  then show ?thesis
    using assms
    by (auto simp: powerStateReceived_def split: option.split_asm if_split_asm json.split_asm dest!: arg_cong [of _ _ fst])
next
  case (InSucceeded p r)
  then have "m' = fst (cm_succeeded keys p r m)" using assms(2) by simp
  with assms(1) show ?thesis
    by (cases p; cases r) (auto simp: sendKeepAlive_def cast_simps, auto simp: cm_inv_def)
next
  case (InFailed p)
  then have "m' = fst (cm_failed keys p m)" using assms(2) by simp
  with assms(1) show ?thesis by (cases p) auto
next
  case (InOpen type device webos)
  then show ?thesis using assms by (cases device) (auto simp: openConnection_def cm_inv_def)
next
  case InDeviceReady
  then show ?thesis using assms
    by (auto simp: connectableDeviceReady_def cm_subscribe_def cm_inv_def split: if_split_asm)
next
  case InDeviceDisconnected
  then have "m' = fst (connectableDeviceDisconnected keys m)" using assms(2) by simp
  with assms(1) show ?thesis by (simp add: connectableDeviceDisconnected_def split: ConnectionState.split)
next
  case (InSourceInfo s d)
  then have "m' = fst (setSourceDeviceInfo keys s d m)" using assms(2) by simp
  with assms(1) show ?thesis by (simp add: setSourceDeviceInfo_def split: option.split)
qed (use assms in \<open>auto simp: commandFailed_def dest!: arg_cong [of _ _ fst] split: if_split_asm\<close>)

lemma cm_reach_inv: "cm_reach keys m \<Longrightarrow> cm_inv m"
proof (induction rule: cm_reach.induct)
  case (start d)
  then show ?case by (simp add: cm_inv_def cm_sharedInstance_def)
next
  case (step m i m' out)
  then show ?case using cm_handle_inv by blast
qed

text \<open>
  Whatever the application, the TV and the device do, the manager is never left in the middle of a disconnection:
  closing it always stops the keep-alive timer, lets go of the device it holds, telling it to disconnect, sends a
  teardown if it knows a client key, and ends in the initial state.
\<close>

theorem cm_close_always_closes:
  assumes "cm_reach keys m" and "closeConnection keys m = (m', out)"
  shows "cm_currentState m' = kConnectionStateNone \<and> cm_tvDevice m' = None \<and> \<not> cm_keepAliveTimer m'
       \<and> (\<forall>d. CmDisconnectDevice d \<in> set out \<longleftrightarrow> cm_tvDevice m = Some d)
       \<and> ((\<exists>payload. CmSend PendingNothing payload \<in> set out \<and> objectForKey payload ''cmd'' = Some (JStr ''TEARDOWN''))
           \<longleftrightarrow> Option.bind (cm_service m) keys \<noteq> None \<and> cm_serviceName m \<noteq> None)"
proof -
  have "cm_currentState m \<noteq> kConnectionStateDisconnecting" using cm_reach_inv [OF assms(1)] by (simp add: cm_inv_def)
  with assms(2) show ?thesis
    by (auto simp: closeConnection_def Let_def sendCommandWithService_def objectForKey_Cons split: option.splits)
qed

text \<open>The inputs that end a session, and the reports they lead to.\<close>

inductive ends_with :: "ConnectionManager \<Rightarrow> cmInput \<Rightarrow> cmEvent \<Rightarrow> bool" where
  "ends_with m (InFailed PendingConnect) (OnConnectionFailed ''sendConnect failure'')"
| "ends_with m (InFailed PendingGetParameter) (OnConnectionFailed ''sendGetParameter failure'')"
| "ends_with m (InFailed PendingSource) (OnConnectionFailed ''sendSetParameter failure'')"
| "ends_with m (InFailed (PendingSetParameter False)) (OnConnectionFailed ''sendSetParameter failure'')"
| "ends_with m (InSourceInfo None d) (OnConnectionFailed ''setSourceDeviceInfo failure'')"
| "ends_with m InCommandFailed (OnError kConnectionErrorConnectionClosed ''subscribe error'')"
| "objectForKey r ''processing'' = Some (JStr p) \<Longrightarrow> sameIgnoringCase p ''Request Power Off'' \<Longrightarrow>
   ends_with m (InPowerState (Some r)) (OnError kConnectionErrorDeviceShutdown ''Device shut down'')"
| "cm_currentState m = kConnectionStateConnected \<Longrightarrow>
   ends_with m InDeviceDisconnected (OnError kConnectionErrorDeviceShutdown ''device disconnected'')"
| "isOpen m \<Longrightarrow> objectForKey r ''subscribed'' = None \<Longrightarrow> objectForKey r ''clientKey'' = None \<Longrightarrow>
   objectForKey r ''cmd'' = Some (JStr c) \<Longrightarrow> sameIgnoringCase c ''TEARDOWN'' \<Longrightarrow>
   ends_with m (InCommand (Some r)) (OnError kConnectionErrorRendererTerminated ''renderer terminated'')"

definition tells :: "cmOutput list \<Rightarrow> (castClient \<times> cmEvent) list" where
  "tells out = List.map_filter (\<lambda>x. case x of CmTell c e \<Rightarrow> Some (c, e) | _ \<Rightarrow> None) out"

lemma tells_simps [simp]:
  "tells [] = []" "tells (CmTell c e # out) = (c, e) # tells out" "tells (CmSend p d # out) = tells out"
  "tells (CmSubscribeCommand # out) = tells out" "tells (CmSubscribePowerState # out) = tells out"
  "tells (CmUnsubscribeCommand # out) = tells out" "tells (CmUnsubscribePowerState # out) = tells out"
  "tells (CmConnectDevice n # out) = tells out" "tells (CmDisconnectDevice n # out) = tells out"
  "tells (out @ out') = tells out @ tells out'"
  by (simp_all add: tells_def List.map_filter_def)

lemma tells_quiet [simp]:
  "tells (snd (sendCommandWithService keys p c d m)) = []" "tells (snd (closeConnection keys m)) = []"
  by (auto simp: sendCommandWithService_def closeConnection_def Let_def split: option.split)

lemma sameIgnoringCase_other:
  "sameIgnoringCase c ''TEARDOWN'' \<Longrightarrow> \<not> sameIgnoringCase c ''PLAY'' \<and> \<not> sameIgnoringCase c ''STOP''
     \<and> \<not> sameIgnoringCase c ''GET_PARAMETER'' \<and> \<not> sameIgnoringCase c ''SET_PARAMETER''"
  by (auto simp: sameIgnoringCase_def lowercaseString_def asciiLower_def)

text \<open>
  Every input that ends a session, in any reachable state with a delegate, closes the connection and makes exactly
  one report to the delegate, which names the reason.
\<close>

lemma cm_failure_ends:
  assumes "cm_reach keys m" and "cm_delegate m = Some c" and "ends_with m i e"
  shows "\<exists>m' out. cm_handle keys i m = Inr (m', out) \<and> cm_currentState m' = kConnectionStateNone
           \<and> cm_tvDevice m' = None \<and> \<not> cm_keepAliveTimer m' \<and> tells out = [(c, e)]"
proof -
  have inv: "cm_currentState m \<noteq> kConnectionStateDisconnecting" using cm_reach_inv [OF assms(1)] by (simp add: cm_inv_def)
  have failed: "cm_currentState (fst (callOnConnectionFailed keys t m)) = kConnectionStateNone
      \<and> cm_tvDevice (fst (callOnConnectionFailed keys t m)) = None \<and> \<not> cm_keepAliveTimer (fst (callOnConnectionFailed keys t m))
      \<and> tells (snd (callOnConnectionFailed keys t m)) = [(c, OnConnectionFailed t)]" for t
    using inv assms(2) by (simp add: callOnConnectionFailed_def cast_simps fst_closeConnection cm_tell_def)
  have error: "cm_currentState (fst (callOnError keys er t m)) = kConnectionStateNone
      \<and> cm_tvDevice (fst (callOnError keys er t m)) = None \<and> \<not> cm_keepAliveTimer (fst (callOnError keys er t m))
      \<and> tells (snd (callOnError keys er t m)) = [(c, OnError er t)]" for er t
    using inv assms(2) by (simp add: callOnError_def cast_simps fst_closeConnection cm_tell_def)
  have "\<exists>r. cm_handle keys i m = Inr r \<and> cm_currentState (fst r) = kConnectionStateNone
           \<and> cm_tvDevice (fst r) = None \<and> \<not> cm_keepAliveTimer (fst r) \<and> tells (snd r) = [(c, e)]"
    using assms(3)
    by cases (use failed error in \<open>auto simp: setSourceDeviceInfo_def commandFailed_def powerStateReceived_def
        connectableDeviceDisconnected_def commandReceived_def handleCommand_def forThisClient_def runCommand_def
        Let_def cast_simps dest: sameIgnoringCase_other\<close>)
  then show ?thesis by (metis prod.collapse)
qed


fun cm_run ::
  "(nat \<Rightarrow> string option) \<Rightarrow> cmInput list \<Rightarrow> ConnectionManager \<Rightarrow> (ConnectionManager \<times> cmOutput list) result" where
  "cm_run keys [] m = Inr (m, [])"
| "cm_run keys (i # is) m = rbind (cm_handle keys i m) (\<lambda>(m1, out).
     rbind (cm_run keys is m1) (\<lambda>(m2, out'). Inr (m2, out @ out')))"

lemma cm_run_reach: "cm_run keys is m = Inr (m', out) \<Longrightarrow> cm_reach keys m \<Longrightarrow> cm_reach keys m'"
  by (induction "is" arbitrary: m out) (auto simp: rbind_Inr_iff intro: cm_reach.step)

text \<open>The payload of a command of the session, with the client key and the name of the service.\<close>

definition castPayload :: "string \<Rightarrow> string \<Rightarrow> string \<Rightarrow> jdict" where
  "castPayload command key name = [(''cmd'', JStr command), (''clientKey'', JStr key), (''service'', JStr name)]"

text \<open>The steps of a handshake in which everything succeeds; the client answers the TV's parameters with its own.\<close>

definition handshake :: "ServiceType \<Rightarrow> nat \<Rightarrow> nat \<Rightarrow> jdict \<Rightarrow> jdict \<Rightarrow> jdict \<Rightarrow> cmInput list" where
  "handshake type d r values source info =
     [InOpen type (Some d) (Some r), InDeviceReady, InCommand (Some [(''subscribed'', JBool True)]),
      InSucceeded PendingConnect None, InSucceeded PendingGetParameter (Some values),
      InSourceInfo (Some source) (Some info), InSucceeded PendingSource None]"

text \<open>
  C39: When the device holds a client key and everything succeeds, opening a connection leads from any state between
  operations to a connected session with a running keep-alive timer; the TV gets exactly a CONNECT, a GET_PARAMETER, a
  SET_PARAMETER with the client's capabilities and a KEEPALIVE, in this order, and the delegate is told once that
  the connection is complete.
\<close>

theorem cm_handshake_connects:
  assumes "cm_delegate m = Some c" and "keys r = Some key" and "name = serviceTypeName type"
  shows "\<exists>m' parameter. cm_run keys (handshake type d r values source info) m = Inr (m',
            [CmConnectDevice d, CmSubscribeCommand, CmSubscribePowerState,
             CmSend PendingConnect (castPayload ''CONNECT'' key name),
             CmSend PendingGetParameter (castPayload ''GET_PARAMETER'' key name),
             CmTell c (OnConnectionCompleted values),
             CmSend PendingSource parameter,
             CmSend PendingNothing (castPayload ''KEEPALIVE'' key name)])
          \<and> parameter = castPayload ''SET_PARAMETER'' key name @ [(name, JObj source), (''deviceInfo'', JObj info)]
          \<and> cm_currentState m' = kConnectionStateConnected \<and> cm_tvDevice m' = Some d \<and> cm_keepAliveTimer m'"
proof -
  have names: "name \<noteq> ''cmd''" "name \<noteq> ''clientKey''" "name \<noteq> ''service''" "name \<noteq> ''deviceInfo''"
    using assms(3) by (simp_all add: serviceTypeName_def)
  note commands = openConnection_def connectableDeviceReady_def cm_subscribe_def isOpen_def commandReceived_def
    handleSubscribed_def sendConnect_def sendGetParameter_def setSourceDeviceInfo_def sendKeepAlive_def keepAliveFired_def
    sendCommandWithService_def callOnConnectionCompleted_def nameParam_def castPayload_def cm_then_def cm_tell_def cm_setState_def
  show ?thesis
    using assms names by (simp add: handshake_def commands objectForKey_Cons setObject_def)
qed

definition sample_keys :: "nat \<Rightarrow> string option" where
  "sample_keys = (\<lambda>r. if r = 7 then Some ''key'' else None)"

theorem cm_handshake_connects_witness:
  "\<exists>m' out. cm_run sample_keys (handshake kServiceTypeRemoteCamera 3 7 [] [] []) (cm_sharedInstance\<lparr>cm_delegate := Some CameraClient\<rparr>)
      = Inr (m', out) \<and> length out = 8 \<and> cm_currentState m' = kConnectionStateConnected"
proof -
  let ?m = "cm_sharedInstance\<lparr>cm_delegate := Some CameraClient\<rparr>"
  have 1: "cm_delegate ?m = Some CameraClient" and 2: "sample_keys 7 = Some ''key''" by (simp_all add: sample_keys_def)
  from cm_handshake_connects [where keys = sample_keys and r = 7, OF 1 2 refl, of kServiceTypeRemoteCamera 3 "[]" "[]" "[]"]
  show ?thesis by force
qed

theorem cm_close_always_closes_witness:
  "\<exists>m m' out. cm_currentState m = kConnectionStateConnecting \<and> closeConnection sample_keys m = (m', out)
     \<and> cm_currentState m' = kConnectionStateNone \<and> CmDisconnectDevice 3 \<in> set out"
proof -
  let ?m0 = "cm_sharedInstance\<lparr>cm_delegate := None\<rparr>"
  let ?m = "fst (openConnection kServiceTypeRemoteCamera (Some 3) (Some 7) ?m0)"
  obtain m' out where close: "closeConnection sample_keys ?m = (m', out)" by (cases "closeConnection sample_keys ?m")
  have r: "cm_reach sample_keys ?m"
    by (rule cm_reach.step [OF cm_reach.start, of _ "InOpen kServiceTypeRemoteCamera (Some 3) (Some 7)" None]) (simp add: openConnection_def)
  from cm_close_always_closes [OF r close] close show ?thesis
    by (intro exI [of _ ?m] exI [of _ m'] exI [of _ out]) (simp add: openConnection_def)
qed

section \<open>Deviations\<close>

text \<open>
  A late answer to GET_PARAMETER reopens a connection that was closed meanwhile: the manager counts as connected
  with no device, and the delegate is told that the connection is complete.
\<close>

lemma cm_late_answer_reopens:
  assumes "closeConnection keys m = (m', out)" and "cm_currentState m \<noteq> kConnectionStateDisconnecting" and "cm_delegate m = Some c"
  shows "cm_currentState (fst (cm_succeeded keys PendingGetParameter (Some v) m')) = kConnectionStateConnected
       \<and> cm_tvDevice (fst (cm_succeeded keys PendingGetParameter (Some v) m')) = None
       \<and> snd (cm_succeeded keys PendingGetParameter (Some v) m') = [CmTell c (OnConnectionCompleted v)]"
proof -
  have "m' = m\<lparr>cm_currentState := kConnectionStateNone, cm_keepAliveTimer := False, cm_tvDevice := None\<rparr>"
    using fst_closeConnection [OF assms(2), of keys] assms(1) by simp
  with assms(3) show ?thesis by (simp add: callOnConnectionCompleted_def cast_simps cm_tell_def)
qed

text \<open>A subscription the TV refuses is taken for a success: only the presence of the field is tested.\<close>

lemma cm_refused_subscription_connects:
  "handleSubscribed keys [(''subscribed'', JBool False)] = sendConnect keys"
  by (simp add: handleSubscribed_def objectForKey_Cons)

text \<open>Without a client key, connecting sends nothing and reports nothing.\<close>

lemma cm_no_key_is_silent:
  "Option.bind (cm_service m) keys = None \<Longrightarrow> sendConnect keys m = (m, [])"
  by (simp add: sendConnect_def sendCommandWithService_def)

end
