(* ===== verification/Casting.thy ===== *)
theory Casting
  imports CastConnection
begin

text \<open>
  \<open>src/Services/Helpers/LGCast\<close>: what phone and TV tell each other of their abilities before a cast session
  (\<open>MirroringSourceCapability\<close>, \<open>MirroringSinkCapability\<close>, \<open>CameraSourceCapability\<close>, \<open>CameraSinkCapability\<close>,
  \<open>MobileCapability\<close>) and the parameters of the camera (\<open>CameraParameter\<close>), with their JSON dictionaries.
\<close>

section \<open>Capabilities\<close>

text \<open>\<open>dictionaryWithObjectsAndKeys:\<close> ends at the first nil object; a dictionary literal raises on one.\<close>

fun objectsAndKeys :: "(json option \<times> string) list \<Rightarrow> jdict" where
  "objectsAndKeys [] = []"
| "objectsAndKeys ((None, k) # r) = []"
| "objectsAndKeys ((Some v, k) # r) = (k, v) # objectsAndKeys r"

definition jint :: "int \<Rightarrow> json" where
  "jint i = JNum (of_int i)"

record MobileCapability =
  mc_type :: "string option"
  mc_version :: "string option"
  mc_platform :: "string option"
  mc_manufacturer :: "string option"
  mc_modelName :: "string option"
  mc_deviceName :: "string option"

text \<open>The version of the application and the model and name of the phone are read from the system.\<close>

definition mc_init :: "string option \<Rightarrow> string \<Rightarrow> string \<Rightarrow> MobileCapability" where
  "mc_init version model name = \<lparr>mc_type = Some ''phone'', mc_version = version, mc_platform = Some ''ios'',
     mc_manufacturer = Some ''apple'', mc_modelName = Some model, mc_deviceName = Some name\<rparr>"

definition mc_toNSDictionary :: "MobileCapability \<Rightarrow> jdict" where
  "mc_toNSDictionary c = objectsAndKeys
     [(map_option JStr (mc_type c), ''type''), (map_option JStr (mc_version c), ''version''),
      (map_option JStr (mc_platform c), ''platform''), (map_option JStr (mc_manufacturer c), ''manufacturer''),
      (map_option JStr (mc_modelName c), ''modelName''), (map_option JStr (mc_deviceName c), ''deviceName'')]"

record securityKey =
  key_mki :: "string option"
  key_masterKey :: "string option"

fun cryptoSpec :: "securityKey list \<Rightarrow> json list result" where
  "cryptoSpec [] = Inr []"
| "cryptoSpec (k # ks) = (case (key_mki k, key_masterKey k) of
      (Some mki, Some key) \<Rightarrow> rbind (cryptoSpec ks) (\<lambda>r. Inr (JObj [(''mki'', JStr mki), (''key'', JStr key)] # r))
    | _ \<Rightarrow> Inl NSInvalidArgumentException)"

record MirroringSourceCapability =
  src_videoCodec :: "string option"
  src_videoClockRate :: int
  src_videoFramerate :: int
  src_videoBitrate :: int
  src_videoWidth :: int
  src_videoHeight :: int
  src_videoActiveWidth :: int
  src_videoActiveHeight :: int
  src_videoOrientation :: "string option"
  src_audioCodec :: "string option"
  src_audioClockRate :: int
  src_audioFrequency :: int
  src_audioStreamMuxConfig :: "string option"
  src_audioChannels :: int
  src_screenOrientation :: "string option"
  src_masterKeys :: "securityKey list"

definition src_new :: MirroringSourceCapability where
  "src_new = \<lparr>src_videoCodec = None, src_videoClockRate = 0, src_videoFramerate = 0, src_videoBitrate = 0, src_videoWidth = 0,
     src_videoHeight = 0, src_videoActiveWidth = 0, src_videoActiveHeight = 0, src_videoOrientation = None, src_audioCodec = None,
     src_audioClockRate = 0, src_audioFrequency = 0, src_audioStreamMuxConfig = None, src_audioChannels = 0,
     src_screenOrientation = None, src_masterKeys = []\<rparr>"

definition src_toNSDictionary :: "MirroringSourceCapability \<Rightarrow> jdict result" where
  "src_toNSDictionary c = rbind (cryptoSpec (src_masterKeys c)) (\<lambda>crypto. Inr
     [(''video'', JObj (objectsAndKeys
         [(map_option JStr (src_videoCodec c), ''codec''), (Some (jint (src_videoClockRate c)), ''clockRate''),
          (Some (jint (src_videoFramerate c)), ''framerate''), (Some (jint (src_videoBitrate c)), ''bitrate''),
          (Some (jint (src_videoWidth c)), ''width''), (Some (jint (src_videoHeight c)), ''height''),
          (Some (jint (src_videoActiveWidth c)), ''activeWidth''), (Some (jint (src_videoActiveHeight c)), ''activeHeight''),
          (map_option JStr (src_videoOrientation c), ''orientation'')])),
      (''audio'', JObj (objectsAndKeys
         [(map_option JStr (src_audioCodec c), ''codec''), (Some (jint (src_audioClockRate c)), ''clockRate''),
          (Some (jint (src_audioFrequency c)), ''frequency''), (map_option JStr (src_audioStreamMuxConfig c), ''streamMuxConfig''),
          (Some (jint (src_audioChannels c)), ''channels'')])),
      (''crypto'', JArr crypto), (''uibcEnabled'', JBool False),
      (''supportedFeatures'', JObj (objectsAndKeys [(map_option JStr (src_screenOrientation c), ''screenOrientation'')]))])"

definition src_toNSDictionaryVideoSize :: "MirroringSourceCapability \<Rightarrow> jdict" where
  "src_toNSDictionaryVideoSize c = [(''video'', JObj (objectsAndKeys
     [(map_option JStr (src_videoOrientation c), ''orientation''), (Some (jint (src_videoWidth c)), ''width''),
      (Some (jint (src_videoHeight c)), ''height''), (Some (jint (src_videoActiveWidth c)), ''activeWidth''),
      (Some (jint (src_videoActiveHeight c)), ''activeHeight'')]))]"

record MirroringSinkCapability =
  snk_ipAddress :: "string option"
  snk_keepAliveTimeout :: real
  snk_publicKey :: "string option"
  snk_videoUdpPort :: int
  snk_audioUdpPort :: int
  snk_displayOrientation :: "string option"
  snk_deviceType :: "string option"
  snk_deviceVersion :: "string option"
  snk_devicePlatform :: "string option"
  snk_deviceSoC :: "string option"
  snk_videoCodec :: "string option"
  snk_audioCodec :: "string option"
  snk_portraitMax :: "int \<times> int"
  snk_landscapeMax :: "int \<times> int"
  snk_supportedOrientation :: "string option"

text \<open>\<open>d != nil && d.count > 0\<close> for a member that should be a dictionary.\<close>

definition filledDict :: "json option \<Rightarrow> jdict option result" where
  "filledDict j = (case j of
      None \<Rightarrow> Inr None
    | Some (JObj d) \<Rightarrow> Inr (if d = [] then None else Some d)
    | Some (JArr []) \<Rightarrow> Inr None
    | Some _ \<Rightarrow> Inl NSInvalidArgumentException)"

definition whenFilled :: "json option \<Rightarrow> (jdict \<Rightarrow> 'a \<Rightarrow> 'a result) \<Rightarrow> ('a \<Rightarrow> 'a) \<Rightarrow> 'a \<Rightarrow> 'a result" where
  "whenFilled j f g x = rbind (filledDict j) (\<lambda>d. case d of None \<Rightarrow> Inr (g x) | Some d' \<Rightarrow> f d' x)"

definition maxSize :: "jdict \<Rightarrow> (int \<times> int) result" where
  "maxSize d = rbind (intValue (objectForKey d ''maxWidth'')) (\<lambda>w.
     rbind (intValue (objectForKey d ''maxHeight'')) (\<lambda>h. Inr (w, h)))"

definition snk_video :: "jdict \<Rightarrow> MirroringSinkCapability \<Rightarrow> MirroringSinkCapability result" where
  "snk_video v c = rbind (intValue (objectForKey v ''udpPort'')) (\<lambda>port.
     rbind (whenFilled (objectForKey v ''portrait'')
              (\<lambda>d x. rbind (maxSize d) (\<lambda>s. Inr (x\<lparr>snk_portraitMax := s\<rparr>))) (\<lambda>x. x\<lparr>snk_portraitMax := (1080, 1920)\<rparr>)
              (c\<lparr>snk_videoCodec := asString (objectForKey v ''codec''), snk_videoUdpPort := port\<rparr>)) (\<lambda>c1.
     whenFilled (objectForKey v ''landscape'')
              (\<lambda>d x. rbind (maxSize d) (\<lambda>s. Inr (x\<lparr>snk_landscapeMax := s\<rparr>))) (\<lambda>x. x\<lparr>snk_landscapeMax := (1920, 1080)\<rparr>) c1))"

definition snk_audio :: "jdict \<Rightarrow> MirroringSinkCapability \<Rightarrow> MirroringSinkCapability result" where
  "snk_audio a c = rbind (intValue (objectForKey a ''udpPort'')) (\<lambda>port.
     Inr (c\<lparr>snk_audioCodec := asString (objectForKey a ''codec''), snk_audioUdpPort := port\<rparr>))"

definition orLandscape :: "string option \<Rightarrow> string option" where
  "orLandscape s = (if s = None then Some ''landscape'' else s)"

definition snk_mirroring :: "jdict \<Rightarrow> MirroringSinkCapability \<Rightarrow> MirroringSinkCapability result" where
  "snk_mirroring m c =
     rbind (whenFilled (objectForKey m ''video'') snk_video (\<lambda>x. x) c) (\<lambda>c1.
     rbind (whenFilled (objectForKey m ''audio'') snk_audio (\<lambda>x. x) c1) (\<lambda>c2.
     rbind (whenFilled (objectForKey m ''supportedFeatures'')
              (\<lambda>d x. Inr (x\<lparr>snk_supportedOrientation := orLandscape (asString (objectForKey d ''screenOrientation''))\<rparr>)) (\<lambda>x. x) c2) (\<lambda>c3.
     Inr (c3\<lparr>snk_displayOrientation := orLandscape (asString (objectForKey m ''displayOrientation''))\<rparr>))))"

definition snk_initWithInfo :: "jdict \<Rightarrow> MirroringSinkCapability result" where
  "snk_initWithInfo info =
     rbind (doubleValue (objectForKey info ''keepAliveTimeout'')) (\<lambda>timeout.
     rbind (whenFilled (objectForKey info ''deviceInfo'')
              (\<lambda>d x. Inr (x\<lparr>snk_deviceType := asString (objectForKey d ''type''), snk_deviceVersion := asString (objectForKey d ''version''),
                 snk_devicePlatform := asString (objectForKey d ''platform''), snk_deviceSoC := asString (objectForKey d ''SoC'')\<rparr>))
              (\<lambda>x. x)
              \<lparr>snk_ipAddress = (case asString (objectForKey info ''ipAddress'') of None \<Rightarrow> Some ''127.0.0.1'' | Some a \<Rightarrow> Some a),
               snk_keepAliveTimeout = (if timeout = 0 then 60 else timeout),
               snk_publicKey = asString (objectForKey info ''publicKey''), snk_videoUdpPort = 0, snk_audioUdpPort = 0,
               snk_displayOrientation = None, snk_deviceType = None, snk_deviceVersion = None, snk_devicePlatform = None,
               snk_deviceSoC = None, snk_videoCodec = None, snk_audioCodec = None, snk_portraitMax = (0, 0),
               snk_landscapeMax = (0, 0), snk_supportedOrientation = None\<rparr>) (\<lambda>c.
     whenFilled (objectForKey info ''mirroring'') snk_mirroring (\<lambda>x. x) c))"

record CameraParameter =
  cp_width :: int
  cp_height :: int
  cp_brightness :: int
  cp_whiteBalance :: int
  cp_autoWhiteBalance :: bool
  cp_facing :: int
  cp_audio :: bool
  cp_rotation :: int

definition cp_new :: CameraParameter where
  "cp_new = \<lparr>cp_width = 0, cp_height = 0, cp_brightness = 0, cp_whiteBalance = 0, cp_autoWhiteBalance = False,
     cp_facing = 0, cp_audio = False, cp_rotation = 0\<rparr>"

definition cp_toNSDictionary :: "CameraParameter \<Rightarrow> jdict" where
  "cp_toNSDictionary p = [(''width'', jint (cp_width p)), (''height'', jint (cp_height p)), (''brightness'', jint (cp_brightness p)),
     (''whiteBalance'', jint (cp_whiteBalance p)), (''autoWhiteBalance'', JBool (cp_autoWhiteBalance p)),
     (''facing'', jint (cp_facing p)), (''audio'', JBool (cp_audio p)), (''rotation'', jint (cp_rotation p))]"

definition cp_resolutionResult :: "bool \<Rightarrow> int \<Rightarrow> int \<Rightarrow> CameraParameter \<Rightarrow> CameraParameter \<times> jdict" where
  "cp_resolutionResult result w h p0 = (let p = (if result then p0\<lparr>cp_width := w, cp_height := h\<rparr> else p0)
     in (p, [(''result'', JBool result), (''width'', jint (cp_width p)), (''height'', jint (cp_height p))]))"

definition cp_brightnessResult :: "bool \<Rightarrow> int \<Rightarrow> CameraParameter \<Rightarrow> CameraParameter \<times> jdict" where
  "cp_brightnessResult result b p0 = (let p = (if result then p0\<lparr>cp_brightness := b\<rparr> else p0)
     in (p, [(''result'', JBool result), (''brightness'', jint (cp_brightness p))]))"

definition cp_whiteBalanceResult :: "bool \<Rightarrow> int \<Rightarrow> CameraParameter \<Rightarrow> CameraParameter \<times> jdict" where
  "cp_whiteBalanceResult result b p0 = (let p = (if result then p0\<lparr>cp_whiteBalance := b\<rparr> else p0)
     in (p, [(''result'', JBool result), (''whiteBalance'', jint (cp_whiteBalance p))]))"

definition cp_autoWhiteBalanceResult :: "bool \<Rightarrow> bool \<Rightarrow> CameraParameter \<Rightarrow> CameraParameter \<times> jdict" where
  "cp_autoWhiteBalanceResult result b p0 = (let p = (if result then p0\<lparr>cp_autoWhiteBalance := b\<rparr> else p0)
     in (p, [(''result'', JBool result), (''autoWhiteBalance'', JBool (cp_autoWhiteBalance p))]))"

definition cp_setFacing :: "int \<Rightarrow> CameraParameter \<Rightarrow> CameraParameter \<times> jdict" where
  "cp_setFacing f p0 = (let p = p0\<lparr>cp_facing := f\<rparr> in (p, [(''facing'', jint (cp_facing p))]))"

definition cp_facingResult :: "bool \<Rightarrow> int \<Rightarrow> CameraParameter \<Rightarrow> CameraParameter \<times> jdict" where
  "cp_facingResult result f p0 = (let p = (if result then p0\<lparr>cp_facing := f\<rparr> else p0)
     in (p, [(''result'', JBool result), (''facing'', jint (cp_facing p))]))"

definition cp_setAudio :: "bool \<Rightarrow> CameraParameter \<Rightarrow> CameraParameter \<times> jdict" where
  "cp_setAudio a p = (p\<lparr>cp_audio := a\<rparr>, [(''audio'', JBool a)])"

text \<open>The audio field of the answer is the requested value, also when the request failed.\<close>

definition cp_audioResult :: "bool \<Rightarrow> bool \<Rightarrow> CameraParameter \<Rightarrow> CameraParameter \<times> jdict" where
  "cp_audioResult result a p = (if result then p\<lparr>cp_audio := a\<rparr> else p, [(''result'', JBool result), (''audio'', JBool a)])"

text \<open>The device info a TV sends is a dictionary.\<close>

record CameraSinkCapability =
  csk_ipAddress :: "string option"
  csk_keepAliveTimeout :: real
  csk_publicKey :: "string option"
  csk_deviceType :: "string option"
  csk_deviceVersion :: "string option"
  csk_devicePlatform :: "string option"
  csk_deviceSoC :: "string option"

definition csk_initWithJSON :: "jdict \<Rightarrow> CameraSinkCapability result" where
  "csk_initWithJSON j = rbind (doubleValue (objectForKey j ''keepAliveTimeout'')) (\<lambda>timeout.
     (let member = (\<lambda>k. Option.bind (asObject (objectForKey j ''deviceInfo'')) (\<lambda>d. asString (objectForKey d k)))
      in Inr \<lparr>csk_ipAddress = asString (objectForKey j ''ipAddress''), csk_keepAliveTimeout = timeout,
              csk_publicKey = asString (objectForKey j ''publicKey''), csk_deviceType = member ''type'',
              csk_deviceVersion = member ''version'', csk_devicePlatform = member ''platform'', csk_deviceSoC = member ''SoC''\<rparr>))"

record CameraSourceCapability =
  csr_resolutions :: "(int \<times> int) list"
  csr_masterKeys :: "securityKey list"

definition csr_toNSDictionary :: "CameraSourceCapability \<Rightarrow> jdict result" where
  "csr_toNSDictionary c = rbind (cryptoSpec (csr_masterKeys c)) (\<lambda>crypto. Inr
     [(''crypto'', JArr crypto),
      (''previewSize'', JArr (map (\<lambda>(w, h). JObj [(''w'', jint w), (''h'', jint h)]) (csr_resolutions c)))])"

end
