(* ===== verification/CastServices.thy ===== *)
theory CastServices
  imports Casting
begin

text \<open>
  \<open>ScreenMirroringService\<close> and \<open>RemoteCameraService\<close>, and their composition with the connection manager they share.
  A handler of a service works on the service and on the manager, which it calls back; what the manager then sends is
  an output. The delegate of a service is the webOS service that opened it, which implements every message.
\<close>

section \<open>The LG Cast library\<close>

text \<open>
  What the library answers: the settings it chose, the keys it made, the properties of the camera (whose status
  fields are read as truth values).
\<close>

record mirroringVideoInfo =
  vi_codec :: "string option"
  vi_activeWidth :: int
  vi_activeHeight :: int
  vi_framerate :: int
  vi_bitrate :: int
  vi_samplingRate :: int
  vi_isPortraitMode :: bool
  vi_screenOrientation :: "string option"

record mirroringAudioInfo =
  ai_codec :: "string option"
  ai_samplingRate :: int
  ai_channelCnt :: int
  ai_streamMuxConfig :: "string option"

text \<open>Fields of a nil object read as zero: the size of the player when there is none is \<open>(0, 0)\<close>.\<close>

record mirroringInfo =
  mi_playerSize :: "int \<times> int"
  mi_videoInfo :: "mirroringVideoInfo option"
  mi_audioInfo :: "mirroringAudioInfo option"

record mirroringApi =
  api_setMediaSettings :: "bool \<Rightarrow> int \<times> int \<Rightarrow> mirroringInfo"
  api_masterKey :: "string option \<Rightarrow> securityKey list"
  api_updateDisplayOrientation :: "bool \<Rightarrow> mirroringInfo"

datatype cameraProperty =
    CameraAudio | CameraAutoWhiteBalance | CameraBrightness | CameraFacing | CameraResolution | CameraWhitebalance | CameraRotation

record cameraApi =
  cam_properties :: "CameraParameter option"
  cam_masterKey :: "string option \<Rightarrow> securityKey list"
  cam_resolutions :: "(int \<times> int) list"
  cam_setProperty :: "cameraProperty \<Rightarrow> int \<Rightarrow> bool"
  cam_changePosition :: "int \<Rightarrow> bool"
  cam_muteMicrophone :: "bool \<Rightarrow> bool"

datatype castOutput =
    MirroringTell screenMirroringEvent
  | CameraTell remoteCameraEvent
  | ApiStartMirroring "string option" int int
  | ApiStopMirroring
  | ApiPushSampleBuffer
  | ApiSetResolution int int
  | ApiStartCamera "string option" int int
  | ApiPauseCamera
  | ApiStopCamera
  | FromManager cmOutput

text \<open>What a service reads of the phone, and the client keys of the services of the TVs.\<close>

record castEnv =
  ce_keys :: "nat \<Rightarrow> string option"
  ce_mobile :: MobileCapability
  ce_mirroring :: mirroringApi
  ce_camera :: cameraApi

section \<open>Screen mirroring\<close>

record ScreenMirroringService =
  sm_delegate :: bool
  sm_isRunning :: bool
  sm_sourceCapability :: "MirroringSourceCapability option"
  sm_sinkCapability :: "MirroringSinkCapability option"

type_synonym 'a castOp = "'a \<times> ConnectionManager \<Rightarrow> (('a \<times> ConnectionManager) \<times> castOutput list) result"

definition sm_tell :: "screenMirroringEvent \<Rightarrow> ScreenMirroringService \<Rightarrow> castOutput list" where
  "sm_tell e s = (if sm_delegate s then [MirroringTell e] else [])"

text \<open>Creating the shared service makes it the delegate of the manager.\<close>

definition sm_initPrivate :: "ConnectionManager \<Rightarrow> ScreenMirroringService \<times> ConnectionManager" where
  "sm_initPrivate m = (\<lparr>sm_delegate = False, sm_isRunning = False, sm_sourceCapability = None, sm_sinkCapability = None\<rparr>,
     m\<lparr>cm_delegate := Some MirroringClient\<rparr>)"

definition throughManager :: "cmOp \<Rightarrow> ConnectionManager \<Rightarrow> ConnectionManager \<times> castOutput list" where
  "throughManager f m = (case f m of (m', out) \<Rightarrow> (m', map FromManager out))"

definition startMirroring :: "nat option \<Rightarrow> nat option \<Rightarrow> ScreenMirroringService castOp" where
  "startMirroring device webos sm = (case sm of (s, m) \<Rightarrow>
     if \<not> sm_isRunning s
     then (case throughManager (openConnection kServiceTypeScreenMirroring device webos) m of (m', out) \<Rightarrow>
            Inr ((s\<lparr>sm_isRunning := True\<rparr>, m'), out))
     else Inr ((s, m), sm_tell (ScreenMirroringDidStart False) s))"

definition stopMirroring :: "castEnv \<Rightarrow> ScreenMirroringService castOp" where
  "stopMirroring env sm = (case sm of (s, m) \<Rightarrow>
     if sm_isRunning s
     then (case throughManager (closeConnection (ce_keys env)) m of (m', out) \<Rightarrow>
            Inr ((s\<lparr>sm_isRunning := False\<rparr>, m'), ApiStopMirroring # out @ sm_tell (ScreenMirroringDidStop True) s))
     else Inr ((s, m), sm_tell (ScreenMirroringDidStop False) s))"

datatype sampleBufferType = SampleVideo | SampleAudioApp | SampleAudioMic

definition pushSampleBuffer :: "sampleBufferType \<Rightarrow> ScreenMirroringService \<Rightarrow> castOutput list" where
  "pushSampleBuffer type s =
     (if \<not> sm_isRunning s then [] else if type \<noteq> SampleVideo \<and> type \<noteq> SampleAudioApp then [] else [ApiPushSampleBuffer])"

text \<open>Sending a string message to nil answers zero, which is the value of \<open>NSOrderedSame\<close>.\<close>

definition isPortrait :: "string option \<Rightarrow> bool" where
  "isPortrait orientation = (case orientation of None \<Rightarrow> True | Some d \<Rightarrow> sameIgnoringCase d ''portrait'')"

definition orientationName :: "bool \<Rightarrow> string" where
  "orientationName portrait = (if portrait then ''portrait'' else ''landscape'')"

definition mediaSize :: "bool \<Rightarrow> int \<times> int" where
  "mediaSize portrait = (if portrait then (1080, 1920) else (1920, 1080))"

definition withVideoInfo :: "mirroringInfo \<Rightarrow> MirroringSourceCapability \<Rightarrow> MirroringSourceCapability" where
  "withVideoInfo info c = (case mi_videoInfo info of
      None \<Rightarrow> c
    | Some v \<Rightarrow> c\<lparr>src_videoCodec := vi_codec v, src_videoWidth := fst (mi_playerSize info), src_videoHeight := snd (mi_playerSize info),
        src_videoActiveWidth := vi_activeWidth v, src_videoActiveHeight := vi_activeHeight v, src_videoFramerate := vi_framerate v,
        src_videoBitrate := vi_bitrate v, src_videoClockRate := vi_samplingRate v,
        src_videoOrientation := Some (orientationName (vi_isPortraitMode v)), src_screenOrientation := vi_screenOrientation v\<rparr>)"

definition withAudioInfo :: "mirroringInfo \<Rightarrow> MirroringSourceCapability \<Rightarrow> MirroringSourceCapability" where
  "withAudioInfo info c = (case mi_audioInfo info of
      None \<Rightarrow> c
    | Some a \<Rightarrow> c\<lparr>src_audioCodec := ai_codec a, src_audioFrequency := ai_samplingRate a, src_audioClockRate := ai_samplingRate a,
        src_audioChannels := ai_channelCnt a, src_audioStreamMuxConfig := ai_streamMuxConfig a\<rparr>)"

definition sm_connectionCompleted :: "castEnv \<Rightarrow> jdict \<Rightarrow> ScreenMirroringService castOp" where
  "sm_connectionCompleted env values sm = (case sm of (s, m) \<Rightarrow>
     rbind (snk_initWithInfo values) (\<lambda>sink.
       let portrait = isPortrait (snk_displayOrientation sink);
           info = api_setMediaSettings (ce_mirroring env) portrait (mediaSize portrait);
           source = (withAudioInfo info (withVideoInfo info src_new))
             \<lparr>src_masterKeys := api_masterKey (ce_mirroring env) (snk_publicKey sink)\<rparr>
       in rbind (src_toNSDictionary source) (\<lambda>d.
            case throughManager (setSourceDeviceInfo (ce_keys env) (Some d) (Some (mc_toNSDictionary (ce_mobile env)))) m of (m', out) \<Rightarrow>
              Inr ((s\<lparr>sm_sinkCapability := Some sink, sm_sourceCapability := Some source\<rparr>, m'), out))))"

text \<open>The new size of the picture is sent while the service runs; the fields of a nil object read as zero.\<close>

definition withSize :: "mirroringInfo \<Rightarrow> MirroringSourceCapability \<Rightarrow> MirroringSourceCapability" where
  "withSize info c = c\<lparr>src_videoWidth := fst (mi_playerSize info), src_videoHeight := snd (mi_playerSize info),
     src_videoActiveWidth := (case mi_videoInfo info of None \<Rightarrow> 0 | Some v \<Rightarrow> vi_activeWidth v),
     src_videoActiveHeight := (case mi_videoInfo info of None \<Rightarrow> 0 | Some v \<Rightarrow> vi_activeHeight v),
     src_videoOrientation := Some (orientationName (case mi_videoInfo info of None \<Rightarrow> False | Some v \<Rightarrow> vi_isPortraitMode v))\<rparr>"

definition updateCapability :: "castEnv \<Rightarrow> jdict \<Rightarrow> ScreenMirroringService castOp" where
  "updateCapability env capability sm = (case sm of (s, m) \<Rightarrow>
     if \<not> sm_isRunning s then Inr ((s, m), [])
     else (case throughManager (sendSetParameter (ce_keys env) capability True) m of (m', out) \<Rightarrow> Inr ((s, m'), out)))"

definition resizeSource :: "castEnv \<Rightarrow> mirroringInfo \<Rightarrow> ScreenMirroringService castOp" where
  "resizeSource env info sm = (case sm of (s, m) \<Rightarrow> case sm_sourceCapability s of
      None \<Rightarrow> Inr ((s, m), [])
    | Some c \<Rightarrow> (let c' = withSize info c in
        updateCapability env (src_toNSDictionaryVideoSize c') (s\<lparr>sm_sourceCapability := Some c'\<rparr>, m)))"

definition sm_setParameter :: "castEnv \<Rightarrow> jdict \<Rightarrow> ScreenMirroringService castOp" where
  "sm_setParameter env values sm = (case sm of (s, m) \<Rightarrow>
     case objectForKey values ''mirroring'' of
       None \<Rightarrow> Inr ((s, m), [])
     | Some j \<Rightarrow> (case sm_sinkCapability s of
         None \<Rightarrow> Inr ((s, m), [])
       | Some sink \<Rightarrow> rbind (subscript j (Some ''displayOrientation'')) (\<lambda>o'.
           let s' = s\<lparr>sm_sinkCapability := Some (sink\<lparr>snk_displayOrientation := asString o'\<rparr>)\<rparr>
           in resizeSource env (api_updateDisplayOrientation (ce_mirroring env) (isPortrait (asString o'))) (s', m))))"

fun mirroringError :: "ConnectionError \<Rightarrow> ScreenMirroringError" where
  "mirroringError kConnectionErrorUnknown = ScreenMirroringErrorGeneric"
| "mirroringError kConnectionErrorConnectionClosed = ScreenMirroringErrorConnectionClosed"
| "mirroringError kConnectionErrorDeviceShutdown = ScreenMirroringErrorDeviceShutdown"
| "mirroringError kConnectionErrorRendererTerminated = ScreenMirroringErrorRendererTerminated"

text \<open>The messages of the manager.\<close>

fun sm_on :: "castEnv \<Rightarrow> cmEvent \<Rightarrow> ScreenMirroringService castOp" where
  "sm_on env OnPairingRequested sm = Inr (sm, [])"
| "sm_on env OnPairingRejected (s, m) = Inr ((s\<lparr>sm_isRunning := False\<rparr>, m), sm_tell (ScreenMirroringDidStart False) s)"
| "sm_on env (OnConnectionFailed t) (s, m) = Inr ((s\<lparr>sm_isRunning := False\<rparr>, m), sm_tell (ScreenMirroringDidStart False) s)"
| "sm_on env (OnConnectionCompleted v) sm = sm_connectionCompleted env v sm"
| "sm_on env (OnReceivePlayCommand v) (s, m) = Inr ((s, m),
     (case sm_sinkCapability s of
        None \<Rightarrow> [ApiStartMirroring None 0 0]
      | Some sink \<Rightarrow> [ApiStartMirroring (snk_ipAddress sink) (snk_audioUdpPort sink) (snk_videoUdpPort sink)]))"
| "sm_on env (OnReceiveStopCommand v) sm = Inr (sm, [])"
| "sm_on env (OnReceiveGetParameter v) sm = Inr (sm, [])"
| "sm_on env (OnReceiveSetParameter v) sm = sm_setParameter env v sm"
| "sm_on env (OnError e t) (s, m) = Inr ((s\<lparr>sm_isRunning := False\<rparr>, m),
     ApiStopMirroring # sm_tell (ScreenMirroringErrorDidOccur (mirroringError e)) s)"

text \<open>The messages of the library; its errors have the numbers of the errors of the connection.\<close>

definition lgcastMirroringDidStart :: "bool \<Rightarrow> ScreenMirroringService \<Rightarrow> castOutput list" where
  "lgcastMirroringDidStart result s = (if result then sm_tell (ScreenMirroringDidStart True) s else [])"

definition lgcastMirroringError :: "ConnectionError \<Rightarrow> ScreenMirroringService \<Rightarrow> ScreenMirroringService \<times> castOutput list" where
  "lgcastMirroringError e s = (s\<lparr>sm_isRunning := False\<rparr>, sm_tell (ScreenMirroringErrorDidOccur (mirroringError e)) s)"

definition lgcastMirroringUpdate :: "castEnv \<Rightarrow> mirroringInfo option \<Rightarrow> ScreenMirroringService castOp" where
  "lgcastMirroringUpdate env info sm = (case info of
      Some i \<Rightarrow> if mi_videoInfo i \<noteq> None then resizeSource env i sm else Inr (sm, [])
    | None \<Rightarrow> Inr (sm, []))"

section \<open>Remote camera\<close>

record RemoteCameraService =
  rc_delegate :: bool
  rc_isRunning :: bool
  rc_isPlaying :: bool
  rc_cameraParameter :: "CameraParameter option"
  rc_sourceCapability :: "CameraSourceCapability option"
  rc_sinkCapability :: "CameraSinkCapability option"

definition rc_tell :: "remoteCameraEvent \<Rightarrow> RemoteCameraService \<Rightarrow> castOutput list" where
  "rc_tell e s = (if rc_delegate s then [CameraTell e] else [])"

definition rc_initPrivate :: "ConnectionManager \<Rightarrow> RemoteCameraService \<times> ConnectionManager" where
  "rc_initPrivate m = (\<lparr>rc_delegate = False, rc_isRunning = False, rc_isPlaying = False, rc_cameraParameter = None,
     rc_sourceCapability = None, rc_sinkCapability = None\<rparr>, m\<lparr>cm_delegate := Some CameraClient\<rparr>)"

definition updateCameraParameter :: "castEnv \<Rightarrow> RemoteCameraService \<Rightarrow> RemoteCameraService" where
  "updateCameraParameter env s = (case cam_properties (ce_camera env) of
      None \<Rightarrow> s\<lparr>rc_cameraParameter := Some (case rc_cameraParameter s of None \<Rightarrow> cp_new | Some p \<Rightarrow> p)\<rparr>
    | Some info \<Rightarrow> s\<lparr>rc_cameraParameter := Some info\<rparr>)"

definition startRemoteCamera :: "castEnv \<Rightarrow> nat option \<Rightarrow> nat option \<Rightarrow> RemoteCameraService castOp" where
  "startRemoteCamera env device webos sm = (case sm of (s, m) \<Rightarrow>
     if \<not> rc_isRunning s
     then (case throughManager (openConnection kServiceTypeRemoteCamera device webos) m of (m', out) \<Rightarrow>
            Inr ((updateCameraParameter env (s\<lparr>rc_isRunning := True, rc_isPlaying := False\<rparr>), m'), out))
     else Inr ((s, m), rc_tell (RemoteCameraDidStart False) s))"

definition stopRemoteCamera :: "castEnv \<Rightarrow> RemoteCameraService castOp" where
  "stopRemoteCamera env sm = (case sm of (s, m) \<Rightarrow>
     if rc_isRunning s
     then (case throughManager (closeConnection (ce_keys env)) m of (m', out) \<Rightarrow>
            Inr ((s\<lparr>rc_isRunning := False, rc_isPlaying := False\<rparr>, m'), ApiStopCamera # out @ rc_tell (RemoteCameraDidStop True) s))
     else Inr ((s, m), rc_tell (RemoteCameraDidStop False) s))"

text \<open>A message to a nil parameter object changes nothing and answers nil, which cannot be put into the command.\<close>

definition changeParameter ::
  "castEnv \<Rightarrow> bool \<Rightarrow> (CameraParameter \<Rightarrow> CameraParameter \<times> jdict) \<Rightarrow> RemoteCameraService castOp" where
  "changeParameter env result f sm = (case sm of (s, m) \<Rightarrow>
     if rc_isPlaying s \<and> result
     then (case rc_cameraParameter s of
             None \<Rightarrow> if Option.bind (cm_service m) (ce_keys env) = None then Inr ((s, m), []) else Inl NSInvalidArgumentException
           | Some p \<Rightarrow> (case f p of (p', values) \<Rightarrow>
               case throughManager (sendSetParameter (ce_keys env) values False) m of (m', out) \<Rightarrow>
                 Inr ((s\<lparr>rc_cameraParameter := Some p'\<rparr>, m'), out)))
     else Inr ((s, m), []))"

definition setLensFacing :: "castEnv \<Rightarrow> int \<Rightarrow> RemoteCameraService castOp" where
  "setLensFacing env f = changeParameter env (cam_changePosition (ce_camera env) f) (cp_setFacing f)"

definition setMicMute :: "castEnv \<Rightarrow> bool \<Rightarrow> RemoteCameraService castOp" where
  "setMicMute env mute = changeParameter env (cam_muteMicrophone (ce_camera env) mute) (cp_setAudio mute)"

definition rc_connectionCompleted :: "castEnv \<Rightarrow> jdict \<Rightarrow> RemoteCameraService castOp" where
  "rc_connectionCompleted env values sm = (case sm of (s, m) \<Rightarrow>
     rbind (csk_initWithJSON values) (\<lambda>sink.
       let source = \<lparr>csr_resolutions = cam_resolutions (ce_camera env),
                     csr_masterKeys = cam_masterKey (ce_camera env) (csk_publicKey sink)\<rparr>
       in rbind (csr_toNSDictionary source) (\<lambda>d.
            case throughManager (setSourceDeviceInfo (ce_keys env) (Some d) (Some (mc_toNSDictionary (ce_mobile env)))) m of (m', out) \<Rightarrow>
              Inr ((s\<lparr>rc_sinkCapability := Some sink, rc_sourceCapability := Some source\<rparr>, m'),
                   out @ rc_tell (RemoteCameraDidStart True) s))))"

definition rc_play :: "jdict \<Rightarrow> RemoteCameraService castOp" where
  "rc_play values sm = (case sm of (s, m) \<Rightarrow>
     case objectForKey values ''camera'' of
       None \<Rightarrow> Inr ((s, m), [])
     | Some j \<Rightarrow>
         (let int = (\<lambda>k. rbind (subscript j (Some k)) intValue) in
          rbind (int ''videoPort'') (\<lambda>videoPort. rbind (int ''audioPort'') (\<lambda>audioPort.
          rbind (int ''width'') (\<lambda>width. rbind (int ''height'') (\<lambda>height.
            Inr ((s\<lparr>rc_isPlaying := True\<rparr>, m),
              [ApiSetResolution width height,
               ApiStartCamera (Option.bind (rc_sinkCapability s) csk_ipAddress) videoPort audioPort]
              @ rc_tell RemoteCameraDidPlay s)))))))"

text \<open>
  One setting of \<open>onReceiveSetParameter:\<close>: if the value is there, the library is asked to apply it, the parameter and the
  answer follow its result. A nil parameter object leaves the answer nil.
\<close>

definition applySetting ::
  "castEnv \<Rightarrow> cameraProperty \<Rightarrow> json option \<Rightarrow> (json option \<Rightarrow> 'v result) \<Rightarrow> ('v \<Rightarrow> int) \<Rightarrow>
   (bool \<Rightarrow> 'v \<Rightarrow> CameraParameter \<Rightarrow> CameraParameter \<times> jdict) \<Rightarrow> castOutput list \<Rightarrow>
   RemoteCameraService \<times> jdict option \<times> castOutput list \<Rightarrow> (RemoteCameraService \<times> jdict option \<times> castOutput list) result" where
  "applySetting env property value conv code answer event st = (case st of (s, response, out) \<Rightarrow>
     if value = None then Inr st
     else rbind (conv value) (\<lambda>v. Inr (case rc_cameraParameter s of
            None \<Rightarrow> (s, None, out @ event)
          | Some p \<Rightarrow> (case answer (cam_setProperty (ce_camera env) property (code v)) v p of
              (p', d) \<Rightarrow> (s\<lparr>rc_cameraParameter := Some p'\<rparr>, Some d, out @ event)))))"

definition boolCode :: "bool \<Rightarrow> int" where
  "boolCode b = (if b then 1 else 0)"

text \<open>The facing is looked up in the whole message, the other settings in its camera member.\<close>

definition rc_setParameter :: "castEnv \<Rightarrow> jdict \<Rightarrow> RemoteCameraService castOp" where
  "rc_setParameter env values sm = (case sm of (s, m) \<Rightarrow>
     case objectForKey values ''camera'' of
       None \<Rightarrow> Inr ((s, m), [])
     | Some j \<Rightarrow>
         rbind (subscript j (Some ''brightness'')) (\<lambda>brightness. rbind (subscript j (Some ''whiteBalance'')) (\<lambda>whiteBalance.
         rbind (subscript j (Some ''autoWhiteBalance'')) (\<lambda>autoWhiteBalance. rbind (subscript j (Some ''audio'')) (\<lambda>audio.
         rbind (applySetting env CameraBrightness brightness intValue id cp_brightnessResult
                  (rc_tell (RemoteCameraDidChange RemoteCameraPropertyBrightness) s) (s, None, [])) (\<lambda>s1.
         rbind (applySetting env CameraWhitebalance whiteBalance intValue id cp_whiteBalanceResult
                  (rc_tell (RemoteCameraDidChange RemoteCameraPropertyWhiteBalance) s) s1) (\<lambda>s2.
         rbind (applySetting env CameraAutoWhiteBalance autoWhiteBalance boolValue boolCode cp_autoWhiteBalanceResult [] s2) (\<lambda>s3.
         rbind (applySetting env CameraFacing (objectForKey values ''facing'') intValue id cp_facingResult [] s3) (\<lambda>s4.
         rbind (applySetting env CameraAudio audio boolValue boolCode cp_audioResult [] s4) (\<lambda>(s5, response, out).
           case response of
             None \<Rightarrow> Inr ((s5, m), out)
           | Some d \<Rightarrow> (case throughManager (sendSetParameterResponse (ce_keys env) d) m of (m', out') \<Rightarrow>
               Inr ((s5, m'), out @ out'))))))))))))"

fun cameraError :: "ConnectionError \<Rightarrow> RemoteCameraError" where
  "cameraError kConnectionErrorUnknown = RemoteCameraErrorGeneric"
| "cameraError kConnectionErrorConnectionClosed = RemoteCameraErrorConnectionClosed"
| "cameraError kConnectionErrorDeviceShutdown = RemoteCameraErrorDeviceShutdown"
| "cameraError kConnectionErrorRendererTerminated = RemoteCameraErrorRendererTerminated"

fun rc_on :: "castEnv \<Rightarrow> cmEvent \<Rightarrow> RemoteCameraService castOp" where
  "rc_on env OnPairingRequested (s, m) = Inr ((s, m), rc_tell RemoteCameraDidPair s)"
| "rc_on env OnPairingRejected (s, m) = Inr ((s\<lparr>rc_isRunning := False\<rparr>, m), rc_tell (RemoteCameraDidStart False) s)"
| "rc_on env (OnConnectionFailed t) (s, m) =
     Inr ((s\<lparr>rc_isRunning := False, rc_isPlaying := False\<rparr>, m), rc_tell (RemoteCameraDidStart False) s)"
| "rc_on env (OnConnectionCompleted v) sm = rc_connectionCompleted env v sm"
| "rc_on env (OnReceivePlayCommand v) sm = rc_play v sm"
| "rc_on env (OnReceiveStopCommand v) (s, m) = Inr ((s\<lparr>rc_isPlaying := False\<rparr>, m), [ApiPauseCamera])"
| "rc_on env (OnReceiveGetParameter v) (s, m) =
     (let s' = updateCameraParameter env s in
      case throughManager (sendGetParameterResponse (ce_keys env) (cp_toNSDictionary (the (rc_cameraParameter s')))) m of (m', out) \<Rightarrow>
        Inr ((s', m'), out))"
| "rc_on env (OnReceiveSetParameter v) sm = rc_setParameter env v sm"
| "rc_on env (OnError e t) (s, m) = (case throughManager (closeConnection (ce_keys env)) m of (m', out) \<Rightarrow>
     Inr ((s\<lparr>rc_isRunning := False, rc_isPlaying := False\<rparr>, m'),
       ApiStopCamera # out @ rc_tell (RemoteCameraErrorDidOccur (cameraError e)) s))"

text \<open>
  The messages of the library. A change other than of the rotation is meant to be told with its property, but the
  switch is over the variable that holds the unknown property, so that this is what is always told.
\<close>

definition lgcastCameraDidChange :: "castEnv \<Rightarrow> cameraProperty \<Rightarrow> RemoteCameraService castOp" where
  "lgcastCameraDidChange env property sm = (case sm of (s, m) \<Rightarrow>
     if \<not> rc_isPlaying s then Inr ((s, m), [])
     else if property = CameraRotation
     then (let s' = updateCameraParameter env s in
           case throughManager (sendSetParameter (ce_keys env) [(''rotation'', jint (cp_rotation (the (rc_cameraParameter s'))))] False) m of
             (m', out) \<Rightarrow> Inr ((s', m'), out))
     else Inr ((s, m), rc_tell (RemoteCameraDidChange RemoteCameraPropertyUnknown) s))"

definition lgcastCameraDidPlay :: "RemoteCameraService \<Rightarrow> castOutput list" where
  "lgcastCameraDidPlay s = rc_tell RemoteCameraDidPlay s"

definition lgcastCameraError :: "ConnectionError \<Rightarrow> RemoteCameraService \<Rightarrow> RemoteCameraService \<times> castOutput list" where
  "lgcastCameraError e s = (s\<lparr>rc_isRunning := False\<rparr>, rc_tell (RemoteCameraErrorDidOccur (cameraError e)) s)"

section \<open>The two services and the manager together\<close>

record castSystem =
  cs_manager :: ConnectionManager
  cs_mirroring :: ScreenMirroringService
  cs_camera :: RemoteCameraService

text \<open>
  A report of the manager goes to its delegate at once. It is always the last thing an operation of the manager does,
  so that it is handled here after the operation.
\<close>

definition deliver :: "castEnv \<Rightarrow> cmOutput \<Rightarrow> castSystem \<Rightarrow> (castSystem \<times> castOutput list) result" where
  "deliver env x c = (case x of
      CmTell MirroringClient e \<Rightarrow> rbind (sm_on env e (cs_mirroring c, cs_manager c)) (\<lambda>((s, m), out).
        Inr (c\<lparr>cs_mirroring := s, cs_manager := m\<rparr>, out))
    | CmTell CameraClient e \<Rightarrow> rbind (rc_on env e (cs_camera c, cs_manager c)) (\<lambda>((s, m), out).
        Inr (c\<lparr>cs_camera := s, cs_manager := m\<rparr>, out))
    | _ \<Rightarrow> Inr (c, [FromManager x]))"

fun deliverAll :: "castEnv \<Rightarrow> cmOutput list \<Rightarrow> castSystem \<Rightarrow> (castSystem \<times> castOutput list) result" where
  "deliverAll env [] c = Inr (c, [])"
| "deliverAll env (x # xs) c = rbind (deliver env x c) (\<lambda>(c1, out).
     rbind (deliverAll env xs c1) (\<lambda>(c2, out'). Inr (c2, out @ out')))"

text \<open>An event of the manager: what happens on the network or at the device, with all it leads to.\<close>

definition cs_network :: "castEnv \<Rightarrow> cmInput \<Rightarrow> castSystem \<Rightarrow> (castSystem \<times> castOutput list) result" where
  "cs_network env i c = rbind (cm_handle (ce_keys env) i (cs_manager c)) (\<lambda>(m, out).
     deliverAll env out (c\<lparr>cs_manager := m\<rparr>))"

text \<open>What the delegates of the two services hear.\<close>

fun heard :: "castOutput list \<Rightarrow> castOutput list" where
  "heard [] = []"
| "heard (MirroringTell e # out) = MirroringTell e # heard out"
| "heard (CameraTell e # out) = CameraTell e # heard out"
| "heard (_ # out) = heard out"

lemma heard_append [simp]: "heard (xs @ ys) = heard xs @ heard ys"
  by (induction xs rule: heard.induct) simp_all

lemma heard_manager [simp]: "heard (map FromManager xs) = []"
  by (induction xs) simp_all

text \<open>The report of a failure that the application hears from each service.\<close>

fun mirroringReport :: "cmEvent \<Rightarrow> screenMirroringEvent" where
  "mirroringReport (OnError e t) = ScreenMirroringErrorDidOccur (mirroringError e)"
| "mirroringReport _ = ScreenMirroringDidStart False"

fun cameraReport :: "cmEvent \<Rightarrow> remoteCameraEvent" where
  "cameraReport (OnError e t) = RemoteCameraErrorDidOccur (cameraError e)"
| "cameraReport _ = RemoteCameraDidStart False"

definition isFailure :: "cmEvent \<Rightarrow> bool" where
  "isFailure e \<longleftrightarrow> (case e of OnConnectionFailed t \<Rightarrow> True | OnError er t \<Rightarrow> True | _ \<Rightarrow> False)"

lemma ends_with_failure: "ends_with m i e \<Longrightarrow> isFailure e"
  by (induction rule: ends_with.induct) (simp_all add: isFailure_def)

lemma sm_failure:
  assumes "isFailure e"
  shows "\<exists>s' out. sm_on env e (s, m) = Inr ((s', m), out) \<and> \<not> sm_isRunning s' \<and> sm_delegate s' = sm_delegate s
           \<and> heard out = sm_tell (mirroringReport e) s"
  using assms by (cases e) (auto simp: isFailure_def sm_tell_def)

lemma rc_failure:
  assumes "isFailure e" and "cm_currentState m = kConnectionStateNone" and "cm_tvDevice m = None" and "\<not> cm_keepAliveTimer m"
  shows "\<exists>s' m' out. rc_on env e (s, m) = Inr ((s', m'), out) \<and> \<not> rc_isRunning s' \<and> \<not> rc_isPlaying s'
           \<and> cm_currentState m' = kConnectionStateNone \<and> cm_tvDevice m' = None \<and> \<not> cm_keepAliveTimer m'
           \<and> heard out = rc_tell (cameraReport e) s"
  using assms
  by (cases e) (auto simp: isFailure_def rc_tell_def throughManager_def case_prod_beta fst_closeConnection)

text \<open>Outputs without a report are handed on; a report is handled where it stands.\<close>

lemma deliver_quiet: "tells [x] = [] \<Longrightarrow> deliver env x c = Inr (c, [FromManager x])"
  by (cases x) (auto simp: deliver_def)

lemma deliverAll_one:
  assumes "tells xs = [(k, e)]"
  shows "\<exists>pre post. (\<forall>c. deliverAll env xs c = rbind (deliver env (CmTell k e) c) (\<lambda>(c', out).
           Inr (c', map FromManager pre @ out @ map FromManager post)))"
  using assms
proof (induction xs)
  case (Cons x xs)
  have none: "tells ys = [] \<Longrightarrow> deliverAll env ys c = Inr (c, map FromManager ys)" for ys c
  proof (induction ys arbitrary: c)
    case (Cons y ys)
    then have "tells [y] = []" "tells ys = []" by (cases y; simp)+
    with Cons.IH show ?case by (simp add: deliver_quiet)
  qed simp
  show ?case
  proof (cases "tells [x] = []")
    case True
    then have "tells xs = [(k, e)]" using Cons.prems by (cases x) auto
    with Cons.IH obtain pre post where "\<forall>c. deliverAll env xs c = rbind (deliver env (CmTell k e) c) (\<lambda>(c', out).
           Inr (c', map FromManager pre @ out @ map FromManager post))" by blast
    with True have "\<forall>c. deliverAll env (x # xs) c = rbind (deliver env (CmTell k e) c) (\<lambda>(c', out).
           Inr (c', map FromManager (x # pre) @ out @ map FromManager post))"
      by (auto simp: deliver_quiet rbind_def split: sum.split)
    then show ?thesis by blast
  next
    case False
    then have x: "x = CmTell k e" and "tells xs = []" using Cons.prems by (cases x; auto)+
    then have "\<forall>c. deliverAll env (x # xs) c = rbind (deliver env (CmTell k e) c) (\<lambda>(c', out).
           Inr (c', map FromManager [] @ out @ map FromManager xs))"
      using none by (auto simp: rbind_def split: sum.split)
    then show ?thesis by blast
  qed
qed simp


definition sample_castEnv :: castEnv where
  "sample_castEnv = \<lparr>ce_keys = sample_keys, ce_mobile = mc_init None ''iPhone'' ''phone'',
     ce_mirroring = \<lparr>api_setMediaSettings = (\<lambda>_ s. \<lparr>mi_playerSize = s, mi_videoInfo = None, mi_audioInfo = None\<rparr>),
       api_masterKey = (\<lambda>_. []), api_updateDisplayOrientation = (\<lambda>_. \<lparr>mi_playerSize = (0, 0), mi_videoInfo = None, mi_audioInfo = None\<rparr>)\<rparr>,
     ce_camera = \<lparr>cam_properties = None, cam_masterKey = (\<lambda>_. []), cam_resolutions = [], cam_setProperty = (\<lambda>_ _. True),
       cam_changePosition = (\<lambda>_. True), cam_muteMicrophone = (\<lambda>_. True)\<rparr>\<rparr>"

definition sample_castSystem :: castSystem where
  "sample_castSystem = \<lparr>cs_manager = cm_sharedInstance\<lparr>cm_delegate := Some MirroringClient\<rparr>,
     cs_mirroring = (fst (sm_initPrivate cm_sharedInstance))\<lparr>sm_delegate := True, sm_isRunning := True\<rparr>,
     cs_camera = (fst (rc_initPrivate cm_sharedInstance))\<lparr>rc_delegate := True\<rparr>\<rparr>"


section \<open>Deviations\<close>

text \<open>
  Both services make themselves the only delegate of the shared manager when they are created. After the second one
  exists, the first hears nothing: a mirroring session that completes is reported by the camera service, which tells
  its delegate that the camera has started and describes the camera to the TV.
\<close>

lemma cast_last_service_takes_over:
  assumes "sm_initPrivate m = (s, m1)" and "rc_initPrivate m1 = (r, m2)" and "cam_masterKey (ce_camera env) None = []"
    and "c = \<lparr>cs_manager = m2, cs_mirroring = s\<lparr>sm_delegate := True, sm_isRunning := True\<rparr>, cs_camera = r\<lparr>rc_delegate := True\<rparr>\<rparr>"
  shows "\<exists>c' out. cs_network env (InSucceeded PendingGetParameter (Some [])) c = Inr (c', out)
           \<and> heard out = [CameraTell (RemoteCameraDidStart True)]"
proof -
  have "cm_delegate m2 = Some CameraClient" "rc_delegate (cs_camera c)" using assms by (auto simp: rc_initPrivate_def)
  then show ?thesis
    using assms(3,4)
    by (simp add: cs_network_def callOnConnectionCompleted_def cm_then_def cm_setState_def cm_tell_def deliver_def
        rc_connectionCompleted_def csk_initWithJSON_def csr_toNSDictionary_def throughManager_def rc_tell_def Let_def case_prod_beta)
qed

text \<open>An error of the library stops the service but leaves the connection; stopping afterwards is refused.\<close>

lemma cast_library_error_leaves_connection:
  assumes "lgcastMirroringError e s = (s', out)" and "sm_delegate s"
  shows "stopMirroring env (s', m) = Inr ((s', m), [MirroringTell (ScreenMirroringDidStop False)])"
  using assms by (auto simp: lgcastMirroringError_def stopMirroring_def sm_tell_def)

text \<open>Starting without a device leaves the service running with no connection and no report.\<close>

lemma cast_start_without_device_is_silent:
  "\<not> sm_isRunning s \<Longrightarrow> startMirroring None webos (s, m) = Inr ((s\<lparr>sm_isRunning := True\<rparr>, m), [])"
  by (simp add: startMirroring_def throughManager_def openConnection_def)

text \<open>A TV that sends no mirroring member is taken for a portrait display, and its empty address is kept.\<close>

lemma cast_sink_defaults:
  "\<exists>sink. snk_initWithInfo [(''ipAddress'', JStr '''')] = Inr sink \<and> isPortrait (snk_displayOrientation sink)
     \<and> snk_ipAddress sink = Some '''' \<and> snk_keepAliveTimeout sink = 60"
  by (simp add: snk_initWithInfo_def whenFilled_def filledDict_def objectForKey_Cons isPortrait_def)

text \<open>A nil version cuts the description of the phone short.\<close>

lemma cast_mobile_truncated: "mc_toNSDictionary (mc_init None model name) = [(''type'', JStr ''phone'')]"
  by (simp add: mc_toNSDictionary_def mc_init_def)

text \<open>Muting the microphone is sent as audio on.\<close>

lemma cast_mute_sends_audio_on: "snd (cp_setAudio True p) = [(''audio'', JBool True)]"
  by (simp add: cp_setAudio_def)

end
