(* ===== verification/DevicePicker.thy ===== *)
theory DevicePicker
  imports DeviceStore "HOL-Library.Char_ord" "HOL-Library.List_Lexorder"
begin

text \<open>
  \<open>src/Devices/DevicePicker\<close>: the list of devices offered to the user, how it follows the discovery manager, and
  what a choice leads to. The views themselves are left out: the state records which of them is shown. The list is
  sorted by blocks on a serial queue, whose pending runs are counted.
\<close>

section \<open>State\<close>

datatype dpSelector = DpSelDidSelectDevice | DpSelDidCancel

datatype dpOutput =
    DidSelectDevice "nat option"
  | DidCancelWithError
  | ReloadData

record DevicePicker =
  dp_delegate :: "dpSelector list option"
  dp_shouldAnimatePicker :: bool
  dp_shouldAutoRotate :: bool
  dp_currentDevice :: "nat option"
  dp_devices :: "nat nsdict"
  dp_generated :: "nat list option"
  dp_pendingSorts :: nat
  dp_tableShown :: bool
  dp_actionSheet :: "nat list option"
  dp_showServiceLabel :: bool

definition dp_init :: DevicePicker where
  "dp_init = \<lparr>dp_delegate = None, dp_shouldAnimatePicker = True, dp_shouldAutoRotate = False, dp_currentDevice = None,
     dp_devices = [], dp_generated = None, dp_pendingSorts = 0, dp_tableShown = False, dp_actionSheet = None,
     dp_showServiceLabel = False\<rparr>"

definition dp_tell :: "dpSelector \<Rightarrow> dpOutput \<Rightarrow> DevicePicker \<Rightarrow> dpOutput list" where
  "dp_tell sel e p = (case dp_delegate p of None \<Rightarrow> [] | Some ss \<Rightarrow> if sel \<in> set ss then [e] else [])"

definition dp_reload :: "DevicePicker \<Rightarrow> dpOutput list" where
  "dp_reload p = (if dp_tableShown p then [ReloadData] else [])"

section \<open>The list\<close>

text \<open>The name a device is listed under; \<open>unnamed\<close> is the localised name of a device without one.\<close>

definition nameForDevice :: "string \<Rightarrow> world \<Rightarrow> nat \<Rightarrow> string" where
  "nameForDevice unnamed w r =
     (let sd = map_option (w_sd w) (cd_description (w_dev w r)) in
      case Option.bind sd sd_friendlyName of
        Some n \<Rightarrow> if n \<noteq> [] then n else (case Option.bind sd sd_address of
            Some a \<Rightarrow> if a \<noteq> [] then a else unnamed | None \<Rightarrow> unnamed)
      | None \<Rightarrow> (case Option.bind sd sd_address of Some a \<Rightarrow> if a \<noteq> [] then a else unnamed | None \<Rightarrow> unnamed))"

definition sortKey :: "string \<Rightarrow> world \<Rightarrow> nat \<Rightarrow> string" where
  "sortKey unnamed w r = lowercaseString (nameForDevice unnamed w r)"

definition sortDevices :: "DevicePicker \<Rightarrow> DevicePicker" where
  "sortDevices p = p\<lparr>dp_pendingSorts := Suc (dp_pendingSorts p)\<rparr>"

text \<open>The block of \<open>sortDevices\<close>, when the sort queue comes to it.\<close>

definition runSort :: "string \<Rightarrow> world \<Rightarrow> DevicePicker \<Rightarrow> DevicePicker" where
  "runSort unnamed w p =
     (if dp_pendingSorts p = 0 then p
      else p\<lparr>dp_pendingSorts := dp_pendingSorts p - 1,
             dp_generated := Some (sort_key (sortKey unnamed w) (allValues (dp_devices p)))\<rparr>)"

text \<open>The messages of the discovery manager; a device without an address cannot be filed.\<close>

definition dp_didFindDevice :: "world \<Rightarrow> nat \<Rightarrow> DevicePicker \<Rightarrow> (DevicePicker \<times> dpOutput list) result" where
  "dp_didFindDevice w r p = rbind (setObjectN r (cd_address (w_sd w) (w_dev w r)) (dp_devices p)) (\<lambda>t.
     Inr (sortDevices (p\<lparr>dp_devices := t\<rparr>), dp_reload p))"

definition dp_didLoseDevice :: "world \<Rightarrow> nat \<Rightarrow> DevicePicker \<Rightarrow> (DevicePicker \<times> dpOutput list) result" where
  "dp_didLoseDevice w r p = rbind (removeObjectForKeyN (cd_address (w_sd w) (w_dev w r)) (dp_devices p)) (\<lambda>t.
     Inr (sortDevices (p\<lparr>dp_devices := t\<rparr>), dp_reload p))"

definition dp_didUpdateDevice :: "DevicePicker \<Rightarrow> dpOutput list" where
  "dp_didUpdateDevice p = dp_reload p"

section \<open>Showing and choosing\<close>

text \<open>The services of a device are shown only when there are no capability filters.\<close>

definition showPicker :: "nat \<Rightarrow> DevicePicker \<Rightarrow> DevicePicker" where
  "showPicker filterCount p = (sortDevices p)\<lparr>dp_showServiceLabel := filterCount = 0, dp_tableShown := True\<rparr>"

definition showActionSheet :: "DevicePicker \<Rightarrow> DevicePicker" where
  "showActionSheet p = p\<lparr>dp_actionSheet := Some (case dp_generated p of None \<Rightarrow> [] | Some ds \<Rightarrow> ds)\<rparr>"

definition cleanupViews :: "DevicePicker \<Rightarrow> DevicePicker" where
  "cleanupViews p = p\<lparr>dp_actionSheet := None, dp_tableShown := False\<rparr>"

definition dismissPicker :: "DevicePicker \<Rightarrow> DevicePicker \<times> dpOutput list" where
  "dismissPicker p = (cleanupViews p, dp_tell DpSelDidCancel DidCancelWithError p)"

definition dp_setCurrentDevice :: "nat option \<Rightarrow> DevicePicker \<Rightarrow> DevicePicker \<times> dpOutput list" where
  "dp_setCurrentDevice r p = (p\<lparr>dp_currentDevice := r\<rparr>, dp_reload p)"

text \<open>The cancel button is the last one. A device that was lost meanwhile is not chosen.\<close>

definition clickedButtonAtIndex :: "nat \<Rightarrow> DevicePicker \<Rightarrow> dpOutput list result" where
  "clickedButtonAtIndex buttonIndex p = (case dp_actionSheet p of
      None \<Rightarrow> Inr []
    | Some ds \<Rightarrow>
        if buttonIndex = length ds then Inr []
        else if length ds < buttonIndex then Inl NSRangeException
        else let device = ds ! buttonIndex in
          if (case dp_generated p of None \<Rightarrow> False | Some gs \<Rightarrow> device \<in> set gs)
          then Inr (dp_tell DpSelDidSelectDevice (DidSelectDevice (Some device)) p) else Inr [])"

definition sameAddress :: "world \<Rightarrow> nat \<Rightarrow> nat \<Rightarrow> bool" where
  "sameAddress w a b \<longleftrightarrow>
     isEqualToString (Option.bind (cd_description (w_dev w a)) (\<lambda>q. sd_address (w_sd w q)))
       (Option.bind (cd_description (w_dev w b)) (\<lambda>q. sd_address (w_sd w q)))"

text \<open>
  Choosing the current device again does nothing; otherwise the picker is dismissed after the choice. Without a list
  the chosen device is nil.
\<close>

definition didSelectRow :: "world \<Rightarrow> nat \<Rightarrow> DevicePicker \<Rightarrow> (DevicePicker \<times> dpOutput list) result" where
  "didSelectRow w row p =
     rbind (case dp_generated p of
              None \<Rightarrow> Inr None
            | Some ds \<Rightarrow> if row < length ds then Inr (Some (ds ! row)) else Inl NSRangeException) (\<lambda>device.
       if (case (dp_currentDevice p, device) of (Some c, Some d) \<Rightarrow> sameAddress w c d | _ \<Rightarrow> False) then Inr (p, [])
       else (case dismissPicker p of (p', out) \<Rightarrow>
               Inr (p', dp_tell DpSelDidSelectDevice (DidSelectDevice device) p @ out)))"

definition numberOfRows :: "DevicePicker \<Rightarrow> nat" where
  "numberOfRows p = (case dp_generated p of None \<Rightarrow> 0 | Some ds \<Rightarrow> length ds)"

datatype accessory = AccessoryCheckmark | AccessoryNone

text \<open>A cell: its title, its detail text and its accessory, the last two only when they are set.\<close>

definition cellForRow ::
  "string \<Rightarrow> world \<Rightarrow> nat \<Rightarrow> DevicePicker \<Rightarrow> (string \<times> string option \<times> accessory option) option result" where
  "cellForRow unnamed w row p = (case dp_generated p of
      None \<Rightarrow> Inr None
    | Some ds \<Rightarrow>
        if row < length ds
        then let device = ds ! row in
          rbind (if dp_showServiceLabel p then rbind (connectedServiceNames (w_dev w device)) (\<lambda>t. Inr (Some t)) else Inr None)
            (\<lambda>detail. Inr (Some (nameForDevice unnamed w device, detail,
                map_option (\<lambda>c. if sameAddress w c device then AccessoryCheckmark else AccessoryNone) (dp_currentDevice p))))
        else Inr None)"

section \<open>The list follows the discovery manager\<close>

datatype pickerEvent = PickerFinds nat | PickerLoses nat | PickerUpdates nat | PickerSorts | PickerShows nat | PickerDismissed

fun pickerStep :: "string \<Rightarrow> world \<Rightarrow> pickerEvent \<Rightarrow> DevicePicker \<Rightarrow> DevicePicker result" where
  "pickerStep unnamed w (PickerFinds r) p = rbind (dp_didFindDevice w r p) (\<lambda>x. Inr (fst x))"
| "pickerStep unnamed w (PickerLoses r) p = rbind (dp_didLoseDevice w r p) (\<lambda>x. Inr (fst x))"
| "pickerStep unnamed w (PickerUpdates r) p = Inr p"
| "pickerStep unnamed w PickerSorts p = Inr (runSort unnamed w p)"
| "pickerStep unnamed w (PickerShows n) p = Inr (showPicker n p)"
| "pickerStep unnamed w PickerDismissed p = Inr (fst (dismissPicker p))"

fun pickerRun :: "string \<Rightarrow> world \<Rightarrow> pickerEvent list \<Rightarrow> DevicePicker \<Rightarrow> DevicePicker result" where
  "pickerRun unnamed w [] p = Inr p"
| "pickerRun unnamed w (e # es) p = rbind (pickerStep unnamed w e p) (pickerRun unnamed w es)"

text \<open>The devices found and not lost since.\<close>

fun presentAfter :: "pickerEvent \<Rightarrow> nat set \<Rightarrow> nat set" where
  "presentAfter (PickerFinds r) ds = insert r ds"
| "presentAfter (PickerLoses r) ds = ds - {r}"
| "presentAfter _ ds = ds"

fun mentioned :: "pickerEvent \<Rightarrow> nat set" where
  "mentioned (PickerFinds r) = {r}"
| "mentioned (PickerLoses r) = {r}"
| "mentioned _ = {}"

definition addressIn :: "world \<Rightarrow> nat \<Rightarrow> string option" where
  "addressIn w r = cd_address (w_sd w) (w_dev w r)"

definition shownDevices :: "DevicePicker \<Rightarrow> nat list" where
  "shownDevices p = (case dp_generated p of None \<Rightarrow> [] | Some ds \<Rightarrow> ds)"

definition picker_inv :: "string \<Rightarrow> world \<Rightarrow> nat set \<Rightarrow> DevicePicker \<Rightarrow> bool" where
  "picker_inv unnamed w ds p \<longleftrightarrow> dict_wf (dp_devices p) \<and> snd ` set (dp_devices p) = ds
     \<and> (\<forall>(a, r)\<in>set (dp_devices p). addressIn w r = Some a)
     \<and> (dp_pendingSorts p = 0 \<longrightarrow> shownDevices p = sort_key (sortKey unnamed w) (allValues (dp_devices p)))"

lemma pickerStep_inv:
  assumes inv: "picker_inv unnamed w ds p" and U: "inj_on (addressIn w) U" "ds \<union> mentioned e \<subseteq> U"
    and step: "pickerStep unnamed w e p = Inr p'"
  shows "picker_inv unnamed w (presentAfter e ds) p'"
proof -
  have same: "r' = r" if "(a, r') \<in> set (dp_devices p)" "r \<in> U" "addressIn w r = Some a" for a r r'
  proof -
    have "r' \<in> U" "addressIn w r' = Some a" using that(1) inv U(2) by (force simp: picker_inv_def)+
    with that(2,3) U(1) show ?thesis by (metis inj_onD)
  qed
  show ?thesis
  proof (cases e)
    case (PickerFinds r)
    then obtain a t where a: "addressIn w r = Some a" "t = setObject r a (dp_devices p)" "p' = sortDevices (p\<lparr>dp_devices := t\<rparr>)"
      using step by (auto simp: dp_didFindDevice_def addressIn_def rbind_Inr_iff setObjectN_def split: option.split_asm)
    have wf: "dict_wf (dp_devices p)" using inv by (simp add: picker_inv_def)
    have "set t = {(a, r)} \<union> {q \<in> set (dp_devices p). fst q \<noteq> a}" using a(2) wf by (simp add: set_setObject)
    moreover have "r \<in> U" using U(2) PickerFinds by simp
    ultimately have "snd ` set t = insert r ds"
      using inv same [OF _ _ a(1)] by (force simp: picker_inv_def image_iff)
    moreover have "\<forall>(b, q)\<in>set t. addressIn w q = Some b"
      using inv a(1) \<open>set t = _\<close> by (auto simp: picker_inv_def)
    ultimately show ?thesis
      using wf a PickerFinds by (simp add: picker_inv_def sortDevices_def nsd.wf_upd nsd.wf_del)
  next
    case (PickerLoses r)
    then obtain a t where a: "addressIn w r = Some a" "t = removeObjectForKey a (dp_devices p)" "p' = sortDevices (p\<lparr>dp_devices := t\<rparr>)"
      using step by (auto simp: dp_didLoseDevice_def addressIn_def rbind_Inr_iff removeObjectForKeyN_def split: option.split_asm)
    have wf: "dict_wf (dp_devices p)" using inv by (simp add: picker_inv_def)
    have t: "set t = {q \<in> set (dp_devices p). fst q \<noteq> a}" using a(2) wf by (simp add: set_removeObjectForKey)
    have "r \<in> U" using U(2) PickerLoses by simp
    have "snd ` set t = ds - {r}"
    proof (intro set_eqI iffI)
      fix x assume "x \<in> snd ` set t"
      then obtain b where b: "(b, x) \<in> set (dp_devices p)" "b \<noteq> a" using t by auto
      then have "x \<in> ds" "addressIn w x = Some b" using inv by (force simp: picker_inv_def)+
      with b(2) a(1) show "x \<in> ds - {r}" by auto
    next
      fix x assume x: "x \<in> ds - {r}"
      then obtain b where b: "(b, x) \<in> set (dp_devices p)" using inv by (force simp: picker_inv_def)
      with same [OF _ \<open>r \<in> U\<close> a(1)] x have "b \<noteq> a" by auto
      with b t show "x \<in> snd ` set t" by force
    qed
    moreover have "\<forall>(b, q)\<in>set t. addressIn w q = Some b" using inv t by (auto simp: picker_inv_def)
    ultimately show ?thesis
      using wf a PickerLoses by (simp add: picker_inv_def sortDevices_def nsd.wf_upd nsd.wf_del)
  next
    case PickerSorts
    then show ?thesis
      using step inv by (cases "dp_pendingSorts p") (auto simp: picker_inv_def runSort_def shownDevices_def)
  qed (use step inv in \<open>auto simp: picker_inv_def showPicker_def sortDevices_def dismissPicker_def cleanupViews_def shownDevices_def\<close>)
qed

lemma presentAfter_mentioned: "presentAfter e ds \<subseteq> ds \<union> mentioned e"
  by (cases e) auto

lemma pickerRun_inv:
  assumes "picker_inv unnamed w ds p" and "inj_on (addressIn w) U" and "ds \<union> (\<Union>e\<in>set es. mentioned e) \<subseteq> U"
    and "pickerRun unnamed w es p = Inr p'"
  shows "picker_inv unnamed w (fold presentAfter es ds) p'"
  using assms
proof (induction es arbitrary: ds p)
  case (Cons e es)
  obtain p1 where p1: "pickerStep unnamed w e p = Inr p1" "pickerRun unnamed w es p1 = Inr p'"
    using Cons.prems(4) by (auto simp: rbind_Inr_iff)
  have "picker_inv unnamed w (presentAfter e ds) p1"
    using pickerStep_inv [OF Cons.prems(1,2) _ p1(1)] Cons.prems(3) by auto
  moreover have "presentAfter e ds \<union> (\<Union>e\<in>set es. mentioned e) \<subseteq> U"
    using presentAfter_mentioned [of e ds] Cons.prems(3) by auto
  ultimately show ?case using Cons.IH Cons.prems(2) p1(2) by simp
qed simp


definition sample_pickerWorld :: world where
  "sample_pickerWorld = \<lparr>w_sd = (\<lambda>q. sd_new\<lparr>sd_address := Some (show_nat q),
       sd_friendlyName := Some (if q = 1 then ''TV'' else if q = 2 then ''amp'' else ''Box'')\<rparr>),
     w_dev = (\<lambda>r. (fst (cd_init r (\<lambda>_. sd_new)))\<lparr>cd_description := Some r\<rparr>), w_next = 9, w_guid = (\<lambda>_. [])\<rparr>"


text \<open>
  The table is reloaded from the main queue while the list is sorted on another one, so that a row of the table may
  be beyond the end of the list by the time it is chosen, which raises.
\<close>

lemma picker_stale_row_raises:
  "didSelectRow w (length ds) (p\<lparr>dp_generated := Some ds\<rparr>) = Inl NSRangeException"
  by (simp add: didSelectRow_def)

end
