(* ===== verification/SocketListener.thy ===== *)
theory SocketListener
  imports Dispatch "HOL-Library.Word"
begin

text \<open>
  \<open>src/Helpers/SSDPSocketListener\<close>: the datagram socket of the SSDP provider. The system calls are inputs: whether an
  option could be set and the socket bound, and what each \<open>recvfrom\<close> returned.
\<close>

datatype listenerSelector = SelDidReceiveData | SelDidEncounterError

record SSDPSocketListener =
  sl_delegate :: "listenerSelector list option"
  sl_address :: string
  sl_port :: int
  sl_workQueue :: "dispatch_queue option"
  sl_delegateQueue :: "dispatch_queue option"
  sl_socket :: int
  sl_dispatchSource :: bool

definition sl_initWithAddress :: "string \<Rightarrow> int \<Rightarrow> SSDPSocketListener" where
  "sl_initWithAddress address port = \<lparr>sl_delegate = None, sl_address = address, sl_port = port, sl_workQueue = None,
     sl_delegateQueue = None, sl_socket = 0, sl_dispatchSource = False\<rparr>"

definition sl_getWorkQueue :: "dispatch_queue \<Rightarrow> SSDPSocketListener \<Rightarrow> SSDPSocketListener \<times> dispatch_queue" where
  "sl_getWorkQueue globalQueue s = (case sl_workQueue s of
      Some q \<Rightarrow> (s, q)
    | None \<Rightarrow> (s\<lparr>sl_workQueue := Some globalQueue\<rparr>, globalQueue))"

definition sl_getDelegateQueue :: "SSDPSocketListener \<Rightarrow> SSDPSocketListener \<times> dispatch_queue" where
  "sl_getDelegateQueue s = (case sl_delegateQueue s of
      Some q \<Rightarrow> (s, q)
    | None \<Rightarrow> (s\<lparr>sl_delegateQueue := Some main_queue\<rparr>, main_queue))"

record openCalls =
  oc_socket :: int
  oc_membership :: bool
  oc_reuseAddress :: bool
  oc_reusePort :: bool
  oc_bind :: bool

text \<open>\<open>raiseError\<close> has no body left. Membership is asked for unless the address is the wildcard.\<close>

definition sl_open :: "dispatch_queue \<Rightarrow> openCalls \<Rightarrow> SSDPSocketListener \<Rightarrow> SSDPSocketListener" where
  "sl_open globalQueue oc s =
     (if sl_address s \<noteq> ''0.0.0.0'' \<and> \<not> oc_membership oc then s
      else if \<not> oc_reuseAddress oc then s
      else if \<not> oc_reusePort oc then s
      else if \<not> oc_bind oc then s
      else (fst (sl_getWorkQueue globalQueue s))\<lparr>sl_dispatchSource := True, sl_socket := oc_socket oc\<rparr>)"

text \<open>One return of \<open>recvfrom\<close>: the number of bytes or -1, the bytes in the buffer and the sender.\<close>

record received =
  rv_bytes :: int
  rv_data :: string
  rv_from :: string

text \<open>
  The loop of the event handler. Its sum is compared as an unsigned number, so that an error ends it. The result is
  \<open>None\<close> when it waits for more than there is, and otherwise the last return, if there was one.
\<close>

fun recvLoop :: "64 word \<Rightarrow> int \<Rightarrow> received list \<Rightarrow> received option \<Rightarrow> received option option" where
  "recvLoop ready acc rs prev = (if word_of_int acc < ready
     then (case rs of [] \<Rightarrow> None | r # rs' \<Rightarrow> recvLoop ready (acc + rv_bytes r) rs' (Some r)) else Some prev)"

declare recvLoop.simps [simp del]

text \<open>What the delegate is told on its queue.\<close>

definition sl_didReceiveData :: "received \<Rightarrow> SSDPSocketListener \<Rightarrow> SSDPSocketListener \<times> (dispatch_queue \<times> string \<times> string) list" where
  "sl_didReceiveData r s = (case sl_getDelegateQueue s of (s', q) \<Rightarrow>
     (s', case sl_delegate s' of
            None \<Rightarrow> []
          | Some sels \<Rightarrow> if SelDidReceiveData \<in> set sels then [(q, take (nat (rv_bytes r)) (rv_data r), rv_from r)] else []))"

definition sl_readable ::
  "64 word \<Rightarrow> received list \<Rightarrow> SSDPSocketListener \<Rightarrow> (SSDPSocketListener \<times> (dispatch_queue \<times> string \<times> string) list) option" where
  "sl_readable ready rs s =
     (if sl_socket s = 0 \<or> \<not> sl_dispatchSource s then Some (s, [])
      else (case recvLoop ready 0 rs None of
              None \<Rightarrow> None
            | Some None \<Rightarrow> Some (s, [])
            | Some (Some r) \<Rightarrow> Some (if rv_bytes r > 0 then sl_didReceiveData r s else (s, []))))"

text \<open>The socket and the data of each \<open>sendto\<close>; a socket that was never opened is opened first.\<close>

definition sl_sendData ::
  "dispatch_queue \<Rightarrow> openCalls \<Rightarrow> string \<Rightarrow> string \<Rightarrow> nat \<Rightarrow> SSDPSocketListener \<Rightarrow> SSDPSocketListener \<times> (int \<times> string \<times> string \<times> nat)" where
  "sl_sendData globalQueue oc bytes address port s0 =
     (let s = (if sl_socket s0 = 0 then sl_open globalQueue oc s0 else s0) in (s, (sl_socket s, bytes, address, port)))"

definition sl_close :: "SSDPSocketListener \<Rightarrow> SSDPSocketListener" where
  "sl_close s = s\<lparr>sl_dispatchSource := False\<rparr>"

section \<open>Lemmas\<close>

lemma word_of_int_less: "0 \<le> a \<Longrightarrow> a < b \<Longrightarrow> b < 2 ^ 64 \<Longrightarrow> (word_of_int a :: 64 word) < word_of_int b"
  by (simp add: word_less_def uint_word_of_int)

lemma recvLoop_all:
  assumes "\<forall>r\<in>set rs. 0 < rv_bytes r" and "0 \<le> acc" and "acc + sum_list (map rv_bytes rs) < 2 ^ 64" and "rs \<noteq> []"
  shows "recvLoop (word_of_int (acc + sum_list (map rv_bytes rs))) acc rs prev = Some (Some (last rs))"
  using assms
proof (induction rs arbitrary: acc prev)
  case (Cons r rs)
  have rest: "0 \<le> sum_list (map rv_bytes rs)" using Cons.prems(1) by (intro sum_list_nonneg) auto
  have r: "0 < rv_bytes r" using Cons.prems(1) by simp
  have less: "(word_of_int acc :: 64 word) < word_of_int (acc + (rv_bytes r + sum_list (map rv_bytes rs)))"
    using Cons.prems(2,3) rest r by (intro word_of_int_less) simp_all
  show ?case
  proof (cases "rs = []")
    case True
    have "recvLoop (word_of_int (acc + rv_bytes r)) (acc + rv_bytes r) [] (Some r) = Some (Some r)"
      by (subst recvLoop.simps) simp
    then show ?thesis using less True by (subst recvLoop.simps) (simp del: of_int_add)
  next
    case False
    then show ?thesis
      using less r Cons.IH [of "acc + rv_bytes r" "Some r"] Cons.prems(1-3)
      by (subst recvLoop.simps) (simp add: add.assoc del: of_int_add)
  qed
qed simp

text \<open>
  When several datagrams are ready at once, the loop reads all of them into the same buffer and the delegate gets
  only the last one.
\<close>

lemma sl_keeps_only_last_datagram:
  assumes "\<forall>r\<in>set rs. 0 < rv_bytes r" and "sum_list (map rv_bytes rs) < 2 ^ 64" and "rs \<noteq> []"
    and "sl_socket s \<noteq> 0" and "sl_dispatchSource s"
  shows "sl_readable (word_of_int (sum_list (map rv_bytes rs))) rs s = Some (sl_didReceiveData (last rs) s)"
  using recvLoop_all [of rs 0 None] assms by (simp add: sl_readable_def)

text \<open>Closing forgets the source of events but not the number of the socket, so that sending does not open it again.\<close>

lemma sl_send_after_close:
  "sl_socket s \<noteq> 0 \<Longrightarrow> sl_sendData q oc bytes a p (sl_close s) = (sl_close s, (sl_socket s, bytes, a, p))"
  by (simp add: sl_sendData_def sl_close_def)

end
