(* ===== verification/Spec2Isabelle.thy ===== *)
theory Spec2Isabelle
  imports System ServiceMessages WebOSControl WebOSSession NetcastRuns Roku DlnaRuns AirPlayHTTP CastServices DevicePicker SocketListener
begin

text \<open>
  Connect SDK for iOS (core), of \<open>src/\<close>. The library finds the devices of the local network, groups the
  services found at one address into a device, gives an application the capabilities of each device as
  protocols, and remembers devices and their pairing between runs.

  \<^bold>\<open>Parts and theories\<close>

  \<^item> \<open>Prelude\<close>, \<open>Json\<close>: what the components share of Objective-C and Foundation. A reference that may be nil is
    an \<open>option\<close>, a raised exception the left of a sum (\<open>rbind\<close> threads it), a dictionary an association list
    with distinct keys, \<open>NSUInteger\<close> and C integers are words where the code relies on their width.
  \<^item> \<open>Config\<close>: \<open>Services/Config\<close> (descriptions and configurations of services, their JSON coding, the
    observation of configurations). \<open>Util\<close>, \<open>Info\<close>, \<open>Dispatch\<close>: \<open>Helpers\<close> (escaping, errors, deduplicator,
    reachability; value objects; block runners and the application state notifier).
  \<^item> \<open>DeviceService\<close>, \<open>ServiceMessages\<close>: \<open>Services/DeviceService\<close>, \<open>Services/Capabilities\<close> (the capability names),
    \<open>Services/Sessions/LaunchSession\<close>, \<open>Discovery/CapabilityFilter\<close>. What a subclass overrides is a record of
    functions looked up in a class table, the parameter \<open>ct\<close>.
  \<^item> \<open>Commands\<close>: \<open>Services/Commands\<close>. \<open>Protocols\<close>: the messages of every protocol of \<open>Services/Capabilities\<close> and
    the requests a service makes of them.
  \<^item> \<open>ConnectableDevice\<close>, \<open>DeviceStore\<close>, \<open>DevicePicker\<close>: \<open>Devices\<close>. Devices and descriptions are shared objects
    and live in heaps; a device refers to its description by reference, so that the aliasing of the code is kept.
  \<^item> \<open>SSDP\<close>, \<open>ZeroConf\<close>, \<open>SocketListener\<close>: the discovery providers and the datagram socket.
    \<open>DiscoveryManager\<close>, \<open>DeviceLists\<close>: \<open>Discovery/DiscoveryManager\<close>, its operations and its runs.
    \<open>System\<close>: providers, main queue and manager together.
  \<^item> \<open>WebAppSession\<close>: the base class of web app sessions. \<open>WebOSSocket\<close>, \<open>WebOSRequests\<close>, \<open>WebOS\<close>, \<open>WebOSControl\<close>,
    \<open>WebOSSession\<close>: the service for webOS TVs with its socket client, requests, pointer, keyboard, configuration and
    web app sessions.
  \<^item> \<open>HttpTasks\<close>: what a service that talks HTTP does for a message, as a tree of requests and answers. \<open>Netcast\<close>,
    \<open>NetcastRuns\<close>: the service for Netcast TVs, its requests, pairing and runs. \<open>Dial\<close>, \<open>Roku\<close>: the services for DIAL
    receivers and Roku players.
  \<^item> \<open>XmlWriter\<close>: \<open>Frameworks/xswi\<close>, the writer of the documents the services send. \<open>DlnaServer\<close>, \<open>Dlna\<close>,
    \<open>DlnaRuns\<close>: the service for media renderers, the server that takes their events, and the runs of both.
  \<^item> \<open>AirPlayHTTP\<close>: playing media on AirPlay devices by HTTP, with its queues and keep-alive timers.
  \<^item> \<open>CastConnection\<close>, \<open>Casting\<close>, \<open>CastServices\<close>: \<open>Services/Helpers/LGCast\<close>.

  \<^bold>\<open>Conventions\<close>

  State is a record named as the class; an operation takes and returns it, with the list of what it sends to
  delegates, sockets and queues in the order the code does so. Blocks run by \<open>dispatch_on_main\<close> or a queue are
  outputs or entries of a queue in the state, and running one is a step of its own, so that theorems on runs
  quantify over the interleavings. What comes from outside (a datagram, a parsed document, an answer of a TV, the
  time, a result of a system call) is an argument of the step that receives it. Code that is not under \<open>src/\<close>
  (CFNetwork, the XML and JSON parsers, SocketRocket, the LG Cast library, UIKit) appears only as such
  arguments, or as a named parameter: \<open>hostOf\<close> parses a URL, \<open>mirroringApi\<close> and \<open>cameraApi\<close> answer for the library.

  \<^bold>\<open>What the theorems show\<close>

  \<^item> Discovery: device lists and provider tables stay consistent in every interleaving (\<open>System\<close>, \<open>DeviceLists\<close>);
    the search of a device description agrees with its specification (\<open>SSDP\<close>); nothing is found twice.
  \<^item> Devices: services are filed once under their own name, capabilities come from the service with the highest
    priority, JSON round trips, the store's queue writes the last state (\<open>ConnectableDevice\<close>, \<open>DeviceStore\<close>).
  \<^item> Services: the delegate's view of the capabilities is the service's; requests always answer; responses
    reach their command once; subscriptions survive the background; entered keys take effect once and in
    order (\<open>ServiceMessages\<close>, \<open>WebOSRequests\<close>, \<open>WebOSSocket\<close>, \<open>WebOSControl\<close>).
  \<^item> Services that talk HTTP: every message calls one of its two blocks whatever the device answers, within a bound on
    the requests, and a call is answered once (\<open>Dial\<close>, \<open>Roku\<close>, \<open>Dlna\<close>, \<open>NetcastRuns\<close>); text arrives as it was entered; events reach
    the live subscriptions to their path and no other (\<open>DlnaRuns\<close>); what the XML writer writes is the text of a tree
    (\<open>XmlWriter\<close>).
  \<^item> Casting: the handshake connects, every failure stops the session and is reported once.
  \<^item> Lemmas named after what the code does wrong (a late answer, a lost key) state behaviour that is listed
    among the findings.

  \<^bold>\<open>Locales\<close>

  \<open>discovery_provider\<close> (\<open>DiscoveryManager\<close>, interpreted by both providers), \<open>service_classes\<close> and
  \<open>described_classes\<close> (what a device and the manager rely on from the classes of services, interpreted by the
  base class), and those of \<open>Prelude\<close> and \<open>Config\<close> state what one component relies on from another.

  \<^bold>\<open>Bounds and termination\<close>

  There is no fuel. The loops of the code are structural recursions; the search through nested devices and the
  removal loop of a capability have a measure; a datagram loop that waits for ever is the value \<open>None\<close>.
  Message numbers of the web socket wrap at 32 bits, ranges of strings at 64.

  \<^bold>\<open>Not modelled\<close>

  The web app mode of the AirPlay service and its web app session, which drive a web view of UIKit on a second screen; views
  and view controllers; the forwards of the webOS service to the two casting services, which are modelled themselves;
  the frameworks copied into \<open>src/Frameworks\<close>, apart from the XML writer; the test targets.
\<close>

end
